(* ===== verification/Prelude.thy ===== *)
theory Prelude
  imports Complex_Main "HOL-Library.AList" "HOL-Library.Char_ord" "HOL-Library.List_Lexorder"
begin

text \<open>
  Shared ground of the development: the Python values and strings the components exchange,
  dictionaries in insertion order, errors as values, and the facts about them that every
  component theory reuses.

  \<^item> A Python \<open>str\<close> is a \<open>string\<close>; a \<open>char\<close> stands for a code point below 256.
  \<^item> A \<open>dict\<close> whose order the code observes is an association list with distinct keys;
    \<open>AList.update\<close> overwrites in place or appends at the end, as Python's item assignment does.
  \<^item> \<open>pyval\<close> is the \<open>Any\<close> of \<open>dict[str, Any]\<close>: the JSON values. A float is the rational its
    decimal notation shows: arithmetic on it is exact, and infinities and NaN are left out.
  \<^item> A raised exception is the \<open>Inl\<close> of a sum.
  \<^item> An instant (\<open>datetime\<close>, always in UTC) is an \<open>int\<close>, the microseconds since the epoch.
\<close>

section \<open>Errors as values\<close>

datatype pyerr =
    ValueError string
  | TypeError string
  | KeyError string
  | RuntimeError string
  | ScheduleParseError string
  | StateTransitionError string string
  | GatewayError string string   \<comment> \<open>code, message\<close>
  | SkillError string string     \<comment> \<open>code, message\<close>
  | OtherError string

type_synonym 'a res = "pyerr + 'a"

fun bind_res :: "'a res \<Rightarrow> ('a \<Rightarrow> 'b res) \<Rightarrow> 'b res" where
  "bind_res (Inl e) f = Inl e"
| "bind_res (Inr x) f = f x"

lemma bind_res_Inr_iff [simp]:
  "bind_res r f = Inr y \<longleftrightarrow> (\<exists>x. r = Inr x \<and> f x = Inr y)"
  by (cases r) auto

lemma bind_res_split:
  "P (bind_res r f) \<longleftrightarrow> (\<forall>e. r = Inl e \<longrightarrow> P (Inl e)) \<and> (\<forall>x. r = Inr x \<longrightarrow> P (f x))"
  by (cases r) auto

fun map_res :: "('a \<Rightarrow> 'b res) \<Rightarrow> 'a list \<Rightarrow> 'b list res" where
  "map_res f [] = Inr []"
| "map_res f (x # xs) =
     bind_res (f x) (\<lambda>y. bind_res (map_res f xs) (\<lambda>ys. Inr (y # ys)))"

lemma map_res_Inr_length: "map_res f xs = Inr ys \<Longrightarrow> length ys = length xs"
  by (induction xs arbitrary: ys) auto

lemma map_res_Inr_set: "map_res f xs = Inr ys \<Longrightarrow> y \<in> set ys \<Longrightarrow> \<exists>x \<in> set xs. f x = Inr y"
  by (induction xs arbitrary: ys) auto

section \<open>Strings\<close>

definition starts_with :: "string \<Rightarrow> string \<Rightarrow> bool" where
  "starts_with s p \<longleftrightarrow> take (length p) s = p"

definition ends_with :: "string \<Rightarrow> string \<Rightarrow> bool" where
  "ends_with s p \<longleftrightarrow> length p \<le> length s \<and> drop (length s - length p) s = p"

lemma starts_with_append [simp]: "starts_with (p @ s) p"
  by (simp add: starts_with_def)

lemma starts_with_iff: "starts_with s p \<longleftrightarrow> (\<exists>t. s = p @ t)"
  by (metis append_take_drop_id starts_with_append starts_with_def)

lemma ends_with_iff: "ends_with s p \<longleftrightarrow> (\<exists>t. s = t @ p)"
proof
  assume "ends_with s p"
  then have "s = take (length s - length p) s @ p"
    unfolding ends_with_def by (metis append_take_drop_id)
  then show "\<exists>t. s = t @ p" ..
next
  assume "\<exists>t. s = t @ p"
  then show "ends_with s p" by (auto simp: ends_with_def)
qed

text \<open>\<open>str.isspace\<close> on code points below 256.\<close>

definition is_space :: "char \<Rightarrow> bool" where
  "is_space c \<longleftrightarrow> (let n = of_char c :: nat in
     (9 \<le> n \<and> n \<le> 13) \<or> (28 \<le> n \<and> n \<le> 32) \<or> n = 133 \<or> n = 160)"

definition py_strip :: "string \<Rightarrow> string" where
  "py_strip s = rev (dropWhile is_space (rev (dropWhile is_space s)))"

definition stripped :: "string \<Rightarrow> bool" where
  "stripped s \<longleftrightarrow> s = [] \<or> (\<not> is_space (hd s) \<and> \<not> is_space (last s))"

lemma dropWhile_hd: "dropWhile P xs \<noteq> [] \<Longrightarrow> \<not> P (hd (dropWhile P xs))"
  by (induction xs) auto

lemma last_dropWhile: "dropWhile P xs \<noteq> [] \<Longrightarrow> last (dropWhile P xs) = last xs"
  by (induction xs) (auto split: if_splits)

lemma stripped_py_strip [simp]: "stripped (py_strip s)"
proof -
  let ?t = "dropWhile is_space s"
  let ?u = "dropWhile is_space (rev ?t)"
  have "?u \<noteq> [] \<Longrightarrow> \<not> is_space (last ?u)"
    using last_dropWhile[of is_space "rev ?t"] dropWhile_hd[of is_space s]
    by (cases "?t = []") (auto simp: last_rev)
  moreover have "?u \<noteq> [] \<Longrightarrow> \<not> is_space (hd ?u)" by (rule dropWhile_hd)
  ultimately show ?thesis
    by (auto simp: stripped_def py_strip_def hd_rev last_rev)
qed

lemma dropWhile_id: "xs = [] \<or> \<not> P (hd xs) \<Longrightarrow> dropWhile P xs = xs"
  by (cases xs) auto

lemma py_strip_stripped: "stripped s \<Longrightarrow> py_strip s = s"
  by (auto simp: stripped_def py_strip_def dropWhile_id hd_rev)

lemma py_strip_idem [simp]: "py_strip (py_strip s) = py_strip s"
  by (rule py_strip_stripped) simp

lemma set_py_strip: "set (py_strip s) \<subseteq> set s"
  by (auto simp: py_strip_def dest!: set_dropWhileD)

text \<open>\<open>str.lower\<close> on ASCII letters (the letters the code compares with).\<close>

definition lower_char :: "char \<Rightarrow> char" where
  "lower_char c = (let n = of_char c :: nat in if 65 \<le> n \<and> n \<le> 90 then char_of (n + 32) else c)"

definition py_lower :: "string \<Rightarrow> string" where
  "py_lower s = map lower_char s"

text \<open>\<open>s.split(c)\<close> for a one-character separator, \<open>s.split()\<close> and \<open>sep.join\<close>.\<close>

fun split_on :: "char \<Rightarrow> string \<Rightarrow> string list" where
  "split_on c [] = [[]]"
| "split_on c (x # xs) =
     (if x = c then [] # split_on c xs
      else (case split_on c xs of [] \<Rightarrow> [[x]] | w # ws \<Rightarrow> (x # w) # ws))"

fun split_ws_acc :: "string \<Rightarrow> string \<Rightarrow> string list" where
  "split_ws_acc w [] = (if w = [] then [] else [rev w])"
| "split_ws_acc w (x # xs) =
     (if is_space x then (if w = [] then split_ws_acc [] xs else rev w # split_ws_acc [] xs)
      else split_ws_acc (x # w) xs)"

definition split_ws :: "string \<Rightarrow> string list" where
  "split_ws s = split_ws_acc [] s"

fun join :: "string \<Rightarrow> string list \<Rightarrow> string" where
  "join sep [] = []"
| "join sep [w] = w"
| "join sep (w # v # ws) = w @ sep @ join sep (v # ws)"

lemma split_on_nonempty [simp]: "split_on c s \<noteq> []"
  by (cases s) (auto split: list.splits)

lemma split_on_no_sep: "w \<in> set (split_on c s) \<Longrightarrow> c \<notin> set w"
  by (induction c s arbitrary: w rule: split_on.induct)
     (auto split: if_splits list.splits)

lemma split_on_plain: "c \<notin> set w \<Longrightarrow> split_on c w = [w]"
  by (induction w) auto

lemma split_on_append: "c \<notin> set w \<Longrightarrow> split_on c (w @ c # s) = w # split_on c s"
  by (induction w) (auto split: list.splits)

lemma split_on_join:
  "ws \<noteq> [] \<Longrightarrow> \<forall>w \<in> set ws. c \<notin> set w \<Longrightarrow> split_on c (join [c] ws) = ws"
proof (induction ws rule: induct_list012)
  case (3 w v ws)
  then show ?case by (simp add: split_on_append)
qed (auto simp: split_on_plain)

lemma join_split_on: "join [c] (split_on c s) = s"
proof (induction c s rule: split_on.induct)
  case (2 c x xs)
  obtain w ws where w: "split_on c xs = w # ws"
    using split_on_nonempty neq_Nil_conv by metis
  from 2 w have IH: "join [c] (w # ws) = xs" by metis
  show ?case
  proof (cases "x = c")
    case True
    then show ?thesis using w IH by simp
  next
    case False
    then show ?thesis using w IH by (cases ws) simp_all
  qed
qed simp

text \<open>\<open>p in s\<close> for texts.\<close>

fun occurs_in :: "string \<Rightarrow> string \<Rightarrow> bool" where
  "occurs_in p [] = (p = [])"
| "occurs_in p (c # cs) = (starts_with (c # cs) p \<or> occurs_in p cs)"

lemma occurs_in_iff: "occurs_in p s \<longleftrightarrow> (\<exists>a b. s = a @ p @ b)"
proof (induction s)
  case (Cons c cs)
  have "(\<exists>a b. c # cs = a @ p @ b) \<longleftrightarrow> (\<exists>b. c # cs = p @ b) \<or> (\<exists>a b. cs = a @ p @ b)"
    by (metis append_Cons append_Nil list.inject neq_Nil_conv)
  with Cons.IH show ?case by (simp add: starts_with_iff)
qed simp

text \<open>\<open>str.replace\<close> of a text that is not empty.\<close>

fun py_replace :: "string \<Rightarrow> string \<Rightarrow> string \<Rightarrow> string" where
  "py_replace old new [] = []"
| "py_replace old new (c # cs) =
     (if old \<noteq> [] \<and> starts_with (c # cs) old then new @ py_replace old new (drop (length old - 1) cs)
      else c # py_replace old new cs)"

lemma py_replace_absent: "(\<And>p s. text \<noteq> p @ old @ s) \<Longrightarrow> py_replace old new text = text"
proof (induction "text")
  case (Cons c cs)
  have "\<not> starts_with (c # cs) old" using Cons.prems[of Nil] by (auto simp: starts_with_iff)
  moreover have "py_replace old new cs = cs"
  proof (rule Cons.IH)
    fix p s
    show "cs \<noteq> p @ old @ s" using Cons.prems[of "c # p" s] by simp
  qed
  ultimately show ?case by simp
qed simp

text \<open>\<open>\w\<close> of a pattern, on code points below 256, and \<open>[A-Za-z]\<close>.\<close>

definition ascii_letter :: "char \<Rightarrow> bool" where
  "ascii_letter c \<longleftrightarrow> (let n = of_char c :: nat in (65 \<le> n \<and> n \<le> 90) \<or> (97 \<le> n \<and> n \<le> 122))"

definition word_char :: "char \<Rightarrow> bool" where
  "word_char c \<longleftrightarrow>
     (let n = of_char c :: nat
      in ascii_letter c \<or> (48 \<le> n \<and> n \<le> 57) \<or> n = 95
         \<or> n \<in> {170, 178, 179, 181, 185, 186, 188, 189, 190} \<or> (192 \<le> n \<and> n \<noteq> 215 \<and> n \<noteq> 247))"

subsection \<open>Decimal numbers\<close>

definition digit_char :: "nat \<Rightarrow> char" where
  "digit_char n = char_of (48 + n)"

definition digit_val :: "char \<Rightarrow> nat option" where
  "digit_val c = (let n = of_char c :: nat in if 48 \<le> n \<and> n \<le> 57 then Some (n - 48) else None)"

fun nat_str :: "nat \<Rightarrow> string" where
  "nat_str n = (if n < 10 then [digit_char n] else nat_str (n div 10) @ [digit_char (n mod 10)])"

declare nat_str.simps [simp del]

definition int_str :: "int \<Rightarrow> string" where
  "int_str i = (if i < 0 then CHR ''-'' # nat_str (nat (- i)) else nat_str (nat i))"

text \<open>
  \<open>int(s)\<close> for a decimal string: surrounding white space, an optional sign, then digits with
  single underscores between them.
\<close>

fun digits_val :: "nat \<Rightarrow> string \<Rightarrow> nat option" where
  "digits_val acc [] = Some acc"
| "digits_val acc (c # cs) =
     (case digit_val c of
        Some d \<Rightarrow> digits_val (10 * acc + d) cs
      | None \<Rightarrow>
          (if c = CHR ''_'' then
             (case cs of
                [] \<Rightarrow> None
              | d # ds \<Rightarrow> (if digit_val d = None then None else digits_val acc cs))
           else None))"

definition unsigned_val :: "string \<Rightarrow> nat option" where
  "unsigned_val s =
     (case s of [] \<Rightarrow> None | c # cs \<Rightarrow> (if digit_val c = None then None else digits_val 0 s))"

definition py_int_parse :: "string \<Rightarrow> int option" where
  "py_int_parse raw =
     (case py_strip raw of
        [] \<Rightarrow> None
      | c # cs \<Rightarrow>
          (if c = CHR ''-'' then map_option (\<lambda>n. - int n) (unsigned_val cs)
           else if c = CHR ''+'' then map_option int (unsigned_val cs)
           else map_option int (unsigned_val (c # cs))))"

lemma digit_val_digit_char [simp]: "n < 10 \<Longrightarrow> digit_val (digit_char n) = Some n"
  by (simp add: digit_val_def digit_char_def)

lemma nat_str_digits: "c \<in> set (nat_str n) \<Longrightarrow> digit_val c \<noteq> None"
proof (induction n rule: nat_str.induct)
  case (1 n)
  show ?case
  proof (cases "n < 10")
    case True
    with 1 show ?thesis by (simp add: nat_str.simps[of n])
  next
    case False
    with 1 show ?thesis by (auto simp: nat_str.simps[of n])
  qed
qed

lemma nat_str_nonempty [simp]: "nat_str n \<noteq> []"
  by (subst nat_str.simps) simp

lemma digits_val_append:
  "\<forall>c \<in> set xs. digit_val c \<noteq> None \<Longrightarrow>
   digits_val acc (xs @ ys) = (case digits_val acc xs of None \<Rightarrow> None | Some v \<Rightarrow> digits_val v ys)"
  by (induction xs arbitrary: acc) auto

lemma digits_val_nat_str: "digits_val 0 (nat_str n) = Some n"
proof (induction n rule: nat_str.induct)
  case (1 n)
  show ?case
  proof (cases "n < 10")
    case True
    then show ?thesis by (simp add: nat_str.simps[of n])
  next
    case False
    have "digits_val 0 (nat_str (n div 10) @ [digit_char (n mod 10)]) = Some n"
      using 1 False by (subst digits_val_append) (auto dest: nat_str_digits)
    with False show ?thesis by (simp add: nat_str.simps[of n])
  qed
qed

lemma unsigned_val_nat_str [simp]: "unsigned_val (nat_str n) = Some n"
proof (cases "nat_str n")
  case (Cons c cs)
  then obtain d where "digit_val c = Some d" using nat_str_digits[of c n] by auto
  then have "unsigned_val (nat_str n) = digits_val 0 (nat_str n)"
    using Cons by (simp add: unsigned_val_def)
  then show ?thesis by (simp add: digits_val_nat_str)
qed (use nat_str_nonempty[of n] in simp)

lemma digit_not_space: "digit_val c \<noteq> None \<Longrightarrow> \<not> is_space c"
  by (auto simp: digit_val_def is_space_def Let_def split: if_splits)

lemma stripped_nat_str: "stripped (nat_str n)"
  using nat_str_digits[of "hd (nat_str n)" n] nat_str_digits[of "last (nat_str n)" n]
  by (simp add: stripped_def digit_not_space)

lemma py_int_parse_int_str: "py_int_parse (int_str i) = Some i"
proof (cases "i < 0")
  case True
  have "stripped (CHR ''-'' # nat_str (nat (- i)))"
    using stripped_nat_str[of "nat (- i)"] by (auto simp: stripped_def is_space_def)
  then show ?thesis using True
    by (simp add: py_int_parse_def int_str_def py_strip_stripped)
next
  case False
  obtain c cs where c: "nat_str (nat i) = c # cs"
    using nat_str_nonempty neq_Nil_conv by metis
  have "digit_val c \<noteq> None" using nat_str_digits[of c "nat i"] c by simp
  then have "c \<noteq> CHR ''-''" "c \<noteq> CHR ''+''" by (auto simp: digit_val_def)
  then show ?thesis using False stripped_nat_str[of "nat i"] unsigned_val_nat_str[of "nat i"] c
    by (simp add: py_int_parse_def int_str_def py_strip_stripped)
qed

section \<open>Dynamic values\<close>

datatype pyval =
    PNone
  | PBool bool
  | PInt int
  | PFloat rat
  | PStr string
  | PList "pyval list"
  | PDict "(string \<times> pyval) list"

type_synonym pydict = "(string \<times> pyval) list"

fun py_truthy :: "pyval \<Rightarrow> bool" where
  "py_truthy PNone = False"
| "py_truthy (PBool b) = b"
| "py_truthy (PInt i) = (i \<noteq> 0)"
| "py_truthy (PFloat r) = (r \<noteq> 0)"
| "py_truthy (PStr s) = (s \<noteq> [])"
| "py_truthy (PList xs) = (xs \<noteq> [])"
| "py_truthy (PDict d) = (d \<noteq> [])"

text \<open>\<open>a or b\<close>, and \<open>d.get(k, default)\<close> with \<open>None\<close> as the default's default.\<close>

definition py_or :: "pyval \<Rightarrow> pyval \<Rightarrow> pyval" where
  "py_or a b = (if py_truthy a then a else b)"

definition py_get_or :: "pydict \<Rightarrow> string \<Rightarrow> pyval \<Rightarrow> pyval" where
  "py_get_or d k v = (case map_of d k of None \<Rightarrow> v | Some w \<Rightarrow> w)"

abbreviation py_get :: "pydict \<Rightarrow> string \<Rightarrow> pyval" where
  "py_get d k \<equiv> py_get_or d k PNone"

subsection \<open>str() and repr()\<close>

definition hex_char :: "nat \<Rightarrow> char" where
  "hex_char n = (if n < 10 then char_of (48 + n) else char_of (87 + n))"

definition repr_char :: "char \<Rightarrow> char \<Rightarrow> string" where
  "repr_char q c =
     (let n = of_char c :: nat in
      if c = q \<or> c = CHR 0x5C then [CHR 0x5C, c]
      else if n = 10 then [CHR 0x5C, CHR ''n'']
      else if n = 13 then [CHR 0x5C, CHR ''r'']
      else if n = 9 then [CHR 0x5C, CHR ''t'']
      else if n < 32 \<or> (127 \<le> n \<and> n \<le> 160) \<or> n = 173
        then [CHR 0x5C, CHR ''x'', hex_char (n div 16), hex_char (n mod 16)]
      else [c])"

definition repr_str :: "string \<Rightarrow> string" where
  "repr_str s =
     (let q = (if CHR 0x27 \<in> set s \<and> CHR 0x22 \<notin> set s then CHR 0x22 else CHR 0x27)
      in [q] @ concat (map (repr_char q) s) @ [q])"

text \<open>A float in positional notation, with at most 17 digits after the point.\<close>

fun frac_digits :: "nat \<Rightarrow> rat \<Rightarrow> string" where
  "frac_digits 0 f = []"
| "frac_digits (Suc n) f =
     (if f = 0 then []
      else (let d = floor (10 * f) in digit_char (nat d) # frac_digits n (10 * f - of_int d)))"

definition float_str :: "rat \<Rightarrow> string" where
  "float_str r =
     (let a = \<bar>r\<bar>; ds = frac_digits 17 (a - of_int (floor a))
      in (if r < 0 then ''-'' else []) @ int_str (floor a) @ ''.'' @ (if ds = [] then ''0'' else ds))"

fun py_repr :: "pyval \<Rightarrow> string" where
  "py_repr PNone = ''None''"
| "py_repr (PBool b) = (if b then ''True'' else ''False'')"
| "py_repr (PInt i) = int_str i"
| "py_repr (PFloat r) = float_str r"
| "py_repr (PStr s) = repr_str s"
| "py_repr (PList xs) = ''['' @ join '', '' (map py_repr xs) @ '']''"
| "py_repr (PDict d) =
     ''{'' @ join '', '' (map (\<lambda>(k, v). repr_str k @ '': '' @ py_repr v) d) @ ''}''"

fun py_str :: "pyval \<Rightarrow> string" where
  "py_str (PStr s) = s"
| "py_str v = py_repr v"

text \<open>\<open>int(v)\<close>.\<close>

fun py_int :: "pyval \<Rightarrow> int res" where
  "py_int (PBool b) = Inr (if b then 1 else 0)"
| "py_int (PInt i) = Inr i"
| "py_int (PFloat r) = Inr (if r < 0 then - floor (- r) else floor r)"
| "py_int (PStr s) =
     (case py_int_parse s of
        None \<Rightarrow> Inl (ValueError (''invalid literal for int() with base 10: '' @ repr_str s))
      | Some i \<Rightarrow> Inr i)"
| "py_int _ = Inl (TypeError ''int() argument must be a string, a bytes-like object or a real number'')"

text \<open>\<open>float(v)\<close>; the result is \<open>None\<close> where Python raises, and for infinities and NaN.\<close>

definition fraction_val :: "string \<Rightarrow> rat option" where
  "fraction_val s =
     (if s = [] then Some 0
      else map_option (\<lambda>n. of_nat n / 10 ^ length (filter (\<lambda>c. c \<noteq> CHR ''_'') s)) (unsigned_val s))"

definition mantissa_val :: "string \<Rightarrow> rat option" where
  "mantissa_val s =
     (case split_on CHR ''.'' s of
        [w] \<Rightarrow> map_option of_nat (unsigned_val w)
      | [w, f] \<Rightarrow>
          (if w = [] \<and> f = [] then None
           else (case ((if w = [] then Some 0 else unsigned_val w), fraction_val f) of
                   (Some n, Some q) \<Rightarrow> Some (of_nat n + q)
                 | _ \<Rightarrow> None))
      | _ \<Rightarrow> None)"

definition unsigned_float_val :: "string \<Rightarrow> rat option" where
  "unsigned_float_val s =
     (let m = takeWhile (\<lambda>c. c \<noteq> CHR ''e'' \<and> c \<noteq> CHR ''E'') s; r = drop (length m) s in
      case r of
        [] \<Rightarrow> mantissa_val m
      | _ # e \<Rightarrow>
          (if stripped e then
             (case (mantissa_val m, py_int_parse e) of
                (Some v, Some k) \<Rightarrow> Some (if k < 0 then v / 10 ^ nat (- k) else v * 10 ^ nat k)
              | _ \<Rightarrow> None)
           else None))"

definition py_float_parse :: "string \<Rightarrow> rat option" where
  "py_float_parse raw =
     (case py_strip raw of
        [] \<Rightarrow> None
      | c # cs \<Rightarrow>
          (if c = CHR ''-'' then map_option uminus (unsigned_float_val cs)
           else if c = CHR ''+'' then unsigned_float_val cs
           else unsigned_float_val (c # cs)))"

fun py_float :: "pyval \<Rightarrow> rat option" where
  "py_float (PBool b) = Some (if b then 1 else 0)"
| "py_float (PInt i) = Some (of_int i)"
| "py_float (PFloat r) = Some r"
| "py_float (PStr s) = py_float_parse s"
| "py_float _ = None"

text \<open>\<open>dict(v)\<close> of a value that should be a mapping; an empty string or list is the empty dict.\<close>

fun py_dict :: "pyval \<Rightarrow> pydict res" where
  "py_dict (PDict d) = Inr d"
| "py_dict (PStr []) = Inr []"
| "py_dict (PList []) = Inr []"
| "py_dict _ = Inl (TypeError ''cannot convert to dict'')"

section \<open>Dictionaries in insertion order\<close>

abbreviation dget :: "('k \<times> 'v) list \<Rightarrow> 'k \<Rightarrow> 'v option" where
  "dget d k \<equiv> map_of d k"

abbreviation dput :: "'k \<Rightarrow> 'v \<Rightarrow> ('k \<times> 'v) list \<Rightarrow> ('k \<times> 'v) list" where
  "dput \<equiv> AList.update"

abbreviation ddel :: "'k \<Rightarrow> ('k \<times> 'v) list \<Rightarrow> ('k \<times> 'v) list" where
  "ddel \<equiv> AList.delete"

abbreviation dkeys :: "('k \<times> 'v) list \<Rightarrow> 'k list" where
  "dkeys d \<equiv> map fst d"

abbreviation dvals :: "('k \<times> 'v) list \<Rightarrow> 'v list" where
  "dvals d \<equiv> map snd d"

text \<open>\<open>{**a, **b}\<close>, also \<open>a | b\<close> and \<open>a.update(b)\<close>; and \<open>{key(x): val(x) for x in xs}\<close>.\<close>

definition dunion :: "('k \<times> 'v) list \<Rightarrow> ('k \<times> 'v) list \<Rightarrow> ('k \<times> 'v) list" where
  "dunion a b = foldl (\<lambda>d (k, v). dput k v d) a b"

definition dict_of :: "('k \<times> 'v) list \<Rightarrow> ('k \<times> 'v) list" where
  "dict_of xs = dunion [] xs"

lemma dget_dput [simp]: "dget (dput k v d) k' = (if k' = k then Some v else dget d k')"
  by (simp add: update_conv')

lemma dget_ddel [simp]: "dget (ddel k d) k' = (if k' = k then None else dget d k')"
  by (simp add: delete_conv')

lemma dkeys_dput: "dkeys (dput k v d) = (if k \<in> set (dkeys d) then dkeys d else dkeys d @ [k])"
  by (induction d) auto

lemma set_dkeys_dput [simp]: "fst ` set (dput k v d) = insert k (fst ` set d)"
  by (induction d) auto

lemma distinct_dput [simp]: "distinct (dkeys d) \<Longrightarrow> distinct (dkeys (dput k v d))"
  by (simp add: dkeys_dput)

lemma distinct_ddel [simp]: "distinct (dkeys d) \<Longrightarrow> distinct (dkeys (ddel k d))"
  by (rule distinct_delete)

lemma dget_None_iff: "dget d k = None \<longleftrightarrow> k \<notin> fst ` set d"
  by (rule map_of_eq_None_iff)

lemma dget_in_set: "distinct (dkeys d) \<Longrightarrow> (k, v) \<in> set d \<longleftrightarrow> dget d k = Some v"
  by (simp add: map_of_eq_Some_iff)

lemma dvals_iff: "distinct (dkeys d) \<Longrightarrow> v \<in> set (dvals d) \<longleftrightarrow> (\<exists>k. dget d k = Some v)"
  by (force simp: image_iff simp flip: dget_in_set)

lemma dget_dunion: "dget (dunion a b) k = (case dget (rev b) k of None \<Rightarrow> dget a k | Some v \<Rightarrow> Some v)"
  unfolding dunion_def
proof (induction b rule: rev_induct)
  case (snoc x b)
  then show ?case by (cases x) auto
qed simp

lemma distinct_dunion [simp]: "distinct (dkeys a) \<Longrightarrow> distinct (dkeys (dunion a b))"
  unfolding dunion_def by (induction b arbitrary: a) auto

lemma distinct_dict_of [simp]: "distinct (dkeys (dict_of xs))"
  by (simp add: dict_of_def)

lemma dget_dict_of: "dget (dict_of xs) k = dget (rev xs) k"
  by (simp add: dict_of_def dget_dunion split: option.splits)

lemma dget_dict_of_distinct: "distinct (dkeys xs) \<Longrightarrow> dget (dict_of xs) k = dget xs k"
proof (cases "dget xs k")
  case None
  then have "dget (rev xs) k = None" by (simp only: dget_None_iff) simp
  with None show ?thesis by (simp add: dget_dict_of)
next
  case (Some v)
  assume d: "distinct (dkeys xs)"
  with Some have "(k, v) \<in> set (rev xs)" using map_of_SomeD[OF Some] by simp
  moreover from d have "distinct (rev (dkeys xs))" by simp
  then have "distinct (dkeys (rev xs))" by (simp only: rev_map)
  ultimately have "dget (rev xs) k = Some v" using dget_in_set[of "rev xs"] by blast
  with Some show ?thesis by (simp add: dget_dict_of)
qed

section \<open>Lists and sets\<close>

text \<open>\<open>xs[-n:]\<close>: for \<open>n = 0\<close> the slice \<open>xs[-0:]\<close> is the whole list.\<close>

definition last_n :: "nat \<Rightarrow> 'a list \<Rightarrow> 'a list" where
  "last_n n xs = (if n = 0 then xs else drop (length xs - n) xs)"

lemma set_last_n: "set (last_n n xs) \<subseteq> set xs"
  by (auto simp: last_n_def dest: in_set_dropD)

text \<open>The order-preserving removal of duplicates the code writes with a \<open>seen\<close> set.\<close>

fun dedupe_acc :: "'a set \<Rightarrow> 'a list \<Rightarrow> 'a list" where
  "dedupe_acc seen [] = []"
| "dedupe_acc seen (x # xs) =
     (if x \<in> seen then dedupe_acc seen xs else x # dedupe_acc (insert x seen) xs)"

lemma set_dedupe_acc: "set (dedupe_acc seen xs) = set xs - seen"
  by (induction xs arbitrary: seen) auto

lemma distinct_dedupe_acc: "distinct (dedupe_acc seen xs)"
  by (induction xs arbitrary: seen) (auto simp: set_dedupe_acc)

lemma dedupe_acc_distinct: "distinct xs \<Longrightarrow> set xs \<inter> seen = {} \<Longrightarrow> dedupe_acc seen xs = xs"
  by (induction xs arbitrary: seen) auto

text \<open>\<open>list.sort(key=f)\<close> is stable, as \<open>sort_key\<close> is; with \<open>reverse=True\<close> it keeps the
  original order of equal elements too.\<close>

definition sort_key_desc :: "('a \<Rightarrow> 'b::linorder) \<Rightarrow> 'a list \<Rightarrow> 'a list" where
  "sort_key_desc f xs = rev (sort_key f (rev xs))"

lemma set_sort_key_desc [simp]: "set (sort_key_desc f xs) = set xs"
  by (simp add: sort_key_desc_def)

lemma length_sort_key_desc [simp]: "length (sort_key_desc f xs) = length xs"
  by (simp add: sort_key_desc_def)

lemma sorted_sort_key_desc: "sorted_wrt (\<ge>) (map f (sort_key_desc f xs))"
  using sorted_sort_key[of f "rev xs"]
  by (simp add: sort_key_desc_def rev_map [symmetric] sorted_wrt_rev)

lemma sort_key_desc_stable:
  "filter (\<lambda>y. f y = k) (sort_key_desc f xs) = filter (\<lambda>y. f y = k) xs"
  by (simp add: sort_key_desc_def rev_filter [symmetric] sort_key_stable)

section \<open>Instants\<close>

text \<open>
  \<open>timedelta(seconds=x)\<close> rounds to microseconds, half to even; \<open>datetime.isoformat()\<close> of an
  instant in UTC (the civil date of a day number, then the time of day).
\<close>

definition us_per_second :: int where
  "us_per_second = 1000000"

definition us_per_minute :: int where
  "us_per_minute = 60000000"

definition round_half_even :: "rat \<Rightarrow> int" where
  "round_half_even x =
     (let f = floor x; d = x - of_int f in
      if d < 1 / 2 then f else if 1 / 2 < d then f + 1 else if even f then f else f + 1)"

definition timedelta_us :: "rat \<Rightarrow> int" where
  "timedelta_us seconds = round_half_even (seconds * 1000000)"

lemma round_half_even_of_int [simp]: "round_half_even (of_int i) = i"
  by (simp add: round_half_even_def Let_def)

lemma round_half_even_bounds: "floor x \<le> round_half_even x \<and> round_half_even x \<le> floor x + 1"
  by (simp add: round_half_even_def Let_def)

lemma round_half_even_nonneg: "0 \<le> x \<Longrightarrow> 0 \<le> round_half_even x"
  using round_half_even_bounds[of x] by (meson order_trans zero_le_floor)

lemma timedelta_us_nonneg: "0 \<le> s \<Longrightarrow> 0 \<le> timedelta_us s"
  by (simp add: timedelta_us_def round_half_even_nonneg)

definition civil_of_days :: "int \<Rightarrow> int \<times> int \<times> int" where
  "civil_of_days z0 =
     (let z = z0 + 719468; era = z div 146097; doe = z mod 146097;
          yoe = (doe - doe div 1460 + doe div 36524 - doe div 146096) div 365;
          doy = doe - (365 * yoe + yoe div 4 - yoe div 100);
          mp = (5 * doy + 2) div 153;
          d = doy - (153 * mp + 2) div 5 + 1;
          m = (if mp < 10 then mp + 3 else mp - 9)
      in (yoe + era * 400 + (if m \<le> 2 then 1 else 0), m, d))"

definition pad :: "nat \<Rightarrow> int \<Rightarrow> string" where
  "pad n i = (let s = int_str i in replicate (n - length s) (CHR ''0'') @ s)"

definition iso_format :: "int \<Rightarrow> string" where
  "iso_format t =
     (let secs = t div us_per_second; us = t mod us_per_second;
          tod = secs mod 86400; (y, m, d) = civil_of_days (secs div 86400)
      in pad 4 y @ ''-'' @ pad 2 m @ ''-'' @ pad 2 d @ ''T''
         @ pad 2 (tod div 3600) @ '':'' @ pad 2 (tod div 60 mod 60) @ '':'' @ pad 2 (tod mod 60)
         @ (if us = 0 then [] else ''.'' @ pad 6 us) @ ''+00:00'')"

section \<open>Validated models\<close>

text \<open>
  The models of \<open>contracts/common.py\<close> strip their texts and the keys of their dictionaries; a
  required text must not be empty then.
\<close>

definition validation_error :: pyerr where
  "validation_error = OtherError ''ValidationError''"

definition strip_keys :: "pydict \<Rightarrow> pydict" where
  "strip_keys d = dict_of (map (\<lambda>(k, v). (py_strip k, v)) d)"

definition required_text :: "string \<Rightarrow> string res" where
  "required_text s = (if py_strip s = [] then Inl validation_error else Inr (py_strip s))"

section \<open>Effects\<close>

text \<open>
  A procedure that changes a state and may raise: what it has changed before it raises stays changed.
\<close>

type_synonym ('s, 'a) eff = "'s \<Rightarrow> 'a res \<times> 's"

definition give :: "'a \<Rightarrow> ('s, 'a) eff" where
  "give x s = (Inr x, s)"

definition raise_err :: "pyerr \<Rightarrow> ('s, 'a) eff" where
  "raise_err e s = (Inl e, s)"

definition lift_res :: "'a res \<Rightarrow> ('s, 'a) eff" where
  "lift_res r s = (r, s)"

definition change :: "('s \<Rightarrow> 's) \<Rightarrow> ('s, unit) eff" where
  "change f s = (Inr (), f s)"

definition look :: "('s \<Rightarrow> 'a) \<Rightarrow> ('s, 'a) eff" where
  "look f s = (Inr (f s), s)"

definition seq :: "('s, 'a) eff \<Rightarrow> ('a \<Rightarrow> ('s, 'b) eff) \<Rightarrow> ('s, 'b) eff" where
  "seq m f s = (case m s of (Inl e, s') \<Rightarrow> (Inl e, s') | (Inr x, s') \<Rightarrow> f x s')"

text \<open>\<open>for x in xs\<close>, collecting the results.\<close>

fun seq_map :: "('x \<Rightarrow> ('s, 'a) eff) \<Rightarrow> 'x list \<Rightarrow> ('s, 'a list) eff" where
  "seq_map f [] = give []"
| "seq_map f (x # xs) = seq (f x) (\<lambda>y. seq (seq_map f xs) (\<lambda>ys. give (y # ys)))"

named_theorems eff_defs "the basic effects unfolded"

lemmas [eff_defs] = give_def raise_err_def lift_res_def change_def look_def

lemma seq_Inr_iff: "seq m f s = (Inr y, s2) \<longleftrightarrow> (\<exists>x s1. m s = (Inr x, s1) \<and> f x s1 = (Inr y, s2))"
  by (auto simp: seq_def split: prod.splits sum.splits)

lemma seq_Inl_iff:
  "seq m f s = (Inl e, s2) \<longleftrightarrow> m s = (Inl e, s2) \<or> (\<exists>x s1. m s = (Inr x, s1) \<and> f x s1 = (Inl e, s2))"
  by (auto simp: seq_def split: prod.splits sum.splits)

lemma seq_map_rule:
  assumes "seq_map f xs s = (r, s')" and "I s"
    and "\<And>x s r s'. x \<in> set xs \<Longrightarrow> I s \<Longrightarrow> f x s = (r, s') \<Longrightarrow> I s'"
  shows "I s'"
  using assms
proof (induction xs arbitrary: s r)
  case (Cons x xs)
  obtain y s1 where y: "f x s = (y, s1)" by (rule prod.exhaust)
  have i: "I s1" by (rule Cons.prems(3)[OF _ Cons.prems(2) y]) simp
  show ?case
  proof (cases y)
    case (Inl e)
    then show ?thesis using Cons.prems(1) y i by (simp add: seq_def)
  next
    case (Inr v)
    obtain ys where "seq_map f xs s1 = (ys, s')"
      using Cons.prems(1) y Inr by (auto simp: seq_def give_def split: sum.splits prod.splits)
    then show ?thesis using i by (rule Cons.IH) (rule Cons.prems(3), simp_all)
  qed
qed (simp add: give_def)

lemma seq_map_answers:
  assumes "I s" and "\<And>x s. x \<in> set xs \<Longrightarrow> I s \<Longrightarrow> \<exists>y s'. f x s = (Inr y, s') \<and> I s'"
  shows "\<exists>ys s'. seq_map f xs s = (Inr ys, s') \<and> I s'"
  using assms
proof (induction xs arbitrary: s)
  case (Cons x xs)
  obtain y s1 where y: "f x s = (Inr y, s1)" "I s1" using Cons.prems(2)[OF _ Cons.prems(1), of x] by auto
  obtain ys s2 where "seq_map f xs s1 = (Inr ys, s2)" "I s2"
    using Cons.IH[OF y(2)] Cons.prems(2) by fastforce
  then show ?case using y by (simp add: seq_def give_def)
qed (simp add: give_def)

lemma seq_give: "seq m (\<lambda>x. give (f x)) s = (map_sum id f (fst (m s)), snd (m s))"
  by (auto simp: seq_def give_def split: prod.splits sum.splits)

lemma seq_map_length: "seq_map f xs s = (Inr ys, s') \<Longrightarrow> length ys = length xs"
  by (induction xs arbitrary: ys s) (auto simp: seq_Inr_iff give_def)

end
