(* ===== verification/CronSchedule.thy ===== *)
theory CronSchedule
  imports Prelude
begin

text \<open>
  The minimal cron schedules (\<open>cron/schedule.py\<close>): the minute and the hour field of a five-field
  expression, and the next matching minute after an instant. A time zone is the pair of
  functions that \<open>astimezone\<close> computes from the zone's rules, from an instant to wall time and
  from wall time (read with \<open>fold = 0\<close>) to an instant, both in microseconds; the zone data base
  is an argument.
\<close>

section \<open>Definitions\<close>

record zone =
  zo_to_local :: "int \<Rightarrow> int"
  zo_to_utc :: "int \<Rightarrow> int"

type_synonym zone_db = "string \<Rightarrow> zone option"

type_synonym cron_field = "int set option"

definition field_matches :: "cron_field \<Rightarrow> int \<Rightarrow> bool" where
  "field_matches f v \<longleftrightarrow> (case f of None \<Rightarrow> True | Some vs \<Rightarrow> v \<in> vs)"

definition parse_cron_int :: "string \<Rightarrow> int \<Rightarrow> int \<Rightarrow> int res" where
  "parse_cron_int raw minimum maximum =
     (case py_int_parse raw of
        None \<Rightarrow> Inl (ScheduleParseError (''invalid cron field value: '' @ raw))
      | Some v \<Rightarrow>
          (if v < minimum \<or> v > maximum then
             Inl (ScheduleParseError (''cron field value out of range: '' @ raw))
           else Inr v))"

text \<open>\<open>range(minimum, maximum + 1, step)\<close> of a positive step.\<close>

definition py_range :: "int \<Rightarrow> int \<Rightarrow> int \<Rightarrow> int set" where
  "py_range lo hi step = set (filter (\<lambda>v. (v - lo) mod step = 0) [lo..hi - 1])"

definition parse_cron_field :: "string \<Rightarrow> int \<Rightarrow> int \<Rightarrow> cron_field res" where
  "parse_cron_field raw minimum maximum =
     (if raw = ''*'' then Inr None
      else if starts_with raw ''*/'' then
        bind_res (parse_cron_int (drop 2 raw) 1 maximum)
          (\<lambda>step. Inr (Some (py_range minimum (maximum + 1) step)))
      else
        bind_res (map_res (\<lambda>part. parse_cron_int part minimum maximum) (split_on CHR '','' raw))
          (\<lambda>vs. Inr (Some (set vs))))"

definition cron_alias :: "string \<Rightarrow> string" where
  "cron_alias e =
     (if e = ''@hourly'' then ''0 * * * *''
      else if e = ''@daily'' then ''0 0 * * *''
      else if e = ''@weekly'' then ''0 0 * * 0''
      else e)"

definition parse_expression :: "string \<Rightarrow> (cron_field \<times> cron_field) res" where
  "parse_expression expression =
     (case split_ws (cron_alias (py_strip expression)) of
        [m, h, _, _, _] \<Rightarrow>
          bind_res (parse_cron_field m 0 59) (\<lambda>minute.
          bind_res (parse_cron_field h 0 23) (\<lambda>hour. Inr (minute, hour)))
      | _ \<Rightarrow> Inl (ScheduleParseError (''cron expression must have 5 fields: '' @ expression)))"

definition load_timezone :: "zone_db \<Rightarrow> string \<Rightarrow> zone res" where
  "load_timezone db name =
     (case db name of
        None \<Rightarrow> Inl (ScheduleParseError (''unknown timezone: '' @ name))
      | Some z \<Rightarrow> Inr z)"

record cron_schedule =
  cs_expression :: string
  cs_timezone :: string

definition parse_schedule :: "zone_db \<Rightarrow> string \<Rightarrow> string \<Rightarrow> cron_schedule res" where
  "parse_schedule db expression timezone =
     bind_res (load_timezone db timezone) (\<lambda>_.
     bind_res (parse_expression expression) (\<lambda>_.
       Inr \<lparr>cs_expression = expression, cs_timezone = timezone\<rparr>))"

definition wall_minute :: "int \<Rightarrow> int" where
  "wall_minute w = (w div us_per_minute) mod 60"

definition wall_hour :: "int \<Rightarrow> int" where
  "wall_hour w = (w div us_per_minute) div 60 mod 24"

definition wall_matches :: "cron_field \<Rightarrow> cron_field \<Rightarrow> int \<Rightarrow> bool" where
  "wall_matches minute hour w \<longleftrightarrow> field_matches minute (wall_minute w) \<and> field_matches hour (wall_hour w)"

text \<open>\<open>.replace(second=0, microsecond=0) + timedelta(minutes=1)\<close>.\<close>

definition first_candidate :: "int \<Rightarrow> int" where
  "first_candidate w = (w div us_per_minute) * us_per_minute + us_per_minute"

text \<open>The loop over the candidate minutes, at most \<open>fuel\<close> of them.\<close>

fun search_minute :: "cron_field \<Rightarrow> cron_field \<Rightarrow> nat \<Rightarrow> int \<Rightarrow> int option" where
  "search_minute minute hour 0 w = None"
| "search_minute minute hour (Suc fuel) w =
     (if wall_matches minute hour w then Some w
      else search_minute minute hour fuel (w + us_per_minute))"

definition search_bound :: nat where
  "search_bound = 60 * 24 * 366"

definition next_after :: "zone_db \<Rightarrow> cron_schedule \<Rightarrow> int \<Rightarrow> int res" where
  "next_after db s now =
     bind_res (load_timezone db (cs_timezone s)) (\<lambda>z.
     bind_res (parse_expression (cs_expression s)) (\<lambda>(minute, hour).
       case search_minute minute hour search_bound (first_candidate (zo_to_local z now)) of
         None \<Rightarrow> Inl (ScheduleParseError (''cannot find next run for expression: '' @ cs_expression s))
       | Some w \<Rightarrow> Inr (zo_to_utc z w)))"

section \<open>Parsed fields can be matched\<close>

definition field_ok :: "cron_field \<Rightarrow> int \<Rightarrow> bool" where
  "field_ok f hi \<longleftrightarrow> (case f of None \<Rightarrow> True | Some vs \<Rightarrow> vs \<noteq> {} \<and> vs \<subseteq> {0..hi})"

lemma parse_cron_int_range: "parse_cron_int raw lo hi = Inr v \<Longrightarrow> lo \<le> v \<and> v \<le> hi"
  by (auto simp: parse_cron_int_def split: option.splits if_splits)

lemma parse_cron_field_ok:
  assumes "parse_cron_field raw 0 hi = Inr f" "0 \<le> hi"
  shows "field_ok f hi"
proof (cases "raw = ''*''")
  case True
  with assms show ?thesis by (simp add: parse_cron_field_def field_ok_def)
next
  case star: False
  show ?thesis
  proof (cases "starts_with raw ''*/''")
    case True
    with star assms obtain step where "f = Some (py_range 0 (hi + 1) step)"
      by (auto simp: parse_cron_field_def)
    moreover have "0 \<in> py_range 0 (hi + 1) step" using assms(2) by (simp add: py_range_def)
    ultimately show ?thesis by (auto simp: field_ok_def py_range_def)
  next
    case False
    with star assms obtain vs where
      vs: "map_res (\<lambda>part. parse_cron_int part 0 hi) (split_on CHR '','' raw) = Inr vs" "f = Some (set vs)"
      by (auto simp: parse_cron_field_def)
    have "length vs \<noteq> 0" using map_res_Inr_length[OF vs(1)] by simp
    moreover have "v \<in> set vs \<Longrightarrow> v \<in> {0..hi}" for v
      using map_res_Inr_set[OF vs(1)] parse_cron_int_range by fastforce
    ultimately show ?thesis using vs(2) by (auto simp: field_ok_def)
  qed
qed

lemma parse_expression_ok:
  "parse_expression e = Inr (minute, hour) \<Longrightarrow> field_ok minute 59 \<and> field_ok hour 23"
  by (auto simp: parse_expression_def split: list.splits intro: parse_cron_field_ok)

lemma field_ok_value: "field_ok f hi \<Longrightarrow> 0 \<le> hi \<Longrightarrow> \<exists>v. 0 \<le> v \<and> v \<le> hi \<and> field_matches f v"
  by (cases f) (auto simp: field_ok_def field_matches_def)

section \<open>The search\<close>

lemma search_minute_Some:
  "search_minute m h fuel w = Some v \<longleftrightarrow>
     (\<exists>k < fuel. v = w + int k * us_per_minute \<and> wall_matches m h v
        \<and> (\<forall>j < k. \<not> wall_matches m h (w + int j * us_per_minute)))"
proof (induction fuel arbitrary: w)
  case (Suc fuel)
  show ?case
  proof (cases "wall_matches m h w")
    case True
    then show ?thesis by (auto intro: exI[of _ 0] simp: gr0_conv_Suc) (metis gr0I mult_zero_left of_nat_0 add_0_right)
  next
    case False
    have "(\<exists>k < Suc fuel. v = w + int k * us_per_minute \<and> wall_matches m h v
        \<and> (\<forall>j < k. \<not> wall_matches m h (w + int j * us_per_minute)))
      \<longleftrightarrow> (\<exists>k < fuel. v = w + us_per_minute + int k * us_per_minute \<and> wall_matches m h v
        \<and> (\<forall>j < k. \<not> wall_matches m h (w + us_per_minute + int j * us_per_minute)))" (is "?l \<longleftrightarrow> ?r")
    proof
      assume ?l
      then obtain k where k: "k < Suc fuel" "v = w + int k * us_per_minute" "wall_matches m h v"
        "\<forall>j < k. \<not> wall_matches m h (w + int j * us_per_minute)" by blast
      from k(2,3) False obtain k' where k': "k = Suc k'" by (cases k) auto
      have "\<not> wall_matches m h (w + us_per_minute + int j * us_per_minute)" if "j < k'" for j
        using k(4)[rule_format, of "Suc j"] that k' by (simp add: algebra_simps)
      with k k' show ?r by (intro exI[of _ k']) (simp add: algebra_simps)
    next
      assume ?r
      then obtain k where k: "k < fuel" "v = w + us_per_minute + int k * us_per_minute" "wall_matches m h v"
        "\<forall>j < k. \<not> wall_matches m h (w + us_per_minute + int j * us_per_minute)" by blast
      have "\<not> wall_matches m h (w + int j * us_per_minute)" if "j < Suc k" for j
        using k(4) that False by (cases j) (simp_all add: algebra_simps)
      with k show ?l by (intro exI[of _ "Suc k"]) (simp add: algebra_simps)
    qed
    with False Suc show ?thesis by simp
  qed
qed simp

lemma wall_of_minutes:
  "wall_minute (n * us_per_minute) = n mod 60" "wall_hour (n * us_per_minute) = n div 60 mod 24"
  by (simp_all add: wall_minute_def wall_hour_def us_per_minute_def)

text \<open>Within a day every pair of an hour and a minute comes once.\<close>

lemma minute_within_day:
  fixes n :: int
  assumes "0 \<le> m" "m \<le> 59" "0 \<le> h" "h \<le> 23"
  shows "\<exists>k. 0 \<le> k \<and> k < 1440 \<and> (n + k) mod 60 = m \<and> (n + k) div 60 mod 24 = h"
proof -
  define t where "t = h * 60 + m"
  let ?t = t
  let ?k = "(t - n) mod 1440"
  define q where "q = - ((t - n) div 1440)"
  have "(t - n) div 1440 * 1440 + ?k = t - n" by (rule div_mult_mod_eq)
  then have q: "n + ?k = q * 1440 + ?t" unfolding q_def by linarith
  have e: "q * 1440 + ?t = m + (h + q * 24) * 60" unfolding t_def by simp
  have d: "(m + (h + q * 24) * 60) div 60 = h + q * 24" using assms by simp
  have "(q * 1440 + ?t) mod 60 = m" unfolding e mod_mult_self1 using assms by simp
  moreover have "(q * 1440 + ?t) div 60 mod 24 = h" unfolding e d using assms by simp
  ultimately have "(q * 1440 + ?t) mod 60 = m" "(q * 1440 + ?t) div 60 mod 24 = h" by blast+
  then show ?thesis unfolding q[symmetric] by (intro exI[of _ ?k]) simp
qed

lemma search_minute_finds:
  assumes "field_ok minute 59" "field_ok hour 23"
  shows "\<exists>v. search_minute minute hour search_bound (n * us_per_minute) = Some v"
proof -
  obtain m h where m: "0 \<le> m" "m \<le> 59" "field_matches minute m"
    and h: "0 \<le> h" "h \<le> 23" "field_matches hour h"
    using field_ok_value[OF assms(1)] field_ok_value[OF assms(2)] by auto
  obtain k where k: "0 \<le> k" "k < 1440" "(n + k) mod 60 = m" "(n + k) div 60 mod 24 = h"
    using minute_within_day[OF m(1,2) h(1,2)] by blast
  have "wall_matches minute hour ((n + k) * us_per_minute)"
    using k m h by (simp add: wall_matches_def wall_of_minutes)
  then have ex: "wall_matches minute hour (n * us_per_minute + int (nat k) * us_per_minute)"
    using k(1) by (simp add: algebra_simps)
  define j where "j = (LEAST j. wall_matches minute hour (n * us_per_minute + int j * us_per_minute))"
  have "wall_matches minute hour (n * us_per_minute + int j * us_per_minute)"
    unfolding j_def by (rule LeastI) (rule ex)
  moreover have "j \<le> nat k" unfolding j_def by (rule Least_le) (rule ex)
  moreover have "\<not> wall_matches minute hour (n * us_per_minute + int i * us_per_minute)" if "i < j" for i
    using that unfolding j_def by (rule not_less_Least)
  moreover have "nat k < search_bound" using k(1,2) by (simp add: search_bound_def)
  ultimately show ?thesis
    by (intro exI[of _ "n * us_per_minute + int j * us_per_minute"])
      (auto simp: search_minute_Some intro!: exI[of _ j])
qed

lemma us_per_minute_pos: "0 < us_per_minute"
  by (simp add: us_per_minute_def)

lemma first_candidate_minutes: "first_candidate w = (w div us_per_minute + 1) * us_per_minute"
  by (simp add: first_candidate_def algebra_simps)

lemma first_candidate_least:
  "w < first_candidate w"
  "(n :: int) * us_per_minute > w \<longleftrightarrow> first_candidate w \<le> n * us_per_minute"
proof -
  have p: "w mod us_per_minute < us_per_minute" "0 \<le> w mod us_per_minute" by (simp_all add: us_per_minute_def)
  have e: "w = (w div us_per_minute) * us_per_minute + w mod us_per_minute" by simp
  show "w < first_candidate w" unfolding first_candidate_def using e p by linarith
  show "n * us_per_minute > w \<longleftrightarrow> first_candidate w \<le> n * us_per_minute"
  proof
    assume "n * us_per_minute > w"
    then have "w div us_per_minute < n"
      using e p(2) by (smt (verit) mult_right_mono us_per_minute_def)
    then have "w div us_per_minute + 1 \<le> n" by simp
    then show "first_candidate w \<le> n * us_per_minute"
      unfolding first_candidate_minutes by (rule mult_right_mono) (simp add: us_per_minute_def)
  next
    assume "first_candidate w \<le> n * us_per_minute"
    then show "n * us_per_minute > w" using \<open>w < first_candidate w\<close> by linarith
  qed
qed

text \<open>The wall minutes that a parsed schedule selects.\<close>

definition selects :: "cron_schedule \<Rightarrow> int \<Rightarrow> bool" where
  "selects s n \<longleftrightarrow>
     (case parse_expression (cs_expression s) of
        Inl e \<Rightarrow> False
      | Inr (minute, hour) \<Rightarrow> wall_matches minute hour (n * us_per_minute))"

lemma next_after_least:
  assumes "parse_schedule db expression tz = Inr s" and "db tz = Some z"
  shows "\<exists>n. next_after db s now = Inr (zo_to_utc z (n * us_per_minute))
    \<and> selects s n \<and> zo_to_local z now < n * us_per_minute
    \<and> (\<forall>k. selects s k \<and> zo_to_local z now < k * us_per_minute \<longrightarrow> n \<le> k)
    \<and> n * us_per_minute \<le> zo_to_local z now + 1440 * us_per_minute"
proof -
  obtain minute hour where pe: "parse_expression (cs_expression s) = Inr (minute, hour)"
    and s: "cs_timezone s = tz"
    using assms(1) by (auto simp: parse_schedule_def)
  note ok = parse_expression_ok[OF pe]
  let ?w = "zo_to_local z now"
  let ?base = "?w div us_per_minute + 1"
  obtain v where v: "search_minute minute hour search_bound (first_candidate ?w) = Some v"
    using search_minute_finds[of minute hour ?base] ok unfolding first_candidate_minutes by blast
  then obtain k where k: "v = first_candidate ?w + int k * us_per_minute" "wall_matches minute hour v"
    "\<forall>j < k. \<not> wall_matches minute hour (first_candidate ?w + int j * us_per_minute)"
    unfolding search_minute_Some by blast
  let ?n = "?base + int k"
  have vn: "v = ?n * us_per_minute" using k(1) unfolding first_candidate_minutes by (simp add: algebra_simps)
  have sel: "selects s i \<longleftrightarrow> wall_matches minute hour (i * us_per_minute)" for i
    by (simp add: selects_def pe)
  have least: "?n \<le> i" if "selects s i" "?w < i * us_per_minute" for i
  proof (rule ccontr)
    assume "\<not> ?n \<le> i"
    then have lt: "i < ?base + int k" by simp
    have "?base * us_per_minute \<le> i * us_per_minute"
      using that(2) unfolding first_candidate_least(2) first_candidate_minutes .
    then have ge: "?base \<le> i" by (rule mult_right_le_imp_le[OF _ us_per_minute_pos])
    have "nat (i - ?base) < k" using ge lt by linarith
    from k(3)[rule_format, OF this] have "\<not> wall_matches minute hour ((?base + int (nat (i - ?base))) * us_per_minute)"
      unfolding first_candidate_minutes distrib_right .
    moreover have "?base + int (nat (i - ?base)) = i" using ge by linarith
    ultimately have "\<not> wall_matches minute hour (i * us_per_minute)" by metis
    with that(1) sel show False by blast
  qed
  obtain m h where mh: "0 \<le> m" "m \<le> 59" "field_matches minute m" "0 \<le> h" "h \<le> 23" "field_matches hour h"
    using field_ok_value[of minute 59] field_ok_value[of hour 23] ok by auto
  obtain d where d: "0 \<le> d" "d < 1440" "(?base + d) mod 60 = m" "(?base + d) div 60 mod 24 = h"
    using minute_within_day[OF mh(1,2,4,5)] by blast
  have "selects s (?base + d)" using d mh by (simp add: sel wall_matches_def wall_of_minutes)
  moreover have "?w < (?base + d) * us_per_minute"
    unfolding first_candidate_least(2) first_candidate_minutes using d(1)
    by (simp add: us_per_minute_def)
  ultimately have "?n \<le> ?base + d" by (rule least)
  then have "?n \<le> ?w div us_per_minute + 1440" using d(2) by linarith
  then have "?n * us_per_minute \<le> (?w div us_per_minute + 1440) * us_per_minute"
    by (rule mult_right_mono) (simp add: us_per_minute_def)
  also have "\<dots> \<le> ?w + 1440 * us_per_minute" by (simp add: us_per_minute_def)
  finally have bound: "?n * us_per_minute \<le> ?w + 1440 * us_per_minute" .
  have "?w < ?n * us_per_minute"
    unfolding first_candidate_least(2) first_candidate_minutes by (simp add: us_per_minute_def)
  moreover have "selects s ?n" using k(2) sel vn by simp
  moreover have "next_after db s now = Inr (zo_to_utc z (?n * us_per_minute))"
    using assms(2) s pe v vn by (simp add: next_after_def load_timezone_def)
  ultimately show ?thesis using least bound by blast
qed

section \<open>Properties of schedules\<close>

text \<open>
  C29: A schedule that parses in a known zone always has a next run: the search of
  \<open>next_after\<close> finds, within a day of wall time, the least wall minute after now whose minute and
  hour the fields allow, and returns its instant. The error \<open>cannot find next run\<close> is never raised.
\<close>
theorem next_after_is_next:
  assumes "parse_schedule db expression tz = Inr s" and "db tz = Some z"
  shows "\<exists>n. next_after db s now = Inr (zo_to_utc z (n * us_per_minute))
    \<and> selects s n \<and> zo_to_local z now < n * us_per_minute
    \<and> (\<forall>k. selects s k \<and> zo_to_local z now < k * us_per_minute \<longrightarrow> n \<le> k)
    \<and> n * us_per_minute \<le> zo_to_local z now + 1440 * us_per_minute"
  using assms by (rule next_after_least)

definition utc_zone :: zone where
  "utc_zone = \<lparr>zo_to_local = id, zo_to_utc = id\<rparr>"

definition utc_only :: zone_db where
  "utc_only name = (if name = ''UTC'' then Some utc_zone else None)"

lemma next_after_utc_later:
  assumes "db (cs_timezone s) = Some utc_zone" "next_after db s now = Inr t"
  shows "now < t"
proof -
  have "\<exists>p. parse_expression (cs_expression s) = Inr p"
    using assms by (auto simp: next_after_def load_timezone_def)
  then have "parse_schedule db (cs_expression s) (cs_timezone s) = Inr s"
    using assms(1) by (auto simp: parse_schedule_def load_timezone_def)
  from next_after_least[OF this assms(1), of now] assms(2) show ?thesis
    by (auto simp: utc_zone_def)
qed

theorem next_after_is_next_witness:
  "parse_schedule utc_only ''*/15 6,18 * * *'' ''UTC'' = Inr \<lparr>cs_expression = ''*/15 6,18 * * *'', cs_timezone = ''UTC''\<rparr>
   \<and> (\<exists>n. next_after utc_only \<lparr>cs_expression = ''*/15 6,18 * * *'', cs_timezone = ''UTC''\<rparr> 0 = Inr (n * us_per_minute))"
proof -
  let ?s = "\<lparr>cs_expression = ''*/15 6,18 * * *'', cs_timezone = ''UTC''\<rparr>"
  have p: "parse_schedule utc_only ''*/15 6,18 * * *'' ''UTC'' = Inr ?s" by code_simp
  have z: "utc_only ''UTC'' = Some utc_zone" by (simp add: utc_only_def)
  from next_after_is_next[OF p z, of 0] p show ?thesis by (auto simp: utc_zone_def)
qed

text \<open>
  The alias \<open>@weekly\<close> runs every day: its day-of-week field, like the day and month fields of
  every expression, is never read.
\<close>
theorem weekly_runs_daily:
  "next_after db \<lparr>cs_expression = ''@weekly'', cs_timezone = tz\<rparr> now
   = next_after db \<lparr>cs_expression = ''@daily'', cs_timezone = tz\<rparr> now"
proof -
  have "parse_expression ''@weekly'' = parse_expression ''@daily''" by code_simp
  moreover have "parse_expression ''@daily'' = Inr (Some {0}, Some {0})" by code_simp
  moreover obtain f where "search_minute (Some {0}) (Some {0}) search_bound (first_candidate w) = Some (f w)" for w
  proof -
    have "\<forall>w. \<exists>v. search_minute (Some {0}) (Some {0}) search_bound (first_candidate w) = Some v"
      using search_minute_finds[of "Some {0}" "Some {0}"]
      unfolding first_candidate_minutes by (auto simp: field_ok_def)
    then show ?thesis using that by metis
  qed
  ultimately show ?thesis
    by (simp add: next_after_def load_timezone_def split: option.splits)
qed

text \<open>A zone that leaves summer time at the epoch: the wall hour from 1 to 2 comes twice.\<close>

definition autumn_zone :: zone where
  "autumn_zone = \<lparr>zo_to_local = (\<lambda>t. if t < 0 then t + 120 * us_per_minute else t + 60 * us_per_minute),
     zo_to_utc = (\<lambda>w. if w < 120 * us_per_minute then w - 120 * us_per_minute else w - 60 * us_per_minute)\<rparr>"

text \<open>
  In the repeated hour at the end of summer time the next run of an every-minute schedule is
  in the past: half an hour into the second pass the next run is 59 minutes before now, since the
  candidate minute is read with \<open>fold = 0\<close>, as the first pass.
\<close>
theorem repeated_hour_next_run_in_past:
  "next_after (\<lambda>_. Some autumn_zone) \<lparr>cs_expression = ''* * * * *'', cs_timezone = ''Europe/Athens''\<rparr>
     (30 * us_per_minute) = Inr (- 29 * us_per_minute)"
proof -
  have "parse_expression ''* * * * *'' = Inr (None, None)" by code_simp
  moreover have "search_minute None None search_bound w = Some w" for w
  proof -
    have "search_bound = Suc 527039" by (simp add: search_bound_def)
    then show ?thesis using search_minute.simps(2)[of None None 527039 w]
      by (simp add: wall_matches_def field_matches_def)
  qed
  moreover have "first_candidate (30 * us_per_minute + 60 * us_per_minute) = 91 * us_per_minute"
    by (simp add: first_candidate_def us_per_minute_def)
  ultimately show ?thesis
    by (simp add: next_after_def load_timezone_def autumn_zone_def us_per_minute_def)
qed

end
