(* ===== verification/Contracts.thy ===== *)
theory Contracts
  imports Prelude
begin

text \<open>
  The data contracts (\<open>rootseeker/contracts/*.py\<close>) and the two frozen status machines
  (\<open>contracts/state_machine.py\<close>). A pydantic model is a record with the model's fields; its
  \<open>Field\<close> constraints are the \<open>valid_...\<close> predicate next to it (\<open>valid_...\<close> false means that
  constructing the model raises \<open>ValidationError\<close>). An enum is a datatype with a function to the
  string value the code stores. Creation time stamps that no modelled operation reads
  (\<open>requested_at\<close>, \<open>finished_at\<close>, \<open>collected_at\<close>, \<open>generated_at\<close>, \<open>occurred_at\<close>, and the
  \<open>updated_at\<close> of a task) are left out.
\<close>

section \<open>Cases (contracts/case.py)\<close>

datatype case_status =
  Case_PENDING | Case_PLANNED | Case_RUNNING | Case_WAITING_APPROVAL | Case_COMPLETED | Case_FAILED

fun case_status_value :: "case_status \<Rightarrow> string" where
  "case_status_value Case_PENDING = ''pending''"
| "case_status_value Case_PLANNED = ''planned''"
| "case_status_value Case_RUNNING = ''running''"
| "case_status_value Case_WAITING_APPROVAL = ''waiting_approval''"
| "case_status_value Case_COMPLETED = ''completed''"
| "case_status_value Case_FAILED = ''failed''"

datatype step_status = Step_PENDING | Step_RUNNING | Step_COMPLETED | Step_FAILED | Step_SKIPPED

fun step_status_value :: "step_status \<Rightarrow> string" where
  "step_status_value Step_PENDING = ''pending''"
| "step_status_value Step_RUNNING = ''running''"
| "step_status_value Step_COMPLETED = ''completed''"
| "step_status_value Step_FAILED = ''failed''"
| "step_status_value Step_SKIPPED = ''skipped''"

record case_create_request =
  cq_title :: string
  cq_symptom :: string
  cq_service_name :: string
  cq_source :: string
  cq_metadata :: pydict

definition valid_case_create_request :: "case_create_request \<Rightarrow> bool" where
  "valid_case_create_request r \<longleftrightarrow>
     cq_title r \<noteq> [] \<and> cq_symptom r \<noteq> [] \<and> cq_service_name r \<noteq> [] \<and> cq_source r \<noteq> []"

record case_step =
  st_step_id :: string
  st_name :: string
  st_skill_name :: string
  st_action :: string
  st_status :: step_status
  st_tool_name :: "string option"
  st_inputs :: pydict
  st_outputs :: pydict
  st_requires_approval :: bool

definition valid_case_step :: "case_step \<Rightarrow> bool" where
  "valid_case_step s \<longleftrightarrow>
     st_step_id s \<noteq> [] \<and> st_name s \<noteq> [] \<and> st_skill_name s \<noteq> [] \<and> st_action s \<noteq> []"

record case_record =
  cr_case_id :: string
  cr_title :: string
  cr_symptom :: string
  cr_service_name :: string
  cr_source :: string
  cr_status :: case_status
  cr_selected_skills :: "string list"
  cr_steps :: "case_step list"
  cr_metadata :: pydict
  cr_created_at :: int
  cr_updated_at :: int

section \<open>Tools (contracts/tool.py)\<close>

datatype tool_permission_level = Perm_READ | Perm_WRITE | Perm_ADMIN

fun permission_value :: "tool_permission_level \<Rightarrow> string" where
  "permission_value Perm_READ = ''read''"
| "permission_value Perm_WRITE = ''write''"
| "permission_value Perm_ADMIN = ''admin''"

datatype tool_scope = Scope_INTERNAL | Scope_EXTERNAL

record tool_spec =
  ts_name :: string
  ts_description :: string
  ts_permission_level :: tool_permission_level
  ts_scope :: tool_scope
  ts_parameters_schema :: pydict
  ts_server_name :: string
  ts_tags :: "string list"

record tool_call_request =
  rq_case_id :: string
  rq_step_id :: string
  rq_skill_name :: string
  rq_tool_name :: string
  rq_arguments :: pydict

definition valid_tool_call_request :: "tool_call_request \<Rightarrow> bool" where
  "valid_tool_call_request r \<longleftrightarrow>
     rq_case_id r \<noteq> [] \<and> rq_step_id r \<noteq> [] \<and> rq_skill_name r \<noteq> [] \<and> rq_tool_name r \<noteq> []"

record tool_error =
  te_code :: string
  te_message :: string
  te_details :: pydict
  te_retryable :: bool

record tool_call_result =
  tr_ok :: bool
  tr_tool_name :: string
  tr_content :: pydict
  tr_error :: "tool_error option"
  tr_latency_ms :: nat

section \<open>Evidence and reports (contracts/evidence.py, contracts/report.py)\<close>

datatype evidence_type =
  Ev_LOG | Ev_TRACE | Ev_CODE | Ev_METRIC | Ev_TOPOLOGY | Ev_SERVICE_CATALOG | Ev_OTHER

fun evidence_type_value :: "evidence_type \<Rightarrow> string" where
  "evidence_type_value Ev_LOG = ''log''"
| "evidence_type_value Ev_TRACE = ''trace''"
| "evidence_type_value Ev_CODE = ''code''"
| "evidence_type_value Ev_METRIC = ''metric''"
| "evidence_type_value Ev_TOPOLOGY = ''topology''"
| "evidence_type_value Ev_SERVICE_CATALOG = ''service_catalog''"
| "evidence_type_value Ev_OTHER = ''other''"

record evidence_item =
  ei_item_id :: string
  ei_type :: evidence_type
  ei_source :: string
  ei_content :: pydict

record evidence_pack =
  ep_case_id :: string
  ep_items :: "evidence_item list"
  ep_summary :: string

record root_cause_conclusion =
  rc_title :: string
  rc_narrative :: string
  rc_confidence :: rat
  rc_contributing_factors :: "string list"

definition valid_root_cause_conclusion :: "root_cause_conclusion \<Rightarrow> bool" where
  "valid_root_cause_conclusion r \<longleftrightarrow> rc_title r \<noteq> [] \<and> 0 \<le> rc_confidence r \<and> rc_confidence r \<le> 1"

record case_report =
  cp_case_id :: string
  cp_title :: string
  cp_summary :: string
  cp_root_cause :: "root_cause_conclusion option"
  cp_evidence_item_ids :: "string list"
  cp_metadata :: pydict

section \<open>Audit events (contracts/audit.py)\<close>

datatype audit_category = Aud_TOOL_CALL | Aud_APPROVAL | Aud_STATE_CHANGE | Aud_SECURITY | Aud_SYSTEM

record audit_event =
  ae_event_id :: string
  ae_category :: audit_category
  ae_action :: string
  ae_actor :: string
  ae_target :: string
  ae_trace_id :: "string option"
  ae_request_id :: "string option"
  ae_detail :: pydict

section \<open>Tasks (contracts/task.py)\<close>

datatype task_kind = Task_CASE_RUN | Task_CRON | Task_REPLAY

datatype task_status =
  Task_PENDING | Task_RUNNING | Task_COMPLETED | Task_FAILED | Task_CANCELLED

record task_record =
  tk_task_id :: string
  tk_kind :: task_kind
  tk_case_id :: "string option"
  tk_flow_id :: "string option"
  tk_skill_slug :: "string option"
  tk_status :: task_status
  tk_payload :: pydict
  tk_result_ref :: "string option"
  tk_error :: "pydict option"
  tk_created_at :: int

section \<open>Skills (contracts/skill.py)\<close>

datatype skill_source_kind = Src_BUILTIN | Src_CUSTOM | Src_GENERATED | Src_EXTERNAL

datatype skill_kind = Kind_FLOW | Kind_TOOL | Kind_TOOL_GROUP

record skill_condition =
  sc_field :: string
  sc_operator :: string
  sc_value :: pyval

record skill_step_definition =
  sd_step_id :: string
  sd_name :: string
  sd_action :: string
  sd_description :: string
  sd_tool_skill_slug :: string
  sd_defer_until :: "string option"
  sd_requires_tools :: "string list"
  sd_conditions :: "skill_condition list"
  sd_skip_if :: "skill_condition list"
  sd_metadata :: pydict

record skill_spec =
  ss_name :: string
  ss_slug :: string
  ss_description :: string
  ss_skill_kind :: skill_kind
  ss_bound_tools :: "string list"
  ss_tags :: "string list"
  ss_triggers :: "string list"
  ss_required_tools :: "string list"
  ss_steps :: "skill_step_definition list"
  ss_source_kind :: skill_source_kind
  ss_version :: string
  ss_metadata :: pydict

section \<open>Status order\<close>

text \<open>
  The error messages list statuses by \<open>sorted(s.value for s in allowed)\<close>; the statuses are
  ordered by their values, so that the library's \<open>sorted_list_of_set\<close> is that expression.
\<close>

lemma case_status_value_inject [simp]:
  "case_status_value a = case_status_value b \<longleftrightarrow> a = b"
  by (cases a; cases b) simp_all

lemma step_status_value_inject [simp]:
  "step_status_value a = step_status_value b \<longleftrightarrow> a = b"
  by (cases a; cases b) simp_all

instantiation case_status :: linorder
begin

definition less_eq_case_status :: "case_status \<Rightarrow> case_status \<Rightarrow> bool" where
  "less_eq_case_status a b \<longleftrightarrow> case_status_value a \<le> case_status_value b"

definition less_case_status :: "case_status \<Rightarrow> case_status \<Rightarrow> bool" where
  "less_case_status a b \<longleftrightarrow> case_status_value a < case_status_value b"

instance
  by standard (auto simp: less_eq_case_status_def less_case_status_def order.strict_iff_order)

end

instantiation step_status :: linorder
begin

definition less_eq_step_status :: "step_status \<Rightarrow> step_status \<Rightarrow> bool" where
  "less_eq_step_status a b \<longleftrightarrow> step_status_value a \<le> step_status_value b"

definition less_step_status :: "step_status \<Rightarrow> step_status \<Rightarrow> bool" where
  "less_step_status a b \<longleftrightarrow> step_status_value a < step_status_value b"

instance
  by standard (auto simp: less_eq_step_status_def less_step_status_def order.strict_iff_order)

end

section \<open>The status machines (contracts/state_machine.py)\<close>

fun allowed_case_transitions :: "case_status \<Rightarrow> case_status set" where
  "allowed_case_transitions Case_PENDING = {Case_PLANNED, Case_FAILED}"
| "allowed_case_transitions Case_PLANNED = {Case_RUNNING, Case_FAILED}"
| "allowed_case_transitions Case_RUNNING = {Case_WAITING_APPROVAL, Case_COMPLETED, Case_FAILED}"
| "allowed_case_transitions Case_WAITING_APPROVAL = {Case_RUNNING, Case_COMPLETED, Case_FAILED}"
| "allowed_case_transitions Case_COMPLETED = {}"
| "allowed_case_transitions Case_FAILED = {}"

fun allowed_step_transitions :: "step_status \<Rightarrow> step_status set" where
  "allowed_step_transitions Step_PENDING = {Step_RUNNING, Step_SKIPPED, Step_FAILED}"
| "allowed_step_transitions Step_RUNNING = {Step_COMPLETED, Step_FAILED}"
| "allowed_step_transitions Step_COMPLETED = {}"
| "allowed_step_transitions Step_FAILED = {}"
| "allowed_step_transitions Step_SKIPPED = {}"

text \<open>The error carries the two status values; its message also lists the allowed ones.\<close>

definition case_transition_message :: "case_status \<Rightarrow> case_status \<Rightarrow> string" where
  "case_transition_message current new =
     ''Illegal Case transition: '' @ case_status_value current @ '' -> '' @ case_status_value new
     @ ''. Allowed: ''
     @ py_repr (PList (map (\<lambda>s. PStr (case_status_value s))
         (sorted_list_of_set (allowed_case_transitions current))))"

definition validate_case_transition :: "case_status \<Rightarrow> case_status \<Rightarrow> unit res" where
  "validate_case_transition current new =
     (if new \<notin> allowed_case_transitions current
      then Inl (StateTransitionError ''case'' (case_transition_message current new))
      else Inr ())"

definition step_transition_message :: "step_status \<Rightarrow> step_status \<Rightarrow> string" where
  "step_transition_message current new =
     ''Illegal Step transition: '' @ step_status_value current @ '' -> '' @ step_status_value new
     @ ''. Allowed: ''
     @ py_repr (PList (map (\<lambda>s. PStr (step_status_value s))
         (sorted_list_of_set (allowed_step_transitions current))))"

definition validate_step_transition :: "step_status \<Rightarrow> step_status \<Rightarrow> unit res" where
  "validate_step_transition current new =
     (if new \<notin> allowed_step_transitions current
      then Inl (StateTransitionError ''step'' (step_transition_message current new))
      else Inr ())"

lemma validate_case_ok_iff [simp]:
  "validate_case_transition a b = Inr u \<longleftrightarrow> b \<in> allowed_case_transitions a"
  by (auto simp: validate_case_transition_def)

lemma validate_step_ok_iff [simp]:
  "validate_step_transition a b = Inr u \<longleftrightarrow> b \<in> allowed_step_transitions a"
  by (auto simp: validate_step_transition_def)

subsection \<open>What a status machine promises\<close>

text \<open>
  A machine with a start status, a goal status and a gate that every run to the goal must pass:
  the statuses in \<open>early\<close> are those a run can be in before it has passed the gate.
\<close>

locale status_machine =
  fixes allowed :: "'s \<Rightarrow> 's set"
    and start goal gate failed :: 's
    and early :: "'s set"
  assumes start_early: "start \<in> early"
    and goal_late: "goal \<notin> early"
    and early_closed: "s \<in> early \<Longrightarrow> t \<in> allowed s \<Longrightarrow> t = gate \<or> t \<in> early"
    and can_fail: "allowed s \<noteq> {} \<Longrightarrow> failed \<in> allowed s"
    and goal_final: "allowed goal = {}"
    and failed_final: "allowed failed = {}"
begin

inductive walk :: "'s \<Rightarrow> 's list \<Rightarrow> 's \<Rightarrow> bool" where
  stay: "walk s [] s"
| move: "t \<in> allowed s \<Longrightarrow> walk t ts u \<Longrightarrow> walk s (t # ts) u"

inductive_cases walk_NilE [elim!]: "walk s [] u"
inductive_cases walk_ConsE [elim!]: "walk s (t # ts) u"

lemma walk_early: "walk s ts u \<Longrightarrow> s \<in> early \<Longrightarrow> gate \<in> set ts \<or> u \<in> early"
  by (induction rule: walk.induct) (auto dest: early_closed)

lemma goal_needs_gate: "walk start ts goal \<Longrightarrow> gate \<in> set ts"
  using walk_early start_early goal_late by blast

lemma final_walk: "walk s ts u \<Longrightarrow> allowed s = {} \<Longrightarrow> ts = [] \<and> u = s"
  by (induction rule: walk.induct) auto

lemma no_revival: "walk goal ts u \<Longrightarrow> u = goal" "walk failed ts u \<Longrightarrow> u = failed"
  using final_walk goal_final failed_final by blast+

end

interpretation case_machine: status_machine allowed_case_transitions
  Case_PENDING Case_COMPLETED Case_RUNNING Case_FAILED "{Case_PENDING, Case_PLANNED, Case_FAILED}"
proof unfold_locales
  fix s t assume "s \<in> {Case_PENDING, Case_PLANNED, Case_FAILED}" "t \<in> allowed_case_transitions s"
  then show "t = Case_RUNNING \<or> t \<in> {Case_PENDING, Case_PLANNED, Case_FAILED}" by auto
next
  fix s show "allowed_case_transitions s \<noteq> {} \<Longrightarrow> Case_FAILED \<in> allowed_case_transitions s"
    by (cases s) auto
qed auto

interpretation step_machine: status_machine allowed_step_transitions
  Step_PENDING Step_COMPLETED Step_RUNNING Step_FAILED "{Step_PENDING, Step_SKIPPED, Step_FAILED}"
proof unfold_locales
  fix s t assume "s \<in> {Step_PENDING, Step_SKIPPED, Step_FAILED}" "t \<in> allowed_step_transitions s"
  then show "t = Step_RUNNING \<or> t \<in> {Step_PENDING, Step_SKIPPED, Step_FAILED}" by auto
next
  fix s show "allowed_step_transitions s \<noteq> {} \<Longrightarrow> Step_FAILED \<in> allowed_step_transitions s"
    by (cases s) auto
qed auto

text \<open>
  A run of the case machine over the model's own operation: every status of \<open>ts\<close> is checked
  with \<open>validate_case_transition\<close> against the one before it.
\<close>

fun validated_case_run :: "case_status \<Rightarrow> case_status list \<Rightarrow> case_status res" where
  "validated_case_run s [] = Inr s"
| "validated_case_run s (t # ts) =
     bind_res (validate_case_transition s t) (\<lambda>_. validated_case_run t ts)"

lemma validated_case_run_walk:
  "validated_case_run s ts = Inr u \<Longrightarrow> case_machine.walk s ts u"
  by (induction ts arbitrary: s) (auto intro: case_machine.walk.intros)

end
