(* ===== verification/Stores.thy ===== *)
theory Stores
  imports Contracts
begin

text \<open>
  The in-memory stores: cases, evidence packs and reports (\<open>storage/memory.py\<close>), the audit log
  (\<open>observability/audit.py\<close>), tasks and their queue (\<open>task_runtime/task_store.py\<close>,
  \<open>task_queue.py\<close>) and flow checkpoints (\<open>flow_runtime/checkpoint.py\<close>). Each dictionary is an
  association list in insertion order. What all stores keyed by a field of their values promise
  is the locale \<open>keyed_store\<close>; every store below is an interpretation of it.
\<close>

section \<open>The interface of a keyed store\<close>

locale keyed_store =
  fixes key :: "'v \<Rightarrow> string"
    and put :: "'v \<Rightarrow> 's \<Rightarrow> 's"
    and get :: "'s \<Rightarrow> string \<Rightarrow> 'v option"
    and items :: "'s \<Rightarrow> 'v list"
    and inv :: "'s \<Rightarrow> bool"
  assumes get_put: "inv s \<Longrightarrow> get (put v s) k = (if k = key v then Some v else get s k)"
    and inv_put: "inv s \<Longrightarrow> inv (put v s)"
    and items_get: "inv s \<Longrightarrow> v \<in> set (items s) \<longleftrightarrow> get s (key v) = Some v"
    and get_key: "inv s \<Longrightarrow> get s k = Some v \<Longrightarrow> key v = k"
    and distinct_items: "inv s \<Longrightarrow> distinct (map key (items s))"
begin

lemma set_items_put:
  "inv s \<Longrightarrow> set (items (put v s)) = insert v {w \<in> set (items s). key w \<noteq> key v}"
  by (auto simp: items_get get_put inv_put split: if_splits)

lemma get_iff: "inv s \<Longrightarrow> get s k = Some v \<longleftrightarrow> v \<in> set (items s) \<and> key v = k"
  using get_key items_get by blast

lemma length_items: "inv s \<Longrightarrow> length (items s) = card (key ` set (items s))"
  using distinct_items by (metis distinct_card length_map set_map)

lemma keys_put: "inv s \<Longrightarrow> key ` set (items (put v s)) = insert (key v) (key ` set (items s))"
  by (auto simp: set_items_put)

lemma count_put:
  assumes "inv s"
  shows "length (items (put v s)) = (if get s (key v) = None then Suc (length (items s)) else length (items s))"
proof -
  have mem: "key v \<in> key ` set (items s) \<longleftrightarrow> get s (key v) \<noteq> None"
    by (auto simp: image_iff get_iff[OF assms] intro: sym)
  have "length (items (put v s)) = card (insert (key v) (key ` set (items s)))"
    using assms by (simp add: length_items inv_put keys_put)
  then show ?thesis using mem assms by (auto simp: length_items card_insert_if)
qed

lemma inv_fold_put: "inv s \<Longrightarrow> inv (fold put vs s)"
  by (induction vs arbitrary: s) (auto simp: inv_put)

lemma get_fold_put_other: "inv s \<Longrightarrow> k \<notin> key ` set vs \<Longrightarrow> get (fold put vs s) k = get s k"
  by (induction vs arbitrary: s) (auto simp: inv_put get_put)

lemma get_fold_put:
  "inv s \<Longrightarrow> distinct (map key vs) \<Longrightarrow> v \<in> set vs \<Longrightarrow> get (fold put vs s) (key v) = Some v"
proof (induction vs arbitrary: s)
  case (Cons w vs)
  then show ?case
    using get_fold_put_other[of "put w s" "key w" vs] by (cases "v = w") (simp_all add: inv_put get_put)
qed simp

end

text \<open>The common representation: a dictionary from the key field to the value.\<close>

definition keyed :: "('v \<Rightarrow> string) \<Rightarrow> (string \<times> 'v) list \<Rightarrow> bool" where
  "keyed key d \<longleftrightarrow> distinct (dkeys d) \<and> (\<forall>(k, v) \<in> set d. key v = k)"

lemma keyed_Nil [simp]: "keyed key []"
  by (simp add: keyed_def)

lemma set_dput: "set (dput k v d) \<subseteq> insert (k, v) (set d)"
  by (induction d) auto

lemma set_ddel: "set (ddel k d) \<subseteq> set d"
  by (auto simp: AList.delete_eq)

lemma keyed_dput [simp]: "keyed key d \<Longrightarrow> keyed key (dput (key v) v d)"
  using set_dput[of "key v" v d] by (fastforce simp: keyed_def)

lemma keyed_ddel [simp]: "keyed key d \<Longrightarrow> keyed key (ddel k d)"
  using set_ddel[of k d] by (fastforce simp: keyed_def)

lemma keyed_keys: "keyed key d \<Longrightarrow> map key (dvals d) = dkeys d"
  by (induction d) (auto simp: keyed_def)

lemma keyed_get: "keyed key d \<Longrightarrow> dget d k = Some v \<Longrightarrow> key v = k"
  by (auto simp: keyed_def dest: map_of_SomeD)

lemma keyed_vals: "keyed key d \<Longrightarrow> v \<in> set (dvals d) \<longleftrightarrow> dget d (key v) = Some v"
  using dvals_iff[of d v] keyed_get[of key d] unfolding keyed_def by blast

lemma keyed_store_dict:
  "keyed_store key (\<lambda>v. dput (key v) v) dget dvals (keyed key)"
proof unfold_locales
  fix d v assume d: "keyed key d"
  show "v \<in> set (dvals d) \<longleftrightarrow> dget d (key v) = Some v" using d by (rule keyed_vals)
  show "distinct (map key (dvals d))" using d keyed_keys[OF d] by (metis keyed_def)
qed (auto simp: keyed_get)

section \<open>Cases, evidence, reports (storage/memory.py)\<close>

type_synonym case_store = "(string \<times> case_record) list"

definition case_store_put :: "case_record \<Rightarrow> case_store \<Rightarrow> case_store" where
  "case_store_put c d = dput (cr_case_id c) c d"

definition case_store_get :: "case_store \<Rightarrow> string \<Rightarrow> case_record option" where
  "case_store_get d i = dget d i"

definition case_store_list_all :: "case_store \<Rightarrow> case_record list" where
  "case_store_list_all d = dvals d"

definition case_store_count :: "case_store \<Rightarrow> nat" where
  "case_store_count d = length d"

type_synonym evidence_store = "(string \<times> evidence_pack) list"

definition evidence_put_pack :: "evidence_pack \<Rightarrow> evidence_store \<Rightarrow> evidence_store" where
  "evidence_put_pack p d = dput (ep_case_id p) p d"

definition evidence_get_pack :: "evidence_store \<Rightarrow> string \<Rightarrow> evidence_pack option" where
  "evidence_get_pack d i = dget d i"

definition evidence_append_items ::
    "string \<Rightarrow> evidence_item list \<Rightarrow> evidence_store \<Rightarrow> evidence_pack \<times> evidence_store" where
  "evidence_append_items i xs d =
     (case dget d i of
        None \<Rightarrow>
          (let pack = \<lparr>ep_case_id = i, ep_items = xs, ep_summary = []\<rparr> in (pack, dput i pack d))
      | Some old \<Rightarrow>
          (let merged = \<lparr>ep_case_id = i, ep_items = ep_items old @ xs, ep_summary = ep_summary old\<rparr>
           in (merged, dput i merged d)))"

type_synonym report_store = "(string \<times> case_report) list"

definition report_put :: "case_report \<Rightarrow> report_store \<Rightarrow> report_store" where
  "report_put r d = dput (cp_case_id r) r d"

definition report_get :: "report_store \<Rightarrow> string \<Rightarrow> case_report option" where
  "report_get d i = dget d i"

interpretation case_db: keyed_store cr_case_id case_store_put case_store_get case_store_list_all
  "keyed cr_case_id"
  using keyed_store_dict[of cr_case_id]
  unfolding case_store_put_def case_store_get_def case_store_list_all_def .

interpretation evidence_db: keyed_store ep_case_id evidence_put_pack evidence_get_pack
  dvals "keyed ep_case_id"
  using keyed_store_dict[of ep_case_id] unfolding evidence_put_pack_def evidence_get_pack_def .

interpretation report_db: keyed_store cp_case_id report_put report_get dvals "keyed cp_case_id"
  using keyed_store_dict[of cp_case_id] unfolding report_put_def report_get_def .

lemma case_store_count_put:
  "keyed cr_case_id d \<Longrightarrow> case_store_count (case_store_put c d) =
     (if case_store_get d (cr_case_id c) = None then Suc (case_store_count d) else case_store_count d)"
  using case_db.count_put[of d c] by (simp add: case_store_count_def case_store_list_all_def)

text \<open>Appending is a put of the pack it returns: earlier evidence is kept, in order.\<close>

lemma evidence_append_items_put:
  "evidence_append_items i xs d = (p, d') \<Longrightarrow> d' = evidence_put_pack p d \<and> ep_case_id p = i"
  by (auto simp: evidence_append_items_def evidence_put_pack_def Let_def split: option.splits)

lemma evidence_append_items_items:
  "ep_items (fst (evidence_append_items i xs d)) =
     (case evidence_get_pack d i of None \<Rightarrow> [] | Some p \<Rightarrow> ep_items p) @ xs"
  by (auto simp: evidence_append_items_def evidence_get_pack_def Let_def split: option.splits)

fun evidence_append_all :: "string \<Rightarrow> evidence_item list list \<Rightarrow> evidence_store \<Rightarrow> evidence_store" where
  "evidence_append_all i [] d = d"
| "evidence_append_all i (xs # xss) d = evidence_append_all i xss (snd (evidence_append_items i xs d))"

lemma evidence_append_once:
  "evidence_get_pack (snd (evidence_append_items i xs d)) i = Some (fst (evidence_append_items i xs d))"
  by (auto simp: evidence_append_items_def evidence_get_pack_def Let_def split: option.splits)

lemma evidence_append_all_items:
  "evidence_get_pack d i = Some p \<Longrightarrow>
   \<exists>q. evidence_get_pack (evidence_append_all i xss d) i = Some q \<and>
       ep_items q = ep_items p @ concat xss \<and> ep_summary q = ep_summary p"
proof (induction xss arbitrary: d p)
  case (Cons xs xss)
  let ?r = "evidence_append_items i xs d"
  have "ep_items (fst ?r) = ep_items p @ xs" using Cons.prems by (simp add: evidence_append_items_items)
  moreover have "ep_summary (fst ?r) = ep_summary p"
    using Cons.prems by (simp add: evidence_append_items_def evidence_get_pack_def Let_def)
  ultimately show ?case using Cons.IH[OF evidence_append_once[of i xs d]] by auto
qed simp

section \<open>The audit log (observability/audit.py)\<close>

type_synonym audit_log = "audit_event list"

definition audit_append :: "audit_event \<Rightarrow> audit_log \<Rightarrow> audit_log" where
  "audit_append e lg = lg @ [e]"

definition event_matches_case :: "audit_event \<Rightarrow> string \<Rightarrow> bool" where
  "event_matches_case e i \<longleftrightarrow> ae_target e = i \<or> py_get (ae_detail e) ''case_id'' = PStr i"

definition audit_list_events :: "string option \<Rightarrow> int \<Rightarrow> audit_log \<Rightarrow> audit_event list" where
  "audit_list_events case_id limit lg =
     (let events = (case case_id of None \<Rightarrow> lg | Some i \<Rightarrow> filter (\<lambda>e. event_matches_case e i) lg)
      in if limit < 0 then events else last_n (nat limit) events)"

definition audit_count :: "audit_log \<Rightarrow> nat" where
  "audit_count lg = length lg"

lemma audit_list_events_subset: "set (audit_list_events ci l lg) \<subseteq> set lg"
  using set_last_n[of "nat l" lg] set_last_n[of "nat l" "filter (\<lambda>e. event_matches_case e (the ci)) lg"]
  by (auto simp: audit_list_events_def Let_def split: option.splits)

section \<open>Tasks (task_runtime/task_store.py, task_runtime/task_queue.py)\<close>

type_synonym task_store = "(string \<times> task_record) list"

definition task_store_save :: "task_record \<Rightarrow> task_store \<Rightarrow> task_store" where
  "task_store_save t d = dput (tk_task_id t) t d"

definition task_store_get :: "task_store \<Rightarrow> string \<Rightarrow> task_record option" where
  "task_store_get d i = dget d i"

definition task_store_list_all :: "task_store \<Rightarrow> task_record list" where
  "task_store_list_all d = dvals d"

interpretation task_db: keyed_store tk_task_id task_store_save task_store_get task_store_list_all
  "keyed tk_task_id"
  using keyed_store_dict[of tk_task_id]
  unfolding task_store_save_def task_store_get_def task_store_list_all_def .

type_synonym task_queue = "string list"

definition queue_push :: "string \<Rightarrow> task_queue \<Rightarrow> task_queue" where
  "queue_push i q = q @ [i]"

fun queue_pop :: "task_queue \<Rightarrow> string option \<times> task_queue" where
  "queue_pop [] = (None, [])"
| "queue_pop (i # q) = (Some i, q)"

text \<open>First in, first out: popping as often as there are elements gives them in push order.\<close>

fun queue_drain :: "nat \<Rightarrow> task_queue \<Rightarrow> string list \<times> task_queue" where
  "queue_drain 0 q = ([], q)"
| "queue_drain (Suc n) q =
     (case queue_pop q of
        (None, q') \<Rightarrow> ([], q')
      | (Some i, q') \<Rightarrow> (let (is, q'') = queue_drain n q' in (i # is, q'')))"

lemma queue_drain_append: "queue_drain (length xs) (xs @ q) = (xs, q)"
  by (induction xs) auto

lemma queue_fifo: "queue_drain (length q + length xs) (foldl (\<lambda>q i. queue_push i q) q xs) = (q @ xs, [])"
proof -
  have "foldl (\<lambda>q i. queue_push i q) q xs = q @ xs"
    by (induction xs arbitrary: q) (auto simp: queue_push_def)
  then show ?thesis using queue_drain_append[of "q @ xs" "[]"] by simp
qed

section \<open>Flow checkpoints (flow_runtime/checkpoint.py)\<close>

record checkpoint_record =
  ck_flow_run_id :: string
  ck_revision :: nat
  ck_payload :: pydict
  ck_updated_at :: int

type_synonym checkpoint_store = "(string \<times> checkpoint_record) list"

definition checkpoint_save :: "int \<Rightarrow> string \<Rightarrow> pydict \<Rightarrow> checkpoint_store \<Rightarrow> checkpoint_store" where
  "checkpoint_save now i payload d =
     (let revision = (case dget d i of None \<Rightarrow> 1 | Some r \<Rightarrow> ck_revision r + 1)
      in dput i \<lparr>ck_flow_run_id = i, ck_revision = revision, ck_payload = payload,
                 ck_updated_at = now\<rparr> d)"

definition checkpoint_get :: "checkpoint_store \<Rightarrow> string \<Rightarrow> pydict option" where
  "checkpoint_get d i = map_option ck_payload (dget d i)"

definition checkpoint_get_record :: "checkpoint_store \<Rightarrow> string \<Rightarrow> checkpoint_record option" where
  "checkpoint_get_record d i = dget d i"

definition checkpoint_list_records ::
    "string option \<Rightarrow> string option \<Rightarrow> int \<Rightarrow> checkpoint_store \<Rightarrow> checkpoint_record list" where
  "checkpoint_list_records case_id status limit d =
     (let r0 = dvals d;
          r1 = (case case_id of None \<Rightarrow> r0
                | Some c \<Rightarrow> filter (\<lambda>r. py_get (ck_payload r) ''case_id'' = PStr c) r0);
          r2 = (case status of None \<Rightarrow> r1
                | Some s \<Rightarrow> filter (\<lambda>r. py_get (ck_payload r) ''status'' = PStr s) r1);
          r3 = sort_key ck_updated_at r2
      in if limit < 0 then r3 else last_n (nat limit) r3)"

definition checkpoint_count :: "checkpoint_store \<Rightarrow> nat" where
  "checkpoint_count d = length d"

lemma checkpoint_save_keyed: "keyed ck_flow_run_id d \<Longrightarrow> keyed ck_flow_run_id (checkpoint_save now i p d)"
  unfolding checkpoint_save_def Let_def
  using keyed_dput[of ck_flow_run_id d
      "\<lparr>ck_flow_run_id = i, ck_revision = case dget d i of None \<Rightarrow> 1 | Some r \<Rightarrow> ck_revision r + 1,
        ck_payload = p, ck_updated_at = now\<rparr>"] by simp

lemma checkpoint_save_get: "checkpoint_get (checkpoint_save now i p d) i = Some p"
  by (simp add: checkpoint_save_def checkpoint_get_def Let_def)

text \<open>A run's revision counts its saves.\<close>

fun checkpoint_save_all :: "(int \<times> string \<times> pydict) list \<Rightarrow> checkpoint_store \<Rightarrow> checkpoint_store" where
  "checkpoint_save_all [] d = d"
| "checkpoint_save_all ((now, i, p) # xs) d = checkpoint_save_all xs (checkpoint_save now i p d)"

definition checkpoint_revision :: "checkpoint_store \<Rightarrow> string \<Rightarrow> nat" where
  "checkpoint_revision d i = (case dget d i of None \<Rightarrow> 0 | Some r \<Rightarrow> ck_revision r)"

lemma checkpoint_revision_save:
  "checkpoint_revision (checkpoint_save now i p d) j =
     (if j = i then Suc (checkpoint_revision d i) else checkpoint_revision d j)"
  by (auto simp: checkpoint_revision_def checkpoint_save_def Let_def split: option.splits)

lemma checkpoint_revision_save_all:
  "checkpoint_revision (checkpoint_save_all xs d) i =
     checkpoint_revision d i + length (filter (\<lambda>(_, j, _). j = i) xs)"
  by (induction xs d rule: checkpoint_save_all.induct) (auto simp: checkpoint_revision_save)

end
