(* ===== verification/CronScheduler.thy ===== *)
theory CronScheduler
  imports CronSchedule Stores
begin

text \<open>
  The cron scheduler (\<open>cron/jobs.py\<close>, \<open>scheduler.py\<close>, \<open>concurrency.py\<close>, \<open>recovery.py\<close>, \<open>retry.py\<close>,
  \<open>stagger.py\<close>) over the in-memory state store (\<open>state_store.py\<close>). The store hands out the stored
  object itself, so every change of a state is a change of the store, also when the scheduler
  raises before it saves: each update below is written to the store at once. The executor acts on
  a world \<open>'w\<close>, which also gives the time when it has returned; the digest behind the stagger
  (\<open>int(sha256(job_id)[:8], 16)\<close>) is an argument.
\<close>

section \<open>Jobs, states, runs (cron/jobs.py)\<close>

datatype cron_job_status = Cron_IDLE | Cron_RUNNING | Cron_SUCCEEDED | Cron_FAILED | Cron_DISABLED

datatype job_run_status = Run_SUCCEEDED | Run_FAILED | Run_SKIPPED

record retry_policy =
  rp_max_attempts :: nat
  rp_base_delay_seconds :: rat
  rp_max_delay_seconds :: rat
  rp_backoff_multiplier :: rat

definition valid_retry_policy :: "retry_policy \<Rightarrow> bool" where
  "valid_retry_policy p \<longleftrightarrow> 1 \<le> rp_max_attempts p \<and> 0 \<le> rp_base_delay_seconds p
     \<and> 0 \<le> rp_max_delay_seconds p \<and> 1 \<le> rp_backoff_multiplier p"

record cron_job =
  jb_job_id :: string
  jb_name :: string
  jb_schedule :: string
  jb_timezone :: string
  jb_enabled :: bool
  jb_handler :: string
  jb_max_concurrent_runs :: nat
  jb_retry_policy :: retry_policy
  jb_stale_after_seconds :: rat
  jb_metadata :: pydict

definition valid_cron_job :: "cron_job \<Rightarrow> bool" where
  "valid_cron_job j \<longleftrightarrow> jb_job_id j \<noteq> [] \<and> jb_schedule j \<noteq> [] \<and> 1 \<le> jb_max_concurrent_runs j
     \<and> valid_retry_policy (jb_retry_policy j) \<and> 1 \<le> jb_stale_after_seconds j"

record job_run_result =
  jr_job_id :: string
  jr_status :: job_run_status
  jr_started_at :: int
  jr_finished_at :: int
  jr_attempt :: nat
  jr_message :: string
  jr_payload :: pydict

record cron_job_state =
  js_job_id :: string
  js_status :: cron_job_status
  js_next_run_at :: "int option"
  js_last_started_at :: "int option"
  js_last_finished_at :: "int option"
  js_last_success_at :: "int option"
  js_last_error :: "string option"
  js_consecutive_failures :: nat
  js_running_count :: nat
  js_run_count :: nat
  js_updated_at :: int

section \<open>The in-memory state store (cron/state_store.py)\<close>

record cron_store =
  ct_states :: "(string \<times> cron_job_state) list"
  ct_runs :: "job_run_result list"

definition cron_get_state :: "cron_store \<Rightarrow> string \<Rightarrow> cron_job_state option" where
  "cron_get_state s i = dget (ct_states s) i"

definition cron_save_state :: "cron_job_state \<Rightarrow> cron_store \<Rightarrow> cron_store" where
  "cron_save_state st s = s\<lparr>ct_states := dput (js_job_id st) st (ct_states s)\<rparr>"

definition cron_append_run :: "job_run_result \<Rightarrow> cron_store \<Rightarrow> cron_store" where
  "cron_append_run r s = s\<lparr>ct_runs := ct_runs s @ [r]\<rparr>"

definition cron_list_runs :: "string option \<Rightarrow> cron_store \<Rightarrow> job_run_result list" where
  "cron_list_runs i s =
     (case i of None \<Rightarrow> ct_runs s | Some j \<Rightarrow> filter (\<lambda>r. jr_job_id r = j) (ct_runs s))"

interpretation cron_db: keyed_store js_job_id cron_save_state cron_get_state
  "\<lambda>s. dvals (ct_states s)" "\<lambda>s. keyed js_job_id (ct_states s)"
proof unfold_locales
  fix s :: cron_store and st v
  assume k: "keyed js_job_id (ct_states s)"
  show "v \<in> set (dvals (ct_states s)) \<longleftrightarrow> cron_get_state s (js_job_id v) = Some v"
    unfolding cron_get_state_def using k by (rule keyed_vals)
  show "distinct (map js_job_id (dvals (ct_states s)))"
    using k keyed_keys[OF k] by (metis keyed_def)
qed (auto simp: cron_get_state_def cron_save_state_def dest: keyed_get)

section \<open>Retry, recovery, concurrency, stagger\<close>

definition can_retry :: "cron_job \<Rightarrow> cron_job_state \<Rightarrow> bool" where
  "can_retry j st \<longleftrightarrow> js_consecutive_failures st < rp_max_attempts (jb_retry_policy j)"

definition retry_delay :: "retry_policy \<Rightarrow> nat \<Rightarrow> rat" where
  "retry_delay p failures =
     min (rp_base_delay_seconds p * rp_backoff_multiplier p ^ (max 1 failures - 1)) (rp_max_delay_seconds p)"

definition next_retry_at :: "cron_job \<Rightarrow> cron_job_state \<Rightarrow> int \<Rightarrow> int" where
  "next_retry_at j st failed_at =
     failed_at + timedelta_us (retry_delay (jb_retry_policy j) (js_consecutive_failures st))"

definition recover_stale_running :: "cron_job \<Rightarrow> cron_job_state \<Rightarrow> int \<Rightarrow> cron_job_state" where
  "recover_stale_running j st now =
     (case (js_status st, js_last_started_at st) of
        (Cron_RUNNING, Some started) \<Rightarrow>
          (if now < started + timedelta_us (jb_stale_after_seconds j) then st
           else st\<lparr>js_status := Cron_FAILED, js_running_count := 0,
                   js_last_error := Some ''stale running state recovered'',
                   js_consecutive_failures := js_consecutive_failures st + 1, js_updated_at := now\<rparr>)
      | _ \<Rightarrow> st)"

definition can_start :: "cron_job \<Rightarrow> cron_job_state \<Rightarrow> bool" where
  "can_start j st \<longleftrightarrow> js_running_count st < jb_max_concurrent_runs j"

definition mark_started :: "cron_job_state \<Rightarrow> cron_job_state" where
  "mark_started st = st\<lparr>js_running_count := js_running_count st + 1\<rparr>"

definition mark_finished :: "cron_job_state \<Rightarrow> cron_job_state" where
  "mark_finished st = st\<lparr>js_running_count := js_running_count st - 1\<rparr>"

definition stable_stagger_seconds :: "(string \<Rightarrow> nat) \<Rightarrow> string \<Rightarrow> int \<Rightarrow> int" where
  "stable_stagger_seconds hash32 job_id max_offset =
     (if max_offset \<le> 0 then 0 else int (hash32 job_id) mod (max_offset + 1))"

section \<open>The scheduler (cron/scheduler.py)\<close>

record 'w cron_ctx =
  cx_zones :: zone_db
  cx_hash32 :: "string \<Rightarrow> nat"
  cx_executor :: "cron_job \<Rightarrow> 'w \<Rightarrow> (string + job_run_result) \<times> 'w"
  cx_utc_now :: "'w \<Rightarrow> int"

definition schedule_next_run :: "'w cron_ctx \<Rightarrow> cron_job \<Rightarrow> int \<Rightarrow> int res" where
  "schedule_next_run cx j after =
     bind_res (parse_schedule (cx_zones cx) (jb_schedule j) (jb_timezone j)) (\<lambda>s.
     bind_res (next_after (cx_zones cx) s after) (\<lambda>next_at.
     bind_res (py_int (py_or (py_get_or (jb_metadata j) ''stagger_max_offset_seconds'' (PInt 0)) (PInt 0)))
       (\<lambda>stagger_max.
          Inr (if stagger_max > 0 then
                 next_at + stable_stagger_seconds (cx_hash32 cx) (jb_job_id j) stagger_max * us_per_second
               else next_at))))"

definition new_job_state :: "string \<Rightarrow> int \<Rightarrow> int \<Rightarrow> cron_job_state" where
  "new_job_state i next_at now =
     \<lparr>js_job_id = i, js_status = Cron_IDLE, js_next_run_at = Some next_at, js_last_started_at = None,
      js_last_finished_at = None, js_last_success_at = None, js_last_error = None,
      js_consecutive_failures = 0, js_running_count = 0, js_run_count = 0, js_updated_at = now\<rparr>"

definition state_for :: "'w cron_ctx \<Rightarrow> cron_job \<Rightarrow> int \<Rightarrow> cron_store \<Rightarrow> (cron_job_state \<times> cron_store) res" where
  "state_for cx j now s =
     (case cron_get_state s (jb_job_id j) of
        Some st \<Rightarrow> Inr (st, s)
      | None \<Rightarrow>
          bind_res (schedule_next_run cx j now) (\<lambda>t.
            let st = new_job_state (jb_job_id j) t now in Inr (st, cron_save_state st s)))"

definition is_due :: "cron_job_state \<Rightarrow> int \<Rightarrow> bool" where
  "is_due st now \<longleftrightarrow> (case js_next_run_at st of None \<Rightarrow> False | Some t \<Rightarrow> t \<le> now)"

definition failed_run :: "cron_job \<Rightarrow> cron_job_state \<Rightarrow> int \<Rightarrow> int \<Rightarrow> string \<Rightarrow> job_run_result" where
  "failed_run j st started finished msg =
     \<lparr>jr_job_id = jb_job_id j, jr_status = Run_FAILED, jr_started_at = started, jr_finished_at = finished,
      jr_attempt = js_consecutive_failures st + 1, jr_message = py_strip msg, jr_payload = []\<rparr>"

definition started_state :: "cron_job_state \<Rightarrow> int \<Rightarrow> cron_job_state" where
  "started_state st now =
     mark_started (st\<lparr>js_status := Cron_RUNNING, js_last_started_at := Some now, js_updated_at := now\<rparr>)"

text \<open>The state after a run, and when it runs next (\<open>Inl\<close> when the schedule does not parse).\<close>

definition finished_state :: "job_run_result \<Rightarrow> cron_job_state \<Rightarrow> cron_job_state" where
  "finished_state r st =
     (let st1 = (mark_finished st)\<lparr>js_last_finished_at := Some (jr_finished_at r),
                   js_run_count := js_run_count st + 1\<rparr>
      in case jr_status r of
           Run_SUCCEEDED \<Rightarrow>
             st1\<lparr>js_status := Cron_SUCCEEDED, js_last_success_at := Some (jr_finished_at r),
                 js_last_error := None, js_consecutive_failures := 0\<rparr>
         | Run_FAILED \<Rightarrow>
             st1\<lparr>js_status := Cron_FAILED, js_last_error := Some (jr_message r),
                 js_consecutive_failures := js_consecutive_failures st + 1\<rparr>
         | Run_SKIPPED \<Rightarrow> st1\<lparr>js_status := Cron_IDLE\<rparr>)"

definition next_run_of :: "'w cron_ctx \<Rightarrow> cron_job \<Rightarrow> job_run_result \<Rightarrow> cron_job_state \<Rightarrow> int res" where
  "next_run_of cx j r st =
     (if jr_status r = Run_FAILED \<and> can_retry j st then Inr (next_retry_at j st (jr_finished_at r))
      else schedule_next_run cx j (jr_finished_at r))"

definition run_job ::
    "'w cron_ctx \<Rightarrow> cron_job \<Rightarrow> cron_job_state \<Rightarrow> int \<Rightarrow> cron_store \<Rightarrow> 'w
     \<Rightarrow> job_run_result res \<times> cron_store \<times> 'w" where
  "run_job cx j st0 now s0 w0 =
     (let st1 = started_state st0 now;
          s1 = cron_save_state st1 s0;
          (out, w) = cx_executor cx j w0;
          r = (case out of Inl msg \<Rightarrow> failed_run j st1 now (cx_utc_now cx w) msg | Inr r \<Rightarrow> r);
          st2 = finished_state r st1;
          s2 = cron_save_state st2 s1
      in case next_run_of cx j r st2 of
           Inl e \<Rightarrow> (Inl e, s2, w)
         | Inr t \<Rightarrow>
             (Inr r,
              cron_append_run r
                (cron_save_state (st2\<lparr>js_next_run_at := Some t, js_updated_at := jr_finished_at r\<rparr>) s2),
              w))"

text \<open>One job of a tick: the result of its run, if it ran.\<close>

definition tick_job ::
    "'w cron_ctx \<Rightarrow> int \<Rightarrow> cron_job \<Rightarrow> cron_store \<Rightarrow> 'w \<Rightarrow> job_run_result option res \<times> cron_store \<times> 'w" where
  "tick_job cx now j s w =
     (case state_for cx j now s of
        Inl e \<Rightarrow> (Inl e, s, w)
      | Inr (st0, s1) \<Rightarrow>
          (let st = recover_stale_running j st0 now in
           if \<not> jb_enabled j then (Inr None, cron_save_state (st\<lparr>js_status := Cron_DISABLED\<rparr>) s1, w)
           else if \<not> is_due st now \<or> \<not> can_start j st then (Inr None, cron_save_state st s1, w)
           else (case run_job cx j st now s1 w of
                   (Inl e, s2, w') \<Rightarrow> (Inl e, s2, w')
                 | (Inr r, s2, w') \<Rightarrow> (Inr (Some r), s2, w'))))"

fun tick_jobs ::
    "'w cron_ctx \<Rightarrow> int \<Rightarrow> cron_job list \<Rightarrow> cron_store \<Rightarrow> 'w \<Rightarrow> job_run_result list res \<times> cron_store \<times> 'w" where
  "tick_jobs cx now [] s w = (Inr [], s, w)"
| "tick_jobs cx now (j # js) s w =
     (case tick_job cx now j s w of
        (Inl e, s1, w1) \<Rightarrow> (Inl e, s1, w1)
      | (Inr r, s1, w1) \<Rightarrow>
          (case tick_jobs cx now js s1 w1 of
             (Inl e, s2, w2) \<Rightarrow> (Inl e, s2, w2)
           | (Inr rs, s2, w2) \<Rightarrow> (Inr ((case r of None \<Rightarrow> [] | Some r \<Rightarrow> [r]) @ rs), s2, w2)))"

definition job_table :: "cron_job list \<Rightarrow> cron_job list" where
  "job_table jobs = dvals (dict_of (map (\<lambda>j. (jb_job_id j, j)) jobs))"

definition tick ::
    "'w cron_ctx \<Rightarrow> cron_job list \<Rightarrow> int \<Rightarrow> cron_store \<Rightarrow> 'w \<Rightarrow> job_run_result list res \<times> cron_store \<times> 'w" where
  "tick cx jobs now s w = tick_jobs cx now (job_table jobs) s w"

fun wake_values :: "'w cron_ctx \<Rightarrow> int \<Rightarrow> cron_job list \<Rightarrow> cron_store \<Rightarrow> (int list \<times> cron_store) res" where
  "wake_values cx now [] s = Inr ([], s)"
| "wake_values cx now (j # js) s =
     (if \<not> jb_enabled j then wake_values cx now js s
      else bind_res (state_for cx j now s) (\<lambda>(st, s1).
           bind_res (wake_values cx now js s1) (\<lambda>(ts, s2).
             Inr ((case js_next_run_at st of None \<Rightarrow> ts | Some t \<Rightarrow> t # ts), s2))))"

definition next_wake_at :: "'w cron_ctx \<Rightarrow> cron_job list \<Rightarrow> int \<Rightarrow> cron_store \<Rightarrow> (int option \<times> cron_store) res" where
  "next_wake_at cx jobs now s =
     bind_res (wake_values cx now (job_table jobs) s) (\<lambda>(ts, s').
       Inr (if ts = [] then None else Some (Min (set ts)), s'))"

section \<open>Facts\<close>

lemma finished_state_simps [simp]:
  "js_job_id (finished_state r st) = js_job_id st"
  "js_running_count (finished_state r st) = js_running_count st - 1"
  "js_status (finished_state r st) \<noteq> Cron_RUNNING"
  "js_run_count (finished_state r st) = js_run_count st + 1"
  by (simp_all add: finished_state_def mark_finished_def Let_def split: job_run_status.splits)

lemma started_state_simps [simp]:
  "js_job_id (started_state st now) = js_job_id st"
  "js_running_count (started_state st now) = js_running_count st + 1"
  "js_run_count (started_state st now) = js_run_count st"
  by (simp_all add: started_state_def mark_started_def)

lemma recover_job_id [simp]: "js_job_id (recover_stale_running j st now) = js_job_id st"
  by (simp add: recover_stale_running_def split: cron_job_status.splits option.splits)

text \<open>
  Between ticks no job of the store is running: a run that the scheduler started is finished or
  recorded as failed before \<open>tick\<close> returns or raises. \<open>quiet\<close> is this invariant.
\<close>

definition quiet_state :: "cron_job_state \<Rightarrow> bool" where
  "quiet_state st \<longleftrightarrow> js_running_count st = 0 \<and> js_status st \<noteq> Cron_RUNNING"

definition quiet :: "cron_store \<Rightarrow> bool" where
  "quiet s \<longleftrightarrow> keyed js_job_id (ct_states s) \<and> (\<forall>st \<in> set (dvals (ct_states s)). quiet_state st)"

lemma quiet_save: "quiet s \<Longrightarrow> quiet_state st \<Longrightarrow> quiet (cron_save_state st s)"
  unfolding quiet_def using cron_db.inv_put[of s st] cron_db.set_items_put[of s st] by auto

lemma quiet_save_over:
  assumes "quiet s" "quiet_state st" "js_job_id st1 = js_job_id st"
  shows "quiet (cron_save_state st (cron_save_state st1 s))"
proof -
  note k = assms(1)[unfolded quiet_def, THEN conjunct1]
  have k1: "keyed js_job_id (ct_states (cron_save_state st1 s))" using cron_db.inv_put[OF k] .
  have "set (dvals (ct_states (cron_save_state st (cron_save_state st1 s)))) \<subseteq> insert st (set (dvals (ct_states s)))"
    unfolding cron_db.set_items_put[OF k1] cron_db.set_items_put[OF k] using assms(3) by blast
  then show ?thesis using cron_db.inv_put[OF k1, of st] assms(1,2) unfolding quiet_def by blast
qed

lemma quiet_append [simp]: "quiet (cron_append_run r s) = quiet s"
  by (simp add: quiet_def cron_append_run_def)

lemma quiet_get: "quiet s \<Longrightarrow> cron_get_state s i = Some st \<Longrightarrow> quiet_state st \<and> js_job_id st = i"
  using cron_db.get_iff[of s i st] by (auto simp: quiet_def)

lemma quiet_state_for:
  assumes "quiet s" "state_for cx j now s = Inr (st, s')"
  shows "quiet s' \<and> quiet_state st \<and> js_job_id st = jb_job_id j \<and> cron_get_state s' (jb_job_id j) = Some st"
proof (cases "cron_get_state s (jb_job_id j)")
  case None
  then obtain t where st: "st = new_job_state (jb_job_id j) t now" "s' = cron_save_state st s"
    using assms(2) by (auto simp: state_for_def Let_def)
  then have "quiet_state st" "js_job_id st = jb_job_id j" by (auto simp: new_job_state_def quiet_state_def)
  then show ?thesis using st(2) quiet_save[OF assms(1)] cron_db.get_put[of s st "jb_job_id j"] assms(1)
    by (auto simp: quiet_def)
next
  case (Some st')
  with assms quiet_get[OF assms(1) Some] show ?thesis by (auto simp: state_for_def)
qed

lemma recover_quiet: "quiet_state st \<Longrightarrow> recover_stale_running j st now = st"
  by (simp add: recover_stale_running_def quiet_state_def split: cron_job_status.splits)

lemma quiet_run_job:
  assumes "quiet s" "quiet_state st" "run_job cx j st now s w = (r, s', w')"
  shows "quiet s'"
proof -
  obtain out w1 where ex: "cx_executor cx j w = (out, w1)" by fastforce
  let ?st1 = "started_state st now"
  define rr where "rr = (case out of Inl msg \<Rightarrow> failed_run j ?st1 now (cx_utc_now cx w1) msg | Inr r \<Rightarrow> r)"
  let ?st2 = "finished_state rr ?st1"
  have q2: "quiet_state ?st2" using assms(2) by (simp add: quiet_state_def)
  note s2 = quiet_save_over[OF assms(1) q2, of ?st1]
  have ids: "js_job_id ?st1 = js_job_id ?st2" by simp
  show ?thesis
  proof (cases "next_run_of cx j rr ?st2")
    case (Inl e)
    with assms(3) ex s2[OF ids] show ?thesis by (simp add: run_job_def Let_def rr_def)
  next
    case (Inr t)
    let ?st3 = "?st2\<lparr>js_next_run_at := Some t, js_updated_at := jr_finished_at rr\<rparr>"
    have "quiet_state ?st3" using q2 by (simp add: quiet_state_def)
    from quiet_save[OF s2[OF ids] this] assms(3) ex Inr show ?thesis
      by (auto simp: run_job_def Let_def rr_def)
  qed
qed

lemma quiet_tick_job:
  assumes "quiet s" "tick_job cx now j s w = (r, s', w')"
  shows "quiet s'"
proof (cases "state_for cx j now s")
  case (Inl e)
  with assms show ?thesis by (simp add: tick_job_def)
next
  case (Inr p)
  obtain st s1 where p: "p = (st, s1)" by (cases p)
  note q = quiet_state_for[OF assms(1) Inr[unfolded p]]
  have rec: "recover_stale_running j st now = st" using q recover_quiet by blast
  have dis: "quiet_state (st\<lparr>js_status := Cron_DISABLED\<rparr>)" using q by (simp add: quiet_state_def)
  obtain r1 s2 w2 where run: "run_job cx j st now s1 w = (r1, s2, w2)" by (cases "run_job cx j st now s1 w")
  show ?thesis
    using assms(2) Inr p q rec run dis quiet_save[of s1] quiet_run_job[of s1 st cx j now w r1 s2 w2]
    by (auto simp: tick_job_def Let_def split: if_splits sum.splits)
qed

lemma quiet_tick_jobs: "quiet s \<Longrightarrow> tick_jobs cx now js s w = (r, s', w') \<Longrightarrow> quiet s'"
proof (induction js arbitrary: s w r s' w')
  case (Cons j js)
  obtain r1 s1 w1 where 1: "tick_job cx now j s w = (r1, s1, w1)" by (cases "tick_job cx now j s w")
  obtain r2 s2 w2 where 2: "tick_jobs cx now js s1 w1 = (r2, s2, w2)" by (cases "tick_jobs cx now js s1 w1")
  have q1: "quiet s1" using quiet_tick_job[OF Cons.prems(1) 1] .
  have "quiet s2" using Cons.IH[OF q1 2] .
  with q1 show ?case using Cons.prems(2) 1 2 by (auto split: sum.splits)
qed simp

section \<open>Properties of the scheduler\<close>

text \<open>
  C30: No run leaks: when no job is marked running, none is after a tick, whether the tick
  returns or raises (an executor that raises, a schedule that does not parse), so the
  concurrency guard never blocks a job because of an earlier run of this process.
\<close>
theorem tick_leaves_no_run:
  assumes "quiet s" and "tick cx jobs now s w = (r, s', w')"
  shows "quiet s'"
  using assms unfolding tick_def by (rule quiet_tick_jobs)


text \<open>
  A crashed run does not block its job: once \<open>stale_after_seconds\<close> have passed, a job left
  running by a process that died is run by the next tick, if it is enabled and was due.
\<close>
theorem stale_run_recovered:
  assumes "cron_get_state s (jb_job_id j) = Some st" and "jb_enabled j" and "valid_cron_job j"
    and "js_status st = Cron_RUNNING" and "js_last_started_at st = Some started"
    and "started + timedelta_us (jb_stale_after_seconds j) \<le> now" and "is_due st now"
  shows "snd (snd (tick_job cx now j s w)) = snd (cx_executor cx j w)"
proof -
  let ?st = "recover_stale_running j st now"
  have "?st = st\<lparr>js_status := Cron_FAILED, js_running_count := 0,
      js_last_error := Some ''stale running state recovered'',
      js_consecutive_failures := js_consecutive_failures st + 1, js_updated_at := now\<rparr>"
    using assms by (simp add: recover_stale_running_def)
  then have "is_due ?st now" "can_start j ?st"
    using assms(3,7) by (simp_all add: is_due_def can_start_def valid_cron_job_def)
  then show ?thesis
    using assms(1,2)
    by (auto simp: tick_job_def state_for_def run_job_def Let_def split_beta split: sum.splits)
qed

text \<open>The delay before a retry: within its bound, and no shorter after more failures.\<close>

lemma retry_delay_nonneg: "valid_retry_policy p \<Longrightarrow> 0 \<le> retry_delay p n"
  by (simp add: retry_delay_def valid_retry_policy_def)

text \<open>
  The retry delay of a valid policy lies between zero and \<open>max_delay_seconds\<close>, is the base
  delay (or the bound) after the first failure, and never shrinks with further failures.
\<close>
theorem retry_delay_bounds:
  assumes "valid_retry_policy p"
  shows "0 \<le> retry_delay p n \<and> retry_delay p n \<le> rp_max_delay_seconds p
    \<and> retry_delay p 1 = min (rp_base_delay_seconds p) (rp_max_delay_seconds p)
    \<and> (m \<le> n \<longrightarrow> retry_delay p m \<le> retry_delay p n)"
proof -
  have mono: "rp_base_delay_seconds p * rp_backoff_multiplier p ^ (max 1 m - 1)
      \<le> rp_base_delay_seconds p * rp_backoff_multiplier p ^ (max 1 n - 1)" if "m \<le> n"
    using assms that unfolding valid_retry_policy_def
    by (intro mult_left_mono power_increasing) auto
  then have "m \<le> n \<longrightarrow> retry_delay p m \<le> retry_delay p n"
    unfolding retry_delay_def by (meson min.mono order_refl)
  then show ?thesis
    using retry_delay_nonneg[OF assms, of n] by (simp add: retry_delay_def)
qed

lemma stagger_nonneg: "0 \<le> stable_stagger_seconds h i m"
  by (simp add: stable_stagger_seconds_def)

lemma stagger_bound: "0 \<le> m \<Longrightarrow> stable_stagger_seconds h i m \<le> m"
  by (simp add: stable_stagger_seconds_def) (smt (verit) pos_mod_bound)

lemma schedule_next_run_later:
  assumes "cx_zones cx (jb_timezone j) = Some utc_zone" "schedule_next_run cx j after = Inr t"
  shows "after < t"
proof -
  obtain s n m where s: "parse_schedule (cx_zones cx) (jb_schedule j) (jb_timezone j) = Inr s"
    "next_after (cx_zones cx) s after = Inr n"
    "t = (if m > 0 then n + stable_stagger_seconds (cx_hash32 cx) (jb_job_id j) m * us_per_second else n)"
    using assms(2) by (auto simp: schedule_next_run_def)
  have "cs_timezone s = jb_timezone j" using s(1) by (auto simp: parse_schedule_def)
  then have "after < n" using next_after_utc_later[of "cx_zones cx" s after n] assms(1) s(2) by simp
  then show ?thesis
    using s(3) stagger_nonneg[of "cx_hash32 cx" "jb_job_id j" m] by (auto simp: us_per_second_def)
qed

text \<open>
  A run of a job scheduled in UTC is followed by a next run that is not before the run's
  end, and after it unless the run failed and is retried; so the tick that ran the job, repeated
  at the same instant, does not run it again before its retry or its next match.
\<close>
theorem next_run_after_end:
  assumes "cx_zones cx (jb_timezone j) = Some utc_zone" and "valid_cron_job j"
    and "next_run_of cx j r st = Inr t"
  shows "jr_finished_at r \<le> t \<and> (jr_status r \<noteq> Run_FAILED \<or> \<not> can_retry j st \<longrightarrow> jr_finished_at r < t)"
proof (cases "jr_status r = Run_FAILED \<and> can_retry j st")
  case True
  have "0 \<le> retry_delay (jb_retry_policy j) (js_consecutive_failures st)"
    using assms(2) retry_delay_nonneg by (simp add: valid_cron_job_def)
  with True assms(3) timedelta_us_nonneg show ?thesis by (auto simp: next_run_of_def next_retry_at_def)
next
  case False
  with assms(3) have "schedule_next_run cx j (jr_finished_at r) = Inr t" by (auto simp: next_run_of_def)
  from schedule_next_run_later[OF assms(1) this] False show ?thesis by auto
qed

text \<open>
  A job whose schedule does not parse, and which has no state yet, makes every tick raise at
  its turn: the jobs after it in the table are not looked at, and the tick's results are lost.
\<close>
theorem bad_schedule_blocks_later_jobs:
  assumes "job_table jobs = bad # js" and "cron_get_state s (jb_job_id bad) = None"
    and "parse_schedule (cx_zones cx) (jb_schedule bad) (jb_timezone bad) = Inl e"
  shows "tick cx jobs now s w = (Inl e, s, w)"
  using assms by (simp add: tick_def tick_job_def state_for_def schedule_next_run_def)

text \<open>
  No enabled job with a state in the store becomes due before the time \<open>next_wake_at\<close> answers;
  with no answer none is due at all.
\<close>
theorem next_wake_misses_nothing:
  assumes "next_wake_at cx jobs now s = Inr (wake, s')" and "j \<in> set (job_table jobs)" and "jb_enabled j"
    and "cron_get_state s (jb_job_id j) = Some st" and "js_next_run_at st = Some t"
    and "keyed js_job_id (ct_states s)"
  shows "\<exists>m. wake = Some m \<and> m \<le> t"
proof -
  have "t \<in> set ts" if "wake_values cx now js s = Inr (ts, s')" "j \<in> set js"
      "cron_get_state s (jb_job_id j) = Some st" "keyed js_job_id (ct_states s)" for js s ts s'
    using that
  proof (induction js arbitrary: s ts s')
    case (Cons k js)
    show ?case
    proof (cases "jb_enabled k")
      case False
      then show ?thesis using Cons assms(3) by auto
    next
      case True
      then obtain st1 s1 ts1 where 1: "state_for cx k now s = Inr (st1, s1)"
        "wake_values cx now js s1 = Inr (ts1, s')"
        "ts = (case js_next_run_at st1 of None \<Rightarrow> ts1 | Some t \<Rightarrow> t # ts1)"
        using Cons.prems(1) by auto
      have keep: "cron_get_state s1 (jb_job_id j) = Some st" "keyed js_job_id (ct_states s1)"
        using 1(1) Cons.prems(3,4) cron_db.get_put[OF Cons.prems(4)] cron_db.inv_put[OF Cons.prems(4)]
        by (auto simp: state_for_def Let_def new_job_state_def split: option.splits)
      show ?thesis
      proof (cases "j = k")
        case True
        then have "st1 = st" using 1(1) Cons.prems(3) by (auto simp: state_for_def)
        then show ?thesis using 1(3) assms(5) by simp
      next
        case False
        then have "t \<in> set ts1" using Cons.IH[OF 1(2) _ keep] Cons.prems(2) by simp
        then show ?thesis using 1(3) by (auto split: option.splits)
      qed
    qed
  qed simp
  moreover obtain ts where "wake_values cx now (job_table jobs) s = Inr (ts, s')"
    "wake = (if ts = [] then None else Some (Min (set ts)))"
    using assms(1) by (auto simp: next_wake_at_def)
  ultimately show ?thesis using assms(2,4,6) by (cases "ts = []") force+
qed

section \<open>Witnesses\<close>

definition demo_job :: "string \<Rightarrow> string \<Rightarrow> cron_job" where
  "demo_job i schedule = \<lparr>jb_job_id = i, jb_name = [], jb_schedule = schedule, jb_timezone = ''UTC'',
     jb_enabled = True, jb_handler = [], jb_max_concurrent_runs = 1,
     jb_retry_policy = \<lparr>rp_max_attempts = 3, rp_base_delay_seconds = 30, rp_max_delay_seconds = 300,
        rp_backoff_multiplier = 2\<rparr>,
     jb_stale_after_seconds = 900, jb_metadata = []\<rparr>"

text \<open>An executor that raises, over a world that counts the calls.\<close>

definition demo_cron :: "nat cron_ctx" where
  "demo_cron = \<lparr>cx_zones = utc_only, cx_hash32 = (\<lambda>_. 0), cx_executor = (\<lambda>j n. (Inl ''boom'', Suc n)),
     cx_utc_now = (\<lambda>_. 7)\<rparr>"

definition empty_cron_store :: cron_store where
  "empty_cron_store = \<lparr>ct_states = [], ct_runs = []\<rparr>"

definition due_store :: "cron_job_status \<Rightarrow> nat \<Rightarrow> cron_store" where
  "due_store status running = cron_save_state
     ((new_job_state ''a'' 0 0)\<lparr>js_status := status, js_running_count := running,
        js_last_started_at := Some 0\<rparr>) empty_cron_store"

lemmas demo_cron_defs = demo_job_def demo_cron_def empty_cron_store_def due_store_def
  cron_save_state_def cron_get_state_def new_job_state_def

lemma valid_demo_job: "valid_cron_job (demo_job ''a'' ''* * * * *'')"
  by (simp add: valid_cron_job_def valid_retry_policy_def demo_job_def)

theorem tick_leaves_no_run_witness:
  "quiet (fst (snd (tick demo_cron [demo_job ''a'' ''* * * * *''] 5 (due_store Cron_IDLE 0) 0)))"
proof -
  obtain r s' w' where t: "tick demo_cron [demo_job ''a'' ''* * * * *''] 5 (due_store Cron_IDLE 0) 0 = (r, s', w')"
    by (cases "tick demo_cron [demo_job ''a'' ''* * * * *''] 5 (due_store Cron_IDLE 0) 0")
  have "quiet (due_store Cron_IDLE 0)"
    by (simp add: demo_cron_defs quiet_def quiet_state_def keyed_def)
  from tick_leaves_no_run[OF this t] t show ?thesis by simp
qed


theorem stale_run_recovered_witness:
  "snd (snd (tick_job demo_cron 900000000 (demo_job ''a'' ''* * * * *'') (due_store Cron_RUNNING 1) 0)) = 1"
proof -
  have "snd (snd (tick_job demo_cron 900000000 (demo_job ''a'' ''* * * * *'') (due_store Cron_RUNNING 1) 0))
      = snd (cx_executor demo_cron (demo_job ''a'' ''* * * * *'') 0)"
  proof (rule stale_run_recovered[where started = 0 and st = "(new_job_state ''a'' 0 0)\<lparr>js_status := Cron_RUNNING,
      js_running_count := 1, js_last_started_at := Some 0\<rparr>"])
    show "valid_cron_job (demo_job ''a'' ''* * * * *'')" by (rule valid_demo_job)
    show "(0::int) + timedelta_us (jb_stale_after_seconds (demo_job ''a'' ''* * * * *'')) \<le> 900000000"
      using round_half_even_of_int[of 900000000] by (simp add: demo_job_def timedelta_us_def)
  qed (simp_all add: demo_cron_defs is_due_def)
  then show ?thesis by (simp add: demo_cron_def)
qed

theorem retry_delay_bounds_witness:
  "retry_delay (jb_retry_policy (demo_job ''a'' ''x'')) 2 \<le> retry_delay (jb_retry_policy (demo_job ''a'' ''x'')) 5
   \<and> retry_delay (jb_retry_policy (demo_job ''a'' ''x'')) 5 = 300"
proof -
  let ?p = "jb_retry_policy (demo_job ''a'' ''x'')"
  have v: "valid_retry_policy ?p" by (simp add: demo_job_def valid_retry_policy_def)
  have "retry_delay ?p 5 = 300" by (simp add: demo_job_def retry_delay_def)
  with retry_delay_bounds[OF v, of 5 2] show ?thesis by simp
qed

theorem next_run_after_end_witness:
  "\<exists>t. next_run_of demo_cron (demo_job ''a'' ''* * * * *'')
      (failed_run (demo_job ''a'' ''* * * * *'') (new_job_state ''a'' 0 0) 0 7 ''boom'') (new_job_state ''a'' 0 0) = Inr t
     \<and> 7 \<le> t"
proof -
  let ?j = "demo_job ''a'' ''* * * * *''" and ?st = "new_job_state ''a'' 0 0"
  let ?r = "failed_run ?j ?st 0 7 ''boom''"
  have z: "cx_zones demo_cron (jb_timezone ?j) = Some utc_zone" by (simp add: demo_cron_def demo_job_def utc_only_def)
  have n: "next_run_of demo_cron ?j ?r ?st = Inr (next_retry_at ?j ?st 7)"
    by (simp add: next_run_of_def failed_run_def can_retry_def demo_job_def new_job_state_def)
  from next_run_after_end[OF z valid_demo_job n] n show ?thesis by (simp add: failed_run_def)
qed

theorem bad_schedule_blocks_later_jobs_witness:
  "tick demo_cron [demo_job ''bad'' ''not a schedule'', demo_job ''a'' ''* * * * *''] 5 (due_store Cron_IDLE 0) 0
   = (Inl (ScheduleParseError ''cron expression must have 5 fields: not a schedule''), due_store Cron_IDLE 0, 0)"
proof (rule bad_schedule_blocks_later_jobs)
  show "job_table [demo_job ''bad'' ''not a schedule'', demo_job ''a'' ''* * * * *'']
      = demo_job ''bad'' ''not a schedule'' # [demo_job ''a'' ''* * * * *'']"
    by (simp add: job_table_def dict_of_def dunion_def demo_job_def)
  show "cron_get_state (due_store Cron_IDLE 0) (jb_job_id (demo_job ''bad'' ''not a schedule'')) = None"
    by (simp add: demo_cron_defs)
  have "parse_expression ''not a schedule'' = Inl (ScheduleParseError ''cron expression must have 5 fields: not a schedule'')"
    by code_simp
  then show "parse_schedule (cx_zones demo_cron) (jb_schedule (demo_job ''bad'' ''not a schedule''))
      (jb_timezone (demo_job ''bad'' ''not a schedule''))
      = Inl (ScheduleParseError ''cron expression must have 5 fields: not a schedule'')"
    by (simp add: parse_schedule_def load_timezone_def demo_cron_def demo_job_def utc_only_def)
qed

theorem next_wake_misses_nothing_witness:
  "\<exists>m s'. next_wake_at demo_cron [demo_job ''a'' ''* * * * *''] 5 (due_store Cron_IDLE 0) = Inr (Some m, s') \<and> m \<le> 0"
proof -
  let ?j = "demo_job ''a'' ''* * * * *''" and ?s = "due_store Cron_IDLE 0"
  have t: "job_table [?j] = [?j]" by (simp add: job_table_def dict_of_def dunion_def)
  have n: "next_wake_at demo_cron [?j] 5 ?s = Inr (Some 0, ?s)"
    unfolding next_wake_at_def t by (simp add: state_for_def demo_cron_defs)
  have "\<exists>m. Some 0 = Some m \<and> m \<le> (0::int)"
  proof (rule next_wake_misses_nothing[OF n])
    show "?j \<in> set (job_table [?j])" unfolding t by simp
    show "cron_get_state ?s (jb_job_id ?j) = Some ((new_job_state ''a'' 0 0)\<lparr>js_status := Cron_IDLE,
        js_running_count := 0, js_last_started_at := Some 0\<rparr>)"
      by (simp add: demo_cron_defs)
  qed (simp_all add: demo_cron_defs keyed_def)
  with n show ?thesis by auto
qed

end
