(* ===== verification/GatewayAuth.thy ===== *)
theory GatewayAuth
  imports Prelude
begin

text \<open>
  Credentials, tokens, authorization and rate limiting of the gateway (\<open>gateway/auth.py\<close>,
  \<open>gateway/authorizer.py\<close>). HMAC-SHA256 in hexadecimal and URL-safe base64 are functions of a
  \<open>crypto\<close> argument; what is assumed of them is stated in the theorems that need it.
\<close>

section \<open>Tokens (gateway/auth.py)\<close>

record auth_credentials =
  au_client_id :: string
  au_token :: string
  au_capabilities :: "string list"
  au_expires_at :: "int option"

definition is_expired :: "int \<Rightarrow> auth_credentials \<Rightarrow> bool" where
  "is_expired now c \<longleftrightarrow> (case au_expires_at c of None \<Rightarrow> False | Some t \<Rightarrow> now > t)"

definition has_capability :: "auth_credentials \<Rightarrow> string \<Rightarrow> bool" where
  "has_capability c cap \<longleftrightarrow> (if au_capabilities c = [] then True else cap \<in> set (au_capabilities c))"

record crypto =
  cy_hmac :: "string \<Rightarrow> string \<Rightarrow> string"
  cy_b64encode :: "string \<Rightarrow> string"
  cy_b64decode :: "string \<Rightarrow> string option"

record token_provider =
  pv_secret_key :: string
  pv_lifetime_seconds :: int
  pv_tokens :: "(string \<times> auth_credentials) list"

definition generate_token ::
    "string \<Rightarrow> int \<Rightarrow> string \<Rightarrow> string list \<Rightarrow> token_provider \<Rightarrow> string \<times> token_provider" where
  "generate_token fresh now client_id caps p =
     (fresh, p\<lparr>pv_tokens := dput fresh
        \<lparr>au_client_id = client_id, au_token = fresh, au_capabilities = caps,
         au_expires_at = Some (now + pv_lifetime_seconds p * us_per_second)\<rparr> (pv_tokens p)\<rparr>)"

definition decode_capabilities :: "crypto \<Rightarrow> string \<Rightarrow> string list" where
  "decode_capabilities cy part =
     (if part = [] then []
      else case cy_b64decode cy part of
             Some d \<Rightarrow> (if d = [] then [] else split_on CHR '','' d)
           | None \<Rightarrow> split_on CHR '','' part)"

definition encode_capabilities :: "crypto \<Rightarrow> string list \<Rightarrow> string" where
  "encode_capabilities cy caps =
     (let joined = join '','' caps in if joined = [] then [] else cy_b64encode cy joined)"

definition token_payload :: "string \<Rightarrow> string \<Rightarrow> string \<Rightarrow> string" where
  "token_payload client_id timestamp caps = client_id @ '':'' @ timestamp @ '':'' @ caps"

definition create_signed_token ::
    "crypto \<Rightarrow> int \<Rightarrow> string \<Rightarrow> string list \<Rightarrow> token_provider \<Rightarrow> string" where
  "create_signed_token cy now client_id caps p =
     (let payload = token_payload client_id (int_str (now div us_per_second)) (encode_capabilities cy caps)
      in payload @ '':'' @ cy_hmac cy (pv_secret_key p) payload)"

text \<open>\<open>s.rsplit(c, 1)\<close> of a string with at least one \<open>c\<close>, and \<open>s.split(c, 2)\<close>.\<close>

definition rsplit_once :: "char \<Rightarrow> string \<Rightarrow> string \<times> string" where
  "rsplit_once c s = (let ws = split_on c s in (join [c] (butlast ws), last ws))"

definition split_twice :: "char \<Rightarrow> string \<Rightarrow> string list" where
  "split_twice c s =
     (case split_on c s of
        a # b # d # rest \<Rightarrow> [a, b, join [c] (d # rest)]
      | ws \<Rightarrow> ws)"

definition verify_signed_token :: "crypto \<Rightarrow> int \<Rightarrow> string \<Rightarrow> token_provider \<Rightarrow> auth_credentials option" where
  "verify_signed_token cy now token p =
     (if count_list token CHR '':'' < 3 then None
      else (let (body, signature) = rsplit_once CHR '':'' token in
        case split_twice CHR '':'' body of
          [client_id, timestamp_str, caps_part] \<Rightarrow>
            (if signature \<noteq> cy_hmac cy (pv_secret_key p) (token_payload client_id timestamp_str caps_part) then None
             else case py_int_parse timestamp_str of
                    None \<Rightarrow> None
                  | Some ts \<Rightarrow>
                      (if now - ts * us_per_second > pv_lifetime_seconds p * us_per_second then None
                       else Some \<lparr>au_client_id = client_id, au_token = token,
                                  au_capabilities = decode_capabilities cy caps_part,
                                  au_expires_at = None\<rparr>))
        | _ \<Rightarrow> None))"

definition authenticate ::
    "crypto \<Rightarrow> int \<Rightarrow> string \<Rightarrow> token_provider \<Rightarrow> auth_credentials option \<times> token_provider" where
  "authenticate cy now token p =
     (case dget (pv_tokens p) token of
        Some c \<Rightarrow>
          (if is_expired now c then (None, p\<lparr>pv_tokens := ddel token (pv_tokens p)\<rparr>) else (Some c, p))
      | None \<Rightarrow> (verify_signed_token cy now token p, p))"

definition validate_credentials :: "int \<Rightarrow> auth_credentials \<Rightarrow> token_provider \<Rightarrow> bool \<times> token_provider" where
  "validate_credentials now c p =
     (case dget (pv_tokens p) (au_token c) of
        None \<Rightarrow> (False, p)
      | Some stored \<Rightarrow>
          (if is_expired now stored then (False, p\<lparr>pv_tokens := ddel (au_token c) (pv_tokens p)\<rparr>)
           else (au_client_id stored = au_client_id c, p)))"

definition revoke_token :: "string \<Rightarrow> token_provider \<Rightarrow> bool \<times> token_provider" where
  "revoke_token token p =
     (if token \<in> set (dkeys (pv_tokens p)) then (True, p\<lparr>pv_tokens := ddel token (pv_tokens p)\<rparr>)
      else (False, p))"

section \<open>Authorization (gateway/authorizer.py)\<close>

definition default_method_capabilities :: "(string \<times> string list) list" where
  "default_method_capabilities =
     [(''case.create'', [''case:write'']), (''case.get'', [''case:read'']),
      (''case.list'', [''case:read'']), (''case.resume'', [''case:write'']),
      (''flow.run'', [''flow:execute'']), (''flow.checkpoints'', [''flow:read'']),
      (''skill.list'', [''skill:read'']), (''skill.get'', [''skill:read'']),
      (''skill.install'', [''skill:write'']), (''skill.set_default'', [''skill:write'']),
      (''skill.set_role'', [''skill:write'']), (''skill.enable'', [''skill:write'']),
      (''skill.disable'', [''skill:write'']), (''tool.invoke'', [''tool:invoke'']),
      (''tool.list'', [''tool:read'']), (''gateway.subscribe'', [''gateway:subscribe'']),
      (''gateway.unsubscribe'', [''gateway:subscribe'']), (''gateway.publish'', [''gateway:publish'']),
      (''system.list_methods'', [''system:read'']), (''system.list_presence'', [''system:read'']),
      (''system.ping'', [''system:read''])]"

record authorizer =
  az_method_caps :: "(string \<times> string list) list"
  az_admin_caps :: "string list"

definition new_authorizer :: "(string \<times> string list) list \<Rightarrow> string list \<Rightarrow> authorizer" where
  "new_authorizer method_caps admin_caps =
     \<lparr>az_method_caps = (if method_caps = [] then default_method_capabilities else method_caps),
      az_admin_caps = (if admin_caps = [] then [''admin''] else admin_caps)\<rparr>"

definition get_required_capabilities :: "authorizer \<Rightarrow> string \<Rightarrow> string list" where
  "get_required_capabilities a m = (case dget (az_method_caps a) m of None \<Rightarrow> [] | Some cs \<Rightarrow> cs)"

definition is_admin :: "authorizer \<Rightarrow> auth_credentials \<Rightarrow> bool" where
  "is_admin a c \<longleftrightarrow> list_ex (has_capability c) (az_admin_caps a)"

definition authorize :: "authorizer \<Rightarrow> auth_credentials \<Rightarrow> string \<Rightarrow> bool" where
  "authorize a c m \<longleftrightarrow> is_admin a c \<or> list_all (has_capability c) (get_required_capabilities a m)"

section \<open>Rate limiting (gateway/authorizer.py)\<close>

record rate_bucket =
  rb_tokens :: rat
  rb_last_update :: int

record rate_limiter =
  rl_requests_per_minute :: int
  rl_burst_size :: int
  rl_buckets :: "(string \<times> rate_bucket) list"

record rate_limit_result =
  rr_allowed :: bool
  rr_remaining :: int
  rr_reset_at :: int
  rr_retry_after_seconds :: rat

definition refill_rate :: "rate_limiter \<Rightarrow> rat" where
  "refill_rate l = of_int (rl_requests_per_minute l) / 60"

definition seconds_between :: "int \<Rightarrow> int \<Rightarrow> rat" where
  "seconds_between t0 t = of_int (t - t0) / 1000000"

definition refilled :: "rate_limiter \<Rightarrow> int \<Rightarrow> rate_bucket \<Rightarrow> rate_bucket" where
  "refilled l now b =
     \<lparr>rb_tokens = min (of_int (rl_burst_size l))
        (rb_tokens b + seconds_between (rb_last_update b) now * refill_rate l),
      rb_last_update = now\<rparr>"

text \<open>
  The verdict \<open>None\<close> is the \<open>ZeroDivisionError\<close> of a limiter of zero requests per minute, raised
  when the wait is computed, after the bucket has been stored.
\<close>

definition rate_check ::
    "int \<Rightarrow> string \<Rightarrow> rate_limiter \<Rightarrow> rate_limit_result option \<times> rate_limiter" where
  "rate_check now client l =
     (let b0 = (case dget (rl_buckets l) client of
                  None \<Rightarrow> \<lparr>rb_tokens = of_int (rl_burst_size l), rb_last_update = now\<rparr>
                | Some b \<Rightarrow> b);
          b = refilled l now b0
      in if rb_tokens b \<ge> 1 then
           (let b' = b\<lparr>rb_tokens := rb_tokens b - 1\<rparr>
            in (Some \<lparr>rr_allowed = True, rr_remaining = floor (rb_tokens b'),
                      rr_reset_at = now + us_per_minute, rr_retry_after_seconds = 0\<rparr>,
                l\<lparr>rl_buckets := dput client b' (rl_buckets l)\<rparr>))
         else
           (let l' = l\<lparr>rl_buckets := dput client b (rl_buckets l)\<rparr>;
                retry = (1 - rb_tokens b) / refill_rate l
            in if refill_rate l = 0 then (None, l')
               else (Some \<lparr>rr_allowed = False, rr_remaining = 0,
                           rr_reset_at = now + timedelta_us retry,
                           rr_retry_after_seconds = retry\<rparr>, l')))"

definition allowed :: "rate_limit_result option \<Rightarrow> bool" where
  "allowed r \<longleftrightarrow> (case r of None \<Rightarrow> False | Some x \<Rightarrow> rr_allowed x)"

definition rate_reset :: "string \<Rightarrow> rate_limiter \<Rightarrow> rate_limiter" where
  "rate_reset client l = l\<lparr>rl_buckets := ddel client (rl_buckets l)\<rparr>"

definition rate_reset_all :: "rate_limiter \<Rightarrow> rate_limiter" where
  "rate_reset_all l = l\<lparr>rl_buckets := []\<rparr>"

text \<open>The checks of one client at the given times: how many were allowed.\<close>

fun rate_checks :: "string \<Rightarrow> int list \<Rightarrow> rate_limiter \<Rightarrow> nat \<times> rate_limiter" where
  "rate_checks client [] l = (0, l)"
| "rate_checks client (t # ts) l =
     (case rate_check t client l of (r, l1) \<Rightarrow>
       (case rate_checks client ts l1 of (n, l2) \<Rightarrow> ((if allowed r then 1 else 0) + n, l2)))"

section \<open>Facts about rate limiting\<close>

lemma rate_check_frame:
  "rate_check now client l = (r, l') \<Longrightarrow>
   rl_requests_per_minute l' = rl_requests_per_minute l \<and> rl_burst_size l' = rl_burst_size l
   \<and> (\<forall>c. c \<noteq> client \<longrightarrow> dget (rl_buckets l') c = dget (rl_buckets l) c)"
  by (auto simp: rate_check_def Let_def split: if_splits)

lemma rate_check_bucket:
  assumes "rate_check now client l = (r, l')" "dget (rl_buckets l) client = Some b"
  shows "\<exists>b'. dget (rl_buckets l') client = Some b' \<and> rb_last_update b' = now
    \<and> rb_tokens b' = rb_tokens (refilled l now b) - (if allowed r then 1 else 0)
    \<and> (allowed r \<longleftrightarrow> rb_tokens (refilled l now b) \<ge> 1)"
  using assms by (auto simp: rate_check_def Let_def refilled_def allowed_def split: if_splits)

lemma refill_rate_nonneg: "0 \<le> rl_requests_per_minute l \<Longrightarrow> 0 \<le> refill_rate l"
  by (simp add: refill_rate_def)

lemma dput_dput: "dput k v (dput k w d) = dput k v d"
  by (induction d) auto

text \<open>
  From a bucket with \<open>k\<close> tokens at \<open>t0\<close>, the checks at ordered times let at most \<open>k\<close> and what is
  refilled until the last check through, and leave a bucket between zero and the burst size.
\<close>

lemma rate_checks_bound:
  assumes "dget (rl_buckets l) client = Some b" "sorted (rb_last_update b # ts)" "0 \<le> rb_tokens b"
    "rate_checks client ts l = (n, l')" "0 \<le> refill_rate l" "0 \<le> rl_burst_size l"
  shows "of_nat n \<le> rb_tokens b + seconds_between (rb_last_update b) (last (rb_last_update b # ts)) * refill_rate l"
  using assms
proof (induction ts arbitrary: l b n)
  case Nil
  then show ?case by (simp add: seconds_between_def)
next
  case (Cons t ts)
  obtain r l1 where c: "rate_check t client l = (r, l1)" by fastforce
  obtain m where rest: "rate_checks client ts l1 = (m, l')" and n: "n = (if allowed r then 1 else 0) + m"
    using Cons.prems(4) c by (auto split: prod.splits)
  obtain b1 where b1: "dget (rl_buckets l1) client = Some b1" "rb_last_update b1 = t"
    "rb_tokens b1 = rb_tokens (refilled l t b) - (if allowed r then 1 else 0)"
    "allowed r \<longleftrightarrow> rb_tokens (refilled l t b) \<ge> 1"
    using rate_check_bucket[OF c Cons.prems(1)] by blast
  have rate: "refill_rate l1 = refill_rate l" "rl_burst_size l1 = rl_burst_size l"
    using rate_check_frame[OF c] by (simp_all add: refill_rate_def)
  have le: "rb_last_update b \<le> t" and srt: "sorted (t # ts)" using Cons.prems(2) by auto
  have "0 \<le> seconds_between (rb_last_update b) t * refill_rate l"
    using le Cons.prems(5) by (simp add: seconds_between_def)
  then have nn: "0 \<le> rb_tokens (refilled l t b)" using Cons.prems(3,6) by (simp add: refilled_def)
  then have "0 \<le> rb_tokens b1" using b1(3,4) by auto
  from Cons.IH[OF b1(1) _ this rest] b1(2) srt Cons.prems(5,6)
  have IH: "of_nat m \<le> rb_tokens b1 + seconds_between t (last (t # ts)) * refill_rate l"
    using rate by simp
  have "of_nat n \<le> rb_tokens (refilled l t b) + seconds_between t (last (t # ts)) * refill_rate l"
    using IH b1(3) n by (cases "allowed r") auto
  also have "\<dots> \<le> rb_tokens b + seconds_between (rb_last_update b) t * refill_rate l
      + seconds_between t (last (t # ts)) * refill_rate l" by (simp add: refilled_def)
  also have "\<dots> = rb_tokens b + seconds_between (rb_last_update b) (last (t # ts)) * refill_rate l"
    by (simp add: seconds_between_def algebra_simps add_divide_distrib diff_divide_distrib)
  finally show ?case by simp
qed

section \<open>Properties\<close>

text \<open>
  C32: A client new to the limiter gets at most the burst and what is refilled between its first
  and its last request: \<open>burst_size + requests_per_minute / 60 * seconds\<close> requests are allowed.
\<close>
theorem rate_limit_bound:
  assumes "dget (rl_buckets l) client = None" and "sorted ts" and "ts \<noteq> []"
    and "rate_checks client ts l = (n, l')"
    and "0 \<le> rl_requests_per_minute l" and "0 \<le> rl_burst_size l"
  shows "of_nat n \<le> of_int (rl_burst_size l)
    + seconds_between (hd ts) (last ts) * (of_int (rl_requests_per_minute l) / (60 :: rat))"
proof -
  let ?b = "\<lparr>rb_tokens = of_int (rl_burst_size l), rb_last_update = hd ts\<rparr>"
  let ?l = "l\<lparr>rl_buckets := dput client ?b (rl_buckets l)\<rparr>"
  have same: "rate_check (hd ts) client ?l = rate_check (hd ts) client l"
    using assms(1) by (simp add: rate_check_def Let_def refilled_def refill_rate_def dput_dput)
  obtain t rest where ts: "ts = t # rest" using assms(3) by (cases ts) auto
  have "rate_checks client ts ?l = (n, l')" using assms(4) same ts by simp
  from rate_checks_bound[OF _ _ _ this, of ?b] assms(2,5,6) ts show ?thesis
    by (simp add: refill_rate_def)
qed

text \<open>
  Credentials without capabilities, the default of \<open>generate_token\<close>, pass for an
  administrator: every method is authorized for them.
\<close>
theorem no_capabilities_is_admin:
  assumes "au_capabilities c = []"
  shows "authorize (new_authorizer method_caps admin_caps) c m"
  using assms
  by (cases admin_caps) (auto simp: authorize_def is_admin_def new_authorizer_def has_capability_def list_ex_iff)

text \<open>
  The approval methods need no capability: any credentials may list, approve and reject
  approvals, so that a client allowed to invoke tools can approve its own calls.
\<close>
theorem approval_methods_unrestricted:
  assumes "m \<in> {''approval.list'', ''approval.get'', ''approval.approve'', ''approval.reject''}"
  shows "authorize (new_authorizer [] admin_caps) c m"
proof -
  have "get_required_capabilities (new_authorizer [] admin_caps) m = []"
    using assms
    by (elim insertE emptyE)
      (simp_all add: new_authorizer_def get_required_capabilities_def default_method_capabilities_def)
  then show ?thesis by (simp add: authorize_def)
qed

text \<open>
  With a capability list that has none of the administrator's, a method with required
  capabilities is authorized exactly when all of them are held.
\<close>
theorem authorize_iff_held:
  assumes "au_capabilities c \<noteq> []" and "set (au_capabilities c) \<inter> set (az_admin_caps a) = {}"
  shows "authorize a c m \<longleftrightarrow> set (get_required_capabilities a m) \<subseteq> set (au_capabilities c)"
  using assms by (auto simp: authorize_def is_admin_def has_capability_def list_ex_iff list_all_iff)

lemma validate_signed_fails:
  assumes "dget (pv_tokens p) token = None" "authenticate cy now token p = (Some c, p')"
  shows "\<not> fst (validate_credentials now c p')"
proof -
  have v: "verify_signed_token cy now token p = Some c" "p' = p"
    using assms by (auto simp: authenticate_def)
  have "au_token c = token"
    using v(1) by (auto simp: verify_signed_token_def Let_def split: if_splits list.splits option.splits prod.splits)
  then show ?thesis using assms(1) v(2) by (simp add: validate_credentials_def)
qed

section \<open>Signed tokens\<close>

text \<open>What is relied on of HMAC digests and base64: no colon in either, and decoding inverts encoding.\<close>

definition colon_free :: "crypto \<Rightarrow> bool" where
  "colon_free cy \<longleftrightarrow>
     (\<forall>k m. CHR '':'' \<notin> set (cy_hmac cy k m)) \<and> (\<forall>m. CHR '':'' \<notin> set (cy_b64encode cy m))"

definition base64_inverse :: "crypto \<Rightarrow> bool" where
  "base64_inverse cy \<longleftrightarrow>
     (\<forall>m. cy_b64decode cy (cy_b64encode cy m) = Some m) \<and> (\<forall>m. m \<noteq> [] \<longrightarrow> cy_b64encode cy m \<noteq> [])"

lemma split_on_parts:
  "CHR '':'' \<notin> set a \<Longrightarrow> CHR '':'' \<notin> set b \<Longrightarrow> CHR '':'' \<notin> set s
   \<Longrightarrow> split_on CHR '':'' (a @ '':'' @ b @ '':'' @ c @ '':'' @ s)
       = a # b # split_on CHR '':'' (c @ '':'' @ s)"
  by (simp add: split_on_append)

lemma split_on_last:
  "CHR '':'' \<notin> set s \<Longrightarrow> split_on CHR '':'' (c @ CHR '':'' # s) = split_on CHR '':'' c @ [s]"
proof (induction c)
  case (Cons x c)
  then show ?case
    by (cases "split_on CHR '':'' c") auto
qed (simp add: split_on_plain)

lemma rsplit_once_last:
  "CHR '':'' \<notin> set s \<Longrightarrow> rsplit_once CHR '':'' (b @ CHR '':'' # s) = (b, s)"
  by (simp add: rsplit_once_def split_on_last join_split_on)

lemma split_twice_parts:
  assumes "CHR '':'' \<notin> set a" "CHR '':'' \<notin> set b"
  shows "split_twice CHR '':'' (a @ CHR '':'' # b @ CHR '':'' # c) = [a, b, c]"
proof -
  obtain d rest where d: "split_on CHR '':'' c = d # rest"
    using split_on_nonempty neq_Nil_conv by metis
  have "join '':'' (d # rest) = c" using join_split_on[of "CHR '':''" c] d by simp
  then show ?thesis using assms d by (simp add: split_twice_def split_on_append)
qed

lemma colon_not_in_nat_str: "CHR '':'' \<notin> set (nat_str n)"
  using nat_str_digits[of "CHR '':''" n] by (auto simp: digit_val_def)

lemma colon_not_in_int_str: "CHR '':'' \<notin> set (int_str i)"
  by (simp add: int_str_def colon_not_in_nat_str)

text \<open>A body signed with the provider's key is read back as its first two parts and the rest.\<close>

lemma verify_signed_body:
  assumes "colon_free cy" "CHR '':'' \<notin> set a" "b = token_payload a (int_str ts) caps_part"
  shows "verify_signed_token cy now (b @ '':'' @ cy_hmac cy (pv_secret_key p) b) p =
    (if now - ts * us_per_second > pv_lifetime_seconds p * us_per_second then None
     else Some \<lparr>au_client_id = a, au_token = b @ '':'' @ cy_hmac cy (pv_secret_key p) b,
                au_capabilities = decode_capabilities cy caps_part, au_expires_at = None\<rparr>)"
proof -
  let ?s = "cy_hmac cy (pv_secret_key p) b"
  have s: "CHR '':'' \<notin> set ?s" using assms(1) by (simp add: colon_free_def)
  have r: "rsplit_once CHR '':'' (b @ CHR '':'' # ?s) = (b, ?s)" using s by (rule rsplit_once_last)
  have t: "split_twice CHR '':'' b = [a, int_str ts, caps_part]"
    using split_twice_parts[OF assms(2) colon_not_in_int_str] assms(3) by (simp add: token_payload_def)
  have n: "\<not> count_list (b @ CHR '':'' # ?s) CHR '':'' < 3"
    using assms(3) by (simp add: token_payload_def)
  show ?thesis
    using r t n assms(3) by (simp add: verify_signed_token_def py_int_parse_int_str Let_def)
qed

lemma decode_encode_capabilities:
  assumes "base64_inverse cy" "\<forall>c \<in> set caps. CHR '','' \<notin> set c \<and> c \<noteq> []"
  shows "decode_capabilities cy (encode_capabilities cy caps) = caps"
proof (cases "caps = []")
  case True
  then show ?thesis by (simp add: encode_capabilities_def decode_capabilities_def)
next
  case False
  obtain c cs where c: "caps = c # cs" using False by (cases caps) auto
  have ne: "join '','' caps \<noteq> []" using assms(2) c by (cases cs) auto
  moreover have "split_on CHR '','' (join '','' caps) = caps"
    by (rule split_on_join) (use False assms(2) in auto)
  ultimately show ?thesis
    using assms(1) by (simp add: encode_capabilities_def decode_capabilities_def base64_inverse_def)
qed

text \<open>
  C33: A signed token verifies back to the client and the capabilities it was created for until its
  lifetime is over, for a client id without a colon and non-empty capabilities without a comma.
\<close>
theorem signed_token_roundtrip:
  assumes "colon_free cy" and "base64_inverse cy" and "CHR '':'' \<notin> set client"
    and "\<forall>c \<in> set caps. CHR '','' \<notin> set c \<and> c \<noteq> []"
    and "later - now div us_per_second * us_per_second \<le> pv_lifetime_seconds p * us_per_second"
    and "token = create_signed_token cy now client caps p"
  shows "verify_signed_token cy later token p
    = Some \<lparr>au_client_id = client, au_token = token, au_capabilities = caps, au_expires_at = None\<rparr>"
  using verify_signed_body[OF assms(1,3) refl, where ts = "now div us_per_second"
      and caps_part = "encode_capabilities cy caps" and now = later and p = p]
    assms(5) decode_encode_capabilities[OF assms(2,4)]
  by (simp add: assms(6) create_signed_token_def Let_def)

text \<open>
  A client id may hold a colon: the token signed for client \<open>a:t\<close> verifies as a token of client
  \<open>a\<close> issued at the time \<open>t\<close> its bearer chose.
\<close>
theorem signed_token_of_other_client:
  assumes "colon_free cy" and "CHR '':'' \<notin> set a"
    and "later - t * us_per_second \<le> pv_lifetime_seconds p * us_per_second"
  shows "\<exists>c. verify_signed_token cy later (create_signed_token cy now (a @ '':'' @ int_str t) caps p) p = Some c
    \<and> au_client_id c = a"
proof -
  let ?rest = "int_str (now div us_per_second) @ '':'' @ encode_capabilities cy caps"
  have e: "token_payload (a @ '':'' @ int_str t) (int_str (now div us_per_second)) (encode_capabilities cy caps)
    = token_payload a (int_str t) ?rest" by (simp add: token_payload_def)
  show ?thesis
    using verify_signed_body[OF assms(1,2) refl, where ts = t and caps_part = ?rest and now = later and p = p] assms(3)
    unfolding create_signed_token_def e by (simp add: Let_def)
qed

section \<open>Concrete runs\<close>

text \<open>A crypto whose digest and base64 are hexadecimal renderings.\<close>

fun to_hex :: "string \<Rightarrow> string" where
  "to_hex [] = []"
| "to_hex (c # cs) = hex_char (of_char c div 16) # hex_char (of_char c mod 16) # to_hex cs"

definition hex_digit_val :: "char \<Rightarrow> nat" where
  "hex_digit_val c = (let n = of_char c :: nat in if n < 58 then n - 48 else n - 87)"

fun from_hex :: "string \<Rightarrow> string option" where
  "from_hex [] = Some []"
| "from_hex [c] = None"
| "from_hex (a # b # s) =
     map_option (Cons (char_of (16 * hex_digit_val a + hex_digit_val b))) (from_hex s)"

definition demo_crypto :: crypto where
  "demo_crypto = \<lparr>cy_hmac = (\<lambda>k m. to_hex (k @ m)), cy_b64encode = to_hex, cy_b64decode = from_hex\<rparr>"

lemma hex_char_val: "n < 16 \<Longrightarrow> hex_digit_val (hex_char n) = n"
  by (simp add: hex_digit_val_def hex_char_def)

lemma colon_not_hex_char: "n < 16 \<Longrightarrow> CHR '':'' \<noteq> hex_char n"
proof
  assume "n < 16" "CHR '':'' = hex_char n"
  then have "of_char (CHR '':'') = (of_char (hex_char n) :: nat)" by simp
  then show False using \<open>n < 16\<close> by (simp add: hex_char_def split: if_splits)
qed

lemma of_char_bound: "of_char c < (256 :: nat)"
  by (metis of_char_mod_256 mod_less_divisor zero_less_numeral)

lemma hex_halves: "of_char c div 16 < (16 :: nat)" "of_char c mod 16 < (16 :: nat)"
  using of_char_bound[of c] less_mult_imp_div_less[of "of_char c :: nat" 16 16] by simp_all

lemma colon_not_to_hex: "CHR '':'' \<notin> set (to_hex s)"
proof (induction s)
  case (Cons c s)
  then show ?case using colon_not_hex_char hex_halves[of c] by auto
qed simp

lemma from_to_hex: "from_hex (to_hex s) = Some s"
proof (induction s)
  case (Cons c s)
  then show ?case by (simp add: hex_char_val hex_halves)
qed simp

lemma demo_crypto_ok: "colon_free demo_crypto" "base64_inverse demo_crypto"
proof -
  have "m \<noteq> [] \<Longrightarrow> to_hex m \<noteq> []" for m by (cases m) auto
  then show "base64_inverse demo_crypto" by (simp add: base64_inverse_def demo_crypto_def from_to_hex)
  show "colon_free demo_crypto" by (simp add: colon_free_def demo_crypto_def colon_not_to_hex)
qed

definition demo_provider :: token_provider where
  "demo_provider = \<lparr>pv_secret_key = ''k'', pv_lifetime_seconds = 3600, pv_tokens = []\<rparr>"

definition demo_token :: string where
  "demo_token = create_signed_token demo_crypto 5000000 ''bot'' [''case:read''] demo_provider"

theorem signed_token_roundtrip_witness:
  "verify_signed_token demo_crypto 6000000 demo_token demo_provider
    = Some \<lparr>au_client_id = ''bot'', au_token = demo_token, au_capabilities = [''case:read''],
            au_expires_at = None\<rparr>"
  by (rule signed_token_roundtrip[OF demo_crypto_ok, where now = 5000000])
     (simp_all add: demo_provider_def demo_token_def us_per_second_def)

theorem signed_token_of_other_client_witness:
  "\<exists>c. verify_signed_token demo_crypto 6000000000000
      (create_signed_token demo_crypto 5000000 (''bot'' @ '':'' @ int_str 9999999) [] demo_provider) demo_provider
     = Some c \<and> au_client_id c = ''bot''"
  by (rule signed_token_of_other_client[OF demo_crypto_ok(1)])
     (simp_all add: demo_provider_def us_per_second_def)

definition demo_limiter :: rate_limiter where
  "demo_limiter = \<lparr>rl_requests_per_minute = 60, rl_burst_size = 2, rl_buckets = []\<rparr>"

theorem rate_limit_bound_witness:
  "fst (rate_checks ''c'' [0, 0, 0, 500000, 1000000] demo_limiter) = 3
    \<and> of_nat (fst (rate_checks ''c'' [0, 0, 0, 500000, 1000000] demo_limiter)) \<le> (3 :: rat)"
proof
  show "fst (rate_checks ''c'' [0, 0, 0, 500000, 1000000] demo_limiter) = 3" by code_simp
  have "of_nat (fst (rate_checks ''c'' [0, 0, 0, 500000, 1000000] demo_limiter))
      \<le> of_int (rl_burst_size demo_limiter)
        + seconds_between (hd [0, 0, 0, 500000, 1000000]) (last [0, 0, 0, 500000, 1000000])
          * (of_int (rl_requests_per_minute demo_limiter) / (60 :: rat))"
    by (rule rate_limit_bound[OF _ _ _ prod.collapse[symmetric]]) (simp_all add: demo_limiter_def)
  then show "of_nat (fst (rate_checks ''c'' [0, 0, 0, 500000, 1000000] demo_limiter)) \<le> (3 :: rat)"
    by (simp add: demo_limiter_def seconds_between_def)
qed

definition demo_credentials :: "string list \<Rightarrow> auth_credentials" where
  "demo_credentials caps =
     \<lparr>au_client_id = ''bot'', au_token = ''t'', au_capabilities = caps, au_expires_at = None\<rparr>"

theorem no_capabilities_is_admin_witness:
  "authorize (new_authorizer [] []) (demo_credentials []) ''skill.disable''"
  by (rule no_capabilities_is_admin) (simp add: demo_credentials_def)

theorem approval_methods_unrestricted_witness:
  "authorize (new_authorizer [] []) (demo_credentials [''tool:invoke'']) ''approval.approve''"
  by (rule approval_methods_unrestricted) simp

theorem authorize_iff_held_witness:
  "authorize (new_authorizer [] []) (demo_credentials [''case:read'']) ''case.get''
    \<and> \<not> authorize (new_authorizer [] []) (demo_credentials [''case:read'']) ''case.create''"
proof -
  have "au_capabilities (demo_credentials [''case:read'']) \<noteq> []"
    and "set (au_capabilities (demo_credentials [''case:read'']))
      \<inter> set (az_admin_caps (new_authorizer [] [])) = {}"
    by (simp_all add: demo_credentials_def new_authorizer_def)
  from authorize_iff_held[OF this] show ?thesis
    by (simp add: demo_credentials_def get_required_capabilities_def new_authorizer_def
        default_method_capabilities_def)
qed

end
