(* ===== verification/GatewaySubs.thy ===== *)
theory GatewaySubs
  imports Prelude
begin

text \<open>
  The subscription registry of the gateway (\<open>gateway/subscriptions.py\<close>): two dictionaries of sets,
  from topics to clients and from clients to topics, kept consistent. Its abstraction is the
  relation of clients and topics; each operation refines the obvious operation on the relation.
\<close>

section \<open>The registry\<close>

record subscription_registry =
  sb_topic_clients :: "(string \<times> string set) list"
  sb_client_topics :: "(string \<times> string set) list"

definition new_subscriptions :: subscription_registry where
  "new_subscriptions = \<lparr>sb_topic_clients = [], sb_client_topics = []\<rparr>"

text \<open>Reading and writing a \<open>defaultdict(set)\<close>.\<close>

definition dset :: "('k \<times> 'v set) list \<Rightarrow> 'k \<Rightarrow> 'v set" where
  "dset d k = (case dget d k of None \<Rightarrow> {} | Some s \<Rightarrow> s)"

definition dset_add :: "'k \<Rightarrow> 'v \<Rightarrow> ('k \<times> 'v set) list \<Rightarrow> ('k \<times> 'v set) list" where
  "dset_add k v d = dput k (insert v (dset d k)) d"

definition dset_discard :: "'k \<Rightarrow> 'v \<Rightarrow> ('k \<times> 'v set) list \<Rightarrow> ('k \<times> 'v set) list" where
  "dset_discard k v d = dput k (dset d k - {v}) d"

definition subscribe :: "string \<Rightarrow> string \<Rightarrow> subscription_registry \<Rightarrow> subscription_registry" where
  "subscribe client topic r =
     r\<lparr>sb_topic_clients := dset_add topic client (sb_topic_clients r),
       sb_client_topics := dset_add client topic (sb_client_topics r)\<rparr>"

definition unsubscribe :: "string \<Rightarrow> string \<Rightarrow> subscription_registry \<Rightarrow> subscription_registry" where
  "unsubscribe client topic r =
     r\<lparr>sb_topic_clients := dset_discard topic client (sb_topic_clients r),
       sb_client_topics := dset_discard client topic (sb_client_topics r)\<rparr>"

text \<open>\<open>ord\<close> is the order in which a set of strings is listed.\<close>

definition remove_client ::
    "(string set \<Rightarrow> string list) \<Rightarrow> string \<Rightarrow> subscription_registry \<Rightarrow> subscription_registry" where
  "remove_client ord client r =
     r\<lparr>sb_topic_clients :=
         foldl (\<lambda>d t. dset_discard t client d) (sb_topic_clients r) (ord (dset (sb_client_topics r) client)),
       sb_client_topics := ddel client (sb_client_topics r)\<rparr>"

definition topic_matches :: "string \<Rightarrow> string \<Rightarrow> bool" where
  "topic_matches pattern topic \<longleftrightarrow>
     pattern = topic \<or> (ends_with pattern ''.*'' \<and> starts_with topic (butlast pattern))"

definition resolve_clients :: "subscription_registry \<Rightarrow> string \<Rightarrow> string set" where
  "resolve_clients r topic =
     foldl (\<lambda>m (t, cs). if topic_matches t topic then m \<union> cs else m) {} (sb_topic_clients r)"

definition list_topics :: "subscription_registry \<Rightarrow> string \<Rightarrow> string list" where
  "list_topics r client = sorted_list_of_set (dset (sb_client_topics r) client)"

section \<open>The abstract relation\<close>

definition subscribed :: "subscription_registry \<Rightarrow> (string \<times> string) set" where
  "subscribed r = {(c, t). c \<in> dset (sb_topic_clients r) t}"

text \<open>Both dictionaries hold the same relation, over distinct keys, with finitely many topics a client.\<close>

definition registry_consistent :: "subscription_registry \<Rightarrow> bool" where
  "registry_consistent r \<longleftrightarrow>
     (\<forall>c t. t \<in> dset (sb_client_topics r) c \<longleftrightarrow> c \<in> dset (sb_topic_clients r) t)
     \<and> distinct (dkeys (sb_topic_clients r))
     \<and> (\<forall>c. finite (dset (sb_client_topics r) c)) \<and> (\<forall>t. finite (dset (sb_topic_clients r) t))"

text \<open>An order lists exactly the elements of a finite set, each once.\<close>

definition lists_sets :: "(string set \<Rightarrow> string list) \<Rightarrow> bool" where
  "lists_sets ord \<longleftrightarrow> (\<forall>S. finite S \<longrightarrow> set (ord S) = S \<and> distinct (ord S))"

lemma lists_setsD: "lists_sets ord \<Longrightarrow> finite S \<Longrightarrow> set (ord S) = S" "lists_sets ord \<Longrightarrow> finite S \<Longrightarrow> distinct (ord S)"
  by (simp_all add: lists_sets_def)

lemma lists_sets_sorted: "lists_sets sorted_list_of_set"
  by (simp add: lists_sets_def)

lemma dset_simps [simp]:
  "dset [] k = {}"
  "dset (dset_add k v d) k' = (if k' = k then insert v (dset d k) else dset d k')"
  "dset (dset_discard k v d) k' = (if k' = k then dset d k - {v} else dset d k')"
  "dset (ddel k d) k' = (if k' = k then {} else dset d k')"
  by (simp_all add: dset_def dset_add_def dset_discard_def)

lemma distinct_dset [simp]:
  "distinct (dkeys d) \<Longrightarrow> distinct (dkeys (dset_add k v d))"
  "distinct (dkeys d) \<Longrightarrow> distinct (dkeys (dset_discard k v d))"
  by (simp_all add: dset_add_def dset_discard_def)

lemma dset_discard_all:
  "dset (foldl (\<lambda>d t. dset_discard t c d) d ts) t = (if t \<in> set ts then dset d t - {c} else dset d t)"
  by (induction ts arbitrary: d) auto

lemma distinct_discard_all:
  "distinct (dkeys d) \<Longrightarrow> distinct (dkeys (foldl (\<lambda>d t. dset_discard t c d) d ts))"
  by (induction ts arbitrary: d) simp_all

lemma new_subscriptions_ok: "registry_consistent new_subscriptions" "subscribed new_subscriptions = {}"
  by (simp_all add: registry_consistent_def subscribed_def new_subscriptions_def)

lemma subscribe_ok:
  assumes "registry_consistent r"
  shows "registry_consistent (subscribe c t r)" "subscribed (subscribe c t r) = insert (c, t) (subscribed r)"
  using assms by (auto simp: registry_consistent_def subscribed_def subscribe_def split: if_splits)

lemma unsubscribe_ok:
  assumes "registry_consistent r"
  shows "registry_consistent (unsubscribe c t r)" "subscribed (unsubscribe c t r) = subscribed r - {(c, t)}"
  using assms by (auto simp: registry_consistent_def subscribed_def unsubscribe_def split: if_splits)

lemma remove_client_ok:
  assumes "registry_consistent r" "lists_sets ord"
  shows "registry_consistent (remove_client ord c r)"
    "subscribed (remove_client ord c r) = {(d, t) \<in> subscribed r. d \<noteq> c}"
  using assms lists_setsD(1)[OF assms(2), of "dset (sb_client_topics r) c"]
  by (auto simp: registry_consistent_def subscribed_def remove_client_def dset_discard_all
      distinct_discard_all split: if_splits)

lemma resolve_fold:
  "foldl (\<lambda>m (t, cs). if topic_matches t topic then m \<union> cs else m) M d
     = M \<union> {c. \<exists>t cs. (t, cs) \<in> set d \<and> topic_matches t topic \<and> c \<in> cs}"
proof (induction d arbitrary: M)
  case (Cons x d)
  obtain t cs where x: "x = (t, cs)" by fastforce
  show ?case using Cons.IH[of "if topic_matches t topic then M \<union> cs else M"] unfolding x by auto
qed simp

lemma resolve_clients_iff:
  assumes "registry_consistent r"
  shows "resolve_clients r topic = {c. \<exists>t. (c, t) \<in> subscribed r \<and> topic_matches t topic}"
proof -
  have d: "distinct (dkeys (sb_topic_clients r))" using assms by (simp add: registry_consistent_def)
  have "(\<exists>t cs. (t, cs) \<in> set (sb_topic_clients r) \<and> topic_matches t topic \<and> c \<in> cs)
      \<longleftrightarrow> (\<exists>t. c \<in> dset (sb_topic_clients r) t \<and> topic_matches t topic)" for c
    unfolding dget_in_set[OF d] by (auto simp: dset_def split: option.splits)
  then show ?thesis by (simp add: resolve_clients_def resolve_fold subscribed_def)
qed

lemma finite_resolve_clients: "registry_consistent r \<Longrightarrow> finite (resolve_clients r topic)"
proof -
  assume r: "registry_consistent r"
  have f: "finite (dset (sb_topic_clients r) t)" for t using r by (simp add: registry_consistent_def)
  have "resolve_clients r topic \<subseteq> (\<Union>t \<in> set (dkeys (sb_topic_clients r)). dset (sb_topic_clients r) t)"
  proof
    fix c
    assume "c \<in> resolve_clients r topic"
    then obtain t where t: "c \<in> dset (sb_topic_clients r) t"
      unfolding resolve_clients_iff[OF r] subscribed_def by blast
    then have "t \<in> set (dkeys (sb_topic_clients r))"
      by (auto simp: dset_def image_iff dest!: map_of_SomeD split: option.splits intro: bexI[rotated])
    with t show "c \<in> (\<Union>t \<in> set (dkeys (sb_topic_clients r)). dset (sb_topic_clients r) t)" by blast
  qed
  then show ?thesis by (rule finite_subset) (simp add: f)
qed

lemma list_topics_sorted:
  assumes "registry_consistent r"
  shows "set (list_topics r c) = {t. (c, t) \<in> subscribed r}" "sorted (list_topics r c)" "distinct (list_topics r c)"
proof -
  have "dset (sb_client_topics r) c = {t. c \<in> dset (sb_topic_clients r) t}"
    using assms by (auto simp: registry_consistent_def)
  moreover have "finite (dset (sb_client_topics r) c)"
    using assms by (simp add: registry_consistent_def)
  ultimately show "set (list_topics r c) = {t. (c, t) \<in> subscribed r}"
    by (simp add: list_topics_def subscribed_def)
qed (simp_all add: list_topics_def)

section \<open>Topic patterns\<close>

lemma topic_matches_prefix: "topic_matches (p @ ''.*'') topic \<longleftrightarrow> topic = p @ ''.*'' \<or> (\<exists>s. topic = p @ ''.'' @ s)"
  by (auto simp: topic_matches_def ends_with_iff starts_with_iff butlast_append)

lemma topic_matches_plain: "\<not> ends_with p ''.*'' \<Longrightarrow> topic_matches p topic \<longleftrightarrow> p = topic"
  by (simp add: topic_matches_def)

section \<open>The interface of a subscription book\<close>

text \<open>
  What the broadcaster relies on: the operations act on the relation, and the clients resolved for
  a topic are those with a matching subscription.
\<close>

datatype book_op = Subscribe_op string string | Unsubscribe_op string string | Remove_op string

fun run_op ::
    "(string \<Rightarrow> string \<Rightarrow> 'r \<Rightarrow> 'r) \<Rightarrow> (string \<Rightarrow> string \<Rightarrow> 'r \<Rightarrow> 'r) \<Rightarrow> (string \<Rightarrow> 'r \<Rightarrow> 'r)
     \<Rightarrow> book_op \<Rightarrow> 'r \<Rightarrow> 'r" where
  "run_op sub unsub remove (Subscribe_op c t) r = sub c t r"
| "run_op sub unsub remove (Unsubscribe_op c t) r = unsub c t r"
| "run_op sub unsub remove (Remove_op c) r = remove c r"

text \<open>The same operation on the relation itself.\<close>

fun book_spec :: "book_op \<Rightarrow> (string \<times> string) set \<Rightarrow> (string \<times> string) set" where
  "book_spec (Subscribe_op c t) R = insert (c, t) R"
| "book_spec (Unsubscribe_op c t) R = R - {(c, t)}"
| "book_spec (Remove_op c) R = {(d, t) \<in> R. d \<noteq> c}"

locale subscription_book =
  fixes ok :: "'r \<Rightarrow> bool"
    and rel :: "'r \<Rightarrow> (string \<times> string) set"
    and sub :: "string \<Rightarrow> string \<Rightarrow> 'r \<Rightarrow> 'r"
    and unsub :: "string \<Rightarrow> string \<Rightarrow> 'r \<Rightarrow> 'r"
    and remove :: "string \<Rightarrow> 'r \<Rightarrow> 'r"
    and resolve :: "'r \<Rightarrow> string \<Rightarrow> string set"
    and matches :: "string \<Rightarrow> string \<Rightarrow> bool"
  assumes sub_ok: "ok r \<Longrightarrow> ok (sub c t r)"
    and rel_sub: "ok r \<Longrightarrow> rel (sub c t r) = insert (c, t) (rel r)"
    and unsub_ok: "ok r \<Longrightarrow> ok (unsub c t r)"
    and rel_unsub: "ok r \<Longrightarrow> rel (unsub c t r) = rel r - {(c, t)}"
    and remove_ok: "ok r \<Longrightarrow> ok (remove c r)"
    and rel_remove: "ok r \<Longrightarrow> rel (remove c r) = {(d, t) \<in> rel r. d \<noteq> c}"
    and resolve_iff: "ok r \<Longrightarrow> c \<in> resolve r topic \<longleftrightarrow> (\<exists>t. (c, t) \<in> rel r \<and> matches t topic)"
begin

lemma resolved_after_sub:
  "ok r \<Longrightarrow> resolve (sub c t r) topic = resolve r topic \<union> (if matches t topic then {c} else {})"
  by (auto simp: resolve_iff sub_ok rel_sub)

lemma removed_not_resolved: "ok r \<Longrightarrow> c \<notin> resolve (remove c r) topic"
  by (simp add: resolve_iff remove_ok rel_remove)

lemma others_kept_by_remove: "ok r \<Longrightarrow> d \<noteq> c \<Longrightarrow> d \<in> resolve (remove c r) topic \<longleftrightarrow> d \<in> resolve r topic"
  by (auto simp: resolve_iff remove_ok rel_remove)

lemma unsub_sub_other:
  "ok r \<Longrightarrow> (c, t) \<notin> rel r \<Longrightarrow> resolve (unsub c t (sub c t r)) topic = resolve r topic"
  by (auto simp: resolve_iff sub_ok unsub_ok rel_sub rel_unsub)

lemma run_refines:
  "ok r \<Longrightarrow> ok (foldl (\<lambda>r op. run_op sub unsub remove op r) r ops)
     \<and> rel (foldl (\<lambda>r op. run_op sub unsub remove op r) r ops) = foldl (\<lambda>R op. book_spec op R) (rel r) ops"
proof (induction ops arbitrary: r)
  case (Cons op ops)
  have "ok (run_op sub unsub remove op r) \<and> rel (run_op sub unsub remove op r) = book_spec op (rel r)"
    using Cons.prems by (cases op) (simp_all add: sub_ok rel_sub unsub_ok rel_unsub remove_ok rel_remove)
  with Cons.IH show ?case by simp
qed simp

end

lemma subscription_book_any:
  "lists_sets ord \<Longrightarrow> subscription_book registry_consistent subscribed subscribe unsubscribe
     (remove_client ord) resolve_clients topic_matches"
  by unfold_locales (simp_all add: subscribe_ok unsubscribe_ok remove_client_ok resolve_clients_iff)

interpretation book: subscription_book registry_consistent subscribed subscribe unsubscribe
  "remove_client sorted_list_of_set" resolve_clients topic_matches
  by (rule subscription_book_any[OF lists_sets_sorted])

text \<open>
  C37: The two dictionaries refine one relation between clients and topics: after any sequence of
  subscriptions, cancellations and removals, in whatever order a set is listed, they hold the
  relation those operations make of the empty one; a topic is resolved to the clients with a
  matching pattern in it, and the topics of a client are listed in order.
\<close>
theorem subscriptions_refine_relation:
  assumes "lists_sets ord"
    and "r = foldl (\<lambda>r op. run_op subscribe unsubscribe (remove_client ord) op r) new_subscriptions ops"
    and "R = foldl (\<lambda>R op. book_spec op R) {} ops"
  shows "subscribed r = R
    \<and> resolve_clients r topic = {c. \<exists>t. (c, t) \<in> R \<and> topic_matches t topic}
    \<and> list_topics r client = sorted_list_of_set {t. (client, t) \<in> R}"
proof -
  have r: "registry_consistent r" "subscribed r = R"
    using subscription_book.run_refines[OF subscription_book_any[OF assms(1)] new_subscriptions_ok(1), of ops]
    by (simp_all add: assms(2,3) new_subscriptions_ok(2))
  have "list_topics r client = sorted_list_of_set {t. (client, t) \<in> R}"
    using list_topics_sorted[OF r(1), of client] r(2) by (metis sorted_list_of_set.idem_if_sorted_distinct)
  with r resolve_clients_iff[OF r(1)] show ?thesis by simp
qed

theorem subscriptions_refine_relation_witness:
  "resolve_clients (foldl (\<lambda>r op. run_op subscribe unsubscribe (remove_client sorted_list_of_set) op r)
      new_subscriptions [Subscribe_op ''a'' ''case.*'', Subscribe_op ''b'' ''case.1'', Remove_op ''b'']) ''case.1''
   = {''a''}"
  unfolding subscriptions_refine_relation[OF lists_sets_sorted refl refl, THEN conjunct2, THEN conjunct1]
  by (auto simp: topic_matches_def ends_with_def starts_with_def)

end
