(* ===== verification/GatewayServer.thy ===== *)
theory GatewayServer
  imports GatewayAuth GatewaySubs
begin

text \<open>
  The gateway server (\<open>gateway/server.py\<close> with \<open>protocol.py\<close>, \<open>connection.py\<close>, \<open>broadcaster.py\<close>,
  \<open>event_sink.py\<close>, \<open>method_registry.py\<close> and \<open>errors.py\<close>): connections with their inboxes, the
  broadcast of events to subscribers, and requests that pass the security checks before their
  method runs. \<open>'g\<close> is the runtime the business methods work on; they close over it and never
  see the server, so they are lifted from functions on \<open>'g\<close>.

  Frames are pydantic models that strip white space from their strings and from the keys of their
  dictionaries. The text of an exception, the order in which a set is listed and the cryptography
  are arguments.
\<close>

section \<open>Frames (gateway/protocol.py, gateway/connection.py)\<close>

definition frame_types :: "string list" where
  "frame_types = [''request'', ''response'', ''event'', ''connected'', ''ping'', ''pong'',
     ''subscribe'', ''subscribed'', ''unsubscribe'', ''unsubscribed'']"

record gateway_inputs =
  gi_now :: int
  gi_fresh :: string

record request_frame =
  rf_request_id :: string
  rf_method :: string
  rf_params :: pydict
  rf_client_id :: "string option"

record response_frame =
  sf_request_id :: string
  sf_ok :: bool
  sf_result :: pydict
  sf_error :: "pydict option"

record event_frame =
  ef_event_id :: string
  ef_topic :: string
  ef_payload :: pydict
  ef_created_at :: int

definition json_datetime :: "int \<Rightarrow> string" where
  "json_datetime t = (let s = iso_format t in take (length s - 6) s @ ''Z'')"

definition event_dump :: "event_frame \<Rightarrow> pydict" where
  "event_dump e =
     [(''frame_type'', PStr ''event''), (''event_id'', PStr (ef_event_id e)),
      (''topic'', PStr (ef_topic e)), (''payload'', PDict (ef_payload e)),
      (''created_at'', PStr (json_datetime (ef_created_at e))), (''protocol_version'', PStr ''1.0'')]"

definition make_event :: "gateway_inputs \<Rightarrow> string \<Rightarrow> pydict \<Rightarrow> event_frame res" where
  "make_event i topic payload =
     (if py_strip topic = [] then Inl validation_error
      else Inr \<lparr>ef_event_id = ''gw-evt-'' @ gi_fresh i, ef_topic = py_strip topic,
                ef_payload = strip_keys payload, ef_created_at = gi_now i\<rparr>)"

definition make_response ::
    "string \<Rightarrow> bool \<Rightarrow> pydict \<Rightarrow> pydict option \<Rightarrow> response_frame res" where
  "make_response request_id ok result err =
     (if py_strip request_id = [] then Inl validation_error
      else Inr \<lparr>sf_request_id = py_strip request_id, sf_ok = ok, sf_result = strip_keys result,
                sf_error = map_option strip_keys err\<rparr>)"

definition response_dump :: "response_frame \<Rightarrow> pydict" where
  "response_dump r =
     [(''frame_type'', PStr ''response''), (''request_id'', PStr (sf_request_id r)),
      (''ok'', PBool (sf_ok r)), (''result'', PDict (sf_result r)),
      (''error'', (case sf_error r of None \<Rightarrow> PNone | Some e \<Rightarrow> PDict e)),
      (''protocol_version'', PStr ''1.0'')]"

text \<open>\<open>GatewayRequestFrame.model_validate\<close>: no other keys, a known frame type, and the field types.\<close>

definition request_keys :: "string list" where
  "request_keys = [''frame_type'', ''request_id'', ''method'', ''params'', ''client_id'', ''protocol_version'']"

definition parse_request :: "gateway_inputs \<Rightarrow> pydict \<Rightarrow> request_frame option" where
  "parse_request i d =
     (if \<not> set (dkeys d) \<subseteq> set request_keys then None
      else case (py_get_or d ''frame_type'' (PStr ''request''),
                 py_get_or d ''request_id'' (PStr (''gw-req-'' @ gi_fresh i)),
                 py_get d ''method'',
                 py_get_or d ''params'' (PDict []),
                 py_get_or d ''protocol_version'' (PStr ''1.0'')) of
        (PStr ft, PStr rid, PStr m, PDict params, PStr _) \<Rightarrow>
          (if ft \<notin> set frame_types \<or> py_strip m = [] then None
           else case py_get d ''client_id'' of
                  PNone \<Rightarrow> Some \<lparr>rf_request_id = py_strip rid, rf_method = py_strip m,
                                rf_params = strip_keys params, rf_client_id = None\<rparr>
                | PStr c \<Rightarrow> Some \<lparr>rf_request_id = py_strip rid, rf_method = py_strip m,
                                 rf_params = strip_keys params, rf_client_id = Some (py_strip c)\<rparr>
                | _ \<Rightarrow> None)
      | _ \<Rightarrow> None)"

record gateway_connection =
  gc_client_id :: string
  gc_connected_at :: string
  gc_capabilities :: "string set"
  gc_subscriptions :: "string set"
  gc_inbox :: "event_frame list"

definition connection_can :: "gateway_connection \<Rightarrow> string \<Rightarrow> bool" where
  "connection_can c cap \<longleftrightarrow> cap \<in> gc_capabilities c"

definition new_connection :: "int \<Rightarrow> string \<Rightarrow> string set \<Rightarrow> gateway_connection" where
  "new_connection now client caps =
     \<lparr>gc_client_id = client, gc_connected_at = iso_format now, gc_capabilities = caps,
      gc_subscriptions = {}, gc_inbox = []\<rparr>"

section \<open>Event sink and broadcaster (gateway/event_sink.py, gateway/broadcaster.py)\<close>

type_synonym event_sink = "pydict list"

definition sink_publish :: "pydict \<Rightarrow> event_sink \<Rightarrow> event_sink" where
  "sink_publish e k = k @ [e]"

text \<open>\<open>_events[-limit:]\<close>: for a limit of zero the slice \<open>[-0:]\<close> is the whole list.\<close>

definition sink_list_events :: "int \<Rightarrow> event_sink \<Rightarrow> pydict list" where
  "sink_list_events limit k = (if limit < 0 then k else if limit = 0 then k else last_n (nat limit) k)"

type_synonym connections = "(string \<times> gateway_connection) list"

record broadcast_result =
  br_topic :: string
  br_delivered_count :: nat
  br_dropped_clients :: "string list"

definition max_inbox_size :: nat where
  "max_inbox_size = 200"

fun deliver :: "event_frame \<Rightarrow> string list \<Rightarrow> nat \<Rightarrow> string list \<Rightarrow> connections \<Rightarrow> nat \<times> string list \<times> connections" where
  "deliver e [] n dropped cs = (n, dropped, cs)"
| "deliver e (c # rest) n dropped cs =
     (case dget cs c of
        None \<Rightarrow> deliver e rest n dropped cs
      | Some cn \<Rightarrow>
          (if length (gc_inbox cn) \<ge> max_inbox_size then deliver e rest n (dropped @ [c]) cs
           else deliver e rest (Suc n) dropped (dput c (cn\<lparr>gc_inbox := gc_inbox cn @ [e]\<rparr>) cs)))"

section \<open>The server (gateway/server.py)\<close>

record gateway_ctx =
  gx_order :: "string set \<Rightarrow> string list"
  gx_crypto :: crypto
  gx_error_text :: "pyerr \<Rightarrow> string"

record 'g gateway_server =
  gs_connections :: connections
  gs_subscriptions :: subscription_registry
  gs_sink :: event_sink
  gs_provider :: "token_provider option"
  gs_authorizer :: authorizer
  gs_limiter :: "rate_limiter option"
  gs_runtime :: 'g

definition new_gateway_server ::
    "'g \<Rightarrow> token_provider option \<Rightarrow> authorizer option \<Rightarrow> rate_limiter option \<Rightarrow> 'g gateway_server" where
  "new_gateway_server g provider az limiter =
     \<lparr>gs_connections = [], gs_subscriptions = new_subscriptions, gs_sink = [],
      gs_provider = provider,
      gs_authorizer = (case az of None \<Rightarrow> new_authorizer [] [] | Some a \<Rightarrow> a),
      gs_limiter = limiter, gs_runtime = g\<rparr>"

definition gateway_connect ::
    "gateway_inputs \<Rightarrow> string list \<Rightarrow> 'g gateway_server \<Rightarrow> gateway_connection \<times> 'g gateway_server" where
  "gateway_connect i caps s =
     (let cn = new_connection (gi_now i) (''gw-client-'' @ gi_fresh i) (set caps)
      in (cn, s\<lparr>gs_connections := dput (gc_client_id cn) cn (gs_connections s)\<rparr>))"

definition gateway_disconnect :: "gateway_ctx \<Rightarrow> string \<Rightarrow> 'g gateway_server \<Rightarrow> 'g gateway_server" where
  "gateway_disconnect cx client s =
     s\<lparr>gs_subscriptions := remove_client (gx_order cx) client (gs_subscriptions s),
       gs_connections := ddel client (gs_connections s)\<rparr>"

definition broadcast ::
    "gateway_ctx \<Rightarrow> event_frame \<Rightarrow> 'g gateway_server \<Rightarrow> broadcast_result \<times> 'g gateway_server" where
  "broadcast cx e s =
     (let s1 = s\<lparr>gs_sink := sink_publish (event_dump e) (gs_sink s)\<rparr>
      in case deliver e (gx_order cx (resolve_clients (gs_subscriptions s) (ef_topic e))) 0 []
                (gs_connections s) of
           (n, dropped, cs) \<Rightarrow>
             (\<lparr>br_topic = ef_topic e, br_delivered_count = n, br_dropped_clients = dropped\<rparr>,
              s1\<lparr>gs_connections := cs\<rparr>))"

definition gateway_publish ::
    "gateway_ctx \<Rightarrow> gateway_inputs \<Rightarrow> string \<Rightarrow> pydict \<Rightarrow> 'g gateway_server \<Rightarrow> pydict res \<times> 'g gateway_server" where
  "gateway_publish cx i topic payload s =
     (case make_event i topic payload of
        Inl e \<Rightarrow> (Inl e, s)
      | Inr e \<Rightarrow>
          (case broadcast cx e s of (r, s') \<Rightarrow>
             (Inr [(''topic'', PStr (br_topic r)),
                   (''delivered_count'', PInt (int (br_delivered_count r))),
                   (''dropped_clients'', PList (map PStr (br_dropped_clients r)))], s')))"

definition poll_events :: "string \<Rightarrow> bool \<Rightarrow> 'g gateway_server \<Rightarrow> pydict list \<times> 'g gateway_server" where
  "poll_events client clear s =
     (case dget (gs_connections s) client of
        None \<Rightarrow> ([], s)
      | Some cn \<Rightarrow>
          (map event_dump (gc_inbox cn),
           if clear then s\<lparr>gs_connections := dput client (cn\<lparr>gc_inbox := []\<rparr>) (gs_connections s)\<rparr>
           else s))"

subsection \<open>Methods\<close>

type_synonym 'g business_method = "gateway_inputs \<Rightarrow> pydict \<Rightarrow> 'g \<Rightarrow> pydict res \<times> 'g"
type_synonym 'g gateway_method =
  "gateway_inputs \<Rightarrow> pydict \<Rightarrow> 'g gateway_server \<Rightarrow> pydict res \<times> 'g gateway_server"

definition invalid_params :: "string \<Rightarrow> pyerr" where
  "invalid_params msg = GatewayError ''validation_error'' msg"

definition text_param :: "string \<Rightarrow> pydict \<Rightarrow> string" where
  "text_param k params = py_str (py_get_or params k (PStr []))"

definition subscription_reply :: "string \<Rightarrow> subscription_registry \<Rightarrow> pydict" where
  "subscription_reply client r =
     [(''client_id'', PStr client), (''topics'', PList (map PStr (list_topics r client)))]"

definition method_subscribe :: "'g gateway_method" where
  "method_subscribe i params s =
     (let client = text_param ''client_id'' params; topic = text_param ''topic'' params in
      if client = [] \<or> topic = [] then (Inl (invalid_params ''client_id and topic are required''), s)
      else case dget (gs_connections s) client of
             None \<Rightarrow> (Inl (invalid_params (''unknown client_id: '' @ client)), s)
           | Some cn \<Rightarrow>
               (let r = subscribe client topic (gs_subscriptions s);
                    cn' = cn\<lparr>gc_subscriptions := insert topic (gc_subscriptions cn)\<rparr>
                in (Inr (subscription_reply client r),
                    s\<lparr>gs_subscriptions := r, gs_connections := dput client cn' (gs_connections s)\<rparr>)))"

definition method_unsubscribe :: "'g gateway_method" where
  "method_unsubscribe i params s =
     (let client = text_param ''client_id'' params; topic = text_param ''topic'' params in
      if client = [] \<or> topic = [] then (Inl (invalid_params ''client_id and topic are required''), s)
      else (let r = unsubscribe client topic (gs_subscriptions s);
                s1 = s\<lparr>gs_subscriptions := r\<rparr>
            in (Inr (subscription_reply client r),
                (case dget (gs_connections s) client of
                   None \<Rightarrow> s1
                 | Some cn \<Rightarrow>
                     s1\<lparr>gs_connections :=
                        dput client (cn\<lparr>gc_subscriptions := gc_subscriptions cn - {topic}\<rparr>) (gs_connections s)\<rparr>))))"

definition method_publish :: "gateway_ctx \<Rightarrow> 'g gateway_method" where
  "method_publish cx i params s =
     (let topic = text_param ''topic'' params in
      case py_get_or params ''payload'' (PDict []) of
        PDict payload \<Rightarrow>
          (if topic = [] then (Inl (invalid_params ''topic and payload are required''), s)
           else gateway_publish cx i topic payload s)
      | _ \<Rightarrow> (Inl (invalid_params ''topic and payload are required''), s))"

definition lift_business :: "'g business_method \<Rightarrow> 'g gateway_method" where
  "lift_business h i params s =
     (case h i params (gs_runtime s) of (r, g) \<Rightarrow> (r, s\<lparr>gs_runtime := g\<rparr>))"

text \<open>
  The registry: the built-in methods, then the business methods. A method name registered twice
  keeps its last handler; \<open>system.list_methods\<close> reads the names when it is called, after all are
  registered.
\<close>

type_synonym 'g method_registry = "(string \<times> 'g gateway_method) list"

definition method_register :: "string \<Rightarrow> 'g gateway_method \<Rightarrow> 'g method_registry \<Rightarrow> 'g method_registry" where
  "method_register m h reg = dput m h reg"

definition list_methods :: "'g method_registry \<Rightarrow> string list" where
  "list_methods reg = sort (dkeys reg)"

definition builtin_methods :: "gateway_ctx \<Rightarrow> string list \<Rightarrow> 'g method_registry" where
  "builtin_methods cx names =
     foldl (\<lambda>reg (m, h). method_register m h reg) []
       [(''system.ping'', (\<lambda>i p s. (Inr [(''pong'', PBool True)], s))),
        (''system.list_methods'', (\<lambda>i p s. (Inr [(''items'', PList (map PStr names))], s))),
        (''gateway.subscribe'', method_subscribe),
        (''gateway.unsubscribe'', method_unsubscribe),
        (''gateway.publish'', method_publish cx)]"

definition gateway_methods ::
    "gateway_ctx \<Rightarrow> (string \<times> 'g business_method) list \<Rightarrow> 'g method_registry" where
  "gateway_methods cx business =
     (let build = (\<lambda>names. foldl (\<lambda>reg (m, h). method_register m (lift_business h) reg)
                             (builtin_methods cx names) business)
      in build (list_methods (build [])))"

definition method_invoke :: "'g method_registry \<Rightarrow> string \<Rightarrow> 'g gateway_method" where
  "method_invoke reg m i params s =
     (case dget reg m of
        None \<Rightarrow> (Inl (GatewayError ''method_not_found'' (''gateway method not found: '' @ m)), s)
      | Some h \<Rightarrow> h i params s)"

subsection \<open>Security checks and requests\<close>

text \<open>The two decimals of \<open>{:.2f}\<close>.\<close>

definition two_decimals :: "rat \<Rightarrow> string" where
  "two_decimals x =
     (let n = round_half_even (x * 100) in int_str (n div 100) @ ''.'' @ pad 2 (n mod 100))"

definition rate_client :: "request_frame \<Rightarrow> string" where
  "rate_client f = (case rf_client_id f of None \<Rightarrow> ''anonymous''
                    | Some c \<Rightarrow> (if c = [] then ''anonymous'' else c))"

definition check_rate :: "gateway_inputs \<Rightarrow> request_frame \<Rightarrow> 'g gateway_server \<Rightarrow> unit res \<times> 'g gateway_server" where
  "check_rate i f s =
     (case gs_limiter s of
        None \<Rightarrow> (Inr (), s)
      | Some l \<Rightarrow>
          (case rate_check (gi_now i) (rate_client f) l of (verdict, l') \<Rightarrow>
             ((case verdict of
                 None \<Rightarrow> Inl (OtherError ''ZeroDivisionError'')
               | Some r \<Rightarrow>
                   (if rr_allowed r then Inr ()
                    else Inl (GatewayError ''rate_limited''
                           (''rate limit exceeded; retry after '' @ two_decimals (rr_retry_after_seconds r) @ ''s'')))),
              s\<lparr>gs_limiter := Some l'\<rparr>)))"

definition request_token :: "request_frame \<Rightarrow> string" where
  "request_token f = py_str (py_or (py_get (rf_params f) ''token'') (PStr []))"

definition check_access ::
    "gateway_ctx \<Rightarrow> gateway_inputs \<Rightarrow> request_frame \<Rightarrow> 'g gateway_server \<Rightarrow> unit res \<times> 'g gateway_server" where
  "check_access cx i f s =
     (case gs_provider s of
        None \<Rightarrow> (Inr (), s)
      | Some p \<Rightarrow>
          (case authenticate (gx_crypto cx) (gi_now i) (request_token f) p of
             (None, p1) \<Rightarrow>
               (Inl (GatewayError ''unauthorized'' ''authentication failed''), s\<lparr>gs_provider := Some p1\<rparr>)
           | (Some c, p1) \<Rightarrow>
               (case validate_credentials (gi_now i) c p1 of (valid, p2) \<Rightarrow>
                  ((if \<not> valid then Inl (GatewayError ''unauthorized'' ''authentication failed'')
                    else if \<not> authorize (gs_authorizer s) c (rf_method f)
                    then Inl (GatewayError ''forbidden'' ''permission denied'')
                    else Inr ()),
                   s\<lparr>gs_provider := Some p2\<rparr>))))"

definition check_security ::
    "gateway_ctx \<Rightarrow> gateway_inputs \<Rightarrow> request_frame \<Rightarrow> 'g gateway_server \<Rightarrow> unit res \<times> 'g gateway_server" where
  "check_security cx i f s =
     (case check_rate i f s of
        (Inl e, s1) \<Rightarrow> (Inl e, s1)
      | (Inr _, s1) \<Rightarrow> check_access cx i f s1)"

fun error_parts :: "gateway_ctx \<Rightarrow> pyerr \<Rightarrow> string \<times> string" where
  "error_parts cx (GatewayError code msg) = (code, msg)"
| "error_parts cx e = (''gateway_error'', gx_error_text cx e)"

definition error_response :: "gateway_ctx \<Rightarrow> string \<Rightarrow> pyerr \<Rightarrow> response_frame res" where
  "error_response cx request_id e =
     make_response request_id False []
       (Some [(''code'', PStr (fst (error_parts cx e))), (''message'', PStr (snd (error_parts cx e)))])"

definition handle_request ::
    "gateway_ctx \<Rightarrow> 'g method_registry \<Rightarrow> gateway_inputs \<Rightarrow> request_frame \<Rightarrow> 'g gateway_server
     \<Rightarrow> response_frame res \<times> 'g gateway_server" where
  "handle_request cx reg i f s =
     (case check_security cx i f s of
        (Inl e, s1) \<Rightarrow> (error_response cx (rf_request_id f) e, s1)
      | (Inr _, s1) \<Rightarrow>
          (case method_invoke reg (rf_method f) i (rf_params f) s1 of
             (Inl e, s2) \<Rightarrow> (error_response cx (rf_request_id f) e, s2)
           | (Inr result, s2) \<Rightarrow>
               ((case make_response (rf_request_id f) True result None of
                   Inl e \<Rightarrow> error_response cx (rf_request_id f) e
                 | Inr r \<Rightarrow> Inr r), s2)))"

definition handle_http_request ::
    "gateway_ctx \<Rightarrow> 'g method_registry \<Rightarrow> gateway_inputs \<Rightarrow> pydict \<Rightarrow> 'g gateway_server
     \<Rightarrow> pydict res \<times> 'g gateway_server" where
  "handle_http_request cx reg i payload s =
     (case parse_request i payload of
        None \<Rightarrow>
          ((case py_get_or payload ''request_id'' (PStr ''unknown'') of
              PStr rid \<Rightarrow>
                bind_res (error_response cx rid
                    (invalid_params (gx_error_text cx validation_error))) (\<lambda>r. Inr (response_dump r))
            | _ \<Rightarrow> Inl validation_error), s)
      | Some f \<Rightarrow>
          (case handle_request cx reg i f s of
             (r, s') \<Rightarrow> (bind_res r (\<lambda>r. Inr (response_dump r)), s')))"

end
