(* ===== verification/GatewayFacts.thy ===== *)
theory GatewayFacts
  imports GatewayServer
begin

text \<open>
  What the gateway server guarantees: only requests with a stored, unexpired and authorized token
  reach a method; a published event is appended to the inbox of each connected subscriber with
  room, and nobody else's; every server reached by its operations is consistent.
\<close>

section \<open>Security checks\<close>

lemma check_rate_frame: "check_rate i f s = (r, s') \<Longrightarrow> \<exists>l. s' = s\<lparr>gs_limiter := l\<rparr>"
  by (auto simp: check_rate_def split: option.splits prod.splits if_splits
      intro: exI[of _ None])

lemma check_access_frame:
  "check_access cx i f s = (r, s') \<Longrightarrow> gs_provider s = Some p \<Longrightarrow> \<exists>p'. s' = s\<lparr>gs_provider := Some p'\<rparr>"
  by (auto simp: check_access_def split: option.splits prod.splits if_splits)

lemma authenticate_validate:
  assumes "authenticate cy now token p = (Some c, p1)" "validate_credentials now c p1 = (True, p2)"
  shows "dget (pv_tokens p) token = Some c \<and> \<not> is_expired now c"
proof (cases "dget (pv_tokens p) token")
  case None
  from validate_signed_fails[OF None assms(1)] assms(2) show ?thesis by simp
next
  case (Some d)
  then show ?thesis using assms(1) by (auto simp: authenticate_def split: if_splits)
qed

text \<open>The token of a request that may run its method.\<close>

definition holds_access ::
    "token_provider \<Rightarrow> authorizer \<Rightarrow> int \<Rightarrow> request_frame \<Rightarrow> bool" where
  "holds_access p a now f \<longleftrightarrow>
     (\<exists>c. dget (pv_tokens p) (request_token f) = Some c \<and> \<not> is_expired now c \<and> authorize a c (rf_method f))"

lemma check_access_holds:
  assumes "check_access cx i f s = (Inr u, s')" "gs_provider s = Some p"
  shows "holds_access p (gs_authorizer s) (gi_now i) f"
proof -
  obtain c p1 where a: "authenticate (gx_crypto cx) (gi_now i) (request_token f) p = (Some c, p1)"
    using assms by (auto simp: check_access_def split: option.splits prod.splits)
  obtain v p2 where v: "validate_credentials (gi_now i) c p1 = (v, p2)" by fastforce
  have "v" "authorize (gs_authorizer s) c (rf_method f)"
    using assms a v by (auto simp: check_access_def split: if_splits)
  with authenticate_validate[OF a] v show ?thesis by (auto simp: holds_access_def)
qed

lemma check_security_cases:
  assumes "gs_provider s = Some p" "check_security cx i f s = (r, s1)"
  shows "holds_access p (gs_authorizer s) (gi_now i) f \<or> (\<exists>e. r = Inl e)"
    and "\<exists>p' l'. s1 = s\<lparr>gs_provider := Some p', gs_limiter := l'\<rparr>"
proof -
  obtain q s0 where q: "check_rate i f s = (q, s0)" by fastforce
  obtain l where s0: "s0 = s\<lparr>gs_limiter := l\<rparr>" using check_rate_frame[OF q] by blast
  have p: "gs_provider s0 = Some p" and a: "gs_authorizer s0 = gs_authorizer s"
    using s0 assms(1) by simp_all
  show "holds_access p (gs_authorizer s) (gi_now i) f \<or> (\<exists>e. r = Inl e)"
  proof (cases q)
    case (Inl e)
    then show ?thesis using assms(2) q by (auto simp: check_security_def)
  next
    case (Inr u)
    then have "check_access cx i f s0 = (r, s1)" using assms(2) q by (simp add: check_security_def)
    then show ?thesis using check_access_holds[of cx i f s0 _ s1 p] p a by (cases r) auto
  qed
  show "\<exists>p' l'. s1 = s\<lparr>gs_provider := Some p', gs_limiter := l'\<rparr>"
  proof (cases q)
    case (Inl e)
    then have "s1 = s\<lparr>gs_limiter := l\<rparr>" using assms(2) q s0 by (simp add: check_security_def)
    also have "\<dots> = s\<lparr>gs_provider := Some p, gs_limiter := l\<rparr>" using assms(1) by (cases s) simp
    finally show ?thesis by blast
  next
    case (Inr u)
    then have "check_access cx i f s0 = (r, s1)" using assms(2) q by (simp add: check_security_def)
    from check_access_frame[OF this p] obtain p' where "s1 = s0\<lparr>gs_provider := Some p'\<rparr>" by blast
    then have "s1 = s\<lparr>gs_provider := Some p', gs_limiter := l\<rparr>" using s0 by (cases s) simp
    then show ?thesis by blast
  qed
qed

lemma error_response_not_ok: "error_response cx rid e = Inr r \<Longrightarrow> \<not> sf_ok r"
  by (auto simp: error_response_def make_response_def split: if_splits)

section \<open>Delivery\<close>

definition accepts :: "connections \<Rightarrow> string \<Rightarrow> bool" where
  "accepts cs c \<longleftrightarrow> (\<exists>cn. dget cs c = Some cn \<and> length (gc_inbox cn) < max_inbox_size)"

definition inbox_full :: "connections \<Rightarrow> string \<Rightarrow> bool" where
  "inbox_full cs c \<longleftrightarrow> (\<exists>cn. dget cs c = Some cn \<and> max_inbox_size \<le> length (gc_inbox cn))"

definition with_event :: "event_frame \<Rightarrow> gateway_connection \<Rightarrow> gateway_connection" where
  "with_event e cn = cn\<lparr>gc_inbox := gc_inbox cn @ [e]\<rparr>"

lemma deliver_spec:
  assumes "distinct ids" "deliver e ids n dropped cs = (n', dropped', cs')"
  shows "n' = n + length (filter (accepts cs) ids) \<and> dropped' = dropped @ filter (inbox_full cs) ids
    \<and> (\<forall>c. dget cs' c = (if c \<in> set ids \<and> accepts cs c then map_option (with_event e) (dget cs c) else dget cs c))"
  using assms
proof (induction ids arbitrary: n dropped cs)
  case (Cons c ids)
  have d: "distinct ids" "c \<notin> set ids" using Cons.prems(1) by auto
  show ?case
  proof (cases "dget cs c")
    case None
    then have "\<not> accepts cs c" "\<not> inbox_full cs c" by (simp_all add: accepts_def inbox_full_def)
    with Cons.IH[OF d(1), of n dropped cs] Cons.prems(2) None show ?thesis by auto
  next
    case (Some cn)
    show ?thesis
    proof (cases "length (gc_inbox cn) \<ge> max_inbox_size")
      case True
      then have "\<not> accepts cs c" "inbox_full cs c" using Some by (simp_all add: accepts_def inbox_full_def)
      with Cons.IH[OF d(1), of n "dropped @ [c]" cs] Cons.prems(2) Some True show ?thesis by auto
    next
      case False
      let ?cs = "dput c (with_event e cn) cs"
      have acc: "accepts cs c" "\<not> inbox_full cs c" using Some False by (simp_all add: accepts_def inbox_full_def)
      have other: "accepts ?cs x = accepts cs x \<and> inbox_full ?cs x = inbox_full cs x" if "x \<in> set ids" for x
      proof -
        have "x \<noteq> c" using that d(2) by auto
        then show ?thesis by (simp add: accepts_def inbox_full_def)
      qed
      have same: "filter (accepts ?cs) ids = filter (accepts cs) ids"
        "filter (inbox_full ?cs) ids = filter (inbox_full cs) ids"
        using other by (auto intro!: filter_cong)
      have "deliver e ids (Suc n) dropped ?cs = (n', dropped', cs')"
        using Cons.prems(2) Some False by (simp add: with_event_def)
      note IH = Cons.IH[OF d(1) this]
      have "dget cs' x = (if x \<in> set (c # ids) \<and> accepts cs x
          then map_option (with_event e) (dget cs x) else dget cs x)" for x
      proof (cases "x = c")
        case True
        then show ?thesis using IH acc d(2) Some by simp
      next
        case False
        then show ?thesis using IH other[of x] by auto
      qed
      then show ?thesis using IH acc same by simp
    qed
  qed
qed simp

section \<open>Consistent servers\<close>

text \<open>
  The two records of who is subscribed agree, only connected clients are subscribed, inboxes are
  bounded, and what lies in them was announced through the sink.
\<close>

definition server_ok :: "'g gateway_server \<Rightarrow> bool" where
  "server_ok s \<longleftrightarrow>
     registry_consistent (gs_subscriptions s)
     \<and> fst ` subscribed (gs_subscriptions s) \<subseteq> fst ` set (gs_connections s)
     \<and> (\<forall>c cn. dget (gs_connections s) c = Some cn \<longrightarrow>
          gc_client_id cn = c
          \<and> gc_subscriptions cn = {t. (c, t) \<in> subscribed (gs_subscriptions s)}
          \<and> length (gc_inbox cn) \<le> max_inbox_size
          \<and> event_dump ` set (gc_inbox cn) \<subseteq> set (gs_sink s))"

lemma server_okD:
  assumes "server_ok s"
  shows "registry_consistent (gs_subscriptions s)"
    and "(c, t) \<in> subscribed (gs_subscriptions s) \<Longrightarrow> \<exists>cn. dget (gs_connections s) c = Some cn"
    and "dget (gs_connections s) c = Some cn \<Longrightarrow> gc_client_id cn = c"
    and "dget (gs_connections s) c = Some cn \<Longrightarrow> gc_subscriptions cn = {t. (c, t) \<in> subscribed (gs_subscriptions s)}"
    and "dget (gs_connections s) c = Some cn \<Longrightarrow> length (gc_inbox cn) \<le> max_inbox_size"
    and "dget (gs_connections s) c = Some cn \<Longrightarrow> event_dump ` set (gc_inbox cn) \<subseteq> set (gs_sink s)"
proof -
  show "(c, t) \<in> subscribed (gs_subscriptions s) \<Longrightarrow> \<exists>cn. dget (gs_connections s) c = Some cn"
    using assms dget_None_iff[of "gs_connections s" c] unfolding server_ok_def by force
qed (use assms in \<open>simp_all add: server_ok_def\<close>)

lemma server_okI:
  assumes "registry_consistent (gs_subscriptions s)"
    and "\<And>c t. (c, t) \<in> subscribed (gs_subscriptions s) \<Longrightarrow> dget (gs_connections s) c \<noteq> None"
    and "\<And>c cn. dget (gs_connections s) c = Some cn \<Longrightarrow>
      gc_client_id cn = c \<and> gc_subscriptions cn = {t. (c, t) \<in> subscribed (gs_subscriptions s)}
      \<and> length (gc_inbox cn) \<le> max_inbox_size \<and> event_dump ` set (gc_inbox cn) \<subseteq> set (gs_sink s)"
  shows "server_ok s"
proof -
  have "fst ` subscribed (gs_subscriptions s) \<subseteq> fst ` set (gs_connections s)"
  proof
    fix c
    assume "c \<in> fst ` subscribed (gs_subscriptions s)"
    then obtain t where "(c, t) \<in> subscribed (gs_subscriptions s)" by auto
    from assms(2)[OF this] show "c \<in> fst ` set (gs_connections s)" by (simp add: dget_None_iff)
  qed
  then show ?thesis using assms(1,3) unfolding server_ok_def by blast
qed

lemma inbox_announced:
  "server_ok s \<Longrightarrow> dget (gs_connections s) c = Some cn \<Longrightarrow> e \<in> set (gc_inbox cn)
   \<Longrightarrow> event_dump e \<in> set (gs_sink s)"
  using server_okD(6) by blast

lemma new_server_ok: "server_ok (new_gateway_server g p a l)"
  by (simp add: server_ok_def new_gateway_server_def new_subscriptions_ok)

lemma server_ok_update [simp]:
  "server_ok (s\<lparr>gs_limiter := l\<rparr>) = server_ok s" "server_ok (s\<lparr>gs_provider := p\<rparr>) = server_ok s"
  "server_ok (s\<lparr>gs_runtime := g\<rparr>) = server_ok s"
  by (simp_all add: server_ok_def)

lemma connect_ok:
  assumes "server_ok s" "gateway_connect i caps s = (cn, s')"
    "dget (gs_connections s) (''gw-client-'' @ gi_fresh i) = None"
  shows "server_ok s'"
proof -
  let ?c = "''gw-client-'' @ gi_fresh i"
  note ok = server_okD[OF assms(1)]
  have none: "(?c, t) \<notin> subscribed (gs_subscriptions s)" for t
    using ok(2)[of ?c t] assms(3) by force
  have "s' = s\<lparr>gs_connections := dput ?c (new_connection (gi_now i) ?c (set caps)) (gs_connections s)\<rparr>"
    using assms(2) by (auto simp: gateway_connect_def Let_def new_connection_def)
  moreover have "server_ok (s\<lparr>gs_connections := dput c (new_connection n c k) (gs_connections s)\<rparr>)"
    if "\<And>t. (c, t) \<notin> subscribed (gs_subscriptions s)" for c n k
    using ok that by (intro server_okI) (auto simp: new_connection_def split: if_splits)
  ultimately show ?thesis using none by blast
qed

lemma disconnect_ok:
  assumes "server_ok s" "lists_sets (gx_order cx)"
  shows "server_ok (gateway_disconnect cx c s)"
  using server_okD[OF assms(1)] remove_client_ok[OF server_okD(1)[OF assms(1)] assms(2)]
  by (intro server_okI) (auto simp: gateway_disconnect_def split: if_splits)

lemma poll_ok: "server_ok s \<Longrightarrow> poll_events c clear s = (es, s') \<Longrightarrow> server_ok s'"
  using server_okD[of s] inbox_announced[of s]
  by (intro server_okI) (auto simp: poll_events_def split: option.splits if_splits)

lemma method_subscribe_cases:
  assumes "method_subscribe i params s = (r, s')"
  defines "c \<equiv> text_param ''client_id'' params" and "t \<equiv> text_param ''topic'' params"
  shows "s' = s \<or> (\<exists>cn. dget (gs_connections s) c = Some cn \<and>
    s' = s\<lparr>gs_subscriptions := subscribe c t (gs_subscriptions s),
           gs_connections := dput c (cn\<lparr>gc_subscriptions := insert t (gc_subscriptions cn)\<rparr>) (gs_connections s)\<rparr>)"
  using assms(1) unfolding method_subscribe_def Let_def c_def[symmetric] t_def[symmetric]
  by (cases "dget (gs_connections s) c") (auto split: if_splits)

lemma method_unsubscribe_cases:
  assumes "method_unsubscribe i params s = (r, s')"
  defines "c \<equiv> text_param ''client_id'' params" and "t \<equiv> text_param ''topic'' params"
  shows "s' = s \<or> (dget (gs_connections s) c = None \<and>
      s' = s\<lparr>gs_subscriptions := unsubscribe c t (gs_subscriptions s)\<rparr>)
    \<or> (\<exists>cn. dget (gs_connections s) c = Some cn \<and>
      s' = s\<lparr>gs_subscriptions := unsubscribe c t (gs_subscriptions s),
             gs_connections := dput c (cn\<lparr>gc_subscriptions := gc_subscriptions cn - {t}\<rparr>) (gs_connections s)\<rparr>)"
  using assms(1) unfolding method_unsubscribe_def Let_def c_def[symmetric] t_def[symmetric]
  by (cases "dget (gs_connections s) c") (auto split: if_splits)

lemma resubscribe_ok:
  assumes "server_ok s" "registry_consistent r" "dget (gs_connections s) c = Some cn"
    and "\<And>d t. d \<noteq> c \<Longrightarrow> (d, t) \<in> subscribed r \<longleftrightarrow> (d, t) \<in> subscribed (gs_subscriptions s)"
    and "topics = {t. (c, t) \<in> subscribed r}"
  shows "server_ok (s\<lparr>gs_subscriptions := r,
    gs_connections := dput c (cn\<lparr>gc_subscriptions := topics\<rparr>) (gs_connections s)\<rparr>)"
proof (rule server_okI)
  note ok = server_okD[OF assms(1)]
  fix d t
  assume "(d, t) \<in> subscribed (gs_subscriptions (s\<lparr>gs_subscriptions := r,
    gs_connections := dput c (cn\<lparr>gc_subscriptions := topics\<rparr>) (gs_connections s)\<rparr>))"
  then show "dget (gs_connections (s\<lparr>gs_subscriptions := r,
    gs_connections := dput c (cn\<lparr>gc_subscriptions := topics\<rparr>) (gs_connections s)\<rparr>)) d \<noteq> None"
    using ok(2)[of d t] assms(4)[of d t] by (cases "d = c") auto
next
  note ok = server_okD[OF assms(1)]
  fix d dn
  assume "dget (gs_connections (s\<lparr>gs_subscriptions := r,
    gs_connections := dput c (cn\<lparr>gc_subscriptions := topics\<rparr>) (gs_connections s)\<rparr>)) d = Some dn"
  then show "gc_client_id dn = d
    \<and> gc_subscriptions dn = {t. (d, t) \<in> subscribed (gs_subscriptions (s\<lparr>gs_subscriptions := r,
        gs_connections := dput c (cn\<lparr>gc_subscriptions := topics\<rparr>) (gs_connections s)\<rparr>))}
    \<and> length (gc_inbox dn) \<le> max_inbox_size
    \<and> event_dump ` set (gc_inbox dn) \<subseteq> set (gs_sink (s\<lparr>gs_subscriptions := r,
        gs_connections := dput c (cn\<lparr>gc_subscriptions := topics\<rparr>) (gs_connections s)\<rparr>))"
  proof (cases "d = c")
    case True
    then show ?thesis
      using \<open>dget _ d = Some dn\<close> ok(3,5,6)[OF assms(3)] assms(5) by auto
  next
    case False
    then have "dget (gs_connections s) d = Some dn" using \<open>dget _ d = Some dn\<close> by simp
    from ok(3-6)[OF this] show ?thesis using assms(4)[OF False] by simp
  qed
qed (use assms(2) in simp)

lemma subscribe_method_ok:
  assumes "server_ok s" "method_subscribe i params s = (r, s')"
  shows "server_ok s'"
proof -
  let ?c = "text_param ''client_id'' params" and ?t = "text_param ''topic'' params"
  consider "s' = s" | cn where "dget (gs_connections s) ?c = Some cn"
    "s' = s\<lparr>gs_subscriptions := subscribe ?c ?t (gs_subscriptions s),
            gs_connections := dput ?c (cn\<lparr>gc_subscriptions := insert ?t (gc_subscriptions cn)\<rparr>) (gs_connections s)\<rparr>"
    using method_subscribe_cases[OF assms(2)] by blast
  then show ?thesis
  proof cases
    case 2
    note reg = subscribe_ok[OF server_okD(1)[OF assms(1)], of ?c ?t]
    show ?thesis
      unfolding 2(2) using reg server_okD(4)[OF assms(1) 2(1)]
      by (intro resubscribe_ok[OF assms(1) reg(1) 2(1)]) auto
  qed (use assms in simp)
qed

lemma unsubscribe_method_ok:
  assumes "server_ok s" "method_unsubscribe i params s = (r, s')"
  shows "server_ok s'"
proof -
  let ?c = "text_param ''client_id'' params" and ?t = "text_param ''topic'' params"
  note ok = server_okD[OF assms(1)]
  note reg = unsubscribe_ok[OF ok(1), of ?c ?t]
  consider "s' = s" | "dget (gs_connections s) ?c = None"
    "s' = s\<lparr>gs_subscriptions := unsubscribe ?c ?t (gs_subscriptions s)\<rparr>"
  | cn where "dget (gs_connections s) ?c = Some cn"
    "s' = s\<lparr>gs_subscriptions := unsubscribe ?c ?t (gs_subscriptions s),
            gs_connections := dput ?c (cn\<lparr>gc_subscriptions := gc_subscriptions cn - {?t}\<rparr>) (gs_connections s)\<rparr>"
    using method_unsubscribe_cases[OF assms(2)] by (elim disjE exE conjE) (rule that; assumption)+
  then show ?thesis
  proof cases
    case 2
    then have "(?c, ?t) \<notin> subscribed (gs_subscriptions s)" using ok(2)[of ?c ?t] by auto
    with reg have "subscribed (unsubscribe ?c ?t (gs_subscriptions s)) = subscribed (gs_subscriptions s)"
      by simp
    with assms(1) reg(1) show ?thesis unfolding 2(2) server_ok_def by simp
  next
    case 3
    show ?thesis
      unfolding 3(2) using reg ok(4)[OF 3(1)]
      by (intro resubscribe_ok[OF assms(1) reg(1) 3(1)]) auto
  qed (use assms in simp)
qed

lemma broadcast_spec:
  assumes "server_ok s" "lists_sets (gx_order cx)" "broadcast cx e s = (r, s')"
  defines "ids \<equiv> gx_order cx (resolve_clients (gs_subscriptions s) (ef_topic e))"
  shows "gs_sink s' = gs_sink s @ [event_dump e]" "gs_subscriptions s' = gs_subscriptions s"
    "dget (gs_connections s') c =
      (if c \<in> resolve_clients (gs_subscriptions s) (ef_topic e) \<and> accepts (gs_connections s) c
       then map_option (with_event e) (dget (gs_connections s) c) else dget (gs_connections s) c)"
    "br_delivered_count r = length (filter (accepts (gs_connections s)) ids)"
    "br_dropped_clients r = filter (inbox_full (gs_connections s)) ids" "br_topic r = ef_topic e"
proof -
  have fin: "finite (resolve_clients (gs_subscriptions s) (ef_topic e))"
    by (rule finite_resolve_clients[OF server_okD(1)[OF assms(1)]])
  obtain n dr cs where d: "deliver e ids 0 [] (gs_connections s) = (n, dr, cs)" by (rule prod_cases3)
  have spec: "n = length (filter (accepts (gs_connections s)) ids)"
    "dr = filter (inbox_full (gs_connections s)) ids"
    "\<forall>c. dget cs c = (if c \<in> set ids \<and> accepts (gs_connections s) c
       then map_option (with_event e) (dget (gs_connections s) c) else dget (gs_connections s) c)"
    using deliver_spec[OF _ d] lists_setsD(2)[OF assms(2) fin] unfolding ids_def by simp_all
  have r: "r = \<lparr>br_topic = ef_topic e, br_delivered_count = n, br_dropped_clients = dr\<rparr>"
    and s': "s' = s\<lparr>gs_sink := gs_sink s @ [event_dump e], gs_connections := cs\<rparr>"
    using assms(3) d unfolding broadcast_def ids_def by (auto simp: sink_publish_def)
  show "gs_sink s' = gs_sink s @ [event_dump e]" "gs_subscriptions s' = gs_subscriptions s"
    "br_delivered_count r = length (filter (accepts (gs_connections s)) ids)"
    "br_dropped_clients r = filter (inbox_full (gs_connections s)) ids" "br_topic r = ef_topic e"
    using r s' spec(1,2) by simp_all
  show "dget (gs_connections s') c =
      (if c \<in> resolve_clients (gs_subscriptions s) (ef_topic e) \<and> accepts (gs_connections s) c
       then map_option (with_event e) (dget (gs_connections s) c) else dget (gs_connections s) c)"
    using s' spec(3) lists_setsD(1)[OF assms(2) fin] unfolding ids_def by simp
qed

lemma broadcast_ok:
  assumes "server_ok s" "lists_sets (gx_order cx)" "broadcast cx e s = (r, s')"
  shows "server_ok s'"
proof (rule server_okI)
  note b = broadcast_spec[OF assms] and ok = server_okD[OF assms(1)]
  show "registry_consistent (gs_subscriptions s')" using b(2) ok(1) by simp
  show "dget (gs_connections s') c \<noteq> None" if "(c, t) \<in> subscribed (gs_subscriptions s')" for c t
    using ok(2)[of c t] that b(2) b(3)[of c] by (auto split: if_splits)
  fix c cn
  assume "dget (gs_connections s') c = Some cn"
  then obtain cn0 where cn0: "dget (gs_connections s) c = Some cn0"
    and "cn = cn0 \<or> (cn = with_event e cn0 \<and> accepts (gs_connections s) c)"
    using b(3)[of c] by (auto split: if_splits)
  then show "gc_client_id cn = c \<and> gc_subscriptions cn = {t. (c, t) \<in> subscribed (gs_subscriptions s')}
      \<and> length (gc_inbox cn) \<le> max_inbox_size \<and> event_dump ` set (gc_inbox cn) \<subseteq> set (gs_sink s')"
    using ok(3-5)[OF cn0] inbox_announced[OF assms(1) cn0] cn0 unfolding b(1,2)
    by (auto simp: with_event_def accepts_def)
qed

lemma publish_ok:
  assumes "server_ok s" "lists_sets (gx_order cx)" "gateway_publish cx i topic payload s = (r, s')"
  shows "server_ok s'"
  using assms broadcast_ok[OF assms(1,2)]
  by (auto simp: gateway_publish_def split: sum.splits prod.splits)

section \<open>Methods of the registry\<close>

lemma register_all:
  "dget (foldl (\<lambda>reg (m, h). method_register m (g h) reg) d xs) k = Some h \<Longrightarrow>
   (\<exists>b. (k, b) \<in> set xs \<and> h = g b) \<or> dget d k = Some h"
proof (induction xs arbitrary: d)
  case (Cons x xs)
  obtain m b where x: "x = (m, b)" by fastforce
  from Cons.IH[of "method_register m (g b) d"] Cons.prems x show ?case
    by (auto simp: method_register_def split: if_splits)
qed simp

lemma gateway_methods_cases:
  assumes "dget (gateway_methods cx business) m = Some h"
  obtains b where "h = lift_business b" | "h = method_subscribe" | "h = method_unsubscribe"
    | "h = method_publish cx" | d where "h = (\<lambda>i p s. (Inr d, s))"
proof -
  obtain names where
    n: "gateway_methods cx business =
      foldl (\<lambda>reg (m, h). method_register m (lift_business h) reg) (builtin_methods cx names) business"
    by (simp add: gateway_methods_def Let_def)
  have "(\<exists>b. h = lift_business b) \<or> dget (builtin_methods cx names) m = Some h"
    using register_all[of lift_business "builtin_methods cx names" business m h] assms unfolding n by blast
  then show thesis
  proof
    assume "dget (builtin_methods cx names) m = Some h"
    then show thesis
      using that by (auto simp: builtin_methods_def method_register_def split: if_splits)
  qed (use that in blast)
qed

lemma method_invoke_ok:
  assumes "server_ok s" "lists_sets (gx_order cx)"
    "method_invoke (gateway_methods cx business) m i params s = (r, s')"
  shows "server_ok s'"
proof (cases "dget (gateway_methods cx business) m")
  case None
  then show ?thesis using assms by (simp add: method_invoke_def)
next
  case (Some h)
  have h: "h i params s = (r, s')" using assms(3) Some by (simp add: method_invoke_def)
  from Some show ?thesis
  proof (cases rule: gateway_methods_cases)
    case (1 b)
    then show ?thesis using h assms(1) by (auto simp: lift_business_def split: prod.splits)
  next
    case 4
    then show ?thesis using h assms(1) publish_ok[OF assms(1,2)]
      by (auto simp: method_publish_def Let_def split: pyval.splits if_splits)
  qed (use h assms(1) subscribe_method_ok unsubscribe_method_ok in auto)
qed

lemma check_security_ok:
  assumes "check_security cx i f s = (r, s')"
  shows "server_ok s' = server_ok s"
proof -
  obtain q s0 where q: "check_rate i f s = (q, s0)" by fastforce
  have s0: "server_ok s0 = server_ok s" using check_rate_frame[OF q] by auto
  have "server_ok (snd (check_access cx i f s0)) = server_ok s0"
    by (auto simp: check_access_def split: option.splits prod.splits)
  with s0 q assms show ?thesis by (auto simp: check_security_def split: sum.splits)
qed

lemma handle_request_ok:
  assumes "server_ok s" "lists_sets (gx_order cx)"
    "handle_request cx (gateway_methods cx business) i f s = (r, s')"
  shows "server_ok s'"
proof -
  obtain q s1 where q: "check_security cx i f s = (q, s1)" by fastforce
  have s1: "server_ok s1" using check_security_ok[OF q] assms(1) by simp
  obtain m s2 where m: "method_invoke (gateway_methods cx business) (rf_method f) i (rf_params f) s1 = (m, s2)"
    by fastforce
  have "s' = s1 \<or> s' = s2" using assms(3) q m by (auto simp: handle_request_def split: sum.splits)
  then show ?thesis using s1 method_invoke_ok[OF s1 assms(2) m] by auto
qed

end
