(* ===== verification/GatewayRuns.thy ===== *)
theory GatewayRuns
  imports GatewayFacts
begin

text \<open>
  The gateway server as a state machine: every server reached from a new one by connections,
  disconnections, requests, publications and polls is consistent; and the properties of single
  requests and publications, with concrete runs.
\<close>

section \<open>Steps of a server\<close>

inductive gateway_step ::
    "gateway_ctx \<Rightarrow> (string \<times> 'g business_method) list \<Rightarrow> 'g gateway_server \<Rightarrow> 'g gateway_server \<Rightarrow> bool"
  for cx business where
  step_connect:
    "dget (gs_connections s) (''gw-client-'' @ gi_fresh i) = None
     \<Longrightarrow> gateway_connect i caps s = (cn, s') \<Longrightarrow> gateway_step cx business s s'"
| step_disconnect: "gateway_step cx business s (gateway_disconnect cx client s)"
| step_request:
    "handle_request cx (gateway_methods cx business) i f s = (r, s') \<Longrightarrow> gateway_step cx business s s'"
| step_publish: "gateway_publish cx i topic payload s = (r, s') \<Longrightarrow> gateway_step cx business s s'"
| step_poll: "poll_events client clear s = (es, s') \<Longrightarrow> gateway_step cx business s s'"

inductive_cases gateway_stepE: "gateway_step cx business s s'"

inductive gateway_reach ::
    "gateway_ctx \<Rightarrow> (string \<times> 'g business_method) list \<Rightarrow> 'g gateway_server \<Rightarrow> 'g gateway_server \<Rightarrow> bool"
  for cx business s where
  reach_start: "gateway_reach cx business s s"
| reach_step: "gateway_reach cx business s s1 \<Longrightarrow> gateway_step cx business s1 s2 \<Longrightarrow> gateway_reach cx business s s2"

lemma gateway_step_ok:
  assumes "gateway_step cx business s s'" "server_ok s" "lists_sets (gx_order cx)"
  shows "server_ok s'"
  using assms
  by (cases rule: gateway_step.cases)
    (blast intro: connect_ok disconnect_ok handle_request_ok publish_ok poll_ok)+

lemma gateway_reach_ok:
  "gateway_reach cx business s s' \<Longrightarrow> server_ok s \<Longrightarrow> lists_sets (gx_order cx) \<Longrightarrow> server_ok s'"
  by (induction rule: gateway_reach.induct) (auto intro: gateway_step_ok)

lemma strip_error_keys:
  "strip_keys [] = []" "strip_keys [(''code'', x), (''message'', y)] = [(''code'', x), (''message'', y)]"
proof -
  have "py_strip ''code'' = ''code''" "py_strip ''message'' = ''message''" by code_simp+
  then show "strip_keys [(''code'', x), (''message'', y)] = [(''code'', x), (''message'', y)]"
    by (simp add: strip_keys_def dict_of_def dunion_def)
qed (simp add: strip_keys_def dict_of_def dunion_def)

section \<open>Properties\<close>

text \<open>
  C34: With an authentication provider, a request answered as successful carried a token stored in
  the provider, not expired, whose credentials are authorized for the method. Any other request
  is refused and changes nothing of the server but the rate limiter and the provider's table: no
  method runs.
\<close>
theorem request_needs_access:
  assumes "gs_provider s = Some p" and "handle_request cx reg i f s = (r, s')"
  shows "holds_access p (gs_authorizer s) (gi_now i) f
    \<or> ((\<forall>x. r = Inr x \<longrightarrow> \<not> sf_ok x) \<and> (\<exists>p' l'. s' = s\<lparr>gs_provider := Some p', gs_limiter := l'\<rparr>))"
proof -
  obtain q s1 where q: "check_security cx i f s = (q, s1)" by fastforce
  note checked = check_security_cases[OF assms(1) q]
  show ?thesis
  proof (cases q)
    case (Inl e)
    then have "r = error_response cx (rf_request_id f) e" "s' = s1"
      using assms(2) q by (simp_all add: handle_request_def)
    then show ?thesis using checked(2) error_response_not_ok[of cx "rf_request_id f" e] by auto
  qed (use checked(1) in auto)
qed

text \<open>
  A signed token is never accepted for a request: it authenticates, but the validation that
  follows looks it up in the table of generated tokens, so the answer is \<open>unauthorized\<close>.
\<close>
theorem signed_token_refused:
  assumes "gs_provider s = Some p" and "gs_limiter s = None"
    and "dget (pv_tokens p) (request_token f) = None"
    and "verify_signed_token (gx_crypto cx) (gi_now i) (request_token f) p = Some c"
    and "rf_request_id f \<noteq> []" and "stripped (rf_request_id f)"
  shows "handle_request cx reg i f s =
    (Inr \<lparr>sf_request_id = rf_request_id f, sf_ok = False, sf_result = [],
          sf_error = Some [(''code'', PStr ''unauthorized''), (''message'', PStr ''authentication failed'')]\<rparr>, s)"
proof -
  have a: "authenticate (gx_crypto cx) (gi_now i) (request_token f) p = (Some c, p)"
    using assms(3,4) by (simp add: authenticate_def)
  from validate_signed_fails[OF assms(3) a] have v: "\<not> fst (validate_credentials (gi_now i) c p)" .
  have "au_token c = request_token f"
    using assms(4) by (auto simp: verify_signed_token_def Let_def split: if_splits list.splits option.splits prod.splits)
  then have "validate_credentials (gi_now i) c p = (False, p)"
    using assms(3) by (simp add: validate_credentials_def)
  moreover have "s\<lparr>gs_provider := Some p\<rparr> = s" using assms(1) by (cases s) simp
  ultimately have "check_security cx i f s = (Inl (GatewayError ''unauthorized'' ''authentication failed''), s)"
    using a assms(1,2) by (simp add: check_security_def check_rate_def check_access_def)
  then show ?thesis
    using assms(5,6)
    by (simp add: handle_request_def error_response_def make_response_def py_strip_stripped
        strip_error_keys)
qed

text \<open>
  C36: A published event is appended to the inbox of every connected client with a matching
  subscription and room for it, and to no other inbox; the answer counts exactly those clients
  and lists exactly the matching clients whose inbox is full; the sink receives the event once.
\<close>
theorem publish_delivers:
  assumes "server_ok s" and "lists_sets (gx_order cx)"
    and "gateway_publish cx i topic payload s = (Inr reply, s')"
  shows "\<exists>e. make_event i topic payload = Inr e
    \<and> gs_sink s' = gs_sink s @ [event_dump e]
    \<and> (\<forall>c. dget (gs_connections s') c =
        (if (\<exists>t. (c, t) \<in> subscribed (gs_subscriptions s) \<and> topic_matches t (ef_topic e))
            \<and> accepts (gs_connections s) c
         then map_option (with_event e) (dget (gs_connections s) c) else dget (gs_connections s) c))
    \<and> py_get reply ''delivered_count''
      = PInt (int (card {c. (\<exists>t. (c, t) \<in> subscribed (gs_subscriptions s) \<and> topic_matches t (ef_topic e))
                            \<and> accepts (gs_connections s) c}))
    \<and> (\<exists>dropped. py_get reply ''dropped_clients'' = PList (map PStr dropped) \<and> distinct dropped
        \<and> set dropped = {c. (\<exists>t. (c, t) \<in> subscribed (gs_subscriptions s) \<and> topic_matches t (ef_topic e))
                            \<and> inbox_full (gs_connections s) c})"
proof -
  obtain e where e: "make_event i topic payload = Inr e"
    using assms(3) by (auto simp: gateway_publish_def split: sum.splits)
  obtain b where b: "broadcast cx e s = (b, s')"
    and reply: "reply = [(''topic'', PStr (br_topic b)),
                   (''delivered_count'', PInt (int (br_delivered_count b))),
                   (''dropped_clients'', PList (map PStr (br_dropped_clients b)))]"
    using assms(3) e by (auto simp: gateway_publish_def split: prod.splits)
  note spec = broadcast_spec[OF assms(1,2) b]
  let ?R = "resolve_clients (gs_subscriptions s) (ef_topic e)"
  have R: "?R = {c. \<exists>t. (c, t) \<in> subscribed (gs_subscriptions s) \<and> topic_matches t (ef_topic e)}"
    and fin: "finite ?R"
    using resolve_clients_iff finite_resolve_clients server_okD(1)[OF assms(1)] by blast+
  have ord: "set (gx_order cx ?R) = ?R" "distinct (gx_order cx ?R)" using lists_setsD[OF assms(2) fin] by auto
  have count: "br_delivered_count b = card {c \<in> ?R. accepts (gs_connections s) c}"
    unfolding spec(4) using ord by (metis distinct_filter distinct_card set_filter)
  have dropped: "distinct (br_dropped_clients b)" "set (br_dropped_clients b) = {c \<in> ?R. inbox_full (gs_connections s) c}"
    unfolding spec(5) using ord by simp_all
  show ?thesis
  proof (intro exI conjI allI)
    show "make_event i topic payload = Inr e" by (rule e)
    show "gs_sink s' = gs_sink s @ [event_dump e]" by (rule spec(1))
    show "dget (gs_connections s') c =
        (if (\<exists>t. (c, t) \<in> subscribed (gs_subscriptions s) \<and> topic_matches t (ef_topic e))
            \<and> accepts (gs_connections s) c
         then map_option (with_event e) (dget (gs_connections s) c) else dget (gs_connections s) c)" for c
      using spec(3)[of c] unfolding R by simp
    show "py_get reply ''delivered_count''
      = PInt (int (card {c. (\<exists>t. (c, t) \<in> subscribed (gs_subscriptions s) \<and> topic_matches t (ef_topic e))
                            \<and> accepts (gs_connections s) c}))"
      using count unfolding R reply by (simp add: py_get_or_def)
    show "py_get reply ''dropped_clients'' = PList (map PStr (br_dropped_clients b))"
      unfolding reply by (simp add: py_get_or_def)
    show "distinct (br_dropped_clients b)" by (rule dropped(1))
    show "set (br_dropped_clients b) = {c. (\<exists>t. (c, t) \<in> subscribed (gs_subscriptions s)
        \<and> topic_matches t (ef_topic e)) \<and> inbox_full (gs_connections s) c}"
      using dropped(2) unfolding R by blast
  qed
qed

text \<open>
  C35: Whatever connections, disconnections, requests, publications and polls a new server goes
  through, its two records of the subscriptions agree, only connected clients are subscribed, no
  inbox holds more than 200 events, and every event in an inbox was announced through the sink.
\<close>
theorem gateway_stays_consistent:
  assumes "gateway_reach cx business (new_gateway_server g p a l) s" and "lists_sets (gx_order cx)"
  shows "registry_consistent (gs_subscriptions s)
    \<and> (\<forall>c t. (c, t) \<in> subscribed (gs_subscriptions s) \<longleftrightarrow>
        (\<exists>cn. dget (gs_connections s) c = Some cn \<and> t \<in> gc_subscriptions cn))
    \<and> (\<forall>c cn. dget (gs_connections s) c = Some cn \<longrightarrow>
        length (gc_inbox cn) \<le> 200 \<and> event_dump ` set (gc_inbox cn) \<subseteq> set (gs_sink s))"
proof -
  have ok: "server_ok s" by (rule gateway_reach_ok[OF assms(1) new_server_ok assms(2)])
  have "(c, t) \<in> subscribed (gs_subscriptions s) \<longleftrightarrow>
      (\<exists>cn. dget (gs_connections s) c = Some cn \<and> t \<in> gc_subscriptions cn)" for c t
    using server_okD(2)[OF ok, of c t] server_okD(4)[OF ok, of c] by auto
  then show ?thesis
    using server_okD(1,5,6)[OF ok] by (simp add: max_inbox_size_def)
qed

text \<open>
  A request frame may have an empty id, a response frame may not: a method called by such a
  request runs, with its effects, and then the server raises instead of answering.
\<close>
theorem empty_request_id_raises:
  assumes "rf_request_id f = []" and "check_security cx i f s = (Inr (), s1)"
  shows "handle_request cx reg i f s
    = (Inl validation_error, snd (method_invoke reg (rf_method f) i (rf_params f) s1))"
  using assms
  by (simp add: handle_request_def make_response_def error_response_def py_strip_def
      split: prod.splits sum.splits)

text \<open>
  The newest \<open>limit\<close> events of the sink are listed for a positive limit; for the limit zero all
  of them are, since the slice from \<open>-0\<close> is the whole list.
\<close>
theorem sink_limit:
  "length (sink_list_events limit k) = (if limit \<le> 0 then length k else min (nat limit) (length k))"
  by (simp add: sink_list_events_def last_n_def min_def)

section \<open>Concrete runs\<close>

definition demo_ctx :: gateway_ctx where
  "demo_ctx = \<lparr>gx_order = sorted_list_of_set, gx_crypto = demo_crypto, gx_error_text = (\<lambda>_. ''error'')\<rparr>"

definition demo_server :: "nat gateway_server" where
  "demo_server = new_gateway_server 0 (Some demo_provider) None None"

definition demo_at :: gateway_inputs where
  "demo_at = \<lparr>gi_now = 6000000, gi_fresh = ''1''\<rparr>"

definition signed_request :: request_frame where
  "signed_request = \<lparr>rf_request_id = ''r1'', rf_method = ''system.ping'',
     rf_params = [(''token'', PStr demo_token)], rf_client_id = None\<rparr>"

lemma demo_order: "lists_sets (gx_order demo_ctx)"
  by (simp add: demo_ctx_def lists_sets_sorted)

definition demo_methods :: "nat method_registry" where
  "demo_methods = gateway_methods demo_ctx []"

theorem signed_token_refused_witness:
  "\<exists>r. handle_request demo_ctx demo_methods demo_at signed_request demo_server = (Inr r, demo_server)
    \<and> \<not> sf_ok r"
proof -
  have t: "request_token signed_request = demo_token"
    by (simp add: request_token_def signed_request_def py_get_or_def py_or_def demo_token_def
        create_signed_token_def token_payload_def Let_def)
  have v: "verify_signed_token (gx_crypto demo_ctx) (gi_now demo_at) (request_token signed_request) demo_provider
    = Some \<lparr>au_client_id = ''bot'', au_token = demo_token, au_capabilities = [''case:read''],
            au_expires_at = None\<rparr>"
    using signed_token_roundtrip[OF demo_crypto_ok, of "''bot''" "[''case:read'']" 6000000 5000000 demo_provider]
    by (simp add: t demo_ctx_def demo_at_def demo_provider_def demo_token_def us_per_second_def)
  have "handle_request demo_ctx demo_methods demo_at signed_request demo_server =
    (Inr \<lparr>sf_request_id = ''r1'', sf_ok = False, sf_result = [],
          sf_error = Some [(''code'', PStr ''unauthorized''), (''message'', PStr ''authentication failed'')]\<rparr>,
     demo_server)"
    using signed_token_refused[OF _ _ _ v, of demo_server demo_methods]
    by (simp add: demo_server_def new_gateway_server_def demo_provider_def signed_request_def
        stripped_def is_space_def)
  then show ?thesis by simp
qed

definition bare_request :: request_frame where
  "bare_request = \<lparr>rf_request_id = ''r1'', rf_method = ''system.ping'', rf_params = [], rf_client_id = None\<rparr>"

theorem request_needs_access_witness:
  "\<exists>x. fst (handle_request demo_ctx demo_methods demo_at bare_request demo_server) = Inr x \<and> \<not> sf_ok x"
proof -
  have p: "gs_provider demo_server = Some demo_provider" by (simp add: demo_server_def new_gateway_server_def)
  have "\<not> holds_access demo_provider (gs_authorizer demo_server) (gi_now demo_at) bare_request"
    by (simp add: holds_access_def demo_provider_def)
  with request_needs_access[OF p prod.collapse[symmetric], where cx = demo_ctx and reg = demo_methods
      and i = demo_at and f = bare_request]
  have refused: "\<forall>x. fst (handle_request demo_ctx demo_methods demo_at bare_request demo_server) = Inr x \<longrightarrow> \<not> sf_ok x"
    by blast
  have "\<not> isl (fst (handle_request demo_ctx demo_methods demo_at bare_request demo_server))" by code_simp
  then obtain x where x: "fst (handle_request demo_ctx demo_methods demo_at bare_request demo_server) = Inr x"
    using sum.collapse(2) by metis
  with refused show ?thesis by blast
qed

definition open_server :: "nat gateway_server" where
  "open_server = new_gateway_server 0 None None None"

definition connected_server :: "nat gateway_server" where
  "connected_server = snd (gateway_connect demo_at [] open_server)"

definition subscribe_request :: request_frame where
  "subscribe_request = \<lparr>rf_request_id = ''r2'', rf_method = ''gateway.subscribe'',
     rf_params = [(''client_id'', PStr ''gw-client-1''), (''topic'', PStr ''case.*'')], rf_client_id = None\<rparr>"

definition subscribed_server :: "nat gateway_server" where
  "subscribed_server = snd (handle_request demo_ctx demo_methods demo_at subscribe_request connected_server)"

lemma subscribed_server_reached: "gateway_reach demo_ctx [] open_server subscribed_server"
proof -
  have "dget (gs_connections open_server) (''gw-client-'' @ gi_fresh demo_at) = None"
    by (simp add: open_server_def new_gateway_server_def)
  then have "gateway_step demo_ctx [] open_server connected_server"
    unfolding connected_server_def by (rule step_connect) (rule prod.collapse[symmetric])
  moreover have "gateway_step demo_ctx [] connected_server subscribed_server"
    unfolding subscribed_server_def demo_methods_def by (rule step_request) (rule prod.collapse[symmetric])
  ultimately show ?thesis by (meson reach_start reach_step)
qed

lemma subscribed_server_topics:
  "map_option gc_subscriptions (dget (gs_connections subscribed_server) ''gw-client-1'') = Some {''case.*''}"
  by code_simp

theorem gateway_stays_consistent_witness:
  "(''gw-client-1'', ''case.*'') \<in> subscribed (gs_subscriptions subscribed_server)"
  using gateway_stays_consistent[OF subscribed_server_reached[unfolded open_server_def] demo_order]
    subscribed_server_topics by auto

theorem publish_delivers_witness:
  "fst (gateway_publish demo_ctx demo_at ''case.done'' [] subscribed_server) =
     Inr [(''topic'', PStr ''case.done''), (''delivered_count'', PInt 1), (''dropped_clients'', PList [])]
   \<and> length (gs_sink (snd (gateway_publish demo_ctx demo_at ''case.done'' [] subscribed_server))) = 1"
proof -
  let ?out = "gateway_publish demo_ctx demo_at ''case.done'' [] subscribed_server"
  have ok: "server_ok subscribed_server"
    by (rule gateway_reach_ok[OF subscribed_server_reached _ demo_order])
      (simp add: open_server_def new_server_ok)
  have r: "fst ?out = Inr [(''topic'', PStr ''case.done''), (''delivered_count'', PInt 1), (''dropped_clients'', PList [])]"
    by code_simp
  then have "?out = (Inr [(''topic'', PStr ''case.done''), (''delivered_count'', PInt 1), (''dropped_clients'', PList [])], snd ?out)"
    by (metis prod.collapse)
  from publish_delivers[OF ok demo_order this] have "length (gs_sink (snd ?out)) = Suc (length (gs_sink subscribed_server))"
    by auto
  moreover have "gs_sink subscribed_server = []" by code_simp
  ultimately show ?thesis using r by simp
qed

definition unnamed_request :: request_frame where
  "unnamed_request = subscribe_request\<lparr>rf_request_id := []\<rparr>"

theorem empty_request_id_raises_witness:
  "fst (handle_request demo_ctx demo_methods demo_at unnamed_request connected_server) = Inl validation_error
   \<and> map_option gc_subscriptions (dget (gs_connections
        (snd (handle_request demo_ctx demo_methods demo_at unnamed_request connected_server))) ''gw-client-1'')
     = Some {''case.*''}"
proof
  have c: "check_security demo_ctx demo_at unnamed_request connected_server = (Inr (), connected_server)"
    by (simp add: check_security_def check_rate_def check_access_def connected_server_def gateway_connect_def
        open_server_def new_gateway_server_def Let_def)
  have e: "rf_request_id unnamed_request = []" by (simp add: unnamed_request_def)
  show "fst (handle_request demo_ctx demo_methods demo_at unnamed_request connected_server) = Inl validation_error"
    by (simp add: empty_request_id_raises[OF e c])
  show "map_option gc_subscriptions (dget (gs_connections
        (snd (handle_request demo_ctx demo_methods demo_at unnamed_request connected_server))) ''gw-client-1'')
     = Some {''case.*''}" by code_simp
qed

end
