(* ===== verification/GatewayBridge.thy ===== *)
theory GatewayBridge
  imports GatewayRuns
begin

text \<open>
  The WebSocket side of the gateway: the state of the transport (\<open>gateway/websocket_transport.py\<close>),
  the bridge that keeps its subscriptions and the server's in step (\<open>gateway/ws_bridge.py\<close>) and the
  handling of a message by the endpoint \<open>/gateway/ws\<close> (\<open>apps/api/main.py\<close>). Frames sent are
  recorded in \<open>wt_sent\<close>; \<open>bx_sends\<close> tells whether a socket accepts a frame or raises. Operations
  run one after the other: the interleaving of the coroutines is not modelled.
\<close>

section \<open>The transport\<close>

record ws_state =
  ws_connection_id :: string
  ws_client_id :: "string option"
  ws_remote_addr :: "string option"
  ws_last_ping_at :: int
  ws_last_pong_at :: int
  ws_subscriptions :: "string set"

record ws_transport =
  wt_connections :: "(string \<times> ws_state) list"
  wt_client_map :: "(string \<times> string) list"
  wt_sent :: "(string \<times> pydict) list"
  wt_closed :: "(string \<times> string) list"

record transport_connection =
  tc_connection_id :: string
  tc_client_id :: "string option"
  tc_remote_addr :: "string option"
  tc_is_alive :: bool

record 'g bridge =
  bg_server :: "'g gateway_server"
  bg_transport :: ws_transport
  bg_pending :: "(string \<times> event_frame) list"

record bridge_ctx =
  bx_gateway :: gateway_ctx
  bx_sends :: "string \<Rightarrow> pydict \<Rightarrow> bool"

definition update_transport :: "(ws_transport \<Rightarrow> ws_transport) \<Rightarrow> 'g bridge \<Rightarrow> 'g bridge" where
  "update_transport f b = b\<lparr>bg_transport := f (bg_transport b)\<rparr>"

definition update_ws :: "string \<Rightarrow> (ws_state \<Rightarrow> ws_state) \<Rightarrow> ws_transport \<Rightarrow> ws_transport" where
  "update_ws conn f t =
     (case dget (wt_connections t) conn of
        None \<Rightarrow> t
      | Some st \<Rightarrow> t\<lparr>wt_connections := dput conn (f st) (wt_connections t)\<rparr>)"

definition nonempty_id :: "string option \<Rightarrow> bool" where
  "nonempty_id c \<longleftrightarrow> (case c of None \<Rightarrow> False | Some s \<Rightarrow> s \<noteq> [])"

definition transport_accept ::
    "int \<Rightarrow> string \<Rightarrow> string option \<Rightarrow> string option \<Rightarrow> ws_transport \<Rightarrow> transport_connection \<times> ws_transport" where
  "transport_accept now fresh client remote t =
     (let conn = ''ws-'' @ fresh;
          st = \<lparr>ws_connection_id = conn, ws_client_id = client, ws_remote_addr = remote,
                ws_last_ping_at = now, ws_last_pong_at = now, ws_subscriptions = {}\<rparr>
      in (\<lparr>tc_connection_id = conn, tc_client_id = client, tc_remote_addr = remote, tc_is_alive = True\<rparr>,
          t\<lparr>wt_connections := dput conn st (wt_connections t),
            wt_client_map := (if nonempty_id client then dput (the client) conn (wt_client_map t)
                              else wt_client_map t)\<rparr>))"

definition connection_of_state :: "ws_state \<Rightarrow> transport_connection" where
  "connection_of_state st =
     \<lparr>tc_connection_id = ws_connection_id st, tc_client_id = ws_client_id st,
      tc_remote_addr = ws_remote_addr st, tc_is_alive = True\<rparr>"

definition get_connection :: "ws_transport \<Rightarrow> string \<Rightarrow> transport_connection option" where
  "get_connection t conn = map_option connection_of_state (dget (wt_connections t) conn)"

definition list_connections :: "ws_transport \<Rightarrow> transport_connection list" where
  "list_connections t = map connection_of_state (dvals (wt_connections t))"

definition transport_subscribe :: "string \<Rightarrow> string \<Rightarrow> ws_transport \<Rightarrow> ws_transport" where
  "transport_subscribe conn topic =
     update_ws conn (\<lambda>st. st\<lparr>ws_subscriptions := insert topic (ws_subscriptions st)\<rparr>)"

definition transport_unsubscribe :: "string \<Rightarrow> string \<Rightarrow> ws_transport \<Rightarrow> ws_transport" where
  "transport_unsubscribe conn topic =
     update_ws conn (\<lambda>st. st\<lparr>ws_subscriptions := ws_subscriptions st - {topic}\<rparr>)"

text \<open>\<open>websocket.send_json\<close>.\<close>

definition socket_send :: "bridge_ctx \<Rightarrow> string \<Rightarrow> pydict \<Rightarrow> 'g bridge \<Rightarrow> unit res \<times> 'g bridge" where
  "socket_send bx conn frame b =
     (if bx_sends bx conn frame
      then (Inr (), update_transport (\<lambda>t. t\<lparr>wt_sent := wt_sent t @ [(conn, frame)]\<rparr>) b)
      else (Inl (OtherError ''WebSocketDisconnect''), b))"

section \<open>The bridge\<close>

definition client_id_for_connection :: "'g bridge \<Rightarrow> string \<Rightarrow> string" where
  "client_id_for_connection b conn =
     (case get_connection (bg_transport b) conn of
        None \<Rightarrow> conn
      | Some c \<Rightarrow> (if nonempty_id (tc_client_id c) then the (tc_client_id c) else conn))"

definition ensure_client :: "gateway_inputs \<Rightarrow> string \<Rightarrow> 'g bridge \<Rightarrow> string \<times> 'g bridge" where
  "ensure_client i conn b =
     (let client = client_id_for_connection b conn;
          cs = gs_connections (bg_server b);
          b1 = (if dget cs client = None
                then b\<lparr>bg_server := (bg_server b)\<lparr>gs_connections :=
                         dput client (new_connection (gi_now i) client {}) cs\<rparr>\<rparr>
                else b)
      in (client,
          update_transport
            (update_ws conn (\<lambda>st. if ws_client_id st = None then st\<lparr>ws_client_id := Some client\<rparr> else st)) b1))"

definition set_topics :: "string \<Rightarrow> (string set \<Rightarrow> string set) \<Rightarrow> 'g gateway_server \<Rightarrow> 'g gateway_server" where
  "set_topics client f s =
     (case dget (gs_connections s) client of
        None \<Rightarrow> s
      | Some cn \<Rightarrow>
          s\<lparr>gs_connections := dput client (cn\<lparr>gc_subscriptions := f (gc_subscriptions cn)\<rparr>) (gs_connections s)\<rparr>)"

definition bridge_subscribe :: "gateway_inputs \<Rightarrow> string \<Rightarrow> string \<Rightarrow> 'g bridge \<Rightarrow> string \<times> 'g bridge" where
  "bridge_subscribe i conn topic b =
     (case ensure_client i conn b of
        (client, b1) \<Rightarrow>
          (let s = bg_server b1;
               s1 = set_topics client (insert topic)
                      (s\<lparr>gs_subscriptions := subscribe client topic (gs_subscriptions s)\<rparr>)
           in (client, update_transport (transport_subscribe conn topic) (b1\<lparr>bg_server := s1\<rparr>))))"

definition bridge_unsubscribe :: "string \<Rightarrow> string \<Rightarrow> 'g bridge \<Rightarrow> string \<times> 'g bridge" where
  "bridge_unsubscribe conn topic b =
     (let client = client_id_for_connection b conn;
          s = bg_server b;
          s1 = set_topics client (\<lambda>ts. ts - {topic})
                 (s\<lparr>gs_subscriptions := unsubscribe client topic (gs_subscriptions s)\<rparr>)
      in (client, update_transport (transport_unsubscribe conn topic) (b\<lparr>bg_server := s1\<rparr>)))"

definition bridge_disconnect :: "bridge_ctx \<Rightarrow> string \<Rightarrow> 'g bridge \<Rightarrow> 'g bridge" where
  "bridge_disconnect bx conn b =
     b\<lparr>bg_server := gateway_disconnect (bx_gateway bx) (client_id_for_connection b conn) (bg_server b)\<rparr>"

definition queue_broadcast :: "gateway_inputs \<Rightarrow> string \<Rightarrow> pydict \<Rightarrow> 'g bridge \<Rightarrow> unit res \<times> 'g bridge" where
  "queue_broadcast i topic payload b =
     (case make_event i topic payload of
        Inl e \<Rightarrow> (Inl e, b)
      | Inr e \<Rightarrow> (Inr (), b\<lparr>bg_pending := bg_pending b @ [(topic, e)]\<rparr>))"

definition bridge_publish ::
    "bridge_ctx \<Rightarrow> gateway_inputs \<Rightarrow> string \<Rightarrow> pydict \<Rightarrow> 'g bridge \<Rightarrow> pydict res \<times> 'g bridge" where
  "bridge_publish bx i topic payload b =
     (case gateway_publish (bx_gateway bx) i topic payload (bg_server b) of
        (Inl e, s) \<Rightarrow> (Inl e, b\<lparr>bg_server := s\<rparr>)
      | (Inr reply, s) \<Rightarrow>
          (case queue_broadcast i topic payload (b\<lparr>bg_server := s\<rparr>) of
             (Inl e, b1) \<Rightarrow> (Inl e, b1)
           | (Inr _, b1) \<Rightarrow> (Inr reply, b1)))"

text \<open>
  \<open>close\<close>: the connection leaves the tables, the socket is closed, and then the disconnect handler
  of the bridge runs, which looks the connection up again.
\<close>

definition transport_close :: "bridge_ctx \<Rightarrow> string \<Rightarrow> string \<Rightarrow> 'g bridge \<Rightarrow> 'g bridge" where
  "transport_close bx conn reason b =
     (case dget (wt_connections (bg_transport b)) conn of
        None \<Rightarrow> b
      | Some st \<Rightarrow>
          bridge_disconnect bx conn
            (update_transport (\<lambda>t. t\<lparr>
               wt_connections := ddel conn (wt_connections t),
               wt_client_map := (if nonempty_id (ws_client_id st)
                                 then ddel (the (ws_client_id st)) (wt_client_map t) else wt_client_map t),
               wt_closed := wt_closed t @ [(conn, reason)]\<rparr>) b))"

fun broadcast_all ::
    "bridge_ctx \<Rightarrow> string \<Rightarrow> pydict \<Rightarrow> (string \<times> ws_state) list \<Rightarrow> nat \<times> string list \<times> 'g bridge
     \<Rightarrow> nat \<times> string list \<times> 'g bridge" where
  "broadcast_all bx topic frame [] (n, failed, b) = (n, failed, b)"
| "broadcast_all bx topic frame ((conn, st) # rest) (n, failed, b) =
     broadcast_all bx topic frame rest
       (if \<exists>p \<in> ws_subscriptions st. topic_matches p topic then
          (case socket_send bx conn frame b of
             (Inr _, b1) \<Rightarrow> (Suc n, failed, b1)
           | (Inl _, b1) \<Rightarrow> (n, failed @ [conn], b1))
        else (n, failed, b))"

definition transport_broadcast :: "bridge_ctx \<Rightarrow> string \<Rightarrow> event_frame \<Rightarrow> 'g bridge \<Rightarrow> nat \<times> 'g bridge" where
  "transport_broadcast bx topic e b =
     (case broadcast_all bx topic (event_dump e) (wt_connections (bg_transport b)) (0, [], b) of
        (n, failed, b1) \<Rightarrow> (n, foldl (\<lambda>b conn. transport_close bx conn ''broadcast_failed'' b) b1 failed))"

fun flush_all :: "bridge_ctx \<Rightarrow> (string \<times> event_frame) list \<Rightarrow> nat \<times> 'g bridge \<Rightarrow> nat \<times> 'g bridge" where
  "flush_all bx [] (n, b) = (n, b)"
| "flush_all bx ((topic, e) # rest) (n, b) =
     (case transport_broadcast bx topic e b of (k, b1) \<Rightarrow> flush_all bx rest (n + k, b1))"

definition flush_broadcasts :: "bridge_ctx \<Rightarrow> 'g bridge \<Rightarrow> nat \<times> 'g bridge" where
  "flush_broadcasts bx b = flush_all bx (bg_pending b) (0, b\<lparr>bg_pending := []\<rparr>)"

section \<open>Messages\<close>

datatype ws_answer = Ws_nothing | Ws_request request_frame | Ws_response response_frame

definition message_topic :: "pydict \<Rightarrow> string" where
  "message_topic d = py_str (py_get_or d ''topic'' (PStr []))"

definition handle_message ::
    "bridge_ctx \<Rightarrow> gateway_inputs \<Rightarrow> string \<Rightarrow> pydict \<Rightarrow> 'g bridge \<Rightarrow> ws_answer res \<times> 'g bridge" where
  "handle_message bx i conn d b =
     (case dget (wt_connections (bg_transport b)) conn of
        None \<Rightarrow> (Inr Ws_nothing, b)
      | Some st \<Rightarrow>
          (let answer = (\<lambda>(r, b1). (bind_res r (\<lambda>_. Inr Ws_nothing), b1));
               ft = py_get_or d ''frame_type'' (PStr ''request'');
               topic = message_topic d
           in if ft = PStr ''ping'' then
                answer (socket_send bx conn
                  [(''frame_type'', PStr ''pong''), (''timestamp'', PStr (iso_format (gi_now i)))]
                  (update_transport (update_ws conn (\<lambda>st. st\<lparr>ws_last_ping_at := gi_now i\<rparr>)) b))
              else if ft = PStr ''pong'' then
                (Inr Ws_nothing, update_transport (update_ws conn (\<lambda>st. st\<lparr>ws_last_pong_at := gi_now i\<rparr>)) b)
              else if ft = PStr ''subscribe'' then
                (if topic = [] then (Inr Ws_nothing, b)
                 else answer (socket_send bx conn
                   [(''frame_type'', PStr ''subscribed''), (''topic'', PStr topic)]
                   (snd (bridge_subscribe i conn topic (update_transport (transport_subscribe conn topic) b)))))
              else if ft = PStr ''unsubscribe'' then
                (if topic = [] then (Inr Ws_nothing, b)
                 else answer (socket_send bx conn
                   [(''frame_type'', PStr ''unsubscribed''), (''topic'', PStr topic)]
                   (update_transport (transport_unsubscribe conn topic) (snd (bridge_unsubscribe conn topic b)))))
              else if ft = PStr ''request'' then
                ((case parse_request i d of
                    Some f \<Rightarrow> Inr (Ws_request (f\<lparr>rf_client_id := map_option py_strip (ws_client_id st)\<rparr>))
                  | None \<Rightarrow>
                      (case py_get_or d ''request_id'' (PStr ''unknown'') of
                         PStr rid \<Rightarrow>
                           bind_res (make_response rid False []
                             (Some [(''code'', PStr ''invalid_frame''), (''message'', PStr ''Invalid request frame'')]))
                             (\<lambda>r. Inr (Ws_response r))
                       | _ \<Rightarrow> Inl validation_error)), b)
              else (Inr Ws_nothing, b)))"

text \<open>One turn of the endpoint's loop: \<open>Inl\<close> leaves the loop.\<close>

definition session_message ::
    "bridge_ctx \<Rightarrow> 'g method_registry \<Rightarrow> gateway_inputs \<Rightarrow> string \<Rightarrow> pydict \<Rightarrow> 'g bridge \<Rightarrow> unit res \<times> 'g bridge" where
  "session_message bx reg i conn d b =
     (case handle_message bx i conn d b of
        (Inl e, b1) \<Rightarrow> (Inl e, b1)
      | (Inr Ws_nothing, b1) \<Rightarrow> (Inr (), b1)
      | (Inr (Ws_response r), b1) \<Rightarrow> socket_send bx conn (response_dump r) b1
      | (Inr (Ws_request f), b1) \<Rightarrow>
          (case handle_request (bx_gateway bx) reg i f (bg_server b1) of
             (Inl e, s) \<Rightarrow> (Inl e, b1\<lparr>bg_server := s\<rparr>)
           | (Inr r, s) \<Rightarrow>
               (let b2 = b1\<lparr>bg_server := s\<rparr>;
                    topic = text_param ''topic'' (rf_params f);
                    (q, b3) = (case py_get_or (rf_params f) ''payload'' (PDict []) of
                                 PDict payload \<Rightarrow>
                                   (if rf_method f = ''gateway.publish'' \<and> sf_ok r \<and> topic \<noteq> []
                                    then queue_broadcast i topic payload b2 else (Inr (), b2))
                               | _ \<Rightarrow> (Inr (), b2))
                in case q of
                     Inl e \<Rightarrow> (Inl e, b3)
                   | Inr _ \<Rightarrow> socket_send bx conn (response_dump r) (snd (flush_broadcasts bx b3)))))"

text \<open>The start and the \<open>finally\<close> of the endpoint.\<close>

definition session_open :: "bridge_ctx \<Rightarrow> gateway_inputs \<Rightarrow> 'g bridge \<Rightarrow> unit res \<times> 'g bridge" where
  "session_open bx i b =
     (case transport_accept (gi_now i) (gi_fresh i) None None (bg_transport b) of
        (c, t) \<Rightarrow>
          (case ensure_client i (tc_connection_id c) (b\<lparr>bg_transport := t\<rparr>) of
             (_, b1) \<Rightarrow> socket_send bx (tc_connection_id c)
                [(''frame_type'', PStr ''connected''), (''connection_id'', PStr (tc_connection_id c))] b1))"

definition session_close :: "bridge_ctx \<Rightarrow> string \<Rightarrow> 'g bridge \<Rightarrow> 'g bridge" where
  "session_close bx conn b = transport_close bx conn ''disconnect'' (bridge_disconnect bx conn b)"


section \<open>Facts about the bridge\<close>

lemma update_transport_simps [simp]:
  "bg_server (update_transport f b) = bg_server b"
  "bg_transport (update_transport f b) = f (bg_transport b)"
  "bg_pending (update_transport f b) = bg_pending b"
  by (simp_all add: update_transport_def)

lemma socket_send_frame:
  "bg_server (snd (socket_send bx conn frame b)) = bg_server b"
  "wt_connections (bg_transport (snd (socket_send bx conn frame b))) = wt_connections (bg_transport b)"
  by (simp_all add: socket_send_def)

lemma client_id_gone:
  "dget (wt_connections (bg_transport b)) conn = None \<Longrightarrow> client_id_for_connection b conn = conn"
  by (simp add: client_id_for_connection_def get_connection_def)

lemma client_id_of_state:
  "dget (wt_connections (bg_transport b)) conn = Some st \<Longrightarrow>
   client_id_for_connection b conn = (if nonempty_id (ws_client_id st) then the (ws_client_id st) else conn)"
  by (simp add: client_id_for_connection_def get_connection_def connection_of_state_def)

lemma gateway_disconnect_effect:
  assumes "server_ok s" "lists_sets (gx_order cx)"
  shows "dget (gs_connections (gateway_disconnect cx c s)) d = (if d = c then None else dget (gs_connections s) d)"
    "subscribed (gs_subscriptions (gateway_disconnect cx c s)) = {(d, t) \<in> subscribed (gs_subscriptions s). d \<noteq> c}"
    "server_ok (gateway_disconnect cx c s)"
  using remove_client_ok[OF server_okD(1)[OF assms(1)] assms(2)] disconnect_ok[OF assms]
  by (simp_all add: gateway_disconnect_def)

lemma transport_close_server:
  assumes "dget (wt_connections (bg_transport b)) conn = Some st"
  shows "bg_server (transport_close bx conn reason b) = gateway_disconnect (bx_gateway bx) conn (bg_server b)"
    "dget (wt_connections (bg_transport (transport_close bx conn reason b))) x
      = (if x = conn then None else dget (wt_connections (bg_transport b)) x)"
  using assms by (simp_all add: transport_close_def bridge_disconnect_def client_id_gone)

section \<open>Properties\<close>

text \<open>
  When a session of the endpoint ends, its WebSocket connection, the client it stood for and all
  subscriptions of that client are gone; every other connection, client and subscription is as
  before, unless it goes by the id of the closed connection.
\<close>
theorem session_close_clears:
  assumes "server_ok (bg_server b)" and "lists_sets (gx_order (bx_gateway bx))"
    and "dget (wt_connections (bg_transport b)) conn = Some st"
    and "client = client_id_for_connection b conn" and "b' = session_close bx conn b"
  shows "server_ok (bg_server b')
    \<and> (\<forall>x. dget (wt_connections (bg_transport b')) x
        = (if x = conn then None else dget (wt_connections (bg_transport b)) x))
    \<and> (\<forall>c. dget (gs_connections (bg_server b')) c
        = (if c \<in> {client, conn} then None else dget (gs_connections (bg_server b)) c))
    \<and> subscribed (gs_subscriptions (bg_server b'))
        = {(c, t) \<in> subscribed (gs_subscriptions (bg_server b)). c \<notin> {client, conn}}"
proof -
  let ?b1 = "bridge_disconnect bx conn b"
  have t1: "bg_transport ?b1 = bg_transport b"
    and s1: "bg_server ?b1 = gateway_disconnect (bx_gateway bx) client (bg_server b)"
    using assms(4) by (simp_all add: bridge_disconnect_def)
  note e1 = gateway_disconnect_effect[OF assms(1,2), of client]
  have st: "dget (wt_connections (bg_transport ?b1)) conn = Some st" using assms(3) t1 by simp
  note c = transport_close_server[OF st, of bx "''disconnect''"]
  note e2 = gateway_disconnect_effect[OF e1(3) assms(2), of conn]
  show ?thesis
    using c e1(1,2) e2 t1 unfolding assms(5) session_close_def s1 by auto
qed

text \<open>
  Closing a connection that was accepted for a client id of its own leaves that client behind:
  the disconnect handler runs when the connection has already left the table, takes the connection
  id for the client id, and the client stays connected and subscribed in the server.
\<close>
theorem transport_close_leaves_client:
  assumes "server_ok (bg_server b)" and "lists_sets (gx_order (bx_gateway bx))"
    and "dget (wt_connections (bg_transport b)) conn = Some st" and "ws_client_id st = Some client"
    and "client \<noteq> conn" and "b' = transport_close bx conn reason b"
  shows "dget (wt_connections (bg_transport b')) conn = None
    \<and> dget (gs_connections (bg_server b')) client = dget (gs_connections (bg_server b)) client
    \<and> (\<forall>t. (client, t) \<in> subscribed (gs_subscriptions (bg_server b'))
        \<longleftrightarrow> (client, t) \<in> subscribed (gs_subscriptions (bg_server b)))"
  using transport_close_server[OF assms(3), of bx reason] gateway_disconnect_effect[OF assms(1,2), of conn] assms(5)
  unfolding assms(6) by simp

section \<open>Concrete sessions\<close>

definition demo_bridge_ctx :: bridge_ctx where
  "demo_bridge_ctx = \<lparr>bx_gateway = demo_ctx, bx_sends = (\<lambda>_ _. True)\<rparr>"

definition new_bridge :: "nat bridge" where
  "new_bridge = \<lparr>bg_server = open_server,
     bg_transport = \<lparr>wt_connections = [], wt_client_map = [], wt_sent = [], wt_closed = []\<rparr>, bg_pending = []\<rparr>"

definition demo_session :: "nat bridge" where
  "demo_session =
     snd (session_message demo_bridge_ctx demo_methods demo_at ''ws-1''
       [(''frame_type'', PStr ''subscribe''), (''topic'', PStr ''case.*'')]
       (snd (session_open demo_bridge_ctx demo_at new_bridge)))"

definition named_session :: "nat bridge" where
  "named_session =
     snd (bridge_subscribe demo_at ''ws-1'' ''case.*''
       (new_bridge\<lparr>bg_transport :=
          snd (transport_accept 0 ''1'' (Some ''alice'') None (bg_transport new_bridge))\<rparr>))"

lemma demo_bridge_order: "lists_sets (gx_order (bx_gateway demo_bridge_ctx))"
  by (simp add: demo_bridge_ctx_def demo_order)

lemma subscribe_of_new_client:
  "server_ok s \<Longrightarrow> dget (gs_connections s) c = Some cn \<Longrightarrow>
   server_ok (set_topics c (insert topic) (s\<lparr>gs_subscriptions := subscribe c topic (gs_subscriptions s)\<rparr>))"
proof -
  assume s: "server_ok s" and cn: "dget (gs_connections s) c = Some cn"
  note reg = subscribe_ok[OF server_okD(1)[OF s], of c topic]
  have topics: "insert topic (gc_subscriptions cn)
      = {t. (c, t) \<in> subscribed (subscribe c topic (gs_subscriptions s))}"
    using reg(2) server_okD(4)[OF s cn] by auto
  show ?thesis
    using resubscribe_ok[OF s reg(1) cn _ topics] reg(2) cn by (simp add: set_topics_def)
qed

lemma ensured_ok:
  assumes "server_ok s" "dget (gs_connections s) c = None"
  shows "server_ok (s\<lparr>gs_connections := dput c (new_connection n c {}) (gs_connections s)\<rparr>)"
proof -
  have "(c, t) \<notin> subscribed (gs_subscriptions s)" for t
    using server_okD(2)[OF assms(1), of c t] assms(2) by force
  then show ?thesis
    using server_okD[OF assms(1)] by (intro server_okI) (auto simp: new_connection_def split: if_splits)
qed

lemma ensure_client_server:
  assumes "ensure_client i conn b = (client, b')"
  shows "client = client_id_for_connection b conn"
    and "bg_server b' = (if dget (gs_connections (bg_server b)) client = None
      then (bg_server b)\<lparr>gs_connections := dput client (new_connection (gi_now i) client {}) (gs_connections (bg_server b))\<rparr>
      else bg_server b)"
  using assms by (auto simp: ensure_client_def Let_def)

lemma ensure_client_ok:
  assumes "server_ok (bg_server b)" "ensure_client i conn b = (client, b')"
  shows "server_ok (bg_server b')" "dget (gs_connections (bg_server b')) client \<noteq> None"
  using ensured_ok[OF assms(1), of client] assms(1) ensure_client_server[OF assms(2)] by auto

lemma bridge_subscribe_ok:
  assumes "server_ok (bg_server b)"
  shows "server_ok (bg_server (snd (bridge_subscribe i conn topic b)))"
proof -
  obtain client b1 where e: "ensure_client i conn b = (client, b1)" by fastforce
  obtain cn where "dget (gs_connections (bg_server b1)) client = Some cn"
    using ensure_client_ok(2)[OF assms e] by auto
  from subscribe_of_new_client[OF ensure_client_ok(1)[OF assms e] this] show ?thesis
    using e by (simp add: bridge_subscribe_def Let_def)
qed

lemma session_open_ok:
  assumes "server_ok (bg_server b)"
  shows "server_ok (bg_server (snd (session_open bx i b)))"
proof -
  obtain c t where a: "transport_accept (gi_now i) (gi_fresh i) None None (bg_transport b) = (c, t)" by fastforce
  obtain client b1 where e: "ensure_client i (tc_connection_id c) (b\<lparr>bg_transport := t\<rparr>) = (client, b1)" by fastforce
  have "server_ok (bg_server b1)" using ensure_client_ok(1)[OF _ e] assms by simp
  then show ?thesis using a e by (simp add: session_open_def socket_send_frame)
qed

lemma subscribe_message_ok:
  assumes "server_ok (bg_server b)" "py_get_or d ''frame_type'' (PStr ''request'') = PStr ''subscribe''"
  shows "server_ok (bg_server (snd (session_message bx reg i conn d b)))"
proof -
  define topic where "topic = message_topic d"
  let ?b1 = "snd (bridge_subscribe i conn topic (update_transport (transport_subscribe conn topic) b))"
  let ?f = "[(''frame_type'', PStr ''subscribed''), (''topic'', PStr topic)]"
  have b1: "server_ok (bg_server ?b1)" by (rule bridge_subscribe_ok) (simp add: assms(1))
  have send: "fst (socket_send bx conn ?f ?b1) = Inr () \<or> (\<exists>e. fst (socket_send bx conn ?f ?b1) = Inl e)"
    "server_ok (bg_server (snd (socket_send bx conn ?f ?b1)))"
    using b1 by (simp_all add: socket_send_def)
  consider "handle_message bx i conn d b = (Inr Ws_nothing, b)"
    | "handle_message bx i conn d b =
        (bind_res (fst (socket_send bx conn ?f ?b1)) (\<lambda>_. Inr Ws_nothing), snd (socket_send bx conn ?f ?b1))"
    using assms(2)
    by (cases "dget (wt_connections (bg_transport b)) conn"; cases "message_topic d = []")
      (simp_all add: handle_message_def Let_def topic_def split_beta)
  then show ?thesis
  proof cases
    case 1
    then show ?thesis using assms(1) by (simp add: session_message_def)
  next
    case 2
    from send(1) show ?thesis
    proof (elim disjE exE)
      assume "fst (socket_send bx conn ?f ?b1) = Inr ()"
      then show ?thesis using 2 send(2) by (simp add: session_message_def)
    next
      fix e
      assume "fst (socket_send bx conn ?f ?b1) = Inl e"
      then show ?thesis using 2 send(2) by (simp add: session_message_def)
    qed
  qed
qed

lemma new_bridge_ok: "server_ok (bg_server new_bridge)"
  by (simp add: new_bridge_def open_server_def new_server_ok)

lemma demo_session_ok: "server_ok (bg_server demo_session)"
  unfolding demo_session_def
  by (rule subscribe_message_ok[OF session_open_ok[OF new_bridge_ok]]) (simp add: py_get_or_def)

lemma named_session_ok: "server_ok (bg_server named_session)"
  unfolding named_session_def
  by (rule bridge_subscribe_ok) (simp add: new_bridge_ok)

theorem session_close_clears_witness:
  "dget (gs_connections (bg_server demo_session)) ''ws-1'' \<noteq> None
   \<and> dget (gs_connections (bg_server (session_close demo_bridge_ctx ''ws-1'' demo_session))) ''ws-1'' = None"
proof -
  have "dget (gs_connections (bg_server demo_session)) ''ws-1'' \<noteq> None
    \<and> dget (wt_connections (bg_transport demo_session)) ''ws-1'' \<noteq> None
    \<and> client_id_for_connection demo_session ''ws-1'' = ''ws-1''" by code_simp
  moreover from this obtain st where "dget (wt_connections (bg_transport demo_session)) ''ws-1'' = Some st" by auto
  ultimately show ?thesis
    using session_close_clears[OF demo_session_ok demo_bridge_order _ _ refl, of "''ws-1''" st "''ws-1''"] by auto
qed

theorem transport_close_leaves_client_witness:
  "dget (gs_connections (bg_server (transport_close demo_bridge_ctx ''ws-1'' ''error'' named_session))) ''alice'' \<noteq> None"
proof -
  obtain st where st: "dget (wt_connections (bg_transport named_session)) ''ws-1'' = Some st"
    and "ws_client_id st = Some ''alice''"
    and "dget (gs_connections (bg_server named_session)) ''alice'' \<noteq> None"
  proof -
    have "map_option ws_client_id (dget (wt_connections (bg_transport named_session)) ''ws-1'') = Some (Some ''alice'')
      \<and> dget (gs_connections (bg_server named_session)) ''alice'' \<noteq> None" by code_simp
    then show thesis using that by auto
  qed
  then show ?thesis
    using transport_close_leaves_client[OF named_session_ok demo_bridge_order st, of "''alice''" _ "''error''"] by simp
qed

end
