(* ===== verification/Approval.thy ===== *)
theory Approval
  imports Stores
begin

text \<open>
  Approvals (\<open>policies/approval.py\<close>): requests for permission to call a writing tool, their
  decision, and the events announcing both. The event sink is a function that gives the text of
  the exception it raises, if it raises one; \<open>as_emitted\<close> is the list of events it was handed
  (the list \<open>events\<close> of \<open>InMemoryApprovalEventSink\<close>), each with the approval as it was then. New
  ids and the clock are arguments.
\<close>

datatype approval_status = Appr_PENDING | Appr_APPROVED | Appr_REJECTED

fun approval_status_value :: "approval_status \<Rightarrow> string" where
  "approval_status_value Appr_PENDING = ''pending''"
| "approval_status_value Appr_APPROVED = ''approved''"
| "approval_status_value Appr_REJECTED = ''rejected''"

definition approval_status_of :: "string \<Rightarrow> approval_status res" where
  "approval_status_of s =
     (if s = ''pending'' then Inr Appr_PENDING
      else if s = ''approved'' then Inr Appr_APPROVED
      else if s = ''rejected'' then Inr Appr_REJECTED
      else Inl (ValueError (repr_str s @ '' is not a valid ApprovalStatus'')))"

record approval_request =
  ap_approval_id :: string
  ap_case_id :: string
  ap_step_id :: string
  ap_tool_name :: string
  ap_permission_level :: string
  ap_reason :: string
  ap_status :: approval_status
  ap_requested_at :: int
  ap_decided_at :: "int option"
  ap_decided_by :: "string option"
  ap_decision_reason :: string
  ap_metadata :: pydict

definition approval_to_payload :: "approval_request \<Rightarrow> pydict" where
  "approval_to_payload a =
     [(''approval_id'', PStr (ap_approval_id a)),
      (''case_id'', PStr (ap_case_id a)),
      (''step_id'', PStr (ap_step_id a)),
      (''tool_name'', PStr (ap_tool_name a)),
      (''permission_level'', PStr (ap_permission_level a)),
      (''reason'', PStr (ap_reason a)),
      (''status'', PStr (approval_status_value (ap_status a))),
      (''requested_at'', PStr (iso_format (ap_requested_at a))),
      (''decided_at'', (case ap_decided_at a of None \<Rightarrow> PNone | Some t \<Rightarrow> PStr (iso_format t))),
      (''decided_by'', (case ap_decided_by a of None \<Rightarrow> PNone | Some s \<Rightarrow> PStr s)),
      (''decision_reason'', PStr (ap_decision_reason a)),
      (''metadata'', PDict (ap_metadata a))]"

record approval_event =
  av_event_type :: string
  av_approval :: approval_request
  av_actor :: string
  av_reason :: string
  av_emitted_at :: int

definition event_to_payload :: "approval_event \<Rightarrow> pydict" where
  "event_to_payload e =
     [(''event_type'', PStr (av_event_type e)),
      (''actor'', PStr (av_actor e)),
      (''reason'', PStr (av_reason e)),
      (''emitted_at'', PStr (iso_format (av_emitted_at e))),
      (''approval'', PDict (approval_to_payload (av_approval e)))]"

record approval_store =
  as_items :: "(string \<times> approval_request) list"
  as_sink :: "(approval_event \<Rightarrow> string option) option"
  as_emitted :: "approval_event list"
  as_last_event_error :: "string option"

definition new_approval_store :: "(approval_event \<Rightarrow> string option) option \<Rightarrow> approval_store" where
  "new_approval_store sink =
     \<lparr>as_items = [], as_sink = sink, as_emitted = [], as_last_event_error = None\<rparr>"

definition approval_emit ::
    "int \<Rightarrow> string \<Rightarrow> approval_request \<Rightarrow> string \<Rightarrow> string \<Rightarrow> approval_store \<Rightarrow> approval_store" where
  "approval_emit now event_type a actor reason s =
     (case as_sink s of
        None \<Rightarrow> s
      | Some sink \<Rightarrow>
          (let e = \<lparr>av_event_type = event_type, av_approval = a, av_actor = actor,
                    av_reason = reason, av_emitted_at = now\<rparr>
           in s\<lparr>as_emitted := as_emitted s @ [e], as_last_event_error := sink e\<rparr>))"

definition approval_create_manual ::
    "string \<Rightarrow> int \<Rightarrow> string \<Rightarrow> string \<Rightarrow> string \<Rightarrow> string \<Rightarrow> string \<Rightarrow> pydict \<Rightarrow> approval_store
     \<Rightarrow> approval_request \<times> approval_store" where
  "approval_create_manual new_id now case_id step_id tool_name permission reason metadata s =
     (let a = \<lparr>ap_approval_id = new_id, ap_case_id = case_id, ap_step_id = step_id,
               ap_tool_name = tool_name, ap_permission_level = permission, ap_reason = reason,
               ap_status = Appr_PENDING, ap_requested_at = now, ap_decided_at = None,
               ap_decided_by = None, ap_decision_reason = [], ap_metadata = metadata\<rparr>;
          s' = s\<lparr>as_items := dput new_id a (as_items s)\<rparr>
      in (a, approval_emit now ''approval.requested'' a ''system'' reason s'))"

definition approval_create_for_tool ::
    "string \<Rightarrow> int \<Rightarrow> tool_call_request \<Rightarrow> tool_spec \<Rightarrow> string \<Rightarrow> approval_store
     \<Rightarrow> approval_request \<times> approval_store" where
  "approval_create_for_tool new_id now request spec reason s =
     approval_create_manual new_id now (rq_case_id request) (rq_step_id request)
       (rq_tool_name request) (permission_value (ts_permission_level spec)) reason
       [(''argument_keys'', PList (map PStr (sort (dkeys (rq_arguments request)))))] s"

definition approval_get :: "approval_store \<Rightarrow> string \<Rightarrow> approval_request option" where
  "approval_get s i = dget (as_items s) i"

definition approval_list ::
    "string option \<Rightarrow> int \<Rightarrow> approval_store \<Rightarrow> approval_request list res" where
  "approval_list status limit s =
     bind_res
       (case status of
          None \<Rightarrow> Inr (dvals (as_items s))
        | Some v \<Rightarrow> bind_res (approval_status_of v)
            (\<lambda>expected. Inr (filter (\<lambda>a. ap_status a = expected) (dvals (as_items s)))))
       (\<lambda>items. Inr (take (nat (max 0 limit)) (sort_key_desc ap_requested_at items)))"

definition approval_require :: "approval_store \<Rightarrow> string \<Rightarrow> approval_request res" where
  "approval_require s i =
     (case approval_get s i of
        None \<Rightarrow> Inl (KeyError (''approval not found: '' @ i))
      | Some a \<Rightarrow> Inr a)"

definition approval_decide ::
    "approval_status \<Rightarrow> string \<Rightarrow> int \<Rightarrow> string \<Rightarrow> string \<Rightarrow> string \<Rightarrow> approval_store
     \<Rightarrow> (approval_request \<times> approval_store) res" where
  "approval_decide st event_type now i actor reason s =
     bind_res (approval_require s i) (\<lambda>a.
       let a' = a\<lparr>ap_status := st, ap_decided_at := Some now, ap_decided_by := Some actor,
                  ap_decision_reason := reason\<rparr>;
           s' = s\<lparr>as_items := dput i a' (as_items s)\<rparr>
       in Inr (a', approval_emit now event_type a' actor reason s'))"

definition approval_approve ::
    "int \<Rightarrow> string \<Rightarrow> string \<Rightarrow> string \<Rightarrow> approval_store \<Rightarrow> (approval_request \<times> approval_store) res" where
  "approval_approve = approval_decide Appr_APPROVED ''approval.approved''"

definition approval_reject ::
    "int \<Rightarrow> string \<Rightarrow> string \<Rightarrow> string \<Rightarrow> approval_store \<Rightarrow> (approval_request \<times> approval_store) res" where
  "approval_reject = approval_decide Appr_REJECTED ''approval.rejected''"

definition is_approved_for ::
    "string \<Rightarrow> tool_call_request \<Rightarrow> tool_spec \<Rightarrow> approval_store \<Rightarrow> bool" where
  "is_approved_for i request spec s =
     (case approval_get s i of
        None \<Rightarrow> False
      | Some a \<Rightarrow>
          ap_status a = Appr_APPROVED
          \<and> ap_case_id a = rq_case_id request
          \<and> ap_step_id a = rq_step_id request
          \<and> ap_tool_name a = rq_tool_name request
          \<and> ap_permission_level a = permission_value (ts_permission_level spec))"

section \<open>Facts about the store\<close>

abbreviation approvals_ok :: "approval_store \<Rightarrow> bool" where
  "approvals_ok s \<equiv> keyed ap_approval_id (as_items s)"

lemma approval_emit_items [simp]: "as_items (approval_emit now t a ac r s) = as_items s"
  by (simp add: approval_emit_def Let_def split: option.splits)

lemma approval_emit_sink [simp]: "as_sink (approval_emit now t a ac r s) = as_sink s"
  by (simp add: approval_emit_def Let_def split: option.splits)

lemma approval_emit_events:
  "map av_event_type (as_emitted (approval_emit now t a ac r s)) =
     map av_event_type (as_emitted s) @ (if as_sink s = None then [] else [t])"
  by (auto simp: approval_emit_def Let_def split: option.splits)

lemma approval_create_manual_get:
  "approval_create_manual i now c st t p r m s = (a, s') \<Longrightarrow>
   approval_get s' j = (if j = i then Some a else approval_get s j)"
  by (auto simp: approval_create_manual_def approval_get_def Let_def)

lemma approval_create_manual_fields:
  "approval_create_manual i now c st t p r m s = (a, s') \<Longrightarrow>
   ap_approval_id a = i \<and> ap_case_id a = c \<and> ap_step_id a = st \<and> ap_tool_name a = t
   \<and> ap_permission_level a = p \<and> ap_status a = Appr_PENDING"
  by (auto simp: approval_create_manual_def Let_def)

lemma approval_create_manual_ok:
  "approvals_ok s \<Longrightarrow> approvals_ok (snd (approval_create_manual i now c st t p r m s))"
  using keyed_dput[of ap_approval_id "as_items s" "fst (approval_create_manual i now c st t p r m s)"]
  by (simp add: approval_create_manual_def Let_def)

lemma approval_decide_get:
  "approval_decide st ev now i actor reason s = Inr (a, s') \<Longrightarrow>
   approval_get s' j = (if j = i then Some a else approval_get s j)"
  by (auto simp: approval_decide_def approval_get_def Let_def)

lemma approval_decide_fields:
  assumes "approval_decide st ev now i actor reason s = Inr (a, s')"
  obtains b where "approval_get s i = Some b"
    and "a = b\<lparr>ap_status := st, ap_decided_at := Some now, ap_decided_by := Some actor,
               ap_decision_reason := reason\<rparr>"
  using assms by (auto simp: approval_decide_def approval_require_def Let_def split: option.splits)

lemma approval_decide_ok:
  assumes "approvals_ok s" and "approval_decide st ev now i actor reason s = Inr (a, s')"
  shows "approvals_ok s'"
proof -
  obtain b where b: "approval_get s i = Some b"
    and a: "a = b\<lparr>ap_status := st, ap_decided_at := Some now, ap_decided_by := Some actor,
               ap_decision_reason := reason\<rparr>"
    using approval_decide_fields[OF assms(2)] by blast
  have "ap_approval_id a = i" using keyed_get[OF assms(1)] b a by (simp add: approval_get_def)
  moreover have "as_items s' = dput i a (as_items s)"
    using assms(2) by (auto simp: approval_decide_def Let_def)
  ultimately show ?thesis using keyed_dput[OF assms(1), of a] by simp
qed

lemma approval_decide_defined:
  "(\<exists>r. approval_decide st ev now i actor reason s = Inr r) \<longleftrightarrow> approval_get s i \<noteq> None"
  by (auto simp: approval_decide_def approval_require_def Let_def split: option.splits)

lemmas approval_defs =
  approval_approve_def approval_reject_def approval_decide_def approval_require_def approval_get_def

interpretation approval_db: keyed_store ap_approval_id
  "\<lambda>a s. s\<lparr>as_items := dput (ap_approval_id a) a (as_items s)\<rparr>" approval_get
  "\<lambda>s. dvals (as_items s)" approvals_ok
proof unfold_locales
  fix s :: approval_store and a
  assume s: "approvals_ok s"
  show "a \<in> set (dvals (as_items s)) \<longleftrightarrow> approval_get s (ap_approval_id a) = Some a"
    using keyed_vals[OF s] by (simp add: approval_get_def)
  show "distinct (map ap_approval_id (dvals (as_items s)))"
    using s keyed_keys[OF s] by (metis keyed_def)
qed (auto simp: approval_get_def keyed_get)

end
