(* ===== verification/ToolPlane.thy ===== *)
theory ToolPlane
  imports Approval
begin

text \<open>
  The MCP tool plane (\<open>mcp_plane/registry.py\<close>, \<open>policy.py\<close>, \<open>external_client.py\<close>, \<open>gateway.py\<close>,
  \<open>tool_resolution.py\<close>, \<open>process_env.py\<close>): the registry of tools, the policy guard with its
  approvals, and the single entry \<open>invoke\<close> that checks, runs and audits a call.

  A tool handler runs in a world of type \<open>'w\<close>: it takes the arguments and the world and gives
  either the exception it raises (its type's name and its text) or the content, with the new
  world. New ids, the clock and the measured latencies are the \<open>invoke_inputs\<close>.
\<close>

section \<open>The registry (mcp_plane/registry.py)\<close>

type_synonym 'w handler = "pydict \<Rightarrow> 'w \<Rightarrow> ((string \<times> string) + pydict) \<times> 'w"

record 'w tool_registry =
  tg_specs :: "(string \<times> tool_spec) list"
  tg_handlers :: "(string \<times> 'w handler) list"

definition new_tool_registry :: "'w tool_registry" where
  "new_tool_registry = \<lparr>tg_specs = [], tg_handlers = []\<rparr>"

definition registry_register :: "tool_spec \<Rightarrow> 'w handler \<Rightarrow> 'w tool_registry \<Rightarrow> 'w tool_registry res" where
  "registry_register spec h r =
     (if ts_name spec \<in> set (dkeys (tg_specs r))
      then Inl (ValueError (''Tool already registered: '' @ ts_name spec))
      else Inr (r\<lparr>tg_specs := dput (ts_name spec) spec (tg_specs r),
                  tg_handlers := dput (ts_name spec) h (tg_handlers r)\<rparr>))"

definition registry_register_external :: "tool_spec \<Rightarrow> 'w tool_registry \<Rightarrow> 'w tool_registry res" where
  "registry_register_external spec r =
     (if ts_name spec \<in> set (dkeys (tg_specs r))
      then Inl (ValueError (''Tool already registered: '' @ ts_name spec))
      else Inr (r\<lparr>tg_specs := dput (ts_name spec) spec (tg_specs r)\<rparr>))"

definition registry_get_spec :: "'w tool_registry \<Rightarrow> string \<Rightarrow> tool_spec option" where
  "registry_get_spec r n = dget (tg_specs r) n"

definition registry_get_handler :: "'w tool_registry \<Rightarrow> string \<Rightarrow> 'w handler option" where
  "registry_get_handler r n = dget (tg_handlers r) n"

definition registry_list_specs :: "'w tool_registry \<Rightarrow> tool_spec list" where
  "registry_list_specs r = dvals (tg_specs r)"

definition registry_known_tools :: "'w tool_registry \<Rightarrow> string set" where
  "registry_known_tools r = set (dkeys (tg_specs r))"

definition registry_unregister :: "string \<Rightarrow> 'w tool_registry \<Rightarrow> bool \<times> 'w tool_registry" where
  "registry_unregister n r =
     (if n \<notin> set (dkeys (tg_specs r)) then (False, r)
      else (True, r\<lparr>tg_specs := ddel n (tg_specs r), tg_handlers := ddel n (tg_handlers r)\<rparr>))"

fun unregister_each :: "string \<Rightarrow> (string \<times> tool_spec) list \<Rightarrow> 'w tool_registry \<Rightarrow> string list \<times> 'w tool_registry" where
  "unregister_each server [] r = ([], r)"
| "unregister_each server ((n, spec) # xs) r =
     (if ts_server_name spec = server \<and> ts_scope spec = Scope_EXTERNAL then
        (let u = registry_unregister n r; v = unregister_each server xs (snd u)
         in (if fst u then n # fst v else fst v, snd v))
      else unregister_each server xs r)"

definition registry_unregister_by_server :: "string \<Rightarrow> 'w tool_registry \<Rightarrow> string list \<times> 'w tool_registry" where
  "registry_unregister_by_server server r = unregister_each server (tg_specs r) r"

text \<open>Specs are stored under their names; every handler belongs to a registered tool.\<close>

definition registry_ok :: "'w tool_registry \<Rightarrow> bool" where
  "registry_ok r \<longleftrightarrow> keyed ts_name (tg_specs r)
     \<and> set (dkeys (tg_handlers r)) \<subseteq> set (dkeys (tg_specs r))"

lemma registry_ok_new [simp]: "registry_ok new_tool_registry"
  by (simp add: registry_ok_def new_tool_registry_def)

lemma registry_register_ok:
  assumes "registry_ok r" and "registry_register spec h r = Inr r'"
  shows "registry_ok r'"
proof -
  have "r' = r\<lparr>tg_specs := dput (ts_name spec) spec (tg_specs r),
               tg_handlers := dput (ts_name spec) h (tg_handlers r)\<rparr>"
    using assms(2) by (simp add: registry_register_def split: if_splits)
  then show ?thesis using assms(1) by (simp add: registry_ok_def subset_insertI2)
qed

lemma registry_register_external_ok:
  assumes "registry_ok r" and "registry_register_external spec r = Inr r'"
  shows "registry_ok r'"
proof -
  have "r' = r\<lparr>tg_specs := dput (ts_name spec) spec (tg_specs r)\<rparr>"
    using assms(2) by (simp add: registry_register_external_def split: if_splits)
  then show ?thesis using assms(1) by (simp add: registry_ok_def subset_insertI2)
qed

lemma set_ddel_keys [simp]: "fst ` set (ddel k d) = fst ` set d - {k}"
  by (auto simp: AList.delete_eq)

lemma registry_unregister_ok: "registry_ok r \<Longrightarrow> registry_ok (snd (registry_unregister n r))"
  by (auto simp: registry_ok_def registry_unregister_def)

lemma registry_unregister_spec:
  "registry_get_spec (snd (registry_unregister n r)) m = (if m = n then None else registry_get_spec r m)"
  by (auto simp: registry_unregister_def registry_get_spec_def dget_None_iff)

lemma unregister_each_ok: "registry_ok r \<Longrightarrow> registry_ok (snd (unregister_each server xs r))"
  by (induction server xs r rule: unregister_each.induct)
     (simp_all add: Let_def registry_unregister_ok)

lemma unregister_each_spec:
  "registry_get_spec (snd (unregister_each server xs r)) m =
     (if \<exists>spec. (m, spec) \<in> set xs \<and> ts_server_name spec = server \<and> ts_scope spec = Scope_EXTERNAL
      then None else registry_get_spec r m)"
proof (induction server xs r rule: unregister_each.induct)
  case (2 server n spec xs r)
  show ?case
  proof (cases "ts_server_name spec = server \<and> ts_scope spec = Scope_EXTERNAL")
    case True
    then show ?thesis
      using 2(1)[OF True refl] by (auto simp: Let_def registry_unregister_spec)
  next
    case False
    then show ?thesis using 2(2) by auto
  qed
qed simp

lemma registry_unregister_by_server_ok:
  "registry_ok r \<Longrightarrow> registry_ok (snd (registry_unregister_by_server server r))"
  by (simp add: registry_unregister_by_server_def unregister_each_ok)

lemma registry_unregister_by_server_spec:
  assumes "registry_ok r"
  shows "registry_get_spec (snd (registry_unregister_by_server server r)) m =
     (case registry_get_spec r m of
        None \<Rightarrow> None
      | Some spec \<Rightarrow> (if ts_server_name spec = server \<and> ts_scope spec = Scope_EXTERNAL
                      then None else Some spec))"
proof -
  have d: "distinct (dkeys (tg_specs r))" using assms by (simp add: registry_ok_def keyed_def)
  have "(m, spec) \<in> set (tg_specs r) \<longleftrightarrow> registry_get_spec r m = Some spec" for spec
    unfolding registry_get_spec_def by (rule dget_in_set[OF d])
  then show ?thesis
    unfolding registry_unregister_by_server_def unregister_each_spec
    by (auto split: option.splits)
qed

section \<open>Tools for the planner (mcp_plane/tool_resolution.py)\<close>

definition skill_allows_external_mcp :: "skill_spec option \<Rightarrow> bool" where
  "skill_allows_external_mcp skill =
     (case skill of
        None \<Rightarrow> False
      | Some s \<Rightarrow> py_truthy (py_get (ss_metadata s) ''allow_external_mcp'')
               \<or> ''mcp'' \<in> set (map (\<lambda>t. py_lower (py_strip t)) (ss_tags s)))"

definition list_external_tool_specs :: "'w tool_registry \<Rightarrow> tool_spec list" where
  "list_external_tool_specs r = filter (\<lambda>s. ts_scope s = Scope_EXTERNAL) (registry_list_specs r)"

definition nonblank :: "string list \<Rightarrow> string set" where
  "nonblank xs = {t \<in> set (map py_strip xs). t \<noteq> []}"

definition internal_tool_names_for_skill :: "skill_spec \<Rightarrow> string set" where
  "internal_tool_names_for_skill s =
     nonblank (ss_required_tools s) \<union> nonblank (map sd_action (ss_steps s)) \<union> nonblank (ss_bound_tools s)"

definition resolve_planner_tools :: "'w tool_registry \<Rightarrow> skill_spec option \<Rightarrow> bool \<Rightarrow> tool_spec list" where
  "resolve_planner_tools r skill allow_write =
     (let all = registry_list_specs r;
          specs =
            (case skill of
               None \<Rightarrow> all
             | Some s \<Rightarrow>
                 (let names = internal_tool_names_for_skill s in
                  if skill_allows_external_mcp skill
                  then filter (\<lambda>t. ts_scope t = Scope_EXTERNAL \<or> ts_name t \<in> names) all
                  else
                    (let sel = filter (\<lambda>t. ts_scope t \<noteq> Scope_EXTERNAL \<and> ts_name t \<in> names) all
                     in if sel = [] then filter (\<lambda>t. ts_scope t \<noteq> Scope_EXTERNAL) all else sel)))
      in if allow_write then specs else filter (\<lambda>t. ts_permission_level t = Perm_READ) specs)"

lemma resolve_planner_tools_registered:
  "set (resolve_planner_tools r skill w) \<subseteq> set (registry_list_specs r)"
  by (auto simp: resolve_planner_tools_def Let_def split: option.splits if_splits)

lemma resolve_planner_tools_read:
  "t \<in> set (resolve_planner_tools r skill False) \<Longrightarrow> ts_permission_level t = Perm_READ"
  by (simp add: resolve_planner_tools_def Let_def)

lemma resolve_planner_tools_internal:
  "\<not> skill_allows_external_mcp (Some s) \<Longrightarrow> t \<in> set (resolve_planner_tools r (Some s) w) \<Longrightarrow>
   ts_scope t = Scope_INTERNAL"
  by (cases "ts_scope t") (auto simp: resolve_planner_tools_def Let_def split: if_splits)

section \<open>The environment of MCP subprocesses (mcp_plane/process_env.py)\<close>

definition mcp_env_scopes :: "string set" where
  "mcp_env_scopes = {''mcp'', ''runtime''}"

definition env_item :: "pyval \<Rightarrow> (string \<times> string) option" where
  "env_item item =
     (case item of
        PDict d \<Rightarrow>
          (let sc = py_lower (py_strip (py_str (py_or (py_get d ''scope'') (PStr ''runtime''))));
               scope = (if sc = [] then ''runtime'' else sc);
               key = py_strip (py_str (py_or (py_get d ''key'') (PStr [])))
           in if scope \<notin> mcp_env_scopes \<or> key = [] then None
              else Some (key, py_str (py_or (py_get d ''value'') (PStr []))))
      | _ \<Rightarrow> None)"

definition env_from_admin_items :: "pyval list \<Rightarrow> (string \<times> string) list" where
  "env_from_admin_items items = dict_of (List.map_filter env_item items)"

definition merge_stdio_env :: "(string \<times> string) list \<Rightarrow> (string \<times> string) list \<Rightarrow> (string \<times> string) list" where
  "merge_stdio_env extra server =
     (let clean = List.map_filter (\<lambda>(k, v). if py_strip k = [] then None else Some (py_strip k, v))
      in dunion (dunion [] (clean extra)) (clean server))"

section \<open>The policy guard (mcp_plane/policy.py)\<close>

record policy_guard =
  pg_deny_write :: bool
  pg_require_approval_for_write :: bool

datatype policy_result =
    Policy_ok
  | Policy_denied string
  | Approval_required approval_request

text \<open>The approval store the guard holds is threaded through; \<open>None\<close> is a guard without one.\<close>

definition request_approval_id :: "tool_call_request \<Rightarrow> string" where
  "request_approval_id q =
     py_str (py_or (py_or (py_get (rq_arguments q) ''approval_id'')
                          (py_get (rq_arguments q) ''_approval_id'')) (PStr []))"

definition policy_enforce ::
    "string \<Rightarrow> int \<Rightarrow> policy_guard \<Rightarrow> tool_call_request \<Rightarrow> tool_spec \<Rightarrow> approval_store option
     \<Rightarrow> policy_result \<times> approval_store option" where
  "policy_enforce new_id now g request spec store =
     (if pg_deny_write g \<and> ts_permission_level spec \<noteq> Perm_READ
      then (Policy_denied (''Write tool blocked by policy: '' @ rq_tool_name request), store)
      else if \<not> pg_require_approval_for_write g \<or> ts_permission_level spec = Perm_READ
      then (Policy_ok, store)
      else
        (case store of
           None \<Rightarrow>
             (Policy_denied (''Approval store not configured for tool: '' @ rq_tool_name request), store)
         | Some s \<Rightarrow>
             (let i = request_approval_id request in
              if i \<noteq> [] \<and> is_approved_for i request spec s then (Policy_ok, store)
              else
                (let (a, s') = approval_create_for_tool new_id now request spec
                       (permission_value (ts_permission_level spec) @ '' tool requires approval'') s
                 in (Approval_required a, Some s')))))"

section \<open>External tools (mcp_plane/external_client.py)\<close>

type_synonym 'w external_client = "(string \<times> (string \<Rightarrow> 'w handler)) list"

definition external_register_server ::
    "string \<Rightarrow> (string \<Rightarrow> 'w handler) \<Rightarrow> 'w external_client \<Rightarrow> 'w external_client" where
  "external_register_server n f c = dput n f c"

definition external_invoke :: "'w external_client \<Rightarrow> tool_spec \<Rightarrow> 'w handler" where
  "external_invoke c spec args w =
     (case dget c (ts_server_name spec) of
        None \<Rightarrow> (Inl (''RuntimeError'', ''external server not configured: '' @ ts_server_name spec), w)
      | Some f \<Rightarrow> f (ts_name spec) args w)"

section \<open>The gateway (mcp_plane/gateway.py)\<close>

record 'w mcp_gateway =
  mg_registry :: "'w tool_registry"
  mg_policy :: policy_guard
  mg_approvals :: "approval_store option"
  mg_audit :: audit_log
  mg_client :: "'w external_client option"
  mg_world :: 'w

record invoke_inputs =
  iv_event_id :: string
  iv_approval_id :: string
  iv_now :: int
  iv_audit_latency :: nat
  iv_latency :: nat

definition tool_error_dump :: "tool_error \<Rightarrow> pydict" where
  "tool_error_dump e =
     [(''code'', PStr (te_code e)), (''message'', PStr (te_message e)),
      (''details'', PDict (te_details e)), (''retryable'', PBool (te_retryable e))]"

definition invoke_audit_detail ::
    "nat \<Rightarrow> tool_call_request \<Rightarrow> string option \<Rightarrow> bool \<Rightarrow> tool_error option \<Rightarrow> pydict \<Rightarrow> pydict" where
  "invoke_audit_detail latency q plugin_id ok err content =
     [(''case_id'', PStr (rq_case_id q)),
      (''step_id'', PStr (rq_step_id q)),
      (''skill_name'', PStr (rq_skill_name q)),
      (''tool_name'', PStr (rq_tool_name q)),
      (''ok'', PBool ok),
      (''latency_ms'', PInt (int latency)),
      (''arguments_keys'', PList (map PStr (sort (dkeys (rq_arguments q)))))]
     @ (case plugin_id of None \<Rightarrow> [] | Some p \<Rightarrow> [(''plugin_id'', PStr p)])
     @ (case err of None \<Rightarrow> [] | Some e \<Rightarrow> [(''error'', PDict (tool_error_dump e))])
     @ (if content = [] then [] else [(''content_preview'', PDict (take 5 content))])"

definition gateway_audit ::
    "invoke_inputs \<Rightarrow> tool_call_request \<Rightarrow> string \<Rightarrow> string option \<Rightarrow> string option \<Rightarrow> bool
     \<Rightarrow> tool_error option \<Rightarrow> pydict \<Rightarrow> 'w mcp_gateway \<Rightarrow> 'w mcp_gateway" where
  "gateway_audit iv q actor plugin_id request_id ok err content g =
     g\<lparr>mg_audit := audit_append
         \<lparr>ae_event_id = ''audit-'' @ iv_event_id iv, ae_category = Aud_TOOL_CALL,
          ae_action = ''mcp.invoke'', ae_actor = actor, ae_target = rq_tool_name q,
          ae_trace_id = None, ae_request_id = request_id,
          ae_detail = invoke_audit_detail (iv_audit_latency iv) q plugin_id ok err content\<rparr>
         (mg_audit g)\<rparr>"

definition failed_result :: "tool_call_request \<Rightarrow> tool_error \<Rightarrow> tool_call_result" where
  "failed_result q e =
     \<lparr>tr_ok = False, tr_tool_name = rq_tool_name q, tr_content = [], tr_error = Some e,
      tr_latency_ms = 0\<rparr>"

text \<open>Running the tool: an external tool through the client, an internal one through its handler.\<close>

definition run_tool :: "tool_spec \<Rightarrow> tool_call_request \<Rightarrow> 'w mcp_gateway \<Rightarrow> ((string \<times> string) + pydict) \<times> 'w" where
  "run_tool spec q g =
     (if ts_scope spec = Scope_EXTERNAL then
        (case mg_client g of
           None \<Rightarrow> (Inl (''RuntimeError'', ''external client not configured''), mg_world g)
         | Some c \<Rightarrow> external_invoke c spec (rq_arguments q) (mg_world g))
      else
        (case registry_get_handler (mg_registry g) (rq_tool_name q) of
           None \<Rightarrow> (Inl (''RuntimeError'', ''No handler for internal tool''), mg_world g)
         | Some h \<Rightarrow> h (rq_arguments q) (mg_world g)))"

definition tool_exec_error :: "string \<Rightarrow> string \<Rightarrow> tool_error" where
  "tool_exec_error tname msg =
     \<lparr>te_code = ''TOOL_EXEC_ERROR'', te_message = msg, te_details = [(''type'', PStr tname)],
      te_retryable = False\<rparr>"

definition not_registered_error :: "tool_call_request \<Rightarrow> tool_error" where
  "not_registered_error q =
     \<lparr>te_code = ''TOOL_NOT_REGISTERED'', te_message = ''Tool not registered: '' @ rq_tool_name q,
      te_details = [], te_retryable = False\<rparr>"

definition approval_required_error :: "approval_request \<Rightarrow> tool_error" where
  "approval_required_error a =
     \<lparr>te_code = ''APPROVAL_REQUIRED'',
      te_message = ''Approval required for tool: '' @ ap_tool_name a,
      te_details = approval_to_payload a, te_retryable = True\<rparr>"

definition policy_denied_error :: "string \<Rightarrow> tool_error" where
  "policy_denied_error msg =
     \<lparr>te_code = ''POLICY_DENIED'', te_message = msg, te_details = [], te_retryable = False\<rparr>"

definition ok_result :: "invoke_inputs \<Rightarrow> tool_call_request \<Rightarrow> pydict \<Rightarrow> tool_call_result" where
  "ok_result iv q content =
     \<lparr>tr_ok = True, tr_tool_name = rq_tool_name q, tr_content = content, tr_error = None,
      tr_latency_ms = iv_latency iv\<rparr>"

text \<open>
  What \<open>invoke\<close> does with the tool's outcome. \<open>ToolError\<close> wants a non-empty message
  (\<open>min_length=1\<close>): an exception with an empty text makes the construction of the error itself
  raise, out of \<open>invoke\<close> and before the audit.
\<close>

fun finish_call ::
    "invoke_inputs \<Rightarrow> tool_call_request \<Rightarrow> string \<Rightarrow> string option \<Rightarrow> string option
     \<Rightarrow> (string \<times> string) + pydict \<Rightarrow> 'w mcp_gateway \<Rightarrow> tool_call_result res \<times> 'w mcp_gateway" where
  "finish_call iv q actor plugin_id request_id (Inl (tname, msg)) g =
     (if msg = [] then (Inl (OtherError ''ValidationError''), g)
      else (let e = tool_exec_error tname msg
            in (Inr (failed_result q e), gateway_audit iv q actor plugin_id request_id False (Some e) [] g)))"
| "finish_call iv q actor plugin_id request_id (Inr content) g =
     (Inr (ok_result iv q content), gateway_audit iv q actor plugin_id request_id True None content g)"

definition refuse_call ::
    "invoke_inputs \<Rightarrow> tool_call_request \<Rightarrow> string \<Rightarrow> string option \<Rightarrow> string option
     \<Rightarrow> tool_error \<Rightarrow> 'w mcp_gateway \<Rightarrow> tool_call_result res \<times> 'w mcp_gateway" where
  "refuse_call iv q actor plugin_id request_id e g =
     (Inr (failed_result q e), gateway_audit iv q actor plugin_id request_id False (Some e) [] g)"

definition gateway_invoke ::
    "invoke_inputs \<Rightarrow> tool_call_request \<Rightarrow> string \<Rightarrow> string option \<Rightarrow> string option
     \<Rightarrow> 'w mcp_gateway \<Rightarrow> tool_call_result res \<times> 'w mcp_gateway" where
  "gateway_invoke iv q actor plugin_id request_id g =
     (case registry_get_spec (mg_registry g) (rq_tool_name q) of
        None \<Rightarrow> refuse_call iv q actor plugin_id request_id (not_registered_error q) g
      | Some spec \<Rightarrow>
          (let (verdict, store) =
                 policy_enforce (iv_approval_id iv) (iv_now iv) (mg_policy g) q spec (mg_approvals g);
               g1 = g\<lparr>mg_approvals := store\<rparr>
           in case verdict of
             Approval_required a \<Rightarrow>
               refuse_call iv q actor plugin_id request_id (approval_required_error a) g1
           | Policy_denied msg \<Rightarrow>
               refuse_call iv q actor plugin_id request_id (policy_denied_error msg) g1
           | Policy_ok \<Rightarrow>
               (let (out, w) = run_tool spec q g1
                in finish_call iv q actor plugin_id request_id out (g1\<lparr>mg_world := w\<rparr>))))"

section \<open>Facts about the guard and the gateway\<close>

lemma policy_enforce_ok_cases:
  "policy_enforce i now g q spec store = (Policy_ok, store') \<Longrightarrow>
   store' = store
   \<and> (ts_permission_level spec = Perm_READ
      \<or> (\<not> pg_deny_write g
         \<and> (pg_require_approval_for_write g \<longrightarrow>
              (\<exists>s. store = Some s \<and> is_approved_for (request_approval_id q) q spec s))))"
  by (auto simp: policy_enforce_def Let_def split_beta split: if_splits option.splits)

lemma policy_enforce_store_ok:
  "pred_option approvals_ok store \<Longrightarrow>
   pred_option approvals_ok (snd (policy_enforce i now g q spec store))"
  by (auto simp: policy_enforce_def Let_def split_beta approval_create_for_tool_def
      approval_create_manual_ok split: option.splits)

lemma gateway_audit_simps [simp]:
  "mg_registry (gateway_audit iv q ac p ri ok e c g) = mg_registry g"
  "mg_policy (gateway_audit iv q ac p ri ok e c g) = mg_policy g"
  "mg_approvals (gateway_audit iv q ac p ri ok e c g) = mg_approvals g"
  "mg_client (gateway_audit iv q ac p ri ok e c g) = mg_client g"
  "mg_world (gateway_audit iv q ac p ri ok e c g) = mg_world g"
  by (simp_all add: gateway_audit_def)

lemma gateway_audit_log:
  "\<exists>ev. mg_audit (gateway_audit iv q ac p ri ok e c g) = mg_audit g @ [ev]
     \<and> ae_target ev = rq_tool_name q \<and> ae_action ev = ''mcp.invoke'' \<and> ae_actor ev = ac
     \<and> py_get (ae_detail ev) ''ok'' = PBool ok \<and> event_matches_case ev (rq_case_id q)"
  by (simp add: gateway_audit_def audit_append_def invoke_audit_detail_def event_matches_case_def
      py_get_or_def)

text \<open>
  The ways a call ends: refused before the tool runs, or with the tool's outcome.
\<close>

lemma gateway_invoke_shape:
  assumes inv: "gateway_invoke iv q ac p ri g = (r, g')"
  obtains
    (refused) e store where
      "(r, g') = refuse_call iv q ac p ri e (g\<lparr>mg_approvals := store\<rparr>)"
      "te_code e \<in> {''TOOL_NOT_REGISTERED'', ''APPROVAL_REQUIRED'', ''POLICY_DENIED''}"
      "pred_option approvals_ok (mg_approvals g) \<Longrightarrow> pred_option approvals_ok store"
  | (run) spec out w where "registry_get_spec (mg_registry g) (rq_tool_name q) = Some spec"
      "policy_enforce (iv_approval_id iv) (iv_now iv) (mg_policy g) q spec (mg_approvals g)
         = (Policy_ok, mg_approvals g)"
      "run_tool spec q g = (out, w)"
      "(r, g') = finish_call iv q ac p ri out (g\<lparr>mg_world := w\<rparr>)"
proof (cases "registry_get_spec (mg_registry g) (rq_tool_name q)")
  case None
  then show ?thesis
    using inv by (intro refused[of "not_registered_error q" "mg_approvals g"])
      (simp_all add: gateway_invoke_def not_registered_error_def)
next
  case (Some spec)
  obtain v store where pe:
    "policy_enforce (iv_approval_id iv) (iv_now iv) (mg_policy g) q spec (mg_approvals g) = (v, store)"
    by (cases "policy_enforce (iv_approval_id iv) (iv_now iv) (mg_policy g) q spec (mg_approvals g)")
  have ok: "pred_option approvals_ok (mg_approvals g) \<Longrightarrow> pred_option approvals_ok store"
    using policy_enforce_store_ok pe by (metis snd_conv)
  obtain out w where rt: "run_tool spec q g = (out, w)" by (cases "run_tool spec q g")
  show ?thesis
  proof (cases v)
    case Policy_ok
    then have "store = mg_approvals g" using pe policy_enforce_ok_cases by blast
    then show ?thesis using inv Some pe Policy_ok rt by (intro run) (auto simp: gateway_invoke_def)
  next
    case (Policy_denied msg)
    then show ?thesis
      using inv Some pe ok by (intro refused[of "policy_denied_error msg" store])
        (simp_all add: gateway_invoke_def policy_denied_error_def)
  next
    case (Approval_required a)
    then show ?thesis
      using inv Some pe ok by (intro refused[of "approval_required_error a" store])
        (simp_all add: gateway_invoke_def approval_required_error_def)
  qed
qed

section \<open>The interface of an audited invoker\<close>

text \<open>
  What the agent's tool-call loop relies on: every answered call leaves exactly one event in the
  audit log, naming the tool and its outcome, and a call that raises leaves none.
\<close>

definition audits_call :: "audit_log \<Rightarrow> audit_log \<Rightarrow> tool_call_request \<Rightarrow> bool \<Rightarrow> bool" where
  "audits_call before after q ok \<longleftrightarrow>
     (\<exists>ev. after = before @ [ev] \<and> ae_target ev = rq_tool_name q \<and> ae_action ev = ''mcp.invoke''
        \<and> py_get (ae_detail ev) ''ok'' = PBool ok \<and> event_matches_case ev (rq_case_id q))"

locale audited_invoker =
  fixes invoke :: "tool_call_request \<Rightarrow> 'g \<Rightarrow> tool_call_result res \<times> 'g"
    and audit :: "'g \<Rightarrow> audit_log"
  assumes answer_audited: "invoke q g = (Inr r, g') \<Longrightarrow> audits_call (audit g) (audit g') q (tr_ok r)"
    and raise_silent: "invoke q g = (Inl e, g') \<Longrightarrow> audit g' = audit g"
    and answer_names: "invoke q g = (Inr r, g') \<Longrightarrow> tr_tool_name r = rq_tool_name q"
begin

lemma audit_grows:
  "invoke q g = (r, g') \<Longrightarrow> length (audit g') = length (audit g) + (case r of Inl _ \<Rightarrow> 0 | Inr _ \<Rightarrow> 1)"
  by (cases r) (auto simp: audits_call_def dest!: answer_audited raise_silent)

lemma audit_kept: "invoke q g = (r, g') \<Longrightarrow> \<exists>evs. audit g' = audit g @ evs"
  by (cases r) (auto simp: audits_call_def dest!: answer_audited raise_silent)

end

lemma audits_call_gateway_audit:
  "audits_call (mg_audit g) (mg_audit (gateway_audit iv q ac p ri ok e c g)) q ok"
  using gateway_audit_log[of iv q ac p ri ok e c g] by (auto simp: audits_call_def)

lemma finish_call_answer:
  "finish_call iv q ac p ri out g = (Inr r, g') \<Longrightarrow>
   audits_call (mg_audit g) (mg_audit g') q (tr_ok r) \<and> tr_tool_name r = rq_tool_name q
   \<and> mg_world g' = mg_world g \<and> mg_approvals g' = mg_approvals g"
  by (cases "(iv, q, ac, p, ri, out, g)" rule: finish_call.cases)
     (auto simp: Let_def failed_result_def ok_result_def audits_call_gateway_audit split: if_splits)

lemma finish_call_raise: "finish_call iv q ac p ri out g = (Inl e, g') \<Longrightarrow> g' = g"
  by (cases "(iv, q, ac, p, ri, out, g)" rule: finish_call.cases) (auto simp: Let_def split: if_splits)

lemma finish_call_world: "finish_call iv q ac p ri out g = (r, g') \<Longrightarrow> mg_world g' = mg_world g"
  using finish_call_answer finish_call_raise by (cases r) blast+

interpretation mcp: audited_invoker "\<lambda>q g. gateway_invoke iv q ac p ri g" mg_audit
  for iv :: invoke_inputs and ac :: string and p ri :: "string option"
proof (unfold_locales, goal_cases)
  case (1 q g r g')
  then show ?case
    by (cases rule: gateway_invoke_shape)
       (auto simp: refuse_call_def failed_result_def audits_call_gateway_audit[of "_\<lparr>mg_approvals := _\<rparr>", simplified]
          dest!: sym[of "(_, _)"] finish_call_answer)
next
  case (2 q g e g')
  then show ?case
    by (cases rule: gateway_invoke_shape)
       (auto simp: refuse_call_def dest!: sym[of "(_, _)"] finish_call_raise)
next
  case (3 q g r g')
  then show ?case
    by (cases rule: gateway_invoke_shape)
       (auto simp: refuse_call_def failed_result_def dest!: sym[of "(_, _)"] finish_call_answer)
qed

section \<open>Properties of the gateway\<close>

text \<open>
  C1: A tool touches the world only when it is registered and the policy admits it: it is a
  reading tool, or writes are not denied and, where approval is required, the approval named in
  the call's arguments is approved for this case, step, tool and permission level.
\<close>
theorem tool_runs_only_when_permitted:
  assumes "gateway_invoke iv q actor plugin_id request_id g = (r, g')"
    and "mg_world g' \<noteq> mg_world g"
  shows "\<exists>spec. registry_get_spec (mg_registry g) (rq_tool_name q) = Some spec
    \<and> (ts_permission_level spec = Perm_READ
       \<or> (\<not> pg_deny_write (mg_policy g)
          \<and> (pg_require_approval_for_write (mg_policy g) \<longrightarrow>
               (\<exists>s. mg_approvals g = Some s \<and> is_approved_for (request_approval_id q) q spec s))))"
  using assms(1)
proof (cases rule: gateway_invoke_shape)
  case (refused e store)
  with assms(2) show ?thesis by (auto simp: refuse_call_def)
next
  case (run spec out w)
  then show ?thesis using policy_enforce_ok_cases by blast
qed

text \<open>
  C4: Every call the gateway answers leaves exactly one event in the audit log, naming the tool,
  the case and the outcome, and the log before the call is kept.
\<close>
theorem invoke_audited_once:
  assumes "gateway_invoke iv q actor plugin_id request_id g = (Inr r, g')"
  shows "audits_call (mg_audit g) (mg_audit g') q (tr_ok r)"
  using assms by (rule mcp.answer_audited)

text \<open>The second half of an approval: the decision makes the guard let the repeated call through.\<close>

definition with_approval :: "string \<Rightarrow> tool_call_request \<Rightarrow> tool_call_request" where
  "with_approval i q = q\<lparr>rq_arguments := dput ''approval_id'' (PStr i) (rq_arguments q)\<rparr>"

lemma request_approval_id_with [simp]: "i \<noteq> [] \<Longrightarrow> request_approval_id (with_approval i q) = i"
  by (simp add: request_approval_id_def with_approval_def py_get_or_def py_or_def)

lemma is_approved_for_with [simp]:
  "is_approved_for i (with_approval j q) spec s = is_approved_for i q spec s"
  by (simp add: is_approved_for_def with_approval_def split: option.splits)

text \<open>
  Ask, approve, retry: a writing tool that needs approval is refused with
  \<open>APPROVAL_REQUIRED\<close> and a pending approval under a new id; once that approval is approved, the
  same call carrying its id runs the tool.
\<close>
theorem approve_then_retry_runs:
  assumes spec: "registry_get_spec (mg_registry g) (rq_tool_name q) = Some spec"
    and wr: "ts_permission_level spec \<noteq> Perm_READ"
    and pol: "\<not> pg_deny_write (mg_policy g)" "pg_require_approval_for_write (mg_policy g)"
    and st: "mg_approvals g = Some s" and new: "iv_approval_id iv \<noteq> []"
    and none: "\<not> is_approved_for (request_approval_id q) q spec s"
    and first: "gateway_invoke iv q actor plugin_id request_id g = (r1, g1)"
  shows "\<exists>e a s1 s2 b.
      r1 = Inr (failed_result q e) \<and> te_code e = ''APPROVAL_REQUIRED'' \<and> mg_world g1 = mg_world g
      \<and> mg_approvals g1 = Some s1 \<and> approval_get s1 (iv_approval_id iv) = Some a
      \<and> ap_status a = Appr_PENDING
      \<and> approval_approve now (iv_approval_id iv) approver reason s1 = Inr (b, s2)
      \<and> (\<forall>iv2. gateway_invoke iv2 (with_approval (iv_approval_id iv) q) actor plugin_id request_id
                 (g1\<lparr>mg_approvals := Some s2\<rparr>)
             = (let (out, w) = run_tool spec (with_approval (iv_approval_id iv) q) (g1\<lparr>mg_approvals := Some s2\<rparr>)
                in finish_call iv2 (with_approval (iv_approval_id iv) q) actor plugin_id request_id out
                     (g1\<lparr>mg_approvals := Some s2, mg_world := w\<rparr>)))"
proof -
  let ?i = "iv_approval_id iv" and ?q = "with_approval (iv_approval_id iv) q"
  obtain a s1 where cr: "approval_create_for_tool ?i (iv_now iv) q spec
      (permission_value (ts_permission_level spec) @ '' tool requires approval'') s = (a, s1)"
    by (cases "approval_create_for_tool ?i (iv_now iv) q spec
      (permission_value (ts_permission_level spec) @ '' tool requires approval'') s")
  note fields = approval_create_manual_fields[OF cr[unfolded approval_create_for_tool_def]]
  have geta: "approval_get s1 ?i = Some a"
    using approval_create_manual_get[OF cr[unfolded approval_create_for_tool_def], of ?i] by simp
  have g1: "(r1, g1) = refuse_call iv q actor plugin_id request_id (approval_required_error a)
      (g\<lparr>mg_approvals := Some s1\<rparr>)"
    using first spec wr pol st none cr by (auto simp: gateway_invoke_def policy_enforce_def Let_def)
  obtain b s2 where ap: "approval_approve now ?i approver reason s1 = Inr (b, s2)"
    using approval_decide_defined[of Appr_APPROVED "''approval.approved''" now ?i approver reason s1] geta
    by (auto simp: approval_approve_def)
  have getb: "approval_get s2 ?i = Some b"
    using approval_decide_get[OF ap[unfolded approval_approve_def], of ?i] by simp
  have b: "b = a\<lparr>ap_status := Appr_APPROVED, ap_decided_at := Some now, ap_decided_by := Some approver,
               ap_decision_reason := reason\<rparr>"
    using approval_decide_fields[OF ap[unfolded approval_approve_def]] geta by auto
  have okd: "is_approved_for ?i q spec s2"
    using getb fields by (simp add: is_approved_for_def b)
  have regs: "mg_registry g1 = mg_registry g" "mg_policy g1 = mg_policy g" "mg_world g1 = mg_world g"
    "mg_approvals g1 = Some s1"
    using g1 by (auto simp: refuse_call_def)
  have name: "rq_tool_name ?q = rq_tool_name q" by (simp add: with_approval_def)
  have pe: "policy_enforce (iv_approval_id iv2) (iv_now iv2) (mg_policy g) ?q spec (Some s2)
      = (Policy_ok, Some s2)" for iv2
    using pol wr new okd by (simp add: policy_enforce_def)
  have again: "gateway_invoke iv2 ?q actor plugin_id request_id (g1\<lparr>mg_approvals := Some s2\<rparr>)
      = (let (out, w) = run_tool spec ?q (g1\<lparr>mg_approvals := Some s2\<rparr>)
         in finish_call iv2 ?q actor plugin_id request_id out (g1\<lparr>mg_approvals := Some s2, mg_world := w\<rparr>))"
    for iv2
    using pe[of iv2] spec by (simp add: gateway_invoke_def regs name split_beta Let_def)
  show ?thesis
  proof (intro exI conjI allI)
    show "r1 = Inr (failed_result q (approval_required_error a))"
      using g1 by (simp add: refuse_call_def)
    show "te_code (approval_required_error a) = ''APPROVAL_REQUIRED''"
      by (simp add: approval_required_error_def)
    show "ap_status a = Appr_PENDING" using fields by simp
  qed (fact regs geta ap again)+
qed

text \<open>
  An approval is bound to the case, the step, the tool and the permission level only, and is
  not used up: a call the guard let through is let through again, with any other arguments that
  name the same approval, against the same approval store.
\<close>
theorem approval_reusable_with_other_arguments:
  assumes "policy_enforce i now pg q spec (Some s) = (Policy_ok, store)"
    and "request_approval_id (q\<lparr>rq_arguments := args\<rparr>) = request_approval_id q"
  shows "store = Some s
    \<and> policy_enforce i' now' pg (q\<lparr>rq_arguments := args\<rparr>) spec store = (Policy_ok, store)"
  using assms by (auto simp: policy_enforce_def Let_def is_approved_for_def split_beta
      split: if_splits option.splits)

text \<open>
  C40: A tool whose exception has an empty text is not answered and not audited: constructing the
  error raises out of \<open>invoke\<close>, although the tool has run.
\<close>
theorem empty_exception_text_escapes:
  assumes "registry_get_spec (mg_registry g) (rq_tool_name q) = Some spec"
    and "policy_enforce (iv_approval_id iv) (iv_now iv) (mg_policy g) q spec (mg_approvals g)
           = (Policy_ok, mg_approvals g)"
    and "run_tool spec q g = (Inl (tname, []), w)"
  shows "gateway_invoke iv q actor plugin_id request_id g
    = (Inl (OtherError ''ValidationError''), g\<lparr>mg_world := w\<rparr>)"
  using assms by (simp add: gateway_invoke_def)

section \<open>Witnesses\<close>

text \<open>A gateway with one writing tool, whose handler counts its calls.\<close>

definition demo_spec :: tool_spec where
  "demo_spec = \<lparr>ts_name = ''notify.send'', ts_description = [], ts_permission_level = Perm_WRITE,
     ts_scope = Scope_INTERNAL, ts_parameters_schema = [], ts_server_name = ''internal'', ts_tags = []\<rparr>"

definition demo_gateway :: "nat handler \<Rightarrow> bool \<Rightarrow> nat mcp_gateway" where
  "demo_gateway h req =
     \<lparr>mg_registry = \<lparr>tg_specs = [(''notify.send'', demo_spec)], tg_handlers = [(''notify.send'', h)]\<rparr>,
      mg_policy = \<lparr>pg_deny_write = False, pg_require_approval_for_write = req\<rparr>,
      mg_approvals = Some (new_approval_store None), mg_audit = [], mg_client = None, mg_world = 0\<rparr>"

definition demo_request :: tool_call_request where
  "demo_request = \<lparr>rq_case_id = ''case-1'', rq_step_id = ''s1'', rq_skill_name = ''triage'',
     rq_tool_name = ''notify.send'', rq_arguments = [(''message'', PStr ''hi'')]\<rparr>"

definition demo_inputs :: invoke_inputs where
  "demo_inputs = \<lparr>iv_event_id = ''1'', iv_approval_id = ''approval-1'', iv_now = 0,
     iv_audit_latency = 0, iv_latency = 0\<rparr>"

definition demo_handler :: "nat handler" where
  "demo_handler args w = (Inr [(''sent'', PBool True)], Suc w)"

definition demo_approval :: approval_request where
  "demo_approval = \<lparr>ap_approval_id = ''approval-1'', ap_case_id = ''case-1'', ap_step_id = ''s1'',
     ap_tool_name = ''notify.send'', ap_permission_level = ''write'', ap_reason = [],
     ap_status = Appr_APPROVED, ap_requested_at = 0, ap_decided_at = Some 1,
     ap_decided_by = Some ''ops'', ap_decision_reason = [], ap_metadata = []\<rparr>"

lemmas demo_defs = demo_spec_def demo_gateway_def demo_request_def demo_inputs_def demo_handler_def
  demo_approval_def gateway_invoke_def registry_get_spec_def registry_get_handler_def
  policy_enforce_def run_tool_def

theorem tool_runs_only_when_permitted_witness:
  "\<exists>spec. registry_get_spec (mg_registry (demo_gateway demo_handler False)) ''notify.send'' = Some spec
     \<and> (ts_permission_level spec = Perm_READ
       \<or> (\<not> pg_deny_write (mg_policy (demo_gateway demo_handler False))
          \<and> (pg_require_approval_for_write (mg_policy (demo_gateway demo_handler False)) \<longrightarrow>
               (\<exists>s. mg_approvals (demo_gateway demo_handler False) = Some s
                  \<and> is_approved_for (request_approval_id demo_request) demo_request spec s))))"
proof -
  let ?g = "demo_gateway demo_handler False"
  obtain r g' where i: "gateway_invoke demo_inputs demo_request ''a'' None None ?g = (r, g')"
    by (cases "gateway_invoke demo_inputs demo_request ''a'' None None ?g")
  then have "mg_world g' \<noteq> mg_world ?g" by (auto simp: demo_defs)
  from tool_runs_only_when_permitted[OF i this] show ?thesis by (simp add: demo_request_def)
qed

theorem invoke_audited_once_witness:
  "audits_call []
     (mg_audit (snd (gateway_invoke demo_inputs demo_request ''a'' None None (demo_gateway demo_handler True))))
     demo_request False"
proof -
  let ?g = "demo_gateway demo_handler True"
  have i: "gateway_invoke demo_inputs demo_request ''a'' None None ?g
      = (Inr (projr (fst (gateway_invoke demo_inputs demo_request ''a'' None None ?g))),
         snd (gateway_invoke demo_inputs demo_request ''a'' None None ?g))"
    by (simp add: demo_defs new_approval_store_def request_approval_id_def py_get_or_def py_or_def
        split_beta refuse_call_def)
  have "\<not> tr_ok (projr (fst (gateway_invoke demo_inputs demo_request ''a'' None None ?g)))"
    by (simp add: demo_defs new_approval_store_def request_approval_id_def py_get_or_def py_or_def
        split_beta refuse_call_def failed_result_def)
  moreover have "mg_audit ?g = []" by (simp add: demo_gateway_def)
  ultimately show ?thesis using invoke_audited_once[OF i] by simp
qed

theorem approve_then_retry_runs_witness:
  "\<exists>s1 b s2. mg_approvals (snd (gateway_invoke demo_inputs demo_request ''a'' None None
        (demo_gateway demo_handler True))) = Some s1
     \<and> approval_approve 5 ''approval-1'' ''ops'' ''ok'' s1 = Inr (b, s2)"
proof -
  let ?g = "demo_gateway demo_handler True"
  have "registry_get_spec (mg_registry ?g) (rq_tool_name demo_request) = Some demo_spec"
    "ts_permission_level demo_spec \<noteq> Perm_READ" "\<not> pg_deny_write (mg_policy ?g)"
    "pg_require_approval_for_write (mg_policy ?g)" "mg_approvals ?g = Some (new_approval_store None)"
    "iv_approval_id demo_inputs \<noteq> []"
    "\<not> is_approved_for (request_approval_id demo_request) demo_request demo_spec (new_approval_store None)"
    by (simp_all add: demo_defs new_approval_store_def is_approved_for_def approval_get_def)
  from approve_then_retry_runs[OF this surjective_pairing, where now = 5 and approver = "''ops''"
      and reason = "''ok''" and actor = "''a''" and plugin_id = None and request_id = None]
  obtain s1 b s2 where "mg_approvals (snd (gateway_invoke demo_inputs demo_request ''a'' None None ?g)) = Some s1"
    and "approval_approve 5 (iv_approval_id demo_inputs) ''ops'' ''ok'' s1 = Inr (b, s2)" by blast
  then show ?thesis by (auto simp: demo_inputs_def)
qed

theorem approval_reusable_with_other_arguments_witness:
  "policy_enforce [] 9 \<lparr>pg_deny_write = False, pg_require_approval_for_write = True\<rparr>
     (demo_request\<lparr>rq_arguments := [(''message'', PStr ''other''), (''approval_id'', PStr ''approval-1'')]\<rparr>)
     demo_spec (Some ((new_approval_store None)\<lparr>as_items := [(''approval-1'', demo_approval)]\<rparr>))
   = (Policy_ok, Some ((new_approval_store None)\<lparr>as_items := [(''approval-1'', demo_approval)]\<rparr>))"
proof -
  let ?s = "(new_approval_store None)\<lparr>as_items := [(''approval-1'', demo_approval)]\<rparr>"
  let ?pg = "\<lparr>pg_deny_write = False, pg_require_approval_for_write = True\<rparr>"
  let ?q = "demo_request\<lparr>rq_arguments := [(''approval_id'', PStr ''approval-1'')]\<rparr>"
  let ?args = "[(''message'', PStr ''other''), (''approval_id'', PStr ''approval-1'')]"
  have "policy_enforce [] 0 ?pg ?q demo_spec (Some ?s) = (Policy_ok, Some ?s)"
    by (simp add: demo_defs request_approval_id_def py_get_or_def py_or_def is_approved_for_def
        approval_get_def Let_def)
  moreover have "request_approval_id (?q\<lparr>rq_arguments := ?args\<rparr>) = request_approval_id ?q"
    by (simp add: request_approval_id_def py_get_or_def py_or_def)
  ultimately have "policy_enforce [] 9 ?pg (?q\<lparr>rq_arguments := ?args\<rparr>) demo_spec (Some ?s) = (Policy_ok, Some ?s)"
    using approval_reusable_with_other_arguments by blast
  then show ?thesis by (simp add: demo_request_def)
qed

theorem empty_exception_text_escapes_witness:
  "gateway_invoke demo_inputs demo_request ''a'' None None
     (demo_gateway (\<lambda>args w. (Inl (''TimeoutError'', []), Suc w)) False)
   = (Inl (OtherError ''ValidationError''),
      (demo_gateway (\<lambda>args w. (Inl (''TimeoutError'', []), Suc w)) False)\<lparr>mg_world := 1\<rparr>)"
  by (rule empty_exception_text_escapes[of _ _ demo_spec _ "''TimeoutError''"])
     (simp_all add: demo_defs)

end
