(* ===== verification/ToolPlan.thy ===== *)
theory ToolPlan
  imports Contracts
begin

text \<open>
  Tool plans (\<open>agent_runtime/tool_plan.py\<close>): the model's answer is parsed into a list of tool
  calls with dependencies, restricted to the allowed tools. \<open>json.loads\<close> is the parameter
  \<open>json_loads\<close>; the default arguments of a tool (\<open>RuleStepArgumentResolver.resolve\<close>) and the
  call-chain helpers of \<open>analysis/code_slice.py\<close> are the fields of \<open>arg_rules\<close>.
\<close>

section \<open>Calls, plans and results\<close>

record tool_plan_call =
  pc_tool_name :: string
  pc_step_id :: string
  pc_arguments :: pydict
  pc_rationale :: string
  pc_depends_on :: "string list"
  pc_timeout_seconds :: "rat option"
  pc_required :: bool

definition str_list :: "string list \<Rightarrow> pyval" where
  "str_list xs = PList (map PStr xs)"

definition call_to_payload :: "tool_plan_call \<Rightarrow> pydict" where
  "call_to_payload c =
     [(''step_id'', PStr (pc_step_id c)),
      (''tool_name'', PStr (pc_tool_name c)),
      (''argument_keys'', str_list (sort (dkeys (pc_arguments c)))),
      (''rationale'', PStr (pc_rationale c)),
      (''depends_on'', str_list (pc_depends_on c)),
      (''required'', PBool (pc_required c))]
     @ (case pc_timeout_seconds c of None \<Rightarrow> [] | Some t \<Rightarrow> [(''timeout_seconds'', PFloat t)])"

definition call_execution_metadata :: "tool_plan_call \<Rightarrow> pydict" where
  "call_execution_metadata c =
     [(''depends_on'', str_list (pc_depends_on c)),
      (''required'', PBool (pc_required c)),
      (''timeout_seconds'', (case pc_timeout_seconds c of None \<Rightarrow> PNone | Some t \<Rightarrow> PFloat t)),
      (''rationale'', PStr (pc_rationale c))]"

record tool_plan =
  tp_tool_calls :: "tool_plan_call list"
  tp_rationale :: string
  tp_final_answer :: "string option"
  tp_raw :: pydict

record tool_plan_result =
  pr_ok :: bool
  pr_plan :: "tool_plan option"
  pr_provider :: "string option"
  pr_model :: "string option"
  pr_elapsed_ms :: "int option"
  pr_raw_content :: string
  pr_error :: "string option"

definition opt_str :: "string option \<Rightarrow> pyval" where
  "opt_str o' = (case o' of None \<Rightarrow> PNone | Some s \<Rightarrow> PStr s)"

definition plan_result_to_payload :: "tool_plan_result \<Rightarrow> pydict" where
  "plan_result_to_payload r =
     filter (\<lambda>(k, v). v \<noteq> PNone)
      ([(''ok'', PBool (pr_ok r)),
        (''provider'', opt_str (pr_provider r)),
        (''model'', opt_str (pr_model r)),
        (''elapsed_ms'', (case pr_elapsed_ms r of None \<Rightarrow> PNone | Some n \<Rightarrow> PInt n)),
        (''tool_call_count'',
           PInt (case pr_plan r of None \<Rightarrow> 0 | Some p \<Rightarrow> int (length (tp_tool_calls p))))]
       @ (case pr_error r of None \<Rightarrow> [] | Some e \<Rightarrow> (if e = [] then [] else [(''error'', PStr e)]))
       @ (case pr_plan r of
            None \<Rightarrow> []
          | Some p \<Rightarrow>
              [(''rationale'', PStr (tp_rationale p)),
               (''tools'', str_list (map pc_tool_name (tp_tool_calls p))),
               (''tool_calls'', PList (map (\<lambda>c. PDict (call_to_payload c)) (tp_tool_calls p)))]))"

section \<open>Finding the JSON object in the answer\<close>

definition backticks :: string where
  "backticks = ''```''"

text \<open>The leading fence and its optional language tag, then the closing fence at the end.\<close>

definition drop_json_tag :: "string \<Rightarrow> string" where
  "drop_json_tag t = (if starts_with (py_lower t) ''json'' then drop 4 t else t)"

definition rstrip :: "string \<Rightarrow> string" where
  "rstrip s = rev (dropWhile is_space (rev s))"

definition strip_code_fence :: "string \<Rightarrow> string" where
  "strip_code_fence text =
     (if \<not> starts_with text backticks then text
      else (let body = dropWhile is_space (drop_json_tag (drop 3 text))
            in py_strip (if ends_with body backticks
                         then rstrip (take (length body - 3) body) else body)))"

text \<open>From the first opening brace to the last closing brace after it.\<close>

definition first_json_object :: "string \<Rightarrow> string option" where
  "first_json_object text =
     (let t = dropWhile (\<lambda>c. c \<noteq> CHR ''{'') text;
          u = rev (dropWhile (\<lambda>c. c \<noteq> CHR ''}'') (rev t))
      in if u = [] then None else Some u)"

definition parse_candidate :: "(string \<Rightarrow> pyval option) \<Rightarrow> string option \<Rightarrow> pydict option" where
  "parse_candidate json_loads cand =
     (case cand of
        None \<Rightarrow> None
      | Some c \<Rightarrow>
          (if c = [] then None
           else (case json_loads c of Some (PDict d) \<Rightarrow> Some d | _ \<Rightarrow> None)))"

definition parse_json_object :: "(string \<Rightarrow> pyval option) \<Rightarrow> string \<Rightarrow> pydict option" where
  "parse_json_object json_loads content =
     (let text = strip_code_fence (py_strip content) in
      case parse_candidate json_loads (Some text) of
        Some d \<Rightarrow> Some d
      | None \<Rightarrow> parse_candidate json_loads (first_json_object text))"

section \<open>Reading the fields of a call\<close>

text \<open>\<open>re.sub(r"[^a-zA-Z0-9_-]+", "-", s)\<close>: each run of other characters becomes one dash.\<close>

definition is_id_char :: "char \<Rightarrow> bool" where
  "is_id_char c \<longleftrightarrow>
     (let n = of_char c :: nat in
      (48 \<le> n \<and> n \<le> 57) \<or> (65 \<le> n \<and> n \<le> 90) \<or> (97 \<le> n \<and> n \<le> 122) \<or> n = 95 \<or> n = 45)"

fun dash_runs :: "bool \<Rightarrow> string \<Rightarrow> string" where
  "dash_runs in_run [] = []"
| "dash_runs in_run (c # cs) =
     (if is_id_char c then c # dash_runs False cs
      else if in_run then dash_runs True cs
      else CHR ''-'' # dash_runs True cs)"

definition strip_dashes :: "string \<Rightarrow> string" where
  "strip_dashes s =
     rev (dropWhile (\<lambda>c. c = CHR ''-'') (rev (dropWhile (\<lambda>c. c = CHR ''-'') s)))"

definition step_id_from_tool :: "string \<Rightarrow> nat \<Rightarrow> string" where
  "step_id_from_tool tool_name idx =
     (let safe = strip_dashes (dash_runs False tool_name)
      in ''llm-'' @ nat_str (idx + 1) @ ''-'' @ (if safe = [] then ''tool'' else safe))"

definition parse_string_list :: "pyval \<Rightarrow> string list" where
  "parse_string_list v =
     (case v of
        PList xs \<Rightarrow> dedupe_acc {} (filter (\<lambda>t. t \<noteq> []) (map (\<lambda>x. py_strip (py_str x)) xs))
      | _ \<Rightarrow> [])"

definition parse_timeout_seconds :: "pyval \<Rightarrow> rat option" where
  "parse_timeout_seconds v =
     (case py_float v of None \<Rightarrow> None | Some t \<Rightarrow> (if t \<le> 0 then None else Some t))"

definition parse_bool :: "pyval \<Rightarrow> bool" where
  "parse_bool v =
     (case v of
        PBool b \<Rightarrow> b
      | PStr s \<Rightarrow> py_lower (py_strip s) \<notin> {''0'', ''false'', ''no'', ''off''}
      | _ \<Rightarrow> py_truthy v)"

section \<open>Arguments of the calls\<close>

text \<open>\<open>[str(item).strip() for item in xs if str(item).strip()]\<close>.\<close>

definition stripped_names :: "pyval list \<Rightarrow> string list" where
  "stripped_names xs = filter (\<lambda>t. t \<noteq> []) (map (\<lambda>x. py_strip (py_str x)) xs)"

fun first_names :: "pydict \<Rightarrow> string list \<Rightarrow> string list" where
  "first_names args [] = []"
| "first_names args (k # ks) =
     (case py_get args k of
        PStr s \<Rightarrow> (if py_strip s \<noteq> [] then [py_strip s] else first_names args ks)
      | PList xs \<Rightarrow> (if stripped_names xs \<noteq> [] then stripped_names xs else first_names args ks)
      | _ \<Rightarrow> first_names args ks)"

definition coerce_code_read_methods :: "pydict \<Rightarrow> string list" where
  "coerce_code_read_methods args =
     first_names args [''methods'', ''focus_method'', ''method'', ''method_name'']"

definition text_of :: "pyval \<Rightarrow> string" where
  "text_of v = py_strip (py_str (py_or v (PStr [])))"

definition normalize_planned_arguments :: "string \<Rightarrow> pydict \<Rightarrow> pydict" where
  "normalize_planned_arguments tool_name args =
     (if tool_name \<noteq> ''code.read'' then args
      else
        (let explicit = text_of (py_or (py_get args ''file_path'') (py_get args ''file''));
             path = text_of (py_get args ''path'');
             out = (if explicit \<noteq> [] \<and> (path = [] \<or> path \<noteq> explicit)
                    then dput ''path'' (PStr explicit) args else args);
             methods = coerce_code_read_methods out
         in if methods \<noteq> [] then dput ''methods'' (str_list methods) out else out))"

text \<open>What the argument rules of the rest of the program give (a step's outputs are keyed by its id).\<close>

type_synonym step_outputs = "(string \<times> pydict) list"

record arg_rules =
  ar_resolve :: "string \<Rightarrow> case_create_request \<Rightarrow> step_outputs \<Rightarrow> pydict"
  ar_call_chain :: "step_outputs \<Rightarrow> string \<Rightarrow> string list"
  ar_chain_methods :: "string \<Rightarrow> string list \<Rightarrow> (string \<times> int option) list"
  ar_fault_line :: "string \<Rightarrow> string list \<Rightarrow> int option"

definition build_default_tool_arguments ::
    "arg_rules \<Rightarrow> string \<Rightarrow> case_create_request \<Rightarrow> pydict" where
  "build_default_tool_arguments rules tool_name req = ar_resolve rules tool_name req []"

definition enrich_find_callers :: "pydict \<Rightarrow> pydict \<Rightarrow> pydict" where
  "enrich_find_callers defaults merged =
     (let usable = (case py_get merged ''call_chain'' of
                      PList xs \<Rightarrow> stripped_names xs \<noteq> [] | _ \<Rightarrow> False)
      in if usable then ddel ''_skip_reason'' merged
         else (case py_get defaults ''call_chain'' of
                 PList (x # xs) \<Rightarrow>
                   ddel ''_skip_reason'' (dput ''call_chain'' (PList (x # xs)) merged)
               | _ \<Rightarrow> merged))"

definition enrich_graph_symbol :: "pydict \<Rightarrow> pydict \<Rightarrow> pydict" where
  "enrich_graph_symbol defaults merged =
     (let m = (if text_of (py_get merged ''symbol'') = [] \<and> text_of (py_get defaults ''symbol'') \<noteq> []
               then dput ''symbol'' (PStr (text_of (py_get defaults ''symbol''))) merged else merged)
      in if text_of (py_get m ''symbol'') \<noteq> [] then ddel ''_skip_reason'' m else m)"

definition enrich_code_read ::
    "arg_rules \<Rightarrow> case_create_request \<Rightarrow> step_outputs \<Rightarrow> pydict \<Rightarrow> pydict" where
  "enrich_code_read rules req outputs merged =
     (let pv = py_or (py_or (py_get merged ''path'') (py_get merged ''file_path'')) (PStr []);
          m1 = (if py_strip (py_str pv) \<noteq> [] then ddel ''_skip_reason'' merged else merged);
          path = py_str pv;
          chain = ar_call_chain rules outputs (cq_symptom req);
          specs = ar_chain_methods rules path chain;
          m2 = (case specs of
                  (n, l) # _ \<Rightarrow>
                    (let m = dput ''methods'' (str_list (map fst specs)) m1
                     in (case l of None \<Rightarrow> m | Some i \<Rightarrow> (if i = 0 then m else dput ''line'' (PInt i) m)))
                | [] \<Rightarrow>
                    (let ms = coerce_code_read_methods m1
                     in if ms \<noteq> [] then dput ''methods'' (str_list ms) m1 else m1))
      in if \<not> py_truthy (py_get m2 ''line'') \<and> \<not> py_truthy (py_get m2 ''focus_line'')
         then (case ar_fault_line rules path chain of
                 None \<Rightarrow> m2 | Some i \<Rightarrow> (if i = 0 then m2 else dput ''line'' (PInt i) m2))
         else m2)"

definition enrich_tool_arguments ::
    "arg_rules \<Rightarrow> string \<Rightarrow> pydict \<Rightarrow> case_create_request \<Rightarrow> step_outputs \<Rightarrow> pydict" where
  "enrich_tool_arguments rules tool_name args req outputs =
     (let defaults = ar_resolve rules tool_name req outputs;
          merged = dunion defaults args;
          m = (if tool_name = ''code.find_callers'' then enrich_find_callers defaults merged
               else if tool_name \<in> {''graph.impact'', ''graph.context''}
                 then enrich_graph_symbol defaults merged
               else if tool_name = ''code.read'' then enrich_code_read rules req outputs merged
               else merged)
      in normalize_planned_arguments tool_name m)"

section \<open>The plan\<close>

definition call_of_item ::
    "arg_rules \<Rightarrow> case_create_request \<Rightarrow> string set \<Rightarrow> nat \<Rightarrow> pyval \<Rightarrow> tool_plan_call option" where
  "call_of_item rules req allowed idx item =
     (case item of
        PDict d \<Rightarrow>
          (let tool_name = text_of (py_or (py_get d ''tool_name'') (py_get d ''name'')) in
           if tool_name \<notin> allowed then None
           else
             (let raw = (case py_get d ''arguments'' of PDict a \<Rightarrow> a | _ \<Rightarrow> []);
                  args = normalize_planned_arguments tool_name
                           (dunion (build_default_tool_arguments rules tool_name req) raw)
              in Some
                \<lparr>pc_tool_name = tool_name,
                 pc_step_id = py_strip (py_str
                   (py_or (py_get d ''step_id'') (PStr (step_id_from_tool tool_name idx)))),
                 pc_arguments = args,
                 pc_rationale = text_of (py_get d ''rationale''),
                 pc_depends_on = parse_string_list (py_get d ''depends_on''),
                 pc_timeout_seconds = parse_timeout_seconds (py_get d ''timeout_seconds''),
                 pc_required = parse_bool (py_get_or d ''required'' (PBool True))\<rparr>))
      | _ \<Rightarrow> None)"

fun calls_of_items ::
    "arg_rules \<Rightarrow> case_create_request \<Rightarrow> string set \<Rightarrow> nat \<Rightarrow> pyval list \<Rightarrow> tool_plan_call list" where
  "calls_of_items rules req allowed idx [] = []"
| "calls_of_items rules req allowed idx (x # xs) =
     (case call_of_item rules req allowed idx x of
        None \<Rightarrow> calls_of_items rules req allowed (Suc idx) xs
      | Some c \<Rightarrow> c # calls_of_items rules req allowed (Suc idx) xs)"

definition filter_dependencies :: "tool_plan_call list \<Rightarrow> tool_plan_call list" where
  "filter_dependencies calls =
     map (\<lambda>c. c\<lparr>pc_depends_on :=
            filter (\<lambda>i. i \<in> set (map pc_step_id calls) \<and> i \<noteq> pc_step_id c) (pc_depends_on c)\<rparr>) calls"

definition chain_dependent_tools :: "string set" where
  "chain_dependent_tools = {''code.read'', ''code.find_callers''}"

definition require_normalize_dependency :: "tool_plan_call list \<Rightarrow> tool_plan_call list" where
  "require_normalize_dependency calls =
     (case filter (\<lambda>c. pc_tool_name c = ''incident.normalize'') calls of
        [] \<Rightarrow> calls
      | n # _ \<Rightarrow>
          map (\<lambda>c. if pc_tool_name c \<in> chain_dependent_tools \<and> pc_step_id c \<noteq> pc_step_id n
                      \<and> pc_step_id n \<notin> set (pc_depends_on c)
                   then c\<lparr>pc_depends_on := pc_depends_on c @ [pc_step_id n]\<rparr> else c) calls)"

definition parse_tool_plan_content ::
    "(string \<Rightarrow> pyval option) \<Rightarrow> arg_rules \<Rightarrow> string set \<Rightarrow> int \<Rightarrow> case_create_request \<Rightarrow> string
     \<Rightarrow> tool_plan option" where
  "parse_tool_plan_content json_loads rules allowed max_tool_calls req content =
     (case parse_json_object json_loads content of
        None \<Rightarrow> None
      | Some parsed \<Rightarrow>
          (case py_get parsed ''tool_calls'' of
             PList nodes \<Rightarrow>
               (let calls = calls_of_items rules req allowed 0 (take (nat (max 0 max_tool_calls)) nodes)
                in if calls = [] then None
                   else Some
                     \<lparr>tp_tool_calls = require_normalize_dependency (filter_dependencies calls),
                      tp_rationale = text_of (py_get parsed ''rationale''),
                      tp_final_answer = (case py_get parsed ''final_answer'' of PStr s \<Rightarrow> Some s | _ \<Rightarrow> None),
                      tp_raw = parsed\<rparr>)
           | _ \<Rightarrow> None))"

section \<open>What a parsed plan promises\<close>

definition step_ids :: "tool_plan_call list \<Rightarrow> string list" where
  "step_ids calls = map pc_step_id calls"

text \<open>Dependencies name other steps of the plan, each once.\<close>

definition closed_deps :: "tool_plan_call list \<Rightarrow> bool" where
  "closed_deps calls \<longleftrightarrow>
     (\<forall>c \<in> set calls. set (pc_depends_on c) \<subseteq> set (step_ids calls) - {pc_step_id c}
        \<and> distinct (pc_depends_on c))"

lemma step_ids_filter_dependencies [simp]: "step_ids (filter_dependencies calls) = step_ids calls"
  by (simp add: step_ids_def filter_dependencies_def comp_def)

lemma step_ids_require_normalize [simp]:
  "step_ids (require_normalize_dependency calls) = step_ids calls"
  by (auto simp: step_ids_def require_normalize_dependency_def split: list.splits)

lemma tools_filter_dependencies [simp]:
  "map pc_tool_name (filter_dependencies calls) = map pc_tool_name calls"
  by (simp add: filter_dependencies_def comp_def)

lemma tools_require_normalize [simp]:
  "map pc_tool_name (require_normalize_dependency calls) = map pc_tool_name calls"
  by (auto simp: require_normalize_dependency_def split: list.splits)

lemma filter_dependencies_closed:
  assumes "\<forall>c \<in> set calls. distinct (pc_depends_on c)"
  shows "closed_deps (filter_dependencies calls)"
  using assms by (auto simp: closed_deps_def) (auto simp: filter_dependencies_def step_ids_def)

lemma require_normalize_closed:
  assumes "closed_deps calls"
  shows "closed_deps (require_normalize_dependency calls)"
proof (cases "filter (\<lambda>c. pc_tool_name c = ''incident.normalize'') calls")
  case Nil
  with assms show ?thesis by (simp add: require_normalize_dependency_def)
next
  case (Cons n ns)
  then have "n \<in> set (filter (\<lambda>c. pc_tool_name c = ''incident.normalize'') calls)" by simp
  then have "n \<in> set calls" by simp
  then have "pc_step_id n \<in> set (step_ids calls)" by (simp add: step_ids_def)
  with assms Cons show ?thesis
    unfolding closed_deps_def step_ids_require_normalize
    by (auto simp: require_normalize_dependency_def) blast+
qed

lemma distinct_parse_string_list: "distinct (parse_string_list v)"
  by (cases v) (simp_all add: parse_string_list_def distinct_dedupe_acc)

lemma parse_timeout_pos: "parse_timeout_seconds v = Some t \<Longrightarrow> 0 < t"
  by (auto simp: parse_timeout_seconds_def split: option.splits if_splits)

lemma call_of_item_Some:
  "call_of_item rules req allowed idx x = Some c \<Longrightarrow>
   pc_tool_name c \<in> allowed \<and> distinct (pc_depends_on c) \<and> stripped (pc_step_id c)
   \<and> (\<forall>t. pc_timeout_seconds c = Some t \<longrightarrow> 0 < t)"
  by (cases x)
     (auto simp: call_of_item_def Let_def distinct_parse_string_list
        dest: parse_timeout_pos split: if_splits)

lemma calls_of_items_set:
  "c \<in> set (calls_of_items rules req allowed idx xs) \<Longrightarrow>
   \<exists>i x. x \<in> set xs \<and> call_of_item rules req allowed i x = Some c"
  by (induction rules req allowed idx xs rule: calls_of_items.induct)
     (auto split: option.splits)

lemma length_calls_of_items: "length (calls_of_items rules req allowed idx xs) \<le> length xs"
  by (induction rules req allowed idx xs rule: calls_of_items.induct)
     (auto split: option.splits)

lemma calls_of_items_ok:
  "c \<in> set (calls_of_items rules req allowed idx xs) \<Longrightarrow>
   pc_tool_name c \<in> allowed \<and> distinct (pc_depends_on c) \<and> stripped (pc_step_id c)
   \<and> (\<forall>t. pc_timeout_seconds c = Some t \<longrightarrow> 0 < t)"
  using calls_of_items_set call_of_item_Some by blast

lemma parse_tool_plan_SomeE:
  assumes "parse_tool_plan_content json_loads rules allowed m req content = Some p"
  obtains calls where "calls \<noteq> []"
    and "tp_tool_calls p = require_normalize_dependency (filter_dependencies calls)"
    and "length calls \<le> nat (max 0 m)"
    and "\<forall>c \<in> set calls. pc_tool_name c \<in> allowed \<and> distinct (pc_depends_on c)
           \<and> stripped (pc_step_id c) \<and> (\<forall>t. pc_timeout_seconds c = Some t \<longrightarrow> 0 < t)"
proof -
  from assms obtain nodes calls where
    c: "calls = calls_of_items rules req allowed 0 (take (nat (max 0 m)) nodes)"
    and ne: "calls \<noteq> []"
    and p: "tp_tool_calls p = require_normalize_dependency (filter_dependencies calls)"
    by (auto simp: parse_tool_plan_content_def Let_def split: option.splits pyval.splits if_splits)
  have "length calls \<le> nat (max 0 m)"
    using length_calls_of_items[of rules req allowed 0 "take (nat (max 0 m)) nodes"] c by simp
  moreover have "\<forall>c \<in> set calls. pc_tool_name c \<in> allowed \<and> distinct (pc_depends_on c)
           \<and> stripped (pc_step_id c) \<and> (\<forall>t. pc_timeout_seconds c = Some t \<longrightarrow> 0 < t)"
    using c calls_of_items_ok by blast
  ultimately show ?thesis using that ne p by blast
qed

end
