(* ===== verification/ToolCallLoop.thy ===== *)
theory ToolCallLoop
  imports ToolPlane ToolPlan
begin

text \<open>
  The agent's tool-call loop (\<open>agent_runtime/tool_call_loop.py\<close>) over an invoker, the traces it
  makes of the results (\<open>agent_runtime/result.py\<close>), the compaction of the traces
  (\<open>context_compactor.py\<close>) and the summary of earlier attempts (\<open>history_builder.py\<close>).
  Calls run one after the other, as with \<open>max_concurrency = 1\<close>; the concurrent variant returns
  its results in the same order but leaves the order of the calls open, and is not modelled.
\<close>

section \<open>json.dumps(value, ensure_ascii=False, sort_keys=True)\<close>

fun sort_keys_deep :: "pyval \<Rightarrow> pyval" where
  "sort_keys_deep (PList xs) = PList (map sort_keys_deep xs)"
| "sort_keys_deep (PDict d) = PDict (sort_key fst (map (\<lambda>(k, v). (k, sort_keys_deep v)) d))"
| "sort_keys_deep v = v"

definition json_char :: "char \<Rightarrow> string" where
  "json_char c =
     (let n = of_char c :: nat in
      if n = 34 \<or> n = 92 then [CHR 0x5C, c]
      else if n = 10 then [CHR 0x5C, CHR ''n'']
      else if n = 13 then [CHR 0x5C, CHR ''r'']
      else if n = 9 then [CHR 0x5C, CHR ''t'']
      else if n = 8 then [CHR 0x5C, CHR ''b'']
      else if n = 12 then [CHR 0x5C, CHR ''f'']
      else if n < 32 then [CHR 0x5C, CHR ''u'', CHR ''0'', CHR ''0'', hex_char (n div 16), hex_char (n mod 16)]
      else [c])"

definition json_str :: "string \<Rightarrow> string" where
  "json_str s = [CHR 0x22] @ concat (map json_char s) @ [CHR 0x22]"

fun json_text :: "pyval \<Rightarrow> string" where
  "json_text PNone = ''null''"
| "json_text (PBool b) = (if b then ''true'' else ''false'')"
| "json_text (PInt i) = int_str i"
| "json_text (PFloat r) = float_str r"
| "json_text (PStr s) = json_str s"
| "json_text (PList xs) = ''['' @ join '', '' (map json_text xs) @ '']''"
| "json_text (PDict d) =
     ''{'' @ join '', '' (map (\<lambda>(k, v). json_str k @ '': '' @ json_text v) d) @ ''}''"

definition json_dumps :: "pyval \<Rightarrow> string" where
  "json_dumps v = json_text (sort_keys_deep v)"

section \<open>Traces and results (agent_runtime/result.py)\<close>

record model_route =
  mr_mode :: string
  mr_provider_name :: "string option"
  mr_model :: "string option"
  mr_reason :: string
  mr_metadata :: pydict

record tool_trace =
  tt_step_id :: string
  tt_tool_name :: string
  tt_ok :: bool
  tt_latency_ms :: nat
  tt_content_preview :: pydict
  tt_error_code :: "string option"
  tt_error_message :: "string option"
  tt_plan_metadata :: pydict

record compacted_context =
  cc_compacted :: bool
  cc_summary :: string
  cc_retained_step_ids :: "string list"
  cc_omitted_step_ids :: "string list"
  cc_source_token_estimate :: nat

record attempt_result =
  at_attempt_id :: string
  at_case_id :: string
  at_status :: string
  at_prompt_messages :: "pydict list"
  at_route :: model_route
  at_tool_traces :: "tool_trace list"
  at_compacted_context :: "compacted_context option"
  at_flow_run_id :: "string option"
  at_metadata :: pydict

record agent_run_result =
  ar_case_id :: string
  ar_status :: string
  ar_attempts :: "attempt_result list"
  ar_trace_id :: "string option"
  ar_compacted_context :: "compacted_context option"
  ar_metadata :: pydict

record agent_run_event =
  ev_event_type :: string
  ev_case_id :: "string option"
  ev_attempt_id :: "string option"
  ev_payload :: pydict
  ev_result :: "agent_run_result option"

section \<open>The tool-call loop (agent_runtime/tool_call_loop.py)\<close>

record tool_call_execution =
  ex_request :: tool_call_request
  ex_result :: tool_call_result
  ex_trace :: tool_trace

definition preview :: "nat \<Rightarrow> pydict \<Rightarrow> pydict" where
  "preview max_chars content =
     (let raw = json_dumps (PDict content) in
      if length raw \<le> max_chars then content
      else [(''_truncated'', PBool True), (''preview'', PStr (take max_chars raw))])"

definition trace_from_result :: "nat \<Rightarrow> string \<Rightarrow> tool_call_result \<Rightarrow> pydict \<Rightarrow> tool_trace" where
  "trace_from_result max_chars step_id r plan_metadata =
     \<lparr>tt_step_id = step_id, tt_tool_name = tr_tool_name r, tt_ok = tr_ok r,
      tt_latency_ms = tr_latency_ms r, tt_content_preview = preview max_chars (tr_content r),
      tt_error_code = map_option te_code (tr_error r),
      tt_error_message = map_option te_message (tr_error r),
      tt_plan_metadata = filter (\<lambda>(k, v). v \<noteq> PNone) plan_metadata\<rparr>"

fun execute_records ::
    "(tool_call_request \<Rightarrow> 'g \<Rightarrow> tool_call_result res \<times> 'g) \<Rightarrow> nat \<Rightarrow> (string \<Rightarrow> pydict)
     \<Rightarrow> tool_call_request list \<Rightarrow> 'g \<Rightarrow> tool_call_execution list res \<times> 'g" where
  "execute_records invoke max_chars metadata [] g = (Inr [], g)"
| "execute_records invoke max_chars metadata (q # qs) g =
     (case invoke q g of
        (Inl e, g1) \<Rightarrow> (Inl e, g1)
      | (Inr r, g1) \<Rightarrow>
          (case execute_records invoke max_chars metadata qs g1 of
             (Inl e, g2) \<Rightarrow> (Inl e, g2)
           | (Inr xs, g2) \<Rightarrow>
               (Inr (\<lparr>ex_request = q, ex_result = r,
                      ex_trace = trace_from_result max_chars (rq_step_id q) r (metadata (rq_step_id q))\<rparr> # xs),
                g2)))"

lemma execute_records_requests:
  "execute_records invoke m md qs g = (Inr xs, g') \<Longrightarrow> map ex_request xs = qs"
  by (induction invoke m md qs g arbitrary: xs g' rule: execute_records.induct)
     (auto split: prod.splits sum.splits)

lemma execute_records_trace:
  "execute_records invoke m md qs g = (Inr xs, g') \<Longrightarrow> x \<in> set xs \<Longrightarrow>
   tt_step_id (ex_trace x) = rq_step_id (ex_request x) \<and> tt_ok (ex_trace x) = tr_ok (ex_result x)
   \<and> tt_error_code (ex_trace x) = map_option te_code (tr_error (ex_result x))"
  by (induction invoke m md qs g arbitrary: xs g' rule: execute_records.induct)
     (auto simp: trace_from_result_def split: prod.splits sum.splits)

text \<open>Through an audited invoker the audit log holds one event per call, in call order.\<close>

context audited_invoker
begin

lemma execute_records_audit:
  "execute_records invoke m md qs g = (Inr xs, g') \<Longrightarrow>
   \<exists>evs. audit g' = audit g @ evs \<and> map ae_target evs = map rq_tool_name qs
       \<and> map (\<lambda>e. py_get (ae_detail e) ''ok'') evs = map (\<lambda>x. PBool (tr_ok (ex_result x))) xs"
proof (induction qs arbitrary: g xs g')
  case (Cons q qs)
  from Cons.prems obtain r g1 ys where 1: "invoke q g = (Inr r, g1)"
    and 2: "execute_records invoke m md qs g1 = (Inr ys, g')"
    and xs: "map (\<lambda>x. PBool (tr_ok (ex_result x))) xs
       = PBool (tr_ok r) # map (\<lambda>x. PBool (tr_ok (ex_result x))) ys"
    by (auto split: prod.splits sum.splits)
  obtain ev where "audit g1 = audit g @ [ev]" "ae_target ev = rq_tool_name q"
    "py_get (ae_detail ev) ''ok'' = PBool (tr_ok r)"
    using answer_audited[OF 1] by (auto simp: audits_call_def)
  moreover obtain evs where "audit g' = audit g1 @ evs" "map ae_target evs = map rq_tool_name qs"
    "map (\<lambda>e. py_get (ae_detail e) ''ok'') evs = map (\<lambda>x. PBool (tr_ok (ex_result x))) ys"
    using Cons.IH[OF 2] by auto
  ultimately show ?case using xs by (intro exI[of _ "ev # evs"]) simp
qed simp

lemma execute_records_audit_kept:
  "execute_records invoke m md qs g = (r, g') \<Longrightarrow> \<exists>evs. audit g' = audit g @ evs"
proof (induction qs arbitrary: g r g')
  case (Cons q qs)
  obtain r1 g1 where 1: "invoke q g = (r1, g1)" by (cases "invoke q g")
  obtain r2 g2 where 2: "execute_records invoke m md qs g1 = (r2, g2)"
    by (cases "execute_records invoke m md qs g1")
  obtain e1 where "audit g1 = audit g @ e1" using audit_kept[OF 1] by blast
  moreover obtain e2 where "audit g2 = audit g1 @ e2" using Cons.IH[OF 2] by blast
  moreover have "g' = g1 \<or> g' = g2" using Cons.prems 1 2 by (auto split: sum.splits)
  ultimately show ?case by auto
qed simp

end

section \<open>Compaction (agent_runtime/context_compactor.py)\<close>

definition opt_pystr :: "string option \<Rightarrow> pyval" where
  "opt_pystr o' = (case o' of None \<Rightarrow> PNone | Some s \<Rightarrow> PStr s)"

definition serialized_size :: "pydict list \<Rightarrow> tool_trace list \<Rightarrow> nat" where
  "serialized_size messages traces =
     length (json_dumps (PDict
       [(''messages'', PList (map PDict messages)),
        (''tool_traces'', PList (map (\<lambda>t. PDict
           [(''step_id'', PStr (tt_step_id t)),
            (''tool_name'', PStr (tt_tool_name t)),
            (''ok'', PBool (tt_ok t)),
            (''content_preview'', PDict (tt_content_preview t)),
            (''error_code'', opt_pystr (tt_error_code t)),
            (''error_message'', opt_pystr (tt_error_message t)),
            (''plan_metadata'', PDict (tt_plan_metadata t))]) traces))]))"

definition compaction_summary :: "nat \<Rightarrow> nat \<Rightarrow> nat \<Rightarrow> nat \<Rightarrow> string" where
  "compaction_summary n_all retained omitted failed =
     ''Compacted '' @ nat_str n_all @ '' tool traces into '' @ nat_str retained @ '' retained steps; ''
     @ ''omitted '' @ nat_str omitted @ '' earlier low-priority steps; failed_steps='' @ nat_str failed @ ''.''"

definition compact :: "nat \<Rightarrow> nat \<Rightarrow> pydict list \<Rightarrow> tool_trace list \<Rightarrow> compacted_context" where
  "compact max_traces max_chars messages traces =
     (let source_size = serialized_size messages traces;
          estimate = (if source_size = 0 then 0 else max 1 (source_size div 4))
      in if \<not> (length traces > max_traces \<or> source_size > max_chars) then
           \<lparr>cc_compacted = False, cc_summary = ''Context is within budget; no compaction needed.'',
            cc_retained_step_ids = map tt_step_id traces, cc_omitted_step_ids = [],
            cc_source_token_estimate = estimate\<rparr>
         else
           (let failed = map tt_step_id (filter (\<lambda>t. \<not> tt_ok t) traces);
                recent = map tt_step_id (last_n max_traces traces);
                retained = dedupe_acc {} (failed @ recent);
                omitted = map tt_step_id (filter (\<lambda>t. tt_step_id t \<notin> set retained) traces)
            in \<lparr>cc_compacted = True,
                cc_summary = compaction_summary (length traces) (length retained) (length omitted) (length failed),
                cc_retained_step_ids = retained, cc_omitted_step_ids = omitted,
                cc_source_token_estimate = estimate\<rparr>))"

lemma set_last_n_map: "set (map f (last_n n xs)) \<subseteq> set (map f xs)"
  using set_last_n by fastforce

lemma compact_partition:
  "set (cc_retained_step_ids (compact n m ms ts)) \<union> set (cc_omitted_step_ids (compact n m ms ts))
     = set (map tt_step_id ts)
   \<and> set (cc_retained_step_ids (compact n m ms ts)) \<inter> set (cc_omitted_step_ids (compact n m ms ts)) = {}"
  using set_last_n_map[of tt_step_id n ts]
  by (auto simp: compact_def Let_def set_dedupe_acc)

lemma compact_keeps_failures:
  "t \<in> set ts \<Longrightarrow> \<not> tt_ok t \<Longrightarrow> tt_step_id t \<in> set (cc_retained_step_ids (compact n m ms ts))"
  by (auto simp: compact_def Let_def set_dedupe_acc)

lemma compact_keeps_recent:
  "t \<in> set (last_n n ts) \<Longrightarrow> tt_step_id t \<in> set (cc_retained_step_ids (compact n m ms ts))"
  using set_last_n[of n ts] by (auto simp: compact_def Let_def set_dedupe_acc)

section \<open>Earlier attempts (agent_runtime/history_builder.py)\<close>

definition failed_tool_text :: "tool_trace \<Rightarrow> string" where
  "failed_tool_text t =
     tt_tool_name t @ '':'' @ (case tt_error_code t of None \<Rightarrow> ''failed'' | Some c \<Rightarrow> (if c = [] then ''failed'' else c))"

definition attempt_line :: "nat \<Rightarrow> attempt_result \<Rightarrow> string" where
  "attempt_line idx a =
     (let failed = map failed_tool_text (filter (\<lambda>t. \<not> tt_ok t) (at_tool_traces a));
          planner_error =
            (case py_get (at_metadata a) ''tool_plan'' of
               PDict d \<Rightarrow> (case py_get d ''error'' of PStr s \<Rightarrow> s | _ \<Rightarrow> [])
             | _ \<Rightarrow> [])
      in join ''; ''
           ([''attempt='' @ nat_str idx, ''status='' @ at_status a, ''route='' @ mr_mode (at_route a)]
            @ (if failed = [] then [] else [''failed_tools='' @ join '','' failed])
            @ (if planner_error = [] then [] else [''planner_error='' @ planner_error])))"

fun attempt_lines :: "nat \<Rightarrow> attempt_result list \<Rightarrow> string list" where
  "attempt_lines idx [] = []"
| "attempt_lines idx (a # as) = attempt_line idx a # attempt_lines (Suc idx) as"

definition attempt_history_summary :: "nat \<Rightarrow> attempt_result list \<Rightarrow> string option" where
  "attempt_history_summary limit attempts =
     (if attempts = [] then None
      else Some (join [CHR 0x0A]
             (attempt_lines (max 1 (length attempts + 1 - limit)) (last_n limit attempts))))"

section \<open>Choice of the route (agent_runtime/model_router.py)\<close>

record llm_settings =
  ls_enabled :: bool
  ls_base_url :: string
  ls_api_key :: string
  ls_model :: string
  ls_provider_name :: string
  ls_planning_enabled :: bool
  ls_max_tool_calls :: int
  ls_allow_write_tools :: bool

definition select_route :: "llm_settings \<Rightarrow> case_create_request \<Rightarrow> model_route" where
  "select_route s req =
     (let configured = (ls_enabled s \<and> ls_base_url s \<noteq> [] \<and> ls_api_key s \<noteq> [] \<and> ls_model s \<noteq> []) in
      if configured \<and> ls_planning_enabled s then
        \<lparr>mr_mode = ''llm_tool_plan'', mr_provider_name = Some (ls_provider_name s),
         mr_model = Some (ls_model s),
         mr_reason = ''LLM tool planning is configured; model will propose MCP tool calls.'',
         mr_metadata = [(''service_name'', PStr (cq_service_name req)),
                        (''max_tool_calls'', PInt (ls_max_tool_calls s)),
                        (''allow_write_tools'', PBool (ls_allow_write_tools s))]\<rparr>
      else if configured then
        \<lparr>mr_mode = ''llm_report_enhanced_flow'', mr_provider_name = Some (ls_provider_name s),
         mr_model = Some (ls_model s),
         mr_reason = ''LLM report enhancement is configured; default flow evidence will be summarized by the model.'',
         mr_metadata = [(''service_name'', PStr (cq_service_name req))]\<rparr>
      else
        \<lparr>mr_mode = ''rule_flow'', mr_provider_name = None, mr_model = None,
         mr_reason = ''LLM settings are incomplete or disabled; use deterministic rule flow.'',
         mr_metadata = [(''service_name'', PStr (cq_service_name req))]\<rparr>)"

end
