(* ===== verification/WaveRunner.thy ===== *)
theory WaveRunner
  imports ToolCallLoop
begin

text \<open>
  The execution of a tool plan (\<open>AttemptRunner._run_llm_tool_plan\<close>,
  \<open>agent_runtime/attempt_runner.py\<close>): the steps of the case run in waves. Each wave first skips
  the pending steps with a blocked dependency, then runs the steps whose dependencies are all
  finished; when nothing can run, the rest is skipped as a dependency cycle. This theory holds
  the state of that loop, its operations and what one wave and the whole loop do to the state.

  The dictionaries keyed by step id keep the last entry for an id, and a step found through them
  is the last step of the case with that id. \<open>invoke\<close> is the tool-call loop's invoker over an
  environment \<open>'g\<close>; an exception it raises ends the run.
\<close>

section \<open>Steps of a case\<close>

fun find_step :: "string \<Rightarrow> case_step list \<Rightarrow> case_step option" where
  "find_step i [] = None"
| "find_step i (s # ss) =
     (case find_step i ss of
        Some t \<Rightarrow> Some t
      | None \<Rightarrow> (if st_step_id s = i then Some s else None))"

fun update_step :: "string \<Rightarrow> (case_step \<Rightarrow> case_step) \<Rightarrow> case_step list \<Rightarrow> case_step list" where
  "update_step i f [] = []"
| "update_step i f (s # ss) =
     (if st_step_id s = i \<and> i \<notin> set (map st_step_id ss) then f s # ss else s # update_step i f ss)"

definition transition_case_status :: "case_status \<Rightarrow> case_record \<Rightarrow> case_record res" where
  "transition_case_status new c =
     bind_res (validate_case_transition (cr_status c) new) (\<lambda>_. Inr (c\<lparr>cr_status := new\<rparr>))"

definition transition_step :: "step_status \<Rightarrow> case_step \<Rightarrow> case_step res" where
  "transition_step new s =
     bind_res (validate_step_transition (st_status s) new) (\<lambda>_. Inr (s\<lparr>st_status := new\<rparr>))"

text \<open>\<open>_transition_step_status(steps_by_step_id[step_id], new)\<close>.\<close>

definition transition_step_status :: "string \<Rightarrow> step_status \<Rightarrow> case_record \<Rightarrow> case_record res" where
  "transition_step_status i new c =
     (case find_step i (cr_steps c) of
        None \<Rightarrow> Inl (KeyError i)
      | Some s \<Rightarrow>
          bind_res (transition_step new s)
            (\<lambda>s'. Inr (c\<lparr>cr_steps := update_step i (\<lambda>_. s') (cr_steps c)\<rparr>)))"

section \<open>The state of the loop\<close>

record 'g run_ctx =
  rx_calls :: "tool_plan_call list"
  rx_request :: case_create_request
  rx_rules :: arg_rules
  rx_invoke :: "tool_call_request \<Rightarrow> 'g \<Rightarrow> tool_call_result res \<times> 'g"
  rx_max_chars :: nat

record 'g run_state =
  rs_env :: 'g
  rs_case :: case_record
  rs_requests :: "(string \<times> tool_call_request) list"
  rs_records :: "(string \<times> tool_call_execution) list"
  rs_traces :: "tool_trace list"
  rs_blocking :: "string set"
  rs_finished :: "string set"
  rs_pending :: "string list"

text \<open>\<open>calls_by_step_id\<close>.\<close>

definition call_of :: "'g run_ctx \<Rightarrow> string \<Rightarrow> tool_plan_call option" where
  "call_of cx i = dget (dict_of (map (\<lambda>c. (pc_step_id c, c)) (rx_calls cx))) i"

definition deps_of :: "'g run_ctx \<Rightarrow> string \<Rightarrow> string list" where
  "deps_of cx i = (case call_of cx i of None \<Rightarrow> [] | Some c \<Rightarrow> pc_depends_on c)"

definition is_required :: "'g run_ctx \<Rightarrow> string \<Rightarrow> bool" where
  "is_required cx i \<longleftrightarrow> (case call_of cx i of None \<Rightarrow> False | Some c \<Rightarrow> pc_required c)"

definition metadata_of :: "'g run_ctx \<Rightarrow> string \<Rightarrow> pydict" where
  "metadata_of cx i = (case call_of cx i of None \<Rightarrow> [] | Some c \<Rightarrow> call_execution_metadata c)"

definition request_tool :: "'g run_state \<Rightarrow> string \<Rightarrow> string" where
  "request_tool s i = (case dget (rs_requests s) i of None \<Rightarrow> [] | Some q \<Rightarrow> rq_tool_name q)"

section \<open>Skipping\<close>

definition skipped_trace :: "'g run_ctx \<Rightarrow> 'g run_state \<Rightarrow> string \<Rightarrow> string \<Rightarrow> string \<Rightarrow> tool_trace" where
  "skipped_trace cx s i code msg =
     \<lparr>tt_step_id = i, tt_tool_name = request_tool s i, tt_ok = False, tt_latency_ms = 0,
      tt_content_preview = [], tt_error_code = Some code, tt_error_message = Some msg,
      tt_plan_metadata = metadata_of cx i\<rparr>"

definition finish_step :: "'g run_ctx \<Rightarrow> string \<Rightarrow> bool \<Rightarrow> 'g run_state \<Rightarrow> 'g run_state res" where
  "finish_step cx i blocks s =
     (if i \<notin> set (rs_pending s) then Inl (ValueError ''list.remove(x): x not in list'')
      else Inr (s\<lparr>rs_finished := insert i (rs_finished s),
                  rs_pending := remove1 i (rs_pending s),
                  rs_blocking := (if blocks \<and> is_required cx i then insert i (rs_blocking s)
                                  else rs_blocking s)\<rparr>))"

definition skip_step ::
    "'g run_ctx \<Rightarrow> string \<Rightarrow> string \<Rightarrow> string \<Rightarrow> 'g run_state \<Rightarrow> 'g run_state res" where
  "skip_step cx code msg i s =
     bind_res (transition_step_status i Step_SKIPPED (rs_case s)) (\<lambda>c.
       finish_step cx i True
         (s\<lparr>rs_case := c, rs_traces := rs_traces s @ [skipped_trace cx s i code msg]\<rparr>))"

definition blocked_dependencies :: "'g run_ctx \<Rightarrow> 'g run_state \<Rightarrow> string \<Rightarrow> string list" where
  "blocked_dependencies cx s i = filter (\<lambda>d. d \<in> rs_blocking s) (deps_of cx i)"

definition dependency_failed_message :: "string list \<Rightarrow> string" where
  "dependency_failed_message ds =
     ''Skipped because dependency steps failed or were skipped: '' @ join '', '' ds"

fun skip_blocked :: "'g run_ctx \<Rightarrow> string list \<Rightarrow> bool \<Rightarrow> 'g run_state \<Rightarrow> (bool \<times> 'g run_state) res" where
  "skip_blocked cx [] skipped s = Inr (skipped, s)"
| "skip_blocked cx (i # is) skipped s =
     (if blocked_dependencies cx s i = [] then skip_blocked cx is skipped s
      else bind_res
        (skip_step cx ''DEPENDENCY_FAILED''
           (dependency_failed_message (blocked_dependencies cx s i)) i s)
        (\<lambda>s'. skip_blocked cx is True s'))"

fun skip_cycle :: "'g run_ctx \<Rightarrow> string list \<Rightarrow> 'g run_state \<Rightarrow> 'g run_state res" where
  "skip_cycle cx [] s = Inr s"
| "skip_cycle cx (i # is) s =
     bind_res
       (skip_step cx ''DEPENDENCY_CYCLE''
          ''Skipped because tool plan dependencies could not be resolved.'' i s)
       (\<lambda>s'. skip_cycle cx is s')"

section \<open>Running the ready steps\<close>

definition ready_steps :: "'g run_ctx \<Rightarrow> 'g run_state \<Rightarrow> string list" where
  "ready_steps cx s = filter (\<lambda>i. set (deps_of cx i) \<subseteq> rs_finished s) (rs_pending s)"

fun start_steps :: "string list \<Rightarrow> case_record \<Rightarrow> case_record res" where
  "start_steps [] c = Inr c"
| "start_steps (i # is) c =
     bind_res (transition_step_status i Step_RUNNING c) (\<lambda>c'. start_steps is c')"

definition completed_step_outputs :: "(string \<times> tool_call_execution) list \<Rightarrow> step_outputs" where
  "completed_step_outputs records = map (\<lambda>(i, x). (i, tr_content (ex_result x))) records"

text \<open>The arguments of the ready requests are completed from the outputs so far, then sent.\<close>

fun prepare_requests ::
    "'g run_ctx \<Rightarrow> step_outputs \<Rightarrow> string list \<Rightarrow> 'g run_state \<Rightarrow> (tool_call_request list \<times> 'g run_state) res" where
  "prepare_requests cx outputs [] s = Inr ([], s)"
| "prepare_requests cx outputs (i # is) s =
     (case dget (rs_requests s) i of
        None \<Rightarrow> Inl (KeyError i)
      | Some q \<Rightarrow>
          (let q' = q\<lparr>rq_arguments := enrich_tool_arguments (rx_rules cx) (rq_tool_name q)
                        (rq_arguments q) (rx_request cx) outputs\<rparr>;
               s' = s\<lparr>rs_requests := dput i q' (rs_requests s),
                      rs_case := (rs_case s)\<lparr>cr_steps := update_step i
                        (\<lambda>st. st\<lparr>st_inputs := rq_arguments q'\<rparr>) (cr_steps (rs_case s))\<rparr>\<rparr>
           in bind_res (prepare_requests cx outputs is s') (\<lambda>(qs, s''). Inr (q' # qs, s''))))"

fun record_results :: "'g run_ctx \<Rightarrow> tool_call_execution list \<Rightarrow> 'g run_state \<Rightarrow> 'g run_state res" where
  "record_results cx [] s = Inr s"
| "record_results cx (x # xs) s =
     bind_res
       (finish_step cx (rq_step_id (ex_request x)) (\<not> tr_ok (ex_result x))
          (s\<lparr>rs_records := dput (rq_step_id (ex_request x)) x (rs_records s),
             rs_traces := rs_traces s @ [ex_trace x]\<rparr>))
       (\<lambda>s'. record_results cx xs s')"

definition run_ready :: "'g run_ctx \<Rightarrow> string list \<Rightarrow> 'g run_state \<Rightarrow> 'g run_state res" where
  "run_ready cx ready s =
     bind_res (start_steps ready (rs_case s)) (\<lambda>c1.
     bind_res (if cr_status c1 = Case_PLANNED then transition_case_status Case_RUNNING c1 else Inr c1) (\<lambda>c2.
     bind_res (prepare_requests cx (completed_step_outputs (rs_records s)) ready (s\<lparr>rs_case := c2\<rparr>))
       (\<lambda>(qs, s1).
          case execute_records (rx_invoke cx) (rx_max_chars cx) (metadata_of cx) qs (rs_env s1) of
            (Inl e, g) \<Rightarrow> Inl e
          | (Inr xs, g) \<Rightarrow> record_results cx xs (s1\<lparr>rs_env := g\<rparr>))))"

section \<open>One wave, and the loop\<close>

definition wave :: "'g run_ctx \<Rightarrow> 'g run_state \<Rightarrow> 'g run_state res" where
  "wave cx s =
     bind_res (skip_blocked cx (rs_pending s) False s) (\<lambda>(skipped, s1).
       if ready_steps cx s1 = [] then
         (if skipped then Inr s1 else skip_cycle cx (rs_pending s1) s1)
       else run_ready cx (ready_steps cx s1) s1)"

text \<open>Every wave that does not raise removes a pending step, so the loop ends.\<close>

lemma finish_step_pending:
  "finish_step cx i b s = Inr s' \<Longrightarrow>
   i \<in> set (rs_pending s) \<and> rs_pending s' = remove1 i (rs_pending s)
   \<and> rs_finished s' = insert i (rs_finished s)"
  by (auto simp: finish_step_def split: if_splits)

lemma skip_step_pending:
  "skip_step cx code msg i s = Inr s' \<Longrightarrow>
   i \<in> set (rs_pending s) \<and> rs_pending s' = remove1 i (rs_pending s)
   \<and> rs_finished s' = insert i (rs_finished s)"
  unfolding skip_step_def by (auto dest: finish_step_pending)

lemma length_remove1_less: "x \<in> set xs \<Longrightarrow> length (remove1 x xs) < length xs"
  by (simp add: length_remove1) (cases xs; simp)

lemma skip_blocked_length:
  "skip_blocked cx is b s = Inr (b', s') \<Longrightarrow>
   length (rs_pending s') \<le> length (rs_pending s)
   \<and> (b' \<longrightarrow> b \<or> length (rs_pending s') < length (rs_pending s))"
proof (induction cx "is" b s rule: skip_blocked.induct)
  case (2 cx i "is" b s)
  show ?case
  proof (cases "blocked_dependencies cx s i = []")
    case True
    with 2 show ?thesis by simp
  next
    case False
    with 2(3) obtain s1 where s1: "skip_step cx ''DEPENDENCY_FAILED''
        (dependency_failed_message (blocked_dependencies cx s i)) i s = Inr s1"
      and r: "skip_blocked cx is True s1 = Inr (b', s')" by auto
    have "length (rs_pending s1) < length (rs_pending s)"
      using skip_step_pending[OF s1] length_remove1_less by auto
    with 2(2)[OF False r] show ?thesis by linarith
  qed
qed simp

lemma skip_cycle_length:
  "skip_cycle cx is s = Inr s' \<Longrightarrow> is \<noteq> [] \<Longrightarrow> length (rs_pending s') < length (rs_pending s)"
proof (induction cx "is" s rule: skip_cycle.induct)
  case (2 cx i "is" s)
  then obtain s1 where s1: "skip_step cx ''DEPENDENCY_CYCLE''
        ''Skipped because tool plan dependencies could not be resolved.'' i s = Inr s1"
    and r: "skip_cycle cx is s1 = Inr s'" by auto
  have "length (rs_pending s1) < length (rs_pending s)"
    using skip_step_pending[OF s1] length_remove1_less by auto
  with 2(1)[OF r] r show ?case by (cases "is = []") auto
qed simp

lemma prepare_requests_frame:
  "prepare_requests cx outs is s = Inr (qs, s') \<Longrightarrow>
   rs_pending s' = rs_pending s \<and> rs_finished s' = rs_finished s \<and> rs_blocking s' = rs_blocking s
   \<and> rs_records s' = rs_records s \<and> rs_traces s' = rs_traces s \<and> rs_env s' = rs_env s
   \<and> length qs = length is"
proof (induction "is" arbitrary: s qs)
  case (Cons i "is")
  from Cons.prems obtain q where q: "dget (rs_requests s) i = Some q"
    by (auto split: option.splits)
  let ?q = "q\<lparr>rq_arguments := enrich_tool_arguments (rx_rules cx) (rq_tool_name q)
                        (rq_arguments q) (rx_request cx) outs\<rparr>"
  let ?s = "s\<lparr>rs_requests := dput i ?q (rs_requests s),
              rs_case := (rs_case s)\<lparr>cr_steps := update_step i
                (\<lambda>st. st\<lparr>st_inputs := rq_arguments ?q\<rparr>) (cr_steps (rs_case s))\<rparr>\<rparr>"
  from Cons.prems q obtain qs' where r: "prepare_requests cx outs is ?s = Inr (qs', s')"
    and qs: "qs = ?q # qs'" by (auto simp: Let_def)
  show ?case using Cons.IH[OF r] qs by simp
qed simp

lemma record_results_length:
  "record_results cx xs s = Inr s' \<Longrightarrow>
   length (rs_pending s') + length xs = length (rs_pending s)"
proof (induction cx xs s rule: record_results.induct)
  case (2 cx x xs s)
  let ?s1 = "s\<lparr>rs_records := dput (rq_step_id (ex_request x)) x (rs_records s),
               rs_traces := rs_traces s @ [ex_trace x]\<rparr>"
  from 2(2) obtain s1 where s1: "finish_step cx (rq_step_id (ex_request x)) (\<not> tr_ok (ex_result x)) ?s1 = Inr s1"
    and r: "record_results cx xs s1 = Inr s'" by auto
  have "length (rs_pending s1) + 1 = length (rs_pending s)"
    using finish_step_pending[OF s1] length_pos_if_in_set[of "rq_step_id (ex_request x)" "rs_pending s"]
    by (simp add: length_remove1)
  with 2(1)[OF r] show ?case by simp
qed simp

lemma run_ready_length:
  assumes "run_ready cx ready s = Inr s'"
  shows "length (rs_pending s') + length ready = length (rs_pending s)"
proof -
  from assms obtain c2 qs s1 where
    p: "prepare_requests cx (completed_step_outputs (rs_records s)) ready (s\<lparr>rs_case := c2\<rparr>) = Inr (qs, s1)"
    and e: "(case execute_records (rx_invoke cx) (rx_max_chars cx) (metadata_of cx) qs (rs_env s1) of
            (Inl e, g) \<Rightarrow> Inl e
          | (Inr xs, g) \<Rightarrow> record_results cx xs (s1\<lparr>rs_env := g\<rparr>)) = Inr s'"
    unfolding run_ready_def bind_res_Inr_iff by fastforce
  obtain r g where rg: "execute_records (rx_invoke cx) (rx_max_chars cx) (metadata_of cx) qs (rs_env s1) = (r, g)"
    by fastforce
  with e obtain xs where "r = Inr xs" and r: "record_results cx xs (s1\<lparr>rs_env := g\<rparr>) = Inr s'"
    by (cases r) auto
  note x = rg[unfolded \<open>r = Inr xs\<close>]
  have "length xs = length qs" using execute_records_requests[OF x] by (metis length_map)
  then show ?thesis using record_results_length[OF r] prepare_requests_frame[OF p] by simp
qed

lemma wave_decreases:
  assumes "wave cx s = Inr s'" and "rs_pending s \<noteq> []"
  shows "length (rs_pending s') < length (rs_pending s)"
proof -
  from assms(1) obtain b s1 where sb: "skip_blocked cx (rs_pending s) False s = Inr (b, s1)"
    and rest: "(if ready_steps cx s1 = [] then
         (if b then Inr s1 else skip_cycle cx (rs_pending s1) s1)
       else run_ready cx (ready_steps cx s1) s1) = Inr s'"
    unfolding wave_def by auto
  note l = skip_blocked_length[OF sb]
  show ?thesis
  proof (cases "ready_steps cx s1 = []")
    case False
    with rest have "length (rs_pending s') + length (ready_steps cx s1) = length (rs_pending s1)"
      by (auto dest: run_ready_length)
    moreover have "0 < length (ready_steps cx s1)" using False by simp
    ultimately show ?thesis using l by linarith
  next
    case True
    show ?thesis
    proof (cases b)
      case True
      with rest \<open>ready_steps cx s1 = []\<close> l show ?thesis by simp
    next
      case False
      with rest True have c: "skip_cycle cx (rs_pending s1) s1 = Inr s'" by simp
      show ?thesis
      proof (cases "rs_pending s1 = []")
        case True
        with c have "s' = s1" by simp
        with True assms(2) show ?thesis by simp
      next
        case False
        with skip_cycle_length[OF c] l show ?thesis by linarith
      qed
    qed
  qed
qed

function run_waves :: "'g run_ctx \<Rightarrow> 'g run_state \<Rightarrow> 'g run_state res" where
  "run_waves cx s =
     (if rs_pending s = [] then Inr s
      else (case wave cx s of Inl e \<Rightarrow> Inl e | Inr s' \<Rightarrow> run_waves cx s'))"
  by pat_completeness auto
termination
  by (relation "measure (\<lambda>(cx, s). length (rs_pending s))") (auto intro: wave_decreases)

declare run_waves.simps [simp del]

end
