(* ===== verification/WaveFacts.thy ===== *)
theory WaveFacts
  imports WaveRunner
begin

text \<open>
  What the wave loop keeps. \<open>run_inv cx ids R s\<close> is the invariant of the loop over a case whose
  steps are \<open>ids\<close>, where \<open>R\<close> are the steps already started in the wave that is running (none
  between waves). Under it no operation of the loop raises, provided the invoker answers.
\<close>

section \<open>Step statuses as a function of the step id\<close>

definition has_statuses :: "string list \<Rightarrow> (string \<Rightarrow> step_status) \<Rightarrow> case_record \<Rightarrow> bool" where
  "has_statuses ids f c \<longleftrightarrow>
     map st_step_id (cr_steps c) = ids \<and> (\<forall>t \<in> set (cr_steps c). st_status t = f (st_step_id t))"

lemma find_step_Some: "find_step i ss = Some t \<Longrightarrow> t \<in> set ss \<and> st_step_id t = i"
  by (induction ss) (auto split: option.splits if_splits)

lemma find_step_defined: "i \<in> st_step_id ` set ss \<Longrightarrow> \<exists>t. find_step i ss = Some t"
  by (induction ss) (auto split: option.splits)

lemma update_step_ids: "(\<And>t. st_step_id t = i \<Longrightarrow> st_step_id (f t) = i) \<Longrightarrow>
    map st_step_id (update_step i f ss) = map st_step_id ss"
  by (induction ss) auto

lemma update_step_set:
  "distinct (map st_step_id ss) \<Longrightarrow>
   set (update_step i f ss) = (\<lambda>t. if st_step_id t = i then f t else t) ` set ss"
proof (induction ss)
  case (Cons s ss)
  show ?case
  proof (cases "st_step_id s = i")
    case True
    with Cons.prems have "i \<notin> st_step_id ` set ss" by auto
    with True show ?thesis by (auto simp: image_iff)
  next
    case False
    with Cons show ?thesis by auto
  qed
qed simp

lemma transition_step_status_ok:
  assumes f: "has_statuses ids f c" and d: "distinct ids" and i: "i \<in> set ids"
    and v: "new \<in> allowed_step_transitions (f i)"
  shows "\<exists>c'. transition_step_status i new c = Inr c' \<and> has_statuses ids (f(i := new)) c'
           \<and> cr_status c' = cr_status c \<and> cr_case_id c' = cr_case_id c"
proof -
  from f i have "i \<in> st_step_id ` set (cr_steps c)" by (auto simp: has_statuses_def)
  then obtain t where t: "find_step i (cr_steps c) = Some t" using find_step_defined by blast
  note ts = find_step_Some[OF t]
  have dist: "distinct (map st_step_id (cr_steps c))" using f d by (simp add: has_statuses_def)
  let ?t = "t\<lparr>st_status := new\<rparr>" and ?ss = "update_step i (\<lambda>_. t\<lparr>st_status := new\<rparr>) (cr_steps c)"
  have "transition_step new t = Inr ?t"
    using v ts f by (simp add: transition_step_def has_statuses_def bind_res_Inr_iff)
  then have r: "transition_step_status i new c = Inr (c\<lparr>cr_steps := ?ss\<rparr>)"
    using t by (simp add: transition_step_status_def)
  have "has_statuses ids (f(i := new)) (c\<lparr>cr_steps := ?ss\<rparr>)"
    using f ts by (auto simp: has_statuses_def update_step_ids update_step_set[OF dist])
  with r show ?thesis by auto
qed

lemma has_statuses_cong:
  "has_statuses ids f c \<Longrightarrow> (\<And>i. i \<in> set ids \<Longrightarrow> f i = g i) \<Longrightarrow> has_statuses ids g c"
  by (auto simp: has_statuses_def)

lemma start_steps_ok:
  assumes "has_statuses ids f c" "distinct ids" "set is \<subseteq> set ids" "distinct is"
    "\<And>i. i \<in> set is \<Longrightarrow> f i = Step_PENDING"
  shows "\<exists>c'. start_steps is c = Inr c' \<and> has_statuses ids (\<lambda>j. if j \<in> set is then Step_RUNNING else f j) c'
           \<and> cr_status c' = cr_status c \<and> cr_case_id c' = cr_case_id c"
  using assms
proof (induction "is" arbitrary: c f)
  case (Cons i "is")
  obtain c1 where 1: "transition_step_status i Step_RUNNING c = Inr c1"
    "has_statuses ids (f(i := Step_RUNNING)) c1" "cr_status c1 = cr_status c" "cr_case_id c1 = cr_case_id c"
    using transition_step_status_ok[OF Cons.prems(1,2), of i Step_RUNNING] Cons.prems(3,5) by auto
  have "\<And>j. j \<in> set is \<Longrightarrow> (f(i := Step_RUNNING)) j = Step_PENDING" "set is \<subseteq> set ids" "distinct is"
    using Cons.prems by auto
  from Cons.IH[OF 1(2) Cons.prems(2) this(2,3,1)] obtain c' where
    c': "start_steps is c1 = Inr c'"
      "has_statuses ids (\<lambda>j. if j \<in> set is then Step_RUNNING else (f(i := Step_RUNNING)) j) c'"
      "cr_status c' = cr_status c1" "cr_case_id c' = cr_case_id c1" by blast
  have "(\<lambda>j. if j \<in> set is then Step_RUNNING else (f(i := Step_RUNNING)) j)
      = (\<lambda>j. if j \<in> set (i # is) then Step_RUNNING else f j)" by auto
  with c' 1 show ?case by simp
qed (auto simp: has_statuses_def)

section \<open>The invariant\<close>

definition expected_status :: "string set \<Rightarrow> 'g run_state \<Rightarrow> string \<Rightarrow> step_status" where
  "expected_status R s i =
     (if i \<in> R then Step_RUNNING
      else if i \<notin> rs_finished s then Step_PENDING
      else if i \<in> set (dkeys (rs_records s)) then Step_RUNNING
      else Step_SKIPPED)"

text \<open>The tool the plan names for a step.\<close>

definition tool_of :: "'g run_ctx \<Rightarrow> string \<Rightarrow> string" where
  "tool_of cx i = (case call_of cx i of None \<Rightarrow> [] | Some c \<Rightarrow> pc_tool_name c)"

text \<open>An executed step is traced after all its dependencies. \<open>K\<close> are the executed steps.\<close>

fun deps_traced_first :: "'g run_ctx \<Rightarrow> string set \<Rightarrow> string set \<Rightarrow> tool_trace list \<Rightarrow> bool" where
  "deps_traced_first cx K seen [] = True"
| "deps_traced_first cx K seen (t # ts) \<longleftrightarrow>
     (tt_step_id t \<in> K \<longrightarrow> set (deps_of cx (tt_step_id t)) \<subseteq> seen)
     \<and> deps_traced_first cx K (insert (tt_step_id t) seen) ts"

lemma deps_traced_first_snoc [simp]:
  "deps_traced_first cx K seen (ts @ [t]) \<longleftrightarrow> deps_traced_first cx K seen ts
     \<and> (tt_step_id t \<in> K \<longrightarrow> set (deps_of cx (tt_step_id t)) \<subseteq> seen \<union> set (map tt_step_id ts))"
  by (induction ts arbitrary: seen) auto

lemma deps_traced_first_insert:
  "i \<notin> set (map tt_step_id ts) \<Longrightarrow>
   deps_traced_first cx (insert i K) seen ts = deps_traced_first cx K seen ts"
  by (induction ts arbitrary: seen) auto

lemma deps_traced_firstD:
  "deps_traced_first cx K seen ts \<Longrightarrow> i \<in> K \<Longrightarrow> i \<in> set (map tt_step_id ts) \<Longrightarrow>
   set (deps_of cx i) \<subseteq> seen \<union> set (map tt_step_id ts)"
  by (induction ts arbitrary: seen) fastforce+

definition run_inv :: "'g run_ctx \<Rightarrow> string list \<Rightarrow> string set \<Rightarrow> 'g run_state \<Rightarrow> bool" where
  "run_inv cx ids R s \<longleftrightarrow>
     distinct ids
   \<and> rs_finished s \<subseteq> set ids
   \<and> rs_pending s = filter (\<lambda>i. i \<notin> rs_finished s) ids
   \<and> R \<subseteq> set (rs_pending s)
   \<and> has_statuses ids (expected_status R s) (rs_case s)
   \<and> dkeys (rs_requests s) = ids \<and> keyed rq_step_id (rs_requests s)
   \<and> set (dkeys (rs_records s)) \<subseteq> rs_finished s
   \<and> keyed (\<lambda>x. rq_step_id (ex_request x)) (rs_records s)
   \<and> distinct (map tt_step_id (rs_traces s)) \<and> set (map tt_step_id (rs_traces s)) = rs_finished s
   \<and> rs_blocking s = {i \<in> rs_finished s. is_required cx i
       \<and> (case dget (rs_records s) i of None \<Rightarrow> True | Some x \<Rightarrow> \<not> tr_ok (ex_result x))}
   \<and> cr_status (rs_case s) = (if rs_records s = [] \<and> R = {} then Case_PLANNED else Case_RUNNING)
   \<and> deps_traced_first cx (set (dkeys (rs_records s))) {} (rs_traces s)
   \<and> (\<forall>q \<in> set (dvals (rs_requests s)). rq_tool_name q = tool_of cx (rq_step_id q))"

lemma run_invD:
  assumes "run_inv cx ids R s"
  shows "distinct ids" "rs_finished s \<subseteq> set ids"
    "rs_pending s = filter (\<lambda>i. i \<notin> rs_finished s) ids"
    "R \<subseteq> set (rs_pending s)" "has_statuses ids (expected_status R s) (rs_case s)"
    "dkeys (rs_requests s) = ids" "keyed rq_step_id (rs_requests s)"
    "set (dkeys (rs_records s)) \<subseteq> rs_finished s"
    "keyed (\<lambda>x. rq_step_id (ex_request x)) (rs_records s)"
    "distinct (map tt_step_id (rs_traces s))" "set (map tt_step_id (rs_traces s)) = rs_finished s"
    "rs_blocking s = {i \<in> rs_finished s. is_required cx i
       \<and> (case dget (rs_records s) i of None \<Rightarrow> True | Some x \<Rightarrow> \<not> tr_ok (ex_result x))}"
    "cr_status (rs_case s) = (if rs_records s = [] \<and> R = {} then Case_PLANNED else Case_RUNNING)"
    "deps_traced_first cx (set (dkeys (rs_records s))) {} (rs_traces s)"
    "\<forall>q \<in> set (dvals (rs_requests s)). rq_tool_name q = tool_of cx (rq_step_id q)"
  using assms unfolding run_inv_def by blast+

lemma executed_deps_finished:
  assumes "run_inv cx ids R s"
  shows "\<forall>i \<in> set (dkeys (rs_records s)). set (deps_of cx i) \<subseteq> rs_finished s"
  using deps_traced_firstD[OF run_invD(14)[OF assms]] run_invD(8,11)[OF assms] by blast

lemma expected_status_eq:
  "rs_finished s' = rs_finished s \<Longrightarrow> dkeys (rs_records s') = dkeys (rs_records s) \<Longrightarrow>
   expected_status R s' = expected_status R s"
  unfolding expected_status_def by presburger

lemma expected_status_env [simp]:
  "expected_status R (s\<lparr>rs_env := g\<rparr>) = expected_status R s"
  "expected_status R (s\<lparr>rs_case := c\<rparr>) = expected_status R s"
  by (rule expected_status_eq; simp)+

lemma run_inv_env [simp]: "run_inv cx ids R (s\<lparr>rs_env := g\<rparr>) = run_inv cx ids R s"
  by (simp add: run_inv_def)

lemma run_inv_pending_iff: "run_inv cx ids R s \<Longrightarrow> i \<in> set (rs_pending s) \<longleftrightarrow> i \<in> set ids \<and> i \<notin> rs_finished s"
  by (simp add: run_invD(3))

lemma filter_remove1: "distinct xs \<Longrightarrow> remove1 i (filter P xs) = filter (\<lambda>j. P j \<and> j \<noteq> i) xs"
  by (auto simp: distinct_remove1_removeAll removeAll_filter_not_eq intro!: filter_cong)

lemma dget_None_keys: "dget d i = None \<longleftrightarrow> i \<notin> set (dkeys d)"
  by (simp add: map_of_eq_None_iff)

section \<open>Skipping keeps the invariant\<close>

lemma skip_step_ok:
  assumes inv: "run_inv cx ids {} s" and i: "i \<in> set (rs_pending s)"
  shows "\<exists>s'. skip_step cx code msg i s = Inr s' \<and> run_inv cx ids {} s'
    \<and> rs_finished s' = insert i (rs_finished s) \<and> rs_records s' = rs_records s
    \<and> rs_env s' = rs_env s \<and> rs_traces s' = rs_traces s @ [skipped_trace cx s i code msg]
    \<and> rs_blocking s' = (if is_required cx i then insert i (rs_blocking s) else rs_blocking s)"
proof -
  note I = run_invD[OF inv]
  from i inv have ids: "i \<in> set ids" and nf: "i \<notin> rs_finished s" by (simp_all add: run_inv_pending_iff)
  have nr: "i \<notin> set (dkeys (rs_records s))" using nf I(8) by blast
  obtain c where c: "transition_step_status i Step_SKIPPED (rs_case s) = Inr c"
    "has_statuses ids ((expected_status {} s)(i := Step_SKIPPED)) c"
    "cr_status c = cr_status (rs_case s)"
    using transition_step_status_ok[OF I(5,1) ids, of Step_SKIPPED] nf by (auto simp: expected_status_def)
  let ?s = "s\<lparr>rs_case := c, rs_traces := rs_traces s @ [skipped_trace cx s i code msg],
      rs_finished := insert i (rs_finished s), rs_pending := remove1 i (rs_pending s),
      rs_blocking := (if is_required cx i then insert i (rs_blocking s) else rs_blocking s)\<rparr>"
  have r: "skip_step cx code msg i s = Inr ?s"
    using c i by (simp add: skip_step_def finish_step_def)
  have "run_inv cx ids {} ?s"
    unfolding run_inv_def
  proof (intro conjI)
    show "has_statuses ids (expected_status {} ?s) (rs_case ?s)"
      using c(2) nr by (auto elim!: has_statuses_cong simp: expected_status_def)
    show "rs_pending ?s = filter (\<lambda>i. i \<notin> rs_finished ?s) ids"
      using I(1) by (auto simp: I(3) filter_remove1 intro!: filter_cong)
    show "distinct (map tt_step_id (rs_traces ?s))"
      using I(10,11) nf by (auto simp: skipped_trace_def)
    show "set (map tt_step_id (rs_traces ?s)) = rs_finished ?s"
      using I(11) by (auto simp: skipped_trace_def)
    show "rs_blocking ?s = {i \<in> rs_finished ?s. is_required cx i
       \<and> (case dget (rs_records ?s) i of None \<Rightarrow> True | Some x \<Rightarrow> \<not> tr_ok (ex_result x))}"
      using nr by (auto simp: I(12) dget_None_keys[THEN iffD2])
    show "deps_traced_first cx (set (dkeys (rs_records ?s))) {} (rs_traces ?s)"
      using I(14) nr by (simp add: skipped_trace_def)
  qed (use I ids c in auto)
  with r show ?thesis by auto
qed

lemma skip_blocked_ok:
  assumes "run_inv cx ids {} s" "set is \<subseteq> set (rs_pending s)" "distinct is"
  shows "\<exists>b s'. skip_blocked cx is b0 s = Inr (b, s') \<and> run_inv cx ids {} s'
    \<and> rs_records s' = rs_records s \<and> rs_env s' = rs_env s
    \<and> rs_finished s \<subseteq> rs_finished s' \<and> rs_blocking s \<subseteq> rs_blocking s'
    \<and> rs_blocking s' \<subseteq> rs_blocking s \<union> set is \<and> (b = (b0 \<or> rs_finished s' \<noteq> rs_finished s))
    \<and> (\<forall>j \<in> rs_finished s' - rs_finished s. set (deps_of cx j) \<inter> rs_blocking s' \<noteq> {})
    \<and> (\<exists>ts. rs_traces s' = rs_traces s @ ts)"
  using assms
proof (induction "is" arbitrary: s b0)
  case (Cons i "is")
  show ?case
  proof (cases "blocked_dependencies cx s i = []")
    case True
    obtain b s' where "skip_blocked cx is b0 s = Inr (b, s')" "run_inv cx ids {} s'"
      "rs_records s' = rs_records s" "rs_env s' = rs_env s" "rs_finished s \<subseteq> rs_finished s'"
      "rs_blocking s \<subseteq> rs_blocking s'" "rs_blocking s' \<subseteq> rs_blocking s \<union> set is"
      "b = (b0 \<or> rs_finished s' \<noteq> rs_finished s)"
      "\<forall>j \<in> rs_finished s' - rs_finished s. set (deps_of cx j) \<inter> rs_blocking s' \<noteq> {}"
      "\<exists>ts. rs_traces s' = rs_traces s @ ts"
      using Cons.IH[of s b0] Cons.prems by auto
    with True show ?thesis by auto
  next
    case False
    have i: "i \<in> set (rs_pending s)" using Cons.prems by simp
    obtain s1 where s1: "skip_step cx ''DEPENDENCY_FAILED''
          (dependency_failed_message (blocked_dependencies cx s i)) i s = Inr s1"
      and inv1: "run_inv cx ids {} s1" and f1: "rs_finished s1 = insert i (rs_finished s)"
      and r1: "rs_records s1 = rs_records s" and e1: "rs_env s1 = rs_env s"
      and b1: "rs_blocking s1 = (if is_required cx i then insert i (rs_blocking s) else rs_blocking s)"
      and t1: "\<exists>ts. rs_traces s1 = rs_traces s @ ts"
      using skip_step_ok[OF Cons.prems(1) i] by blast
    have sub: "set is \<subseteq> set (rs_pending s1)" "distinct is"
      using Cons.prems by (auto simp: run_inv_pending_iff[OF inv1] run_inv_pending_iff[OF Cons.prems(1)] f1)
    obtain b s' where 2: "skip_blocked cx is True s1 = Inr (b, s')" "run_inv cx ids {} s'"
      "rs_records s' = rs_records s1" "rs_env s' = rs_env s1" "rs_finished s1 \<subseteq> rs_finished s'"
      "rs_blocking s1 \<subseteq> rs_blocking s'" "rs_blocking s' \<subseteq> rs_blocking s1 \<union> set is" "b = True"
      and 3: "\<forall>j \<in> rs_finished s' - rs_finished s1. set (deps_of cx j) \<inter> rs_blocking s' \<noteq> {}"
      and 4: "\<exists>ts. rs_traces s' = rs_traces s1 @ ts"
      using Cons.IH[OF inv1 sub, of True] by blast
    have nf: "i \<notin> rs_finished s" using i Cons.prems(1) by (simp add: run_inv_pending_iff)
    from False obtain d where "d \<in> set (deps_of cx i)" "d \<in> rs_blocking s"
      by (auto simp: blocked_dependencies_def filter_empty_conv)
    then have "set (deps_of cx i) \<inter> rs_blocking s' \<noteq> {}" using 2(6) b1 by (auto split: if_splits)
    with 3 f1 have "\<forall>j \<in> rs_finished s' - rs_finished s. set (deps_of cx j) \<inter> rs_blocking s' \<noteq> {}" by auto
    moreover have "rs_finished s' \<noteq> rs_finished s" using nf 2(5) f1 by blast
    moreover have "skip_blocked cx (i # is) b0 s = Inr (b, s')" using False s1 2(1) by simp
    moreover have "rs_blocking s \<subseteq> rs_blocking s' \<and> rs_blocking s' \<subseteq> rs_blocking s \<union> set (i # is)"
      using 2(6,7) b1 by (auto split: if_splits)
    moreover have "\<exists>ts. rs_traces s' = rs_traces s @ ts" using 4 t1 by auto
    ultimately show ?thesis using 2 f1 r1 e1 by auto
  qed
qed auto

lemma skip_cycle_ok:
  assumes "run_inv cx ids {} s" "set is \<subseteq> set (rs_pending s)" "distinct is"
  shows "\<exists>s'. skip_cycle cx is s = Inr s' \<and> run_inv cx ids {} s'
    \<and> rs_records s' = rs_records s \<and> rs_env s' = rs_env s \<and> rs_finished s' = rs_finished s \<union> set is
    \<and> rs_blocking s \<subseteq> rs_blocking s' \<and> rs_blocking s' \<subseteq> rs_blocking s \<union> set is
    \<and> (\<exists>ts. rs_traces s' = rs_traces s @ ts)"
  using assms
proof (induction "is" arbitrary: s)
  case (Cons i "is")
  have i: "i \<in> set (rs_pending s)" using Cons.prems by simp
  obtain s1 where s1: "skip_step cx ''DEPENDENCY_CYCLE''
      ''Skipped because tool plan dependencies could not be resolved.'' i s = Inr s1"
    and inv1: "run_inv cx ids {} s1" and f1: "rs_finished s1 = insert i (rs_finished s)"
    and r1: "rs_records s1 = rs_records s" "rs_env s1 = rs_env s"
    and b1: "rs_blocking s1 = (if is_required cx i then insert i (rs_blocking s) else rs_blocking s)"
    and t1: "\<exists>ts. rs_traces s1 = rs_traces s @ ts"
    using skip_step_ok[OF Cons.prems(1) i] by blast
  have sub: "set is \<subseteq> set (rs_pending s1)" "distinct is"
    using Cons.prems by (auto simp: run_inv_pending_iff[OF inv1] run_inv_pending_iff[OF Cons.prems(1)] f1)
  show ?case using Cons.IH[OF inv1 sub] s1 f1 r1 b1 t1 by (auto split: if_splits)
qed auto

section \<open>Running the ready steps keeps the invariant\<close>

lemma keyed_requests_get:
  assumes "keyed rq_step_id (rs_requests s)" "i \<in> set (dkeys (rs_requests s))"
  shows "\<exists>q. dget (rs_requests s) i = Some q \<and> rq_step_id q = i"
proof -
  obtain q where q: "dget (rs_requests s) i = Some q"
    using assms(2) dget_None_keys[of "rs_requests s" i] by (cases "dget (rs_requests s) i") auto
  with keyed_get[OF assms(1) q] show ?thesis by blast
qed

lemma dkeys_dput_mem: "k \<in> set (dkeys d) \<Longrightarrow> dkeys (dput k v d) = dkeys d"
  by (induction d) auto

lemma dkeys_dput_set: "set (dkeys (dput k v d)) = insert k (set (dkeys d))"
  by (induction d) auto

lemma prepare_requests_ok:
  assumes "run_inv cx ids R s" "set is \<subseteq> set ids"
  shows "\<exists>qs s'. prepare_requests cx outs is s = Inr (qs, s') \<and> run_inv cx ids R s'
    \<and> map rq_step_id qs = is \<and> map rq_tool_name qs = map (tool_of cx) is \<and> rs_records s' = rs_records s \<and> rs_finished s' = rs_finished s
    \<and> rs_blocking s' = rs_blocking s \<and> rs_env s' = rs_env s"
  using assms
proof (induction "is" arbitrary: s)
  case (Cons i "is")
  note I = run_invD[OF Cons.prems(1)]
  obtain q where q: "dget (rs_requests s) i = Some q" and qi: "rq_step_id q = i"
    using keyed_requests_get[OF I(7), of i] I(6) Cons.prems(2) by auto
  let ?q = "q\<lparr>rq_arguments := enrich_tool_arguments (rx_rules cx) (rq_tool_name q)
                        (rq_arguments q) (rx_request cx) outs\<rparr>"
  let ?s = "s\<lparr>rs_requests := dput i ?q (rs_requests s),
              rs_case := (rs_case s)\<lparr>cr_steps := update_step i
                (\<lambda>st. st\<lparr>st_inputs := rq_arguments ?q\<rparr>) (cr_steps (rs_case s))\<rparr>\<rparr>"
  have dist: "distinct (map st_step_id (cr_steps (rs_case s)))"
    using I(1,5) by (simp add: has_statuses_def)
  have "expected_status R ?s = expected_status R s" by (rule expected_status_eq) simp_all
  then have st: "has_statuses ids (expected_status R ?s) (rs_case ?s)"
    using I(5) by (auto simp: has_statuses_def update_step_ids update_step_set[OF dist])
  have key: "keyed rq_step_id (dput i ?q (rs_requests s))"
    using keyed_dput[OF I(7), of ?q] qi by simp
  have keys: "dkeys (dput i ?q (rs_requests s)) = ids"
    using I(6) Cons.prems(2) by (simp add: dkeys_dput_mem)
  have "q \<in> set (dvals (rs_requests s))" using q by (auto dest: map_of_SomeD simp: rev_image_eqI)
  then have qt: "rq_tool_name q = tool_of cx i" using I(15) qi by auto
  have "set (dvals (dput i ?q (rs_requests s))) \<subseteq> insert ?q (set (dvals (rs_requests s)))"
    using set_dput[of i ?q "rs_requests s"] by force
  then have vals: "v = ?q \<or> v \<in> set (dvals (rs_requests s))" if "v \<in> set (dvals (rs_requests ?s))" for v
    using that by auto
  have tools: "\<forall>v \<in> set (dvals (rs_requests ?s)). rq_tool_name v = tool_of cx (rq_step_id v)"
  proof
    fix v assume "v \<in> set (dvals (rs_requests ?s))"
    from vals[OF this] show "rq_tool_name v = tool_of cx (rq_step_id v)"
    proof
      assume "v = ?q"
      then show ?thesis using qt qi by simp
    next
      assume "v \<in> set (dvals (rs_requests s))"
      with I(15) show ?thesis by blast
    qed
  qed
  have inv: "run_inv cx ids R ?s"
    unfolding run_inv_def
  proof (intro conjI)
    show "\<forall>q \<in> set (dvals (rs_requests ?s)). rq_tool_name q = tool_of cx (rq_step_id q)" by (rule tools)
    show "has_statuses ids (expected_status R ?s) (rs_case ?s)" by (rule st)
    show "dkeys (rs_requests ?s) = ids" using keys by simp
    show "keyed rq_step_id (rs_requests ?s)" using key by simp
    show "rs_blocking ?s = {i \<in> rs_finished ?s. is_required cx i
       \<and> (case dget (rs_records ?s) i of None \<Rightarrow> True | Some x \<Rightarrow> \<not> tr_ok (ex_result x))}"
      using I(12) by simp
  qed (use I in simp_all)
  obtain qs s' where "prepare_requests cx outs is ?s = Inr (qs, s')" "run_inv cx ids R s'"
    "map rq_step_id qs = is" "map rq_tool_name qs = map (tool_of cx) is"
    "rs_records s' = rs_records s" "rs_finished s' = rs_finished s"
    "rs_blocking s' = rs_blocking s" "rs_env s' = rs_env s"
    using Cons.IH[OF inv] Cons.prems(2) by auto
  then show ?case using q qi qt by (simp add: Let_def)
qed auto

lemma record_result_ok:
  assumes inv: "run_inv cx ids R s" and iR: "i \<in> R" and i: "i = rq_step_id (ex_request x)"
    and tr: "tt_step_id (ex_trace x) = i" and deps: "set (deps_of cx i) \<subseteq> rs_finished s"
  defines "s1 \<equiv> s\<lparr>rs_records := dput i x (rs_records s), rs_traces := rs_traces s @ [ex_trace x]\<rparr>"
  shows "\<exists>s'. finish_step cx i (\<not> tr_ok (ex_result x)) s1 = Inr s' \<and> run_inv cx ids (R - {i}) s'
    \<and> rs_finished s' = insert i (rs_finished s) \<and> rs_records s' = dput i x (rs_records s)
    \<and> rs_blocking s \<subseteq> rs_blocking s' \<and> rs_blocking s' \<subseteq> insert i (rs_blocking s)
    \<and> rs_env s' = rs_env s \<and> rs_traces s' = rs_traces s @ [ex_trace x]"
proof -
  note I = run_invD[OF inv]
  have p: "i \<in> set (rs_pending s)" using iR I(4) by blast
  have ids: "i \<in> set ids" and nf: "i \<notin> rs_finished s" using p inv by (simp_all add: run_inv_pending_iff)
  have nr: "i \<notin> set (dkeys (rs_records s))" using nf I(8) by blast
  let ?b = "if \<not> tr_ok (ex_result x) \<and> is_required cx i then insert i (rs_blocking s) else rs_blocking s"
  let ?s = "s\<lparr>rs_records := dput i x (rs_records s), rs_traces := rs_traces s @ [ex_trace x],
      rs_finished := insert i (rs_finished s), rs_pending := remove1 i (rs_pending s),
      rs_blocking := ?b\<rparr>"
  have r: "finish_step cx i (\<not> tr_ok (ex_result x)) s1 = Inr ?s"
    using p by (simp add: finish_step_def s1_def)
  have rec: "dput i x (rs_records s) \<noteq> []" using dkeys_dput[of i x "rs_records s"] by (cases "dput i x (rs_records s)") auto
  have "run_inv cx ids (R - {i}) ?s"
    unfolding run_inv_def
  proof (intro conjI)
    show "has_statuses ids (expected_status (R - {i}) ?s) (rs_case ?s)"
      using I(5) iR nr by (auto elim!: has_statuses_cong simp: expected_status_def)
    show "rs_pending ?s = filter (\<lambda>i. i \<notin> rs_finished ?s) ids"
      using I(1) by (auto simp: I(3) filter_remove1 intro!: filter_cong)
    show "R - {i} \<subseteq> set (rs_pending ?s)"
      using I(1,4) by (auto simp: I(3) filter_remove1)
    show "keyed (\<lambda>x. rq_step_id (ex_request x)) (rs_records ?s)"
      using keyed_dput[OF I(9), of x] i by simp
    show "distinct (map tt_step_id (rs_traces ?s))" using I(10,11) nf tr by auto
    show "set (map tt_step_id (rs_traces ?s)) = rs_finished ?s" using I(11) tr by auto
    show "rs_blocking ?s = {i \<in> rs_finished ?s. is_required cx i
       \<and> (case dget (rs_records ?s) i of None \<Rightarrow> True | Some x \<Rightarrow> \<not> tr_ok (ex_result x))}"
      using nf by (auto simp: I(12))
    show "cr_status (rs_case ?s) = (if rs_records ?s = [] \<and> R - {i} = {} then Case_PLANNED else Case_RUNNING)"
      using I(13) iR rec by auto
    show "set (dkeys (rs_records ?s)) \<subseteq> rs_finished ?s" using I(8) by auto
    have "i \<notin> set (map tt_step_id (rs_traces s))" using nf I(11) by simp
    then show "deps_traced_first cx (set (dkeys (rs_records ?s))) {} (rs_traces ?s)"
      using I(14) deps unfolding I(11)[symmetric] by (simp add: dkeys_dput_set deps_traced_first_insert tr)
  qed (use I ids in simp_all)
  with r show ?thesis by auto
qed

lemma record_results_ok:
  assumes "run_inv cx ids R s" "R = set (map (\<lambda>x. rq_step_id (ex_request x)) xs)"
    "distinct (map (\<lambda>x. rq_step_id (ex_request x)) xs)"
    "\<And>x. x \<in> set xs \<Longrightarrow> tt_step_id (ex_trace x) = rq_step_id (ex_request x)"
    "\<And>x. x \<in> set xs \<Longrightarrow> set (deps_of cx (rq_step_id (ex_request x))) \<subseteq> rs_finished s"
  shows "\<exists>s'. record_results cx xs s = Inr s' \<and> run_inv cx ids {} s'
    \<and> rs_finished s' = rs_finished s \<union> R \<and> set (dkeys (rs_records s')) = set (dkeys (rs_records s)) \<union> R
    \<and> rs_blocking s \<subseteq> rs_blocking s' \<and> rs_blocking s' \<subseteq> rs_blocking s \<union> R
    \<and> rs_env s' = rs_env s \<and> rs_traces s' = rs_traces s @ map ex_trace xs"
  using assms
proof (induction xs arbitrary: s R)
  case (Cons x xs)
  let ?i = "rq_step_id (ex_request x)"
  obtain s1 where s1: "finish_step cx ?i (\<not> tr_ok (ex_result x))
      (s\<lparr>rs_records := dput ?i x (rs_records s), rs_traces := rs_traces s @ [ex_trace x]\<rparr>) = Inr s1"
    and inv1: "run_inv cx ids (R - {?i}) s1" and f1: "rs_finished s1 = insert ?i (rs_finished s)"
    and r1: "rs_records s1 = dput ?i x (rs_records s)" and e1: "rs_env s1 = rs_env s"
    and t1: "rs_traces s1 = rs_traces s @ [ex_trace x]"
    and b1: "rs_blocking s \<subseteq> rs_blocking s1" "rs_blocking s1 \<subseteq> insert ?i (rs_blocking s)"
    using record_result_ok[OF Cons.prems(1) _ refl, of x] Cons.prems by auto
  have R: "R - {?i} = set (map (\<lambda>x. rq_step_id (ex_request x)) xs)"
    using Cons.prems(2,3) by auto
  have deps1: "set (deps_of cx (rq_step_id (ex_request y))) \<subseteq> rs_finished s1" if "y \<in> set xs" for y
    using Cons.prems(5)[of y] that f1 by auto
  have d1: "distinct (map (\<lambda>x. rq_step_id (ex_request x)) xs)" using Cons.prems(3) by simp
  have tr1: "tt_step_id (ex_trace y) = rq_step_id (ex_request y)" if "y \<in> set xs" for y
    using Cons.prems(4)[of y] that by simp
  obtain s' where
    s': "record_results cx xs s1 = Inr s'" "run_inv cx ids {} s'"
      "rs_finished s' = rs_finished s1 \<union> (R - {?i})"
      "set (dkeys (rs_records s')) = set (dkeys (rs_records s1)) \<union> (R - {?i})"
      "rs_blocking s1 \<subseteq> rs_blocking s'" "rs_blocking s' \<subseteq> rs_blocking s1 \<union> (R - {?i})"
      "rs_env s' = rs_env s1" "rs_traces s' = rs_traces s1 @ map ex_trace xs"
    using Cons.IH[OF inv1 R d1 tr1 deps1] by blast
  have iR: "?i \<in> R" using Cons.prems(2) by simp
  show ?case
  proof (intro exI[of _ s'] conjI)
    show "record_results cx (x # xs) s = Inr s'" using s1 s'(1) by simp
    show "rs_finished s' = rs_finished s \<union> R" unfolding s'(3) f1 using iR by auto
    show "set (dkeys (rs_records s')) = set (dkeys (rs_records s)) \<union> R"
      unfolding s'(4) r1 dkeys_dput_set using iR by auto
    show "rs_blocking s \<subseteq> rs_blocking s'" using s'(5) b1 by blast
    show "rs_blocking s' \<subseteq> rs_blocking s \<union> R" using s'(6) b1 iR by blast
  next
    show "run_inv cx ids {} s'" by (rule s'(2))
    show "rs_env s' = rs_env s" using s'(7) e1 by simp
    show "rs_traces s' = rs_traces s @ map ex_trace (x # xs)" using s'(8) t1 by simp
  qed
qed auto

text \<open>The invoker answers, rather than raise, in every environment of \<open>E\<close>, and stays in \<open>E\<close>.\<close>

definition answers :: "('g \<Rightarrow> bool) \<Rightarrow> ('q \<Rightarrow> 'g \<Rightarrow> 'r res \<times> 'g) \<Rightarrow> bool" where
  "answers E invoke \<longleftrightarrow> (\<forall>q g. E g \<longrightarrow> (\<exists>r g'. invoke q g = (Inr r, g') \<and> E g'))"

definition answering :: "('g \<Rightarrow> bool) \<Rightarrow> 'g run_ctx \<Rightarrow> 'g run_state \<Rightarrow> bool" where
  "answering E cx s \<longleftrightarrow> answers E (rx_invoke cx) \<and> E (rs_env s)"

lemma execute_records_answers:
  "answers E invoke \<Longrightarrow> E g \<Longrightarrow> \<exists>xs g'. execute_records invoke m md qs g = (Inr xs, g') \<and> E g'"
proof (induction qs arbitrary: g)
  case (Cons q qs)
  obtain r g1 where 1: "invoke q g = (Inr r, g1)" "E g1" using Cons.prems unfolding answers_def by blast
  obtain xs g2 where "execute_records invoke m md qs g1 = (Inr xs, g2)" "E g2"
    using Cons.IH[OF Cons.prems(1) 1(2)] by blast
  with 1 show ?case by simp
qed simp

lemma run_ready_ok:
  assumes inv: "run_inv cx ids {} s" and ans: "answering E cx s"
    and sub: "set ready \<subseteq> set (rs_pending s)" and d: "distinct ready" and ne: "ready \<noteq> []"
    and deps: "\<And>i. i \<in> set ready \<Longrightarrow> set (deps_of cx i) \<subseteq> rs_finished s"
  shows "\<exists>s'. run_ready cx ready s = Inr s' \<and> run_inv cx ids {} s' \<and> answering E cx s'
    \<and> rs_finished s' = rs_finished s \<union> set ready
    \<and> set (dkeys (rs_records s')) = set (dkeys (rs_records s)) \<union> set ready
    \<and> rs_blocking s \<subseteq> rs_blocking s' \<and> rs_blocking s' \<subseteq> rs_blocking s \<union> set ready
    \<and> (\<exists>qs xs. execute_records (rx_invoke cx) (rx_max_chars cx) (metadata_of cx) qs (rs_env s) = (Inr xs, rs_env s')
         \<and> map rq_step_id qs = ready \<and> map rq_tool_name qs = map (tool_of cx) ready
         \<and> rs_traces s' = rs_traces s @ map ex_trace xs)"
proof -
  note I = run_invD[OF inv]
  have sub_ids: "set ready \<subseteq> set ids" and pend: "\<And>i. i \<in> set ready \<Longrightarrow> expected_status {} s i = Step_PENDING"
    using sub by (auto simp: run_inv_pending_iff[OF inv] expected_status_def)
  obtain c1 where c1: "start_steps ready (rs_case s) = Inr c1"
    "has_statuses ids (\<lambda>j. if j \<in> set ready then Step_RUNNING else expected_status {} s j) c1"
    "cr_status c1 = cr_status (rs_case s)"
    using start_steps_ok[OF I(5,1) sub_ids d pend] by blast
  obtain c2 where c2: "(if cr_status c1 = Case_PLANNED then transition_case_status Case_RUNNING c1 else Inr c1) = Inr c2"
    "cr_steps c2 = cr_steps c1" "cr_status c2 = Case_RUNNING"
    using c1(3) I(13) by (cases "cr_status c1 = Case_PLANNED")
      (auto simp: transition_case_status_def bind_res_Inr_iff split: if_splits)
  let ?s = "s\<lparr>rs_case := c2\<rparr>"
  have st: "has_statuses ids (expected_status (set ready) ?s) c2"
    using c1(2) c2(2) by (auto simp: has_statuses_def expected_status_def)
  have inv1: "run_inv cx ids (set ready) ?s"
    unfolding run_inv_def
  proof (intro conjI)
    show "cr_status (rs_case ?s) = (if rs_records ?s = [] \<and> set ready = {} then Case_PLANNED else Case_RUNNING)"
      using c2(3) ne by simp
    show "rs_blocking ?s = {i \<in> rs_finished ?s. is_required cx i
       \<and> (case dget (rs_records ?s) i of None \<Rightarrow> True | Some x \<Rightarrow> \<not> tr_ok (ex_result x))}"
      using I(12) by simp
  qed (use I st sub in simp_all)
  obtain qs s1 where p: "prepare_requests cx (completed_step_outputs (rs_records s)) ready ?s = Inr (qs, s1)"
    "run_inv cx ids (set ready) s1" "map rq_step_id qs = ready" "rs_records s1 = rs_records s"
    "rs_finished s1 = rs_finished s" "rs_blocking s1 = rs_blocking s"
    "map rq_tool_name qs = map (tool_of cx) ready" "rs_env s1 = rs_env s"
    using prepare_requests_ok[OF inv1 sub_ids, of "completed_step_outputs (rs_records s)"] by auto
  obtain xs g where x: "execute_records (rx_invoke cx) (rx_max_chars cx) (metadata_of cx) qs (rs_env s1) = (Inr xs, g)"
    and E: "E g"
    using execute_records_answers[of E "rx_invoke cx" "rs_env s1" "rx_max_chars cx" "metadata_of cx" qs]
      ans p(8) unfolding answering_def by auto
  have keys: "map (\<lambda>x. rq_step_id (ex_request x)) xs = ready"
    using arg_cong[OF execute_records_requests[OF x], of "map rq_step_id"] p(3) by (simp add: comp_def)
  let ?s1 = "s1\<lparr>rs_env := g\<rparr>"
  have inv2: "run_inv cx ids (set ready) ?s1"
    using p(2) by simp
  have "\<exists>s'. record_results cx xs ?s1 = Inr s' \<and> run_inv cx ids {} s'
    \<and> rs_finished s' = rs_finished ?s1 \<union> set ready
    \<and> set (dkeys (rs_records s')) = set (dkeys (rs_records ?s1)) \<union> set ready
    \<and> rs_blocking ?s1 \<subseteq> rs_blocking s' \<and> rs_blocking s' \<subseteq> rs_blocking ?s1 \<union> set ready
    \<and> rs_env s' = rs_env ?s1 \<and> rs_traces s' = rs_traces ?s1 @ map ex_trace xs"
  proof (rule record_results_ok[OF inv2])
    fix x assume "x \<in> set xs"
    then show "tt_step_id (ex_trace x) = rq_step_id (ex_request x)"
      using execute_records_trace[OF x] by blast
    have "rq_step_id (ex_request x) \<in> set ready" using \<open>x \<in> set xs\<close> keys by force
    then show "set (deps_of cx (rq_step_id (ex_request x))) \<subseteq> rs_finished ?s1" using deps p(5) by simp
  qed (use keys d in simp_all)
  then obtain s' where s': "record_results cx xs ?s1 = Inr s'" "run_inv cx ids {} s'"
    "rs_finished s' = rs_finished s \<union> set ready"
    "set (dkeys (rs_records s')) = set (dkeys (rs_records s)) \<union> set ready"
    "rs_blocking s \<subseteq> rs_blocking s'" "rs_blocking s' \<subseteq> rs_blocking s \<union> set ready"
    "rs_env s' = g" "rs_traces s' = rs_traces s @ map ex_trace xs"
    using p(4-6) prepare_requests_frame[OF p(1)] by auto
  have run: "run_ready cx ready s = Inr s'"
    using c1(1) c2(1) p(1) x s'(1) by (simp add: run_ready_def)
  have ex: "execute_records (rx_invoke cx) (rx_max_chars cx) (metadata_of cx) qs (rs_env s) = (Inr xs, rs_env s')"
    using x s'(7) p(8) by simp
  have an: "answering E cx s'" using ans E s'(7) by (simp add: answering_def)
  show ?thesis
    by (intro exI[of _ s'] conjI exI[of _ qs] exI[of _ xs]) (fact run ex an s' p)+
qed

section \<open>Waves and the whole loop\<close>

text \<open>No step depends on itself or on a later step of the list.\<close>

fun no_forward :: "'g run_ctx \<Rightarrow> string list \<Rightarrow> bool" where
  "no_forward cx [] = True"
| "no_forward cx (i # is) \<longleftrightarrow> set (deps_of cx i) \<inter> set (i # is) = {} \<and> no_forward cx is"

lemma no_forward_filter: "no_forward cx is \<Longrightarrow> no_forward cx (filter P is)"
  by (induction "is") auto

lemma skip_blocked_clears:
  assumes "run_inv cx ids {} s" "set is \<subseteq> set (rs_pending s)" "distinct is" "no_forward cx is"
    "skip_blocked cx is b0 s = Inr (b, s')"
  shows "\<forall>j \<in> set is - rs_finished s'. set (deps_of cx j) \<inter> rs_blocking s' = {}"
  using assms
proof (induction "is" arbitrary: s b0)
  case (Cons i "is")
  show ?case
  proof (cases "blocked_dependencies cx s i = []")
    case True
    have 1: "skip_blocked cx is b0 s = Inr (b, s')" using True Cons.prems(5) by simp
    have IH: "\<forall>j \<in> set is - rs_finished s'. set (deps_of cx j) \<inter> rs_blocking s' = {}"
      using Cons.IH[OF Cons.prems(1) _ _ _ 1] Cons.prems(2-4) by simp
    have "rs_blocking s' \<subseteq> rs_blocking s \<union> set is"
      using skip_blocked_ok[OF Cons.prems(1), of "is" b0] Cons.prems(2,3) 1 by auto
    moreover have "set (deps_of cx i) \<inter> rs_blocking s = {}"
      using True by (auto simp: blocked_dependencies_def filter_empty_conv)
    ultimately have "set (deps_of cx i) \<inter> rs_blocking s' = {}" using Cons.prems(4) by auto
    with IH show ?thesis by auto
  next
    case False
    have i: "i \<in> set (rs_pending s)" using Cons.prems by simp
    obtain s1 where s1: "skip_step cx ''DEPENDENCY_FAILED''
          (dependency_failed_message (blocked_dependencies cx s i)) i s = Inr s1"
      and inv1: "run_inv cx ids {} s1" and f1: "rs_finished s1 = insert i (rs_finished s)"
      using skip_step_ok[OF Cons.prems(1) i] by blast
    have 1: "skip_blocked cx is True s1 = Inr (b, s')" using False s1 Cons.prems(5) by simp
    have sub: "set is \<subseteq> set (rs_pending s1)" "distinct is"
      using Cons.prems by (auto simp: run_inv_pending_iff[OF inv1] run_inv_pending_iff[OF Cons.prems(1)] f1)
    have "rs_finished s1 \<subseteq> rs_finished s'"
      using skip_blocked_ok[OF inv1 sub, of True] 1 by auto
    then have "i \<in> rs_finished s'" using f1 by auto
    with Cons.IH[OF inv1 sub _ 1] Cons.prems(4) show ?thesis by auto
  qed
qed simp

text \<open>What a wave does, from a state that satisfies the invariant.\<close>

definition after_skips :: "'g run_ctx \<Rightarrow> string list \<Rightarrow> 'g run_state \<Rightarrow> 'g run_state \<Rightarrow> bool" where
  "after_skips cx ids s s1 \<longleftrightarrow> run_inv cx ids {} s1 \<and> rs_records s1 = rs_records s
     \<and> rs_env s1 = rs_env s \<and> (\<exists>ts. rs_traces s1 = rs_traces s @ ts)
     \<and> rs_finished s \<subseteq> rs_finished s1 \<and> rs_blocking s \<subseteq> rs_blocking s1
     \<and> rs_blocking s1 \<subseteq> rs_blocking s \<union> set (rs_pending s)
     \<and> (\<forall>j \<in> rs_finished s1 - rs_finished s. set (deps_of cx j) \<inter> rs_blocking s1 \<noteq> {})
     \<and> (no_forward cx ids \<longrightarrow> (\<forall>j \<in> set ids - rs_finished s1. set (deps_of cx j) \<inter> rs_blocking s1 = {}))"

definition after_run :: "'g run_ctx \<Rightarrow> string list \<Rightarrow> 'g run_state \<Rightarrow> 'g run_state \<Rightarrow> bool" where
  "after_run cx ids s1 s' \<longleftrightarrow> run_inv cx ids {} s'
     \<and> rs_finished s' = rs_finished s1 \<union> set (ready_steps cx s1)
     \<and> set (dkeys (rs_records s')) = set (dkeys (rs_records s1)) \<union> set (ready_steps cx s1)
     \<and> rs_blocking s1 \<subseteq> rs_blocking s' \<and> rs_blocking s' \<subseteq> rs_blocking s1 \<union> set (ready_steps cx s1)
     \<and> (\<exists>qs xs. execute_records (rx_invoke cx) (rx_max_chars cx) (metadata_of cx) qs (rs_env s1) = (Inr xs, rs_env s')
          \<and> map rq_step_id qs = ready_steps cx s1 \<and> map rq_tool_name qs = map (tool_of cx) (ready_steps cx s1)
          \<and> rs_traces s' = rs_traces s1 @ map ex_trace xs)"

definition after_cycle :: "'g run_ctx \<Rightarrow> string list \<Rightarrow> 'g run_state \<Rightarrow> 'g run_state \<Rightarrow> bool" where
  "after_cycle cx ids s1 s' \<longleftrightarrow> run_inv cx ids {} s' \<and> rs_records s' = rs_records s1
     \<and> rs_env s' = rs_env s1 \<and> (\<exists>ts. rs_traces s' = rs_traces s1 @ ts)
     \<and> rs_finished s' = rs_finished s1 \<union> set (rs_pending s1)
     \<and> rs_blocking s1 \<subseteq> rs_blocking s' \<and> rs_blocking s' \<subseteq> rs_blocking s1 \<union> set (rs_pending s1)"

lemma distinct_pending: "run_inv cx ids R s \<Longrightarrow> distinct (rs_pending s)"
  by (simp add: run_invD(1,3))

lemma wave_outcome:
  assumes inv: "run_inv cx ids {} s" and ans: "answering E cx s"
  shows "\<exists>b s1 s'. after_skips cx ids s s1 \<and> wave cx s = Inr s' \<and> answering E cx s'
    \<and> (b \<longleftrightarrow> rs_finished s1 \<noteq> rs_finished s)
    \<and> (if ready_steps cx s1 \<noteq> [] then after_run cx ids s1 s'
       else if b then s' = s1 else after_cycle cx ids s1 s')"
proof -
  note d = distinct_pending[OF inv]
  obtain b s1 where sb: "skip_blocked cx (rs_pending s) False s = Inr (b, s1)"
    and s1: "run_inv cx ids {} s1" "rs_records s1 = rs_records s"
      "rs_finished s \<subseteq> rs_finished s1" "rs_blocking s \<subseteq> rs_blocking s1"
      "rs_blocking s1 \<subseteq> rs_blocking s \<union> set (rs_pending s)" "b \<longleftrightarrow> rs_finished s1 \<noteq> rs_finished s"
      "\<forall>j \<in> rs_finished s1 - rs_finished s. set (deps_of cx j) \<inter> rs_blocking s1 \<noteq> {}"
      "rs_env s1 = rs_env s" "\<exists>ts. rs_traces s1 = rs_traces s @ ts"
    using skip_blocked_ok[OF inv subset_refl d, of False] by auto
  have "\<forall>j \<in> set ids - rs_finished s1. set (deps_of cx j) \<inter> rs_blocking s1 = {}" if nf: "no_forward cx ids"
  proof -
    have "no_forward cx (rs_pending s)" using nf by (simp add: run_invD(3)[OF inv] no_forward_filter)
    from skip_blocked_clears[OF inv subset_refl d this sb] s1(3) show ?thesis
      by (auto simp: run_invD(3)[OF inv])
  qed
  then have a: "after_skips cx ids s s1" using s1 by (simp add: after_skips_def)
  show ?thesis
  proof (cases "ready_steps cx s1 = []")
    case False
    have sub: "set (ready_steps cx s1) \<subseteq> set (rs_pending s1)" and dr: "distinct (ready_steps cx s1)"
      and deps: "set (deps_of cx i) \<subseteq> rs_finished s1" if "i \<in> set (ready_steps cx s1)" for i
      using that distinct_pending[OF s1(1)] by (auto simp: ready_steps_def)
    obtain i0 where i0: "i0 \<in> set (ready_steps cx s1)" using False by (cases "ready_steps cx s1") auto
    have "answering E cx s1" using ans s1(8) by (simp add: answering_def)
    from run_ready_ok[OF s1(1) this sub[OF i0] dr[OF i0] False deps]
    obtain s' where "run_ready cx (ready_steps cx s1) s1 = Inr s'" "after_run cx ids s1 s'" "answering E cx s'"
      unfolding after_run_def by blast
    then show ?thesis using a sb s1(6) False by (auto simp: wave_def)
  next
    case True
    obtain s2 where "skip_cycle cx (rs_pending s1) s1 = Inr s2" "after_cycle cx ids s1 s2"
      using skip_cycle_ok[OF s1(1) subset_refl distinct_pending[OF s1(1)]] unfolding after_cycle_def by blast
    moreover have "answering E cx s1" "answering E cx s2"
      using ans s1(8) calculation(2) by (auto simp: answering_def after_cycle_def)
    ultimately show ?thesis using a sb s1(6) True by (cases b) (auto simp: wave_def)
  qed
qed

lemma wave_ok:
  assumes "run_inv cx ids {} s" "answering E cx s"
  shows "\<exists>s'. wave cx s = Inr s' \<and> run_inv cx ids {} s' \<and> answering E cx s'"
  using wave_outcome[OF assms]
  by (auto simp: after_run_def after_cycle_def after_skips_def split: if_splits)

text \<open>
  Executed steps have no blocked dependency, when no step depends on a later one; and a step is
  skipped only for a blocked dependency, when the dependencies have a rank (are acyclic).
\<close>

definition runs_unblocked :: "'g run_ctx \<Rightarrow> 'g run_state \<Rightarrow> bool" where
  "runs_unblocked cx s \<longleftrightarrow>
     (\<forall>i \<in> set (dkeys (rs_records s)). set (deps_of cx i) \<inter> rs_blocking s = {})"

definition skips_caused :: "'g run_ctx \<Rightarrow> 'g run_state \<Rightarrow> bool" where
  "skips_caused cx s \<longleftrightarrow>
     (\<forall>i \<in> rs_finished s - set (dkeys (rs_records s)). set (deps_of cx i) \<inter> rs_blocking s \<noteq> {})"

definition ranked :: "'g run_ctx \<Rightarrow> string list \<Rightarrow> (string \<Rightarrow> nat) \<Rightarrow> bool" where
  "ranked cx ids r \<longleftrightarrow> (\<forall>i \<in> set ids. \<forall>d \<in> set (deps_of cx i). d \<in> set ids \<and> r d < r i)"

lemma wave_runs_unblocked:
  assumes inv: "run_inv cx ids {} s" and ans: "answering E cx s" and nf: "no_forward cx ids"
    and ru: "runs_unblocked cx s" and w: "wave cx s = Inr s'"
  shows "runs_unblocked cx s'"
proof -
  obtain b s1 where a: "after_skips cx ids s s1"
    and rest: "if ready_steps cx s1 \<noteq> [] then after_run cx ids s1 s'
       else if b then s' = s1 else after_cycle cx ids s1 s'"
    using wave_outcome[OF inv ans] w by auto
  have s1: "run_inv cx ids {} s1" "rs_records s1 = rs_records s" "rs_blocking s1 \<subseteq> rs_blocking s \<union> set (rs_pending s)"
    "\<forall>j \<in> set ids - rs_finished s1. set (deps_of cx j) \<inter> rs_blocking s1 = {}"
    using a nf by (simp_all add: after_skips_def)
  have ru1: "runs_unblocked cx s1"
    unfolding runs_unblocked_def
  proof
    fix i assume i: "i \<in> set (dkeys (rs_records s1))"
    then have "set (deps_of cx i) \<subseteq> rs_finished s" "set (deps_of cx i) \<inter> rs_blocking s = {}"
      using executed_deps_finished[OF inv] ru s1(2) unfolding runs_unblocked_def by auto
    then show "set (deps_of cx i) \<inter> rs_blocking s1 = {}"
      using s1(3) run_inv_pending_iff[OF inv] by blast
  qed
  have grow: "runs_unblocked cx s'"
    if b: "rs_blocking s' \<subseteq> rs_blocking s1 \<union> P" and P: "P \<subseteq> set (rs_pending s1)"
      and k: "\<And>i. i \<in> set (dkeys (rs_records s')) \<Longrightarrow> i \<in> set (dkeys (rs_records s1)) \<or>
          (i \<in> set ids - rs_finished s1 \<and> set (deps_of cx i) \<subseteq> rs_finished s1)" for P
    unfolding runs_unblocked_def
  proof
    fix i assume "i \<in> set (dkeys (rs_records s'))"
    then have "set (deps_of cx i) \<subseteq> rs_finished s1 \<and> set (deps_of cx i) \<inter> rs_blocking s1 = {}"
      using k[of i] executed_deps_finished[OF s1(1)] ru1 s1(4) unfolding runs_unblocked_def by blast
    then show "set (deps_of cx i) \<inter> rs_blocking s' = {}"
      using b P run_inv_pending_iff[OF s1(1)] by blast
  qed
  show ?thesis
  proof (cases "ready_steps cx s1 = []")
    case False
    with rest have ar: "after_run cx ids s1 s'" by simp
    have "set (ready_steps cx s1) \<subseteq> {i \<in> set ids - rs_finished s1. set (deps_of cx i) \<subseteq> rs_finished s1}"
      using run_inv_pending_iff[OF s1(1)] by (auto simp: ready_steps_def)
    with ar show ?thesis
      using run_inv_pending_iff[OF s1(1)]
      by (intro grow[of "set (ready_steps cx s1)"]) (unfold after_run_def, blast+)
  next
    case True
    with rest ru1 show ?thesis by (cases b) (auto simp: after_cycle_def intro!: grow[of "set (rs_pending s1)"])
  qed
qed

lemma ranked_ready:
  assumes inv: "run_inv cx ids {} s" and r: "ranked cx ids r" and ne: "rs_pending s \<noteq> []"
  shows "ready_steps cx s \<noteq> []"
proof -
  obtain i where i: "i \<in> set (rs_pending s)" and least: "\<forall>j \<in> set (rs_pending s). r i \<le> r j"
    using ne by (metis arg_min_least finite_set list.set_sel(1) set_empty arg_min_if_finite(1))
  have "set (deps_of cx i) \<subseteq> rs_finished s"
  proof
    fix d assume "d \<in> set (deps_of cx i)"
    then have "d \<in> set ids" "r d < r i" using r i run_inv_pending_iff[OF inv] by (auto simp: ranked_def)
    then show "d \<in> rs_finished s" using least run_inv_pending_iff[OF inv, of d] by auto
  qed
  then show ?thesis using i by (auto simp: ready_steps_def filter_empty_conv)
qed

lemma wave_skips_caused:
  assumes inv: "run_inv cx ids {} s" and ans: "answering E cx s" and r: "ranked cx ids r"
    and sc: "skips_caused cx s" and w: "wave cx s = Inr s'"
  shows "skips_caused cx s'"
proof -
  obtain b s1 where a: "after_skips cx ids s s1"
    and rest: "if ready_steps cx s1 \<noteq> [] then after_run cx ids s1 s'
       else if b then s' = s1 else after_cycle cx ids s1 s'"
    using wave_outcome[OF inv ans] w by auto
  have s1: "run_inv cx ids {} s1" "rs_records s1 = rs_records s" "rs_blocking s \<subseteq> rs_blocking s1"
    "\<forall>j \<in> rs_finished s1 - rs_finished s. set (deps_of cx j) \<inter> rs_blocking s1 \<noteq> {}"
    using a by (simp_all add: after_skips_def)
  have sc1: "skips_caused cx s1"
    using sc s1(2-4) unfolding skips_caused_def by (metis (no_types, lifting) Diff_iff Int_emptyI disjoint_iff subsetD)
  show ?thesis
  proof (cases "ready_steps cx s1 = []")
    case False
    with rest have ar: "after_run cx ids s1 s'" by simp
    then have "rs_finished s' - set (dkeys (rs_records s')) \<subseteq> rs_finished s1 - set (dkeys (rs_records s1))"
      "rs_blocking s1 \<subseteq> rs_blocking s'" unfolding after_run_def by blast+
    with sc1 show ?thesis unfolding skips_caused_def by blast
  next
    case True
    then have "rs_pending s1 = []" using ranked_ready[OF s1(1) r] by blast
    with rest True have f: "rs_finished s' = rs_finished s1" "rs_records s' = rs_records s1"
      and "rs_blocking s1 \<subseteq> rs_blocking s'" by (auto simp: after_cycle_def split: if_splits)
    with sc1 show ?thesis unfolding skips_caused_def f by blast
  qed
qed

lemma run_waves_ok:
  assumes "run_inv cx ids {} s" "answering E cx s"
  shows "\<exists>s'. run_waves cx s = Inr s' \<and> run_inv cx ids {} s' \<and> rs_pending s' = [] \<and> answering E cx s'
    \<and> (no_forward cx ids \<and> runs_unblocked cx s \<longrightarrow> runs_unblocked cx s')
    \<and> ((\<exists>r. ranked cx ids r) \<and> skips_caused cx s \<longrightarrow> skips_caused cx s')"
  using assms
proof (induction cx s rule: run_waves.induct)
  case (1 cx s)
  show ?case
  proof (cases "rs_pending s = []")
    case True
    then show ?thesis using 1 by (simp add: run_waves.simps)
  next
    case False
    obtain s1 where s1: "wave cx s = Inr s1" and inv1: "run_inv cx ids {} s1" and an: "answering E cx s1"
      using wave_ok[OF 1(2,3)] by blast
    obtain s' where s': "run_waves cx s1 = Inr s'" "run_inv cx ids {} s'" "rs_pending s' = []" "answering E cx s'"
      "no_forward cx ids \<and> runs_unblocked cx s1 \<longrightarrow> runs_unblocked cx s'"
      "(\<exists>r. ranked cx ids r) \<and> skips_caused cx s1 \<longrightarrow> skips_caused cx s'"
      using 1(1)[OF False s1 inv1 an] by blast
    have "run_waves cx s = Inr s'" using False s1 s'(1) by (simp add: run_waves.simps)
    then show ?thesis
      using s' wave_runs_unblocked[OF 1(2,3) _ _ s1] wave_skips_caused[OF 1(2,3) _ _ s1] by blast
  qed
qed

text \<open>At the end every step is finished.\<close>

lemma all_finished: "run_inv cx ids {} s \<Longrightarrow> rs_pending s = [] \<Longrightarrow> rs_finished s = set ids"
  using run_inv_pending_iff[of cx ids "{}" s] run_invD(2)[of cx ids "{}" s] by auto

text \<open>A failure that has a cause and a rank has a first cause: a required step whose tool failed.\<close>

lemma first_failure:
  assumes inv: "run_inv cx ids {} s" and r: "ranked cx ids r" and sc: "skips_caused cx s"
    and i: "i \<in> rs_finished s" "i \<notin> set (dkeys (rs_records s))"
  shows "\<exists>j x. is_required cx j \<and> dget (rs_records s) j = Some x \<and> \<not> tr_ok (ex_result x)"
  using i
proof (induction "r i" arbitrary: i rule: less_induct)
  case less
  note I = run_invD[OF inv]
  obtain d where d: "d \<in> set (deps_of cx i)" "d \<in> rs_blocking s"
    using sc less.prems unfolding skips_caused_def by blast
  have rd: "r d < r i" using r less.prems(1) I(2) d(1) unfolding ranked_def by blast
  have fd: "d \<in> rs_finished s" and qd: "is_required cx d"
    and kd: "case dget (rs_records s) d of None \<Rightarrow> True | Some x \<Rightarrow> \<not> tr_ok (ex_result x)"
    using d(2) unfolding I(12) by auto
  show ?case
  proof (cases "dget (rs_records s) d")
    case None
    then have "d \<notin> set (dkeys (rs_records s))" by (simp only: dget_None_keys simp_thms)
    with less.hyps[OF rd fd] show ?thesis by blast
  next
    case (Some x)
    with qd kd show ?thesis by auto
  qed
qed

end
