(* ===== verification/ResultSanitize.thy ===== *)
theory ResultSanitize
  imports Prelude
begin

text \<open>
  Trimming of tool results before they are stored (\<open>skill_runtime/result_sanitize.py\<close>): step
  outputs keep up to 50 hits, 100 items of the other lists and 100000 characters of text;
  evidence keeps a smaller preview. Trimmed lists keep their length beside them.
\<close>

section \<open>Definitions\<close>

record trim_limits =
  tl_code_hits :: nat
  tl_list_items :: nat
  tl_text_chars :: nat

definition list_keys :: "string list" where
  "list_keys = [''hits'', ''records'', ''spans'', ''repos'', ''sources'', ''indexes'', ''items'', ''results'']"

fun is_py_int :: "pyval \<Rightarrow> bool" where
  "is_py_int (PInt _) = True"
| "is_py_int (PBool _) = True"
| "is_py_int _ = False"

definition sanitize_hits :: "trim_limits \<Rightarrow> pydict \<Rightarrow> pydict" where
  "sanitize_hits l d =
     (case py_get d ''hits'' of
        PList hits \<Rightarrow>
          (let total = (if is_py_int (py_get d ''total'') then py_get d ''total'' else PInt (int (length hits)));
               d1 = (if length hits > tl_code_hits l then
                       dput ''truncated_from'' total
                         (dput ''truncated'' (PBool True)
                           (dput ''hits'' (PList (take (tl_code_hits l) hits)) d))
                     else d)
           in dput ''total'' total d1)
      | _ \<Rightarrow> d)"

definition sanitize_list :: "trim_limits \<Rightarrow> string \<Rightarrow> pydict \<Rightarrow> pydict" where
  "sanitize_list l key d =
     (case py_get d key of
        PList xs \<Rightarrow>
          (if length xs > tl_list_items l then
             dput (key @ ''_total'') (PInt (int (length xs)))
               (dput (key @ ''_truncated'') (PBool True)
                 (dput key (PList (take (tl_list_items l) xs)) d))
           else d)
      | _ \<Rightarrow> d)"

definition sanitize_text :: "trim_limits \<Rightarrow> pydict \<Rightarrow> pydict" where
  "sanitize_text l d =
     (case py_get d ''content'' of
        PStr s \<Rightarrow>
          (if length s > tl_text_chars l then
             dput ''content_total_chars'' (PInt (int (length s)))
               (dput ''content_truncated'' (PBool True)
                 (dput ''content'' (PStr (take (tl_text_chars l) s)) d))
           else d)
      | _ \<Rightarrow> d)"

definition sanitize :: "trim_limits \<Rightarrow> pydict \<Rightarrow> pydict" where
  "sanitize l d =
     sanitize_text l
       (fold (sanitize_list l) (filter (\<lambda>k. k \<noteq> ''hits'') list_keys) (sanitize_hits l d))"

definition persistence_limits :: trim_limits where
  "persistence_limits = \<lparr>tl_code_hits = 50, tl_list_items = 100, tl_text_chars = 100000\<rparr>"

definition evidence_limits :: "string \<Rightarrow> trim_limits" where
  "evidence_limits action =
     \<lparr>tl_code_hits = (if starts_with action ''code.'' then 20 else 50), tl_list_items = 50,
      tl_text_chars = 32000\<rparr>"

definition sanitize_tool_result_for_persistence :: "pydict \<Rightarrow> pydict" where
  "sanitize_tool_result_for_persistence d = sanitize persistence_limits d"

definition sanitize_tool_result_for_evidence :: "string \<Rightarrow> pydict \<Rightarrow> pydict" where
  "sanitize_tool_result_for_evidence action d = sanitize (evidence_limits action) d"

section \<open>What is kept\<close>

text \<open>A value within the limits of its key.\<close>

definition in_limits :: "trim_limits \<Rightarrow> pydict \<Rightarrow> bool" where
  "in_limits l d \<longleftrightarrow>
     (case py_get d ''hits'' of PList xs \<Rightarrow> length xs \<le> tl_code_hits l \<and> is_py_int (py_get d ''total'') | _ \<Rightarrow> True)
   \<and> (\<forall>k \<in> set list_keys - {''hits''}.
        (case py_get d k of PList xs \<Rightarrow> length xs \<le> tl_list_items l | _ \<Rightarrow> True))
   \<and> (case py_get d ''content'' of PStr s \<Rightarrow> length s \<le> tl_text_chars l | _ \<Rightarrow> True)"

lemma py_get_dput [simp]: "py_get (dput k v d) j = (if j = k then v else py_get d j)"
  by (simp add: py_get_or_def)

lemma sanitize_list_other:
  "j \<noteq> k \<Longrightarrow> j \<noteq> k @ ''_total'' \<Longrightarrow> j \<noteq> k @ ''_truncated'' \<Longrightarrow> py_get (sanitize_list l k d) j = py_get d j"
  by (auto simp: sanitize_list_def split: pyval.splits)

lemma sanitize_list_self: "py_get (sanitize_list l k d) k =
   (case py_get d k of PList xs \<Rightarrow> PList (take (tl_list_items l) xs) | v \<Rightarrow> v)"
  by (auto simp: sanitize_list_def split: pyval.splits)

lemma sanitize_text_other:
  "j \<notin> {''content'', ''content_total_chars'', ''content_truncated''} \<Longrightarrow> py_get (sanitize_text l d) j = py_get d j"
  by (auto simp: sanitize_text_def split: pyval.splits)

lemma sanitize_text_self: "py_get (sanitize_text l d) ''content'' =
   (case py_get d ''content'' of PStr s \<Rightarrow> PStr (take (tl_text_chars l) s) | v \<Rightarrow> v)"
  by (auto simp: sanitize_text_def split: pyval.splits)

lemma sanitize_hits_other:
  "j \<notin> {''hits'', ''total'', ''truncated'', ''truncated_from''} \<Longrightarrow> py_get (sanitize_hits l d) j = py_get d j"
  by (auto simp: sanitize_hits_def Let_def split: pyval.splits)

lemma sanitize_hits_self:
  "py_get (sanitize_hits l d) ''hits'' =
     (case py_get d ''hits'' of PList xs \<Rightarrow> PList (take (tl_code_hits l) xs) | v \<Rightarrow> v)"
  "py_get d ''hits'' = PList xs \<Longrightarrow> py_get (sanitize_hits l d) ''total'' =
     (if is_py_int (py_get d ''total'') then py_get d ''total'' else PInt (int (length xs)))"
  by (auto simp: sanitize_hits_def Let_def split: pyval.splits)

definition other_list_keys :: "string list" where
  "other_list_keys = [''records'', ''spans'', ''repos'', ''sources'', ''indexes'', ''items'', ''results'']"

lemma filter_list_keys [simp]: "filter (\<lambda>k. k \<noteq> ''hits'') list_keys = other_list_keys"
  by (simp add: list_keys_def other_list_keys_def)

lemma fold_sanitize_list_other:
  "j \<notin> set ks \<Longrightarrow> (\<And>k. k \<in> set ks \<Longrightarrow> j \<noteq> k @ ''_total'' \<and> j \<noteq> k @ ''_truncated'') \<Longrightarrow>
   py_get (fold (sanitize_list l) ks d) j = py_get d j"
  by (induction ks arbitrary: d) (auto simp: sanitize_list_other)

lemma fold_sanitize_list_self:
  "k \<in> set ks \<Longrightarrow> distinct ks \<Longrightarrow>
   (\<And>k'. k' \<in> set ks \<Longrightarrow> k \<noteq> k' @ ''_total'' \<and> k \<noteq> k' @ ''_truncated'') \<Longrightarrow>
   py_get (fold (sanitize_list l) ks d) k =
     (case py_get d k of PList xs \<Rightarrow> PList (take (tl_list_items l) xs) | v \<Rightarrow> v)"
proof (induction ks arbitrary: d)
  case (Cons k' ks)
  show ?case
  proof (cases "k = k'")
    case True
    with Cons.prems have "py_get (fold (sanitize_list l) ks (sanitize_list l k d)) k
        = py_get (sanitize_list l k d) k" by (intro fold_sanitize_list_other) auto
    with True show ?thesis by (simp add: sanitize_list_self)
  next
    case False
    with Cons.prems have "py_get (sanitize_list l k' d) k = py_get d k"
      by (auto intro: sanitize_list_other)
    with Cons False show ?thesis by auto
  qed
qed simp

lemma sanitize_get_list:
  assumes "k \<in> set other_list_keys"
  shows "py_get (sanitize l d) k =
     (case py_get d k of PList xs \<Rightarrow> PList (take (tl_list_items l) xs) | v \<Rightarrow> v)"
proof -
  have "k \<notin> {''content'', ''content_total_chars'', ''content_truncated''}"
    "k \<notin> {''hits'', ''total'', ''truncated'', ''truncated_from''}"
    "\<And>k'. k' \<in> set other_list_keys \<Longrightarrow> k \<noteq> k' @ ''_total'' \<and> k \<noteq> k' @ ''_truncated''"
    using assms by (auto simp: other_list_keys_def)
  moreover have "distinct other_list_keys" by (simp add: other_list_keys_def)
  ultimately show ?thesis
    using assms by (simp add: sanitize_def sanitize_text_other fold_sanitize_list_self sanitize_hits_other)
qed

lemma sanitize_get_other:
  assumes "k \<in> {''hits'', ''total'', ''truncated'', ''truncated_from''}"
  shows "py_get (sanitize l d) k = py_get (sanitize_hits l d) k"
proof -
  have "k \<notin> {''content'', ''content_total_chars'', ''content_truncated''}" "k \<notin> set other_list_keys"
    "\<And>k'. k' \<in> set other_list_keys \<Longrightarrow> k \<noteq> k' @ ''_total'' \<and> k \<noteq> k' @ ''_truncated''"
    using assms by (auto simp: other_list_keys_def)
  then show ?thesis by (simp add: sanitize_def sanitize_text_other fold_sanitize_list_other)
qed

lemma sanitize_get_content:
  "py_get (sanitize l d) ''content'' =
   (case py_get d ''content'' of PStr s \<Rightarrow> PStr (take (tl_text_chars l) s) | v \<Rightarrow> v)"
proof -
  have "py_get (fold (sanitize_list l) other_list_keys (sanitize_hits l d)) ''content'' = py_get d ''content''"
    by (subst fold_sanitize_list_other) (auto simp: other_list_keys_def sanitize_hits_other)
  then show ?thesis by (simp add: sanitize_def sanitize_text_self)
qed

lemma in_limits_sanitize: "in_limits l (sanitize l d)"
proof -
  have hits: "case py_get (sanitize l d) ''hits'' of
      PList xs \<Rightarrow> length xs \<le> tl_code_hits l \<and> is_py_int (py_get (sanitize l d) ''total'') | _ \<Rightarrow> True"
    by (cases "py_get d ''hits''") (auto simp: sanitize_get_other sanitize_hits_self)
  have "case py_get (sanitize l d) k of PList xs \<Rightarrow> length xs \<le> tl_list_items l | _ \<Rightarrow> True"
    if "k \<in> set list_keys - {''hits''}" for k
  proof -
    from that have "k \<in> set other_list_keys" by (auto simp: list_keys_def other_list_keys_def)
    then show ?thesis by (cases "py_get d k") (simp_all add: sanitize_get_list)
  qed
  moreover have "case py_get (sanitize l d) ''content'' of PStr s \<Rightarrow> length s \<le> tl_text_chars l | _ \<Rightarrow> True"
    by (cases "py_get d ''content''") (simp_all add: sanitize_get_content)
  ultimately show ?thesis using hits by (simp add: in_limits_def)
qed

lemma dput_id: "py_get d k = v \<Longrightarrow> v \<noteq> PNone \<Longrightarrow> dput k v d = d"
  by (induction d) (auto simp: py_get_or_def)

lemma sanitize_hits_id: "in_limits l d \<Longrightarrow> sanitize_hits l d = d"
  by (cases "py_get d ''hits''"; cases "py_get d ''total''")
    (auto simp: in_limits_def sanitize_hits_def Let_def intro!: dput_id)

lemma sanitize_id:
  assumes "in_limits l d"
  shows "sanitize l d = d"
proof -
  have "fold (sanitize_list l) ks d = d" if "set ks \<subseteq> set list_keys - {''hits''}" for ks
    using that
  proof (induction ks)
    case (Cons k ks)
    then have "k \<in> set list_keys - {''hits''}" by simp
    with assms have "case py_get d k of PList xs \<Rightarrow> length xs \<le> tl_list_items l | _ \<Rightarrow> True"
      unfolding in_limits_def by blast
    then have "sanitize_list l k d = d"
      by (cases "py_get d k") (simp_all add: sanitize_list_def)
    with Cons show ?case by simp
  qed simp
  moreover have "set other_list_keys \<subseteq> set list_keys - {''hits''}"
    by (simp add: other_list_keys_def list_keys_def)
  ultimately have "fold (sanitize_list l) other_list_keys d = d" by blast
  moreover have "sanitize_text l d = d"
    using assms by (cases "py_get d ''content''") (auto simp: in_limits_def sanitize_text_def)
  ultimately show ?thesis using sanitize_hits_id[OF assms] by (simp add: sanitize_def)
qed

text \<open>
  C28: Trimming bounds every list and text it looks at, keeps a prefix of each trimmed list of the
  input, and is the identity on a result within the limits,
  so that trimming twice is trimming once.
\<close>
theorem sanitize_bounds_and_idempotent:
  "in_limits l (sanitize l d) \<and> sanitize l (sanitize l d) = sanitize l d
   \<and> (\<forall>xs. py_get d ''hits'' = PList xs \<longrightarrow> py_get (sanitize l d) ''hits'' = PList (take (tl_code_hits l) xs))
   \<and> (\<forall>k \<in> set list_keys - {''hits''}. \<forall>xs. py_get d k = PList xs \<longrightarrow>
        py_get (sanitize l d) k = PList (take (tl_list_items l) xs))"
proof (intro conjI ballI allI impI)
  show "sanitize l (sanitize l d) = sanitize l d" by (rule sanitize_id) (rule in_limits_sanitize)
  fix k xs assume "k \<in> set list_keys - {''hits''}" and v: "py_get d k = PList xs"
  then have "k \<in> set other_list_keys" by (auto simp: list_keys_def other_list_keys_def)
  with v show "py_get (sanitize l d) k = PList (take (tl_list_items l) xs)" by (simp add: sanitize_get_list)
qed (simp_all add: in_limits_sanitize sanitize_get_other sanitize_hits_self)

theorem sanitize_bounds_and_idempotent_witness:
  "sanitize \<lparr>tl_code_hits = 1, tl_list_items = 1, tl_text_chars = 2\<rparr>
     [(''hits'', PList [PInt 1, PInt 2]), (''spans'', PList [PInt 3, PInt 4])]
   = sanitize \<lparr>tl_code_hits = 1, tl_list_items = 1, tl_text_chars = 2\<rparr>
      (sanitize \<lparr>tl_code_hits = 1, tl_list_items = 1, tl_text_chars = 2\<rparr>
        [(''hits'', PList [PInt 1, PInt 2]), (''spans'', PList [PInt 3, PInt 4])])
   \<and> py_get (sanitize \<lparr>tl_code_hits = 1, tl_list_items = 1, tl_text_chars = 2\<rparr>
        [(''hits'', PList [PInt 1, PInt 2]), (''spans'', PList [PInt 3, PInt 4])]) ''spans'' = PList [PInt 3]"
proof -
  let ?l = "\<lparr>tl_code_hits = 1, tl_list_items = 1, tl_text_chars = 2\<rparr>"
  let ?d = "[(''hits'', PList [PInt 1, PInt 2]), (''spans'', PList [PInt 3, PInt 4])]"
  note t = sanitize_bounds_and_idempotent[of ?l ?d]
  have "py_get (sanitize ?l ?d) ''spans'' = PList (take (tl_list_items ?l) [PInt 3, PInt 4])"
    using t by (auto simp: list_keys_def py_get_or_def)
  with t show ?thesis by simp
qed

end
