(* ===== verification/AttemptRunner.thy ===== *)
theory AttemptRunner
  imports WaveFacts ResultSanitize Stores
begin

text \<open>
  One attempt of the agent (\<open>agent_runtime/attempt_runner.py\<close>): the case made from the tool
  plan, the state in which the wave loop starts, the settling of the steps and of the case after
  it, the stored case, evidence and report, and the attempts that fail before a plan runs.

  Arguments of the model: the report builder (\<open>analysis\<close>, \<open>notify_variables\<close>) and the evidence
  summary, whose texts are Chinese, are functions of the attempt's context; new ids and the clock
  are inputs.
\<close>

section \<open>The tools of a run\<close>

definition post_report_tool_names :: "string list" where
  "post_report_tool_names = [''notify.send'']"

definition allowed_tools_for_run :: "skill_spec \<Rightarrow> skill_spec list \<Rightarrow> string set" where
  "allowed_tools_for_run playbook helpers =
     nonblank (ss_bound_tools playbook) \<union> (\<Union>h \<in> set helpers. nonblank (ss_bound_tools h))"

definition without_post_report_tools :: "tool_plan_result \<Rightarrow> tool_plan_result" where
  "without_post_report_tools r =
     (case pr_plan r of
        None \<Rightarrow> r
      | Some p \<Rightarrow>
          (let kept = filter (\<lambda>c. pc_tool_name c \<notin> set post_report_tool_names) (tp_tool_calls p) in
           if length kept = length (tp_tool_calls p) then r
           else r\<lparr>pr_plan := Some (p\<lparr>tp_tool_calls := kept\<rparr>)\<rparr>))"

section \<open>The case of a plan and the first state of the loop\<close>

definition step_of_call :: "string \<Rightarrow> tool_plan_call \<Rightarrow> case_step" where
  "step_of_call skill c =
     \<lparr>st_step_id = pc_step_id c, st_name = ''LLM planned '' @ pc_tool_name c, st_skill_name = skill,
      st_action = pc_tool_name c, st_status = Step_PENDING, st_tool_name = Some (pc_tool_name c),
      st_inputs = pc_arguments c, st_outputs = [], st_requires_approval = False\<rparr>"

definition build_case_from_plan ::
    "string \<Rightarrow> int \<Rightarrow> case_create_request \<Rightarrow> tool_plan_result \<Rightarrow> tool_plan \<Rightarrow> string \<Rightarrow> case_record res" where
  "build_case_from_plan case_id now req r plan skill =
     (let steps = map (step_of_call skill) (tp_tool_calls plan) in
      if \<not> list_all valid_case_step steps then Inl (OtherError ''ValidationError'')
      else transition_case_status Case_PLANNED
        \<lparr>cr_case_id = case_id, cr_title = cq_title req, cr_symptom = cq_symptom req,
         cr_service_name = cq_service_name req, cr_source = cq_source req, cr_status = Case_PENDING,
         cr_selected_skills = [skill], cr_steps = steps,
         cr_metadata = dunion (cq_metadata req)
           [(''agent_route'', PStr ''llm_tool_plan''),
            (''llm_tool_plan'', PDict (plan_result_to_payload r)),
            (''llm_tool_plan_calls'', PList (map (\<lambda>c. PDict (call_to_payload c)) (tp_tool_calls plan)))],
         cr_created_at = now, cr_updated_at = now\<rparr>)"

definition request_of_step :: "string \<Rightarrow> case_step \<Rightarrow> tool_call_request" where
  "request_of_step case_id s =
     \<lparr>rq_case_id = case_id, rq_step_id = st_step_id s, rq_skill_name = st_skill_name s,
      rq_tool_name = (case st_tool_name s of None \<Rightarrow> st_action s
                      | Some t \<Rightarrow> (if t = [] then st_action s else t)),
      rq_arguments = st_inputs s\<rparr>"

definition initial_state :: "'g \<Rightarrow> case_record \<Rightarrow> 'g run_state" where
  "initial_state g c =
     \<lparr>rs_env = g, rs_case = c,
      rs_requests = dict_of (map (\<lambda>s. (st_step_id s, request_of_step (cr_case_id c) s)) (cr_steps c)),
      rs_records = [], rs_traces = [], rs_blocking = {}, rs_finished = {},
      rs_pending = map st_step_id (cr_steps c)\<rparr>"

section \<open>Settling the steps and the case\<close>

definition evidence_type_for_tool :: "string \<Rightarrow> evidence_type" where
  "evidence_type_for_tool t =
     (if starts_with t ''log.'' then Ev_LOG
      else if starts_with t ''trace.'' then Ev_TRACE
      else if starts_with t ''code.'' then Ev_CODE
      else if starts_with t ''catalog.'' then Ev_SERVICE_CATALOG
      else Ev_OTHER)"

definition tool_content_unconfigured :: "pydict \<Rightarrow> bool" where
  "tool_content_unconfigured d \<longleftrightarrow>
     py_get d ''configured'' = PBool False
     \<or> (case py_get d ''metadata'' of PDict m \<Rightarrow> py_get m ''configured'' = PBool False | _ \<Rightarrow> False)"

definition append_tool_json_evidence ::
    "string \<Rightarrow> string \<Rightarrow> evidence_type \<Rightarrow> pydict \<Rightarrow> evidence_pack \<Rightarrow> evidence_pack" where
  "append_tool_json_evidence item_id tool_name ty content pack =
     pack\<lparr>ep_items := ep_items pack
        @ [\<lparr>ei_item_id = item_id, ei_type = ty, ei_source = tool_name, ei_content = content\<rparr>]\<rparr>"

definition settle_step ::
    "(string \<Rightarrow> string) \<Rightarrow> (string \<times> tool_call_execution) list \<Rightarrow> case_step \<Rightarrow> evidence_pack
     \<Rightarrow> (case_step \<times> evidence_pack) res" where
  "settle_step item_id records s pack =
     (case dget records (st_step_id s) of
        None \<Rightarrow> Inr (s, pack)
      | Some x \<Rightarrow>
          (let r = ex_result x;
               s1 = s\<lparr>st_outputs := sanitize_tool_result_for_persistence (tr_content r)\<rparr>
           in if tr_ok r then
                bind_res (transition_step Step_COMPLETED s1) (\<lambda>s2.
                  Inr (s2, if tool_content_unconfigured (tr_content r) then pack
                           else append_tool_json_evidence (item_id (st_step_id s)) (tr_tool_name r)
                             (evidence_type_for_tool (tr_tool_name r))
                             (sanitize_tool_result_for_evidence (tr_tool_name r) (tr_content r)) pack))
              else bind_res (transition_step Step_FAILED s1) (\<lambda>s2. Inr (s2, pack))))"

fun settle_steps ::
    "(string \<Rightarrow> string) \<Rightarrow> (string \<times> tool_call_execution) list \<Rightarrow> case_step list \<Rightarrow> evidence_pack
     \<Rightarrow> (case_step list \<times> evidence_pack) res" where
  "settle_steps item_id records [] pack = Inr ([], pack)"
| "settle_steps item_id records (s # ss) pack =
     bind_res (settle_step item_id records s pack) (\<lambda>(s', pack').
       bind_res (settle_steps item_id records ss pack') (\<lambda>(ss', pack''). Inr (s' # ss', pack'')))"

definition required_step_lost :: "'g run_ctx \<Rightarrow> case_step list \<Rightarrow> bool" where
  "required_step_lost cx ss \<longleftrightarrow>
     list_ex (\<lambda>s. st_status s \<in> {Step_FAILED, Step_SKIPPED} \<and> is_required cx (st_step_id s)) ss"

definition settle_case ::
    "'g run_ctx \<Rightarrow> (string \<Rightarrow> string) \<Rightarrow> 'g run_state \<Rightarrow> (case_record \<times> evidence_pack) res" where
  "settle_case cx item_id s =
     bind_res (settle_steps item_id (rs_records s) (cr_steps (rs_case s))
                 \<lparr>ep_case_id = cr_case_id (rs_case s), ep_items = [], ep_summary = []\<rparr>)
       (\<lambda>(ss, pack).
          bind_res (transition_case_status
                      (if required_step_lost cx ss then Case_FAILED else Case_COMPLETED)
                      ((rs_case s)\<lparr>cr_steps := ss\<rparr>))
            (\<lambda>c. Inr (c, pack)))"

section \<open>A planned attempt\<close>

record stores =
  so_cases :: case_store
  so_evidence :: evidence_store
  so_reports :: report_store

record 'g attempt_ctx =
  ac_invoke :: "tool_call_request \<Rightarrow> 'g \<Rightarrow> tool_call_result res \<times> 'g"
  ac_rules :: arg_rules
  ac_max_content_chars :: nat
  ac_max_traces :: nat
  ac_max_context_chars :: nat
  ac_report :: "string \<Rightarrow> string \<Rightarrow> evidence_pack \<Rightarrow> string \<Rightarrow> case_report"
  ac_summary :: "case_step list \<Rightarrow> (string \<times> tool_call_execution) list \<Rightarrow> string"
  ac_notify_args :: "case_create_request \<Rightarrow> case_report \<Rightarrow> pydict"
  ac_item_id :: "string \<Rightarrow> string"
  ac_case_id :: string
  ac_attempt_id :: string
  ac_now :: int

definition run_ctx_of :: "'g attempt_ctx \<Rightarrow> case_create_request \<Rightarrow> tool_plan \<Rightarrow> 'g run_ctx" where
  "run_ctx_of ac req plan =
     \<lparr>rx_calls = tp_tool_calls plan, rx_request = req, rx_rules = ac_rules ac,
      rx_invoke = ac_invoke ac, rx_max_chars = ac_max_content_chars ac\<rparr>"

definition notify_dispatch_skipped :: "tool_call_result option \<Rightarrow> bool" where
  "notify_dispatch_skipped r =
     (case r of
        None \<Rightarrow> False
      | Some r \<Rightarrow> (case py_get (tr_content r) ''metadata'' of
                     PDict m \<Rightarrow> py_truthy (py_get m ''skipped'') | _ \<Rightarrow> False))"

definition send_report_notification ::
    "'g attempt_ctx \<Rightarrow> string \<Rightarrow> string \<Rightarrow> case_create_request \<Rightarrow> case_report \<Rightarrow> tool_trace list \<Rightarrow> 'g
     \<Rightarrow> (tool_call_result \<times> tool_trace list) res \<times> 'g" where
  "send_report_notification ac case_id skill req report traces g =
     (let q = \<lparr>rq_case_id = case_id, rq_step_id = ''notify'', rq_skill_name = skill,
               rq_tool_name = ''notify.send'', rq_arguments = ac_notify_args ac req report\<rparr>
      in case execute_records (ac_invoke ac) (ac_max_content_chars ac)
                (\<lambda>_. [(''engine'', PStr ''after_report'')]) [q] g of
           (Inl e, g') \<Rightarrow> (Inl e, g')
         | (Inr [], g') \<Rightarrow> (Inl (OtherError ''IndexError''), g')
         | (Inr (x # xs), g') \<Rightarrow> (Inr (ex_result x, traces @ [ex_trace x]), g'))"

definition planned_result ::
    "'g attempt_ctx \<Rightarrow> pydict list \<Rightarrow> model_route \<Rightarrow> string \<Rightarrow> tool_plan_result \<Rightarrow> case_record
     \<Rightarrow> tool_trace list \<Rightarrow> bool \<Rightarrow> attempt_result" where
  "planned_result ac messages route skill r c traces skipped =
     \<lparr>at_attempt_id = ac_attempt_id ac, at_case_id = cr_case_id c,
      at_status = (if cr_status c = Case_FAILED then ''failed'' else ''completed''),
      at_prompt_messages = messages, at_route = route, at_tool_traces = traces,
      at_compacted_context =
        Some (compact (ac_max_traces ac) (ac_max_context_chars ac) messages traces),
      at_flow_run_id = None,
      at_metadata = [(''skill_slug'', PStr skill), (''step_count'', PInt (int (length (cr_steps c)))),
                     (''tool_plan'', PDict (plan_result_to_payload r))]
                    @ (if skipped then [(''notify_skipped'', PBool True)] else [])\<rparr>"

text \<open>The body of \<open>_run_llm_tool_plan\<close> after the planner's answer was accepted.\<close>

definition run_planned ::
    "'g attempt_ctx \<Rightarrow> case_create_request \<Rightarrow> pydict list \<Rightarrow> model_route \<Rightarrow> string \<Rightarrow> bool
     \<Rightarrow> tool_plan_result \<Rightarrow> tool_plan \<Rightarrow> stores \<Rightarrow> 'g \<Rightarrow> (attempt_result \<times> stores \<times> 'g) res" where
  "run_planned ac req messages route skill notify r plan so g =
     (let cx = run_ctx_of ac req plan in
      bind_res (build_case_from_plan (ac_case_id ac) (ac_now ac) req r plan skill) (\<lambda>c0.
      bind_res (run_waves cx (initial_state g c0)) (\<lambda>s.
      bind_res (settle_case cx (ac_item_id ac) s) (\<lambda>(c1, pack0).
        let c = c1\<lparr>cr_updated_at := ac_now ac\<rparr>;
            pack = pack0\<lparr>ep_summary := ac_summary ac (cr_steps c1) (rs_records s)\<rparr>;
            so1 = so\<lparr>so_cases := case_store_put c (so_cases so),
                     so_evidence := evidence_put_pack pack (so_evidence so)\<rparr>;
            report = ac_report ac (cr_case_id c) (cr_title c) pack
              (if cr_service_name c = [] then cq_service_name req else cr_service_name c)
        in bind_res
             (if notify then
                (case send_report_notification ac (cr_case_id c) skill req report (rs_traces s) (rs_env s) of
                   (Inl e, g') \<Rightarrow> Inl e
                 | (Inr (res, ts), g') \<Rightarrow> Inr (Some res, ts, g'))
              else Inr (None, rs_traces s, rs_env s))
             (\<lambda>(res, ts, g').
                let skipped = notify_dispatch_skipped res;
                    md = dunion (cp_metadata report)
                      ((''agent'', PDict [(''route_mode'', PStr (mr_mode route)),
                                       (''tool_plan'', PDict (plan_result_to_payload r))])
                       # (if skipped then [(''notify_skipped'', PBool True)] else []))
                in Inr (planned_result ac messages route skill r c ts skipped,
                        so1\<lparr>so_reports := report_put (report\<lparr>cp_metadata := md\<rparr>) (so_reports so1)\<rparr>,
                        g'))))))"

section \<open>Attempts that fail before a plan runs\<close>

definition failed_case ::
    "string \<Rightarrow> int \<Rightarrow> case_create_request \<Rightarrow> string \<Rightarrow> string \<Rightarrow> string option \<Rightarrow> case_record" where
  "failed_case case_id now req code reason skill =
     \<lparr>cr_case_id = case_id, cr_title = cq_title req, cr_symptom = cq_symptom req,
      cr_service_name = cq_service_name req, cr_source = cq_source req, cr_status = Case_FAILED,
      cr_selected_skills = (case skill of None \<Rightarrow> [] | Some s \<Rightarrow> (if s = [] then [] else [s])),
      cr_steps = [],
      cr_metadata = dunion (cq_metadata req) [(''error_code'', PStr code), (''error'', PStr reason)],
      cr_created_at = now, cr_updated_at = now\<rparr>"

definition persist_failed_case ::
    "'g attempt_ctx \<Rightarrow> case_create_request \<Rightarrow> string \<Rightarrow> string \<Rightarrow> string option \<Rightarrow> stores \<Rightarrow> stores" where
  "persist_failed_case ac req code reason skill so =
     (let pack = \<lparr>ep_case_id = ac_case_id ac, ep_items = [], ep_summary = reason\<rparr>;
          report = ac_report ac (ac_case_id ac) (cq_title req) pack [];
          report' = report\<lparr>cp_metadata := dput ''error_code'' (PStr code) (cp_metadata report)\<rparr>
      in so\<lparr>so_cases := case_store_put (failed_case (ac_case_id ac) (ac_now ac) req code reason skill) (so_cases so),
            so_evidence := evidence_put_pack pack (so_evidence so),
            so_reports := report_put report' (so_reports so)\<rparr>)"

definition fail_attempt ::
    "'g attempt_ctx \<Rightarrow> case_create_request \<Rightarrow> pydict list \<Rightarrow> model_route \<Rightarrow> string \<Rightarrow> string
     \<Rightarrow> tool_plan_result option \<Rightarrow> string option \<Rightarrow> stores \<Rightarrow> attempt_result \<times> stores" where
  "fail_attempt ac req messages route code reason r skill so =
     (let payload0 = (case r of None \<Rightarrow> [(''ok'', PBool False), (''error'', PStr reason)]
                     | Some r \<Rightarrow> plan_result_to_payload r);
          payload = (if ''error'' \<in> set (dkeys payload0) then payload0
                     else dput ''error'' (PStr reason) payload0)
      in (\<lparr>at_attempt_id = ac_attempt_id ac, at_case_id = ac_case_id ac, at_status = ''failed'',
           at_prompt_messages = messages, at_route = route, at_tool_traces = [],
           at_compacted_context = None, at_flow_run_id = None,
           at_metadata =
             [(''skill_slug'', PStr (case skill of None \<Rightarrow> ''agent/llm-tool-plan''
                 | Some s \<Rightarrow> (if s = [] then ''agent/llm-tool-plan'' else s))),
              (''step_count'', PInt 0), (''tool_plan'', PDict payload),
              (''case_title'', PStr (cq_title req)), (''error_code'', PStr code)]\<rparr>,
          persist_failed_case ac req code reason skill so))"

section \<open>_run_llm_tool_plan\<close>

definition disallowed_tools :: "string set \<Rightarrow> tool_plan \<Rightarrow> string list" where
  "disallowed_tools allowed plan =
     filter (\<lambda>t. t \<notin> allowed) (map pc_tool_name (tp_tool_calls plan))"

definition run_llm_tool_plan ::
    "'g attempt_ctx \<Rightarrow> case_create_request \<Rightarrow> pydict list \<Rightarrow> model_route \<Rightarrow> skill_spec \<Rightarrow> skill_spec list
     \<Rightarrow> tool_plan_result \<Rightarrow> stores \<Rightarrow> 'g \<Rightarrow> (attempt_result \<times> stores \<times> 'g) res" where
  "run_llm_tool_plan ac req messages route playbook helpers r so g =
     (let allowed = allowed_tools_for_run playbook helpers;
          failed = (\<lambda>code reason. (case fail_attempt ac req messages route code reason (Some r)
                      (Some (ss_name playbook)) so of (a, so') \<Rightarrow> Inr (a, so', g)))
      in case (if pr_ok r then pr_plan r else None) of
           None \<Rightarrow> failed ''SKILL_PLANNER_FAILED''
             (case pr_error r of None \<Rightarrow> ''llm planner returned no plan''
              | Some e \<Rightarrow> (if e = [] then ''llm planner returned no plan'' else e))
         | Some plan \<Rightarrow>
             (if disallowed_tools allowed plan \<noteq> [] then
                failed ''SKILL_TOOL_NOT_ALLOWED''
                  (''tool not allowed: '' @ join '', '' (disallowed_tools allowed plan))
              else
                (let r' = without_post_report_tools r in
                 case pr_plan r' of
                   None \<Rightarrow> Inl (OtherError ''AssertionError'')
                 | Some plan' \<Rightarrow>
                     run_planned ac req messages route (ss_name playbook)
                       (''notify.send'' \<in> allowed) r' plan' so g)))"

end
