(* ===== verification/AttemptFacts.thy ===== *)
theory AttemptFacts
  imports AttemptRunner
begin

text \<open>
  What an attempt guarantees: the wave loop ends without raising on every plan with distinct step
  ids, each step is traced exactly once and after its dependencies, the statuses of the steps and
  of the case follow from the tools' answers; and the plans on which the runner goes wrong.
\<close>

section \<open>The first state\<close>

lemma dput_new: "k \<notin> set (dkeys d) \<Longrightarrow> dput k v d = d @ [(k, v)]"
  by (induction d) auto

lemma dict_of_distinct: "distinct (dkeys d) \<Longrightarrow> dict_of d = d"
proof (induction d rule: rev_induct)
  case (snoc x d)
  have "dict_of (d @ [x]) = dput (fst x) (snd x) (dict_of d)"
    by (simp add: dict_of_def dunion_def split_beta)
  with snoc show ?case by (simp add: dput_new)
qed (simp add: dict_of_def dunion_def)

lemma call_of_in:
  assumes "distinct (step_ids (rx_calls cx))" "c \<in> set (rx_calls cx)"
  shows "call_of cx (pc_step_id c) = Some c"
proof -
  let ?d = "map (\<lambda>c. (pc_step_id c, c)) (rx_calls cx)"
  have "distinct (dkeys ?d)" using assms(1) by (simp add: step_ids_def comp_def)
  moreover have "(pc_step_id c, c) \<in> set ?d" using assms(2) by auto
  ultimately have "dget ?d (pc_step_id c) = Some c" "dict_of ?d = ?d"
    by (simp_all only: map_of_is_SomeI dict_of_distinct)
  then show ?thesis by (simp add: call_of_def)
qed

lemma call_of_Some_iff:
  assumes "distinct (step_ids (rx_calls cx))"
  shows "call_of cx i = Some c \<longleftrightarrow> c \<in> set (rx_calls cx) \<and> pc_step_id c = i"
proof
  assume "call_of cx i = Some c"
  moreover have "distinct (dkeys (map (\<lambda>c. (pc_step_id c, c)) (rx_calls cx)))"
    using assms by (simp add: step_ids_def comp_def)
  ultimately have "dget (map (\<lambda>c. (pc_step_id c, c)) (rx_calls cx)) i = Some c"
    by (simp only: call_of_def dict_of_distinct)
  then show "c \<in> set (rx_calls cx) \<and> pc_step_id c = i"
    by (auto dest: map_of_SomeD)
qed (use call_of_in[OF assms] in auto)

lemma build_case_from_plan_steps:
  "build_case_from_plan cid now req r plan skill = Inr c \<Longrightarrow>
   cr_steps c = map (step_of_call skill) (tp_tool_calls plan) \<and> cr_status c = Case_PLANNED
   \<and> cr_case_id c = cid \<and> list_all valid_case_step (cr_steps c)"
  by (auto simp: build_case_from_plan_def Let_def transition_case_status_def bind_res_Inr_iff split: if_splits)

lemma initial_inv:
  assumes b: "build_case_from_plan cid now req r plan skill = Inr c"
    and d: "distinct (step_ids (tp_tool_calls plan))" and cx: "rx_calls cx = tp_tool_calls plan"
  shows "run_inv cx (step_ids (tp_tool_calls plan)) {} (initial_state g c)"
proof -
  note B = build_case_from_plan_steps[OF b]
  let ?ids = "step_ids (tp_tool_calls plan)"
  have ids: "map st_step_id (cr_steps c) = ?ids"
    using B by (simp add: step_ids_def step_of_call_def comp_def)
  let ?qs = "map (\<lambda>s. (st_step_id s, request_of_step (cr_case_id c) s)) (cr_steps c)"
  have fq: "map fst ?qs = ?ids" using ids by (simp add: comp_def)
  then have dq: "dict_of ?qs = ?qs" using d dict_of_distinct by metis
  have kq: "keyed rq_step_id ?qs"
    unfolding keyed_def fq using d by (auto simp: request_of_step_def)
  have tools: "rq_tool_name (request_of_step (cr_case_id c) s)
      = tool_of cx (rq_step_id (request_of_step (cr_case_id c) s))" if s: "s \<in> set (cr_steps c)" for s
  proof -
    obtain call where call: "call \<in> set (tp_tool_calls plan)" "s = step_of_call skill call" using s B by auto
    have "call_of cx (pc_step_id call) = Some call" using call_of_in d call cx by metis
    moreover have "valid_case_step s" using s B by (auto simp: list_all_iff)
    ultimately show ?thesis
      using call(2) by (simp add: request_of_step_def step_of_call_def tool_of_def valid_case_step_def)
  qed
  show ?thesis
    unfolding run_inv_def
  proof (intro conjI)
    show "has_statuses ?ids (expected_status {} (initial_state g c)) (rs_case (initial_state g c))"
      using B ids by (auto simp: has_statuses_def expected_status_def initial_state_def step_of_call_def)
    show "dkeys (rs_requests (initial_state g c)) = ?ids" using fq dq by (simp add: initial_state_def)
    show "keyed rq_step_id (rs_requests (initial_state g c))" using kq dq by (simp add: initial_state_def)
    show "\<forall>q \<in> set (dvals (rs_requests (initial_state g c))). rq_tool_name q = tool_of cx (rq_step_id q)"
      using dq tools by (auto simp: initial_state_def)
  qed (use d ids B in \<open>auto simp: initial_state_def\<close>)
qed

section \<open>Settling\<close>

definition final_status :: "(string \<times> tool_call_execution) list \<Rightarrow> string \<Rightarrow> step_status" where
  "final_status records i =
     (case dget records i of
        None \<Rightarrow> Step_SKIPPED
      | Some x \<Rightarrow> (if tr_ok (ex_result x) then Step_COMPLETED else Step_FAILED))"

definition gives_evidence :: "(string \<times> tool_call_execution) list \<Rightarrow> string \<Rightarrow> bool" where
  "gives_evidence records i \<longleftrightarrow>
     (case dget records i of
        None \<Rightarrow> False
      | Some x \<Rightarrow> tr_ok (ex_result x) \<and> \<not> tool_content_unconfigured (tr_content (ex_result x)))"

lemma settle_step_ok:
  assumes "st_status t = (if st_step_id t \<in> set (dkeys records) then Step_RUNNING else Step_SKIPPED)"
  shows "\<exists>t' pack'. settle_step item_id records t pack = Inr (t', pack') \<and> st_step_id t' = st_step_id t
    \<and> st_status t' = final_status records (st_step_id t) \<and> ep_case_id pack' = ep_case_id pack
    \<and> map ei_item_id (ep_items pack') = map ei_item_id (ep_items pack)
        @ (if gives_evidence records (st_step_id t) then [item_id (st_step_id t)] else [])"
proof (cases "dget records (st_step_id t)")
  case None
  then have "st_step_id t \<notin> set (dkeys records)" by (simp only: dget_None_keys simp_thms)
  with assms None show ?thesis by (simp add: settle_step_def final_status_def gives_evidence_def)
next
  case (Some x)
  then have "st_step_id t \<in> set (dkeys records)" using dget_None_keys[of records "st_step_id t"] by auto
  with assms have "st_status t = Step_RUNNING" by simp
  with Some show ?thesis
    by (simp add: settle_step_def final_status_def gives_evidence_def Let_def transition_step_def
        append_tool_json_evidence_def)
qed

lemma settle_steps_ok:
  assumes "\<forall>t \<in> set ss. st_status t = (if st_step_id t \<in> set (dkeys records) then Step_RUNNING else Step_SKIPPED)"
  shows "\<exists>ss' pack'. settle_steps item_id records ss pack = Inr (ss', pack')
    \<and> map st_step_id ss' = map st_step_id ss
    \<and> (\<forall>t \<in> set ss'. st_status t = final_status records (st_step_id t))
    \<and> ep_case_id pack' = ep_case_id pack
    \<and> map ei_item_id (ep_items pack') = map ei_item_id (ep_items pack)
        @ map item_id (filter (gives_evidence records) (map st_step_id ss))"
  using assms
proof (induction ss arbitrary: pack)
  case (Cons t ss)
  obtain t' p1 where 1: "settle_step item_id records t pack = Inr (t', p1)" "st_step_id t' = st_step_id t"
    "st_status t' = final_status records (st_step_id t)" "ep_case_id p1 = ep_case_id pack"
    "map ei_item_id (ep_items p1) = map ei_item_id (ep_items pack)
        @ (if gives_evidence records (st_step_id t) then [item_id (st_step_id t)] else [])"
    using settle_step_ok[of t records item_id pack] Cons.prems by auto
  obtain ss' p2 where 2: "settle_steps item_id records ss p1 = Inr (ss', p2)"
    "map st_step_id ss' = map st_step_id ss" "\<forall>t \<in> set ss'. st_status t = final_status records (st_step_id t)"
    "ep_case_id p2 = ep_case_id p1" "map ei_item_id (ep_items p2) = map ei_item_id (ep_items p1)
        @ map item_id (filter (gives_evidence records) (map st_step_id ss))"
    using Cons.IH[of p1] Cons.prems by auto
  from 1 2 show ?case by simp
qed simp

lemma blocking_at_end:
  assumes "run_inv cx ids {} s" "rs_pending s = []"
  shows "rs_blocking s = {i \<in> set ids. is_required cx i \<and> final_status (rs_records s) i \<noteq> Step_COMPLETED}"
proof -
  have "(case dget (rs_records s) i of None \<Rightarrow> True | Some x \<Rightarrow> \<not> tr_ok (ex_result x))
      \<longleftrightarrow> final_status (rs_records s) i \<noteq> Step_COMPLETED" for i
    by (simp add: final_status_def split: option.splits)
  then show ?thesis using run_invD(12)[OF assms(1)] all_finished[OF assms] by simp
qed

lemma settle_case_ok:
  assumes inv: "run_inv cx ids {} s" and p: "rs_pending s = []"
    and some: "rs_records s \<noteq> [] \<or> rs_blocking s \<noteq> {}"
  shows "\<exists>c pack. settle_case cx item_id s = Inr (c, pack)
    \<and> cr_status c = (if rs_blocking s = {} then Case_COMPLETED else Case_FAILED)
    \<and> map (\<lambda>t. (st_step_id t, st_status t)) (cr_steps c) = map (\<lambda>i. (i, final_status (rs_records s) i)) ids
    \<and> cr_case_id c = cr_case_id (rs_case s) \<and> ep_case_id pack = cr_case_id (rs_case s)
    \<and> map ei_item_id (ep_items pack) = map item_id (filter (gives_evidence (rs_records s)) ids)"
proof -
  note I = run_invD[OF inv]
  let ?ss = "cr_steps (rs_case s)"
  let ?p = "\<lparr>ep_case_id = cr_case_id (rs_case s), ep_items = [], ep_summary = []\<rparr>"
  have ids: "map st_step_id ?ss = ids" using I(5) by (simp add: has_statuses_def)
  have "st_status t = (if st_step_id t \<in> set (dkeys (rs_records s)) then Step_RUNNING else Step_SKIPPED)"
    if "t \<in> set ?ss" for t
  proof -
    have "st_step_id t \<in> set (map st_step_id ?ss)" using that by simp
    then have "st_step_id t \<in> rs_finished s" unfolding ids all_finished[OF inv p] .
    then show ?thesis using I(5) that by (simp add: has_statuses_def expected_status_def)
  qed
  then obtain ss pack where ss: "settle_steps item_id (rs_records s) ?ss ?p = Inr (ss, pack)"
    "map st_step_id ss = ids" "\<forall>t \<in> set ss. st_status t = final_status (rs_records s) (st_step_id t)"
    "ep_case_id pack = cr_case_id (rs_case s)"
    "map ei_item_id (ep_items pack) = map item_id (filter (gives_evidence (rs_records s)) ids)"
    using settle_steps_ok[of ?ss "rs_records s" item_id ?p] ids by auto
  have fs: "final_status (rs_records s) i \<noteq> Step_COMPLETED
      \<longleftrightarrow> final_status (rs_records s) i \<in> {Step_FAILED, Step_SKIPPED}" for i
    by (simp add: final_status_def split: option.splits)
  have lost: "required_step_lost cx ss \<longleftrightarrow> rs_blocking s \<noteq> {}"
    unfolding blocking_at_end[OF inv p] required_step_lost_def fs list_ex_iff
    unfolding ss(2)[symmetric] using ss(3) by auto
  have pairs: "map (\<lambda>t. (st_step_id t, st_status t)) ss = map (\<lambda>i. (i, final_status (rs_records s) i)) ids"
    using ss(2,3) by (auto simp: ss(2)[symmetric] comp_def)
  let ?new = "if required_step_lost cx ss then Case_FAILED else Case_COMPLETED"
  have "transition_case_status ?new ((rs_case s)\<lparr>cr_steps := ss\<rparr>)
      = Inr ((rs_case s)\<lparr>cr_steps := ss, cr_status := ?new\<rparr>)"
    using I(13) some lost by (auto simp: transition_case_status_def bind_res_Inr_iff)
  then have "settle_case cx item_id s = Inr ((rs_case s)\<lparr>cr_steps := ss, cr_status := ?new\<rparr>, pack)"
    using ss(1) by (simp add: settle_case_def)
  with ss pairs lost show ?thesis by auto
qed

lemma settle_case_stuck:
  assumes inv: "run_inv cx ids {} s" and p: "rs_pending s = []"
    and none: "rs_records s = []" "rs_blocking s = {}"
  shows "settle_case cx item_id s
    = Inl (StateTransitionError ''case'' (case_transition_message Case_PLANNED Case_COMPLETED))"
proof -
  note I = run_invD[OF inv]
  have st: "cr_status (rs_case s) = Case_PLANNED" using I(13) none by simp
  let ?ss = "cr_steps (rs_case s)"
  have ids: "map st_step_id ?ss = ids" using I(5) by (simp add: has_statuses_def)
  have "settle_steps item_id [] ss pk = Inr (ss, pk)" for ss pk
    by (induction ss arbitrary: pk) (simp_all add: settle_step_def)
  moreover have "\<not> required_step_lost cx ?ss"
    using blocking_at_end[OF inv p] none ids
    by (auto simp: required_step_lost_def list_ex_iff final_status_def)
  ultimately show ?thesis
    using st none by (simp add: settle_case_def transition_case_status_def validate_case_transition_def)
qed

section \<open>The audit log of a run\<close>

text \<open>
  Through an audited invoker the log gains one event per executed step, in the order of the
  traces, each naming the tool the plan names for that step.
\<close>

definition executed_traces :: "'g run_state \<Rightarrow> tool_trace list" where
  "executed_traces s = filter (\<lambda>t. tt_step_id t \<in> set (dkeys (rs_records s))) (rs_traces s)"

lemma traces_appended:
  assumes inv: "run_inv cx ids {} s" and inv': "run_inv cx ids {} s'"
    and r: "rs_records s' = rs_records s" and t: "rs_traces s' = rs_traces s @ ts"
  shows "executed_traces s' = executed_traces s"
proof -
  have "set (map tt_step_id ts) \<inter> rs_finished s = {}"
    using run_invD(10)[OF inv'] run_invD(11)[OF inv] by (auto simp: t)
  then have "filter (\<lambda>t. tt_step_id t \<in> set (dkeys (rs_records s))) ts = []"
    using run_invD(8)[OF inv] by (auto simp: filter_empty_conv)
  then show ?thesis by (simp add: executed_traces_def r t)
qed

context audited_invoker
begin

definition audited_run :: "'g run_ctx \<Rightarrow> audit_log \<Rightarrow> 'g run_state \<Rightarrow> bool" where
  "audited_run cx log0 s \<longleftrightarrow>
     (\<exists>evs. audit (rs_env s) = log0 @ evs
        \<and> map ae_target evs = map (\<lambda>t. tool_of cx (tt_step_id t)) (executed_traces s)
        \<and> map (\<lambda>e. py_get (ae_detail e) ''ok'') evs = map (\<lambda>t. PBool (tt_ok t)) (executed_traces s))"

lemma wave_audited:
  assumes inv: "run_inv cx ids {} s" and ans: "answering E cx s" and inv_eq: "rx_invoke cx = invoke"
    and au: "audited_run cx log0 s" and w: "wave cx s = Inr s'"
  shows "audited_run cx log0 s'"
proof -
  obtain b s1 where a: "after_skips cx ids s s1"
    and rest: "if ready_steps cx s1 \<noteq> [] then after_run cx ids s1 s'
       else if b then s' = s1 else after_cycle cx ids s1 s'"
    using wave_outcome[OF inv ans] w by auto
  have s1: "run_inv cx ids {} s1" "rs_records s1 = rs_records s" "rs_env s1 = rs_env s"
    and "\<exists>ts. rs_traces s1 = rs_traces s @ ts"
    using a by (auto simp: after_skips_def)
  then have ex1: "executed_traces s1 = executed_traces s" using traces_appended[OF inv] by blast
  then have au1: "audited_run cx log0 s1" using au s1(3) by (simp add: audited_run_def)
  show ?thesis
  proof (cases "ready_steps cx s1 = []")
    case True
    show ?thesis
    proof (cases b)
      case True
      with rest \<open>ready_steps cx s1 = []\<close> au1 show ?thesis by simp
    next
      case False
      with rest True have c: "run_inv cx ids {} s'" "rs_records s' = rs_records s1" "rs_env s' = rs_env s1"
        "\<exists>ts. rs_traces s' = rs_traces s1 @ ts" by (auto simp: after_cycle_def)
      then have "executed_traces s' = executed_traces s1" using traces_appended[OF s1(1)] by blast
      with au1 c(3) show ?thesis by (simp add: audited_run_def)
    qed
  next
    case False
    let ?ready = "ready_steps cx s1"
    from rest False obtain qs xs where inv': "run_inv cx ids {} s'"
      and k: "set (dkeys (rs_records s')) = set (dkeys (rs_records s1)) \<union> set ?ready"
      and ex: "execute_records invoke (rx_max_chars cx) (metadata_of cx) qs (rs_env s1) = (Inr xs, rs_env s')"
      and ids: "map rq_step_id qs = ?ready" and tools: "map rq_tool_name qs = map (tool_of cx) ?ready"
      and tr: "rs_traces s' = rs_traces s1 @ map ex_trace xs"
      using inv_eq by (auto simp: after_run_def)
    note X = execute_records_requests[OF ex] execute_records_trace[OF ex]
    have tids: "map (\<lambda>x. tt_step_id (ex_trace x)) xs = ?ready"
    proof -
      have "map (\<lambda>x. tt_step_id (ex_trace x)) xs = map (\<lambda>x. rq_step_id (ex_request x)) xs"
        using X(2) by auto
      also have "\<dots> = map rq_step_id qs" unfolding X(1)[symmetric] by simp
      finally show ?thesis using ids by simp
    qed
    have old: "filter (\<lambda>t. tt_step_id t \<in> set (dkeys (rs_records s'))) (rs_traces s1) = executed_traces s1"
    proof -
      have "tt_step_id t \<notin> set ?ready" if "t \<in> set (rs_traces s1)" for t
      proof -
        have "tt_step_id t \<in> rs_finished s1" using that run_invD(11)[OF s1(1)] by auto
        then show ?thesis using run_inv_pending_iff[OF s1(1)] by (auto simp: ready_steps_def)
      qed
      then show ?thesis unfolding executed_traces_def k by (intro filter_cong) auto
    qed
    have "tt_step_id (ex_trace x) \<in> set ?ready" if "x \<in> set xs" for x
      using that unfolding tids[symmetric] by auto
    then have "filter (\<lambda>t. tt_step_id t \<in> set (dkeys (rs_records s'))) (map ex_trace xs) = map ex_trace xs"
      unfolding k by (intro filter_True) auto
    with old have ex': "executed_traces s' = executed_traces s1 @ map ex_trace xs"
      unfolding executed_traces_def[of s'] tr by simp
    obtain evs where evs: "audit (rs_env s') = audit (rs_env s1) @ evs" "map ae_target evs = map rq_tool_name qs"
      "map (\<lambda>e. py_get (ae_detail e) ''ok'') evs = map (\<lambda>x. PBool (tr_ok (ex_result x))) xs"
      using execute_records_audit[OF ex] by blast
    have t': "map (tool_of cx) ?ready = map (\<lambda>t. tool_of cx (tt_step_id t)) (map ex_trace xs)"
      unfolding tids[symmetric] by simp
    have oks: "map (\<lambda>x. PBool (tr_ok (ex_result x))) xs = map (\<lambda>t. PBool (tt_ok t)) (map ex_trace xs)"
      using X(2) by auto
    from au1 obtain evs0 where evs0: "audit (rs_env s1) = log0 @ evs0"
      "map ae_target evs0 = map (\<lambda>t. tool_of cx (tt_step_id t)) (executed_traces s1)"
      "map (\<lambda>e. py_get (ae_detail e) ''ok'') evs0 = map (\<lambda>t. PBool (tt_ok t)) (executed_traces s1)"
      unfolding audited_run_def by blast
    show ?thesis
      unfolding audited_run_def ex'
      by (intro exI[of _ "evs0 @ evs"])
        (simp add: evs evs0 tools t' oks del: map_map)
  qed
qed

lemma run_waves_audited:
  assumes "run_inv cx ids {} s" "answering E cx s" "rx_invoke cx = invoke"
    "audited_run cx log0 s" "run_waves cx s = Inr s'"
  shows "audited_run cx log0 s'"
  using assms
proof (induction cx s rule: run_waves.induct)
  case (1 cx s)
  show ?case
  proof (cases "rs_pending s = []")
    case True
    with 1 show ?thesis by (simp add: run_waves.simps)
  next
    case False
    obtain s1 where s1: "wave cx s = Inr s1" and inv1: "run_inv cx ids {} s1" and an: "answering E cx s1"
      using wave_ok[OF 1(2,3)] by blast
    have "run_waves cx s1 = Inr s'" using 1(6) False s1 by (simp add: run_waves.simps)
    then show ?thesis using 1(1)[OF False s1 inv1 an 1(4)] wave_audited[OF 1(2-5) s1] by blast
  qed
qed

end

end
