(* ===== verification/PlanExecution.thy ===== *)
theory PlanExecution
  imports AttemptFacts
begin

text \<open>
  The properties of the execution of a tool plan, and the agent's invoker: the gateway with a
  supply of fresh inputs (\<open>agent_invoke\<close>), an instance of the audited invoker.
\<close>

section \<open>The agent's invoker\<close>

definition agent_invoke ::
    "(nat \<Rightarrow> invoke_inputs) \<Rightarrow> tool_call_request \<Rightarrow> nat \<times> 'w mcp_gateway
     \<Rightarrow> tool_call_result res \<times> (nat \<times> 'w mcp_gateway)" where
  "agent_invoke ivs q e =
     (case e of (n, g) \<Rightarrow>
        (case gateway_invoke (ivs n) q ''agent-runtime'' None None g of
           (r, g') \<Rightarrow> (r, (Suc n, g'))))"

definition agent_audit :: "nat \<times> 'w mcp_gateway \<Rightarrow> audit_log" where
  "agent_audit e = mg_audit (snd e)"

interpretation agent: audited_invoker "\<lambda>q e. agent_invoke ivs q e" agent_audit
  for ivs :: "nat \<Rightarrow> invoke_inputs"
proof (unfold_locales, goal_cases)
  case (1 q e r e')
  then show ?case
    by (auto simp: agent_invoke_def agent_audit_def split: prod.splits intro: mcp.answer_audited)
next
  case (2 q e x e')
  then show ?case
    by (auto simp: agent_invoke_def agent_audit_def split: prod.splits intro: mcp.raise_silent)
next
  case (3 q e r e')
  then show ?case
    by (auto simp: agent_invoke_def split: prod.splits intro: mcp.answer_names)
qed

text \<open>
  A gateway whose tools never raise an exception with an empty text answers every call: the
  only call that raises is the one of C5.
\<close>

definition tools_speak :: "'w mcp_gateway \<Rightarrow> bool" where
  "tools_speak g \<longleftrightarrow> (\<forall>spec q w t. fst (run_tool spec q (g\<lparr>mg_world := w\<rparr>)) \<noteq> Inl (t, []))"

lemma run_tool_same:
  "mg_registry g' = mg_registry g \<Longrightarrow> mg_client g' = mg_client g \<Longrightarrow>
   run_tool spec q (g'\<lparr>mg_world := w\<rparr>) = run_tool spec q (g\<lparr>mg_world := w\<rparr>)"
  by (cases "mg_client g"; cases "registry_get_handler (mg_registry g) (rq_tool_name q)")
    (simp_all add: run_tool_def)

lemma tools_speak_same:
  "mg_registry g' = mg_registry g \<Longrightarrow> mg_client g' = mg_client g \<Longrightarrow> tools_speak g' = tools_speak g"
  using run_tool_same[of g' g] by (simp add: tools_speak_def)

lemma finish_call_frame:
  "finish_call iv q ac p ri out g = (r, g') \<Longrightarrow>
   mg_registry g' = mg_registry g \<and> mg_client g' = mg_client g"
  by (cases "(iv, q, ac, p, ri, out, g)" rule: finish_call.cases) (auto simp: Let_def split: if_splits)

lemma gateway_answers:
  assumes sp: "tools_speak g" and i: "gateway_invoke iv q ac p ri g = (r, g')"
  shows "\<exists>res. r = Inr res" "tools_speak g'"
proof -
  have "(\<exists>res. r = Inr res) \<and> tools_speak g'"
    using i
  proof (cases rule: gateway_invoke_shape)
    case (refused e store)
    then show ?thesis using sp tools_speak_same[of g' g] by (auto simp: refuse_call_def)
  next
    case (run spec out w)
    have "g\<lparr>mg_world := mg_world g\<rparr> = g" by simp
    then have "out \<noteq> Inl (t, [])" for t
      using sp run(3) unfolding tools_speak_def by (metis fst_conv)
    then have "\<exists>res. r = Inr res" using run(4) by (cases out) (auto simp: Let_def)
    moreover have "mg_registry g' = mg_registry g" "mg_client g' = mg_client g"
      using finish_call_frame[OF run(4)[symmetric]] by auto
    ultimately show ?thesis using sp tools_speak_same by blast
  qed
  then show "\<exists>res. r = Inr res" "tools_speak g'" by auto
qed

lemma agent_answers: "answers (\<lambda>e. tools_speak (snd e)) (agent_invoke ivs)"
  unfolding answers_def
proof (intro allI impI)
  fix q and e :: "nat \<times> 'w mcp_gateway"
  assume e: "tools_speak (snd e)"
  obtain n g where ng: "e = (n, g)" by (cases e)
  obtain r g' where i: "gateway_invoke (ivs n) q ''agent-runtime'' None None g = (r, g')"
    by (cases "gateway_invoke (ivs n) q ''agent-runtime'' None None g")
  from gateway_answers[OF _ i] e ng obtain res where "r = Inr res" "tools_speak g'" by auto
  with i ng show "\<exists>r e'. agent_invoke ivs q e = (Inr r, e') \<and> tools_speak (snd e')"
    by (simp add: agent_invoke_def)
qed

section \<open>Every step once, after its dependencies\<close>

definition executed :: "'g run_state \<Rightarrow> string set" where
  "executed s = set (dkeys (rs_records s))"

lemma plan_runs:
  assumes b: "build_case_from_plan cid now req r plan skill = Inr c"
    and d: "distinct (step_ids (tp_tool_calls plan))" and cx: "rx_calls cx = tp_tool_calls plan"
    and ans: "answers E (rx_invoke cx)" "E g"
  obtains s where "run_waves cx (initial_state g c) = Inr s"
    "run_inv cx (step_ids (tp_tool_calls plan)) {} s" "rs_pending s = []" "E (rs_env s)"
    "no_forward cx (step_ids (tp_tool_calls plan)) \<Longrightarrow> runs_unblocked cx s"
    "\<And>rk. ranked cx (step_ids (tp_tool_calls plan)) rk \<Longrightarrow> skips_caused cx s"
proof -
  have "answering E cx (initial_state g c)" using ans by (simp add: answering_def initial_state_def)
  moreover have "runs_unblocked cx (initial_state g c)" "skips_caused cx (initial_state g c)"
    by (simp_all add: runs_unblocked_def skips_caused_def initial_state_def)
  ultimately show ?thesis
    using run_waves_ok[OF initial_inv[OF b d cx]] that unfolding answering_def by metis
qed

text \<open>
  C5: A plan with distinct step ids runs to its end without raising, whatever its dependencies
  (missing, forward or cyclic), when the invoker answers every call. Every step is then traced
  exactly once, and an executed step is traced after all steps it depends on.
\<close>
theorem plan_steps_traced_once:
  assumes "build_case_from_plan cid now req r plan skill = Inr c"
    and "distinct (step_ids (tp_tool_calls plan))" and "rx_calls cx = tp_tool_calls plan"
    and "answers E (rx_invoke cx)" and "E g"
  shows "\<exists>s. run_waves cx (initial_state g c) = Inr s
    \<and> distinct (map tt_step_id (rs_traces s))
    \<and> set (map tt_step_id (rs_traces s)) = set (step_ids (tp_tool_calls plan))
    \<and> deps_traced_first cx (executed s) {} (rs_traces s)"
proof -
  obtain s where s: "run_waves cx (initial_state g c) = Inr s"
    "run_inv cx (step_ids (tp_tool_calls plan)) {} s" "rs_pending s = []"
    using plan_runs[OF assms] by metis
  show ?thesis
    using s(1) run_invD(10,11,14)[OF s(2)] all_finished[OF s(2,3)] by (auto simp: executed_def)
qed

text \<open>
  C6: The outcome of a plan: unless no step ran and no step is required, the case is settled; it
  fails exactly when a required step did not complete, and every step ends as completed, failed
  or skipped as its tool answered ok, answered with an error, or was not called. Otherwise the
  settling raises on the transition from planned to completed, and nothing is stored.
\<close>
theorem plan_outcome:
  assumes "build_case_from_plan cid now req r plan skill = Inr c"
    and "distinct (step_ids (tp_tool_calls plan))" and "rx_calls cx = tp_tool_calls plan"
    and "answers E (rx_invoke cx)" and "E g"
  shows "\<exists>s. run_waves cx (initial_state g c) = Inr s
    \<and> (if executed s = {} \<and> \<not> list_ex pc_required (tp_tool_calls plan) then
         settle_case cx item_id s
           = Inl (StateTransitionError ''case'' (case_transition_message Case_PLANNED Case_COMPLETED))
       else (\<exists>c' pack. settle_case cx item_id s = Inr (c', pack)
         \<and> cr_status c' = (if list_ex (\<lambda>k. pc_required k
                \<and> final_status (rs_records s) (pc_step_id k) \<noteq> Step_COMPLETED) (tp_tool_calls plan)
              then Case_FAILED else Case_COMPLETED)
         \<and> map (\<lambda>t. (st_step_id t, st_status t)) (cr_steps c')
             = map (\<lambda>i. (i, final_status (rs_records s) i)) (step_ids (tp_tool_calls plan))
         \<and> map ei_item_id (ep_items pack)
             = map item_id (filter (gives_evidence (rs_records s)) (step_ids (tp_tool_calls plan)))))"
proof -
  let ?ids = "step_ids (tp_tool_calls plan)"
  obtain s where s: "run_waves cx (initial_state g c) = Inr s" "run_inv cx ?ids {} s" "rs_pending s = []"
    using plan_runs[OF assms] by metis
  have req: "is_required cx (pc_step_id k) = pc_required k" if "k \<in> set (tp_tool_calls plan)" for k
    using call_of_in[of cx k] assms(2,3) that by (simp add: is_required_def)
  have bl: "rs_blocking s \<noteq> {} \<longleftrightarrow> list_ex (\<lambda>k. pc_required k
      \<and> final_status (rs_records s) (pc_step_id k) \<noteq> Step_COMPLETED) (tp_tool_calls plan)"
    unfolding blocking_at_end[OF s(2,3)] list_ex_iff using req by (fastforce simp: step_ids_def)
  have none: "rs_blocking s \<noteq> {} \<longleftrightarrow> list_ex pc_required (tp_tool_calls plan)" if "rs_records s = []"
    unfolding bl using that by (auto simp: list_ex_iff final_status_def)
  have ex: "executed s = {} \<longleftrightarrow> rs_records s = []" by (simp add: executed_def)
  show ?thesis
  proof (cases "executed s = {} \<and> \<not> list_ex pc_required (tp_tool_calls plan)")
    case True
    then have r: "rs_records s = []" using ex by blast
    then have "rs_blocking s = {}" using none True by blast
    from settle_case_stuck[OF s(2,3) r this] s(1) True show ?thesis by auto
  next
    case False
    then have "rs_records s \<noteq> [] \<or> rs_blocking s \<noteq> {}" using ex none by blast
    from settle_case_ok[OF s(2,3) this, of item_id] s(1) False bl show ?thesis by auto
  qed
qed

text \<open>
  C7: In an acyclic plan whose dependencies all name steps of the plan, a step is skipped only
  because a required step's tool was called and failed. So when no required tool fails, every
  step is executed.
\<close>
theorem acyclic_plan_runs:
  assumes "build_case_from_plan cid now req r plan skill = Inr c"
    and "distinct (step_ids (tp_tool_calls plan))" and "rx_calls cx = tp_tool_calls plan"
    and "answers E (rx_invoke cx)" and "E g"
    and "ranked cx (step_ids (tp_tool_calls plan)) rk"
  shows "\<exists>s. run_waves cx (initial_state g c) = Inr s
    \<and> (executed s = set (step_ids (tp_tool_calls plan))
       \<or> (\<exists>i x. is_required cx i \<and> dget (rs_records s) i = Some x \<and> \<not> tr_ok (ex_result x)))"
proof -
  obtain s where s: "run_waves cx (initial_state g c) = Inr s"
    "run_inv cx (step_ids (tp_tool_calls plan)) {} s" "rs_pending s = []" "skips_caused cx s"
    using plan_runs[OF assms(1-5)] assms(6) by metis
  have "executed s \<subseteq> rs_finished s" using run_invD(8)[OF s(2)] by (simp add: executed_def)
  with s(1) first_failure[OF s(2) assms(6) s(4)] all_finished[OF s(2,3)] show ?thesis
    unfolding executed_def by blast
qed

text \<open>
  In a plan listed so that no step depends on itself or a later one, no step runs after a
  required step it depends on failed or was skipped.
\<close>
theorem listed_plan_runs_unblocked:
  assumes "build_case_from_plan cid now req r plan skill = Inr c"
    and "distinct (step_ids (tp_tool_calls plan))" and "rx_calls cx = tp_tool_calls plan"
    and "answers E (rx_invoke cx)" and "E g"
    and "no_forward cx (step_ids (tp_tool_calls plan))"
  shows "\<exists>s. run_waves cx (initial_state g c) = Inr s
    \<and> (\<forall>i \<in> executed s. \<forall>d \<in> set (deps_of cx i).
          is_required cx d \<longrightarrow> final_status (rs_records s) d = Step_COMPLETED)"
proof -
  obtain s where s: "run_waves cx (initial_state g c) = Inr s"
    "run_inv cx (step_ids (tp_tool_calls plan)) {} s" "rs_pending s = []" "runs_unblocked cx s"
    using plan_runs[OF assms(1-5)] assms(6) by metis
  show ?thesis
  proof (intro exI[of _ s] conjI ballI impI)
    fix i d assume i: "i \<in> executed s" and d: "d \<in> set (deps_of cx i)" and rq: "is_required cx d"
    from i d have "d \<in> set (step_ids (tp_tool_calls plan))"
      using executed_deps_finished[OF s(2)] all_finished[OF s(2,3)] unfolding executed_def by blast
    moreover from i d have "d \<notin> rs_blocking s" using s(4) unfolding runs_unblocked_def executed_def by blast
    ultimately show "final_status (rs_records s) d = Step_COMPLETED"
      using rq unfolding blocking_at_end[OF s(2,3)] by blast
  qed (fact s(1))
qed

text \<open>
  C8: Through the gateway, whose tools raise no exception with an empty text, a plan leaves one
  event in the audit log for each executed step and no other, in the order of the traces, naming
  the step's planned tool and whether it answered ok.
\<close>
theorem plan_audited:
  assumes "build_case_from_plan cid now req r plan skill = Inr c"
    and "distinct (step_ids (tp_tool_calls plan))" and "rx_calls cx = tp_tool_calls plan"
    and "rx_invoke cx = agent_invoke ivs" and "tools_speak g"
  shows "\<exists>s evs. run_waves cx (initial_state (n, g) c) = Inr s
    \<and> mg_audit (snd (rs_env s)) = mg_audit g @ evs
    \<and> map ae_target evs = map (\<lambda>t. tool_of cx (tt_step_id t)) (executed_traces s)
    \<and> map (\<lambda>e. py_get (ae_detail e) ''ok'') evs = map (\<lambda>t. PBool (tt_ok t)) (executed_traces s)"
proof -
  note inv = initial_inv[OF assms(1-3)]
  have ans: "answering (\<lambda>e. tools_speak (snd e)) cx (initial_state (n, g) c)"
    using agent_answers[of ivs] assms(4,5) by (simp add: answering_def initial_state_def)
  obtain s where s: "run_waves cx (initial_state (n, g) c) = Inr s"
    using run_waves_ok[OF inv ans] by blast
  have "agent.audited_run cx (mg_audit g) (initial_state (n, g) c)"
    by (simp add: agent.audited_run_def executed_traces_def initial_state_def agent_audit_def)
  from agent.run_waves_audited[OF inv ans assms(4) this s] s show ?thesis
    by (auto simp: agent.audited_run_def agent_audit_def)
qed

end
