(* ===== verification/SkillSystem.thy ===== *)
theory SkillSystem
  imports Contracts
begin

text \<open>
  Skills (\<open>skill_system/names.py\<close>, \<open>parser.py\<close>, \<open>overlay.py\<close>, \<open>registry.py\<close>): reading a skill from
  the front matter of its file, the administrator's overlay, and the registry with its index from
  tool actions to the skill that binds them. The YAML parser and the directory walk are outside:
  the parsed mapping and the list of specifications found are arguments.

  The operations of the registry raise in the middle of an update, so they return the state they
  leave together with their result.
\<close>

section \<open>Names (skill_system/names.py)\<close>

definition strip_char :: "char \<Rightarrow> string \<Rightarrow> string" where
  "strip_char c s = rev (dropWhile ((=) c) (rev (dropWhile ((=) c) s)))"

definition normalize_skill_name :: "string \<Rightarrow> string" where
  "normalize_skill_name value =
     (let text = strip_char CHR ''/'' (py_strip value)
      in if CHR ''/'' \<in> set text then last (split_on CHR ''/'' text) else text)"

definition name_char :: "char \<Rightarrow> bool" where
  "name_char c \<longleftrightarrow> (let n = of_char c :: nat in (97 \<le> n \<and> n \<le> 122) \<or> (48 \<le> n \<and> n \<le> 57))"

text \<open>\<open>^[a-z0-9]+(?:-[a-z0-9]+)*$\<close>: non-empty words joined by single dashes.\<close>

definition skill_name_re :: "string \<Rightarrow> bool" where
  "skill_name_re s \<longleftrightarrow> list_all (\<lambda>w. w \<noteq> [] \<and> list_all name_char w) (split_on CHR ''-'' s)"

definition invalid_skill_name :: "string \<Rightarrow> pyerr" where
  "invalid_skill_name name = SkillError ''SKILL_INVALID_PACKAGE'' (''invalid skill name: '' @ repr_str name)"

definition validate_skill_name :: "string \<Rightarrow> unit res" where
  "validate_skill_name name =
     (if name = [] \<or> length name > 64 \<or> \<not> skill_name_re name then Inl (invalid_skill_name name) else Inr ())"

lemma dropWhile_eq_id: "c \<notin> set s \<Longrightarrow> dropWhile ((=) c) s = s"
  by (cases s) auto

lemma normalize_plain: "stripped s \<Longrightarrow> CHR ''/'' \<notin> set s \<Longrightarrow> normalize_skill_name s = s"
  by (simp add: normalize_skill_name_def py_strip_stripped strip_char_def dropWhile_eq_id)

lemma set_join: "x \<in> set (join [c] ws) \<Longrightarrow> x = c \<or> (\<exists>w \<in> set ws. x \<in> set w)"
  by (induction ws rule: induct_list012) auto

lemma skill_name_chars:
  assumes "skill_name_re s" "x \<in> set s"
  shows "name_char x \<or> x = CHR ''-''"
proof -
  have "x \<in> set (join ''-'' (split_on CHR ''-'' s))" using assms(2) by (simp add: join_split_on)
  from set_join[OF this] show ?thesis using assms(1) by (auto simp: skill_name_re_def list_all_iff)
qed

lemma valid_name_normal:
  assumes "validate_skill_name s = Inr ()"
  shows "normalize_skill_name s = s"
proof (rule normalize_plain)
  have re: "skill_name_re s" "s \<noteq> []" using assms by (auto simp: validate_skill_name_def split: if_splits)
  have chars: "name_char x \<or> x = CHR ''-''" if "x \<in> set s" for x using skill_name_chars[OF re(1) that] .
  have "\<not> is_space x" if "x \<in> set s" for x
    using chars[OF that] by (auto simp: name_char_def is_space_def Let_def)
  then show "stripped s" using re(2) by (simp add: stripped_def)
  show "CHR ''/'' \<notin> set s" using chars by (force simp: name_char_def)
qed

section \<open>Reading a skill (skill_system/parser.py)\<close>

text \<open>\<open>str.splitlines\<close> on code points below 256.\<close>

definition line_end :: "char \<Rightarrow> bool" where
  "line_end c \<longleftrightarrow> (let n = of_char c :: nat in (10 \<le> n \<and> n \<le> 13) \<or> (28 \<le> n \<and> n \<le> 30) \<or> n = 133)"

fun split_lines_acc :: "string \<Rightarrow> string \<Rightarrow> string list" where
  "split_lines_acc w [] = (if w = [] then [] else [rev w])"
| "split_lines_acc w [c] = (if line_end c then [rev w] else [rev (c # w)])"
| "split_lines_acc w (c # d # cs) =
     (if \<not> line_end c then split_lines_acc (c # w) (d # cs)
      else if c = CHR 0x0D \<and> d = CHR 0x0A then rev w # split_lines_acc [] cs
      else rev w # split_lines_acc [] (d # cs))"

definition split_lines :: "string \<Rightarrow> string list" where
  "split_lines s = split_lines_acc [] s"

definition newline :: string where
  "newline = [CHR 0x0A]"

text \<open>The lines up to the closing dashes, and those after it.\<close>

fun upto_dashes :: "string list \<Rightarrow> (string list \<times> string list) option" where
  "upto_dashes [] = None"
| "upto_dashes (l # ls) =
     (if py_strip l = ''---'' then Some ([], ls)
      else map_option (\<lambda>(a, b). (l # a, b)) (upto_dashes ls))"

definition split_frontmatter :: "string \<Rightarrow> (string \<times> string) res" where
  "split_frontmatter text =
     (case split_lines text of
        [] \<Rightarrow> Inl (ValueError ''SKILL.md must start with YAML frontmatter (---)'')
      | l # ls \<Rightarrow>
          (if py_strip l \<noteq> ''---'' then Inl (ValueError ''SKILL.md must start with YAML frontmatter (---)'')
           else case upto_dashes ls of
                  None \<Rightarrow> Inl (ValueError ''SKILL.md frontmatter not closed with ---'')
                | Some (yaml, body) \<Rightarrow> Inr (join newline yaml, join newline body)))"

definition load_skill_body :: "string \<Rightarrow> string res" where
  "load_skill_body text = bind_res (split_frontmatter text) (\<lambda>(yaml, body). Inr (py_strip body))"

text \<open>\<open>yaml\<close> is the YAML parser.\<close>

definition parse_frontmatter_dict :: "(string \<Rightarrow> pyval res) \<Rightarrow> string \<Rightarrow> pydict res" where
  "parse_frontmatter_dict yaml text =
     bind_res (split_frontmatter text) (\<lambda>(y, _).
       bind_res (yaml y) (\<lambda>v. case v of
           PDict d \<Rightarrow> Inr d
         | _ \<Rightarrow> Inl (ValueError ''SKILL frontmatter must parse to a mapping'')))"

definition text_of_key :: "pydict \<Rightarrow> string \<Rightarrow> string" where
  "text_of_key d k = py_str (py_or (py_get d k) (PStr []))"

definition load_skill ::
    "(string \<Rightarrow> pyval res) \<Rightarrow> string \<Rightarrow> string \<Rightarrow> string \<Rightarrow> skill_source_kind option \<Rightarrow> skill_spec res" where
  "load_skill yaml text dir_name dir kind =
     bind_res (parse_frontmatter_dict yaml text) (\<lambda>d.
       let name = py_strip (text_of_key d ''name'') in
       bind_res (validate_skill_name name) (\<lambda>_.
         if name \<noteq> dir_name
         then Inl (SkillError ''SKILL_INVALID_PACKAGE''
                (''name '' @ repr_str name @ '' must match directory '' @ repr_str dir_name))
         else
           let allowed = split_ws (py_str (py_or (py_or (py_get d ''allowed-tools'') (py_get d ''allowed_tools'')) (PStr [])))
           in bind_res (py_dict (py_or (py_get d ''metadata'') (PDict []))) (\<lambda>m.
                let m1 = (if ''role'' \<in> set (dkeys m) then m else dput ''role'' (PStr ''helper'') m);
                    meta = dput ''skill_dir'' (PStr dir) m1
                in Inr \<lparr>ss_name = name, ss_slug = name, ss_description = text_of_key d ''description'',
                        ss_skill_kind = (if py_get meta ''role'' = PStr ''playbook'' then Kind_FLOW else Kind_TOOL),
                        ss_bound_tools = allowed, ss_tags = [], ss_triggers = [], ss_required_tools = allowed,
                        ss_steps = [], ss_source_kind = (case kind of None \<Rightarrow> Src_BUILTIN | Some k \<Rightarrow> k),
                        ss_version = ''0.1.0'', ss_metadata = meta\<rparr>)))"

lemma load_skill_named:
  assumes "load_skill yaml text dir_name dir kind = Inr s"
  shows "ss_slug s = ss_name s" "ss_name s = dir_name" "normalize_skill_name (ss_name s) = ss_name s"
proof -
  obtain d where "validate_skill_name (ss_name s) = Inr ()" "ss_slug s = ss_name s" "ss_name s = dir_name"
    using assms by (auto simp: load_skill_def Let_def split: if_splits)
  then show "ss_slug s = ss_name s" "ss_name s = dir_name" "normalize_skill_name (ss_name s) = ss_name s"
    using valid_name_normal by auto
qed

section \<open>Overlay (skill_system/overlay.py)\<close>

record skill_overlay =
  ov_default_playbook :: string
  ov_overlays :: "(string \<times> pydict) list"

definition new_skill_overlay :: skill_overlay where
  "new_skill_overlay = \<lparr>ov_default_playbook = ''default-log-triage'', ov_overlays = []\<rparr>"

fun overlay_entries :: "pydict \<Rightarrow> (string \<times> pydict) list \<Rightarrow> (string \<times> pydict) list res" where
  "overlay_entries [] m = Inr m"
| "overlay_entries ((k, v) # kvs) m =
     bind_res (py_dict (py_or v (PDict []))) (\<lambda>d. overlay_entries kvs (dput (normalize_skill_name k) d m))"

definition normalize_overlay_payload :: "pydict option \<Rightarrow> skill_overlay res" where
  "normalize_overlay_payload raw =
     (let data = (case raw of None \<Rightarrow> [] | Some d \<Rightarrow> d);
          def = normalize_skill_name
                  (py_str (py_or (py_get data ''default_playbook'') (PStr ''default-log-triage'')))
      in bind_res (py_dict (py_or (py_get data ''overlays'') (PDict []))) (\<lambda>os.
         bind_res (overlay_entries os []) (\<lambda>m.
           Inr \<lparr>ov_default_playbook = def, ov_overlays = m\<rparr>)))"

definition copy_key :: "string \<Rightarrow> pydict \<Rightarrow> pydict \<Rightarrow> pydict" where
  "copy_key k entry meta = (case dget entry k of None \<Rightarrow> meta | Some v \<Rightarrow> dput k v meta)"

definition apply_overlay :: "skill_spec \<Rightarrow> skill_overlay \<Rightarrow> skill_spec" where
  "apply_overlay spec ov =
     (case dget (ov_overlays ov) (normalize_skill_name (ss_slug spec)) of
        None \<Rightarrow> spec
      | Some entry \<Rightarrow>
          (if entry = [] then spec
           else spec\<lparr>ss_metadata := copy_key ''role'' entry (copy_key ''enabled'' entry (ss_metadata spec))\<rparr>))"

lemma apply_overlay_fields [simp]:
  "ss_slug (apply_overlay spec ov) = ss_slug spec" "ss_name (apply_overlay spec ov) = ss_name spec"
  "ss_bound_tools (apply_overlay spec ov) = ss_bound_tools spec"
  "ss_skill_kind (apply_overlay spec ov) = ss_skill_kind spec"
  "ss_source_kind (apply_overlay spec ov) = ss_source_kind spec"
  by (simp_all add: apply_overlay_def split: option.splits)

section \<open>Registry (skill_system/registry.py)\<close>

record skill_registry =
  sr_by_slug :: "(string \<times> skill_spec) list"
  sr_tool_index :: "(string \<times> string) list"

definition new_skill_registry :: skill_registry where
  "new_skill_registry = \<lparr>sr_by_slug = [], sr_tool_index = []\<rparr>"

fun index_actions :: "string \<Rightarrow> string list \<Rightarrow> skill_registry \<Rightarrow> unit res \<times> skill_registry" where
  "index_actions key [] r = (Inr (), r)"
| "index_actions key (a # as) r =
     (case dget (sr_tool_index r) a of
        Some k \<Rightarrow>
          (if k \<noteq> key then
             (Inl (ValueError (''Tool action '' @ repr_str a @ '' already bound to skill '' @ repr_str k
                     @ '', cannot bind to '' @ repr_str key)), r)
           else index_actions key as (r\<lparr>sr_tool_index := dput a key (sr_tool_index r)\<rparr>))
      | None \<Rightarrow> index_actions key as (r\<lparr>sr_tool_index := dput a key (sr_tool_index r)\<rparr>))"

definition index_bound_tools :: "skill_spec \<Rightarrow> string \<Rightarrow> skill_registry \<Rightarrow> unit res \<times> skill_registry" where
  "index_bound_tools spec key r =
     (if ss_skill_kind spec = Kind_FLOW then (Inr (), r) else index_actions key (ss_bound_tools spec) r)"

fun unindex_actions :: "string \<Rightarrow> string list \<Rightarrow> (string \<times> string) list \<Rightarrow> (string \<times> string) list" where
  "unindex_actions key [] d = d"
| "unindex_actions key (a # as) d =
     unindex_actions key as (if dget d a = Some key then ddel a d else d)"

definition skill_register :: "skill_spec \<Rightarrow> skill_registry \<Rightarrow> unit res \<times> skill_registry" where
  "skill_register spec r =
     (let key = normalize_skill_name (ss_slug spec) in
      if key \<in> set (dkeys (sr_by_slug r)) then (Inl (ValueError (''Duplicate skill slug: '' @ key)), r)
      else index_bound_tools spec key (r\<lparr>sr_by_slug := dput key spec (sr_by_slug r)\<rparr>))"

definition skill_upsert :: "skill_spec \<Rightarrow> skill_registry \<Rightarrow> unit res \<times> skill_registry" where
  "skill_upsert spec r =
     (let key = normalize_skill_name (ss_slug spec);
          r1 = (case dget (sr_by_slug r) key of
                  None \<Rightarrow> r
                | Some old \<Rightarrow>
                    r\<lparr>sr_by_slug := ddel key (sr_by_slug r),
                      sr_tool_index := unindex_actions key (ss_bound_tools old) (sr_tool_index r)\<rparr>)
      in index_bound_tools spec key (r1\<lparr>sr_by_slug := dput key spec (sr_by_slug r1)\<rparr>))"

definition skill_unregister :: "string \<Rightarrow> skill_registry \<Rightarrow> bool \<times> skill_registry" where
  "skill_unregister slug r =
     (let key = normalize_skill_name slug in
      case dget (sr_by_slug r) key of
        None \<Rightarrow> (False, r)
      | Some spec \<Rightarrow>
          (True, r\<lparr>sr_by_slug := ddel key (sr_by_slug r),
                   sr_tool_index := unindex_actions key (ss_bound_tools spec) (sr_tool_index r)\<rparr>))"

definition skill_get :: "skill_registry \<Rightarrow> string \<Rightarrow> skill_spec option" where
  "skill_get r slug = dget (sr_by_slug r) (normalize_skill_name slug)"

definition list_skills :: "skill_registry \<Rightarrow> skill_spec list" where
  "list_skills r = dvals (sr_by_slug r)"

definition list_by_kind :: "skill_kind \<Rightarrow> skill_registry \<Rightarrow> skill_spec list" where
  "list_by_kind k r = filter (\<lambda>s. ss_skill_kind s = k) (list_skills r)"

definition resolve_tool_skill :: "skill_registry \<Rightarrow> string \<Rightarrow> skill_spec option" where
  "resolve_tool_skill r action =
     (case dget (sr_tool_index r) action of None \<Rightarrow> None | Some slug \<Rightarrow> skill_get r slug)"

definition execution_plan :: "skill_registry \<Rightarrow> string \<Rightarrow> (string \<times> skill_step_definition list) option" where
  "execution_plan r slug = map_option (\<lambda>s. (ss_slug s, ss_steps s)) (skill_get r slug)"

text \<open>\<open>build_skill_registry\<close> over the specifications found under the three roots.\<close>

fun register_builtins :: "skill_spec list \<Rightarrow> skill_registry \<Rightarrow> skill_registry res" where
  "register_builtins [] r = Inr r"
| "register_builtins (s # ss) r =
     (case skill_register s r of (Inl e, r') \<Rightarrow> Inl e | (Inr _, r') \<Rightarrow> register_builtins ss r')"

fun upsert_others :: "string set \<Rightarrow> skill_spec list \<Rightarrow> skill_registry \<Rightarrow> skill_registry res" where
  "upsert_others builtin [] r = Inr r"
| "upsert_others builtin (s # ss) r =
     (if normalize_skill_name (ss_slug s) \<in> builtin then upsert_others builtin ss r
      else case skill_upsert s r of (Inl e, r') \<Rightarrow> Inl e | (Inr _, r') \<Rightarrow> upsert_others builtin ss r')"

definition build_skill_registry ::
    "skill_spec list \<Rightarrow> skill_spec list \<Rightarrow> skill_spec list \<Rightarrow> skill_overlay option \<Rightarrow> skill_registry res" where
  "build_skill_registry builtins customs externals ov =
     (let names = set (map (\<lambda>s. normalize_skill_name (ss_slug s)) builtins) in
      bind_res (register_builtins builtins new_skill_registry) (\<lambda>r1.
      bind_res (upsert_others names customs r1) (\<lambda>r2.
      bind_res (upsert_others names externals r2) (\<lambda>r3.
        case ov of
          None \<Rightarrow> Inr r3
        | Some o' \<Rightarrow> upsert_others {} (map (\<lambda>s. apply_overlay s o') (list_skills r3)) r3))))"

section \<open>Facts about the registry\<close>

text \<open>
  Every skill is stored under its normalized slug, and the index leads from an action only to a
  stored tool skill that binds it: a tool has at most one skill.
\<close>

definition registry_sound :: "skill_registry \<Rightarrow> bool" where
  "registry_sound r \<longleftrightarrow>
     distinct (dkeys (sr_by_slug r))
     \<and> (\<forall>k s. dget (sr_by_slug r) k = Some s \<longrightarrow> normalize_skill_name (ss_slug s) = k)
     \<and> (\<forall>a k. dget (sr_tool_index r) a = Some k \<longrightarrow>
          (\<exists>s. dget (sr_by_slug r) k = Some s \<and> ss_skill_kind s \<noteq> Kind_FLOW \<and> a \<in> set (ss_bound_tools s)))"

lemma registry_soundD:
  assumes "registry_sound r"
  shows "dget (sr_by_slug r) k = Some s \<Longrightarrow> normalize_skill_name (ss_slug s) = k"
    and "dget (sr_tool_index r) a = Some k \<Longrightarrow>
      \<exists>s. dget (sr_by_slug r) k = Some s \<and> ss_skill_kind s \<noteq> Kind_FLOW \<and> a \<in> set (ss_bound_tools s)"
  using assms by (auto simp: registry_sound_def)

lemma new_registry_sound: "registry_sound new_skill_registry"
  by (simp add: registry_sound_def new_skill_registry_def)

lemma index_actions_slugs: "sr_by_slug (snd (index_actions key as r)) = sr_by_slug r"
  by (induction as arbitrary: r) (auto split: option.splits)

lemma index_bound_tools_slugs: "sr_by_slug (snd (index_bound_tools spec key r)) = sr_by_slug r"
  by (simp add: index_bound_tools_def index_actions_slugs)

lemma index_actions_sound:
  assumes "registry_sound r" "dget (sr_by_slug r) key = Some s" "ss_skill_kind s \<noteq> Kind_FLOW"
    "set as \<subseteq> set (ss_bound_tools s)"
  shows "registry_sound (snd (index_actions key as r))"
  using assms
proof (induction as arbitrary: r)
  case (Cons a as)
  let ?r = "r\<lparr>sr_tool_index := dput a key (sr_tool_index r)\<rparr>"
  have "registry_sound ?r" using Cons.prems by (auto simp: registry_sound_def)
  from Cons.IH[OF this] Cons.prems show ?case by (auto split: option.splits)
qed simp

lemma index_bound_tools_sound:
  assumes "registry_sound r" "dget (sr_by_slug r) key = Some spec"
  shows "registry_sound (snd (index_bound_tools spec key r))"
  using index_actions_sound[OF assms] assms(1) by (simp add: index_bound_tools_def)

lemma unindexed: "dget (unindex_actions key as d) a = (if a \<in> set as \<and> dget d a = Some key then None else dget d a)"
  by (induction as arbitrary: d) auto

text \<open>A skill leaves the registry together with its index entries.\<close>

lemma removed_sound:
  assumes "registry_sound r" "dget (sr_by_slug r) key = Some s"
  shows "registry_sound (r\<lparr>sr_by_slug := ddel key (sr_by_slug r),
    sr_tool_index := unindex_actions key (ss_bound_tools s) (sr_tool_index r)\<rparr>)"
  unfolding registry_sound_def
proof (intro conjI allI impI)
  show "distinct (dkeys (sr_by_slug (r\<lparr>sr_by_slug := ddel key (sr_by_slug r),
    sr_tool_index := unindex_actions key (ss_bound_tools s) (sr_tool_index r)\<rparr>)))"
    using assms(1) by (simp add: registry_sound_def)
next
  fix k t
  assume "dget (sr_by_slug (r\<lparr>sr_by_slug := ddel key (sr_by_slug r),
    sr_tool_index := unindex_actions key (ss_bound_tools s) (sr_tool_index r)\<rparr>)) k = Some t"
  then show "normalize_skill_name (ss_slug t) = k"
    using assms(1) by (simp add: registry_sound_def split: if_splits)
next
  fix a k
  assume "dget (sr_tool_index (r\<lparr>sr_by_slug := ddel key (sr_by_slug r),
    sr_tool_index := unindex_actions key (ss_bound_tools s) (sr_tool_index r)\<rparr>)) a = Some k"
  then have i: "dget (sr_tool_index r) a = Some k" and n: "\<not> (a \<in> set (ss_bound_tools s) \<and> k = key)"
    by (auto simp: unindexed split: if_splits)
  obtain t where t: "dget (sr_by_slug r) k = Some t" "ss_skill_kind t \<noteq> Kind_FLOW" "a \<in> set (ss_bound_tools t)"
    using registry_soundD(2)[OF assms(1) i] by blast
  then have "k \<noteq> key" using n assms(2) by auto
  with t show "\<exists>t. dget (sr_by_slug (r\<lparr>sr_by_slug := ddel key (sr_by_slug r),
      sr_tool_index := unindex_actions key (ss_bound_tools s) (sr_tool_index r)\<rparr>)) k = Some t
    \<and> ss_skill_kind t \<noteq> Kind_FLOW \<and> a \<in> set (ss_bound_tools t)" by simp
qed

lemma added_sound:
  assumes "registry_sound r" "dget (sr_by_slug r) (normalize_skill_name (ss_slug s)) = None"
  shows "registry_sound (r\<lparr>sr_by_slug := dput (normalize_skill_name (ss_slug s)) s (sr_by_slug r)\<rparr>)"
  unfolding registry_sound_def
proof (intro conjI allI impI)
  show "distinct (dkeys (sr_by_slug (r\<lparr>sr_by_slug := dput (normalize_skill_name (ss_slug s)) s (sr_by_slug r)\<rparr>)))"
    using assms(1) by (simp add: registry_sound_def)
next
  fix k t
  assume "dget (sr_by_slug (r\<lparr>sr_by_slug := dput (normalize_skill_name (ss_slug s)) s (sr_by_slug r)\<rparr>)) k = Some t"
  then show "normalize_skill_name (ss_slug t) = k"
    using registry_soundD(1)[OF assms(1)] by (auto split: if_splits)
next
  fix a k
  assume "dget (sr_tool_index (r\<lparr>sr_by_slug := dput (normalize_skill_name (ss_slug s)) s (sr_by_slug r)\<rparr>)) a = Some k"
  then obtain t where t: "dget (sr_by_slug r) k = Some t" "ss_skill_kind t \<noteq> Kind_FLOW" "a \<in> set (ss_bound_tools t)"
    using registry_soundD(2)[OF assms(1)] by auto
  then have "k \<noteq> normalize_skill_name (ss_slug s)" using assms(2) by auto
  with t show "\<exists>t. dget (sr_by_slug (r\<lparr>sr_by_slug := dput (normalize_skill_name (ss_slug s)) s (sr_by_slug r)\<rparr>)) k = Some t
    \<and> ss_skill_kind t \<noteq> Kind_FLOW \<and> a \<in> set (ss_bound_tools t)" by simp
qed

lemma register_sound: "registry_sound r \<Longrightarrow> registry_sound (snd (skill_register s r))"
  using added_sound[of r s]
  by (auto simp: skill_register_def Let_def dget_None_iff intro!: index_bound_tools_sound)

lemma unregister_sound: "registry_sound r \<Longrightarrow> registry_sound (snd (skill_unregister k r))"
  using removed_sound[of r] by (auto simp: skill_unregister_def Let_def split: option.splits)

lemma upsert_sound:
  assumes "registry_sound r"
  shows "registry_sound (snd (skill_upsert s r))"
proof (cases "dget (sr_by_slug r) (normalize_skill_name (ss_slug s))")
  case None
  from added_sound[OF assms this] None show ?thesis
    by (simp add: skill_upsert_def Let_def index_bound_tools_sound)
next
  case (Some old)
  note removed = removed_sound[OF assms Some]
  from added_sound[OF removed, of s] Some show ?thesis
    by (simp add: skill_upsert_def Let_def index_bound_tools_sound)
qed

lemma upsert_get:
  "dget (sr_by_slug (snd (skill_upsert s r))) k =
     (if k = normalize_skill_name (ss_slug s) then Some s else dget (sr_by_slug r) k)"
  by (simp add: skill_upsert_def Let_def index_bound_tools_slugs split: option.splits)

lemma unregister_get:
  "dget (sr_by_slug (snd (skill_unregister n r))) k =
     (if k = normalize_skill_name n then None else dget (sr_by_slug r) k)"
  by (auto simp: skill_unregister_def Let_def split: option.splits)


section \<open>The index after successful updates\<close>

text \<open>After updates that did not raise, the index also covers every tool skill.\<close>

definition registry_complete :: "skill_registry \<Rightarrow> bool" where
  "registry_complete r \<longleftrightarrow> registry_sound r \<and>
     (\<forall>k s a. dget (sr_by_slug r) k = Some s \<longrightarrow> ss_skill_kind s \<noteq> Kind_FLOW \<longrightarrow> a \<in> set (ss_bound_tools s)
        \<longrightarrow> dget (sr_tool_index r) a = Some k)"

lemma registry_completeD:
  "registry_complete r \<Longrightarrow> dget (sr_by_slug r) k = Some s \<Longrightarrow> ss_skill_kind s \<noteq> Kind_FLOW
   \<Longrightarrow> a \<in> set (ss_bound_tools s) \<Longrightarrow> dget (sr_tool_index r) a = Some k"
  "registry_complete r \<Longrightarrow> registry_sound r"
  by (auto simp: registry_complete_def)

lemma index_actions_covers:
  assumes "index_actions key as r = (Inr (), r')"
  shows "(a \<in> set as \<longrightarrow> dget (sr_tool_index r') a = Some key)
    \<and> (\<forall>k. dget (sr_tool_index r) a = Some k \<longrightarrow> dget (sr_tool_index r') a = Some k)"
  using assms
proof (induction as arbitrary: r)
  case (Cons b as)
  let ?r = "r\<lparr>sr_tool_index := dput b key (sr_tool_index r)\<rparr>"
  have "index_actions key as ?r = (Inr (), r')" and "dget (sr_tool_index r) b \<in> {None, Some key}"
    using Cons.prems by (auto split: option.splits if_splits)
  with Cons.IH[of ?r] show ?case by (auto split: if_splits)
qed simp

lemma index_bound_tools_complete:
  assumes "index_bound_tools spec key r = (Inr (), r')" "registry_sound r" "dget (sr_by_slug r) key = Some spec"
    "\<And>k s a. dget (sr_by_slug r) k = Some s \<Longrightarrow> k \<noteq> key \<Longrightarrow> ss_skill_kind s \<noteq> Kind_FLOW
      \<Longrightarrow> a \<in> set (ss_bound_tools s) \<Longrightarrow> dget (sr_tool_index r) a = Some k"
  shows "registry_complete r'"
proof -
  have slugs: "sr_by_slug r' = sr_by_slug r" using index_bound_tools_slugs[of spec key r] assms(1) by simp
  have sound: "registry_sound r'" using index_bound_tools_sound[OF assms(2,3)] assms(1) by simp
  have keeps: "(ss_skill_kind spec \<noteq> Kind_FLOW \<and> a \<in> set (ss_bound_tools spec) \<longrightarrow> dget (sr_tool_index r') a = Some key)
    \<and> (\<forall>k. dget (sr_tool_index r) a = Some k \<longrightarrow> dget (sr_tool_index r') a = Some k)" for a
    using assms(1) index_actions_covers[of key "ss_bound_tools spec" r r' a]
    by (auto simp: index_bound_tools_def split: if_splits)
  show ?thesis
    unfolding registry_complete_def slugs
  proof (intro conjI allI impI sound)
    fix k s a
    assume s: "dget (sr_by_slug r) k = Some s" "ss_skill_kind s \<noteq> Kind_FLOW" "a \<in> set (ss_bound_tools s)"
    show "dget (sr_tool_index r') a = Some k"
    proof (cases "k = key")
      case True
      then show ?thesis using s assms(3) keeps[of a] by auto
    next
      case False
      from assms(4)[OF s(1) False s(2,3)] keeps[of a] show ?thesis by blast
    qed
  qed
qed

lemma register_complete:
  assumes "registry_complete r" "skill_register s r = (Inr (), r')"
  shows "registry_complete r'"
proof -
  let ?k = "normalize_skill_name (ss_slug s)"
  have none: "dget (sr_by_slug r) ?k = None" and
    i: "index_bound_tools s ?k (r\<lparr>sr_by_slug := dput ?k s (sr_by_slug r)\<rparr>) = (Inr (), r')"
    using assms(2) by (auto simp: skill_register_def Let_def dget_None_iff split: if_splits)
  show ?thesis
    by (rule index_bound_tools_complete[OF i added_sound[OF registry_completeD(2)[OF assms(1)] none]])
      (use registry_completeD(1)[OF assms(1)] in auto)
qed

lemma upsert_complete:
  assumes "registry_complete r" "skill_upsert s r = (Inr (), r')"
  shows "registry_complete r'"
proof (cases "dget (sr_by_slug r) (normalize_skill_name (ss_slug s))")
  case None
  let ?k = "normalize_skill_name (ss_slug s)"
  have i: "index_bound_tools s ?k (r\<lparr>sr_by_slug := dput ?k s (sr_by_slug r)\<rparr>) = (Inr (), r')"
    using assms(2) None by (simp add: skill_upsert_def Let_def)
  show ?thesis
    by (rule index_bound_tools_complete[OF i added_sound[OF registry_completeD(2)[OF assms(1)] None]])
      (use registry_completeD(1)[OF assms(1)] in auto)
next
  case (Some old)
  let ?k = "normalize_skill_name (ss_slug s)"
  let ?r = "r\<lparr>sr_by_slug := ddel ?k (sr_by_slug r),
    sr_tool_index := unindex_actions ?k (ss_bound_tools old) (sr_tool_index r)\<rparr>"
  have i: "index_bound_tools s ?k (?r\<lparr>sr_by_slug := dput ?k s (sr_by_slug ?r)\<rparr>) = (Inr (), r')"
    using assms(2) Some by (simp add: skill_upsert_def Let_def)
  have sound: "registry_sound (?r\<lparr>sr_by_slug := dput ?k s (sr_by_slug ?r)\<rparr>)"
    by (rule added_sound[OF removed_sound[OF registry_completeD(2)[OF assms(1)] Some]]) simp
  show ?thesis
    by (rule index_bound_tools_complete[OF i sound])
      (use registry_completeD(1)[OF assms(1)] in \<open>auto simp: unindexed split: if_splits\<close>)
qed

lemma register_builtins_complete:
  "registry_complete r \<Longrightarrow> register_builtins ss r = Inr r' \<Longrightarrow> registry_complete r'"
  by (induction ss arbitrary: r)
    (auto split: prod.splits sum.splits dest: register_complete)

lemma upsert_others_complete:
  "registry_complete r \<Longrightarrow> upsert_others names ss r = Inr r' \<Longrightarrow> registry_complete r'"
  by (induction ss arbitrary: r)
    (auto split: prod.splits sum.splits if_splits dest: upsert_complete)

lemma build_registry_complete:
  assumes "build_skill_registry builtins customs externals ov = Inr r"
  shows "registry_complete r"
proof -
  have new: "registry_complete new_skill_registry"
    by (simp add: registry_complete_def new_registry_sound) (simp add: new_skill_registry_def)
  let ?names = "set (map (\<lambda>s. normalize_skill_name (ss_slug s)) builtins)"
  obtain r1 r2 r3 where r: "register_builtins builtins new_skill_registry = Inr r1"
    "upsert_others ?names customs r1 = Inr r2" "upsert_others ?names externals r2 = Inr r3"
    "(case ov of None \<Rightarrow> Inr r3
      | Some o' \<Rightarrow> upsert_others {} (map (\<lambda>s. apply_overlay s o') (list_skills r3)) r3) = Inr r"
    using assms by (auto simp: build_skill_registry_def Let_def)
  have "registry_complete r3"
    by (rule upsert_others_complete[OF upsert_others_complete[OF register_builtins_complete[OF new r(1)] r(2)] r(3)])
  with r(4) show ?thesis by (auto split: option.splits dest: upsert_others_complete)
qed

section \<open>Properties\<close>

text \<open>
  In a registry built without an error, every tool a tool skill binds is resolved to that skill,
  whose name is a valid one; so no other tool skill binds the same tool.
\<close>
theorem tools_resolve_to_their_skill:
  assumes "build_skill_registry builtins customs externals ov = Inr r"
    and "s \<in> set (list_skills r)" and "ss_skill_kind s \<noteq> Kind_FLOW" and "a \<in> set (ss_bound_tools s)"
    and "validate_skill_name (ss_slug s) = Inr ()"
  shows "resolve_tool_skill r a = Some s
    \<and> (\<forall>t \<in> set (list_skills r). ss_skill_kind t \<noteq> Kind_FLOW \<and> a \<in> set (ss_bound_tools t) \<longrightarrow> t = s)"
proof -
  note c = build_registry_complete[OF assms(1)]
  have d: "distinct (dkeys (sr_by_slug r))" using registry_completeD(2)[OF c] by (simp add: registry_sound_def)
  have key: "\<exists>k. dget (sr_by_slug r) k = Some t" if "t \<in> set (list_skills r)" for t
    using that d dvals_iff unfolding list_skills_def by fast
  obtain k where k: "dget (sr_by_slug r) k = Some s" using key[OF assms(2)] by blast
  have i: "dget (sr_tool_index r) a = Some k" using registry_completeD(1)[OF c k assms(3,4)] .
  have "normalize_skill_name k = k"
    using registry_soundD(1)[OF registry_completeD(2)[OF c] k] valid_name_normal[OF assms(5)] by simp
  then have "resolve_tool_skill r a = Some s" using i k by (simp add: resolve_tool_skill_def skill_get_def)
  moreover have "t = s" if t: "t \<in> set (list_skills r)" "ss_skill_kind t \<noteq> Kind_FLOW" "a \<in> set (ss_bound_tools t)" for t
  proof -
    obtain l where l: "dget (sr_by_slug r) l = Some t" using key[OF t(1)] by blast
    from registry_completeD(1)[OF c l t(2,3)] i k l show ?thesis by simp
  qed
  ultimately show ?thesis by blast
qed

section \<open>Concrete skills\<close>

definition demo_yaml :: "string \<Rightarrow> string \<Rightarrow> string \<Rightarrow> string \<Rightarrow> pyval res" where
  "demo_yaml name tools role = (\<lambda>_. Inr (PDict [(''name'', PStr name), (''allowed-tools'', PStr tools),
     (''metadata'', PDict [(''role'', PStr role)])]))"

definition demo_text :: string where
  "demo_text = ''---'' @ newline @ ''name: x'' @ newline @ ''---'' @ newline @ ''body'' @ newline"

definition demo_skill :: "string \<Rightarrow> string \<Rightarrow> string \<Rightarrow> skill_source_kind \<Rightarrow> skill_spec" where
  "demo_skill name tools role kind =
     projr (load_skill (demo_yaml name tools role) demo_text name (''skills/'' @ name) (Some kind))"

text \<open>
  Two helper skills that allow the same tool make the registry unbuildable: the second raises
  when its tools are indexed, and no skill at all is loaded.
\<close>
theorem shared_tool_stops_registry:
  "build_skill_registry [demo_skill ''default-log-triage'' ''log.query'' ''playbook'' Src_BUILTIN] []
     [demo_skill ''helper-a'' ''code.read'' ''helper'' Src_EXTERNAL,
      demo_skill ''helper-b'' ''code.read'' ''helper'' Src_EXTERNAL] None
   = Inl (ValueError (''Tool action '' @ repr_str ''code.read'' @ '' already bound to skill '' @ repr_str ''helper-a'' @ '', cannot bind to '' @ repr_str ''helper-b''))"
  by code_simp

theorem tools_resolve_to_their_skill_witness:
  "\<exists>r. build_skill_registry [demo_skill ''default-log-triage'' ''log.query'' ''playbook'' Src_BUILTIN] []
      [demo_skill ''helper-a'' ''code.read'' ''helper'' Src_EXTERNAL] None = Inr r
    \<and> resolve_tool_skill r ''code.read'' = Some (demo_skill ''helper-a'' ''code.read'' ''helper'' Src_EXTERNAL)"
proof -
  let ?s = "demo_skill ''helper-a'' ''code.read'' ''helper'' Src_EXTERNAL"
  let ?b = "build_skill_registry [demo_skill ''default-log-triage'' ''log.query'' ''playbook'' Src_BUILTIN] [] [?s] None"
  have "\<not> isl ?b \<and> map ss_slug (list_skills (projr ?b)) = [''default-log-triage'', ''helper-a'']" by code_simp
  then obtain r where r: "?b = Inr r" by (cases ?b) auto
  have "?s \<in> set (list_skills (projr ?b)) \<and> ss_skill_kind ?s \<noteq> Kind_FLOW \<and> ''code.read'' \<in> set (ss_bound_tools ?s)
    \<and> validate_skill_name (ss_slug ?s) = Inr ()" by code_simp
  then show ?thesis using tools_resolve_to_their_skill[OF r, of ?s "''code.read''"] r by simp
qed

end
