(* ===== verification/Playbook.thy ===== *)
theory Playbook
  imports SkillSystem
begin

text \<open>
  The choice of the playbook a case runs with and the administrator's changes to it
  (\<open>skill_system/playbook.py\<close>), the composition of flows (\<open>composer.py\<close>), and the environment of a
  skill (\<open>env_resolver.py\<close>). A resolver holds the registry and the overlay; its operations may
  raise after they have changed either, so they return the state with the result.
\<close>

section \<open>The resolver (skill_system/playbook.py)\<close>

record playbook_state =
  pb_registry :: skill_registry
  pb_overlay :: skill_overlay

definition default_playbook_name :: string where
  "default_playbook_name = ''default-log-triage''"

definition overlay_entry :: "skill_overlay \<Rightarrow> string \<Rightarrow> pydict" where
  "overlay_entry ov name = (case dget (ov_overlays ov) name of None \<Rightarrow> [] | Some e \<Rightarrow> e)"

definition effective_role :: "skill_overlay \<Rightarrow> skill_spec \<Rightarrow> string" where
  "effective_role ov spec =
     (let entry = overlay_entry ov (normalize_skill_name (ss_name spec))
      in py_str (py_or (py_or (py_get entry ''role'') (py_get (ss_metadata spec) ''role'')) (PStr ''helper'')))"

definition skill_enabled :: "skill_overlay \<Rightarrow> skill_spec \<Rightarrow> bool" where
  "skill_enabled ov spec \<longleftrightarrow>
     (case dget (overlay_entry ov (normalize_skill_name (ss_name spec))) ''enabled'' of
        Some v \<Rightarrow> py_truthy v
      | None \<Rightarrow> py_get_or (ss_metadata spec) ''enabled'' (PBool True) \<noteq> PBool False)"

definition env_keys :: "skill_spec \<Rightarrow> string list" where
  "env_keys spec =
     (case py_get (ss_metadata spec) ''env'' of
        PStr s \<Rightarrow> split_ws s
      | PList xs \<Rightarrow> filter (\<lambda>t. t \<noteq> []) (map (\<lambda>v. py_strip (py_str v)) xs)
      | _ \<Rightarrow> [])"

definition is_current_default :: "skill_overlay \<Rightarrow> string \<Rightarrow> bool" where
  "is_current_default ov name \<longleftrightarrow> name = normalize_skill_name (ov_default_playbook ov)"

fun source_kind_value :: "skill_source_kind \<Rightarrow> string" where
  "source_kind_value Src_BUILTIN = ''builtin''"
| "source_kind_value Src_CUSTOM = ''custom''"
| "source_kind_value Src_GENERATED = ''generated''"
| "source_kind_value Src_EXTERNAL = ''external''"

fun skill_kind_value :: "skill_kind \<Rightarrow> string" where
  "skill_kind_value Kind_FLOW = ''flow''"
| "skill_kind_value Kind_TOOL = ''tool''"
| "skill_kind_value Kind_TOOL_GROUP = ''tool_group''"

definition public_item :: "skill_overlay \<Rightarrow> skill_spec \<Rightarrow> pydict" where
  "public_item ov spec =
     [(''name'', PStr (ss_name spec)), (''slug'', PStr (ss_name spec)),
      (''description'', PStr (ss_description spec)), (''role'', PStr (effective_role ov spec)),
      (''enabled'', PBool (skill_enabled ov spec)),
      (''source_kind'', PStr (source_kind_value (ss_source_kind spec))),
      (''is_default'', PBool (is_current_default ov (normalize_skill_name (ss_name spec)))),
      (''allowed-tools'', PList (map PStr (ss_bound_tools spec))),
      (''env'', PList (map PStr (env_keys spec))), (''version'', PStr (ss_version spec)),
      (''skill_kind'', PStr (skill_kind_value (ss_skill_kind spec))),
      (''tags'', PList (map PStr (ss_tags spec))),
      (''required_tools'', PList (map PStr (ss_required_tools spec))),
      (''bound_tools'', PList (map PStr (ss_bound_tools spec)))]"

subsection \<open>Choosing a playbook\<close>

definition usable_playbook :: "playbook_state \<Rightarrow> string \<Rightarrow> skill_spec option" where
  "usable_playbook st name =
     (case skill_get (pb_registry st) name of
        None \<Rightarrow> None
      | Some spec \<Rightarrow>
          (if \<not> skill_enabled (pb_overlay st) spec then None
           else if effective_role (pb_overlay st) spec \<noteq> ''playbook'' then None
           else Some spec))"

definition first_selected :: "pydict \<Rightarrow> string option" where
  "first_selected metadata =
     (case py_get metadata ''selected_skills'' of
        PList (PStr s # _) \<Rightarrow> (if py_strip s \<noteq> [] then Some s else None)
      | _ \<Rightarrow> None)"

definition preferred_text :: "pydict \<Rightarrow> string option" where
  "preferred_text metadata =
     (case py_or (py_get metadata ''preferred_skill'') (py_get metadata ''skill_slug'') of
        PStr s \<Rightarrow> (if py_strip s \<noteq> [] then Some s else first_selected metadata)
      | _ \<Rightarrow> first_selected metadata)"

definition preferred_name :: "case_create_request \<Rightarrow> string option" where
  "preferred_name req = map_option normalize_skill_name (preferred_text (cq_metadata req))"

definition resolve_candidates :: "playbook_state \<Rightarrow> case_create_request \<Rightarrow> string list" where
  "resolve_candidates st req =
     (case preferred_name req of None \<Rightarrow> [] | Some p \<Rightarrow> (if p = [] then [] else [p]))
     @ (let d = normalize_skill_name (ov_default_playbook (pb_overlay st)) in if d = [] then [] else [d])
     @ [default_playbook_name]"

fun first_usable :: "playbook_state \<Rightarrow> string set \<Rightarrow> string list \<Rightarrow> skill_spec option" where
  "first_usable st seen [] = None"
| "first_usable st seen (n # ns) =
     (if n \<in> seen then first_usable st seen ns
      else case usable_playbook st n of
             Some spec \<Rightarrow> Some spec
           | None \<Rightarrow> first_usable st (insert n seen) ns)"

definition resolve_playbook :: "playbook_state \<Rightarrow> case_create_request \<Rightarrow> skill_spec res" where
  "resolve_playbook st req =
     (case first_usable st {} (resolve_candidates st req) of
        Some spec \<Rightarrow> Inr spec
      | None \<Rightarrow> Inl (SkillError ''SKILL_DEFAULT_UNAVAILABLE'' ''no enabled playbook available''))"

subsection \<open>Changing the overlay\<close>

definition can_fallback_to_builtin :: "playbook_state \<Rightarrow> string \<Rightarrow> bool" where
  "can_fallback_to_builtin st disabled \<longleftrightarrow>
     normalize_skill_name disabled \<noteq> default_playbook_name
     \<and> usable_playbook st default_playbook_name \<noteq> None"

definition require_builtin_fallback :: "playbook_state \<Rightarrow> string \<Rightarrow> unit res" where
  "require_builtin_fallback st disabled =
     (if can_fallback_to_builtin st disabled then Inr ()
      else Inl (SkillError ''SKILL_DEFAULT_REQUIRED''
             ''cannot remove the current default playbook without an enabled builtin fallback''))"

definition put_entry :: "string \<Rightarrow> string \<Rightarrow> pyval \<Rightarrow> skill_overlay \<Rightarrow> skill_overlay" where
  "put_entry name k v ov =
     ov\<lparr>ov_overlays := dput name (dput k v (overlay_entry ov name)) (ov_overlays ov)\<rparr>"

definition set_default_name :: "string \<Rightarrow> playbook_state \<Rightarrow> playbook_state" where
  "set_default_name name st = st\<lparr>pb_overlay := (pb_overlay st)\<lparr>ov_default_playbook := name\<rparr>\<rparr>"

definition upsert_overlaid :: "skill_spec \<Rightarrow> playbook_state \<Rightarrow> unit res \<times> playbook_state" where
  "upsert_overlaid spec st =
     (case skill_upsert (apply_overlay spec (pb_overlay st)) (pb_registry st) of
        (r, reg) \<Rightarrow> (r, st\<lparr>pb_registry := reg\<rparr>))"

definition write_enabled :: "string \<Rightarrow> bool \<Rightarrow> playbook_state \<Rightarrow> unit res \<times> playbook_state" where
  "write_enabled name enabled st =
     (let st1 = st\<lparr>pb_overlay := put_entry name ''enabled'' (PBool enabled) (pb_overlay st)\<rparr>
      in case skill_get (pb_registry st1) name of
           None \<Rightarrow> (Inr (), st1)
         | Some spec \<Rightarrow> upsert_overlaid spec st1)"

definition skill_not_found :: "string \<Rightarrow> pyerr" where
  "skill_not_found name = SkillError ''SKILL_DEFAULT_UNAVAILABLE'' (''skill not found: '' @ name)"

definition set_role :: "string \<Rightarrow> string \<Rightarrow> playbook_state \<Rightarrow> unit res \<times> playbook_state" where
  "set_role raw role st =
     (let name = normalize_skill_name raw in
      case skill_get (pb_registry st) name of
        None \<Rightarrow> (Inl (skill_not_found name), st)
      | Some spec \<Rightarrow>
          (if role \<notin> {''playbook'', ''helper''}
           then (Inl (SkillError ''SKILL_INVALID_PACKAGE'' (''invalid role: '' @ role)), st)
           else upsert_overlaid spec
                  (st\<lparr>pb_overlay := put_entry name ''role'' (PStr role) (pb_overlay st)\<rparr>)))"

definition set_default :: "string \<Rightarrow> playbook_state \<Rightarrow> unit res \<times> playbook_state" where
  "set_default raw st =
     (let name = normalize_skill_name raw in
      case skill_get (pb_registry st) name of
        None \<Rightarrow> (Inl (SkillError ''SKILL_NOT_PLAYBOOK'' (''skill is not a playbook: '' @ name)), st)
      | Some spec \<Rightarrow>
          (if effective_role (pb_overlay st) spec \<noteq> ''playbook''
           then (Inl (SkillError ''SKILL_NOT_PLAYBOOK'' (''skill is not a playbook: '' @ name)), st)
           else if \<not> skill_enabled (pb_overlay st) spec
           then (Inl (SkillError ''SKILL_DEFAULT_UNAVAILABLE'' (''playbook is disabled: '' @ name)), st)
           else (Inr (), set_default_name name st)))"

definition set_enabled :: "string \<Rightarrow> bool \<Rightarrow> playbook_state \<Rightarrow> unit res \<times> playbook_state" where
  "set_enabled raw enabled st =
     (let name = normalize_skill_name raw in
      case skill_get (pb_registry st) name of
        None \<Rightarrow> (Inl (skill_not_found name), st)
      | Some spec \<Rightarrow>
          (if \<not> enabled \<and> is_current_default (pb_overlay st) name then
             (case require_builtin_fallback st name of
                Inl e \<Rightarrow> (Inl e, st)
              | Inr _ \<Rightarrow>
                  (case write_enabled name False st of
                     (Inl e, st1) \<Rightarrow> (Inl e, st1)
                   | (Inr _, st1) \<Rightarrow> (Inr (), set_default_name default_playbook_name st1)))
           else write_enabled name enabled st))"

definition delete_user_skill :: "string \<Rightarrow> playbook_state \<Rightarrow> unit res \<times> playbook_state" where
  "delete_user_skill raw st =
     (let name = normalize_skill_name raw in
      case skill_get (pb_registry st) name of
        None \<Rightarrow> (Inr (), st)
      | Some spec \<Rightarrow>
          (if ss_source_kind spec \<notin> {Src_CUSTOM, Src_EXTERNAL}
           then (Inl (SkillError ''SKILL_BUILTIN_PROTECTED'' (''cannot delete builtin skill: '' @ name)), st)
           else
             (let remove = (\<lambda>st1. (Inr (),
                    st1\<lparr>pb_registry := snd (skill_unregister name (pb_registry st1)),
                        pb_overlay := (pb_overlay st1)\<lparr>ov_overlays := ddel name (ov_overlays (pb_overlay st1))\<rparr>\<rparr>))
              in if is_current_default (pb_overlay st) name then
                   (case require_builtin_fallback st name of
                      Inl e \<Rightarrow> (Inl e, st)
                    | Inr _ \<Rightarrow> remove (set_default_name default_playbook_name st))
                 else remove st)))"

section \<open>Flows (skill_system/composer.py)\<close>

definition case_trigger :: "case_create_request \<Rightarrow> string" where
  "case_trigger req =
     (let source = py_lower (py_strip (cq_source req)) in
      if source \<in> {''replay'', ''case-replay''} then ''replay''
      else if source \<in> {''error-chat'', ''error_chat'', ''admin-error-chat''} then ''error_chat''
      else ''webhook_alarm'')"

definition flow_candidates :: "skill_registry \<Rightarrow> string set \<Rightarrow> string \<Rightarrow> skill_spec list" where
  "flow_candidates r tools trigger =
     (let flows = list_by_kind Kind_FLOW r;
          hits = filter (\<lambda>f. trigger \<in> set (ss_triggers f) \<or> ss_triggers f = []) flows;
          matched = sort_key (\<lambda>f. (if trigger \<in> set (ss_triggers f) then 0 else 1 :: nat))
                      (sort_key ss_slug (if hits = [] then flows else hits));
          ready = filter (\<lambda>f. ss_required_tools f = [] \<or> set (ss_required_tools f) \<subseteq> tools) matched
      in if tools = {} then matched else if ready = [] then matched else ready)"

definition preferred_flow_slug :: "case_create_request \<Rightarrow> string option" where
  "preferred_flow_slug req = map_option py_strip (preferred_text (cq_metadata req))"

definition compose_plan ::
    "skill_registry \<Rightarrow> string \<Rightarrow> string set \<Rightarrow> case_create_request \<Rightarrow> (string \<times> skill_step_definition list) res" where
  "compose_plan r default_flow tools req =
     (let plan = (\<lambda>s. (ss_slug s, ss_steps s));
          preferred = (case preferred_flow_slug req of None \<Rightarrow> None | Some p \<Rightarrow> skill_get r p)
      in case preferred of
           Some s \<Rightarrow>
             (if ss_skill_kind s = Kind_FLOW then Inr (plan s)
              else (case flow_candidates r tools (case_trigger req) of
                      c # _ \<Rightarrow> Inr (plan c)
                    | [] \<Rightarrow> (case skill_get r default_flow of
                              None \<Rightarrow> Inl (ValueError (''Default flow skill not found: '' @ default_flow))
                            | Some d \<Rightarrow> Inr (plan d))))
         | None \<Rightarrow>
             (case flow_candidates r tools (case_trigger req) of
                c # _ \<Rightarrow> Inr (plan c)
              | [] \<Rightarrow> (case skill_get r default_flow of
                        None \<Rightarrow> Inl (ValueError (''Default flow skill not found: '' @ default_flow))
                      | Some d \<Rightarrow> Inr (plan d))))"

section \<open>Facts about the resolver\<close>

lemma unregister_complete:
  assumes "registry_complete r"
  shows "registry_complete (snd (skill_unregister n r))"
proof (cases "dget (sr_by_slug r) (normalize_skill_name n)")
  case None
  then show ?thesis using assms by (simp add: skill_unregister_def Let_def)
next
  case (Some old)
  note sound = unregister_sound[OF registry_completeD(2)[OF assms], of n]
  have u: "snd (skill_unregister n r) = r\<lparr>sr_by_slug := ddel (normalize_skill_name n) (sr_by_slug r),
      sr_tool_index := unindex_actions (normalize_skill_name n) (ss_bound_tools old) (sr_tool_index r)\<rparr>"
    using Some by (simp add: skill_unregister_def Let_def)
  show ?thesis
    unfolding registry_complete_def
  proof (intro conjI allI impI sound)
    fix k s a
    assume "dget (sr_by_slug (snd (skill_unregister n r))) k = Some s" "ss_skill_kind s \<noteq> Kind_FLOW"
      "a \<in> set (ss_bound_tools s)"
    then show "dget (sr_tool_index (snd (skill_unregister n r))) a = Some k"
      using registry_completeD(1)[OF assms, of k s a] unfolding u by (auto simp: unindexed split: if_splits)
  qed
qed

lemma index_actions_succeeds:
  "(\<And>a. a \<in> set as \<Longrightarrow> dget (sr_tool_index r) a \<in> {None, Some key}) \<Longrightarrow> fst (index_actions key as r) = Inr ()"
proof (induction as arbitrary: r)
  case (Cons b as)
  have "fst (index_actions key as (r\<lparr>sr_tool_index := dput b key (sr_tool_index r)\<rparr>)) = Inr ()"
    by (rule Cons.IH) (use Cons.prems in auto)
  moreover have "dget (sr_tool_index r) b \<in> {None, Some key}" using Cons.prems by simp
  ultimately show ?case by auto
qed simp

text \<open>Replacing a skill of a complete registry by one with the same tools never raises.\<close>

lemma upsert_same_succeeds:
  assumes "registry_complete r" "dget (sr_by_slug r) (normalize_skill_name (ss_slug t)) = Some s"
    "ss_bound_tools t = ss_bound_tools s" "ss_skill_kind t = ss_skill_kind s"
  shows "\<exists>r'. skill_upsert t r = (Inr (), r') \<and> registry_complete r'"
proof -
  let ?k = "normalize_skill_name (ss_slug t)"
  have "fst (skill_upsert t r) = Inr ()"
  proof (cases "ss_skill_kind t = Kind_FLOW")
    case True
    then show ?thesis using assms(2) by (simp add: skill_upsert_def Let_def index_bound_tools_def)
  next
    case False
    have "dget (unindex_actions ?k (ss_bound_tools s) (sr_tool_index r)) a \<in> {None, Some ?k}"
      if "a \<in> set (ss_bound_tools t)" for a
      using registry_completeD(1)[OF assms(1,2), of a] that False assms(3,4) by (simp add: unindexed)
    then have "fst (index_actions ?k (ss_bound_tools t) (r\<lparr>sr_tool_index := unindex_actions ?k (ss_bound_tools s) (sr_tool_index r),
        sr_by_slug := by_slug\<rparr>)) = Inr ()" for by_slug
      by (intro index_actions_succeeds) simp
    then show ?thesis
      using assms(2) False by (simp add: skill_upsert_def Let_def index_bound_tools_def)
  qed
  then show ?thesis using upsert_complete[OF assms(1)] by (metis prod.collapse)
qed

lemma usable_playbook_iff:
  "usable_playbook st n = Some spec \<longleftrightarrow> skill_get (pb_registry st) n = Some spec
     \<and> skill_enabled (pb_overlay st) spec \<and> effective_role (pb_overlay st) spec = ''playbook''"
  by (auto simp: usable_playbook_def split: option.splits)

lemma usable_frame:
  assumes "skill_get (pb_registry st') n = skill_get (pb_registry st) n"
    and "\<And>s. skill_get (pb_registry st) n = Some s \<Longrightarrow>
      overlay_entry (pb_overlay st') (normalize_skill_name (ss_name s)) = overlay_entry (pb_overlay st) (normalize_skill_name (ss_name s))"
  shows "usable_playbook st' n = usable_playbook st n"
proof (cases "skill_get (pb_registry st) n")
  case None
  then show ?thesis using assms(1) by (simp add: usable_playbook_def)
next
  case (Some s)
  have "skill_enabled (pb_overlay st') s = skill_enabled (pb_overlay st) s"
    "effective_role (pb_overlay st') s = effective_role (pb_overlay st) s"
    unfolding skill_enabled_def effective_role_def assms(2)[OF Some] by simp_all
  then show ?thesis using assms(1) Some by (simp add: usable_playbook_def)
qed

text \<open>What the administrator's changes keep: the default playbook is there, enabled and a playbook.\<close>

definition roles_valid :: "skill_overlay \<Rightarrow> bool" where
  "roles_valid ov \<longleftrightarrow> (\<forall>n v. dget (overlay_entry ov n) ''role'' = Some v \<longrightarrow> v \<in> {PStr ''playbook'', PStr ''helper''})"

definition skills_named :: "skill_registry \<Rightarrow> bool" where
  "skills_named r \<longleftrightarrow>
     (\<forall>k s. dget (sr_by_slug r) k = Some s \<longrightarrow> normalize_skill_name (ss_name s) = k \<and> normalize_skill_name k = k)"

definition playbook_inv :: "playbook_state \<Rightarrow> bool" where
  "playbook_inv st \<longleftrightarrow>
     registry_complete (pb_registry st) \<and> skills_named (pb_registry st) \<and> roles_valid (pb_overlay st)
     \<and> normalize_skill_name (ov_default_playbook (pb_overlay st)) = ov_default_playbook (pb_overlay st)
     \<and> usable_playbook st (ov_default_playbook (pb_overlay st)) \<noteq> None"

lemma playbook_invD:
  assumes "playbook_inv st"
  shows "registry_complete (pb_registry st)" "skills_named (pb_registry st)" "roles_valid (pb_overlay st)"
    "normalize_skill_name (ov_default_playbook (pb_overlay st)) = ov_default_playbook (pb_overlay st)"
    "usable_playbook st (ov_default_playbook (pb_overlay st)) \<noteq> None"
  using assms by (simp_all add: playbook_inv_def)

lemma default_name_normal [simp]: "normalize_skill_name default_playbook_name = default_playbook_name"
  by code_simp

lemma overlay_entry_put:
  "overlay_entry (put_entry n k v ov) m = (if m = n then dput k v (overlay_entry ov n) else overlay_entry ov m)"
  by (simp add: overlay_entry_def put_entry_def)

text \<open>Upserting a stored skill with its overlay: nothing but that skill's metadata changes.\<close>

lemma upsert_overlaid_spec:
  assumes "registry_complete (pb_registry st)" "skills_named (pb_registry st)"
    "skill_get (pb_registry st) n = Some s" "normalize_skill_name n = n"
  shows "\<exists>reg. upsert_overlaid s st = (Inr (), st\<lparr>pb_registry := reg\<rparr>) \<and> registry_complete reg \<and> skills_named reg
    \<and> (\<forall>k. dget (sr_by_slug reg) k = (if k = n then Some (apply_overlay s (pb_overlay st))
           else dget (sr_by_slug (pb_registry st)) k))"
proof -
  have s: "dget (sr_by_slug (pb_registry st)) n = Some s" using assms(3,4) by (simp add: skill_get_def)
  have slug: "normalize_skill_name (ss_slug s) = n"
    using registry_soundD(1)[OF registry_completeD(2)[OF assms(1)] s] .
  let ?t = "apply_overlay s (pb_overlay st)"
  obtain reg where reg: "skill_upsert ?t (pb_registry st) = (Inr (), reg)" "registry_complete reg"
    using upsert_same_succeeds[OF assms(1), of ?t s] s slug by auto
  have get: "dget (sr_by_slug reg) k = (if k = n then Some ?t else dget (sr_by_slug (pb_registry st)) k)" for k
    using upsert_get[of ?t "pb_registry st" k] reg(1) slug by simp
  have "skills_named reg" using assms(2) s unfolding skills_named_def get by auto
  then show ?thesis using reg get by (auto simp: upsert_overlaid_def)
qed

lemma write_enabled_spec:
  assumes "playbook_inv st" "normalize_skill_name n = n" "skill_get (pb_registry st) n = Some s"
  shows "\<exists>reg. write_enabled n e st = (Inr (), st\<lparr>pb_overlay := put_entry n ''enabled'' (PBool e) (pb_overlay st), pb_registry := reg\<rparr>)
    \<and> registry_complete reg \<and> skills_named reg
    \<and> (\<forall>k. dget (sr_by_slug reg) k =
         (if k = n then Some (apply_overlay s (put_entry n ''enabled'' (PBool e) (pb_overlay st)))
          else dget (sr_by_slug (pb_registry st)) k))"
  using upsert_overlaid_spec[of "st\<lparr>pb_overlay := put_entry n ''enabled'' (PBool e) (pb_overlay st)\<rparr>" n s]
    playbook_invD(1,2)[OF assms(1)] assms(2,3)
  by (auto simp: write_enabled_def Let_def)

lemma roles_valid_put: "roles_valid ov \<Longrightarrow> k \<noteq> ''role'' \<Longrightarrow> roles_valid (put_entry n k v ov)"
  by (simp add: roles_valid_def overlay_entry_put)

lemma other_usable:
  assumes "skills_named (pb_registry st)" "m \<noteq> n" "normalize_skill_name m = m"
    "\<And>k. k \<noteq> n \<Longrightarrow> dget (sr_by_slug (pb_registry st')) k = dget (sr_by_slug (pb_registry st)) k"
    "\<And>k. k \<noteq> n \<Longrightarrow> overlay_entry (pb_overlay st') k = overlay_entry (pb_overlay st) k"
  shows "usable_playbook st' m = usable_playbook st m"
proof (rule usable_frame)
  show "skill_get (pb_registry st') m = skill_get (pb_registry st) m"
    using assms(2-4) by (simp add: skill_get_def)
  fix s
  assume "skill_get (pb_registry st) m = Some s"
  then have "normalize_skill_name (ss_name s) = m" using assms(1,3) by (simp add: skills_named_def skill_get_def)
  then show "overlay_entry (pb_overlay st') (normalize_skill_name (ss_name s))
    = overlay_entry (pb_overlay st) (normalize_skill_name (ss_name s))" using assms(2,5) by simp
qed

text \<open>An enabled skill keeps its role: a role of its overlay entry is copied into its metadata as it is.\<close>

lemma enabled_role_kept:
  assumes "roles_valid ov" "normalize_skill_name (ss_name s) = n" "normalize_skill_name (ss_slug s) = n"
  shows "effective_role (put_entry n ''enabled'' v ov) (apply_overlay s (put_entry n ''enabled'' v ov)) = effective_role ov s"
proof -
  let ?e = "overlay_entry ov n" and ?e' = "dput ''enabled'' v (overlay_entry ov n)"
  have entry: "dget (ov_overlays (put_entry n ''enabled'' v ov)) n = Some ?e'" "?e' \<noteq> []"
    by (simp_all add: put_entry_def)
  have same: "py_get ?e' ''role'' = py_get ?e ''role''" "dget ?e' ''role'' = dget ?e ''role''"
    by (simp_all add: py_get_or_def)
  show ?thesis
  proof (cases "dget ?e ''role''")
    case None
    then show ?thesis
      using assms(2,3) entry same
      by (simp add: effective_role_def overlay_entry_put apply_overlay_def copy_key_def py_get_or_def)
  next
    case (Some w)
    then have "w = PStr ''playbook'' \<or> w = PStr ''helper''" using assms(1) by (auto simp: roles_valid_def)
    then have "py_truthy w" by auto
    then show ?thesis
      using Some assms(2,3) entry same
      by (simp add: effective_role_def overlay_entry_put apply_overlay_def copy_key_def py_get_or_def py_or_def)
  qed
qed

section \<open>Changes keep the default playbook\<close>

lemma set_enabled_inv:
  assumes "playbook_inv st" "normalize_skill_name (normalize_skill_name raw) = normalize_skill_name raw"
  shows "playbook_inv (snd (set_enabled raw e st))"
proof -
  let ?n = "normalize_skill_name raw" and ?d = "ov_default_playbook (pb_overlay st)"
  note inv = playbook_invD[OF assms(1)]
  show ?thesis
  proof (cases "skill_get (pb_registry st) ?n")
    case None
    then show ?thesis using assms(1) by (simp add: set_enabled_def Let_def)
  next
    case (Some s)
    define ov where "ov = put_entry ?n ''enabled'' (PBool e) (pb_overlay st)"
    obtain reg where w: "write_enabled ?n e st = (Inr (), st\<lparr>pb_overlay := ov, pb_registry := reg\<rparr>)"
      and reg: "registry_complete reg" "skills_named reg"
      and get: "\<And>k. dget (sr_by_slug reg) k = (if k = ?n then Some (apply_overlay s ov) else dget (sr_by_slug (pb_registry st)) k)"
      using write_enabled_spec[OF assms(1,2) Some, of e] unfolding ov_def by blast
    let ?st = "st\<lparr>pb_overlay := ov, pb_registry := reg\<rparr>"
    have valid: "roles_valid ov" unfolding ov_def using inv(3) by (rule roles_valid_put) simp
    have entries: "overlay_entry ov k = overlay_entry (pb_overlay st) k" if "k \<noteq> ?n" for k
      using that by (simp add: ov_def overlay_entry_put)
    have other: "usable_playbook ?st m = usable_playbook st m" if "m \<noteq> ?n" "normalize_skill_name m = m" for m
      by (rule other_usable[OF inv(2) that]) (simp_all add: get entries)
    have d: "ov_default_playbook ov = ?d" by (simp add: ov_def put_entry_def)
    show ?thesis
    proof (cases "\<not> e \<and> is_current_default (pb_overlay st) ?n")
      case True
      show ?thesis
      proof (cases "can_fallback_to_builtin st ?n")
        case False
        then show ?thesis
          using True Some assms(1) by (simp add: set_enabled_def Let_def require_builtin_fallback_def)
      next
        case fb: True
        let ?D = default_playbook_name
        have D: "?D \<noteq> ?n" "usable_playbook st ?D \<noteq> None"
          using fb assms(2) by (auto simp: can_fallback_to_builtin_def)
        have out: "snd (set_enabled raw e st) = set_default_name ?D ?st"
          using fb True Some w by (simp add: set_enabled_def Let_def require_builtin_fallback_def)
        have "usable_playbook (set_default_name ?D ?st) ?D = usable_playbook ?st ?D"
          by (rule usable_frame) (simp_all add: set_default_name_def overlay_entry_def)
        moreover have "roles_valid (pb_overlay (set_default_name ?D ?st))"
          using valid by (simp add: roles_valid_def set_default_name_def overlay_entry_def)
        ultimately show ?thesis
          using reg D other[of ?D] unfolding out playbook_inv_def by (simp add: set_default_name_def)
      qed
    next
      case False
      have out: "snd (set_enabled raw e st) = ?st" using False Some w by (auto simp: set_enabled_def Let_def)
      have "usable_playbook ?st ?d \<noteq> None"
      proof (cases "?d = ?n")
        case False
        then show ?thesis using other[OF False inv(4)] inv(5) by simp
      next
        case dn: True
        then have e: "e" using False inv(4) by (simp add: is_current_default_def)
        have s: "dget (sr_by_slug (pb_registry st)) ?n = Some s" using Some assms(2) by (simp add: skill_get_def)
        have names: "normalize_skill_name (ss_name s) = ?n" "normalize_skill_name (ss_slug s) = ?n"
          using inv(2) s registry_soundD(1)[OF registry_completeD(2)[OF inv(1)] s] by (simp_all add: skills_named_def)
        have "effective_role (pb_overlay st) s = ''playbook''"
          using inv(5) Some dn by (auto simp: usable_playbook_def split: if_splits)
        then have "effective_role ov (apply_overlay s ov) = ''playbook''"
          unfolding ov_def using enabled_role_kept[OF inv(3) names] by simp
        moreover have "skill_enabled ov (apply_overlay s ov)"
          using names e by (simp add: skill_enabled_def ov_def overlay_entry_put)
        moreover have "skill_get reg ?n = Some (apply_overlay s ov)" using get assms(2) by (simp add: skill_get_def)
        ultimately show ?thesis using dn by (simp add: usable_playbook_def)
      qed
      then show ?thesis using reg valid inv(4) d unfolding out playbook_inv_def by simp
    qed
  qed
qed

lemma set_default_inv:
  assumes "playbook_inv st" "normalize_skill_name (normalize_skill_name raw) = normalize_skill_name raw"
  shows "playbook_inv (snd (set_default raw st))"
proof -
  let ?n = "normalize_skill_name raw"
  note inv = playbook_invD[OF assms(1)]
  have frame: "usable_playbook (set_default_name ?n st) ?n = usable_playbook st ?n"
    by (rule usable_frame) (simp_all add: set_default_name_def overlay_entry_def)
  have valid: "roles_valid (pb_overlay (set_default_name ?n st))"
    using inv(3) by (simp add: roles_valid_def set_default_name_def overlay_entry_def)
  consider "snd (set_default raw st) = st"
    | "snd (set_default raw st) = set_default_name ?n st" "usable_playbook st ?n \<noteq> None"
  proof (cases "usable_playbook st ?n")
    case None
    then have "snd (set_default raw st) = st"
      by (cases "skill_get (pb_registry st) ?n")
        (simp_all add: set_default_def Let_def usable_playbook_def split: if_splits)
    then show thesis by (rule that(1))
  next
    case (Some s)
    then have "snd (set_default raw st) = set_default_name ?n st"
      by (simp add: set_default_def Let_def usable_playbook_iff)
    then show thesis by (rule that(2)) (simp add: Some)
  qed
  then show ?thesis
  proof cases
    case 2
    then show ?thesis
      using inv(1,2) assms(2) frame valid unfolding 2(1) playbook_inv_def by (simp add: set_default_name_def)
  qed (use assms(1) in simp)
qed

lemma remove_inv:
  assumes "playbook_inv st" "normalize_skill_name n = n" "d \<noteq> n" "normalize_skill_name d = d"
    "usable_playbook st d \<noteq> None"
    "st' = st\<lparr>pb_registry := snd (skill_unregister n (pb_registry st)),
      pb_overlay := (pb_overlay st)\<lparr>ov_default_playbook := d, ov_overlays := ddel n (ov_overlays (pb_overlay st))\<rparr>\<rparr>"
  shows "playbook_inv st'"
proof -
  note inv = playbook_invD[OF assms(1)]
  have get: "dget (sr_by_slug (pb_registry st')) k = (if k = n then None else dget (sr_by_slug (pb_registry st)) k)" for k
    using assms(2,6) by (simp add: unregister_get)
  have entries: "overlay_entry (pb_overlay st') k = (if k = n then [] else overlay_entry (pb_overlay st) k)" for k
    by (simp add: assms(6) overlay_entry_def)
  have "usable_playbook st' d = usable_playbook st d"
    by (rule other_usable[OF inv(2) assms(3,4)]) (simp_all add: get entries)
  moreover have "skills_named (pb_registry st')" using inv(2) by (simp add: skills_named_def get)
  moreover have "roles_valid (pb_overlay st')" using inv(3) by (simp add: roles_valid_def entries)
  moreover have "registry_complete (pb_registry st')" using unregister_complete[OF inv(1)] assms(6) by simp
  ultimately show ?thesis using assms(4-6) by (simp add: playbook_inv_def)
qed

lemma same_default [simp]: "ov\<lparr>ov_default_playbook := ov_default_playbook ov, ov_overlays := m\<rparr> = ov\<lparr>ov_overlays := m\<rparr>"
  by (cases ov) simp

lemma delete_cases:
  fixes raw st
  defines "n \<equiv> normalize_skill_name raw"
  shows "snd (delete_user_skill raw st) = st
    \<or> (snd (delete_user_skill raw st) = st\<lparr>pb_registry := snd (skill_unregister n (pb_registry st)),
          pb_overlay := (pb_overlay st)\<lparr>ov_default_playbook := default_playbook_name,
            ov_overlays := ddel n (ov_overlays (pb_overlay st))\<rparr>\<rparr> \<and> can_fallback_to_builtin st n)
    \<or> (snd (delete_user_skill raw st) = st\<lparr>pb_registry := snd (skill_unregister n (pb_registry st)),
          pb_overlay := (pb_overlay st)\<lparr>ov_default_playbook := ov_default_playbook (pb_overlay st),
            ov_overlays := ddel n (ov_overlays (pb_overlay st))\<rparr>\<rparr>
        \<and> n \<noteq> normalize_skill_name (ov_default_playbook (pb_overlay st)))"
proof (cases "skill_get (pb_registry st) n")
  case None
  then show ?thesis by (simp add: delete_user_skill_def Let_def n_def)
next
  case (Some s)
  show ?thesis
  proof (cases "ss_source_kind s \<in> {Src_CUSTOM, Src_EXTERNAL}")
    case False
    then show ?thesis using Some by (simp add: delete_user_skill_def Let_def n_def)
  next
    case user: True
    show ?thesis
    proof (cases "is_current_default (pb_overlay st) n")
      case True
      then show ?thesis
        using Some user unfolding delete_user_skill_def Let_def n_def[symmetric]
        by (cases "can_fallback_to_builtin st n") (simp_all add: require_builtin_fallback_def set_default_name_def)
    next
      case False
      then show ?thesis
        using Some user unfolding delete_user_skill_def Let_def n_def[symmetric]
        by (simp add: is_current_default_def)
    qed
  qed
qed

lemma delete_inv:
  assumes "playbook_inv st" "normalize_skill_name (normalize_skill_name raw) = normalize_skill_name raw"
  shows "playbook_inv (snd (delete_user_skill raw st))"
proof -
  let ?n = "normalize_skill_name raw" and ?d = "ov_default_playbook (pb_overlay st)"
  note inv = playbook_invD[OF assms(1)]
  consider "snd (delete_user_skill raw st) = st"
    | "snd (delete_user_skill raw st) = st\<lparr>pb_registry := snd (skill_unregister ?n (pb_registry st)),
      pb_overlay := (pb_overlay st)\<lparr>ov_default_playbook := default_playbook_name,
        ov_overlays := ddel ?n (ov_overlays (pb_overlay st))\<rparr>\<rparr>" "can_fallback_to_builtin st ?n"
    | "snd (delete_user_skill raw st) = st\<lparr>pb_registry := snd (skill_unregister ?n (pb_registry st)),
      pb_overlay := (pb_overlay st)\<lparr>ov_default_playbook := ?d,
        ov_overlays := ddel ?n (ov_overlays (pb_overlay st))\<rparr>\<rparr>" "?n \<noteq> ?d"
    using delete_cases[of raw st] inv(4) by metis
  then show ?thesis
  proof cases
    case 2
    then have "default_playbook_name \<noteq> ?n" "usable_playbook st default_playbook_name \<noteq> None"
      using assms(2) by (auto simp: can_fallback_to_builtin_def)
    from remove_inv[OF assms(1,2) this(1) default_name_normal this(2) 2(1)] show ?thesis .
  next
    case 3
    from remove_inv[OF assms(1,2) 3(2)[symmetric] inv(4,5) 3(1)] show ?thesis .
  qed (use assms(1) in simp)
qed

section \<open>Properties\<close>

datatype playbook_change = Change_default string | Change_enabled string bool | Delete_skill string

fun apply_change :: "playbook_change \<Rightarrow> playbook_state \<Rightarrow> unit res \<times> playbook_state" where
  "apply_change (Change_default n) st = set_default n st"
| "apply_change (Change_enabled n e) st = set_enabled n e st"
| "apply_change (Delete_skill n) st = delete_user_skill n st"

fun change_name :: "playbook_change \<Rightarrow> string" where
  "change_name (Change_default n) = n"
| "change_name (Change_enabled n e) = n"
| "change_name (Delete_skill n) = n"

definition apply_changes :: "playbook_change list \<Rightarrow> playbook_state \<Rightarrow> playbook_state" where
  "apply_changes cs st = foldl (\<lambda>st c. snd (apply_change c st)) st cs"

lemma apply_change_inv:
  "playbook_inv st \<Longrightarrow> normalize_skill_name (normalize_skill_name (change_name c)) = normalize_skill_name (change_name c)
   \<Longrightarrow> playbook_inv (snd (apply_change c st))"
  by (cases c) (simp_all add: set_default_inv set_enabled_inv delete_inv)

lemma apply_changes_inv:
  "playbook_inv st \<Longrightarrow> \<forall>c \<in> set cs. normalize_skill_name (normalize_skill_name (change_name c)) = normalize_skill_name (change_name c)
   \<Longrightarrow> playbook_inv (apply_changes cs st)"
  unfolding apply_changes_def by (induction cs arbitrary: st) (auto intro: apply_change_inv)

lemma first_usable_Some: "first_usable st seen ns = Some s \<Longrightarrow> \<exists>n \<in> set ns. n \<notin> seen \<and> usable_playbook st n = Some s"
  by (induction ns arbitrary: seen) (auto split: if_splits option.splits)

lemma first_usable_None: "first_usable st seen ns = None \<Longrightarrow> n \<in> set ns \<Longrightarrow> n \<notin> seen \<Longrightarrow> usable_playbook st n = None"
  by (induction ns arbitrary: seen) (auto split: if_splits option.splits)

lemma default_candidate:
  "playbook_inv st \<Longrightarrow> ov_default_playbook (pb_overlay st) \<in> set (resolve_candidates st req)
    \<or> ov_default_playbook (pb_overlay st) = []"
  using playbook_invD(4) by (auto simp: resolve_candidates_def Let_def)

lemma resolve_with_inv:
  assumes "playbook_inv st" "ov_default_playbook (pb_overlay st) \<noteq> []"
  shows "\<exists>spec. resolve_playbook st req = Inr spec \<and> skill_enabled (pb_overlay st) spec
    \<and> effective_role (pb_overlay st) spec = ''playbook''"
proof -
  have "first_usable st {} (resolve_candidates st req) \<noteq> None"
    using first_usable_None[of st "{}" "resolve_candidates st req" "ov_default_playbook (pb_overlay st)"]
      default_candidate[OF assms(1), of req] playbook_invD(5)[OF assms(1)] assms(2) by auto
  then obtain s where s: "first_usable st {} (resolve_candidates st req) = Some s" by auto
  from first_usable_Some[OF s] s show ?thesis by (auto simp: resolve_playbook_def usable_playbook_iff)
qed


text \<open>
  A case that prefers a usable playbook runs with it, whatever the default is.
\<close>
theorem preferred_playbook_wins:
  assumes "preferred_name req = Some p" and "usable_playbook st p = Some spec" and "p \<noteq> []"
  shows "resolve_playbook st req = Inr spec"
  using assms by (simp add: resolve_playbook_def resolve_candidates_def)

text \<open>
  Giving the default playbook the role of a helper is not guarded: when it is the built-in one,
  the change succeeds and from then on no case without a preference finds a playbook.
\<close>
theorem set_role_strands_cases:
  assumes "playbook_inv st" and "ov_default_playbook (pb_overlay st) = default_playbook_name"
    and "preferred_name req = None"
  shows "fst (set_role default_playbook_name ''helper'' st) = Inr ()
    \<and> resolve_playbook (snd (set_role default_playbook_name ''helper'' st)) req
      = Inl (SkillError ''SKILL_DEFAULT_UNAVAILABLE'' ''no enabled playbook available'')"
proof -
  let ?D = default_playbook_name
  note inv = playbook_invD[OF assms(1)]
  define ov where "ov = put_entry ?D ''role'' (PStr ''helper'') (pb_overlay st)"
  obtain s where s: "skill_get (pb_registry st) ?D = Some s"
    using inv(5) unfolding assms(2) by (auto simp: usable_playbook_def split: option.splits)
  obtain reg where out: "set_role ?D ''helper'' st = (Inr (), st\<lparr>pb_overlay := ov, pb_registry := reg\<rparr>)"
    and get: "\<And>k. dget (sr_by_slug reg) k = (if k = ?D then Some (apply_overlay s ov) else dget (sr_by_slug (pb_registry st)) k)"
    using upsert_overlaid_spec[of "st\<lparr>pb_overlay := ov\<rparr>" ?D s] inv(1,2) s
    by (auto simp: set_role_def Let_def ov_def)
  have "normalize_skill_name (ss_name s) = ?D"
    using inv(2) s by (simp add: skills_named_def skill_get_def)
  then have "effective_role ov (apply_overlay s ov) = ''helper''"
    by (simp add: effective_role_def ov_def overlay_entry_put py_get_or_def py_or_def)
  then have "usable_playbook (st\<lparr>pb_overlay := ov, pb_registry := reg\<rparr>) ?D = None"
    using get by (simp add: usable_playbook_def skill_get_def)
  moreover have "resolve_candidates (st\<lparr>pb_overlay := ov, pb_registry := reg\<rparr>) req = [?D, ?D]"
    using assms(2,3) by (simp add: resolve_candidates_def Let_def ov_def put_entry_def) (simp add: default_playbook_name_def)
  ultimately show ?thesis by (simp add: out resolve_playbook_def)
qed

section \<open>A concrete registry\<close>

definition demo_playbooks :: playbook_state where
  "demo_playbooks = \<lparr>pb_registry =
     projr (build_skill_registry [demo_skill ''default-log-triage'' ''log.query'' ''playbook'' Src_BUILTIN] []
        [demo_skill ''my-playbook'' ''code.read'' ''playbook'' Src_EXTERNAL] None),
     pb_overlay = new_skill_overlay\<rparr>"

definition plain_request :: "pydict \<Rightarrow> case_create_request" where
  "plain_request metadata = \<lparr>cq_title = ''t'', cq_symptom = ''s'', cq_service_name = ''svc'',
     cq_source = ''api'', cq_metadata = metadata\<rparr>"

lemma demo_playbooks_inv: "playbook_inv demo_playbooks"
proof -
  let ?b = "build_skill_registry [demo_skill ''default-log-triage'' ''log.query'' ''playbook'' Src_BUILTIN] []
        [demo_skill ''my-playbook'' ''code.read'' ''playbook'' Src_EXTERNAL] None"
  have "\<not> isl ?b" by code_simp
  then have "?b = Inr (pb_registry demo_playbooks)" by (cases ?b) (simp_all add: demo_playbooks_def)
  from build_registry_complete[OF this] have "registry_complete (pb_registry demo_playbooks)" .
  moreover have "list_all (\<lambda>(k, s). normalize_skill_name (ss_name s) = k \<and> normalize_skill_name k = k)
      (sr_by_slug (pb_registry demo_playbooks))" by code_simp
  then have "skills_named (pb_registry demo_playbooks)"
    by (auto simp: skills_named_def list_all_iff dest!: map_of_SomeD)
  moreover have "roles_valid (pb_overlay demo_playbooks)"
    by (simp add: roles_valid_def demo_playbooks_def new_skill_overlay_def overlay_entry_def)
  moreover have "normalize_skill_name (ov_default_playbook (pb_overlay demo_playbooks))
      = ov_default_playbook (pb_overlay demo_playbooks)
    \<and> usable_playbook demo_playbooks (ov_default_playbook (pb_overlay demo_playbooks)) \<noteq> None" by code_simp
  ultimately show ?thesis by (simp add: playbook_inv_def)
qed


theorem preferred_playbook_wins_witness:
  "\<exists>spec. resolve_playbook demo_playbooks (plain_request [(''preferred_skill'', PStr ''my-playbook'')]) = Inr spec
    \<and> ss_name spec = ''my-playbook''"
proof -
  have p: "preferred_name (plain_request [(''preferred_skill'', PStr ''my-playbook'')]) = Some ''my-playbook''" by code_simp
  have "map_option ss_name (usable_playbook demo_playbooks ''my-playbook'') = Some ''my-playbook''" by code_simp
  then obtain spec where "usable_playbook demo_playbooks ''my-playbook'' = Some spec" "ss_name spec = ''my-playbook''" by auto
  then show ?thesis using preferred_playbook_wins[OF p] by auto
qed

theorem set_role_strands_cases_witness:
  "resolve_playbook (snd (set_role default_playbook_name ''helper'' demo_playbooks)) (plain_request [])
    = Inl (SkillError ''SKILL_DEFAULT_UNAVAILABLE'' ''no enabled playbook available'')"
proof -
  have "ov_default_playbook (pb_overlay demo_playbooks) = default_playbook_name"
    by (simp add: demo_playbooks_def new_skill_overlay_def default_playbook_name_def)
  moreover have "preferred_name (plain_request []) = None"
    by (simp add: preferred_name_def preferred_text_def first_selected_def plain_request_def py_get_or_def py_or_def)
  ultimately show ?thesis using set_role_strands_cases[OF demo_playbooks_inv] by blast
qed

end
