(* ===== verification/SkillEnv.thy ===== *)
theory SkillEnv
  imports Prelude
begin

text \<open>
  The environment a skill runs with (\<open>skill_system/env_resolver.py\<close>): for each declared or optional
  key the value of the skill's own items, else of the runtime's, else of the process; secrets go
  to the tools' environment but never into the text shown to the model.
\<close>

section \<open>Resolution\<close>

type_synonym env_items = "(string \<times> pydict) list"

record skill_env =
  se_mcp_extra :: "(string \<times> pyval) list"
  se_substitutions :: "(string \<times> pyval) list"
  se_missing :: "string list"

text \<open>The items by scope: those of scope \<open>mcp\<close> and those without a key are left out.\<close>

fun scoped_items :: "pydict list \<Rightarrow> env_items \<times> env_items \<Rightarrow> env_items \<times> env_items" where
  "scoped_items [] (runtime, skill) = (runtime, skill)"
| "scoped_items (item # rest) (runtime, skill) =
     (case py_get item ''key'' of
        PStr key \<Rightarrow>
          (if key = [] \<or> py_get_or item ''scope'' (PStr ''runtime'') = PStr ''mcp''
           then scoped_items rest (runtime, skill)
           else if py_get_or item ''scope'' (PStr ''runtime'') = PStr ''skill''
           then scoped_items rest (runtime, dput key item skill)
           else scoped_items rest (dput key item runtime, skill))
      | _ \<Rightarrow> scoped_items rest (runtime, skill))"

definition item_value :: "pydict \<Rightarrow> (pyval \<times> bool) res" where
  "item_value item =
     (case dget item ''value'' of
        None \<Rightarrow> Inl (KeyError ''value'')
      | Some v \<Rightarrow> Inr (v, py_truthy (py_get item ''secret'')))"

definition resolve_key ::
    "(string \<times> string) list \<Rightarrow> env_items \<Rightarrow> env_items \<Rightarrow> string \<Rightarrow> (pyval \<times> bool) res" where
  "resolve_key process runtime skill key =
     (let v0 = (case dget process key of None \<Rightarrow> PNone | Some s \<Rightarrow> PStr s, False)
      in bind_res (case dget runtime key of None \<Rightarrow> Inr v0 | Some item \<Rightarrow> item_value item) (\<lambda>v1.
           case dget skill key of None \<Rightarrow> Inr v1 | Some item \<Rightarrow> item_value item))"

fun add_env_keys ::
    "(string \<Rightarrow> (pyval \<times> bool) res) \<Rightarrow> bool \<Rightarrow> string list
     \<Rightarrow> (string \<times> pyval) list \<times> (string \<times> pyval) list
     \<Rightarrow> ((string \<times> pyval) list \<times> (string \<times> pyval) list) res" where
  "add_env_keys rk optional [] (extra, subs) = Inr (extra, subs)"
| "add_env_keys rk optional (key # keys) (extra, subs) =
     (if optional \<and> key \<in> set (dkeys extra) then add_env_keys rk optional keys (extra, subs)
      else bind_res (rk key) (\<lambda>(v, secret).
        add_env_keys rk optional keys
          (if v = PNone then (extra, subs)
           else (dput key v extra, if secret then subs else dput key v subs))))"

definition resolve_skill_env ::
    "string list \<Rightarrow> string list \<Rightarrow> (string \<times> string) list \<Rightarrow> pydict list \<Rightarrow> bool \<Rightarrow> skill_env res" where
  "resolve_skill_env declared optional process items require =
     (case scoped_items items ([], []) of (runtime, skill) \<Rightarrow>
       let rk = resolve_key process runtime skill in
       bind_res (add_env_keys rk False declared ([], [])) (\<lambda>p1.
       bind_res (add_env_keys rk True optional p1) (\<lambda>(extra, subs).
         let missing = filter (\<lambda>k. k \<notin> set (dkeys extra) \<and> k \<notin> set optional) declared in
         if missing \<noteq> [] \<and> require
         then Inl (SkillError ''SKILL_ENV_MISSING'' (''Missing required env keys: '' @ join '', '' missing))
         else Inr \<lparr>se_mcp_extra = extra, se_substitutions = subs, se_missing = missing\<rparr>)))"

section \<open>Substitution into the playbook's text\<close>

definition placeholder :: "string \<Rightarrow> string" where
  "placeholder key = ''${'' @ key @ ''}''"

fun substitute_non_secret :: "string \<Rightarrow> (string \<times> pyval) list \<Rightarrow> string res" where
  "substitute_non_secret text [] = Inr text"
| "substitute_non_secret text ((k, v) # kvs) =
     (case v of
        PStr s \<Rightarrow> substitute_non_secret (py_replace (placeholder k) s text) kvs
      | _ \<Rightarrow> Inl (TypeError ''replace() argument 2 must be str''))"

section \<open>What is resolved\<close>

text \<open>The value a key resolves to, with its secrecy, and the two tables in its terms.\<close>

definition winner :: "(string \<Rightarrow> (pyval \<times> bool) res) \<Rightarrow> string \<Rightarrow> (pyval \<times> bool) option" where
  "winner rk k = (case rk k of Inr (v, secret) \<Rightarrow> (if v = PNone then None else Some (v, secret)) | Inl e \<Rightarrow> None)"

definition public_value :: "(pyval \<times> bool) option \<Rightarrow> pyval option" where
  "public_value w = (case w of Some (v, False) \<Rightarrow> Some v | _ \<Rightarrow> None)"

definition tables_of :: "(string \<Rightarrow> (pyval \<times> bool) res) \<Rightarrow> string set \<Rightarrow> (string \<times> pyval) list \<Rightarrow> (string \<times> pyval) list \<Rightarrow> bool" where
  "tables_of rk K extra subs \<longleftrightarrow>
     (\<forall>k. dget extra k = (if k \<in> K then map_option fst (winner rk k) else None)
        \<and> dget subs k = (if k \<in> K then public_value (winner rk k) else None))"

lemma add_env_keys_tables:
  assumes "tables_of rk K extra subs" "add_env_keys rk optional keys (extra, subs) = Inr (extra', subs')"
  shows "tables_of rk (K \<union> set keys) extra' subs'"
  using assms
proof (induction keys arbitrary: K extra subs)
  case (Cons key keys)
  show ?case
  proof (cases "optional \<and> key \<in> set (dkeys extra)")
    case True
    then have "dget extra key \<noteq> None" by (auto simp: dget_None_iff)
    then have "key \<in> K" using Cons.prems(1) by (auto simp: tables_of_def split: if_splits)
    then have "K \<union> set (key # keys) = K \<union> set keys" by auto
    then show ?thesis using Cons.IH[OF Cons.prems(1)] Cons.prems(2) True by simp
  next
    case False
    then obtain v secret where rk: "rk key = Inr (v, secret)" using Cons.prems(2) by (auto simp: if_distrib)
    let ?p = "if v = PNone then (extra, subs) else (dput key v extra, if secret then subs else dput key v subs)"
    have rest: "add_env_keys rk optional keys (fst ?p, snd ?p) = Inr (extra', subs')"
      using Cons.prems(2) False rk by (auto split: if_splits)
    have "tables_of rk (insert key K) (fst ?p) (snd ?p)"
      unfolding tables_of_def
    proof (intro allI conjI)
      fix k
      note t = Cons.prems(1)[unfolded tables_of_def, rule_format, of k]
      show "dget (fst ?p) k = (if k \<in> insert key K then map_option fst (winner rk k) else None)"
        using t rk by (cases "k = key") (auto simp: winner_def)
      show "dget (snd ?p) k = (if k \<in> insert key K then public_value (winner rk k) else None)"
        using t rk by (cases secret) (auto simp: winner_def public_value_def)
    qed
    from Cons.IH[OF this rest] show ?thesis by (simp add: insert_commute)
  qed
qed simp


section \<open>A concrete environment\<close>

definition demo_items :: "pydict list" where
  "demo_items =
     [[(''key'', PStr ''TOKEN''), (''value'', PStr ''runtime-token''), (''secret'', PBool True)],
      [(''key'', PStr ''HOST''), (''value'', PStr ''skill-host''), (''scope'', PStr ''skill'')]]"


end
