(* ===== verification/McpManager.thy ===== *)
theory McpManager
  imports ToolPlane
begin

text \<open>
  The manager of external MCP servers (\<open>mcp_plane/server_manager.py\<close>): it loads the configured
  servers, registers their tools with the tool registry and the external client, keeps a session
  per server, and passes each session the extra environment and the overlay of the current run.

  What a stdio session does (\<open>connect\<close>, \<open>call_tool\<close>, \<open>close\<close>) is an argument over a world \<open>'v\<close>. The
  handlers the client gets close over the manager, so the world of the gateway's tools is the
  pair of the manager and \<open>'v\<close>. The provider of the extra environment reads the world; \<open>None\<close> is
  an exception. Exceptions are pairs of class name and text. The lock is not modelled.
\<close>

section \<open>Sessions\<close>

type_synonym env = "(string \<times> string) list"

record mcp_session =
  sn_command :: string
  sn_args :: "string list"
  sn_env :: env
  sn_cwd :: "string option"
  sn_timeout_seconds :: rat

record 'v mcp_manager =
  mm_sessions :: "(string \<times> mcp_session) list"
  mm_servers :: "(string \<times> pydict) list"
  mm_tool_names :: "(string \<times> string) list"
  mm_extra_env :: env
  mm_provider :: "('v \<Rightarrow> env option) option"
  mm_overlay :: env

record 'v mcp_ctx =
  mx_connect :: "mcp_session \<Rightarrow> 'v \<Rightarrow> (string \<times> string) option \<times> 'v"
  mx_call :: "mcp_session \<Rightarrow> string \<Rightarrow> pydict \<Rightarrow> 'v \<Rightarrow> ((string \<times> string) + pydict) \<times> 'v"
  mx_close :: "mcp_session \<Rightarrow> 'v \<Rightarrow> 'v"

type_synonym 'v mcp_world = "'v mcp_manager \<times> 'v"

definition new_mcp_manager :: "env \<Rightarrow> ('v \<Rightarrow> env option) option \<Rightarrow> 'v mcp_manager" where
  "new_mcp_manager extra provider =
     \<lparr>mm_sessions = [], mm_servers = [], mm_tool_names = [], mm_extra_env = extra,
      mm_provider = provider, mm_overlay = []\<rparr>"

definition build_external_tool_name :: "string \<Rightarrow> string \<Rightarrow> string" where
  "build_external_tool_name server tool = ''ext.'' @ server @ ''.'' @ tool"

definition text_field :: "pydict \<Rightarrow> string \<Rightarrow> string \<Rightarrow> string" where
  "text_field d k dflt = py_strip (py_str (py_or (py_get d k) (PStr dflt)))"

definition build_stdio_session :: "pydict \<Rightarrow> env \<Rightarrow> (string \<times> string) + mcp_session" where
  "build_stdio_session server extra =
     (let command = text_field server ''command'' [];
          raw = (case py_get server ''args'' of PList xs \<Rightarrow> xs | _ \<Rightarrow> []);
          args = map py_str raw;
          args' = (if py_lower command = ''npx'' \<and> PStr ''-y'' \<notin> set raw \<and> PStr ''--yes'' \<notin> set raw
                   then ''-y'' # args else args);
          server_env = (case py_get server ''env'' of PDict e \<Rightarrow> map (\<lambda>(k, v). (k, py_str v)) e | _ \<Rightarrow> []);
          cwd = text_field server ''cwd'' []
      in case py_float (py_or (py_get server ''timeout_seconds'') (PFloat 120)) of
           None \<Rightarrow> Inl (''ValueError'', ''could not convert string to float'')
         | Some t \<Rightarrow>
             Inr \<lparr>sn_command = command, sn_args = args', sn_env = merge_stdio_env extra server_env,
                  sn_cwd = (if cwd = [] then None else Some cwd), sn_timeout_seconds = t\<rparr>)"

definition close_all_sessions :: "'v mcp_ctx \<Rightarrow> 'v mcp_world \<Rightarrow> 'v mcp_world" where
  "close_all_sessions mx = (\<lambda>(m, w).
     (m\<lparr>mm_sessions := []\<rparr>, foldl (\<lambda>w s. mx_close mx s w) w (dvals (mm_sessions m))))"

section \<open>The environment of the sessions\<close>

definition set_extra_env :: "'v mcp_ctx \<Rightarrow> env \<Rightarrow> 'v mcp_world \<Rightarrow> 'v mcp_world" where
  "set_extra_env mx e = (\<lambda>(m, w). close_all_sessions mx (m\<lparr>mm_extra_env := e\<rparr>, w))"

definition set_extra_env_provider :: "('v \<Rightarrow> env option) option \<Rightarrow> 'v mcp_world \<Rightarrow> 'v mcp_world" where
  "set_extra_env_provider p = (\<lambda>(m, w). (m\<lparr>mm_provider := p\<rparr>, w))"

definition set_run_env_overlay :: "'v mcp_ctx \<Rightarrow> env \<Rightarrow> 'v mcp_world \<Rightarrow> 'v mcp_world" where
  "set_run_env_overlay mx e = (\<lambda>(m, w). close_all_sessions mx (m\<lparr>mm_overlay := e\<rparr>, w))"

definition refresh_extra_env :: "'v mcp_ctx \<Rightarrow> 'v mcp_world \<Rightarrow> env \<times> 'v mcp_world" where
  "refresh_extra_env mx = (\<lambda>(m, w).
     (case mm_provider m of
        None \<Rightarrow> (dunion (mm_extra_env m) (mm_overlay m), (m, w))
      | Some p \<Rightarrow>
          (case p w of
             None \<Rightarrow> (dunion (mm_extra_env m) (mm_overlay m), (m, w))
           | Some base \<Rightarrow>
               (dunion base (mm_overlay m),
                if set base = set (mm_extra_env m) then (m, w)
                else close_all_sessions mx (m\<lparr>mm_extra_env := base\<rparr>, w)))))"

section \<open>Calls\<close>

definition manager_invoke :: "'v mcp_ctx \<Rightarrow> string \<Rightarrow> string \<Rightarrow> 'v mcp_world handler" where
  "manager_invoke mx server_id tool args mw =
     (case refresh_extra_env mx mw of
        (extra, (m, w)) \<Rightarrow>
          (case dget (mm_servers m) server_id of
             None \<Rightarrow> (Inl (''RuntimeError'', ''MCP server not loaded: '' @ server_id), (m, w))
           | Some server \<Rightarrow>
               (let name = (case dget (mm_tool_names m) tool of None \<Rightarrow> tool | Some n \<Rightarrow> n);
                    transport = py_lower (text_field server ''transport'' ''stdio'')
                in if transport \<noteq> ''stdio''
                   then (Inl (''RuntimeError'', ''unsupported MCP transport: '' @ transport), (m, w))
                   else case dget (mm_sessions m) server_id of
                          Some sn \<Rightarrow> (case mx_call mx sn name args w of (r, w1) \<Rightarrow> (r, (m, w1)))
                        | None \<Rightarrow>
                            (case build_stdio_session server extra of
                               Inl e \<Rightarrow> (Inl e, (m, w))
                             | Inr sn \<Rightarrow>
                                 (case mx_connect mx sn w of
                                    (Some e, w1) \<Rightarrow> (Inl e, (m, w1))
                                  | (None, w1) \<Rightarrow>
                                      (case mx_call mx sn name args w1 of (r, w2) \<Rightarrow>
                                         (r, (m\<lparr>mm_sessions := dput server_id sn (mm_sessions m)\<rparr>, w2))))))))"

section \<open>Loading servers\<close>

record 'v mcp_state =
  ms_registry :: "'v mcp_world tool_registry"
  ms_client :: "'v mcp_world external_client"
  ms_world :: "'v mcp_world"

definition parameters_schema :: "pydict \<Rightarrow> pydict" where
  "parameters_schema tool =
     (case py_get tool ''inputSchema'' of
        PDict d \<Rightarrow> d
      | _ \<Rightarrow> [(''type'', PStr ''object''), (''properties'', PDict [])])"

definition external_spec :: "string \<Rightarrow> string \<Rightarrow> pydict \<Rightarrow> tool_spec" where
  "external_spec server_id name tool =
     \<lparr>ts_name = build_external_tool_name server_id name,
      ts_description = py_str (py_or (py_get tool ''description'') (PStr [])),
      ts_permission_level = Perm_READ, ts_scope = Scope_EXTERNAL,
      ts_parameters_schema = parameters_schema tool, ts_server_name = server_id,
      ts_tags = [''external'', ''mcp'', ''mcp-server:'' @ server_id]\<rparr>"

fun register_tools :: "string \<Rightarrow> pyval list \<Rightarrow> 'v mcp_state \<Rightarrow> (string \<times> string) option \<times> 'v mcp_state" where
  "register_tools server_id [] st = (None, st)"
| "register_tools server_id (t # ts) st =
     (case t of
        PDict tool \<Rightarrow>
          (let name = text_field tool ''name'' [] in
           if name = [] then register_tools server_id ts st
           else (let spec = external_spec server_id name tool in
                 case registry_register_external spec (ms_registry st) of
                   Inl e \<Rightarrow> (Some (''ValueError'', ''Tool already registered: '' @ ts_name spec), st)
                 | Inr reg \<Rightarrow>
                     (case ms_world st of (m, w) \<Rightarrow>
                       register_tools server_id ts
                         (st\<lparr>ms_registry := reg,
                             ms_world := (m\<lparr>mm_tool_names := dput (ts_name spec) name (mm_tool_names m)\<rparr>, w)\<rparr>))))
      | _ \<Rightarrow> register_tools server_id ts st)"

text \<open>\<open>_register_server\<close> of a server whose id and tool list have been checked by \<open>reload_from_store\<close>.\<close>

definition register_server ::
    "'v mcp_ctx \<Rightarrow> string \<Rightarrow> pydict \<Rightarrow> pyval list \<Rightarrow> 'v mcp_state \<Rightarrow> (string \<times> string) option \<times> 'v mcp_state" where
  "register_server mx server_id server tools st =
     (let transport = py_lower (text_field server ''transport'' ''stdio'') in
      if transport \<noteq> ''stdio'' then (Some (''ValueError'', ''unsupported transport: '' @ transport), st)
      else
        (let st1 = st\<lparr>ms_registry := snd (registry_unregister_by_server server_id (ms_registry st))\<rparr>;
             m0 = fst (ms_world st1); w0 = snd (ms_world st1);
             m1 = m0\<lparr>mm_sessions := ddel server_id (mm_sessions m0)\<rparr>;
             (extra, m2, w2) = refresh_extra_env mx (m1, w0)
         in case build_stdio_session server extra of
              Inl e \<Rightarrow> (Some e, st1\<lparr>ms_world := (m2, w2)\<rparr>)
            | Inr sn \<Rightarrow>
                (case mx_connect mx sn w2 of
                   (Some e, w3) \<Rightarrow> (Some e, st1\<lparr>ms_world := (m2, w3)\<rparr>)
                 | (None, w3) \<Rightarrow>
                     (let m3 = m2\<lparr>mm_sessions := dput server_id sn (mm_sessions m2),
                                  mm_servers := dput server_id server (mm_servers m2)\<rparr>
                      in case register_tools server_id tools (st1\<lparr>ms_world := (m3, w3)\<rparr>) of
                           (Some e, st2) \<Rightarrow> (Some e, st2)
                         | (None, st2) \<Rightarrow>
                             (None, st2\<lparr>ms_client := external_register_server server_id
                                        (manager_invoke mx server_id) (ms_client st2)\<rparr>)))))"

definition ready_tools :: "pydict \<Rightarrow> pyval list option" where
  "ready_tools server =
     (if py_truthy (py_get_or server ''enabled'' (PBool True))
         \<and> py_lower (text_field server ''discovery_status'' ''ready'') = ''ready''
      then (case py_get server ''tools'' of PList (t # ts) \<Rightarrow> Some (t # ts) | _ \<Rightarrow> None)
      else None)"

definition skipped_report :: "string \<Rightarrow> pydict \<Rightarrow> pydict" where
  "skipped_report server_id server =
     (let status = py_lower (text_field server ''discovery_status'' ''ready'');
          skipped = [(''server_id'', PStr server_id), (''ok'', PBool True), (''skipped'', PBool True)]
      in if \<not> py_truthy (py_get_or server ''enabled'' (PBool True)) then skipped
         else if status = ''discovering'' then skipped @ [(''reason'', PStr ''discovering'')]
         else if status = ''failed'' then
           [(''server_id'', PStr server_id), (''ok'', PBool False),
            (''error'', PStr (py_str (py_or (py_get server ''last_error'') (PStr ''discovery failed''))))]
         else skipped @ [(''reason'', PStr (if status \<noteq> ''ready'' then status else ''no_tools''))])"

fun reload_servers :: "'v mcp_ctx \<Rightarrow> pydict list \<Rightarrow> pydict list \<Rightarrow> 'v mcp_state \<Rightarrow> pydict list \<times> 'v mcp_state" where
  "reload_servers mx [] results st = (results, st)"
| "reload_servers mx (server # rest) results st =
     (let server_id = text_field server ''server_id'' [] in
      if server_id = [] then reload_servers mx rest results st
      else case ready_tools server of
             None \<Rightarrow> reload_servers mx rest (results @ [skipped_report server_id server]) st
           | Some tools \<Rightarrow>
               (case register_server mx server_id server tools st of
                  (None, st1) \<Rightarrow>
                    reload_servers mx rest (results @ [[(''server_id'', PStr server_id), (''ok'', PBool True),
                        (''tools'', PInt (int (length tools)))]]) st1
                | (Some e, st1) \<Rightarrow>
                    reload_servers mx rest (results @ [[(''server_id'', PStr server_id), (''ok'', PBool False),
                        (''error'', PStr (snd e))]]) st1))"

definition reload_from_store :: "'v mcp_ctx \<Rightarrow> pydict list \<Rightarrow> 'v mcp_state \<Rightarrow> pydict list \<times> 'v mcp_state" where
  "reload_from_store mx servers st =
     (case close_all_sessions mx (ms_world st) of (m, w) \<Rightarrow>
        reload_servers mx servers []
          (st\<lparr>ms_world := (m\<lparr>mm_servers := [], mm_tool_names := []\<rparr>, w)\<rparr>))"

section \<open>What a reload leaves of a server it does not load\<close>

lemma close_all_frame [simp]:
  "mm_servers (fst (close_all_sessions mx mw)) = mm_servers (fst mw)"
  "mm_tool_names (fst (close_all_sessions mx mw)) = mm_tool_names (fst mw)"
  "mm_extra_env (fst (close_all_sessions mx mw)) = mm_extra_env (fst mw)"
  "mm_provider (fst (close_all_sessions mx mw)) = mm_provider (fst mw)"
  "mm_overlay (fst (close_all_sessions mx mw)) = mm_overlay (fst mw)"
  "mm_sessions (fst (close_all_sessions mx mw)) = []"
  by (simp_all add: close_all_sessions_def split: prod.splits)

lemma refresh_servers [simp]: "mm_servers (fst (snd (refresh_extra_env mx mw))) = mm_servers (fst mw)"
proof (cases mw)
  case (Pair m w)
  show ?thesis
  proof (cases "mm_provider m")
    case (Some p)
    then show ?thesis using Pair by (cases "p w") (simp_all add: refresh_extra_env_def)
  qed (simp add: Pair refresh_extra_env_def)
qed

lemma unregister_each_other:
  "ts_server_name spec \<noteq> server \<Longrightarrow> registry_get_spec r n = Some spec \<Longrightarrow>
   (\<And>m s. (m, s) \<in> set xs \<Longrightarrow> registry_get_spec r m = Some s \<or> registry_get_spec r m = None \<or> m \<noteq> n) \<Longrightarrow>
   registry_get_spec (snd (unregister_each server xs r)) n = Some spec"
proof (induction xs arbitrary: r)
  case (Cons x xs)
  obtain m s where x: "x = (m, s)" by fastforce
  show ?case
  proof (cases "ts_server_name s = server \<and> ts_scope s = Scope_EXTERNAL")
    case False
    then have "snd (unregister_each server (x # xs) r) = snd (unregister_each server xs r)" using x by auto
    then show ?thesis using Cons.IH[OF Cons.prems(1,2)] Cons.prems(3) by auto
  next
    case True
    have "m \<noteq> n"
    proof
      assume "m = n"
      then have "s = spec" using Cons.prems(2) Cons.prems(3)[of m s] x by auto
      then show False using True Cons.prems(1) by simp
    qed
    have get: "registry_get_spec (snd (registry_unregister m r)) k = (if k = m then None else registry_get_spec r k)" for k
      by (auto simp: registry_unregister_def registry_get_spec_def Let_def dget_None_iff)
    have "registry_get_spec (snd (unregister_each server xs (snd (registry_unregister m r)))) n = Some spec"
      by (rule Cons.IH[OF Cons.prems(1)]) (use Cons.prems(2,3) \<open>m \<noteq> n\<close> get in auto)
    then show ?thesis using x True by (simp add: Let_def)
  qed
qed simp

lemma unregister_other_server:
  assumes "distinct (dkeys (tg_specs r))" "registry_get_spec r n = Some spec" "ts_server_name spec \<noteq> server"
  shows "registry_get_spec (snd (registry_unregister_by_server server r)) n = Some spec"
  unfolding registry_unregister_by_server_def
proof (rule unregister_each_other[OF assms(3,2)])
  fix m s
  assume "(m, s) \<in> set (tg_specs r)"
  then have "dget (tg_specs r) m = Some s" by (rule iffD1[OF dget_in_set[OF assms(1)]])
  then show "registry_get_spec r m = Some s \<or> registry_get_spec r m = None \<or> m \<noteq> n"
    by (simp add: registry_get_spec_def)
qed

lemma unregister_each_distinct:
  "distinct (dkeys (tg_specs r)) \<Longrightarrow> distinct (dkeys (tg_specs (snd (unregister_each server xs r))))"
proof (induction xs arbitrary: r)
  case (Cons x xs)
  obtain m s where x: "x = (m, s)" by fastforce
  have "distinct (dkeys (tg_specs (snd (registry_unregister m r))))"
    using Cons.prems by (simp add: registry_unregister_def)
  from Cons.IH[OF this] Cons.IH[OF Cons.prems] show ?case using x by (simp add: Let_def)
qed simp

text \<open>A tool of another server survives the registration of a server, and that server is not the other.\<close>

definition keeps_tool :: "string \<Rightarrow> string \<Rightarrow> tool_spec \<Rightarrow> 'v mcp_state \<Rightarrow> bool" where
  "keeps_tool sid n spec st \<longleftrightarrow> distinct (dkeys (tg_specs (ms_registry st)))
     \<and> registry_get_spec (ms_registry st) n = Some spec
     \<and> dget (mm_servers (fst (ms_world st))) sid = None"

lemma register_external_keeps:
  assumes "registry_register_external s r = Inr r'" "distinct (dkeys (tg_specs r))" "registry_get_spec r n = Some spec"
  shows "distinct (dkeys (tg_specs r')) \<and> registry_get_spec r' n = Some spec"
proof -
  have new: "dget (tg_specs r) (ts_name s) = None" and r': "r' = r\<lparr>tg_specs := dput (ts_name s) s (tg_specs r)\<rparr>"
    using assms(1) by (simp_all add: registry_register_external_def dget_None_iff split: if_splits)
  have "n \<noteq> ts_name s" using new assms(3) by (auto simp: registry_get_spec_def)
  then show ?thesis using assms(2,3) r' by (simp add: registry_get_spec_def)
qed

lemma register_tools_keeps:
  "keeps_tool sid n spec st \<Longrightarrow> keeps_tool sid n spec (snd (register_tools server ts st))"
proof (induction ts arbitrary: st)
  case (Cons t ts)
  show ?case
  proof (cases "\<exists>tool. t = PDict tool \<and> text_field tool ''name'' [] \<noteq> []")
    case False
    then have "snd (register_tools server (t # ts) st) = snd (register_tools server ts st)"
      by (cases t) auto
    then show ?thesis using Cons by simp
  next
    case True
    then obtain tool where t: "t = PDict tool" "text_field tool ''name'' [] \<noteq> []" by blast
    let ?spec = "external_spec server (text_field tool ''name'' []) tool"
    show ?thesis
    proof (cases "registry_register_external ?spec (ms_registry st)")
      case (Inl e)
      then show ?thesis using t Cons.prems by (simp add: Let_def)
    next
      case (Inr reg)
      obtain m w where mw: "ms_world st = (m, w)" by fastforce
      let ?st = "st\<lparr>ms_registry := reg, ms_world := (m\<lparr>mm_tool_names :=
        dput (ts_name ?spec) (text_field tool ''name'' []) (mm_tool_names m)\<rparr>, w)\<rparr>"
      have "keeps_tool sid n spec ?st"
        using Cons.prems register_external_keeps[OF Inr, of n spec] mw by (simp add: keeps_tool_def)
      from Cons.IH[OF this] show ?thesis using t Inr mw by (simp add: Let_def)
    qed
  qed
qed simp

lemma register_server_keeps:
  assumes "keeps_tool sid n spec st" "ts_server_name spec = sid" "server_id \<noteq> sid"
  shows "keeps_tool sid n spec (snd (register_server mx server_id server tools st))"
proof (cases "py_lower (text_field server ''transport'' ''stdio'') = ''stdio''")
  case False
  then show ?thesis using assms(1) by (simp add: register_server_def Let_def)
next
  case True
  let ?st1 = "st\<lparr>ms_registry := snd (registry_unregister_by_server server_id (ms_registry st))\<rparr>"
  obtain m0 w0 where w: "ms_world st = (m0, w0)" by fastforce
  obtain extra m2 w2 where r: "refresh_extra_env mx (m0\<lparr>mm_sessions := ddel server_id (mm_sessions m0)\<rparr>, w0) = (extra, m2, w2)"
    by (rule prod_cases3)
  have s2: "mm_servers m2 = mm_servers m0"
    using refresh_servers[of mx "(m0\<lparr>mm_sessions := ddel server_id (mm_sessions m0)\<rparr>, w0)"] r by simp
  have reg: "distinct (dkeys (tg_specs (ms_registry ?st1)))" "registry_get_spec (ms_registry ?st1) n = Some spec"
    using assms unregister_other_server[of "ms_registry st" n spec server_id]
      unregister_each_distinct[of "ms_registry st"]
    by (simp_all add: keeps_tool_def registry_unregister_by_server_def)
  have none: "dget (mm_servers m2) sid = None" using assms(1) w s2 by (simp add: keeps_tool_def)
  have k: "keeps_tool sid n spec (?st1\<lparr>ms_world := (m, w)\<rparr>)" if "dget (mm_servers m) sid = None" for m w
    using reg that by (simp add: keeps_tool_def)
  show ?thesis
  proof (cases "build_stdio_session server extra")
    case (Inl e)
    then show ?thesis using True r w k[OF none, of w2] by (simp add: register_server_def Let_def)
  next
    case (Inr sn)
    obtain c w3 where c: "mx_connect mx sn w2 = (c, w3)" by fastforce
    show ?thesis
    proof (cases c)
      case (Some e)
      then show ?thesis using True r w Inr c k[OF none, of w3] by (simp add: register_server_def Let_def)
    next
      case None
      let ?m3 = "m2\<lparr>mm_sessions := dput server_id sn (mm_sessions m2), mm_servers := dput server_id server (mm_servers m2)\<rparr>"
      have "keeps_tool sid n spec (?st1\<lparr>ms_world := (?m3, w3)\<rparr>)" by (rule k) (use none assms(3) in simp)
      from register_tools_keeps[OF this, of server_id tools]
      have "keeps_tool sid n spec (snd (register_tools server_id tools (?st1\<lparr>ms_world := (?m3, w3)\<rparr>)))" .
      then show ?thesis
        using True r w Inr c None
        by (cases "register_tools server_id tools (?st1\<lparr>ms_world := (?m3, w3)\<rparr>)"; cases "fst (register_tools server_id tools (?st1\<lparr>ms_world := (?m3, w3)\<rparr>))")
          (auto simp: register_server_def Let_def keeps_tool_def)
    qed
  qed
qed

lemma reload_servers_keeps:
  assumes "keeps_tool sid n spec st" "ts_server_name spec = sid"
    "\<And>s. s \<in> set servers \<Longrightarrow> text_field s ''server_id'' [] = sid \<Longrightarrow> ready_tools s = None"
  shows "keeps_tool sid n spec (snd (reload_servers mx servers results st))"
  using assms
proof (induction servers arbitrary: results st)
  case (Cons server rest)
  let ?id = "text_field server ''server_id'' []"
  have rest: "\<And>s. s \<in> set rest \<Longrightarrow> text_field s ''server_id'' [] = sid \<Longrightarrow> ready_tools s = None"
    using Cons.prems(3) by simp
  show ?case
  proof (cases "?id = [] \<or> ready_tools server = None")
    case True
    then show ?thesis using Cons.IH[OF Cons.prems(1,2) rest] by (auto simp: Let_def)
  next
    case False
    then obtain tools where tools: "ready_tools server = Some tools" "?id \<noteq> []" by auto
    then have "?id \<noteq> sid" using Cons.prems(3)[of server] by auto
    from register_server_keeps[OF Cons.prems(1,2) this, of mx server tools]
    have k: "keeps_tool sid n spec (snd (register_server mx ?id server tools st))" .
    obtain e st1 where r: "register_server mx ?id server tools st = (e, st1)" by fastforce
    show ?thesis using Cons.IH[OF _ Cons.prems(2) rest] k r tools by (cases e) (simp_all add: Let_def)
  qed
qed simp

section \<open>Properties\<close>

text \<open>
  A reload does not take back the tools of a server that is no longer loaded (removed from the
  store, disabled or not ready): they stay registered, and calling one answers that the server is
  not loaded.
\<close>
theorem unloaded_server_tools_stay:
  assumes "distinct (dkeys (tg_specs (ms_registry st)))"
    and "registry_get_spec (ms_registry st) n = Some spec" and "ts_server_name spec = sid"
    and "\<forall>s \<in> set servers. text_field s ''server_id'' [] = sid \<longrightarrow> ready_tools s = None"
    and "reload_from_store mx servers st = (results, st')"
  shows "registry_get_spec (ms_registry st') n = Some spec
    \<and> fst (manager_invoke mx sid n args (ms_world st')) = Inl (''RuntimeError'', ''MCP server not loaded: '' @ sid)"
proof -
  obtain m w where c: "close_all_sessions mx (ms_world st) = (m, w)" by fastforce
  have "keeps_tool sid n spec (st\<lparr>ms_world := (m\<lparr>mm_servers := [], mm_tool_names := []\<rparr>, w)\<rparr>)"
    using assms(1,2) by (simp add: keeps_tool_def)
  from reload_servers_keeps[OF this assms(3), of servers mx "[]"] assms(4,5) c
  have k: "keeps_tool sid n spec st'" by (auto simp: reload_from_store_def)
  obtain extra m' w' where r: "refresh_extra_env mx (ms_world st') = (extra, m', w')" by (rule prod_cases3)
  have "mm_servers m' = mm_servers (fst (ms_world st'))" using refresh_servers[of mx "ms_world st'"] r by simp
  with k r show ?thesis by (simp add: keeps_tool_def manager_invoke_def)
qed

text \<open>
  A session gets the overlay of the run over the extra environment: the overlay's value where
  it has one, else the value the provider gives now, else the one remembered.
\<close>
theorem session_env_overlaid:
  assumes "distinct (dkeys (mm_overlay m))"
  shows "dget (fst (refresh_extra_env mx (m, w))) k =
    (case dget (mm_overlay m) k of
       Some v \<Rightarrow> Some v
     | None \<Rightarrow> dget (case mm_provider m of
                      None \<Rightarrow> mm_extra_env m
                    | Some p \<Rightarrow> (case p w of None \<Rightarrow> mm_extra_env m | Some base \<Rightarrow> base)) k)"
proof -
  have rev: "dget (rev (mm_overlay m)) k = dget (mm_overlay m) k"
    using dget_dict_of_distinct[OF assms, of k] by (simp add: dget_dict_of)
  show ?thesis
    by (simp add: refresh_extra_env_def dget_dunion rev split: option.splits)
qed

section \<open>A concrete manager\<close>

definition demo_mx :: "nat mcp_ctx" where
  "demo_mx = \<lparr>mx_connect = (\<lambda>_ w. (None, w)), mx_call = (\<lambda>_ _ _ w. (Inr [(''ok'', PBool True)], Suc w)),
     mx_close = (\<lambda>_ w. w)\<rparr>"

definition demo_server_config :: "bool \<Rightarrow> pydict" where
  "demo_server_config enabled =
     [(''server_id'', PStr ''s1''), (''enabled'', PBool enabled), (''command'', PStr ''npx''),
      (''tools'', PList [PDict [(''name'', PStr ''search'')]])]"

definition empty_mcp :: "nat mcp_state" where
  "empty_mcp = \<lparr>ms_registry = new_tool_registry, ms_client = [], ms_world = (new_mcp_manager [(''A'', ''1'')] None, 0)\<rparr>"

definition loaded_mcp :: "nat mcp_state" where
  "loaded_mcp = snd (reload_from_store demo_mx [demo_server_config True] empty_mcp)"

theorem unloaded_server_tools_stay_witness:
  "\<exists>spec. registry_get_spec (ms_registry (snd (reload_from_store demo_mx [demo_server_config False] loaded_mcp)))
      ''ext.s1.search'' = Some spec"
proof -
  have "distinct (dkeys (tg_specs (ms_registry loaded_mcp)))
    \<and> map_option ts_server_name (registry_get_spec (ms_registry loaded_mcp) ''ext.s1.search'') = Some ''s1''
    \<and> ready_tools (demo_server_config False) = None" by code_simp
  then obtain spec where "distinct (dkeys (tg_specs (ms_registry loaded_mcp)))"
    "registry_get_spec (ms_registry loaded_mcp) ''ext.s1.search'' = Some spec" "ts_server_name spec = ''s1''"
    "\<forall>s \<in> set [demo_server_config False]. text_field s ''server_id'' [] = ''s1'' \<longrightarrow> ready_tools s = None" by auto
  from unloaded_server_tools_stay[OF this prod.collapse[symmetric], of demo_mx] show ?thesis by blast
qed

theorem session_env_overlaid_witness:
  "dget (fst (refresh_extra_env demo_mx (set_run_env_overlay demo_mx [(''A'', ''2'')] (ms_world empty_mcp)))) ''A'' = Some ''2''"
proof -
  obtain m w where mw: "set_run_env_overlay demo_mx [(''A'', ''2'')] (ms_world empty_mcp) = (m, w)" by fastforce
  have "mm_overlay m = [(''A'', ''2'')]"
    using mw by (simp add: set_run_env_overlay_def close_all_sessions_def empty_mcp_def new_mcp_manager_def split: prod.splits)
      auto
  then show ?thesis using session_env_overlaid[of m demo_mx w "''A''"] mw by simp
qed

end
