(* ===== verification/AgentLoop.thy ===== *)
theory AgentLoop
  imports PlanExecution Playbook SkillEnv McpManager
begin

text \<open>
  A whole agent run: the prompt (\<open>agent_runtime/prompt_builder.py\<close>), one attempt with the choice of
  its playbook, its environment and its planner (\<open>attempt_runner.py\<close>, \<open>run_once\<close>), and the loop over
  the attempts with its events (\<open>run_loop.py\<close>, \<open>infra_core/agent_events.py\<close>).

  The world of an attempt is the gateway with its counter of fresh inputs; the gateway's tools
  work on the server manager, whose environment an attempt overlays and restores. The planner,
  the files of the skills and the administrator's items are arguments. An exception that
  escapes an attempt ends the run.
\<close>

section \<open>The prompt\<close>

definition user_parts :: "case_create_request \<Rightarrow> string option \<Rightarrow> string list" where
  "user_parts req history =
     [''title: '' @ cq_title req, ''service_name: '' @ cq_service_name req,
      ''source: '' @ cq_source req, ''symptom: '' @ cq_symptom req,
      ''metadata: '' @ json_dumps (PDict (cq_metadata req))]
     @ (case history of None \<Rightarrow> []
        | Some h \<Rightarrow> (if h = [] then [] else [''history_summary: '' @ h]))"

definition build_messages :: "case_create_request \<Rightarrow> string option \<Rightarrow> pydict list" where
  "build_messages req history =
     [[(''role'', PStr ''system''),
       (''content'', PStr (''You are RootSeeker Agent Runtime. Execute the incident triage plan, ''
          @ ''collect tool evidence through MCP, and keep each attempt replayable.''))],
      [(''role'', PStr ''user''), (''content'', PStr (join newline (user_parts req history)))]]"

section \<open>One attempt (attempt_runner.py)\<close>

type_synonym 'v agent_env = "nat \<times> 'v mcp_world mcp_gateway"

record planner_query =
  pq_case_request :: case_create_request
  pq_tools :: "tool_spec list"
  pq_history_summary :: "string option"
  pq_playbook_text :: string
  pq_skill_catalog :: "pydict list"
  pq_allowed_tool_names :: "string set"

text \<open>
  \<open>lx_planner\<close> is given the number of the attempt, for its answers may differ; \<open>lx_skill_file\<close> is the
  text of a skill's document, if there is one.
\<close>

record 'v loop_ctx =
  lx_attempt :: "nat \<Rightarrow> 'v agent_env attempt_ctx"
  lx_mcp :: "'v mcp_ctx"
  lx_settings :: llm_settings
  lx_skills :: playbook_state
  lx_helpers :: "skill_spec list"
  lx_process_env :: env
  lx_admin_items :: "pydict list"
  lx_skill_file :: "string \<Rightarrow> string option"
  lx_planner :: "(nat \<Rightarrow> planner_query \<Rightarrow> tool_plan_result res) option"
  lx_event_id :: "nat \<Rightarrow> string"
  lx_max_attempts :: int

definition env_key_list :: "pyval \<Rightarrow> string list" where
  "env_key_list v =
     (case v of
        PStr s \<Rightarrow> split_ws s
      | PList xs \<Rightarrow> filter (\<lambda>t. t \<noteq> []) (map (\<lambda>x. py_strip (py_str x)) xs)
      | _ \<Rightarrow> [])"

definition resolve_playbook_env :: "'v loop_ctx \<Rightarrow> skill_spec \<Rightarrow> skill_env res" where
  "resolve_playbook_env lx playbook =
     (let md = ss_metadata playbook in
      resolve_skill_env (env_key_list (py_get md ''env''))
        (env_key_list (py_or (py_get md ''optional_env'') (py_get md ''env_optional'')))
        (lx_process_env lx) (lx_admin_items lx) True)"

definition load_playbook_body :: "'v loop_ctx \<Rightarrow> skill_spec \<Rightarrow> string res" where
  "load_playbook_body lx playbook =
     (let dir = py_get (ss_metadata playbook) ''skill_dir'' in
      if \<not> py_truthy dir then Inr []
      else case lx_skill_file lx (py_str dir) of
             None \<Rightarrow> Inr []
           | Some doc \<Rightarrow> load_skill_body doc)"

definition skill_catalog :: "skill_registry \<Rightarrow> pydict list" where
  "skill_catalog r =
     map (\<lambda>s. [(''name'', PStr (ss_name s)), (''description'', PStr (ss_description s))])
       (filter (\<lambda>s. py_get_or (ss_metadata s) ''enabled'' (PBool True) \<noteq> PBool False) (list_skills r))"

definition planner_query_of ::
    "'v loop_ctx \<Rightarrow> case_create_request \<Rightarrow> string option \<Rightarrow> skill_spec \<Rightarrow> string \<Rightarrow> 'v mcp_world tool_registry
     \<Rightarrow> planner_query" where
  "planner_query_of lx req history playbook body reg =
     (let allowed = allowed_tools_for_run playbook (lx_helpers lx) - set post_report_tool_names in
      \<lparr>pq_case_request = req,
       pq_tools = filter (\<lambda>t. ts_name t \<in> allowed) (resolve_planner_tools reg (Some playbook) True),
       pq_history_summary = history, pq_playbook_text = body,
       pq_skill_catalog = skill_catalog (pb_registry (lx_skills lx)),
       pq_allowed_tool_names = allowed\<rparr>)"

text \<open>The manager behind the gateway's external tools.\<close>

definition on_manager :: "('v mcp_world \<Rightarrow> 'v mcp_world) \<Rightarrow> 'v agent_env \<Rightarrow> 'v agent_env" where
  "on_manager f = (\<lambda>(n, g). (n, g\<lparr>mg_world := f (mg_world g)\<rparr>))"

definition manager_of :: "'v agent_env \<Rightarrow> 'v mcp_manager" where
  "manager_of e = fst (mg_world (snd e))"

definition run_overlay :: "skill_env \<Rightarrow> env" where
  "run_overlay x = map (\<lambda>(k, v). (k, py_str v)) (se_mcp_extra x)"

text \<open>What the \<open>finally\<close> block puts back.\<close>

definition restore_env ::
    "'v mcp_ctx \<Rightarrow> env \<Rightarrow> ('v \<Rightarrow> env option) option \<Rightarrow> 'v mcp_world \<Rightarrow> 'v mcp_world" where
  "restore_env mx extra provider w =
     set_extra_env_provider provider (set_extra_env mx extra (set_run_env_overlay mx [] w))"

definition failed_attempt ::
    "'v loop_ctx \<Rightarrow> nat \<Rightarrow> case_create_request \<Rightarrow> pydict list \<Rightarrow> model_route \<Rightarrow> string option \<Rightarrow> string \<Rightarrow> string
     \<Rightarrow> stores \<Rightarrow> 'v agent_env \<Rightarrow> (attempt_result \<times> stores \<times> 'v agent_env) res" where
  "failed_attempt lx n req messages route skill code reason so e =
     (case fail_attempt (lx_attempt lx n) req messages route code reason None skill so of
        (a, so') \<Rightarrow> Inr (a, so', e))"

text \<open>The body of the outer \<open>try\<close>.\<close>

definition run_with_playbook ::
    "'v loop_ctx \<Rightarrow> nat \<Rightarrow> case_create_request \<Rightarrow> pydict list \<Rightarrow> model_route \<Rightarrow> string option \<Rightarrow> skill_spec
     \<Rightarrow> stores \<Rightarrow> 'v agent_env \<Rightarrow> (attempt_result \<times> stores \<times> 'v agent_env) res" where
  "run_with_playbook lx n req messages route history playbook so e =
     (case resolve_playbook_env lx playbook of
        Inl (SkillError code msg) \<Rightarrow>
          failed_attempt lx n req messages route (Some (ss_name playbook)) code msg so e
      | Inl x \<Rightarrow> Inl x
      | Inr env \<Rightarrow>
          (let e1 = on_manager (set_run_env_overlay (lx_mcp lx) (run_overlay env)) e in
           bind_res (load_playbook_body lx playbook) (\<lambda>body.
           bind_res (substitute_non_secret body (se_substitutions env)) (\<lambda>body'.
             case lx_planner lx of
               None \<Rightarrow> failed_attempt lx n req messages route (Some (ss_name playbook))
                         ''SKILL_PLANNER_FAILED'' ''llm planner is not configured'' so e1
             | Some plan \<Rightarrow>
                 bind_res (plan n (planner_query_of lx req history playbook body' (mg_registry (snd e1))))
                   (\<lambda>r. run_llm_tool_plan (lx_attempt lx n) req messages route playbook (lx_helpers lx) r so e1)))))"

definition run_once ::
    "'v loop_ctx \<Rightarrow> nat \<Rightarrow> case_create_request \<Rightarrow> attempt_result list \<Rightarrow> stores \<Rightarrow> 'v agent_env
     \<Rightarrow> (attempt_result \<times> stores \<times> 'v agent_env) res" where
  "run_once lx n req prior so e =
     (let history = attempt_history_summary 3 prior;
          messages = build_messages req history;
          route = select_route (lx_settings lx) req
      in case resolve_playbook (lx_skills lx) req of
           Inl (SkillError code msg) \<Rightarrow> failed_attempt lx n req messages route None code msg so e
         | Inl x \<Rightarrow> Inl x
         | Inr playbook \<Rightarrow>
             (let (extra, w) = refresh_extra_env (lx_mcp lx) (mg_world (snd e));
                  e1 = on_manager (\<lambda>_. w) e;
                  provider = mm_provider (manager_of e1)
              in bind_res (run_with_playbook lx n req messages route history playbook so e1)
                   (\<lambda>(a, so', e2). Inr (a, so', on_manager (restore_env (lx_mcp lx) extra provider) e2))))"

section \<open>The run (run_loop.py)\<close>

definition build_agent_event :: "string \<Rightarrow> string \<Rightarrow> string \<Rightarrow> string \<Rightarrow> pydict \<Rightarrow> audit_event" where
  "build_agent_event fresh action actor target detail =
     \<lparr>ae_event_id = ''agent-evt-'' @ fresh, ae_category = Aud_SYSTEM, ae_action = action,
      ae_actor = actor, ae_target = target, ae_trace_id = None, ae_request_id = None,
      ae_detail = detail\<rparr>"

definition opt_detail :: "pydict \<Rightarrow> string \<Rightarrow> string option" where
  "opt_detail d k = (if py_truthy (py_get d k) then Some (py_str (py_get d k)) else None)"

definition emit ::
    "'v loop_ctx \<Rightarrow> string \<Rightarrow> string \<Rightarrow> pydict \<Rightarrow> agent_run_result option
     \<Rightarrow> agent_run_event list \<times> 'v agent_env \<Rightarrow> agent_run_event list \<times> 'v agent_env" where
  "emit lx action target detail result = (\<lambda>(evs, n, g).
     (evs @ [\<lparr>ev_event_type = action, ev_case_id = opt_detail detail ''case_id'',
              ev_attempt_id = opt_detail detail ''attempt_id'', ev_payload = detail,
              ev_result = result\<rparr>],
      Suc n,
      g\<lparr>mg_audit := audit_append (build_agent_event (lx_event_id lx n) action ''agent-runtime'' target detail)
                      (mg_audit g)\<rparr>))"

definition emit_trace ::
    "'v loop_ctx \<Rightarrow> attempt_result \<Rightarrow> tool_trace
     \<Rightarrow> agent_run_event list \<times> 'v agent_env \<Rightarrow> agent_run_event list \<times> 'v agent_env" where
  "emit_trace lx a t =
     emit lx (if tt_ok t then ''agent.tool.trace'' else ''agent.tool.error'') (at_case_id a)
       [(''case_id'', PStr (at_case_id a)), (''attempt_id'', PStr (at_attempt_id a)),
        (''step_id'', PStr (tt_step_id t)), (''tool_name'', PStr (tt_tool_name t)),
        (''ok'', PBool (tt_ok t)), (''error_code'', opt_pystr (tt_error_code t))] None"

definition emit_attempt_events ::
    "'v loop_ctx \<Rightarrow> attempt_result
     \<Rightarrow> agent_run_event list \<times> 'v agent_env \<Rightarrow> agent_run_event list \<times> 'v agent_env" where
  "emit_attempt_events lx a st =
     (let st1 = emit lx (''agent.attempt.'' @ at_status a) (at_case_id a)
            [(''case_id'', PStr (at_case_id a)), (''attempt_id'', PStr (at_attempt_id a)),
             (''flow_run_id'', opt_pystr (at_flow_run_id a)),
             (''route_mode'', PStr (mr_mode (at_route a))),
             (''tool_trace_count'', PInt (int (length (at_tool_traces a))))] None st;
          st2 = foldl (\<lambda>st t. emit_trace lx a t st) st1 (at_tool_traces a)
      in case at_compacted_context a of
           None \<Rightarrow> st2
         | Some c \<Rightarrow>
             (if cc_compacted c then
                emit lx ''agent.context.compacted'' (at_case_id a)
                  [(''case_id'', PStr (at_case_id a)), (''attempt_id'', PStr (at_attempt_id a)),
                   (''retained_step_ids'', PList (map PStr (cc_retained_step_ids c))),
                   (''omitted_step_ids'', PList (map PStr (cc_omitted_step_ids c))),
                   (''source_token_estimate'', PInt (int (cc_source_token_estimate c)))] None st2
              else st2))"

definition max_attempts :: "'v loop_ctx \<Rightarrow> nat" where
  "max_attempts lx = nat (max 1 (lx_max_attempts lx))"

text \<open>The attempts from number \<open>n\<close> on; the first argument is the number of attempts left.\<close>

fun run_attempts ::
    "nat \<Rightarrow> 'v loop_ctx \<Rightarrow> case_create_request \<Rightarrow> attempt_result list \<Rightarrow> stores
     \<Rightarrow> agent_run_event list \<times> 'v agent_env
     \<Rightarrow> (attempt_result list \<times> stores \<times> agent_run_event list \<times> 'v agent_env) res" where
  "run_attempts 0 lx req prior so st = Inr (prior, so, st)"
| "run_attempts (Suc left) lx req prior so st =
     bind_res (run_once lx (length prior) req prior so (snd st)) (\<lambda>(a, so', e').
       let st1 = emit_attempt_events lx a (fst st, e') in
       if at_status a = ''completed'' then Inr (prior @ [a], so', st1)
       else run_attempts left lx req (prior @ [a]) so'
              (if left = 0 then st1
               else emit lx ''agent.attempt.retrying'' (at_case_id a)
                      [(''case_id'', PStr (at_case_id a)), (''attempt_id'', PStr (at_attempt_id a)),
                       (''next_attempt'', PInt (int (length prior) + 2)),
                       (''max_attempts'', PInt (int (max_attempts lx)))] None st1))"

definition run_result :: "'v loop_ctx \<Rightarrow> attempt_result list \<Rightarrow> agent_run_result res" where
  "run_result lx attempts =
     (if attempts = [] then Inl (RuntimeError ''agent run loop ended without attempts'')
      else let a = last attempts in
        Inr \<lparr>ar_case_id = at_case_id a, ar_status = at_status a, ar_attempts = attempts,
             ar_trace_id = at_flow_run_id a, ar_compacted_context = at_compacted_context a,
             ar_metadata = [(''max_attempts'', PInt (int (max_attempts lx))),
                            (''attempt_count'', PInt (int (length attempts))),
                            (''route_mode'', PStr (mr_mode (at_route a)))]\<rparr>)"

definition emit_started ::
    "'v loop_ctx \<Rightarrow> case_create_request \<Rightarrow> 'v agent_env \<Rightarrow> agent_run_event list \<times> 'v agent_env" where
  "emit_started lx req e =
     emit lx ''agent.run.started'' ''agent-runtime''
       [(''title'', PStr (cq_title req)), (''service_name'', PStr (cq_service_name req)),
        (''source'', PStr (cq_source req))] None ([], e)"

definition emit_finished ::
    "'v loop_ctx \<Rightarrow> agent_run_result
     \<Rightarrow> agent_run_event list \<times> 'v agent_env \<Rightarrow> agent_run_event list \<times> 'v agent_env" where
  "emit_finished lx r =
     emit lx (''agent.run.'' @ ar_status r) (ar_case_id r)
       [(''case_id'', PStr (ar_case_id r)), (''trace_id'', opt_pystr (ar_trace_id r)),
        (''attempt_count'', PInt (int (length (ar_attempts r))))] (Some r)"

definition run_stream ::
    "'v loop_ctx \<Rightarrow> case_create_request \<Rightarrow> stores \<Rightarrow> 'v agent_env
     \<Rightarrow> (agent_run_event list \<times> stores \<times> 'v agent_env) res" where
  "run_stream lx req so e =
     bind_res (run_attempts (max_attempts lx) lx req [] so (emit_started lx req e)) (\<lambda>(attempts, so', st).
       bind_res (run_result lx attempts) (\<lambda>r.
         case emit_finished lx r st of (evs, e') \<Rightarrow> Inr (evs, so', e')))"

text \<open>\<open>run\<close> answers the result of the last event that has one.\<close>

definition agent_run ::
    "'v loop_ctx \<Rightarrow> case_create_request \<Rightarrow> stores \<Rightarrow> 'v agent_env
     \<Rightarrow> (agent_run_result \<times> agent_run_event list \<times> stores \<times> 'v agent_env) res" where
  "agent_run lx req so e =
     bind_res (run_stream lx req so e) (\<lambda>(evs, so', e').
       case List.map_filter ev_result evs of
         [] \<Rightarrow> Inl (RuntimeError ''agent run stream ended without result'')
       | r # rs \<Rightarrow> Inr (last (r # rs), evs, so', e'))"

end
