(* ===== verification/PlanExamples.thy ===== *)
theory PlanExamples
  imports PlanExecution
begin

text \<open>
  Concrete plans: instances at which the properties of \<open>PlanExecution\<close> apply, and four plans on
  which the runner does what it should not: a step listed before a required dependency that is
  skipped runs all the same; two calls with one step id end the attempt with a transition error;
  a plan of optional steps none of which can run does too; and a step that waits for the
  notification call, which is taken out of the plan, is skipped as a dependency cycle.
\<close>

section \<open>Plans over a counting invoker\<close>

definition mk_call :: "string \<Rightarrow> string \<Rightarrow> string list \<Rightarrow> bool \<Rightarrow> tool_plan_call" where
  "mk_call i tool deps required =
     \<lparr>pc_tool_name = tool, pc_step_id = i, pc_arguments = [], pc_rationale = [], pc_depends_on = deps,
      pc_timeout_seconds = None, pc_required = required\<rparr>"

definition mk_plan :: "tool_plan_call list \<Rightarrow> tool_plan" where
  "mk_plan calls = \<lparr>tp_tool_calls = calls, tp_rationale = [], tp_final_answer = None, tp_raw = []\<rparr>"

definition mk_result :: "tool_plan_call list \<Rightarrow> tool_plan_result" where
  "mk_result calls = \<lparr>pr_ok = True, pr_plan = Some (mk_plan calls), pr_provider = None, pr_model = None,
     pr_elapsed_ms = None, pr_raw_content = [], pr_error = None\<rparr>"

definition demo_case_request :: case_create_request where
  "demo_case_request = \<lparr>cq_title = ''t'', cq_symptom = ''s'', cq_service_name = ''svc'', cq_source = ''api'',
     cq_metadata = []\<rparr>"

definition demo_rules :: arg_rules where
  "demo_rules = \<lparr>ar_resolve = (\<lambda>_ _ _. []), ar_call_chain = (\<lambda>_ _. []),
     ar_chain_methods = (\<lambda>_ _. []), ar_fault_line = (\<lambda>_ _. None)\<rparr>"

text \<open>Every tool answers, with an error for the tool \<open>log.down\<close>; the environment counts the calls.\<close>

definition demo_invoke :: "tool_call_request \<Rightarrow> nat \<Rightarrow> tool_call_result res \<times> nat" where
  "demo_invoke q n =
     (Inr \<lparr>tr_ok = (rq_tool_name q \<noteq> ''log.down''), tr_tool_name = rq_tool_name q, tr_content = [],
           tr_error = None, tr_latency_ms = 0\<rparr>, Suc n)"

definition demo_ctx :: "tool_plan_call list \<Rightarrow> nat run_ctx" where
  "demo_ctx calls = \<lparr>rx_calls = calls, rx_request = demo_case_request, rx_rules = demo_rules,
     rx_invoke = demo_invoke, rx_max_chars = 800\<rparr>"

definition demo_case :: "tool_plan_call list \<Rightarrow> case_record" where
  "demo_case calls = projr (build_case_from_plan ''case-1'' 0 demo_case_request (mk_result calls)
     (mk_plan calls) ''triage'')"

definition demo_item_id :: "string \<Rightarrow> string" where
  "demo_item_id i = ''ev-'' @ i"

definition demo_run :: "tool_plan_call list \<Rightarrow> nat run_state res" where
  "demo_run calls = run_waves (demo_ctx calls) (initial_state 0 (demo_case calls))"

definition run_report :: "string list \<Rightarrow> nat run_state res \<Rightarrow> (step_status list \<times> string list \<times> nat) res" where
  "run_report ids r =
     map_sum id (\<lambda>s. (map (final_status (rs_records s)) ids,
                map (\<lambda>t. case tt_error_code t of None \<Rightarrow> [] | Some c \<Rightarrow> c) (rs_traces s), rs_env s)) r"

lemma demo_answers: "answers (\<lambda>_. True) demo_invoke"
  by (simp add: answers_def demo_invoke_def)

lemma rx_demo [simp]:
  "rx_calls (demo_ctx calls) = calls" "rx_invoke (demo_ctx calls) = demo_invoke"
  "tp_tool_calls (mk_plan calls) = calls"
  by (simp_all add: demo_ctx_def mk_plan_def)

lemma demo_case_built:
  "list_all valid_case_step (map (step_of_call ''triage'') calls) \<Longrightarrow>
   build_case_from_plan ''case-1'' 0 demo_case_request (mk_result calls) (mk_plan calls) ''triage''
     = Inr (demo_case calls)"
  by (simp add: demo_case_def build_case_from_plan_def Let_def transition_case_status_def
      validate_case_transition_def)

definition demo_calls :: "tool_plan_call list" where
  "demo_calls = [mk_call ''s1'' ''log.query'' [] True, mk_call ''s2'' ''trace.get'' [''s1''] True,
     mk_call ''s3'' ''log.down'' [''s1'', ''s2''] False]"

lemma demo_calls_valid: "list_all valid_case_step (map (step_of_call ''triage'') demo_calls)"
  "distinct (step_ids demo_calls)"
  by (simp_all add: demo_calls_def mk_call_def step_of_call_def valid_case_step_def step_ids_def)

lemma demo_premises:
  "distinct (step_ids (tp_tool_calls (mk_plan demo_calls)))"
  "rx_calls (demo_ctx demo_calls) = tp_tool_calls (mk_plan demo_calls)"
  "answers (\<lambda>_. True) (rx_invoke (demo_ctx demo_calls))"
  using demo_calls_valid(2) demo_answers by simp_all

lemmas demo_facts = demo_case_built[OF demo_calls_valid(1)] demo_premises TrueI

lemma demo_run_report:
  "run_report [''s1'', ''s2'', ''s3''] (demo_run demo_calls)
    = Inr ([Step_COMPLETED, Step_COMPLETED, Step_FAILED], [[], [], []], 3)"
  by code_simp

section \<open>The properties at a concrete plan\<close>

theorem plan_steps_traced_once_witness:
  "\<exists>s. demo_run demo_calls = Inr s \<and> distinct (map tt_step_id (rs_traces s))
     \<and> set (map tt_step_id (rs_traces s)) = {''s1'', ''s2'', ''s3''}"
  using plan_steps_traced_once[OF demo_facts, where g = 0]
  by (auto simp: demo_run_def demo_calls_def mk_call_def step_ids_def)

theorem plan_outcome_witness:
  "\<exists>s c pack. demo_run demo_calls = Inr s
     \<and> settle_case (demo_ctx demo_calls) demo_item_id s = Inr (c, pack)
     \<and> cr_status c = Case_COMPLETED"
proof -
  have rq: "list_ex pc_required demo_calls" by (simp add: demo_calls_def mk_call_def)
  obtain s c pack where s: "demo_run demo_calls = Inr s"
    and o': "settle_case (demo_ctx demo_calls) demo_item_id s = Inr (c, pack)"
      "cr_status c = (if list_ex (\<lambda>k. pc_required k
                \<and> final_status (rs_records s) (pc_step_id k) \<noteq> Step_COMPLETED) demo_calls
              then Case_FAILED else Case_COMPLETED)"
    using plan_outcome[OF demo_facts, where g = 0 and item_id = demo_item_id] rq
    unfolding rx_demo demo_run_def by (simp del: list_ex_iff) blast
  have "map (final_status (rs_records s)) [''s1'', ''s2'', ''s3'']
      = [Step_COMPLETED, Step_COMPLETED, Step_FAILED]"
    using demo_run_report unfolding s by (simp add: run_report_def)
  then have "\<not> list_ex (\<lambda>k. pc_required k \<and> final_status (rs_records s) (pc_step_id k) \<noteq> Step_COMPLETED) demo_calls"
    by (simp add: demo_calls_def mk_call_def)
  with o' s show ?thesis by auto
qed

definition demo_rank :: "string \<Rightarrow> nat" where
  "demo_rank i = (if i = ''s1'' then 0 else if i = ''s2'' then 1 else 2)"

theorem acyclic_plan_runs_witness:
  "\<exists>s. demo_run demo_calls = Inr s \<and> executed s = {''s1'', ''s2'', ''s3''}"
proof -
  have "ranked (demo_ctx demo_calls) (step_ids (tp_tool_calls (mk_plan demo_calls))) demo_rank"
    by code_simp
  from acyclic_plan_runs[OF demo_facts this, where g = 0]
  obtain s where s: "demo_run demo_calls = Inr s"
    and o': "executed s = set (step_ids demo_calls)
      \<or> (\<exists>i x. is_required (demo_ctx demo_calls) i \<and> dget (rs_records s) i = Some x \<and> \<not> tr_ok (ex_result x))"
    unfolding rx_demo demo_run_def by blast
  have st: "map (final_status (rs_records s)) [''s1'', ''s2'', ''s3'']
      = [Step_COMPLETED, Step_COMPLETED, Step_FAILED]"
    using demo_run_report unfolding s by (simp add: run_report_def)
  have "False" if rq: "is_required (demo_ctx demo_calls) i" "dget (rs_records s) i = Some x" "\<not> tr_ok (ex_result x)" for i x
  proof -
    obtain c where c: "call_of (demo_ctx demo_calls) i = Some c" "pc_required c"
      using rq by (auto simp: is_required_def split: option.splits)
    have "distinct (step_ids (rx_calls (demo_ctx demo_calls)))" using demo_calls_valid(2) by simp
    from call_of_Some_iff[OF this, of i c] c(1) have "c \<in> set demo_calls" "pc_step_id c = i" by simp_all
    with c(2) have "i = ''s1'' \<or> i = ''s2''" by (auto simp: demo_calls_def mk_call_def)
    moreover have "final_status (rs_records s) i = Step_FAILED" using that by (simp add: final_status_def)
    ultimately show False using st by auto
  qed
  with o' s show ?thesis by (auto simp: step_ids_def demo_calls_def mk_call_def)
qed

theorem listed_plan_runs_unblocked_witness:
  "\<exists>s. demo_run demo_calls = Inr s
     \<and> (\<forall>i \<in> executed s. \<forall>d \<in> set (deps_of (demo_ctx demo_calls) i).
          is_required (demo_ctx demo_calls) d \<longrightarrow> final_status (rs_records s) d = Step_COMPLETED)"
proof -
  have "no_forward (demo_ctx demo_calls) (step_ids (tp_tool_calls (mk_plan demo_calls)))" by code_simp
  from listed_plan_runs_unblocked[OF demo_facts this, where g = 0] show ?thesis
    unfolding demo_run_def .
qed

definition agent_ctx :: "tool_plan_call list \<Rightarrow> (nat \<times> nat mcp_gateway) run_ctx" where
  "agent_ctx calls = \<lparr>rx_calls = calls, rx_request = demo_case_request, rx_rules = demo_rules,
     rx_invoke = agent_invoke (\<lambda>n. demo_inputs), rx_max_chars = 800\<rparr>"

definition notify_calls :: "tool_plan_call list" where
  "notify_calls = [mk_call ''s1'' ''notify.send'' [] True, mk_call ''s2'' ''notify.send'' [''s1''] True]"

theorem plan_audited_witness:
  "\<exists>s evs. run_waves (agent_ctx notify_calls) (initial_state (0, demo_gateway demo_handler False)
        (demo_case notify_calls)) = Inr s
    \<and> mg_audit (snd (rs_env s)) = evs \<and> map ae_target evs = [''notify.send'', ''notify.send'']
    \<and> map ae_target evs = map (\<lambda>t. tool_of (agent_ctx notify_calls) (tt_step_id t)) (executed_traces s)"
proof -
  have v: "list_all valid_case_step (map (step_of_call ''triage'') notify_calls)"
    "distinct (step_ids (tp_tool_calls (mk_plan notify_calls)))"
    by (simp_all add: notify_calls_def mk_call_def step_of_call_def valid_case_step_def step_ids_def mk_plan_def)
  have cx: "rx_calls (agent_ctx notify_calls) = tp_tool_calls (mk_plan notify_calls)"
    "rx_invoke (agent_ctx notify_calls) = agent_invoke (\<lambda>n. demo_inputs)"
    by (simp_all add: agent_ctx_def mk_plan_def)
  have sp: "tools_speak (demo_gateway demo_handler False)"
    by (auto simp: tools_speak_def run_tool_def demo_gateway_def registry_get_handler_def demo_handler_def
        split: if_splits)
  from plan_audited[OF demo_case_built[OF v(1)] v(2) cx sp, where n = 0]
  obtain s evs where s: "run_waves (agent_ctx notify_calls) (initial_state (0, demo_gateway demo_handler False)
        (demo_case notify_calls)) = Inr s" "mg_audit (snd (rs_env s)) = evs"
    "map ae_target evs = map (\<lambda>t. tool_of (agent_ctx notify_calls) (tt_step_id t)) (executed_traces s)"
    by (auto simp: demo_gateway_def)
  moreover have "map_sum id (\<lambda>s. map ae_target (mg_audit (snd (rs_env s))))
      (run_waves (agent_ctx notify_calls) (initial_state (0, demo_gateway demo_handler False)
        (demo_case notify_calls))) = Inr [''notify.send'', ''notify.send'']"
    by code_simp
  ultimately show ?thesis by auto
qed

section \<open>Plans on which the runner goes wrong\<close>

text \<open>
  A step listed before a required dependency runs although that dependency is skipped in
  the same wave: \<open>late\<close> depends on \<open>mid\<close>, which is required and is skipped because \<open>first\<close>
  failed; the pass over the pending steps looks at \<open>late\<close> before it skips \<open>mid\<close>, and the wave then
  finds all dependencies of \<open>late\<close> finished. Listed in dependency order the same plan skips it.
\<close>
theorem forward_reference_runs:
  "run_report [''first'', ''mid'', ''late'']
     (demo_run [mk_call ''late'' ''notify.page'' [''mid''] True, mk_call ''mid'' ''trace.get'' [''first''] True,
        mk_call ''first'' ''log.down'' [] True])
   = Inr ([Step_FAILED, Step_SKIPPED, Step_COMPLETED], [[], ''DEPENDENCY_FAILED'', []], 2)
   \<and> run_report [''first'', ''mid'', ''late'']
     (demo_run [mk_call ''first'' ''log.down'' [] True, mk_call ''mid'' ''trace.get'' [''first''] True,
        mk_call ''late'' ''notify.page'' [''mid''] True])
   = Inr ([Step_FAILED, Step_SKIPPED, Step_SKIPPED], [[], ''DEPENDENCY_FAILED'', ''DEPENDENCY_FAILED''], 1)"
  by code_simp

text \<open>
  Two calls of a plan with the same step id end the attempt: the second start of the step
  raises the transition error running to running, although the plan was accepted.
\<close>
theorem duplicate_step_id_raises:
  "demo_run [mk_call ''s1'' ''log.query'' [] True, mk_call ''s1'' ''trace.get'' [] True]
   = Inl (StateTransitionError ''step'' (step_transition_message Step_RUNNING Step_RUNNING))"
  by code_simp

text \<open>
  A step that depends on the notification call never runs: the call is taken out of the
  plan after the dependencies were checked, so the step waits for an id that is no step of the
  case and is skipped as a dependency cycle. The same holds for any id that is not in the plan.
\<close>
theorem missing_dependency_never_runs:
  assumes "build_case_from_plan cid now req r plan skill = Inr c"
    and "distinct (step_ids (tp_tool_calls plan))" and "rx_calls cx = tp_tool_calls plan"
    and "answers E (rx_invoke cx)" and "E g"
    and "k \<in> set (tp_tool_calls plan)" and "\<not> set (pc_depends_on k) \<subseteq> set (step_ids (tp_tool_calls plan))"
  shows "\<exists>s. run_waves cx (initial_state g c) = Inr s
    \<and> final_status (rs_records s) (pc_step_id k) = Step_SKIPPED"
proof -
  obtain s where s: "run_waves cx (initial_state g c) = Inr s"
    "run_inv cx (step_ids (tp_tool_calls plan)) {} s" "rs_pending s = []"
    using plan_runs[OF assms(1-5)] by metis
  have "deps_of cx (pc_step_id k) = pc_depends_on k"
    using call_of_in[of cx k] assms(2,3,6) by (simp add: deps_of_def)
  then have "pc_step_id k \<notin> set (dkeys (rs_records s))"
    using executed_deps_finished[OF s(2)] all_finished[OF s(2,3)] assms(7) by metis
  then have "dget (rs_records s) (pc_step_id k) = None" by (simp only: dget_None_keys simp_thms)
  with s(1) show ?thesis by (auto simp: final_status_def)
qed

theorem missing_dependency_never_runs_witness:
  "\<exists>r calls plan. r = mk_result [mk_call ''n'' ''notify.send'' [] True, mk_call ''s'' ''log.query'' [''n''] True]
     \<and> pr_plan (without_post_report_tools r) = Some plan \<and> tp_tool_calls plan = calls
     \<and> (\<exists>s. run_waves (demo_ctx calls) (initial_state 0 (demo_case calls)) = Inr s
           \<and> final_status (rs_records s) ''s'' = Step_SKIPPED)"
proof -
  let ?r = "mk_result [mk_call ''n'' ''notify.send'' [] True, mk_call ''s'' ''log.query'' [''n''] True]"
  let ?k = "mk_call ''s'' ''log.query'' [''n''] True"
  have r: "pr_plan (without_post_report_tools ?r) = Some (mk_plan [?k])"
    by (simp add: without_post_report_tools_def mk_result_def mk_plan_def mk_call_def
        post_report_tool_names_def)
  have v: "list_all valid_case_step (map (step_of_call ''triage'') [?k])"
    "distinct (step_ids (tp_tool_calls (mk_plan [?k])))" "?k \<in> set (tp_tool_calls (mk_plan [?k]))"
    "\<not> set (pc_depends_on ?k) \<subseteq> set (step_ids (tp_tool_calls (mk_plan [?k])))"
    by (simp_all add: mk_call_def step_of_call_def valid_case_step_def step_ids_def)
  have cx: "rx_calls (demo_ctx [?k]) = tp_tool_calls (mk_plan [?k])" "answers (\<lambda>_. True) (rx_invoke (demo_ctx [?k]))"
    using demo_answers by simp_all
  from missing_dependency_never_runs[OF demo_case_built[OF v(1)] v(2) cx TrueI v(3,4), where g = 0] r
  show ?thesis by (force simp: mk_call_def)
qed

text \<open>
  A plan of notification calls only raises out of the attempt: without them no step is left,
  the case is still planned, and the transition planned to completed is not allowed. The case is
  not stored.
\<close>
theorem notify_only_plan_raises:
  assumes "pr_ok r" and "pr_plan r = Some plan" and "tp_tool_calls plan \<noteq> []"
    and "\<forall>k \<in> set (tp_tool_calls plan). pc_tool_name k = ''notify.send''"
    and "''notify.send'' \<in> allowed_tools_for_run playbook helpers"
  shows "run_llm_tool_plan ac req messages route playbook helpers r so g
    = Inl (StateTransitionError ''case'' (case_transition_message Case_PLANNED Case_COMPLETED))"
proof -
  have f: "filter (\<lambda>c. pc_tool_name c \<notin> set post_report_tool_names) (tp_tool_calls plan) = []"
    using assms(4) by (auto simp: filter_empty_conv post_report_tool_names_def)
  have dis: "disallowed_tools (allowed_tools_for_run playbook helpers) plan = []"
    using assms(4,5) by (auto simp: disallowed_tools_def filter_empty_conv)
  let ?r = "r\<lparr>pr_plan := Some (plan\<lparr>tp_tool_calls := []\<rparr>)\<rparr>"
  have r': "without_post_report_tools r = ?r"
    using assms(2,3) by (simp add: without_post_report_tools_def Let_def f)
  have "run_planned ac req messages route skill notify ?r (plan\<lparr>tp_tool_calls := []\<rparr>) so g
      = Inl (StateTransitionError ''case'' (case_transition_message Case_PLANNED Case_COMPLETED))" for skill notify
    by (simp add: run_planned_def build_case_from_plan_def transition_case_status_def
        validate_case_transition_def initial_state_def run_waves.simps settle_case_def
        required_step_lost_def Let_def)
  then show ?thesis using assms(1,2) dis r' by (simp add: run_llm_tool_plan_def Let_def)
qed

definition demo_attempt_ctx :: "nat attempt_ctx" where
  "demo_attempt_ctx = \<lparr>ac_invoke = demo_invoke, ac_rules = demo_rules, ac_max_content_chars = 800,
     ac_max_traces = 6, ac_max_context_chars = 2400,
     ac_report = (\<lambda>i t p sv. \<lparr>cp_case_id = i, cp_title = t, cp_summary = [], cp_root_cause = None,
        cp_evidence_item_ids = [], cp_metadata = []\<rparr>),
     ac_summary = (\<lambda>_ _. []), ac_notify_args = (\<lambda>_ _. []), ac_item_id = demo_item_id,
     ac_case_id = ''case-1'', ac_attempt_id = ''attempt-1'', ac_now = 0\<rparr>"

definition demo_playbook :: skill_spec where
  "demo_playbook = \<lparr>ss_name = ''triage'', ss_slug = ''triage'', ss_description = [], ss_skill_kind = Kind_FLOW,
     ss_bound_tools = [''log.query'', ''notify.send''], ss_tags = [], ss_triggers = [], ss_required_tools = [],
     ss_steps = [], ss_source_kind = Src_BUILTIN, ss_version = ''1'', ss_metadata = []\<rparr>"

definition demo_route :: model_route where
  "demo_route = \<lparr>mr_mode = ''llm_tool_plan'', mr_provider_name = None, mr_model = None, mr_reason = [],
     mr_metadata = []\<rparr>"

definition demo_stores :: stores where
  "demo_stores = \<lparr>so_cases = [], so_evidence = [], so_reports = []\<rparr>"

theorem notify_only_plan_raises_witness:
  "run_llm_tool_plan demo_attempt_ctx demo_case_request [] demo_route demo_playbook []
     (mk_result [mk_call ''n'' ''notify.send'' [] True]) demo_stores 0
   = Inl (StateTransitionError ''case'' (case_transition_message Case_PLANNED Case_COMPLETED))"
proof (rule notify_only_plan_raises)
  show "pr_plan (mk_result [mk_call ''n'' ''notify.send'' [] True])
      = Some (mk_plan [mk_call ''n'' ''notify.send'' [] True])" by (simp add: mk_result_def)
  show "''notify.send'' \<in> allowed_tools_for_run demo_playbook []" by code_simp
qed (simp_all add: mk_result_def mk_plan_def mk_call_def)

end
