(* ===== verification/AgentRuns.thy ===== *)
theory AgentRuns
  imports AgentLoop PlanExamples
begin

text \<open>
  Facts about whole agent runs: the attempts of a run and its result, the cases they store, and
  the environment of the MCP servers, which an attempt restores unless two attempts overlap.
\<close>

section \<open>The case of an attempt keeps its id\<close>

lemma transition_step_status_id:
  "transition_step_status i new c = Inr c' \<Longrightarrow> cr_case_id c' = cr_case_id c"
  by (auto simp: transition_step_status_def split: option.splits)

lemma start_steps_id: "start_steps is c = Inr c' \<Longrightarrow> cr_case_id c' = cr_case_id c"
  by (induction "is" arbitrary: c) (auto dest: transition_step_status_id)

lemma finish_step_case: "finish_step cx i b s = Inr s' \<Longrightarrow> rs_case s' = rs_case s"
  by (auto simp: finish_step_def split: if_splits)

lemma skip_step_id:
  assumes "skip_step cx code msg i s = Inr s'"
  shows "cr_case_id (rs_case s') = cr_case_id (rs_case s)"
proof -
  obtain c where c: "transition_step_status i Step_SKIPPED (rs_case s) = Inr c"
    and f: "finish_step cx i True
         (s\<lparr>rs_case := c, rs_traces := rs_traces s @ [skipped_trace cx s i code msg]\<rparr>) = Inr s'"
    using assms unfolding skip_step_def bind_res_Inr_iff by blast
  show ?thesis using transition_step_status_id[OF c] finish_step_case[OF f] by simp
qed

lemma skip_blocked_id:
  "skip_blocked cx is b s = Inr (b', s') \<Longrightarrow> cr_case_id (rs_case s') = cr_case_id (rs_case s)"
  by (induction cx "is" b s rule: skip_blocked.induct) (auto dest!: skip_step_id split: if_splits)

lemma skip_cycle_id: "skip_cycle cx is s = Inr s' \<Longrightarrow> cr_case_id (rs_case s') = cr_case_id (rs_case s)"
  by (induction cx "is" s rule: skip_cycle.induct) (auto dest!: skip_step_id)

lemma prepare_requests_id:
  "prepare_requests cx outs is s = Inr (qs, s') \<Longrightarrow> cr_case_id (rs_case s') = cr_case_id (rs_case s)"
proof (induction "is" arbitrary: s qs)
  case (Cons i "is")
  then obtain q where "dget (rs_requests s) i = Some q" by (auto split: option.splits)
  with Cons.prems Cons.IH show ?case by (fastforce simp: Let_def)
qed simp

lemma record_results_case: "record_results cx xs s = Inr s' \<Longrightarrow> rs_case s' = rs_case s"
  by (induction cx xs s rule: record_results.induct) (auto dest!: finish_step_case)

lemma transition_case_status_fields:
  "transition_case_status new c = Inr c' \<Longrightarrow> cr_case_id c' = cr_case_id c \<and> cr_status c' = new"
  by (auto simp: transition_case_status_def)

lemma run_ready_id:
  assumes "run_ready cx ready s = Inr s'"
  shows "cr_case_id (rs_case s') = cr_case_id (rs_case s)"
proof -
  obtain c1 c2 qs s1 where c1: "start_steps ready (rs_case s) = Inr c1"
    and c2: "(if cr_status c1 = Case_PLANNED then transition_case_status Case_RUNNING c1 else Inr c1) = Inr c2"
    and p: "prepare_requests cx (completed_step_outputs (rs_records s)) ready (s\<lparr>rs_case := c2\<rparr>) = Inr (qs, s1)"
    and e: "(case execute_records (rx_invoke cx) (rx_max_chars cx) (metadata_of cx) qs (rs_env s1) of
            (Inl e, g) \<Rightarrow> Inl e
          | (Inr xs, g) \<Rightarrow> record_results cx xs (s1\<lparr>rs_env := g\<rparr>)) = Inr s'"
    using assms unfolding run_ready_def bind_res_Inr_iff by fastforce
  obtain r g where "execute_records (rx_invoke cx) (rx_max_chars cx) (metadata_of cx) qs (rs_env s1) = (r, g)"
    by fastforce
  with e obtain xs where "record_results cx xs (s1\<lparr>rs_env := g\<rparr>) = Inr s'" by (cases r) auto
  from record_results_case[OF this] have "rs_case s' = rs_case s1" by simp
  moreover have "cr_case_id c2 = cr_case_id c1"
    using c2 transition_case_status_fields by (fastforce split: if_splits)
  ultimately show ?thesis using prepare_requests_id[OF p] start_steps_id[OF c1] by simp
qed

lemma wave_id: "wave cx s = Inr s' \<Longrightarrow> cr_case_id (rs_case s') = cr_case_id (rs_case s)"
  by (auto simp: wave_def dest!: skip_blocked_id skip_cycle_id run_ready_id split: if_splits)

lemma run_waves_id: "run_waves cx s = Inr s' \<Longrightarrow> cr_case_id (rs_case s') = cr_case_id (rs_case s)"
proof (induction cx s rule: run_waves.induct)
  case (1 cx s)
  show ?case
  proof (cases "rs_pending s = []")
    case False
    with "1.prems" obtain s1 where "wave cx s = Inr s1" "run_waves cx s1 = Inr s'"
      by (subst (asm) run_waves.simps) (auto split: sum.splits)
    with "1.IH"[OF False] show ?thesis using wave_id by metis
  qed (use "1.prems" in \<open>simp add: run_waves.simps\<close>)
qed

lemma settle_case_fields:
  assumes "settle_case cx item_id s = Inr (c, pack)"
  shows "cr_case_id c = cr_case_id (rs_case s)" "cr_status c \<in> {Case_FAILED, Case_COMPLETED}"
    "ep_case_id pack = cr_case_id (rs_case s)"
proof -
  let ?p = "\<lparr>ep_case_id = cr_case_id (rs_case s), ep_items = [], ep_summary = []\<rparr>"
  have step: "settle_step item_id rec st pk = Inr (st', pk') \<Longrightarrow> ep_case_id pk' = ep_case_id pk"
    for rec st pk st' pk'
    by (auto simp: settle_step_def append_tool_json_evidence_def Let_def split: option.splits if_splits)
  have steps: "settle_steps item_id rec ss pk = Inr (ss', pk') \<Longrightarrow> ep_case_id pk' = ep_case_id pk"
    for rec ss pk ss' pk'
    by (induction ss arbitrary: pk ss') (auto dest!: step split: prod.splits)
  obtain ss where ss: "settle_steps item_id (rs_records s) (cr_steps (rs_case s)) ?p = Inr (ss, pack)"
    and t: "transition_case_status (if required_step_lost cx ss then Case_FAILED else Case_COMPLETED)
              ((rs_case s)\<lparr>cr_steps := ss\<rparr>) = Inr c"
    using assms unfolding settle_case_def by auto
  show "cr_case_id c = cr_case_id (rs_case s)" "cr_status c \<in> {Case_FAILED, Case_COMPLETED}"
    using transition_case_status_fields[OF t] by auto
  show "ep_case_id pack = cr_case_id (rs_case s)" using steps[OF ss] by simp
qed

section \<open>What an attempt stores\<close>

text \<open>An answered attempt has its case and its evidence stored, under its own case id.\<close>

definition attempt_stored :: "'g attempt_ctx \<Rightarrow> attempt_result \<Rightarrow> stores \<Rightarrow> stores \<Rightarrow> bool" where
  "attempt_stored ac a so so' \<longleftrightarrow>
     at_case_id a = ac_case_id ac \<and> at_attempt_id a = ac_attempt_id ac
     \<and> (\<exists>c pack. so_cases so' = case_store_put c (so_cases so) \<and> cr_case_id c = at_case_id a
          \<and> at_status a = (if cr_status c = Case_FAILED then ''failed'' else ''completed'')
          \<and> cr_status c \<in> {Case_FAILED, Case_COMPLETED}
          \<and> so_evidence so' = evidence_put_pack pack (so_evidence so) \<and> ep_case_id pack = at_case_id a)"

lemma attempt_storedI:
  assumes "at_case_id a = ac_case_id ac" "at_attempt_id a = ac_attempt_id ac"
    and "so_cases so' = case_store_put c (so_cases so)" "cr_case_id c = at_case_id a"
    and "at_status a = (if cr_status c = Case_FAILED then ''failed'' else ''completed'')"
    and "cr_status c \<in> {Case_FAILED, Case_COMPLETED}"
    and "so_evidence so' = evidence_put_pack pack (so_evidence so)" "ep_case_id pack = at_case_id a"
  shows "attempt_stored ac a so so'"
  using assms unfolding attempt_stored_def by blast

lemma fail_attempt_stored:
  assumes "fail_attempt ac req messages route code reason r skill so = (a, so')"
  shows "attempt_stored ac a so so'"
proof -
  have a: "a = fst (fail_attempt ac req messages route code reason r skill so)"
    and so: "so' = snd (fail_attempt ac req messages route code reason r skill so)"
    using assms by simp_all
  show ?thesis
    by (rule attempt_storedI[where
        c = "failed_case (ac_case_id ac) (ac_now ac) req code reason skill" and
        pack = "\<lparr>ep_case_id = ac_case_id ac, ep_items = [], ep_summary = reason\<rparr>"])
      (simp_all add: a so fail_attempt_def persist_failed_case_def Let_def failed_case_def)
qed

lemma run_planned_stored:
  assumes "run_planned ac req messages route skill notify r plan so g = Inr (a, so', g')"
  shows "attempt_stored ac a so so'"
proof -
  let ?cx = "run_ctx_of ac req plan"
  obtain c0 s c1 pack0 where b: "build_case_from_plan (ac_case_id ac) (ac_now ac) req r plan skill = Inr c0"
    and w: "run_waves ?cx (initial_state g c0) = Inr s"
    and t: "settle_case ?cx (ac_item_id ac) s = Inr (c1, pack0)"
    using assms unfolding run_planned_def Let_def bind_res_Inr_iff by (auto simp del: bind_res_Inr_iff)
  let ?c = "c1\<lparr>cr_updated_at := ac_now ac\<rparr>"
  let ?pack = "pack0\<lparr>ep_summary := ac_summary ac (cr_steps c1) (rs_records s)\<rparr>"
  obtain ts skipped where
    a: "a = planned_result ac messages route skill r ?c ts skipped"
    and so: "so_cases so' = case_store_put ?c (so_cases so)"
      "so_evidence so' = evidence_put_pack ?pack (so_evidence so)"
    using assms b w t unfolding run_planned_def Let_def bind_res.simps
    by (auto split: if_splits prod.splits sum.splits)
  have ids: "cr_case_id c1 = ac_case_id ac" "ep_case_id pack0 = ac_case_id ac"
    using settle_case_fields[OF t] run_waves_id[OF w] build_case_from_plan_steps[OF b]
    by (simp_all add: initial_state_def)
  show ?thesis
    by (rule attempt_storedI[where c = ?c and pack = ?pack, OF _ _ so(1) _ _ _ so(2)])
      (use ids settle_case_fields(2)[OF t] in \<open>simp_all add: a planned_result_def\<close>)
qed

lemma run_llm_stored:
  assumes "run_llm_tool_plan ac req messages route playbook helpers r so g = Inr (a, so', g')"
  shows "attempt_stored ac a so so'"
  using assms
  by (auto simp: run_llm_tool_plan_def Let_def dest: fail_attempt_stored run_planned_stored
      split: option.splits if_splits prod.splits)

lemma failed_attempt_stored:
  "failed_attempt lx n req messages route skill code reason so e = Inr (a, so', e')
   \<Longrightarrow> attempt_stored (lx_attempt lx n) a so so' \<and> e' = e"
  by (auto simp: failed_attempt_def dest: fail_attempt_stored split: prod.splits)

lemma run_with_playbook_stored:
  assumes "run_with_playbook lx n req messages route history playbook so e = Inr (a, so', e')"
  shows "attempt_stored (lx_attempt lx n) a so so'"
  using assms
  by (auto simp: run_with_playbook_def Let_def dest: failed_attempt_stored run_llm_stored
      split: sum.splits pyerr.splits option.splits)

lemma run_once_stored:
  assumes "run_once lx n req prior so e = Inr (a, so', e')"
  shows "attempt_stored (lx_attempt lx n) a so so'"
  using assms
  by (auto simp: run_once_def Let_def dest: failed_attempt_stored run_with_playbook_stored
      split: sum.splits pyerr.splits prod.splits)

section \<open>The environment around an attempt\<close>

lemma close_all_manager: "fst (close_all_sessions mx (m, w)) = m\<lparr>mm_sessions := []\<rparr>"
  by (simp add: close_all_sessions_def)

lemma restore_env_manager:
  "fst (restore_env mx extra provider w)
     = (fst w)\<lparr>mm_sessions := [], mm_overlay := [], mm_extra_env := extra, mm_provider := provider\<rparr>"
  by (cases w) (simp add: restore_env_def set_extra_env_provider_def set_extra_env_def
      set_run_env_overlay_def close_all_sessions_def)

lemma session_env_overlay_wins:
  "distinct (dkeys x) \<Longrightarrow> dget x k = Some v \<Longrightarrow> dget (dunion b x) k = Some v"
  using dget_dict_of_distinct[of x k] by (simp add: dget_dunion dget_dict_of)

lemma manager_of_on_manager: "manager_of (on_manager f e) = fst (f (mg_world (snd e)))"
  by (cases e) (simp add: manager_of_def on_manager_def)

lemma refresh_provider: "mm_provider (fst (snd (refresh_extra_env mx w))) = mm_provider (fst w)"
  by (cases w) (auto simp: refresh_extra_env_def close_all_sessions_def split: option.splits)

lemma run_once_env:
  assumes "run_once lx n req prior so e = Inr (a, so', e')"
    and "resolve_playbook (lx_skills lx) req = Inr playbook"
  shows "mm_sessions (manager_of e') = [] \<and> mm_overlay (manager_of e') = []
    \<and> mm_extra_env (manager_of e') = fst (refresh_extra_env (lx_mcp lx) (mg_world (snd e)))
    \<and> mm_provider (manager_of e') = mm_provider (manager_of e)"
proof -
  obtain extra w where w: "refresh_extra_env (lx_mcp lx) (mg_world (snd e)) = (extra, w)"
    using prod.exhaust_sel by blast
  then have p: "mm_provider (fst w) = mm_provider (manager_of e)"
    using refresh_provider[of "lx_mcp lx" "mg_world (snd e)"] by (simp add: manager_of_def)
  obtain e2 where "e' = on_manager (restore_env (lx_mcp lx) extra (mm_provider (fst w))) e2"
    using assms w by (auto simp: run_once_def Let_def manager_of_on_manager)
  then show ?thesis using w p by (simp add: manager_of_on_manager restore_env_manager)
qed

lemma run_once_answersI:
  assumes "resolve_playbook (lx_skills lx) req = Inr spec"
    and "\<And>messages route history e1. \<exists>y. run_with_playbook lx n req messages route history spec so e1 = Inr y"
  shows "\<exists>y. run_once lx n req prior so e = Inr y"
proof -
  obtain extra w where w: "refresh_extra_env (lx_mcp lx) (mg_world (snd e)) = (extra, w)"
    using prod.exhaust_sel by blast
  obtain a so' e2 where "run_with_playbook lx n req (build_messages req (attempt_history_summary 3 prior))
      (select_route (lx_settings lx) req) (attempt_history_summary 3 prior) spec so (on_manager (\<lambda>_. w) e)
    = Inr (a, so', e2)"
    using assms(2) prod_cases3 by metis
  then show ?thesis by (simp add: run_once_def Let_def assms(1) w del: split_paired_Ex)
qed

section \<open>The attempts of a run\<close>

definition results_of :: "agent_run_event list \<Rightarrow> agent_run_result list" where
  "results_of evs = List.map_filter ev_result evs"

lemma results_of_simps [simp]:
  "results_of [] = []"
  "results_of (evs @ evs') = results_of evs @ results_of evs'"
  "results_of [ev] = (case ev_result ev of None \<Rightarrow> [] | Some r \<Rightarrow> [r])"
  by (simp_all add: results_of_def List.map_filter_def split: option.splits)

lemma emit_results:
  "results_of (fst (emit lx action target detail result st))
     = results_of (fst st) @ (case result of None \<Rightarrow> [] | Some r \<Rightarrow> [r])"
  by (cases st) (simp add: emit_def)

lemma emit_traces_results:
  "results_of (fst (foldl (\<lambda>st t. emit_trace lx a t st) st ts)) = results_of (fst st)"
  by (induction ts arbitrary: st) (simp_all add: emit_trace_def emit_results)

lemma emit_attempt_results: "results_of (fst (emit_attempt_events lx a st)) = results_of (fst st)"
  by (auto simp: emit_attempt_events_def Let_def emit_results emit_traces_results split: option.splits)

text \<open>The attempts a loop adds: only the last may be completed, and it stops the loop.\<close>

definition attempts_added :: "nat \<Rightarrow> attempt_result list \<Rightarrow> bool" where
  "attempts_added left new \<longleftrightarrow>
     length new \<le> left \<and> (\<forall>a \<in> set (butlast new). at_status a \<noteq> ''completed'')
     \<and> (length new = left \<or> new \<noteq> [] \<and> at_status (last new) = ''completed'')"

lemma attempts_added_Cons:
  "at_status a \<noteq> ''completed'' \<Longrightarrow> attempts_added left new \<Longrightarrow> attempts_added (Suc left) (a # new)"
  by (auto simp: attempts_added_def)

definition case_stored :: "stores \<Rightarrow> attempt_result \<Rightarrow> bool" where
  "case_stored so a \<longleftrightarrow>
     (\<exists>c. case_store_get (so_cases so) (at_case_id a) = Some c
        \<and> cr_status c = (if at_status a = ''failed'' then Case_FAILED else Case_COMPLETED))
     \<and> evidence_get_pack (so_evidence so) (at_case_id a) \<noteq> None"

lemma attempt_stored_case:
  assumes "attempt_stored ac a so so'"
  shows "case_stored so' a" "at_case_id b \<noteq> at_case_id a \<Longrightarrow> case_stored so b \<Longrightarrow> case_stored so' b"
  using assms unfolding attempt_stored_def case_stored_def
  by (auto simp: case_store_put_def case_store_get_def evidence_put_pack_def evidence_get_pack_def)

lemma run_attempts_ok:
  assumes "run_attempts left lx req prior so st = Inr (as, so', st')"
  shows "(\<exists>new. as = prior @ new \<and> attempts_added left new)
    \<and> results_of (fst st') = results_of (fst st)"
  using assms
proof (induction left arbitrary: prior so st)
  case (Suc left)
  obtain a so1 e1 where a: "run_once lx (length prior) req prior so (snd st) = Inr (a, so1, e1)"
    using Suc.prems by auto
  let ?st1 = "emit_attempt_events lx a (fst st, e1)"
  show ?case
  proof (cases "at_status a = ''completed''")
    case True
    then show ?thesis
      using Suc.prems a by (auto simp: Let_def emit_attempt_results attempts_added_def intro!: exI[of _ "[a]"])
  next
    case False
    let ?st2 = "if left = 0 then ?st1
               else emit lx ''agent.attempt.retrying'' (at_case_id a)
                      [(''case_id'', PStr (at_case_id a)), (''attempt_id'', PStr (at_attempt_id a)),
                       (''next_attempt'', PInt (int (length prior) + 2)),
                       (''max_attempts'', PInt (int (max_attempts lx)))] None ?st1"
    have "run_attempts left lx req (prior @ [a]) so1 ?st2 = Inr (as, so', st')"
      using Suc.prems a False by (simp add: Let_def)
    from Suc.IH[OF this] obtain new where "as = prior @ a # new" "attempts_added left new"
      "results_of (fst st') = results_of (fst ?st2)" by auto
    then show ?thesis using attempts_added_Cons[OF False]
      by (auto simp: emit_results emit_attempt_results)
  qed
qed (simp add: attempts_added_def)

lemma run_attempts_stored:
  assumes "run_attempts left lx req prior so st = Inr (as, so', st')"
    and "inj (\<lambda>n. ac_case_id (lx_attempt lx n))"
    and "\<forall>i < length prior. at_case_id (prior ! i) = ac_case_id (lx_attempt lx i) \<and> case_stored so (prior ! i)"
  shows "\<forall>i < length as. at_case_id (as ! i) = ac_case_id (lx_attempt lx i) \<and> case_stored so' (as ! i)"
  using assms(1,3)
proof (induction left arbitrary: prior so st)
  case (Suc left)
  obtain a so1 e1 where a: "run_once lx (length prior) req prior so (snd st) = Inr (a, so1, e1)"
    using Suc.prems by auto
  note stored = run_once_stored[OF a]
  have id: "at_case_id a = ac_case_id (lx_attempt lx (length prior))"
    using stored by (simp add: attempt_stored_def)
  have prior: "\<forall>i < length (prior @ [a]). at_case_id ((prior @ [a]) ! i) = ac_case_id (lx_attempt lx i)
      \<and> case_stored so1 ((prior @ [a]) ! i)"
  proof (intro allI impI)
    fix i
    assume i: "i < length (prior @ [a])"
    show "at_case_id ((prior @ [a]) ! i) = ac_case_id (lx_attempt lx i) \<and> case_stored so1 ((prior @ [a]) ! i)"
    proof (cases "i < length prior")
      case True
      then have "at_case_id (prior ! i) \<noteq> at_case_id a"
        using Suc.prems(2) id assms(2) by (auto simp: inj_def)
      then show ?thesis
        using True Suc.prems(2) attempt_stored_case(2)[OF stored] by (simp add: nth_append)
    next
      case False
      then have "i = length prior" using i by simp
      then show ?thesis using id attempt_stored_case(1)[OF stored] by simp
    qed
  qed
  show ?case
  proof (cases "at_status a = ''completed''")
    case True
    then show ?thesis using Suc.prems(1) a prior by (auto simp: Let_def)
  next
    case False
    then show ?thesis using Suc.prems(1) a Suc.IH[OF _ prior] by (auto simp: Let_def)
  qed
qed auto

lemma run_attempts_answers:
  assumes "\<And>n prior so e. \<exists>y. run_once lx n req prior so e = Inr y"
  shows "\<exists>y. run_attempts left lx req prior so st = Inr y"
proof (induction left arbitrary: prior so st)
  case (Suc left)
  obtain a so1 e1 where "run_once lx (length prior) req prior so (snd st) = Inr (a, so1, e1)"
    using assms prod_cases3 by metis
  then show ?case
    using Suc.IH by (cases "at_status a = ''completed''") (simp_all add: Let_def del: split_paired_Ex)
qed (simp del: split_paired_Ex)

lemma max_attempts_pos: "0 < max_attempts lx"
  by (simp add: max_attempts_def)

lemma emit_finished_events:
  "fst (emit_finished lx r st) = fst st @ [last (fst (emit_finished lx r st))]"
  "ev_result (last (fst (emit_finished lx r st))) = Some r"
  by (cases st; simp add: emit_finished_def emit_def)+

lemma agent_run_cases:
  assumes "agent_run lx req so e = Inr (r, evs, so', e')"
  obtains as st' where "run_attempts (max_attempts lx) lx req [] so (emit_started lx req e) = Inr (as, so', st')"
    "attempts_added (max_attempts lx) as" "as \<noteq> []" "run_result lx as = Inr r"
    "results_of (butlast evs) = []" "evs \<noteq> []" "ev_result (last evs) = Some r"
proof -
  obtain evs0 so0 e0 where stream0: "run_stream lx req so e = Inr (evs0, so0, e0)"
    and res0: "(case results_of evs0 of
         [] \<Rightarrow> Inl (RuntimeError ''agent run stream ended without result'')
       | r # rs \<Rightarrow> Inr (last (r # rs), evs0, so0, e0)) = Inr (r, evs, so', e')"
    using assms unfolding agent_run_def results_of_def bind_res_Inr_iff by (metis (no_types, lifting) case_prod_conv prod_cases3)
  have stream: "run_stream lx req so e = Inr (evs, so', e')"
    and res: "case results_of evs of [] \<Rightarrow> False | x # xs \<Rightarrow> r = last (x # xs)"
    using stream0 res0 by (cases "results_of evs0"; simp)+
  obtain as so1 st' r0 where st: "run_attempts (max_attempts lx) lx req [] so (emit_started lx req e) = Inr (as, so1, st')"
    and r: "run_result lx as = Inr r0" and fin: "(case emit_finished lx r0 st' of (evs, e') \<Rightarrow> Inr (evs, so1, e')) = (Inr (evs, so', e') :: _ res)"
  proof -
    obtain x where x: "run_attempts (max_attempts lx) lx req [] so (emit_started lx req e) = Inr x"
      and rest: "(case x of (attempts, so', st) \<Rightarrow>
          bind_res (run_result lx attempts)
            (\<lambda>r. case emit_finished lx r st of (evs, e') \<Rightarrow> Inr (evs, so', e'))) = Inr (evs, so', e')"
      using stream unfolding run_stream_def bind_res_Inr_iff by blast
    obtain as so1 st' where "x = (as, so1, st')" by (rule prod_cases3)
    then show ?thesis using that x rest by auto
  qed
  have evs: "evs = fst (emit_finished lx r0 st')" and "so1 = so'" using fin by (auto split: prod.splits)
  note st = st[unfolded \<open>so1 = so'\<close>]
  have added: "attempts_added (max_attempts lx) as" and none: "results_of (fst st') = []"
    using run_attempts_ok[OF st] by (auto simp: emit_results emit_started_def)
  have shape: "evs = fst st' @ [last evs]" "ev_result (last evs) = Some r0"
    unfolding evs by (rule emit_finished_events)+
  have "results_of evs = results_of (fst st') @ results_of [last evs]"
    by (subst shape(1)) (rule results_of_simps(2))
  with res have r0: "r = r0" by (simp add: none shape(2))
  have "butlast evs = fst st'" by (subst shape(1)) simp
  moreover have "as \<noteq> []" using r by (auto simp: run_result_def)
  moreover have "evs \<noteq> []" using shape(1) by auto
  ultimately show ?thesis using that[OF st added] r r0 none shape(2) by simp
qed

lemma agent_run_attempts_stored:
  assumes "agent_run lx req so e = Inr (r, evs, so', e')" and "inj (\<lambda>n. ac_case_id (lx_attempt lx n))"
    and "a \<in> set (ar_attempts r)"
  shows "case_stored so' a"
proof -
  obtain as st' where st: "run_attempts (max_attempts lx) lx req [] so (emit_started lx req e) = Inr (as, so', st')"
    and as: "as \<noteq> []" "run_result lx as = Inr r"
    by (rule agent_run_cases[OF assms(1)]) blast
  have "ar_attempts r = as" using as by (auto simp: run_result_def Let_def)
  with assms(3) obtain i where "i < length as" "as ! i = a" by (auto simp: in_set_conv_nth)
  then show ?thesis using run_attempts_stored[OF st assms(2)] by auto
qed

lemma agent_run_last:
  assumes "agent_run lx req so e = Inr (r, evs, so', e')"
  shows "ar_attempts r \<noteq> []" "ar_status r = at_status (last (ar_attempts r))"
    "ar_case_id r = at_case_id (last (ar_attempts r))"
  by (rule agent_run_cases[OF assms]; auto simp: run_result_def Let_def)+

section \<open>Properties\<close>

text \<open>
  C9: A run makes at least one attempt and at most the configured number; it goes on after a failed
  attempt and stops at the first completed one; its status and case are those of the last attempt,
  and only its last event carries the result.
\<close>
theorem agent_run_settles:
  assumes "agent_run lx req so e = Inr (r, evs, so', e')"
  shows "1 \<le> length (ar_attempts r) \<and> length (ar_attempts r) \<le> max_attempts lx
    \<and> (\<forall>a \<in> set (butlast (ar_attempts r)). at_status a \<noteq> ''completed'')
    \<and> (ar_status r = ''completed'' \<or> length (ar_attempts r) = max_attempts lx)
    \<and> ar_status r = at_status (last (ar_attempts r)) \<and> ar_case_id r = at_case_id (last (ar_attempts r))
    \<and> results_of (butlast evs) = [] \<and> results_of evs = [r]"
proof -
  obtain as st' where as: "attempts_added (max_attempts lx) as" "as \<noteq> []" "run_result lx as = Inr r"
    and evs: "results_of (butlast evs) = []" "evs \<noteq> []" "ev_result (last evs) = Some r"
    by (rule agent_run_cases[OF assms]) blast
  have "results_of evs = results_of (butlast evs) @ results_of [last evs]"
    using evs(2) by (metis append_butlast_last_id results_of_simps(2))
  moreover have "ar_attempts r = as" "ar_status r = at_status (last as)" "ar_case_id r = at_case_id (last as)"
    using as(2,3) by (auto simp: run_result_def Let_def)
  moreover have "1 \<le> length as" using as(2) by (cases as) simp_all
  ultimately show ?thesis using as(1) evs by (auto simp: attempts_added_def)
qed

text \<open>
  C10: A run whose attempts all answer ends with a result: neither error of the loop is ever raised.
\<close>
theorem agent_run_answers:
  assumes "\<And>n prior so e. \<exists>y. run_once lx n req prior so e = Inr y"
  shows "\<exists>r evs so' e'. agent_run lx req so e = Inr (r, evs, so', e')"
proof -
  obtain as so1 st where st: "run_attempts (max_attempts lx) lx req [] so (emit_started lx req e) = Inr (as, so1, st)"
    using run_attempts_answers[OF assms] by (metis prod_cases3)
  have "as \<noteq> []"
    using run_attempts_ok[OF st] max_attempts_pos[of lx] by (auto simp: attempts_added_def)
  then obtain r where r: "run_result lx as = Inr r" by (simp add: run_result_def Let_def)
  obtain evs e' where f: "emit_finished lx r st = (evs, e')" by (rule prod.exhaust)
  have "results_of evs \<noteq> []"
    using emit_finished_events[of lx r st] f by (metis append_is_Nil_conv fst_conv not_Cons_self2
        option.simps(5) results_of_simps(2,3))
  then obtain x xs where "results_of evs = x # xs" by (cases "results_of evs") blast+
  moreover have "run_stream lx req so e = Inr (evs, so1, e')" using st r f by (simp add: run_stream_def)
  ultimately show ?thesis by (simp add: agent_run_def results_of_def[symmetric])
qed

text \<open>
  After a run every one of its attempts has its case in the case store, failed or completed as
  the attempt was, and its evidence pack in the evidence store.
\<close>
theorem agent_run_stores_attempts:
  assumes "agent_run lx req so e = Inr (r, evs, so', e')" and "inj (\<lambda>n. ac_case_id (lx_attempt lx n))"
    and "a \<in> set (ar_attempts r)"
  shows "(\<exists>c. case_store_get (so_cases so') (at_case_id a) = Some c
      \<and> cr_status c = (if at_status a = ''failed'' then Case_FAILED else Case_COMPLETED))
    \<and> evidence_get_pack (so_evidence so') (at_case_id a) \<noteq> None"
  using agent_run_attempts_stored[OF assms] by (simp add: case_stored_def)

text \<open>
  An attempt that found a playbook leaves the server manager as it was: no overlay, the same
  provider and, without a provider, the same extra environment; only its sessions are closed.
\<close>
theorem attempt_restores_env:
  assumes "run_once lx n req prior so e = Inr (a, so', e')"
    and "resolve_playbook (lx_skills lx) req = Inr playbook"
    and "mm_overlay (manager_of e) = []"
  shows "mm_overlay (manager_of e') = [] \<and> mm_provider (manager_of e') = mm_provider (manager_of e)
    \<and> mm_sessions (manager_of e') = []
    \<and> (mm_provider (manager_of e) = None \<longrightarrow> mm_extra_env (manager_of e') = mm_extra_env (manager_of e))"
proof -
  obtain m w where "mg_world (snd e) = (m, w)" by (rule prod.exhaust)
  then show ?thesis
    using run_once_env[OF assms(1,2)] assms(3)
    by (auto simp: manager_of_def refresh_extra_env_def dunion_def)
qed

text \<open>
  Two attempts that overlap leak their environments: the second saves the overlay of the first
  as part of the extra environment, so the first's keys stay there after both have ended; and when
  the first ends, the second loses its own overlay while it is still running.
\<close>
theorem overlapping_attempts_leak_env:
  assumes "mm_provider m = None" and "distinct (dkeys x)" and "dget x k = Some v"
    and "refresh_extra_env mx (m, w) = (extra1, w1)" and "w2 = set_run_env_overlay mx x w1"
    and "refresh_extra_env mx w2 = (extra2, w3)" and "w4 = set_run_env_overlay mx y w3"
    and "w5 = restore_env mx extra1 None w4" and "w6 = restore_env mx extra2 None w5"
  shows "mm_overlay (fst w5) = [] \<and> mm_overlay (fst w6) = [] \<and> dget (mm_extra_env (fst w6)) k = Some v"
proof -
  have w1: "w1 = (m, w)" using assms(1,4) by (simp add: refresh_extra_env_def)
  obtain m2 v2 where m2: "w2 = (m2, v2)" by (rule prod.exhaust)
  have "mm_overlay m2 = x" "mm_provider m2 = None"
    using assms(1,5) m2 by (auto simp: w1 set_run_env_overlay_def close_all_sessions_def)
  moreover from this have "extra2 = dunion (mm_extra_env m2) x"
    using assms(6) m2 by (simp add: refresh_extra_env_def)
  ultimately have "dget extra2 k = Some v"
    using session_env_overlay_wins[OF assms(2,3)] by simp
  then show ?thesis by (simp add: assms(8,9) restore_env_manager)
qed

section \<open>A concrete run\<close>

text \<open>No planner is configured, so each of the three attempts fails.\<close>

definition demo_agent_attempt :: "nat \<Rightarrow> nat agent_env attempt_ctx" where
  "demo_agent_attempt n =
     \<lparr>ac_invoke = agent_invoke (\<lambda>_. demo_inputs), ac_rules = demo_rules, ac_max_content_chars = 800,
      ac_max_traces = 6, ac_max_context_chars = 2400, ac_report = ac_report demo_attempt_ctx,
      ac_summary = (\<lambda>_ _. []), ac_notify_args = (\<lambda>_ _. []), ac_item_id = demo_item_id,
      ac_case_id = ''case-'' @ replicate n CHR ''x'', ac_attempt_id = ''attempt-'' @ replicate n CHR ''x'',
      ac_now = 0\<rparr>"

definition demo_llm_settings :: llm_settings where
  "demo_llm_settings = \<lparr>ls_enabled = False, ls_base_url = [], ls_api_key = [], ls_model = [],
     ls_provider_name = [], ls_planning_enabled = False, ls_max_tool_calls = 8, ls_allow_write_tools = False\<rparr>"

definition demo_loop :: "nat loop_ctx" where
  "demo_loop =
     \<lparr>lx_attempt = demo_agent_attempt, lx_mcp = demo_mx, lx_settings = demo_llm_settings,
      lx_skills = demo_playbooks, lx_helpers = [], lx_process_env = [], lx_admin_items = [],
      lx_skill_file = (\<lambda>_. None), lx_planner = None, lx_event_id = nat_str, lx_max_attempts = 3\<rparr>"

definition demo_agent_env :: "nat agent_env" where
  "demo_agent_env = (0,
     \<lparr>mg_registry = \<lparr>tg_specs = [(''log.query'', demo_spec\<lparr>ts_name := ''log.query''\<rparr>)],
        tg_handlers = [(''log.query'', \<lambda>_ w. (Inr [(''records'', PList [])], w))]\<rparr>,
      mg_policy = \<lparr>pg_deny_write = False, pg_require_approval_for_write = False\<rparr>,
      mg_approvals = None, mg_audit = [], mg_client = None,
      mg_world = (new_mcp_manager [(''A'', ''1'')] None, 0)\<rparr>)"

lemma demo_agent_run_ok:
  obtains r evs so' e' where
    "agent_run demo_loop demo_case_request demo_stores demo_agent_env = Inr (r, evs, so', e')"
    "map at_case_id (ar_attempts r) = [''case-'', ''case-x'', ''case-xx'']"
proof -
  have "(case agent_run demo_loop demo_case_request demo_stores demo_agent_env of
      Inl _ \<Rightarrow> False
    | Inr (r, _) \<Rightarrow> map at_case_id (ar_attempts r) = [''case-'', ''case-x'', ''case-xx''])" by code_simp
  then show ?thesis using that by (auto split: sum.splits prod.splits)
qed

lemma demo_case_ids: "inj (\<lambda>n. ac_case_id (lx_attempt demo_loop n))"
  by (rule injI) (simp add: demo_loop_def demo_agent_attempt_def replicate_eq_replicate)

theorem agent_run_settles_witness:
  "\<exists>r evs so' e'. agent_run demo_loop demo_case_request demo_stores demo_agent_env = Inr (r, evs, so', e')
    \<and> length (ar_attempts r) = 3 \<and> ar_case_id r = ''case-xx'' \<and> results_of evs = [r]"
proof -
  obtain r evs so' e' where
    r: "agent_run demo_loop demo_case_request demo_stores demo_agent_env = Inr (r, evs, so', e')"
    and ids: "map at_case_id (ar_attempts r) = [''case-'', ''case-x'', ''case-xx'']"
    by (rule demo_agent_run_ok)
  have ne: "ar_attempts r \<noteq> []" using ids by auto
  have "length (ar_attempts r) = 3" using arg_cong[OF ids, of length] by simp
  moreover have "at_case_id (last (ar_attempts r)) = ''case-xx''"
    using last_map[OF ne, of at_case_id] ids by simp
  ultimately show ?thesis using r agent_run_settles[OF r] by auto
qed

theorem agent_run_stores_attempts_witness:
  "\<exists>r evs so' e' c. agent_run demo_loop demo_case_request demo_stores demo_agent_env = Inr (r, evs, so', e')
    \<and> case_store_get (so_cases so') ''case-x'' = Some c"
proof -
  obtain r evs so' e' where
    r: "agent_run demo_loop demo_case_request demo_stores demo_agent_env = Inr (r, evs, so', e')"
    and ids: "map at_case_id (ar_attempts r) = [''case-'', ''case-x'', ''case-xx'']"
    by (rule demo_agent_run_ok)
  have "''case-x'' \<in> set (map at_case_id (ar_attempts r))" unfolding ids by simp
  then obtain a where "a \<in> set (ar_attempts r)" "at_case_id a = ''case-x''" by auto
  then show ?thesis using r agent_run_stores_attempts[OF r demo_case_ids] by metis
qed

lemma demo_playbook_found:
  obtains spec env where "resolve_playbook demo_playbooks demo_case_request = Inr spec"
    "resolve_playbook_env demo_loop spec = Inr env" "se_substitutions env = []"
    "load_playbook_body demo_loop spec = Inr []"
proof -
  have "(case resolve_playbook demo_playbooks demo_case_request of
      Inl _ \<Rightarrow> False
    | Inr spec \<Rightarrow> (case resolve_playbook_env demo_loop spec of
        Inl _ \<Rightarrow> False
      | Inr env \<Rightarrow> se_substitutions env = [] \<and> load_playbook_body demo_loop spec = Inr []))" by code_simp
  then show ?thesis using that by (auto split: sum.splits)
qed

lemma demo_run_once: "\<exists>y. run_once demo_loop n demo_case_request prior so e = Inr y"
proof -
  obtain spec env where s: "resolve_playbook demo_playbooks demo_case_request = Inr spec"
    "resolve_playbook_env demo_loop spec = Inr env" "se_substitutions env = []"
    "load_playbook_body demo_loop spec = Inr []" by (rule demo_playbook_found)
  have l: "lx_skills demo_loop = demo_playbooks" "lx_planner demo_loop = None"
    by (simp_all add: demo_loop_def)
  have "\<exists>y. run_with_playbook demo_loop n demo_case_request messages route history spec so e1 = Inr y"
    for messages route history e1
    using s(2,3,4) by (auto simp: run_with_playbook_def Let_def l failed_attempt_def split: prod.splits)
  then show ?thesis using run_once_answersI[of demo_loop demo_case_request spec n so prior e] s(1) l by simp
qed

theorem agent_run_answers_witness:
  "\<exists>r evs so' e'. agent_run demo_loop demo_case_request demo_stores demo_agent_env = Inr (r, evs, so', e')"
  by (rule agent_run_answers[OF demo_run_once])

theorem attempt_restores_env_witness:
  "\<exists>a so' e'. run_once demo_loop 0 demo_case_request [] demo_stores demo_agent_env = Inr (a, so', e')
    \<and> mm_extra_env (manager_of e') = [(''A'', ''1'')]"
proof -
  obtain a so' e' where r: "run_once demo_loop 0 demo_case_request [] demo_stores demo_agent_env = Inr (a, so', e')"
    using demo_run_once prod_cases3 by metis
  obtain spec where "resolve_playbook (lx_skills demo_loop) demo_case_request = Inr spec"
    using demo_playbook_found by (simp add: demo_loop_def) metis
  from attempt_restores_env[OF r this] r show ?thesis
    by (simp add: demo_agent_env_def manager_of_def new_mcp_manager_def)
qed

theorem overlapping_attempts_leak_env_witness:
  "dget (mm_extra_env (fst (restore_env demo_mx [(''B'', ''2''), (''K'', ''secret'')] None
      (restore_env demo_mx [(''B'', ''2'')] None
        (set_run_env_overlay demo_mx [(''Y'', ''3'')]
          (set_run_env_overlay demo_mx [(''K'', ''secret'')] (new_mcp_manager [(''B'', ''2'')] None, 0))))))) ''K''
   = Some ''secret''"
proof -
  have "refresh_extra_env demo_mx (set_run_env_overlay demo_mx [(''K'', ''secret'')]
      (new_mcp_manager [(''B'', ''2'')] None, 0 :: nat))
    = ([(''B'', ''2''), (''K'', ''secret'')],
       set_run_env_overlay demo_mx [(''K'', ''secret'')] (new_mcp_manager [(''B'', ''2'')] None, 0))"
    by (simp add: refresh_extra_env_def set_run_env_overlay_def close_all_sessions_def new_mcp_manager_def
        dunion_def)
  from overlapping_attempts_leak_env[where k = "''K''" and v = "''secret''" and y = "[(''Y'', ''3'')]",
      OF _ _ _ _ refl this refl refl refl, of "new_mcp_manager [(''B'', ''2'')] None" 0 "[(''B'', ''2'')]"]
  show ?thesis by (simp add: new_mcp_manager_def refresh_extra_env_def dunion_def)
qed

end
