(* ===== verification/LogText.thy ===== *)
theory LogText
  imports Contracts
begin

text \<open>
  The text of an alarm: peeling the shells a log line is wrapped in (\<open>analysis/log_text.py\<close>) and
  finding the name of the service in it (\<open>analysis/service_identity.py\<close>). \<open>json.loads\<close> is the
  argument \<open>json_loads\<close>, \<open>None\<close> for its \<open>JSONDecodeError\<close>. A regular expression is the function that
  finds its leftmost matches; white space and word characters are those below code point 256.
\<close>

section \<open>Unwrapping (analysis/log_text.py)\<close>

definition embedded_keys :: "string list" where
  "embedded_keys = [''content'', ''message'', ''log'', ''log_content'', ''body'', ''text'', ''stackTrace'',
     ''stack_trace'', ''exception'', ''error'', ''err_msg'']"

definition max_depth :: nat where
  "max_depth = 6"

definition unescape_log_escapes :: "string \<Rightarrow> string" where
  "unescape_log_escapes s =
     py_replace [CHR 0x5C, CHR 0x5C] [CHR 0x5C]
       (py_replace [CHR 0x5C, CHR 0x22] [CHR 0x22]
         (py_replace [CHR 0x5C, CHR ''t''] [CHR 0x09]
           (py_replace [CHR 0x5C, CHR ''n''] [CHR 0x0A] s)))"

text \<open>\<open>_EMBEDDED_KEY_RE\<close>: the text after the first quoted key, colon and opening quote.\<close>

definition embedded_at :: "string \<Rightarrow> string option" where
  "embedded_at s =
     (case List.find (\<lambda>k. starts_with s ([CHR 0x22] @ k @ [CHR 0x22])) embedded_keys of
        None \<Rightarrow> None
      | Some k \<Rightarrow>
          (case dropWhile is_space (drop (length k + 2) s) of
             [] \<Rightarrow> None
           | c # s1 \<Rightarrow>
               (if c \<noteq> CHR '':'' then None
                else case dropWhile is_space s1 of
                       [] \<Rightarrow> None
                     | q # raw \<Rightarrow> (if q = CHR 0x22 then Some raw else None))))"

fun embedded_key_search :: "string \<Rightarrow> string option" where
  "embedded_key_search [] = None"
| "embedded_key_search (c # cs) =
     (case embedded_at (c # cs) of None \<Rightarrow> embedded_key_search cs | Some raw \<Rightarrow> Some raw)"

definition salvage_truncated_embedded :: "string \<Rightarrow> string option" where
  "salvage_truncated_embedded s =
     (case embedded_key_search s of
        None \<Rightarrow> None
      | Some raw0 \<Rightarrow>
          (let raw = (if ends_with raw0 [CHR 0x22] then butlast raw0 else raw0);
               unescaped = unescape_log_escapes raw
           in if occurs_in ''at '' unescaped \<or> occurs_in ''exception'' (py_lower unescaped)
                 \<or> CHR 0x0A \<in> set unescaped
              then Some unescaped else None))"

text \<open>\<open>PNone\<close> stands for both results \<open>None\<close>: nothing parsed, and a parsed \<open>null\<close>.\<close>

definition try_parse_json :: "(string \<Rightarrow> pyval option) \<Rightarrow> string \<Rightarrow> pyval" where
  "try_parse_json json_loads s =
     (case s of
        [] \<Rightarrow> PNone
      | c # _ \<Rightarrow>
          (if c \<noteq> CHR ''{'' \<and> c \<noteq> CHR ''['' \<and> c \<noteq> CHR 0x22 then PNone
           else case json_loads s of
                  Some v \<Rightarrow> v
                | None \<Rightarrow> (case salvage_truncated_embedded s of None \<Rightarrow> PNone | Some t \<Rightarrow> PStr t)))"

text \<open>The first text that is not blank, or the empty text.\<close>

definition first_text :: "string list \<Rightarrow> string" where
  "first_text ts = (case List.find (\<lambda>t. py_strip t \<noteq> []) ts of None \<Rightarrow> [] | Some t \<Rightarrow> t)"

text \<open>The first argument counts the levels that may still be peeled: \<open>max_depth + 1 - depth\<close>.\<close>

fun unwrap_text :: "nat \<Rightarrow> (string \<Rightarrow> pyval option) \<Rightarrow> pyval \<Rightarrow> string" where
  "unwrap_text left json_loads PNone = []"
| "unwrap_text 0 json_loads v = py_str v"
| "unwrap_text (Suc left) json_loads (PDict d) =
     first_text (map (\<lambda>k. unwrap_text left json_loads (py_get d k))
       (filter (\<lambda>k. py_get d k \<noteq> PNone \<and> py_get d k \<noteq> PStr []) embedded_keys))"
| "unwrap_text (Suc left) json_loads (PList xs) = first_text (map (unwrap_text left json_loads) xs)"
| "unwrap_text (Suc left) json_loads (PStr value) =
     (let txt = py_strip value in
      if txt = [] then []
      else let parsed = try_parse_json json_loads txt;
               inner = unwrap_text left json_loads parsed;
               unescaped = unescape_log_escapes txt
           in if parsed \<noteq> PNone \<and> parsed \<noteq> PStr txt \<and> py_strip inner \<noteq> [] \<and> inner \<noteq> txt then inner
              else if parsed \<noteq> PNone \<and> parsed \<noteq> PStr txt
                      \<and> (case parsed of PStr p \<Rightarrow> py_strip p \<noteq> [] | _ \<Rightarrow> False)
              then (case parsed of PStr p \<Rightarrow> unescape_log_escapes p | _ \<Rightarrow> [])
              else if (occurs_in [CHR 0x5C, CHR ''n''] txt \<or> occurs_in [CHR 0x5C, CHR ''t''] txt)
                      \<and> unescaped \<noteq> txt
              then unescaped
              else value)"
| "unwrap_text (Suc left) json_loads v = py_str v"

definition unwrap_embedded_log_text :: "(string \<Rightarrow> pyval option) \<Rightarrow> pyval \<Rightarrow> string" where
  "unwrap_embedded_log_text = unwrap_text (Suc max_depth)"

section \<open>The service's name (analysis/service_identity.py)\<close>

definition placeholder_service_names :: "string list" where
  "placeholder_service_names = [[], ''unknown'', ''unknown-service'', ''n/a'', ''na'', ''null'', ''none'', ''-'']"

definition reject_prefixes :: "string list" where
  "reject_prefixes = [''http-nio'', ''http-exec'', ''tid'', ''trace'', ''span'', ''thread'', ''pool-'', ''nio-'']"

definition reject_exact :: "string list" where
  "reject_exact = [''error'', ''warn'', ''warning'', ''info'', ''debug'', ''trace'', ''main'', ''stdout'', ''stderr'']"

definition is_placeholder_service_name :: "pyval \<Rightarrow> bool" where
  "is_placeholder_service_name v \<longleftrightarrow>
     py_lower (py_strip (py_str (py_or v (PStr [])))) \<in> set placeholder_service_names"

definition strip_quotes :: "string \<Rightarrow> string" where
  "strip_quotes s =
     (let q = (\<lambda>c. c = CHR 0x22 \<or> c = CHR 0x27) in rev (dropWhile q (rev (dropWhile q s))))"

text \<open>\<open>label-\d+\<close> at the end, as in the names of threads.\<close>

definition ends_numbered :: "string \<Rightarrow> string \<Rightarrow> bool" where
  "ends_numbered label s \<longleftrightarrow>
     (let ds = takeWhile (\<lambda>c. digit_val c \<noteq> None) (rev s)
      in ds \<noteq> [] \<and> ends_with (rev (drop (length ds) (rev s))) (label @ ''-''))"

definition clean_candidate :: "string \<Rightarrow> string option" where
  "clean_candidate value =
     (let cand = strip_quotes (py_strip value); lowered = py_lower cand in
      if length cand < 3 \<or> length cand > 96 then None
      else if lowered \<in> set reject_exact \<or> is_placeholder_service_name (PStr lowered) then None
      else if list_ex (starts_with lowered) reject_prefixes then None
      else if \<not> list_ex ascii_letter cand then None
      else if ends_numbered ''exec'' lowered \<or> ends_numbered ''thread'' lowered then None
      else Some cand)"

subsection \<open>The patterns\<close>

text \<open>
  A pattern is a function of the character before a position and the text from it, that answers the
  pattern's group and the number of characters matched; \<open>finditer\<close> goes on behind a match.
\<close>

type_synonym pattern = "char option \<Rightarrow> string \<Rightarrow> (string \<times> nat) option"

function find_groups :: "pattern \<Rightarrow> char option \<Rightarrow> string \<Rightarrow> string list" where
  "find_groups pat before [] = []"
| "find_groups pat before (c # cs) =
     (case pat before (c # cs) of
        None \<Rightarrow> find_groups pat (Some c) cs
      | Some (g, n) \<Rightarrow>
          g # find_groups pat (Some (last (c # take (n - 1) cs))) (drop (n - 1) cs))"
  by pat_completeness auto
termination by (relation "measure (\<lambda>(pat, before, s). length s)") auto

definition name_char :: "char \<Rightarrow> bool" where
  "name_char c \<longleftrightarrow> word_char c \<or> c = CHR ''.'' \<or> c = CHR ''-''"

definition is_digit :: "char \<Rightarrow> bool" where
  "is_digit c \<longleftrightarrow> digit_val c \<noteq> None"

fun match_shape :: "(char \<Rightarrow> bool) list \<Rightarrow> string \<Rightarrow> bool" where
  "match_shape [] s = True"
| "match_shape (p # ps) s = (case s of [] \<Rightarrow> False | c # cs \<Rightarrow> p c \<and> match_shape ps cs)"

text \<open>
  The date and the time at the start of a line, an optional fraction and the white space behind it:
  the rest of the text.
\<close>

definition timestamp_shape :: "(char \<Rightarrow> bool) list" where
  "timestamp_shape =
     replicate 4 is_digit @ [(=) CHR ''-''] @ replicate 2 is_digit @ [(=) CHR ''-''] @ replicate 2 is_digit
     @ [\<lambda>c. c = CHR '' '' \<or> c = CHR ''T'']
     @ replicate 2 is_digit @ [(=) CHR '':''] @ replicate 2 is_digit @ [(=) CHR '':''] @ replicate 2 is_digit"

definition after_timestamp :: "char option \<Rightarrow> string \<Rightarrow> string option" where
  "after_timestamp before s =
     (if (before \<noteq> None \<and> before \<noteq> Some (CHR 0x0A)) \<or> \<not> match_shape timestamp_shape s then None
      else let s1 = drop 19 s;
               s2 = (case s1 of
                       c # cs \<Rightarrow> (if (c = CHR ''.'' \<or> c = CHR '','') \<and> takeWhile is_digit cs \<noteq> []
                                 then dropWhile is_digit cs else s1)
                     | [] \<Rightarrow> [])
           in if takeWhile is_space s2 = [] then None else Some (dropWhile is_space s2))"

text \<open>A name in brackets, of \<open>lo\<close> to \<open>hi\<close> characters: the name and the rest.\<close>

definition bracketed :: "(string \<Rightarrow> bool) \<Rightarrow> string \<Rightarrow> (string \<times> string) option" where
  "bracketed ok s =
     (case s of
        [] \<Rightarrow> None
      | b # s1 \<Rightarrow>
          (let w = takeWhile name_char s1; r = dropWhile name_char s1 in
           if b = CHR ''['' \<and> w \<noteq> [] \<and> ascii_letter (hd w) \<and> ok w
              \<and> (case r of c # _ \<Rightarrow> c = CHR '']'' | [] \<Rightarrow> False)
           then Some (w, tl r) else None))"

definition service_suffixes :: "string list" where
  "service_suffixes = [''-api'', ''-service'', ''-svc'', ''-server'', ''-web'', ''-gateway'', ''-admin'', ''-worker'', ''-job'']"

definition service_like :: "string \<Rightarrow> bool" where
  "service_like w \<longleftrightarrow> list_ex (\<lambda>x. occurs_in x (tl w)) service_suffixes"

definition matched :: "string \<Rightarrow> (string \<times> string) option \<Rightarrow> (string \<times> nat) option" where
  "matched s m = (case m of None \<Rightarrow> None | Some (g, rest) \<Rightarrow> Some (g, length s - length rest))"

definition bracket_after_ts :: pattern where
  "bracket_after_ts before s =
     (case after_timestamp before s of
        None \<Rightarrow> None
      | Some r \<Rightarrow> matched s (bracketed (\<lambda>w. 2 \<le> length w \<and> length w \<le> 97) r))"

definition bare_service_after_ts :: pattern where
  "bare_service_after_ts before s =
     (case after_timestamp before s of
        None \<Rightarrow> None
      | Some r \<Rightarrow>
          (let w = takeWhile name_char r; r1 = dropWhile name_char r; r2 = dropWhile is_space r1 in
           if w \<noteq> [] \<and> ascii_letter (hd w) \<and> service_like w \<and> takeWhile is_space r1 \<noteq> []
              \<and> (case r2 of c # _ \<Rightarrow> c = CHR ''['' | [] \<Rightarrow> False)
           then matched s (Some (w, tl r2)) else None))"

definition kv_names :: "string list" where
  "kv_names = [''service_name'', ''servicename'', ''service'', ''app'', ''application'', ''app_name'', ''app-name'',
     ''appname'', ''application_name'', ''application-name'', ''applicationname'', ''app_id'']"

definition kv_value :: "string \<Rightarrow> (string \<times> string) option" where
  "kv_value s =
     (case dropWhile is_space s of
        [] \<Rightarrow> None
      | c # s1 \<Rightarrow>
          (if c \<noteq> CHR '':'' \<and> c \<noteq> CHR ''='' then None
           else let s2 = dropWhile is_space s1;
                    s3 = (case s2 of q # s' \<Rightarrow> (if q = CHR 0x22 \<or> q = CHR 0x27 then s' else s2) | [] \<Rightarrow> []);
                    w = take 97 (takeWhile name_char s3)
                in if 2 \<le> length w \<and> ascii_letter (hd w) then Some (w, drop (length w) s3) else None))"

definition kv_pattern :: pattern where
  "kv_pattern before s =
     (if (case before of None \<Rightarrow> False | Some b \<Rightarrow> word_char b) then None
      else case List.find (\<lambda>k. starts_with (py_lower s) k \<and> kv_value (drop (length k) s) \<noteq> None) kv_names of
             None \<Rightarrow> None
           | Some k \<Rightarrow> matched s (kv_value (drop (length k) s)))"

definition service_like_bracket :: pattern where
  "service_like_bracket before s = matched s (bracketed service_like s)"

subsection \<open>Choosing the name\<close>

definition first_cleaned :: "string list \<Rightarrow> string option" where
  "first_cleaned gs =
     (case List.map_filter clean_candidate gs of [] \<Rightarrow> None | g # _ \<Rightarrow> Some g)"

definition extract_service_name_from_text :: "(string \<Rightarrow> pyval option) \<Rightarrow> pyval \<Rightarrow> string option" where
  "extract_service_name_from_text json_loads v =
     (let raw = unwrap_embedded_log_text json_loads v in
      if py_strip raw = [] then None
      else first_cleaned (concat (map (\<lambda>p. find_groups p None raw)
             [bracket_after_ts, bare_service_after_ts, kv_pattern, service_like_bracket])))"

definition resolve_service_name ::
    "(string \<Rightarrow> pyval option) \<Rightarrow> pyval list \<Rightarrow> pyval \<Rightarrow> string \<Rightarrow> string" where
  "resolve_service_name json_loads candidates txt dflt =
     (case List.find (\<lambda>v. \<not> is_placeholder_service_name v) candidates of
        Some v \<Rightarrow> py_strip (py_str v)
      | None \<Rightarrow> (case extract_service_name_from_text json_loads txt of Some n \<Rightarrow> n | None \<Rightarrow> dflt))"

section \<open>Facts\<close>

lemma first_text_cases: "first_text ts = [] \<or> first_text ts \<in> set ts \<and> py_strip (first_text ts) \<noteq> []"
  by (auto simp: first_text_def find_Some_iff split: option.splits)

text \<open>A plain text, without escapes and not starting as JSON does, is left as it is.\<close>

lemma unwrap_plain:
  assumes "py_strip s \<noteq> []" and "hd (py_strip s) \<notin> {CHR ''{'', CHR ''['', CHR 0x22}"
    and "\<not> occurs_in [CHR 0x5C, CHR ''n''] (py_strip s)" "\<not> occurs_in [CHR 0x5C, CHR ''t''] (py_strip s)"
  shows "unwrap_embedded_log_text json_loads (PStr s) = s"
proof -
  have "try_parse_json json_loads (py_strip s) = PNone"
    using assms(1,2) by (cases "py_strip s") (auto simp: try_parse_json_def)
  then show ?thesis using assms by (simp add: unwrap_embedded_log_text_def)
qed

lemma placeholder_text:
  "is_placeholder_service_name (PStr s) \<longleftrightarrow> py_lower (py_strip s) \<in> set placeholder_service_names"
  by (cases s) (simp_all add: is_placeholder_service_name_def py_or_def)

lemma lower_lower [simp]: "py_lower (py_lower s) = py_lower s"
proof -
  have "lower_char (lower_char c) = lower_char c" for c
    by (auto simp: lower_char_def Let_def)
  then show ?thesis by (simp add: py_lower_def)
qed

lemma lower_space [simp]: "is_space (lower_char c) = is_space c"
  by (auto simp: lower_char_def is_space_def Let_def)

lemma dropWhile_lower: "dropWhile is_space (map lower_char s) = map lower_char (dropWhile is_space s)"
  by (induction s) auto

lemma strip_lower: "py_strip (py_lower s) = py_lower (py_strip s)"
proof -
  have "py_strip (py_lower s) = rev (dropWhile is_space (map lower_char (rev (dropWhile is_space s))))"
    by (simp add: py_strip_def py_lower_def dropWhile_lower rev_map)
  then show ?thesis by (simp only: dropWhile_lower) (simp add: py_strip_def py_lower_def rev_map)
qed

lemma placeholder_lower: "is_placeholder_service_name (PStr (py_lower s)) = is_placeholder_service_name (PStr s)"
  by (simp add: placeholder_text strip_lower)

lemma placeholder_strip: "is_placeholder_service_name (PStr (py_strip s)) = is_placeholder_service_name (PStr s)"
  by (simp add: placeholder_text)

lemma placeholder_value: "\<not> is_placeholder_service_name v \<Longrightarrow> \<not> is_placeholder_service_name (PStr (py_str v))"
  by (cases "py_truthy v")
    (simp_all add: placeholder_text, simp_all add: is_placeholder_service_name_def py_or_def
      py_strip_def py_lower_def placeholder_service_names_def)

lemma clean_candidate_ok:
  assumes "clean_candidate v = Some n"
  shows "\<not> is_placeholder_service_name (PStr n)" "3 \<le> length n" "length n \<le> 96"
    "py_lower n \<notin> set reject_exact"
  using assms by (auto simp: clean_candidate_def Let_def placeholder_lower split: if_splits)

lemma first_cleaned_ok: "first_cleaned gs = Some n \<Longrightarrow> \<exists>g \<in> set gs. clean_candidate g = Some n"
proof -
  assume "first_cleaned gs = Some n"
  then have "n \<in> set (List.map_filter clean_candidate gs)"
    by (auto simp: first_cleaned_def split: list.splits)
  then show ?thesis by (auto simp: List.map_filter_def)
qed

text \<open>
  The name found for a service is never a placeholder: it is the first given name that is not
  one, stripped, or a name of 3 to 96 characters taken from the text, or else the default.
\<close>
theorem service_name_not_placeholder:
  "resolve_service_name json_loads candidates txt dflt = dflt
   \<or> \<not> is_placeholder_service_name (PStr (resolve_service_name json_loads candidates txt dflt))"
proof (cases "List.find (\<lambda>v. \<not> is_placeholder_service_name v) candidates")
  case None
  then show ?thesis
    by (auto simp: resolve_service_name_def extract_service_name_from_text_def Let_def
        split: option.splits if_splits dest!: first_cleaned_ok clean_candidate_ok(1))
next
  case (Some v)
  then have "\<not> is_placeholder_service_name v" by (auto simp: find_Some_iff)
  then have "\<not> is_placeholder_service_name (PStr (py_str v))" by (rule placeholder_value)
  then show ?thesis using Some by (simp add: resolve_service_name_def placeholder_strip)
qed

end
