(* ===== verification/Inbound.thy ===== *)
theory Inbound
  imports LogText
begin

text \<open>
  Inbound alarms (\<open>channel_routing/\<close>): the message of a channel and its check (\<open>models.py\<close>,
  \<open>security.py\<close>), its normal form for each kind of sender (\<open>normalizer.py\<close>), the request of a case it
  becomes (\<open>webhook.py\<close>), and where answers go (\<open>router.py\<close>, \<open>session_key.py\<close>, \<open>target_resolver.py\<close>,
  \<open>registry.py\<close>). The digest of a signature is an argument.
\<close>

section \<open>Messages (models.py)\<close>

record channel_message =
  cm_channel :: string
  cm_payload :: pydict
  cm_headers :: "(string \<times> string) list"
  cm_remote_ip :: "string option"

definition channel_message_of :: "string \<Rightarrow> pydict \<Rightarrow> channel_message res" where
  "channel_message_of channel payload =
     bind_res (required_text channel) (\<lambda>c.
       Inr \<lparr>cm_channel = c, cm_payload = strip_keys payload, cm_headers = [], cm_remote_ip = None\<rparr>)"

record normalized_message =
  nm_channel :: string
  nm_tenant :: string
  nm_environment :: string
  nm_service_name :: string
  nm_severity :: string
  nm_team :: string
  nm_title :: string
  nm_symptom :: string
  nm_trace_id :: "string option"
  nm_metadata :: pydict

text \<open>Constructing the model: its texts are stripped, and four of them must not be empty.\<close>

definition valid_normalized :: "normalized_message \<Rightarrow> normalized_message res" where
  "valid_normalized m =
     bind_res (required_text (nm_channel m)) (\<lambda>channel.
     bind_res (required_text (nm_service_name m)) (\<lambda>service.
     bind_res (required_text (nm_title m)) (\<lambda>title.
     bind_res (required_text (nm_symptom m)) (\<lambda>symptom.
       Inr \<lparr>nm_channel = channel, nm_tenant = py_strip (nm_tenant m),
            nm_environment = py_strip (nm_environment m), nm_service_name = service,
            nm_severity = py_strip (nm_severity m), nm_team = py_strip (nm_team m),
            nm_title = title, nm_symptom = symptom,
            nm_trace_id = map_option py_strip (nm_trace_id m),
            nm_metadata = strip_keys (nm_metadata m)\<rparr>))))"

text \<open>\<open>CaseCreateRequest\<close> is a plain model: its texts must not be empty, and they are kept as they are.\<close>

definition make_case_request :: "case_create_request \<Rightarrow> case_create_request res" where
  "make_case_request r = (if valid_case_create_request r then Inr r else Inl validation_error)"

section \<open>The check of a message (security.py)\<close>

record channel_security =
  cs_allowlist_ips :: "string set"
  cs_signing_secret :: "string option"

text \<open>\<open>digest\<close> is the hexadecimal HMAC of the secret and the payload, listed by its keys.\<close>

definition security_validate ::
    "(string \<Rightarrow> pydict \<Rightarrow> string) \<Rightarrow> channel_security \<Rightarrow> channel_message \<Rightarrow> unit res" where
  "security_validate digest sec m =
     (if cs_allowlist_ips sec \<noteq> {}
         \<and> (case cm_remote_ip m of None \<Rightarrow> True | Some ip \<Rightarrow> ip \<notin> cs_allowlist_ips sec)
      then Inl (ValueError ''source ip is not allowed'')
      else case cs_signing_secret sec of
             None \<Rightarrow> Inr ()
           | Some secret \<Rightarrow>
               (if secret = [] then Inr ()
                else if (case dget (cm_headers m) ''x-signature'' of None \<Rightarrow> [] | Some x \<Rightarrow> x)
                        = digest secret (sort_key fst (cm_payload m))
                then Inr () else Inl (ValueError ''invalid signature'')))"

text \<open>\<open>allowlist\<close> and \<open>secret\<close> are the two settings, with \<open>''''\<close> where they are unset.\<close>

definition build_channel_security :: "string \<Rightarrow> string \<Rightarrow> channel_security option" where
  "build_channel_security allowlist secret =
     (let ips = set (filter (\<lambda>ip. ip \<noteq> []) (map py_strip (split_on CHR '','' allowlist)));
          s = (if py_strip secret = [] then None else Some (py_strip secret))
      in if ips = {} \<and> s = None then None
         else Some \<lparr>cs_allowlist_ips = ips, cs_signing_secret = s\<rparr>)"

section \<open>Normal forms (normalizer.py)\<close>

fun py_type_name :: "pyval \<Rightarrow> string" where
  "py_type_name PNone = ''NoneType''"
| "py_type_name (PBool b) = ''bool''"
| "py_type_name (PInt i) = ''int''"
| "py_type_name (PFloat r) = ''float''"
| "py_type_name (PStr s) = ''str''"
| "py_type_name (PList xs) = ''list''"
| "py_type_name (PDict d) = ''dict''"

text \<open>\<open>v.get(...)\<close> on a value that should be a dictionary.\<close>

definition as_mapping :: "pyval \<Rightarrow> pydict res" where
  "as_mapping v =
     (case v of
        PDict d \<Rightarrow> Inr d
      | _ \<Rightarrow> Inl (OtherError (repr_str (py_type_name v) @ '' object has no attribute '' @ repr_str ''get'')))"

text \<open>\<open>str(d.get(k1) or ... or d.get(kn) or dflt)\<close>.\<close>

definition text_of :: "pydict \<Rightarrow> string list \<Rightarrow> string \<Rightarrow> string" where
  "text_of d ks dflt = py_str (foldr (\<lambda>k v. py_or (py_get d k) v) ks (PStr dflt))"

definition optional_text :: "pydict \<Rightarrow> string \<Rightarrow> string option" where
  "optional_text d k = (if py_truthy (py_get d k) then Some (py_str (py_get d k)) else None)"

definition without_keys :: "string list \<Rightarrow> pydict \<Rightarrow> pydict" where
  "without_keys ks d = filter (\<lambda>(k, v). k \<notin> set ks) d"

definition reserved_keys :: "string list" where
  "reserved_keys = [''title'', ''alert_name'', ''message'', ''description'', ''tenant'', ''environment'',
     ''service_name'', ''service'', ''severity'', ''team'', ''trace_id'', ''_channel'']"

definition aliyun_reserved_keys :: "string list" where
  "aliyun_reserved_keys = [''alertName'', ''alert_name'', ''alertState'', ''curValue'', ''instanceName'', ''instance'',
     ''metricName'', ''metric'', ''namespace'', ''tenant'', ''environment'', ''team'', ''traceId'', ''severity'']"

definition sls_reserved_keys :: "string list" where
  "sls_reserved_keys = [''alertName'', ''alert_name'', ''project'', ''logstore'', ''query'', ''count'', ''message'',
     ''tenant'', ''environment'', ''team'', ''traceId'', ''severity'']"

definition normalize_aliyun_alert :: "pydict \<Rightarrow> normalized_message res" where
  "normalize_aliyun_alert p =
     (let instance_name = text_of p [''instanceName'', ''instance''] ''unknown-instance'' in
      valid_normalized
        \<lparr>nm_channel = ''aliyun'', nm_tenant = text_of p [''tenant''] ''demo'',
         nm_environment = text_of p [''environment''] ''prod'', nm_service_name = instance_name,
         nm_severity = (if text_of p [''alertState''] ''ALARM'' = ''ALARM'' then ''critical'' else ''warning''),
         nm_team = text_of p [''team''] ''unknown'',
         nm_title = ''[Aliyun] '' @ text_of p [''alertName'', ''alert_name''] ''Aliyun Alert'',
         nm_symptom = text_of p [''metricName'', ''metric''] ''unknown-metric'' @ ''=''
           @ py_str (py_get_or p ''curValue'' (PStr ''N/A'')) @ '' on '' @ instance_name,
         nm_trace_id = optional_text p ''traceId'', nm_metadata = without_keys aliyun_reserved_keys p\<rparr>)"

definition normalize_sls_alert :: "pydict \<Rightarrow> normalized_message res" where
  "normalize_sls_alert p =
     (let project = text_of p [''project''] ''unknown-project'' in
      bind_res (py_int (py_or (py_get p ''count'') (PInt 0))) (\<lambda>count.
      valid_normalized
        \<lparr>nm_channel = ''sls'', nm_tenant = text_of p [''tenant''] ''demo'',
         nm_environment = text_of p [''environment''] ''prod'', nm_service_name = project,
         nm_severity = text_of p [''severity''] ''warning'', nm_team = text_of p [''team''] ''unknown'',
         nm_title = ''[SLS] '' @ text_of p [''alertName'', ''alert_name''] ''SLS Alert'',
         nm_symptom = ''Found '' @ int_str count @ '' matches in '' @ project @ ''/''
           @ text_of p [''logstore''] ''unknown-logstore'' @ '': '' @ py_str (py_get_or p ''message'' (PStr [])),
         nm_trace_id = optional_text p ''traceId'', nm_metadata = without_keys sls_reserved_keys p\<rparr>))"

text \<open>\<open>alerts[0]\<close> of a value that is not empty, and \<open>len(alerts)\<close>.\<close>

definition first_alert :: "pyval \<Rightarrow> pyval res" where
  "first_alert v =
     (case v of
        PList (a # _) \<Rightarrow> Inr a
      | PStr (c # _) \<Rightarrow> Inr (PStr [c])
      | PDict d \<Rightarrow> Inl (KeyError ''0'')
      | _ \<Rightarrow> Inl (TypeError (repr_str (py_type_name v) @ '' object is not subscriptable'')))"

definition py_len :: "pyval \<Rightarrow> nat" where
  "py_len v = (case v of PList xs \<Rightarrow> length xs | PStr s \<Rightarrow> length s | PDict d \<Rightarrow> length d | _ \<Rightarrow> 0)"

definition normalize_prometheus_alert :: "pydict \<Rightarrow> normalized_message res" where
  "normalize_prometheus_alert p =
     (let alerts = py_or (py_get p ''alerts'') (PList []);
          status = text_of p [''status''] ''firing''
      in if py_truthy alerts then
           bind_res (first_alert alerts) (\<lambda>a.
           bind_res (as_mapping a) (\<lambda>alert.
           bind_res (as_mapping (py_or (py_get alert ''labels'') (PDict []))) (\<lambda>labels.
           bind_res (as_mapping (py_or (py_get alert ''annotations'') (PDict []))) (\<lambda>annotations.
             let name = text_of labels [''alertname''] ''Prometheus Alert'' in
             valid_normalized
               \<lparr>nm_channel = ''prometheus'', nm_tenant = text_of labels [''tenant''] ''demo'',
                nm_environment = text_of labels [''environment''] ''prod'',
                nm_service_name = text_of labels [''service'', ''job''] ''unknown-service'',
                nm_severity = (if status = ''firing'' then ''critical'' else ''warning''),
                nm_team = text_of labels [''team''] ''unknown'', nm_title = ''[Prometheus] '' @ name,
                nm_symptom = text_of annotations [''summary'', ''description''] name,
                nm_trace_id = optional_text labels ''trace_id'',
                nm_metadata = [(''labels'', PDict labels), (''annotations'', PDict annotations),
                               (''alert_count'', PInt (int (py_len alerts)))]\<rparr>))))
         else valid_normalized
           \<lparr>nm_channel = ''prometheus'', nm_tenant = ''demo'', nm_environment = ''prod'',
            nm_service_name = ''unknown-service'', nm_severity = ''warning'', nm_team = ''unknown'',
            nm_title = ''[Prometheus] Alert'', nm_symptom = ''No alert details provided'',
            nm_trace_id = None, nm_metadata = []\<rparr>)"

definition normalize_webhook :: "(string \<Rightarrow> pyval option) \<Rightarrow> string \<Rightarrow> pydict \<Rightarrow> normalized_message res" where
  "normalize_webhook json_loads channel p =
     (let title = text_of p [''title'', ''alert_name''] ''Untitled alert'';
          raw = foldr (\<lambda>k v. py_or (py_get p k) v) [''message'', ''description'', ''content''] (PStr title);
          unwrapped = unwrap_embedded_log_text json_loads raw;
          symptom = (if unwrapped = [] then py_str (py_or raw (PStr [])) else unwrapped)
      in valid_normalized
        \<lparr>nm_channel = channel, nm_tenant = text_of p [''tenant''] ''demo'',
         nm_environment = text_of p [''environment''] ''prod'',
         nm_service_name = resolve_service_name json_loads [py_get p ''service_name'', py_get p ''service'']
           (PStr symptom) ''unknown-service'',
         nm_severity = text_of p [''severity''] ''warning'', nm_team = text_of p [''team''] ''unknown'',
         nm_title = title, nm_symptom = symptom, nm_trace_id = optional_text p ''trace_id'',
         nm_metadata = without_keys reserved_keys p\<rparr>)"

definition normalize_inbound :: "(string \<Rightarrow> pyval option) \<Rightarrow> channel_message \<Rightarrow> normalized_message res" where
  "normalize_inbound json_loads m =
     (if cm_channel m = ''aliyun'' then normalize_aliyun_alert (cm_payload m)
      else if cm_channel m = ''sls'' then normalize_sls_alert (cm_payload m)
      else if cm_channel m = ''prometheus'' then normalize_prometheus_alert (cm_payload m)
      else normalize_webhook json_loads (cm_channel m) (cm_payload m))"

definition ingest_channel_message ::
    "(string \<Rightarrow> pyval option) \<Rightarrow> (string \<Rightarrow> pydict \<Rightarrow> string) \<Rightarrow> channel_security option \<Rightarrow> channel_message
     \<Rightarrow> normalized_message res" where
  "ingest_channel_message json_loads digest security m =
     bind_res (case security of None \<Rightarrow> Inr () | Some sec \<Rightarrow> security_validate digest sec m)
       (\<lambda>_. normalize_inbound json_loads m)"

section \<open>The request of a case (webhook.py)\<close>

definition set_default_key :: "string \<Rightarrow> string \<Rightarrow> pydict \<Rightarrow> pydict" where
  "set_default_key k v d = (if dget d k = None then dput k (PStr v) d else d)"

definition request_metadata :: "normalized_message \<Rightarrow> pydict" where
  "request_metadata n =
     (let md = (case nm_trace_id n of
                  None \<Rightarrow> nm_metadata n
                | Some t \<Rightarrow> (if t = [] then nm_metadata n else dput ''trace_id'' (PStr t) (nm_metadata n)))
      in set_default_key ''team'' (nm_team n) (set_default_key ''severity'' (nm_severity n)
           (set_default_key ''environment'' (nm_environment n) (set_default_key ''tenant'' (nm_tenant n) md))))"

definition webhook_payload_to_case_create :: "(string \<Rightarrow> pyval option) \<Rightarrow> pydict \<Rightarrow> case_create_request res" where
  "webhook_payload_to_case_create json_loads payload =
     (let source = text_of payload [''_channel'', ''source''] ''webhook'' in
      bind_res (channel_message_of source payload) (\<lambda>m.
      bind_res (normalize_inbound json_loads m) (\<lambda>n.
        make_case_request
          \<lparr>cq_title = nm_title n, cq_symptom = nm_symptom n, cq_service_name = nm_service_name n,
           cq_source = source, cq_metadata = request_metadata n\<rparr>)))"

section \<open>Routes and targets (router.py, session_key.py, target_resolver.py)\<close>

record resolved_route =
  rr_channel :: string
  rr_tenant :: string
  rr_team :: string
  rr_priority :: string
  rr_labels :: "(string \<times> string) list"

definition valid_route :: "resolved_route \<Rightarrow> resolved_route res" where
  "valid_route r =
     bind_res (required_text (rr_channel r)) (\<lambda>channel.
     bind_res (required_text (rr_tenant r)) (\<lambda>tenant.
     bind_res (required_text (rr_team r)) (\<lambda>team.
       Inr \<lparr>rr_channel = channel, rr_tenant = tenant, rr_team = team, rr_priority = py_strip (rr_priority r),
            rr_labels = dict_of (map (\<lambda>(k, v). (py_strip k, py_strip v)) (rr_labels r))\<rparr>)))"

definition resolve_route :: "normalized_message \<Rightarrow> resolved_route res" where
  "resolve_route m =
     valid_route \<lparr>rr_channel = nm_channel m, rr_tenant = nm_tenant m, rr_team = nm_team m,
       rr_priority = (if py_lower (nm_severity m) \<in> {''critical'', ''error'', ''sev1''} then ''high'' else ''normal''),
       rr_labels = [(''service_name'', nm_service_name m), (''environment'', nm_environment m),
                    (''severity'', nm_severity m)]\<rparr>"

definition session_key_text :: "bool \<Rightarrow> normalized_message \<Rightarrow> string" where
  "session_key_text include_team m =
     join ''|'' ([nm_tenant m, nm_environment m, nm_service_name m, nm_severity m]
       @ (if include_team then [nm_team m] else [])
       @ (case nm_trace_id m of None \<Rightarrow> [] | Some t \<Rightarrow> (if t = [] then [] else [t])))"

definition build_session_key :: "(string \<Rightarrow> string) \<Rightarrow> bool \<Rightarrow> normalized_message \<Rightarrow> string" where
  "build_session_key sha256 include_team m = sha256 (session_key_text include_team m)"

record endpoint_config =
  ec_channel :: string
  ec_url_template :: string
  ec_headers :: "(string \<times> string) list"
  ec_default_metadata :: pydict

record outbound_target =
  ot_channel :: string
  ot_endpoint :: string
  ot_team :: string
  ot_metadata :: pydict

definition valid_target :: "outbound_target \<Rightarrow> outbound_target res" where
  "valid_target t =
     bind_res (required_text (ot_channel t)) (\<lambda>channel.
     bind_res (required_text (ot_endpoint t)) (\<lambda>endpoint.
     bind_res (required_text (ot_team t)) (\<lambda>team.
       Inr \<lparr>ot_channel = channel, ot_endpoint = endpoint, ot_team = team,
            ot_metadata = strip_keys (ot_metadata t)\<rparr>)))"

definition register_endpoint ::
    "endpoint_config \<Rightarrow> (string \<times> endpoint_config) list \<Rightarrow> (string \<times> endpoint_config) list" where
  "register_endpoint c d = dput (ec_channel c) c d"

definition configure_resolver ::
    "endpoint_config list \<Rightarrow> (string \<times> endpoint_config) list \<Rightarrow> (string \<times> endpoint_config) list" where
  "configure_resolver = fold register_endpoint"

definition interpolate_url :: "string \<Rightarrow> resolved_route \<Rightarrow> string" where
  "interpolate_url template r =
     foldl (\<lambda>url (k, v). py_replace (''{'' @ k @ ''}'') v url) template
       ([(''channel'', rr_channel r), (''team'', rr_team r), (''tenant'', rr_tenant r)] @ rr_labels r)"

definition label_or :: "resolved_route \<Rightarrow> string \<Rightarrow> string" where
  "label_or r k = (case dget (rr_labels r) k of None \<Rightarrow> ''default'' | Some v \<Rightarrow> v)"

definition label_values :: "resolved_route \<Rightarrow> pydict" where
  "label_values r = map (\<lambda>(k, v). (k, PStr v)) (rr_labels r)"

definition default_endpoint :: "resolved_route \<Rightarrow> string" where
  "default_endpoint r =
     (if rr_channel r = ''webhook'' then ''https://webhook.example.com/'' @ rr_tenant r @ ''/'' @ rr_team r
      else if rr_channel r = ''feishu''
      then ''https://open.feishu.cn/open-apis/bot/v2/hook/'' @ label_or r ''webhook_id''
      else if rr_channel r = ''dingtalk''
      then ''https://oapi.dingtalk.com/robot/send?access_token='' @ label_or r ''access_token''
      else if rr_channel r = ''wechat''
      then ''https://qyapi.weixin.qq.com/cgi-bin/webhook/send?key='' @ label_or r ''key''
      else ''https://notify.example.com/'' @ rr_channel r @ ''/'' @ rr_team r)"

definition build_default_target :: "resolved_route \<Rightarrow> outbound_target res" where
  "build_default_target r =
     valid_target \<lparr>ot_channel = rr_channel r, ot_endpoint = default_endpoint r, ot_team = rr_team r,
       ot_metadata = dunion [(''tenant'', PStr (rr_tenant r)), (''priority'', PStr (rr_priority r))]
         (label_values r)\<rparr>"

definition resolve_target ::
    "(string \<times> endpoint_config) list \<Rightarrow> resolved_route \<Rightarrow> outbound_target res" where
  "resolve_target configs r =
     (case dget configs (rr_channel r) of
        None \<Rightarrow> build_default_target r
      | Some c \<Rightarrow>
          valid_target \<lparr>ot_channel = rr_channel r, ot_endpoint = interpolate_url (ec_url_template c) r,
            ot_team = rr_team r,
            ot_metadata = dunion (dunion [(''tenant'', PStr (rr_tenant r)), (''priority'', PStr (rr_priority r)),
              (''headers'', PDict (map (\<lambda>(k, v). (k, PStr v)) (ec_headers c)))]
              (ec_default_metadata c)) (label_values r)\<rparr>)"

section \<open>Facts\<close>

lemma required_text_iff: "required_text s = Inr t \<longleftrightarrow> t = py_strip s \<and> t \<noteq> []"
  by (auto simp: required_text_def)

lemma valid_normalized_ok:
  assumes "valid_normalized m = Inr n"
  shows "nm_title n \<noteq> []" "nm_symptom n \<noteq> []" "nm_service_name n \<noteq> []" "nm_channel n \<noteq> []"
    "stripped (nm_title n)" "stripped (nm_symptom n)" "stripped (nm_service_name n)"
    "distinct (dkeys (nm_metadata n))"
  using assms by (auto simp: valid_normalized_def required_text_iff strip_keys_def)

lemma normalize_valid: "normalize_inbound json_loads m = Inr n \<Longrightarrow> \<exists>m'. valid_normalized m' = Inr n"
  by (auto simp: normalize_inbound_def normalize_aliyun_alert_def normalize_sls_alert_def
      normalize_prometheus_alert_def normalize_webhook_def Let_def split: if_splits)

lemma set_default_keys:
  "fst ` set (set_default_key k v d) = insert k (fst ` set d)"
  "distinct (dkeys d) \<Longrightarrow> distinct (dkeys (set_default_key k v d))"
  "k' \<noteq> k \<Longrightarrow> dget (set_default_key k v d) k' = dget d k'"
  by (auto simp: set_default_key_def dget_None_iff)

lemma request_metadata_keys:
  "{''tenant'', ''environment'', ''severity'', ''team''} \<subseteq> fst ` set (request_metadata n)"
  "distinct (dkeys (nm_metadata n)) \<Longrightarrow> distinct (dkeys (request_metadata n))"
  by (auto simp: request_metadata_def Let_def set_default_keys split: option.splits if_splits)



lemma dget_strip_keys:
  assumes "\<forall>(k, v) \<in> set d. stripped k" and "distinct (dkeys d)"
  shows "strip_keys d = dict_of d" "dget (strip_keys d) k = dget d k"
proof -
  have "map (\<lambda>(k, v). (py_strip k, v)) d = d"
    using assms(1) by (intro map_idI) (auto simp: py_strip_stripped)
  then show "strip_keys d = dict_of d" by (simp add: strip_keys_def)
  then show "dget (strip_keys d) k = dget d k" using assms(2) by (simp add: dget_dict_of_distinct)
qed

lemma dget_without: "k \<notin> set ks \<Longrightarrow> dget (without_keys ks d) k = dget d k"
  by (induction d) (auto simp: without_keys_def)

lemma without_keys_sub: "set (without_keys ks d) \<subseteq> set d" "distinct (dkeys d) \<Longrightarrow> distinct (dkeys (without_keys ks d))"
  by (auto simp: without_keys_def distinct_map_filter)

text \<open>
  The default normal form loses nothing: every key of the payload that is not one of the reserved
  ones is kept with its value in the metadata of the request.
\<close>
theorem webhook_keeps_payload:
  assumes "webhook_payload_to_case_create json_loads payload = Inr r"
    and "cq_source r \<notin> {''aliyun'', ''sls'', ''prometheus''}" and "stripped (cq_source r)"
    and "\<forall>(k, v) \<in> set payload. stripped k" and "distinct (dkeys payload)"
    and "k \<notin> set reserved_keys"
  shows "dget (cq_metadata r) k = dget payload k"
proof -
  obtain m n source where m: "channel_message_of source payload = Inr m"
    and n: "normalize_inbound json_loads m = Inr n"
    and r: "make_case_request \<lparr>cq_title = nm_title n, cq_symptom = nm_symptom n,
      cq_service_name = nm_service_name n, cq_source = source, cq_metadata = request_metadata n\<rparr> = Inr r"
    using assms(1) by (auto simp: webhook_payload_to_case_create_def Let_def)
  have src: "cq_source r = source" and md: "cq_metadata r = request_metadata n"
    using r by (auto simp: make_case_request_def split: if_splits)
  have ch: "cm_channel m = source" and pl: "cm_payload m = strip_keys payload"
    using m assms(3) by (auto simp: channel_message_of_def required_text_iff src py_strip_stripped)
  have "normalize_webhook json_loads source (strip_keys payload) = Inr n"
    using n assms(2) by (simp add: normalize_inbound_def ch pl src)
  then have nm: "nm_metadata n = strip_keys (without_keys reserved_keys (strip_keys payload))"
    by (auto simp: normalize_webhook_def valid_normalized_def Let_def)
  have d: "distinct (dkeys (strip_keys payload))" by (simp add: strip_keys_def)
  have "set (strip_keys payload) \<subseteq> set payload"
  proof
    fix x assume "x \<in> set (strip_keys payload)"
    then have "dget (strip_keys payload) (fst x) = Some (snd x)" using d by (simp flip: dget_in_set)
    then have "dget payload (fst x) = Some (snd x)" using dget_strip_keys(2)[OF assms(4,5)] by simp
    then show "x \<in> set payload" by (auto dest: map_of_SomeD)
  qed
  then have "\<forall>(k, v) \<in> set (without_keys reserved_keys (strip_keys payload)). stripped k"
    using assms(4) without_keys_sub(1)[of reserved_keys "strip_keys payload"] by blast
  then have "dget (nm_metadata n) k = dget payload k"
    using dget_strip_keys(2) without_keys_sub(2)[OF d] assms(4-6) by (simp add: nm dget_without)
  moreover have "k \<noteq> ''tenant''" "k \<noteq> ''environment''" "k \<noteq> ''severity''" "k \<noteq> ''team''" "k \<noteq> ''trace_id''"
    using assms(6) by (auto simp: reserved_keys_def)
  then have "dget (request_metadata n) k = dget (nm_metadata n) k"
    by (auto simp: request_metadata_def Let_def set_default_keys split: option.splits)
  ultimately show ?thesis using md by simp
qed

theorem webhook_keeps_payload_witness:
  "\<exists>r. webhook_payload_to_case_create (\<lambda>_. None)
         [(''title'', PStr ''down''), (''service'', PStr ''orders''), (''zone'', PStr ''a'')] = Inr r
     \<and> dget (cq_metadata r) ''zone'' = Some (PStr ''a'')"
proof -
  let ?p = "[(''title'', PStr ''down''), (''service'', PStr ''orders''), (''zone'', PStr ''a'')]"
  let ?r = "\<lparr>cq_title = ''down'', cq_symptom = ''down'', cq_service_name = ''orders'', cq_source = ''webhook'',
     cq_metadata = [(''zone'', PStr ''a''), (''tenant'', PStr ''demo''), (''environment'', PStr ''prod''),
       (''severity'', PStr ''warning''), (''team'', PStr ''unknown'')]\<rparr>"
  have r: "webhook_payload_to_case_create (\<lambda>_. None) ?p = Inr ?r" by code_simp
  have "dget (cq_metadata ?r) ''zone'' = dget ?p ''zone''"
    by (rule webhook_keeps_payload[OF r]) (simp_all add: stripped_def is_space_def reserved_keys_def)
  then show ?thesis using r by auto
qed

text \<open>A message passes the check exactly when its address is allowed and its signature is right.\<close>

lemma security_validate_iff:
  "security_validate digest sec m = Inr u \<longleftrightarrow>
     (cs_allowlist_ips sec = {} \<or> (\<exists>ip \<in> cs_allowlist_ips sec. cm_remote_ip m = Some ip))
     \<and> (\<forall>secret. cs_signing_secret sec = Some secret \<and> secret \<noteq> [] \<longrightarrow>
          (case dget (cm_headers m) ''x-signature'' of None \<Rightarrow> [] | Some x \<Rightarrow> x)
            = digest secret (sort_key fst (cm_payload m)))"
  by (auto simp: security_validate_def split: option.splits)

end
