(* ===== verification/Evaluation.thy ===== *)
theory Evaluation
  imports Approval
begin

text \<open>
  The evaluation of replayed cases (\<open>evaluation/metrics.py\<close>, \<open>quality_gate.py\<close>, \<open>reporting.py\<close>) and the
  decision to deploy (\<open>governance/deployment_policy.py\<close>): the metrics of a run, their means over a
  suite, the quality gate with its thresholds, and the manual override of a gate that blocks.
  Floating-point numbers are exact rationals.
\<close>

section \<open>Runs and replay cases (bootstrap/results.py, contracts/replay.py)\<close>

record flow_run_result =
  fr_case :: case_record
  fr_evidence_pack :: evidence_pack
  fr_report :: case_report
  fr_tool_results :: "tool_call_result list"

record replay_case =
  rp_replay_id :: string
  rp_name :: string
  rp_alert_payload :: pydict
  rp_case_request :: case_create_request
  rp_log_samples :: "pydict list"
  rp_trace_samples :: "pydict list"
  rp_code_revision_hint :: "string option"
  rp_human_root_cause :: string
  rp_expected_report_bullets :: "string list"
  rp_redacted :: bool
  rp_metadata :: pydict

type_synonym metrics = "(string \<times> rat) list"

section \<open>Metrics (evaluation/metrics.py)\<close>

definition expected_bullet_hit :: "string list \<Rightarrow> string \<Rightarrow> rat" where
  "expected_bullet_hit expected txt =
     (if expected = [] then 1
      else of_nat (length (filter (\<lambda>t. occurs_in (py_lower t) (py_lower txt)) expected))
           / of_nat (length expected))"

definition tool_fail_rate :: "flow_run_result \<Rightarrow> rat" where
  "tool_fail_rate run =
     (if fr_tool_results run = [] then 1
      else of_nat (length (filter (\<lambda>r. \<not> tr_ok r) (fr_tool_results run)))
           / of_nat (length (fr_tool_results run)))"

definition trace_found :: "flow_run_result \<Rightarrow> string \<Rightarrow> bool" where
  "trace_found run trace_id \<longleftrightarrow>
     list_ex (\<lambda>i. occurs_in trace_id (py_str (PDict (ei_content i)))) (ep_items (fr_evidence_pack run))"

text \<open>
  The two patterns for secrets: an access key \<open>AKIA[0-9A-Z]{16}\<close>, and a name, a separator and at
  least six word characters. \<open>findall\<close> counts matches from the left that do not overlap.
\<close>

definition upper_or_digit :: "char \<Rightarrow> bool" where
  "upper_or_digit c \<longleftrightarrow> (let n = of_char c :: nat in (48 \<le> n \<and> n \<le> 57) \<or> (65 \<le> n \<and> n \<le> 90))"

definition word_or_dash :: "char \<Rightarrow> bool" where
  "word_or_dash c \<longleftrightarrow> word_char c \<or> c = CHR ''-''"

definition match_access_key :: "string \<Rightarrow> nat option" where
  "match_access_key s =
     (if starts_with s ''AKIA'' \<and> length (takeWhile upper_or_digit (drop 4 s)) \<ge> 16 then Some 20 else None)"

definition match_named_secret :: "string \<Rightarrow> nat option" where
  "match_named_secret s =
     (case List.find (\<lambda>k. starts_with (py_lower s) k) [''secret'', ''token'', ''password''] of
        None \<Rightarrow> None
      | Some k \<Rightarrow>
          (let s1 = dropWhile is_space (drop (length k) s) in
           case s1 of
             [] \<Rightarrow> None
           | c # s2 \<Rightarrow>
               (if c \<noteq> CHR '':'' \<and> c \<noteq> CHR ''='' then None
                else let s3 = dropWhile is_space s2; w = takeWhile word_or_dash s3
                     in if length w < 6 then None
                        else Some (length s - length (drop (length w) s3)))))"

function count_matches :: "(string \<Rightarrow> nat option) \<Rightarrow> string \<Rightarrow> nat" where
  "count_matches m [] = 0"
| "count_matches m (c # cs) =
     (case m (c # cs) of
        None \<Rightarrow> count_matches m cs
      | Some n \<Rightarrow> Suc (count_matches m (drop (n - 1) cs)))"
  by pat_completeness auto
termination by (relation "measure (\<lambda>(m, s). length s)") auto

text \<open>\<open>corpus\<close> is the text of the dumped report and of the dumped evidence.\<close>

definition sensitive_leaks :: "(flow_run_result \<Rightarrow> string list) \<Rightarrow> flow_run_result \<Rightarrow> nat" where
  "sensitive_leaks corpus run =
     sum_list (map (\<lambda>t. count_matches match_access_key t + count_matches match_named_secret t) (corpus run))"

definition indicator_rat :: "bool \<Rightarrow> rat" where
  "indicator_rat b = (if b then 1 else 0)"

definition evaluate_run_metrics ::
    "(flow_run_result \<Rightarrow> string list) \<Rightarrow> replay_case \<Rightarrow> flow_run_result \<Rightarrow> metrics" where
  "evaluate_run_metrics corpus c run =
     (let actions = map st_action (cr_steps (fr_case run));
          types = map (\<lambda>i. evidence_type_value (ei_type i)) (ep_items (fr_evidence_pack run));
          txt = cp_title (fr_report run) @ [CHR 0x0A] @ cp_summary (fr_report run);
          trace = py_strip (py_str (py_get_or (cq_metadata (rp_case_request c)) ''trace_id'' (PStr [])))
      in [(''service_accuracy'',
             indicator_rat (cr_service_name (fr_case run) = cq_service_name (rp_case_request c))),
          (''trace_id_accuracy'', indicator_rat (trace \<noteq> [] \<and> trace_found run trace)),
          (''log_coverage'', indicator_rat (''log.query_by_trace_id'' \<in> set actions)),
          (''trace_coverage'', indicator_rat (''trace'' \<in> set types)),
          (''code_coverage'', indicator_rat (''code.search'' \<in> set actions \<or> ''code'' \<in> set types)),
          (''report_bullet_coverage'', expected_bullet_hit (rp_expected_report_bullets c) txt),
          (''tool_fail_rate'', tool_fail_rate run),
          (''sensitive_leak_count'', of_nat (sensitive_leaks corpus run)),
          (''audit_completeness'', indicator_rat (fr_tool_results run \<noteq> [])),
          (''stability_score'', indicator_rat (cr_status (fr_case run) = Case_COMPLETED))])"

definition metric_or :: "metrics \<Rightarrow> string \<Rightarrow> rat \<Rightarrow> rat" where
  "metric_or m k dflt = (case dget m k of None \<Rightarrow> dflt | Some x \<Rightarrow> x)"

definition mean :: "rat list \<Rightarrow> rat" where
  "mean xs = sum_list xs / of_nat (length xs)"

definition aggregate_suite_metrics :: "metrics list \<Rightarrow> metrics" where
  "aggregate_suite_metrics ms =
     (if ms = [] then []
      else map (\<lambda>k. (k, mean (map (\<lambda>m. metric_or m k 0) ms)))
             (sorted_list_of_set (\<Union>m \<in> set ms. set (dkeys m))))"

section \<open>The quality gate (evaluation/quality_gate.py)\<close>

record gate_policy =
  gp_name :: string
  gp_min_thresholds :: metrics
  gp_max_thresholds :: metrics
  gp_blocking :: bool

record gate_result =
  gr_passed :: bool
  gr_reasons :: "string list"
  gr_policy_name :: string
  gr_blocking :: bool

definition default_gate_policy :: gate_policy where
  "default_gate_policy =
     \<lparr>gp_name = ''default-release'',
      gp_min_thresholds = [(''service_accuracy'', 95/100), (''trace_id_accuracy'', 8/10),
        (''audit_completeness'', 99/100), (''stability_score'', 95/100)],
      gp_max_thresholds = [(''tool_fail_rate'', 5/100), (''sensitive_leak_count'', 0)],
      gp_blocking = True\<rparr>"

text \<open>The three decimals of \<open>{:.3f}\<close>.\<close>

definition three_decimals :: "rat \<Rightarrow> string" where
  "three_decimals x =
     (let n = round_half_even (\<bar>x\<bar> * 1000)
      in (if x < 0 then ''-'' else []) @ int_str (n div 1000) @ ''.'' @ pad 3 (n mod 1000))"

definition too_low :: "metrics \<Rightarrow> string \<times> rat \<Rightarrow> string list" where
  "too_low m = (\<lambda>(k, t). let v = metric_or m k 0 in
     if v < t then [k @ '' too low: '' @ three_decimals v @ '' < '' @ three_decimals t] else [])"

definition too_high :: "metrics \<Rightarrow> string \<times> rat \<Rightarrow> string list" where
  "too_high m = (\<lambda>(k, t). let v = metric_or m k 1 in
     if v > t then [k @ '' too high: '' @ three_decimals v @ '' > '' @ three_decimals t] else [])"

definition evaluate_quality_gate :: "metrics \<Rightarrow> gate_policy \<Rightarrow> gate_result" where
  "evaluate_quality_gate m p =
     (let reasons = concat (map (too_low m) (sort_key fst (gp_min_thresholds p)))
                    @ concat (map (too_high m) (sort_key fst (gp_max_thresholds p)))
      in \<lparr>gr_passed = (reasons = []), gr_reasons = reasons, gr_policy_name = gp_name p,
          gr_blocking = gp_blocking p\<rparr>)"

definition release_allowed :: "gate_result \<Rightarrow> bool" where
  "release_allowed r \<longleftrightarrow> gr_passed r \<or> \<not> gr_blocking r"

section \<open>The evaluation report (evaluation/reporting.py)\<close>

record evaluation_report =
  er_report_id :: string
  er_suite_name :: string
  er_case_count :: nat
  er_aggregate_metrics :: metrics
  er_gate_passed :: bool
  er_gate_policy_name :: string
  er_release_allowed :: bool
  er_gate_reasons :: "string list"
  er_case_summaries :: "pydict list"

definition build_evaluation_report ::
    "string \<Rightarrow> string \<Rightarrow> nat \<Rightarrow> metrics \<Rightarrow> gate_result \<Rightarrow> pydict list \<Rightarrow> evaluation_report" where
  "build_evaluation_report report_id suite_name case_count aggregate gate summaries =
     \<lparr>er_report_id = report_id, er_suite_name = suite_name, er_case_count = case_count,
      er_aggregate_metrics = aggregate, er_gate_passed = gr_passed gate,
      er_gate_policy_name = gr_policy_name gate, er_release_allowed = release_allowed gate,
      er_gate_reasons = gr_reasons gate, er_case_summaries = summaries\<rparr>"

section \<open>The decision to deploy (governance/deployment_policy.py)\<close>

datatype deployment_status = Deploy_ALLOWED | Deploy_BLOCKED | Deploy_NEEDS_APPROVAL

fun deployment_status_value :: "deployment_status \<Rightarrow> string" where
  "deployment_status_value Deploy_ALLOWED = ''allowed''"
| "deployment_status_value Deploy_BLOCKED = ''blocked''"
| "deployment_status_value Deploy_NEEDS_APPROVAL = ''needs_approval''"

record deployment_decision =
  dd_status :: deployment_status
  dd_release_allowed :: bool
  dd_reasons :: "string list"
  dd_approval_ids :: "string list"
  dd_gate_passed :: bool
  dd_gate_policy_name :: string

definition decision_to_payload :: "deployment_decision \<Rightarrow> pydict" where
  "decision_to_payload d =
     [(''status'', PStr (deployment_status_value (dd_status d))),
      (''release_allowed'', PBool (dd_release_allowed d)),
      (''reasons'', PList (map PStr (dd_reasons d))),
      (''approval_ids'', PList (map PStr (dd_approval_ids d))),
      (''gate_passed'', PBool (dd_gate_passed d)),
      (''gate_policy_name'', PStr (dd_gate_policy_name d))]"

definition decide ::
    "evaluation_report \<Rightarrow> deployment_status \<Rightarrow> string list \<Rightarrow> string list \<Rightarrow> deployment_decision" where
  "decide report status reasons ids =
     \<lparr>dd_status = status, dd_release_allowed = (status = Deploy_ALLOWED), dd_reasons = reasons,
      dd_approval_ids = ids, dd_gate_passed = er_gate_passed report,
      dd_gate_policy_name = er_gate_policy_name report\<rparr>"

definition blocking_reasons :: "evaluation_report \<Rightarrow> string list" where
  "blocking_reasons report =
     (if er_gate_reasons report = [] then [''release gate did not allow deployment'']
      else er_gate_reasons report)"

definition request_override ::
    "string \<Rightarrow> int \<Rightarrow> evaluation_report \<Rightarrow> approval_store \<Rightarrow> deployment_decision \<times> approval_store" where
  "request_override new_id now report s =
     (let (a, s') = approval_create_manual new_id now (er_report_id report) ''release-gate''
            ''release.deploy'' ''admin''
            ''deployment requires manual override because quality gate blocked release''
            [(''suite_name'', PStr (er_suite_name report)),
             (''gate_policy_name'', PStr (er_gate_policy_name report)),
             (''gate_reasons'', PList (map PStr (er_gate_reasons report)))] s
      in (decide report Deploy_NEEDS_APPROVAL (blocking_reasons report) [ap_approval_id a], s'))"

text \<open>\<open>evaluate\<close>, with the identifier and the time of an approval request it may create.\<close>

definition deployment_evaluate ::
    "string \<Rightarrow> int \<Rightarrow> bool \<Rightarrow> evaluation_report \<Rightarrow> string option \<Rightarrow> approval_store
     \<Rightarrow> deployment_decision \<times> approval_store" where
  "deployment_evaluate new_id now override report approval_id s =
     (if er_release_allowed report then (decide report Deploy_ALLOWED [] [], s)
      else if \<not> override then (decide report Deploy_BLOCKED (blocking_reasons report) [], s)
      else case approval_id of
             None \<Rightarrow> request_override new_id now report s
           | Some i \<Rightarrow>
               (if i = [] then request_override new_id now report s
                else case approval_get s i of
                       None \<Rightarrow> request_override new_id now report s
                     | Some a \<Rightarrow>
                         (if ap_status a = Appr_APPROVED
                          then (decide report Deploy_ALLOWED [''manual release override approved''] [i], s)
                          else if ap_status a = Appr_REJECTED
                          then (decide report Deploy_BLOCKED
                                  (blocking_reasons report @ [''manual release override rejected'']) [i], s)
                          else request_override new_id now report s)))"

section \<open>Facts\<close>

lemma gate_passes_min:
  "gr_passed (evaluate_quality_gate m p) \<longleftrightarrow>
     (\<forall>(k, t) \<in> set (gp_min_thresholds p). t \<le> metric_or m k 0)
     \<and> (\<forall>(k, t) \<in> set (gp_max_thresholds p). metric_or m k 1 \<le> t)"
proof -
  have "too_low m x = [] \<longleftrightarrow> snd x \<le> metric_or m (fst x) 0" for x
    by (cases x) (auto simp: too_low_def Let_def)
  moreover have "too_high m x = [] \<longleftrightarrow> metric_or m (fst x) 1 \<le> snd x" for x
    by (cases x) (auto simp: too_high_def Let_def)
  ultimately show ?thesis
    by (auto simp: evaluate_quality_gate_def Let_def split_beta)
qed

text \<open>
  The quality gate passes exactly when every metric with a lower bound reaches it and every
  metric with an upper bound stays within it, where a metric that was not measured counts as zero
  for the first and as one for the second.
\<close>
theorem gate_passes_iff:
  "gr_passed (evaluate_quality_gate m p) \<longleftrightarrow>
     (\<forall>(k, t) \<in> set (gp_min_thresholds p). t \<le> metric_or m k 0)
     \<and> (\<forall>(k, t) \<in> set (gp_max_thresholds p). metric_or m k 1 \<le> t)"
  by (rule gate_passes_min)

lemma gate_result_of_gate:
  "gr_policy_name (evaluate_quality_gate m p) = gp_name p" "gr_blocking (evaluate_quality_gate m p) = gp_blocking p"
  "gr_passed (evaluate_quality_gate m p) \<longleftrightarrow> gr_reasons (evaluate_quality_gate m p) = []"
  by (simp_all add: evaluate_quality_gate_def Let_def)

lemma sum_list_const_val: "\<forall>x \<in> set xs. x = (c :: rat) \<Longrightarrow> sum_list xs = of_nat (length xs) * c"
  by (induction xs) (simp_all add: algebra_simps)

lemma mean_const: "xs \<noteq> [] \<Longrightarrow> \<forall>x \<in> set xs. x = c \<Longrightarrow> mean xs = c"
  using sum_list_const_val[of xs c] by (simp add: mean_def)

lemma aggregate_metric:
  "ms \<noteq> [] \<Longrightarrow> metric_or (aggregate_suite_metrics ms) k 0 = mean (map (\<lambda>m. metric_or m k 0) ms)"
proof -
  assume ms: "ms \<noteq> []"
  let ?K = "\<Union>m \<in> set ms. set (dkeys m)"
  let ?f = "\<lambda>k. mean (map (\<lambda>m. metric_or m k 0) ms)"
  have get: "dget (map (\<lambda>k. (k, ?f k)) ks) k = (if k \<in> set ks then Some (?f k) else None)" for ks
    by (induction ks) simp_all
  show ?thesis
  proof (cases "k \<in> ?K")
    case True
    then show ?thesis using ms get by (simp add: aggregate_suite_metrics_def metric_or_def)
  next
    case False
    then have "dget m k = None" if "m \<in> set ms" for m using that by (auto simp: dget_None_iff)
    then have "\<forall>x \<in> set (map (\<lambda>m. metric_or m k 0) ms). x = 0" by (simp add: metric_or_def)
    then have "?f k = 0" using ms mean_const[of "map (\<lambda>m. metric_or m k 0) ms" 0] by simp
    then show ?thesis using False ms get[of "sorted_list_of_set ?K"]
      by (simp add: aggregate_suite_metrics_def metric_or_def)
  qed
qed

lemma request_override_cases:
  assumes "request_override new_id now report s = (d, s')"
  shows "dd_status d = Deploy_NEEDS_APPROVAL" "\<not> dd_release_allowed d" "dd_approval_ids d = [new_id]"
    "\<exists>a. approval_get s' new_id = Some a \<and> ap_status a = Appr_PENDING \<and> ap_tool_name a = ''release.deploy''
       \<and> ap_case_id a = er_report_id report"
    "i \<noteq> new_id \<Longrightarrow> approval_get s' i = approval_get s i"
  using assms
  by (auto simp: request_override_def decide_def approval_create_manual_def approval_get_def
      approval_emit_def Let_def split: option.splits)

text \<open>
  C20: A release is allowed exactly when its report allows it, or when overrides are allowed and the
  approval named in the call is approved; when an approval is needed, exactly one pending request
  for \<open>release.deploy\<close> is added to the store, and otherwise the store is left as it was.
\<close>
theorem release_needs_gate_or_approval:
  assumes "deployment_evaluate new_id now override report approval_id s = (d, s')"
  shows "(dd_release_allowed d \<longleftrightarrow> er_release_allowed report
      \<or> (override \<and> (\<exists>i a. approval_id = Some i \<and> i \<noteq> [] \<and> approval_get s i = Some a \<and> ap_status a = Appr_APPROVED)))
    \<and> (if dd_status d = Deploy_NEEDS_APPROVAL
        then dd_approval_ids d = [new_id]
          \<and> (\<exists>a. approval_get s' new_id = Some a \<and> ap_status a = Appr_PENDING \<and> ap_tool_name a = ''release.deploy'')
          \<and> (\<forall>i. i \<noteq> new_id \<longrightarrow> approval_get s' i = approval_get s i)
        else s' = s)"
proof -
  consider (same) "s' = s" "dd_status d \<noteq> Deploy_NEEDS_APPROVAL"
      "dd_release_allowed d \<longleftrightarrow> er_release_allowed report
        \<or> (override \<and> (\<exists>i a. approval_id = Some i \<and> i \<noteq> [] \<and> approval_get s i = Some a \<and> ap_status a = Appr_APPROVED))"
    | (ask) "request_override new_id now report s = (d, s')" "\<not> er_release_allowed report"
        "\<not> (\<exists>i a. approval_id = Some i \<and> i \<noteq> [] \<and> approval_get s i = Some a \<and> ap_status a = Appr_APPROVED)"
    using assms unfolding deployment_evaluate_def
    by (auto simp: decide_def split: if_splits option.splits)
  then show ?thesis
  proof cases
    case same
    then show ?thesis by simp
  next
    case ask
    note r = request_override_cases[OF ask(1)]
    show ?thesis using r(1-4) r(5) ask(2,3) by auto
  qed
qed

text \<open>
  The override does not ask what was approved: an approved request of any kind, of a tool call
  of some case for instance, allows the release that its quality gate blocks.
\<close>
theorem any_approval_allows_release:
  assumes "approval_get s i = Some a" and "ap_status a = Appr_APPROVED" and "i \<noteq> []"
    and "ap_tool_name a \<noteq> ''release.deploy''"
  shows "dd_release_allowed (fst (deployment_evaluate new_id now True report (Some i) s))"
  using assms by (simp add: deployment_evaluate_def decide_def)

section \<open>A blocked report\<close>

definition blocked_report :: evaluation_report where
  "blocked_report = build_evaluation_report ''eval-1'' ''nightly'' 0 [] (evaluate_quality_gate [] default_gate_policy) []"

definition tool_approval :: approval_request where
  "tool_approval =
     \<lparr>ap_approval_id = ''appr-1'', ap_case_id = ''case-1'', ap_step_id = ''s1'', ap_tool_name = ''repo.register'',
      ap_permission_level = ''write'', ap_reason = [], ap_status = Appr_APPROVED, ap_requested_at = 0,
      ap_decided_at = Some 0, ap_decided_by = Some ''ops'', ap_decision_reason = [], ap_metadata = []\<rparr>"

definition blocked_approvals :: approval_store where
  "blocked_approvals = (new_approval_store None)\<lparr>as_items := [(''appr-1'', tool_approval)]\<rparr>"

lemma blocked_report_not_allowed: "\<not> er_release_allowed blocked_report"
proof -
  have "\<not> gr_passed (evaluate_quality_gate [] default_gate_policy)"
    unfolding gate_passes_min by (simp add: default_gate_policy_def metric_or_def)
  then show ?thesis
    by (simp add: blocked_report_def build_evaluation_report_def release_allowed_def gate_result_of_gate)
      (simp add: default_gate_policy_def)
qed

theorem release_needs_gate_or_approval_witness:
  "\<exists>d s'. deployment_evaluate ''appr-2'' 0 True blocked_report None blocked_approvals = (d, s')
     \<and> \<not> dd_release_allowed d"
proof -
  obtain d s' where d: "deployment_evaluate ''appr-2'' 0 True blocked_report None blocked_approvals = (d, s')"
    by (rule prod.exhaust)
  from release_needs_gate_or_approval[OF this] show ?thesis using d blocked_report_not_allowed by simp
qed

theorem any_approval_allows_release_witness:
  "dd_release_allowed (fst (deployment_evaluate ''appr-2'' 0 True blocked_report (Some ''appr-1'') blocked_approvals))"
  by (rule any_approval_allows_release[of _ _ tool_approval])
    (simp_all add: blocked_approvals_def approval_get_def tool_approval_def)

end
