(* ===== verification/Runtime.thy ===== *)
theory Runtime
  imports AgentRuns Inbound Evaluation
begin

text \<open>
  The runtime that ties the parts together (\<open>bootstrap/runtime.py\<close>): the agent flow and the default
  flow of a case, their choice, the event a finished case publishes (\<open>infra_core/event_bus.py\<close>), the
  nodes that report in (\<open>infra_core/system_presence.py\<close>), and the trace and the checkpoint of a default
  flow (\<open>flow_runtime/\<close>).

  A procedure that raises keeps what it changed. What a run of the agent has changed when it raises is
  the argument \<open>rc_raised\<close>; the handlers of the event bus change a world of their own, \<open>'b\<close>.
\<close>

section \<open>The event bus (infra_core/event_bus.py)\<close>

type_synonym 'b event_handler = "pydict \<Rightarrow> ('b, unit) eff"
type_synonym 'b event_bus = "(string \<times> 'b event_handler list) list"

definition handlers_of :: "'b event_bus \<Rightarrow> string \<Rightarrow> 'b event_handler list" where
  "handlers_of bus topic = (case dget bus topic of None \<Rightarrow> [] | Some hs \<Rightarrow> hs)"

definition bus_subscribe :: "string \<Rightarrow> 'b event_handler \<Rightarrow> 'b event_bus \<Rightarrow> 'b event_bus" where
  "bus_subscribe topic h bus = dput topic (handlers_of bus topic @ [h]) bus"

definition bus_publish :: "'b event_bus \<Rightarrow> string \<Rightarrow> pydict \<Rightarrow> ('b, unit) eff" where
  "bus_publish bus topic payload =
     seq (seq_map (\<lambda>h. h payload) (handlers_of bus topic)) (\<lambda>_. give ())"

section \<open>Presence (infra_core/system_presence.py)\<close>

record presence_record =
  pn_node_id :: string
  pn_role :: string
  pn_last_seen_at :: int
  pn_metadata :: "(string \<times> string) list"

type_synonym presence_registry = "(string \<times> presence_record) list"

definition presence_put :: "presence_record \<Rightarrow> presence_registry \<Rightarrow> presence_registry" where
  "presence_put n d = dput (pn_node_id n) n d"

definition heartbeat ::
    "int \<Rightarrow> string \<Rightarrow> string \<Rightarrow> (string \<times> string) list \<Rightarrow> presence_registry \<Rightarrow> presence_registry" where
  "heartbeat now node_id role metadata d =
     presence_put \<lparr>pn_node_id = node_id, pn_role = role, pn_last_seen_at = now, pn_metadata = metadata\<rparr> d"

definition list_nodes :: "presence_registry \<Rightarrow> presence_record list" where
  "list_nodes d = dvals d"

interpretation presence_db: keyed_store pn_node_id presence_put dget list_nodes "keyed pn_node_id"
  using keyed_store_dict[of pn_node_id] unfolding presence_put_def list_nodes_def .

section \<open>The runtime (bootstrap/runtime.py)\<close>

record ('v, 'b) dev_runtime =
  dr_stores :: stores
  dr_env :: "'v agent_env"
  dr_checkpoints :: checkpoint_store
  dr_bus :: "'b event_bus"
  dr_outside :: 'b
  dr_presence :: presence_registry
  dr_node_id :: string
  dr_agent_flow_enabled :: bool
  dr_runs :: nat   \<comment> \<open>the number of runs begun, for fresh identifiers and times\<close>

record 'v runtime_ctx =
  rc_loop :: "nat \<Rightarrow> 'v loop_ctx"
  rc_raised :: "nat \<Rightarrow> case_create_request \<Rightarrow> stores \<times> 'v agent_env \<Rightarrow> stores \<times> 'v agent_env"
  rc_report :: "string \<Rightarrow> string \<Rightarrow> evidence_pack \<Rightarrow> case_report"
  rc_json :: "string \<Rightarrow> pyval option"
  rc_now :: "nat \<Rightarrow> int"
  rc_exec_id :: "nat \<Rightarrow> string"

text \<open>The approvals of the runtime are those of its gateway; the runtime always has a store of them.\<close>

definition approvals_of :: "('v, 'b) dev_runtime \<Rightarrow> approval_store" where
  "approvals_of r = (case mg_approvals (snd (dr_env r)) of None \<Rightarrow> new_approval_store None | Some s \<Rightarrow> s)"

definition set_approvals :: "approval_store \<Rightarrow> ('v, 'b) dev_runtime \<Rightarrow> ('v, 'b) dev_runtime" where
  "set_approvals s r = r\<lparr>dr_env := (fst (dr_env r), (snd (dr_env r))\<lparr>mg_approvals := Some s\<rparr>)\<rparr>"

definition heartbeat_presence ::
    "int \<Rightarrow> string \<Rightarrow> (string \<times> string) list \<Rightarrow> ('v, 'b) dev_runtime \<Rightarrow> ('v, 'b) dev_runtime" where
  "heartbeat_presence now role metadata r =
     r\<lparr>dr_presence := heartbeat now (dr_node_id r) role metadata (dr_presence r)\<rparr>"

definition resolve_use_agent :: "bool option \<Rightarrow> ('v, 'b) dev_runtime \<Rightarrow> bool" where
  "resolve_use_agent use_agent r =
     (case use_agent of Some b \<Rightarrow> b | None \<Rightarrow> dr_agent_flow_enabled r)"

definition completed_payload :: "string \<Rightarrow> string \<Rightarrow> case_record \<Rightarrow> nat \<Rightarrow> string \<Rightarrow> pydict" where
  "completed_payload case_id status c evidence_count runner =
     [(''case_id'', PStr case_id), (''status'', PStr status), (''service_name'', PStr (cr_service_name c)),
      (''source'', PStr (cr_source c)), (''evidence_count'', PInt (int evidence_count)),
      (''runner'', PStr runner)]"

definition publish_case_completed :: "pydict \<Rightarrow> (('v, 'b) dev_runtime, unit) eff" where
  "publish_case_completed payload r =
     (case bus_publish (dr_bus r) ''case.completed'' payload (dr_outside r) of
        (x, b) \<Rightarrow> (x, r\<lparr>dr_outside := b\<rparr>))"

text \<open>The run of the agent on the stores and the gateway of the runtime.\<close>

definition run_case_detailed ::
    "'v runtime_ctx \<Rightarrow> case_create_request \<Rightarrow> (('v, 'b) dev_runtime, agent_run_result) eff" where
  "run_case_detailed rx req r =
     (let n = dr_runs r in
      case agent_run (rc_loop rx n) req (dr_stores r) (dr_env r) of
        Inl e \<Rightarrow>
          (case rc_raised rx n req (dr_stores r, dr_env r) of
             (so, env) \<Rightarrow> (Inl e, r\<lparr>dr_stores := so, dr_env := env, dr_runs := Suc n\<rparr>))
      | Inr (res, evs, so, env) \<Rightarrow>
          (Inr res, r\<lparr>dr_stores := so, dr_env := env, dr_runs := Suc n\<rparr>))"

definition pack_size :: "evidence_pack option \<Rightarrow> nat" where
  "pack_size p = (case p of None \<Rightarrow> 0 | Some pack \<Rightarrow> length (ep_items pack))"

definition run_agent_from_case_request ::
    "'v runtime_ctx \<Rightarrow> case_create_request \<Rightarrow> (('v, 'b) dev_runtime, agent_run_result) eff" where
  "run_agent_from_case_request rx req =
     seq (run_case_detailed rx req) (\<lambda>res.
     seq (look dr_stores) (\<lambda>so.
       case case_store_get (so_cases so) (ar_case_id res) of
         None \<Rightarrow> give res
       | Some c \<Rightarrow>
           seq (publish_case_completed (completed_payload (ar_case_id res) (ar_status res) c
                  (pack_size (evidence_get_pack (so_evidence so) (ar_case_id res))) ''agent''))
             (\<lambda>_. give res)))"

subsection \<open>The default flow\<close>

text \<open>The case, the pack and the report of a run, each made and stored where it is missing.\<close>

definition fallback_case :: "int \<Rightarrow> case_create_request \<Rightarrow> string \<Rightarrow> case_record" where
  "fallback_case now req case_id =
     \<lparr>cr_case_id = case_id, cr_title = cq_title req, cr_symptom = cq_symptom req,
      cr_service_name = cq_service_name req, cr_source = cq_source req, cr_status = Case_FAILED,
      cr_selected_skills = [], cr_steps = [],
      cr_metadata = [(''error_code'', PStr ''SKILL_PLANNER_FAILED'')],
      cr_created_at = now, cr_updated_at = now\<rparr>"

definition case_or_fallback :: "int \<Rightarrow> case_create_request \<Rightarrow> string \<Rightarrow> stores \<Rightarrow> case_record \<times> stores" where
  "case_or_fallback now req case_id so =
     (case case_store_get (so_cases so) case_id of
        Some c \<Rightarrow> (c, so)
      | None \<Rightarrow>
          (let c = fallback_case now req case_id in (c, so\<lparr>so_cases := case_store_put c (so_cases so)\<rparr>)))"

definition pack_or_fallback :: "string \<Rightarrow> string \<Rightarrow> stores \<Rightarrow> evidence_pack \<times> stores" where
  "pack_or_fallback case_id status so =
     (case evidence_get_pack (so_evidence so) case_id of
        Some p \<Rightarrow> (p, so)
      | None \<Rightarrow>
          (let p = \<lparr>ep_case_id = case_id, ep_items = [], ep_summary = status\<rparr>
           in (p, so\<lparr>so_evidence := evidence_put_pack p (so_evidence so)\<rparr>)))"

definition report_or_built ::
    "'v runtime_ctx \<Rightarrow> string \<Rightarrow> case_record \<Rightarrow> evidence_pack \<Rightarrow> stores \<Rightarrow> case_report \<times> stores" where
  "report_or_built rx case_id c pack so =
     (case report_get (so_reports so) case_id of
        Some p \<Rightarrow> (p, so)
      | None \<Rightarrow>
          (let p = rc_report rx case_id (cr_title c) pack in (p, so\<lparr>so_reports := report_put p (so_reports so)\<rparr>)))"

definition flow_result ::
    "'v runtime_ctx \<Rightarrow> int \<Rightarrow> case_create_request \<Rightarrow> agent_run_result \<Rightarrow> stores \<Rightarrow> flow_run_result \<times> stores" where
  "flow_result rx now req res so =
     (let (c, so1) = case_or_fallback now req (ar_case_id res) so;
          (pack, so2) = pack_or_fallback (ar_case_id res) (ar_status res) so1;
          (report, so3) = report_or_built rx (ar_case_id res) c pack so2
      in (\<lparr>fr_case = c, fr_evidence_pack = pack, fr_report = report, fr_tool_results = []\<rparr>, so3))"

definition run_default_flow_from_case_request ::
    "'v runtime_ctx \<Rightarrow> case_create_request \<Rightarrow> (('v, 'b) dev_runtime, flow_run_result) eff" where
  "run_default_flow_from_case_request rx req =
     seq (run_agent_from_case_request rx req) (\<lambda>res r.
       case flow_result rx (rc_now rx (dr_runs r)) req res (dr_stores r) of
         (run, so) \<Rightarrow> (Inr run, r\<lparr>dr_stores := so\<rparr>))"

subsection \<open>Choosing the flow\<close>

datatype flow_answer = Default_flow flow_run_result | Agent_flow agent_run_result

definition run_case_from_request ::
    "'v runtime_ctx \<Rightarrow> case_create_request \<Rightarrow> bool option \<Rightarrow> (('v, 'b) dev_runtime, flow_answer) eff" where
  "run_case_from_request rx req use_agent =
     seq (look (resolve_use_agent use_agent)) (\<lambda>agent.
       if agent then seq (run_agent_from_case_request rx req) (\<lambda>x. give (Agent_flow x))
       else seq (run_default_flow_from_case_request rx req) (\<lambda>x. give (Default_flow x)))"

definition use_agent_from_payload :: "pydict \<Rightarrow> case_create_request \<Rightarrow> bool option" where
  "use_agent_from_payload payload req =
     (if py_truthy (py_get payload ''use_agent'') then Some True
      else if py_truthy (py_get (cq_metadata req) ''use_agent'') then Some True else None)"

definition run_flow_from_case_request ::
    "'v runtime_ctx \<Rightarrow> case_create_request \<Rightarrow> bool option \<Rightarrow> (('v, 'b) dev_runtime, flow_answer) eff" where
  "run_flow_from_case_request rx req use_agent =
     run_case_from_request rx req
       (if use_agent = None then map_option py_truthy (dget (cq_metadata req) ''use_agent'') else use_agent)"

definition run_flow_from_payload ::
    "'v runtime_ctx \<Rightarrow> pydict \<Rightarrow> (('v, 'b) dev_runtime, flow_answer) eff" where
  "run_flow_from_payload rx payload =
     seq (lift_res (webhook_payload_to_case_create (rc_json rx) payload)) (\<lambda>req.
       run_flow_from_case_request rx req (use_agent_from_payload payload req))"

definition run_default_flow_from_payload ::
    "'v runtime_ctx \<Rightarrow> pydict \<Rightarrow> (('v, 'b) dev_runtime, flow_run_result) eff" where
  "run_default_flow_from_payload rx payload =
     seq (lift_res (webhook_payload_to_case_create (rc_json rx) payload))
       (run_default_flow_from_case_request rx)"

section \<open>The trace of a flow (contracts/execution_trace.py, flow_runtime/run_trace.py)\<close>

record step_execution_record =
  sx_step_id :: string
  sx_name :: string
  sx_status :: step_status
  sx_capability :: "string option"
  sx_tool_name :: "string option"
  sx_detail :: pydict

record execution_trace =
  ex_execution_id :: string
  ex_case_id :: string
  ex_skill_slug :: string
  ex_flow_id :: "string option"
  ex_steps :: "step_execution_record list"

definition step_record_of :: "case_step \<Rightarrow> step_execution_record res" where
  "step_record_of s =
     bind_res (required_text (st_step_id s)) (\<lambda>i.
     bind_res (required_text (st_name s)) (\<lambda>n.
       Inr \<lparr>sx_step_id = i, sx_name = n, sx_status = st_status s,
            sx_capability = Some (py_strip (st_action s)),
            sx_tool_name = map_option py_strip (st_tool_name s),
            sx_detail = [(''inputs'', PDict (st_inputs s)), (''outputs'', PDict (st_outputs s))]\<rparr>))"

definition named_step_record :: "nat \<times> string \<Rightarrow> step_execution_record res" where
  "named_step_record = (\<lambda>(idx, name).
     bind_res (required_text name) (\<lambda>n.
       Inr \<lparr>sx_step_id = ''step-'' @ nat_str (idx + 1), sx_name = n, sx_status = Step_COMPLETED,
            sx_capability = None, sx_tool_name = None, sx_detail = []\<rparr>))"

definition build_execution_trace ::
    "string \<Rightarrow> string \<Rightarrow> string \<Rightarrow> string \<Rightarrow> string list option \<Rightarrow> case_step list option \<Rightarrow> execution_trace res" where
  "build_execution_trace execution_id case_id skill_slug flow_id step_names case_steps =
     (if case_steps = None \<and> step_names = None
      then Inl (ValueError ''either step_names or case_steps must be provided'')
      else bind_res (case case_steps of
             Some ss \<Rightarrow> map_res step_record_of ss
           | None \<Rightarrow> map_res named_step_record (enumerate 0 (the step_names))) (\<lambda>steps.
         bind_res (required_text execution_id) (\<lambda>e.
         bind_res (required_text case_id) (\<lambda>c.
         bind_res (required_text skill_slug) (\<lambda>k.
           Inr \<lparr>ex_execution_id = e, ex_case_id = c, ex_skill_slug = k,
                ex_flow_id = Some (py_strip flow_id), ex_steps = steps\<rparr>)))))"

definition first_skill :: "case_record \<Rightarrow> string" where
  "first_skill c = (case cr_selected_skills c of [] \<Rightarrow> ''unknown'' | s # _ \<Rightarrow> s)"

definition default_flow_id :: string where
  "default_flow_id = ''builtin.default_log_triage_flow''"

section \<open>The flow runtime (flow_runtime/flow_executor.py, runtime.py)\<close>

record flow_execution_result =
  fx_case_id :: string
  fx_trace :: execution_trace
  fx_step_outputs :: "(string \<times> pydict) list"
  fx_status :: string

definition execute_default ::
    "'v runtime_ctx \<Rightarrow> case_create_request \<Rightarrow> (('v, 'b) dev_runtime, flow_execution_result) eff" where
  "execute_default rx req =
     seq (run_default_flow_from_case_request rx req) (\<lambda>run.
     seq (look dr_runs) (\<lambda>n.
     seq (lift_res (build_execution_trace (rc_exec_id rx n) (cr_case_id (fr_case run)) (first_skill (fr_case run))
            default_flow_id None (Some (cr_steps (fr_case run))))) (\<lambda>trace.
       give \<lparr>fx_case_id = cr_case_id (fr_case run), fx_trace = trace,
             fx_step_outputs = dict_of (map (\<lambda>s. (st_step_id s, st_outputs s)) (cr_steps (fr_case run))),
             fx_status = case_status_value (cr_status (fr_case run))\<rparr>)))"

definition step_payload :: "flow_execution_result \<Rightarrow> step_execution_record \<Rightarrow> pyval" where
  "step_payload x s =
     PDict [(''step_id'', PStr (sx_step_id s)), (''name'', PStr (sx_name s)),
       (''status'', PStr (step_status_value (sx_status s))), (''tool_name'', opt_pystr (sx_tool_name s)),
       (''outputs'', PDict (case dget (fx_step_outputs x) (sx_step_id s) of None \<Rightarrow> [] | Some d \<Rightarrow> d))]"

definition checkpoint_payload :: "flow_execution_result \<Rightarrow> string \<Rightarrow> pydict" where
  "checkpoint_payload x status =
     [(''case_id'', PStr (fx_case_id x)), (''flow_id'', opt_pystr (ex_flow_id (fx_trace x))),
      (''skill_slug'', PStr (ex_skill_slug (fx_trace x))), (''status'', PStr status),
      (''next_step_index'', PInt (int (length (ex_steps (fx_trace x))))),
      (''steps'', PList (map (step_payload x) (ex_steps (fx_trace x))))]"

definition save_checkpoint :: "'v runtime_ctx \<Rightarrow> string \<Rightarrow> pydict \<Rightarrow> ('v, 'b) dev_runtime \<Rightarrow> ('v, 'b) dev_runtime" where
  "save_checkpoint rx i payload r =
     r\<lparr>dr_checkpoints := checkpoint_save (rc_now rx (dr_runs r)) i payload (dr_checkpoints r)\<rparr>"

definition flow_run_default ::
    "'v runtime_ctx \<Rightarrow> case_create_request \<Rightarrow> (('v, 'b) dev_runtime, flow_execution_result) eff" where
  "flow_run_default rx req =
     seq (execute_default rx req) (\<lambda>x.
     seq (change (save_checkpoint rx (ex_execution_id (fx_trace x)) (checkpoint_payload x (fx_status x))))
       (\<lambda>_. give x))"

definition list_checkpoints ::
    "string option \<Rightarrow> string option \<Rightarrow> int \<Rightarrow> ('v, 'b) dev_runtime \<Rightarrow> pydict list" where
  "list_checkpoints case_id status limit r =
     map (\<lambda>c. [(''flow_run_id'', PStr (ck_flow_run_id c)), (''revision'', PInt (int (ck_revision c))),
               (''updated_at'', PStr (iso_format (ck_updated_at c))), (''payload'', PDict (ck_payload c))])
       (checkpoint_list_records case_id status limit (dr_checkpoints r))"

end
