(* ===== verification/Replay.thy ===== *)
theory Replay
  imports Runtime
begin

text \<open>
  Replaying recorded cases (\<open>replay/\<close>): the store of the cases with their runs (\<open>store.py\<close>), the suite
  that runs every case through the default flow and judges the metrics (\<open>runner.py\<close>), and the benchmark
  cases (\<open>sample_cases.py\<close>).
\<close>

section \<open>Snapshots and traces (contracts/replay.py, contracts/execution_trace.py)\<close>

record replay_snapshot =
  sp_replay_id :: string
  sp_run_id :: string
  sp_case_id :: string
  sp_skill_name :: string
  sp_flow_plugin_id :: string
  sp_passed :: bool
  sp_metrics :: metrics
  sp_errors :: "string list"

definition make_snapshot :: "replay_snapshot \<Rightarrow> replay_snapshot res" where
  "make_snapshot s =
     bind_res (required_text (sp_replay_id s)) (\<lambda>i.
     bind_res (required_text (sp_run_id s)) (\<lambda>r.
     bind_res (required_text (sp_case_id s)) (\<lambda>c.
     bind_res (required_text (sp_skill_name s)) (\<lambda>k.
     bind_res (required_text (sp_flow_plugin_id s)) (\<lambda>f.
       Inr (s\<lparr>sp_replay_id := i, sp_run_id := r, sp_case_id := c, sp_skill_name := k, sp_flow_plugin_id := f,
              sp_errors := map py_strip (sp_errors s)\<rparr>))))))"

record skill_execution_trace =
  kt_skill_name :: string
  kt_skill_version :: string
  kt_step_name :: string
  kt_tool_calls :: "string list"
  kt_inputs :: pydict
  kt_outputs :: pydict
  kt_errors :: "string list"

record case_execution_trace =
  xt_case_id :: string
  xt_skill_name :: string
  xt_flow_plugin_id :: string
  xt_step_traces :: "skill_execution_trace list"
  xt_mcp_call_ids :: "string list"
  xt_evidence_ids :: "string list"
  xt_report_id :: "string option"

section \<open>The store (replay/store.py)\<close>

record replay_history =
  rh_case :: replay_case
  rh_runs :: "replay_snapshot list"

type_synonym replay_store = "(string \<times> replay_history) list"

definition upsert_case :: "replay_case \<Rightarrow> replay_store \<Rightarrow> replay_store" where
  "upsert_case c d =
     (case dget d (rp_replay_id c) of
        None \<Rightarrow> dput (rp_replay_id c) \<lparr>rh_case = c, rh_runs = []\<rparr> d
      | Some h \<Rightarrow> dput (rp_replay_id c) (h\<lparr>rh_case := c\<rparr>) d)"

definition add_run :: "replay_snapshot \<Rightarrow> replay_store \<Rightarrow> replay_store res" where
  "add_run s d =
     (case dget d (sp_replay_id s) of
        None \<Rightarrow> Inl (ValueError (''Replay case not found: '' @ sp_replay_id s))
      | Some h \<Rightarrow> Inr (dput (sp_replay_id s) (h\<lparr>rh_runs := rh_runs h @ [s]\<rparr>) d))"

definition list_cases :: "replay_store \<Rightarrow> replay_case list" where
  "list_cases d = map rh_case (dvals d)"

definition get_case :: "replay_store \<Rightarrow> string \<Rightarrow> replay_case option" where
  "get_case d i = map_option rh_case (dget d i)"

definition get_runs :: "replay_store \<Rightarrow> string \<Rightarrow> replay_snapshot list" where
  "get_runs d i = (case dget d i of None \<Rightarrow> [] | Some h \<Rightarrow> rh_runs h)"

definition load_cases :: "replay_case list \<Rightarrow> replay_store \<Rightarrow> replay_store" where
  "load_cases cs d = fold upsert_case cs d"

section \<open>The suite (replay/runner.py)\<close>

text \<open>
  The runtime is anything that runs the default flow on a payload, \<open>rx_run\<close>; \<open>rx_corpus\<close> dumps a run for
  the search for secrets, and the other two give fresh identifiers.
\<close>

record 'w replay_ctx =
  rx_run :: "pydict \<Rightarrow> ('w, flow_run_result) eff"
  rx_corpus :: "flow_run_result \<Rightarrow> string list"
  rx_run_id :: "nat \<Rightarrow> string"
  rx_report_id :: "nat \<Rightarrow> string"
  rx_policy :: gate_policy

text \<open>The state of a suite: the runtime, the store, and what the suite has collected.\<close>

record 'w suite_state =
  su_world :: 'w
  su_store :: replay_store
  su_traces :: "case_execution_trace list"
  su_snapshots :: "replay_snapshot list"
  su_metrics :: "metrics list"
  su_count :: nat   \<comment> \<open>the number of run identifiers used\<close>

definition step_trace :: "case_step \<Rightarrow> skill_execution_trace res" where
  "step_trace s =
     bind_res (required_text (st_skill_name s)) (\<lambda>k.
     bind_res (required_text (st_name s)) (\<lambda>n.
       Inr \<lparr>kt_skill_name = k, kt_skill_version = ''1.0.0'', kt_step_name = n,
            kt_tool_calls = [py_strip (st_action s)], kt_inputs = strip_keys (st_inputs s),
            kt_outputs = strip_keys (st_outputs s),
            kt_errors = (if st_status s \<noteq> Step_FAILED then [] else [''step failed''])\<rparr>))"

definition to_case_execution_trace :: "flow_run_result \<Rightarrow> string \<Rightarrow> case_execution_trace res" where
  "to_case_execution_trace run run_id =
     bind_res (map_res step_trace (cr_steps (fr_case run))) (\<lambda>steps.
     bind_res (required_text (cr_case_id (fr_case run))) (\<lambda>c.
     bind_res (required_text (first_skill (fr_case run))) (\<lambda>k.
       Inr \<lparr>xt_case_id = c, xt_skill_name = k, xt_flow_plugin_id = default_flow_id, xt_step_traces = steps,
            xt_mcp_call_ids = map (\<lambda>r. py_strip (run_id @ '':'' @ tr_tool_name r)) (fr_tool_results run),
            xt_evidence_ids = map (\<lambda>i. py_strip (ei_item_id i)) (ep_items (fr_evidence_pack run)),
            xt_report_id = Some (py_strip (cp_case_id (fr_report run)))\<rparr>)))"

definition snapshot_of :: "replay_case \<Rightarrow> flow_run_result \<Rightarrow> string \<Rightarrow> metrics \<Rightarrow> replay_snapshot res" where
  "snapshot_of c run run_id m =
     make_snapshot
       \<lparr>sp_replay_id = rp_replay_id c, sp_run_id = run_id, sp_case_id = cr_case_id (fr_case run),
        sp_skill_name = first_skill (fr_case run), sp_flow_plugin_id = default_flow_id,
        sp_passed = (case_status_value (cr_status (fr_case run)) = ''completed''), sp_metrics = m,
        sp_errors = List.map_filter (\<lambda>r. map_option te_message (tr_error r)) (fr_tool_results run)\<rparr>"

text \<open>One run of a case: its metrics and the identifier of the run.\<close>

definition run_case_once ::
    "'w replay_ctx \<Rightarrow> replay_case \<Rightarrow> ('w suite_state, metrics \<times> string) eff" where
  "run_case_once rx c su =
     (let run_id = rx_run_id rx (su_count su); su0 = su\<lparr>su_count := Suc (su_count su)\<rparr> in
      case rx_run rx (rp_alert_payload c) (su_world su0) of
        (Inl e, w) \<Rightarrow> (Inl e, su0\<lparr>su_world := w\<rparr>)
      | (Inr run, w) \<Rightarrow>
          (let m = evaluate_run_metrics (rx_corpus rx) c run;
               su1 = su0\<lparr>su_world := w, su_metrics := su_metrics su0 @ [m]\<rparr>
           in case to_case_execution_trace run run_id of
                Inl e \<Rightarrow> (Inl e, su1)
              | Inr t \<Rightarrow>
                  (let su2 = su1\<lparr>su_traces := su_traces su1 @ [t]\<rparr> in
                   case snapshot_of c run run_id m of
                     Inl e \<Rightarrow> (Inl e, su2)
                   | Inr snap \<Rightarrow>
                       (let su3 = su2\<lparr>su_snapshots := su_snapshots su2 @ [snap]\<rparr> in
                        case add_run snap (su_store su3) of
                          Inl e \<Rightarrow> (Inl e, su3)
                        | Inr d \<Rightarrow> (Inr (m, run_id), su3\<lparr>su_store := d\<rparr>)))))"

definition case_summary :: "replay_case \<Rightarrow> (metrics \<times> string) list \<Rightarrow> pydict" where
  "case_summary c runs =
     [(''replay_id'', PStr (rp_replay_id c)), (''name'', PStr (rp_name c)), (''runs'', PInt (int (length runs))),
      (''metrics'', PDict (map (\<lambda>(k, x). (k, PFloat x)) (aggregate_suite_metrics (map fst runs)))),
      (''run_ids'', PList (map (\<lambda>(m, i). PStr i) runs))]"

definition run_case_repeatedly :: "'w replay_ctx \<Rightarrow> nat \<Rightarrow> replay_case \<Rightarrow> ('w suite_state, pydict) eff" where
  "run_case_repeatedly rx n c =
     seq (seq_map (\<lambda>_. run_case_once rx c) [0..<n]) (\<lambda>runs. give (case_summary c runs))"

definition new_suite :: "'w \<Rightarrow> replay_store \<Rightarrow> nat \<Rightarrow> 'w suite_state" where
  "new_suite w d n =
     \<lparr>su_world = w, su_store = d, su_traces = [], su_snapshots = [], su_metrics = [], su_count = n\<rparr>"

definition run_suite ::
    "'w replay_ctx \<Rightarrow> string \<Rightarrow> int \<Rightarrow> ('w suite_state, evaluation_report) eff" where
  "run_suite rx suite_name repeat_each =
     (if repeat_each < 1 then raise_err (ValueError ''repeat_each must be >= 1'')
      else seq (look (\<lambda>su. list_cases (su_store su))) (\<lambda>cases.
           seq (seq_map (run_case_repeatedly rx (nat repeat_each)) cases) (\<lambda>summaries su.
             let aggregate = aggregate_suite_metrics (su_metrics su);
                 gate = evaluate_quality_gate aggregate (rx_policy rx)
             in (Inr (build_evaluation_report (rx_report_id rx (su_count su)) suite_name (length cases)
                        aggregate gate summaries), su))))"

section \<open>The benchmark (replay/sample_cases.py)\<close>

definition benchmark_base :: "(string \<times> string \<times> string \<times> string) list" where
  "benchmark_base =
     [(''rp-001'', ''order-service'', ''trace-order-001'', ''DB connection saturation''),
      (''rp-002'', ''api-gateway'', ''trace-api-002'', ''upstream timeout propagation''),
      (''rp-003'', ''order-service'', ''trace-order-003'', ''bad release config''),
      (''rp-004'', ''api-gateway'', ''trace-api-004'', ''cache miss storm''),
      (''rp-005'', ''order-service'', ''trace-order-005'', ''slow query amplification''),
      (''rp-006'', ''api-gateway'', ''trace-api-006'', ''ingress retry burst''),
      (''rp-007'', ''order-service'', ''trace-order-007'', ''thread pool exhaustion''),
      (''rp-008'', ''api-gateway'', ''trace-api-008'', ''rate limiter mis-tuned''),
      (''rp-009'', ''order-service'', ''trace-order-009'', ''message backlog''),
      (''rp-010'', ''api-gateway'', ''trace-api-010'', ''dependency TLS handshake delay'')]"

definition benchmark_case :: "string \<times> string \<times> string \<times> string \<Rightarrow> replay_case" where
  "benchmark_case = (\<lambda>(replay_id, service, trace_id, root_cause).
     \<lparr>rp_replay_id = replay_id, rp_name = service @ '' incident '' @ replay_id,
      rp_alert_payload =
        [(''title'', PStr (service @ '' 5xx spike'')), (''message'', PStr ''error ratio high''),
         (''service_name'', PStr service), (''source'', PStr ''replay-benchmark''), (''tenant'', PStr ''demo''),
         (''environment'', PStr ''prod''), (''trace_id'', PStr trace_id)],
      rp_case_request =
        \<lparr>cq_title = service @ '' 5xx spike'', cq_symptom = ''error ratio high'', cq_service_name = service,
         cq_source = ''replay-benchmark'',
         cq_metadata = [(''trace_id'', PStr trace_id), (''tenant'', PStr ''demo''), (''environment'', PStr ''prod'')]\<rparr>,
      rp_log_samples = [[(''trace_id'', PStr trace_id), (''message'', PStr ''sample log'')]],
      rp_trace_samples = [[(''trace_id'', PStr trace_id), (''spans'', PInt 3)]],
      rp_code_revision_hint = Some ''main@HEAD'', rp_human_root_cause = root_cause,
      rp_expected_report_bullets = [service, ''evidence'', ''notify''], rp_redacted = True,
      rp_metadata = [(''domain'', PStr ''default-flow''), (''benchmark'', PStr ''base'')]\<rparr>)"

definition default_replay_suite :: "replay_case list" where
  "default_replay_suite = map benchmark_case benchmark_base"

section \<open>The suite on the runtime\<close>

definition runtime_replay ::
    "'v runtime_ctx \<Rightarrow> (flow_run_result \<Rightarrow> string list) \<Rightarrow> (nat \<Rightarrow> string) \<Rightarrow> (nat \<Rightarrow> string)
     \<Rightarrow> ('v, 'b) dev_runtime replay_ctx" where
  "runtime_replay rx corpus run_id report_id =
     \<lparr>rx_run = run_default_flow_from_payload rx, rx_corpus = corpus, rx_run_id = run_id,
      rx_report_id = report_id, rx_policy = default_gate_policy\<rparr>"

end
