(* ===== verification/RuntimeFacts.thy ===== *)
theory RuntimeFacts
  imports Runtime
begin

text \<open>
  What a flow of the runtime leaves: the records it stores, the event it publishes, the checkpoint of
  a default flow; and that the default flow and the agent flow are one.
\<close>

section \<open>A run of the agent\<close>

text \<open>What is behind an answer: a run of the loop whose case is stored, and an event published.\<close>

definition stored_run :: "stores \<Rightarrow> agent_run_result \<Rightarrow> case_record \<Rightarrow> evidence_pack \<Rightarrow> bool" where
  "stored_run so res c p \<longleftrightarrow>
     case_store_get (so_cases so) (ar_case_id res) = Some c
     \<and> evidence_get_pack (so_evidence so) (ar_case_id res) = Some p
     \<and> cr_status c = (if ar_status res = ''failed'' then Case_FAILED else Case_COMPLETED)"

lemma agent_run_stored:
  assumes "agent_run lx req so e = Inr (res, evs, so', e')" and "inj (\<lambda>n. ac_case_id (lx_attempt lx n))"
  obtains c p where "stored_run so' res c p"
proof -
  have "last (ar_attempts res) \<in> set (ar_attempts res)"
    using agent_run_last(1)[OF assms(1)] by simp
  then show ?thesis
    using that agent_run_attempts_stored[OF assms] agent_run_last(2,3)[OF assms(1)]
    unfolding stored_run_def case_stored_def by (metis not_None_eq)
qed

lemma run_case_detailed_cases:
  assumes "run_case_detailed rx req r = (Inr res, r1)"
  obtains evs where "agent_run (rc_loop rx (dr_runs r)) req (dr_stores r) (dr_env r)
      = Inr (res, evs, dr_stores r1, dr_env r1)"
    "dr_bus r1 = dr_bus r" "dr_outside r1 = dr_outside r" "dr_checkpoints r1 = dr_checkpoints r"
    "dr_runs r1 = Suc (dr_runs r)"
  using assms by (auto simp: run_case_detailed_def Let_def split: sum.splits prod.splits)

text \<open>The world of the runtime's handlers after the event of a finished run.\<close>

definition completed_event :: "stores \<Rightarrow> agent_run_result \<Rightarrow> case_record \<Rightarrow> pydict" where
  "completed_event so res c =
     completed_payload (ar_case_id res) (ar_status res) c
       (pack_size (evidence_get_pack (so_evidence so) (ar_case_id res))) ''agent''"

lemma run_agent_unfold:
  assumes "run_case_detailed rx req r = (Inr res, r1)" and "stored_run (dr_stores r1) res c p"
  shows "run_agent_from_case_request rx req r =
    (case bus_publish (dr_bus r) ''case.completed'' (completed_event (dr_stores r1) res c) (dr_outside r) of
       (Inl e, b) \<Rightarrow> (Inl e, r1\<lparr>dr_outside := b\<rparr>) | (Inr _, b) \<Rightarrow> (Inr res, r1\<lparr>dr_outside := b\<rparr>))"
proof -
  have "dr_bus r1 = dr_bus r" "dr_outside r1 = dr_outside r"
    using run_case_detailed_cases[OF assms(1)] by metis+
  then show ?thesis using assms
    by (simp add: run_agent_from_case_request_def seq_def look_def give_def publish_case_completed_def
        stored_run_def completed_event_def split: prod.splits sum.splits)
qed

lemma run_agent_cases:
  assumes "run_agent_from_case_request rx req r = (Inr res, r')"
    and "inj (\<lambda>n. ac_case_id (lx_attempt (rc_loop rx (dr_runs r)) n))"
  obtains evs c p where "agent_run (rc_loop rx (dr_runs r)) req (dr_stores r) (dr_env r)
      = Inr (res, evs, dr_stores r', dr_env r')"
    "stored_run (dr_stores r') res c p" "dr_runs r' = Suc (dr_runs r)"
    "dr_checkpoints r' = dr_checkpoints r" "dr_bus r' = dr_bus r"
    "bus_publish (dr_bus r) ''case.completed'' (completed_event (dr_stores r') res c) (dr_outside r)
      = (Inr (), dr_outside r')"
proof -
  obtain r1 where r1: "run_case_detailed rx req r = (Inr res, r1)"
    using assms(1) unfolding run_agent_from_case_request_def
    by (auto simp: seq_Inr_iff look_def give_def split: option.splits)
  obtain evs where evs: "agent_run (rc_loop rx (dr_runs r)) req (dr_stores r) (dr_env r)
      = Inr (res, evs, dr_stores r1, dr_env r1)"
    and eqs: "dr_bus r1 = dr_bus r" "dr_checkpoints r1 = dr_checkpoints r" "dr_runs r1 = Suc (dr_runs r)"
    by (rule run_case_detailed_cases[OF r1]) blast
  obtain c p where st: "stored_run (dr_stores r1) res c p" by (rule agent_run_stored[OF evs assms(2)])
  obtain x b where pub: "bus_publish (dr_bus r) ''case.completed'' (completed_event (dr_stores r1) res c)
      (dr_outside r) = (x, b)" by (rule prod.exhaust)
  have "x = Inr ()" "r' = r1\<lparr>dr_outside := b\<rparr>"
    using assms(1) run_agent_unfold[OF r1 st] pub by (auto split: sum.splits)
  then show ?thesis using that[of evs c p] evs st eqs pub by simp
qed

section \<open>The default flow\<close>

lemma flow_result_stored:
  assumes "stored_run so res c p"
  shows "flow_result rx now req res so =
    (case report_or_built rx (ar_case_id res) c p so of
       (report, so') \<Rightarrow> (\<lparr>fr_case = c, fr_evidence_pack = p, fr_report = report, fr_tool_results = []\<rparr>, so'))"
  using assms by (simp add: flow_result_def case_or_fallback_def pack_or_fallback_def stored_run_def)

lemma report_or_built_stores:
  assumes "report_or_built rx i c p so = (report, so')"
  shows "so_cases so' = so_cases so" "so_evidence so' = so_evidence so"
    "(\<And>i t p. cp_case_id (rc_report rx i t p) = i) \<Longrightarrow> report_get (so_reports so') i = Some report"
  using assms by (auto simp: report_or_built_def Let_def report_get_def report_put_def split: option.splits)

lemma run_default_flow_unfold:
  assumes "run_agent_from_case_request rx req r = (Inr res, r1)" and "stored_run (dr_stores r1) res c p"
    and "report_or_built rx (ar_case_id res) c p (dr_stores r1) = (report, so)"
  shows "run_default_flow_from_case_request rx req r =
    (Inr \<lparr>fr_case = c, fr_evidence_pack = p, fr_report = report, fr_tool_results = []\<rparr>, r1\<lparr>dr_stores := so\<rparr>)"
  using assms by (simp add: run_default_flow_from_case_request_def seq_def flow_result_stored)

lemma run_default_flow_cases:
  assumes "run_default_flow_from_case_request rx req r = (Inr run, r')"
    and "inj (\<lambda>n. ac_case_id (lx_attempt (rc_loop rx (dr_runs r)) n))"
  obtains res r1 where "run_agent_from_case_request rx req r = (Inr res, r1)"
    "stored_run (dr_stores r1) res (fr_case run) (fr_evidence_pack run)"
    "report_or_built rx (ar_case_id res) (fr_case run) (fr_evidence_pack run) (dr_stores r1)
      = (fr_report run, dr_stores r')"
    "fr_tool_results run = []" "r' = r1\<lparr>dr_stores := dr_stores r'\<rparr>"
proof -
  obtain res r1 where r1: "run_agent_from_case_request rx req r = (Inr res, r1)"
    using assms(1) by (auto simp: run_default_flow_from_case_request_def seq_Inr_iff)
  obtain c p where st: "stored_run (dr_stores r1) res c p" by (rule run_agent_cases[OF r1 assms(2)])
  obtain report so where rep: "report_or_built rx (ar_case_id res) c p (dr_stores r1) = (report, so)"
    by (rule prod.exhaust)
  then have "run = \<lparr>fr_case = c, fr_evidence_pack = p, fr_report = report, fr_tool_results = []\<rparr>"
    "r' = r1\<lparr>dr_stores := so\<rparr>"
    using assms(1) run_default_flow_unfold[OF r1 st rep] by simp_all
  then show ?thesis using that[OF r1] st rep by simp
qed


section \<open>The event of a finished run\<close>

text \<open>
  An exception of a handler of \<open>case.completed\<close> escapes the run that published it: the case of the
  run is stored with its final status, but the caller gets the exception and not the result.
\<close>
theorem handler_error_loses_result:
  assumes "run_case_detailed rx req r = (Inr res, r1)"
    and "inj (\<lambda>n. ac_case_id (lx_attempt (rc_loop rx (dr_runs r)) n))"
    and "handlers_of (dr_bus r) ''case.completed'' = h # hs"
    and "\<And>payload b. fst (h payload b) = Inl e"
  shows "\<exists>r' c. run_agent_from_case_request rx req r = (Inl e, r')
    \<and> case_store_get (so_cases (dr_stores r')) (ar_case_id res) = Some c
    \<and> cr_status c = (if ar_status res = ''failed'' then Case_FAILED else Case_COMPLETED)"
proof -
  obtain evs where evs: "agent_run (rc_loop rx (dr_runs r)) req (dr_stores r) (dr_env r)
      = Inr (res, evs, dr_stores r1, dr_env r1)"
    by (rule run_case_detailed_cases[OF assms(1)])
  obtain c p where st: "stored_run (dr_stores r1) res c p" by (rule agent_run_stored[OF evs assms(2)])
  obtain b where "h (completed_event (dr_stores r1) res c) (dr_outside r) = (Inl e, b)"
    using assms(4) by (metis prod.collapse)
  then have "bus_publish (dr_bus r) ''case.completed'' (completed_event (dr_stores r1) res c) (dr_outside r)
      = (Inl e, b)"
    by (simp add: bus_publish_def assms(3) seq_def)
  then have "run_agent_from_case_request rx req r = (Inl e, r1\<lparr>dr_outside := b\<rparr>)"
    using run_agent_unfold[OF assms(1) st] by simp
  then show ?thesis using st by (auto simp: stored_run_def)
qed

section \<open>The checkpoint of a default flow\<close>

lemma build_trace_steps:
  assumes "build_execution_trace i case_id skill flow names (Some ss) = Inr t"
  shows "length (ex_steps t) = length ss" "ex_execution_id t = py_strip i" "ex_case_id t = py_strip case_id"
  using assms by (auto simp: build_execution_trace_def required_text_iff dest: map_res_Inr_length)

text \<open>
  A default flow that answers leaves a checkpoint under the identifier it answers: it holds the
  stored case's identifier, its final status and as many steps as the case has, and no other
  checkpoint is changed.
\<close>
theorem flow_checkpoint_saved:
  assumes "flow_run_default rx req r = (Inr x, r')"
    and "inj (\<lambda>n. ac_case_id (lx_attempt (rc_loop rx (dr_runs r)) n))"
  shows "checkpoint_get (dr_checkpoints r') (ex_execution_id (fx_trace x)) = Some (checkpoint_payload x (fx_status x))
    \<and> (\<forall>i. i \<noteq> ex_execution_id (fx_trace x)
          \<longrightarrow> checkpoint_get (dr_checkpoints r') i = checkpoint_get (dr_checkpoints r) i)
    \<and> (\<exists>id c. case_store_get (so_cases (dr_stores r')) id = Some c \<and> fx_case_id x = cr_case_id c
         \<and> fx_status x = case_status_value (cr_status c) \<and> fx_status x \<in> {''failed'', ''completed''}
         \<and> length (ex_steps (fx_trace x)) = length (cr_steps c))"
proof -
  obtain r2 where x: "execute_default rx req r = (Inr x, r2)"
    and r': "r' = save_checkpoint rx (ex_execution_id (fx_trace x)) (checkpoint_payload x (fx_status x)) r2"
    using assms(1) by (auto simp: flow_run_default_def seq_Inr_iff eff_defs)
  obtain run where run: "run_default_flow_from_case_request rx req r = (Inr run, r2)"
    and t: "build_execution_trace (rc_exec_id rx (dr_runs r2)) (cr_case_id (fr_case run)) (first_skill (fr_case run))
            default_flow_id None (Some (cr_steps (fr_case run))) = Inr (fx_trace x)"
    and xs: "fx_case_id x = cr_case_id (fr_case run)" "fx_status x = case_status_value (cr_status (fr_case run))"
    using x by (auto simp: execute_default_def seq_Inr_iff eff_defs)
  obtain res r1 where r1: "run_agent_from_case_request rx req r = (Inr res, r1)"
    and st: "stored_run (dr_stores r1) res (fr_case run) (fr_evidence_pack run)"
    and rep: "report_or_built rx (ar_case_id res) (fr_case run) (fr_evidence_pack run) (dr_stores r1)
      = (fr_report run, dr_stores r2)"
    and r2: "r2 = r1\<lparr>dr_stores := dr_stores r2\<rparr>"
    by (rule run_default_flow_cases[OF run assms(2)]) blast
  have "dr_checkpoints r1 = dr_checkpoints r" by (rule run_agent_cases[OF r1 assms(2)])
  then have "dr_checkpoints r2 = dr_checkpoints r" using r2 by (metis dev_runtime.select_convs(3) dev_runtime.surjective dev_runtime.update_convs(1))
  then have "checkpoint_get (dr_checkpoints r') (ex_execution_id (fx_trace x)) = Some (checkpoint_payload x (fx_status x))"
    "\<forall>i. i \<noteq> ex_execution_id (fx_trace x) \<longrightarrow> checkpoint_get (dr_checkpoints r') i = checkpoint_get (dr_checkpoints r) i"
    by (simp_all add: r' save_checkpoint_def checkpoint_save_get, simp add: checkpoint_get_def checkpoint_save_def Let_def)
  moreover have "case_store_get (so_cases (dr_stores r')) (ar_case_id res) = Some (fr_case run)"
    "fx_status x \<in> {''failed'', ''completed''}"
    using st report_or_built_stores(1)[OF rep] xs(2) by (auto simp: r' save_checkpoint_def stored_run_def)
  ultimately show ?thesis using xs build_trace_steps(1)[OF t] by blast
qed

section \<open>A concrete runtime\<close>

text \<open>Without a skill no case finds a playbook, so that its one attempt fails.\<close>

definition demo_bare_loop :: "nat loop_ctx" where
  "demo_bare_loop = demo_loop\<lparr>lx_skills := \<lparr>pb_registry = new_skill_registry, pb_overlay = new_skill_overlay\<rparr>,
     lx_max_attempts := 1\<rparr>"

definition demo_runtime_ctx :: "nat runtime_ctx" where
  "demo_runtime_ctx =
     \<lparr>rc_loop = (\<lambda>_. demo_bare_loop), rc_raised = (\<lambda>_ _ x. x),
      rc_report = (\<lambda>i t p. \<lparr>cp_case_id = i, cp_title = t, cp_summary = [], cp_root_cause = None,
        cp_evidence_item_ids = [], cp_metadata = []\<rparr>),
      rc_json = (\<lambda>_. None), rc_now = int, rc_exec_id = (\<lambda>n. ''exec-'' @ nat_str n)\<rparr>"

definition demo_runtime :: "unit event_bus \<Rightarrow> (nat, unit) dev_runtime" where
  "demo_runtime bus =
     \<lparr>dr_stores = demo_stores, dr_env = demo_agent_env, dr_checkpoints = [], dr_bus = bus, dr_outside = (),
      dr_presence = [], dr_node_id = ''node'', dr_agent_flow_enabled = False, dr_runs = 0\<rparr>"

lemma demo_bus: "dr_bus (demo_runtime bus) = bus"
  by (simp add: demo_runtime_def)

lemma demo_ids: "inj (\<lambda>n. ac_case_id (lx_attempt (rc_loop demo_runtime_ctx k) n))"
  using demo_case_ids by (simp add: demo_runtime_ctx_def demo_bare_loop_def)

text \<open>What such a run leaves, for every request.\<close>

lemma no_playbook_attempt:
  assumes "resolve_playbook (lx_skills lx) req = Inl (SkillError code msg)"
  obtains a where "run_once lx n req prior so e
      = Inr (a, persist_failed_case (lx_attempt lx n) req code msg None so, e)"
    "at_status a = ''failed''" "at_case_id a = ac_case_id (lx_attempt lx n)"
  using assms that by (simp add: run_once_def Let_def failed_attempt_def fail_attempt_def)

lemma one_attempt_run:
  assumes "max_attempts lx = 1" and "run_once lx 0 req [] so (snd (emit_started lx req e)) = Inr (a, so', e1)"
    and "at_status a = ''failed''"
  obtains res evs e' where "agent_run lx req so e = Inr (res, evs, so', e')"
    "ar_case_id res = at_case_id a" "ar_status res = ''failed''"
proof -
  obtain res where res: "run_result lx [a] = Inr res" "ar_case_id res = at_case_id a" "ar_status res = ''failed''"
    using assms(3) by (simp add: run_result_def)
  obtain st where st: "run_attempts 1 lx req [] so (emit_started lx req e) = Inr ([a], so', st)"
    using assms(2,3) by (simp add: numeral_eq_Suc Let_def)
  obtain evs e' where f: "emit_finished lx res st = (evs, e')" by (rule prod.exhaust)
  then have stream: "run_stream lx req so e = Inr (evs, so', e')"
    unfolding run_stream_def assms(1) st by (simp add: res(1))
  have "results_of (fst st) = []"
    using run_attempts_ok[OF st] by (simp add: emit_started_def emit_results)
  then have "results_of evs = [res]"
    using emit_finished_events[of lx res st] f by (metis append_self_conv2 fst_conv option.simps(5) results_of_simps(2,3))
  then have "agent_run lx req so e = Inr (res, evs, so', e')"
    using stream by (simp add: agent_run_def results_of_def)
  with res show ?thesis using that by blast
qed

lemma bare_playbook: "resolve_playbook (lx_skills demo_bare_loop) req
    = Inl (SkillError ''SKILL_DEFAULT_UNAVAILABLE'' ''no enabled playbook available'')"
proof -
  have "usable_playbook (lx_skills demo_bare_loop) n = None" for n
    by (simp add: usable_playbook_def demo_bare_loop_def skill_get_def new_skill_registry_def)
  then have "first_usable (lx_skills demo_bare_loop) seen ns = None" for seen ns
    by (induction ns arbitrary: seen) simp_all
  then show ?thesis by (simp add: resolve_playbook_def)
qed

lemma bare_agent_run:
  obtains res evs e' where "agent_run demo_bare_loop req so e
      = Inr (res, evs, persist_failed_case (lx_attempt demo_bare_loop 0) req
           ''SKILL_DEFAULT_UNAVAILABLE'' ''no enabled playbook available'' None so, e')"
    "ar_case_id res = ''case-''" "ar_status res = ''failed''"
proof -
  have one: "max_attempts demo_bare_loop = 1" by (simp add: max_attempts_def demo_bare_loop_def)
  obtain a where a: "run_once demo_bare_loop 0 req [] so (snd (emit_started demo_bare_loop req e))
      = Inr (a, persist_failed_case (lx_attempt demo_bare_loop 0) req
           ''SKILL_DEFAULT_UNAVAILABLE'' ''no enabled playbook available'' None so, snd (emit_started demo_bare_loop req e))"
    "at_status a = ''failed''" "at_case_id a = ac_case_id (lx_attempt demo_bare_loop 0)"
    by (rule no_playbook_attempt[OF bare_playbook])
  have "ac_case_id (lx_attempt demo_bare_loop 0) = ''case-''"
    by (simp add: demo_bare_loop_def demo_loop_def demo_agent_attempt_def)
  with a show ?thesis using one_attempt_run[OF one a(1,2)] that by metis
qed

lemma bare_stored:
  "stored_run (persist_failed_case (lx_attempt demo_bare_loop 0) req code msg None so) res
     (failed_case ''case-'' 0 req code msg None) \<lparr>ep_case_id = ''case-'', ep_items = [], ep_summary = msg\<rparr>"
  if "ar_case_id res = ''case-''" "ar_status res = ''failed''"
  using that by (simp add: stored_run_def persist_failed_case_def Let_def demo_bare_loop_def demo_loop_def
      demo_agent_attempt_def case_store_get_def case_store_put_def evidence_get_pack_def evidence_put_pack_def
      failed_case_def)

lemma bare_default_flow:
  assumes "dr_bus w = []"
  obtains run w' where "run_default_flow_from_case_request demo_runtime_ctx req w = (Inr run, w')" "dr_bus w' = []"
    "fr_case run = failed_case ''case-'' 0 req ''SKILL_DEFAULT_UNAVAILABLE'' ''no enabled playbook available'' None"
proof -
  obtain res evs e' where run: "agent_run demo_bare_loop req (dr_stores w) (dr_env w)
      = Inr (res, evs, persist_failed_case (lx_attempt demo_bare_loop 0) req
           ''SKILL_DEFAULT_UNAVAILABLE'' ''no enabled playbook available'' None (dr_stores w), e')"
    "ar_case_id res = ''case-''" "ar_status res = ''failed''"
    by (rule bare_agent_run)
  let ?so = "persist_failed_case (lx_attempt demo_bare_loop 0) req
      ''SKILL_DEFAULT_UNAVAILABLE'' ''no enabled playbook available'' None (dr_stores w)"
  let ?c = "failed_case ''case-'' 0 req ''SKILL_DEFAULT_UNAVAILABLE'' ''no enabled playbook available'' None"
  let ?p = "\<lparr>ep_case_id = ''case-'', ep_items = [], ep_summary = ''no enabled playbook available''\<rparr>"
  let ?r1 = "w\<lparr>dr_stores := ?so, dr_env := e', dr_runs := Suc (dr_runs w)\<rparr>"
  have d: "run_case_detailed demo_runtime_ctx req w = (Inr res, ?r1)"
    using run(1) by (simp add: run_case_detailed_def demo_runtime_ctx_def Let_def)
  have st: "stored_run (dr_stores ?r1) res ?c ?p" using bare_stored[OF run(2,3)] by simp
  have a: "run_agent_from_case_request demo_runtime_ctx req w = (Inr res, ?r1)"
    using run_agent_unfold[OF d st] assms by (simp add: bus_publish_def handlers_of_def seq_def give_def)
  obtain report so where rep: "report_or_built demo_runtime_ctx (ar_case_id res) ?c ?p (dr_stores ?r1) = (report, so)"
    by (rule prod.exhaust)
  show ?thesis using that[OF run_default_flow_unfold[OF a st rep]] assms by simp
qed

lemma demo_detailed:
  obtains res r1 where "run_case_detailed demo_runtime_ctx demo_case_request (demo_runtime bus) = (Inr res, r1)"
    "ar_case_id res = ''case-''"
proof -
  obtain res evs e' where
    "agent_run demo_bare_loop demo_case_request demo_stores demo_agent_env
      = Inr (res, evs, persist_failed_case (lx_attempt demo_bare_loop 0) demo_case_request
           ''SKILL_DEFAULT_UNAVAILABLE'' ''no enabled playbook available'' None demo_stores, e')"
    "ar_case_id res = ''case-''"
    by (rule bare_agent_run)
  then show ?thesis using that by (simp add: run_case_detailed_def demo_runtime_def demo_runtime_ctx_def)
qed

lemma demo_agent:
  obtains res r1 where "run_agent_from_case_request demo_runtime_ctx demo_case_request (demo_runtime []) = (Inr res, r1)"
    "ar_case_id res = ''case-''"
proof -
  obtain res r1 where r1: "run_case_detailed demo_runtime_ctx demo_case_request (demo_runtime []) = (Inr res, r1)"
    and id: "ar_case_id res = ''case-''"
    by (rule demo_detailed)
  obtain evs where evs: "agent_run (rc_loop demo_runtime_ctx (dr_runs (demo_runtime []))) demo_case_request
      (dr_stores (demo_runtime [])) (dr_env (demo_runtime [])) = Inr (res, evs, dr_stores r1, dr_env r1)"
    by (rule run_case_detailed_cases[OF r1])
  obtain c p where "stored_run (dr_stores r1) res c p" by (rule agent_run_stored[OF evs demo_ids])
  from run_agent_unfold[OF r1 this] show ?thesis using that id
    by (simp add: demo_runtime_def bus_publish_def handlers_of_def seq_def give_def)
qed


theorem handler_error_loses_result_witness:
  "\<exists>r'. run_agent_from_case_request demo_runtime_ctx demo_case_request
      (demo_runtime [(''case.completed'', [\<lambda>_ b. (Inl (OtherError ''ConnectionError''), b)])])
    = (Inl (OtherError ''ConnectionError''), r')
    \<and> case_store_get (so_cases (dr_stores r')) ''case-'' \<noteq> None"
proof -
  let ?h = "\<lambda>_ b. (Inl (OtherError ''ConnectionError''), b)"
  let ?r = "demo_runtime [(''case.completed'', [?h])]"
  obtain res r1 where r1: "run_case_detailed demo_runtime_ctx demo_case_request ?r = (Inr res, r1)"
    and id: "ar_case_id res = ''case-''"
    by (rule demo_detailed)
  show ?thesis
    using handler_error_loses_result[OF r1 demo_ids, of ?h "[]" "OtherError ''ConnectionError''"] id
    by (auto simp: demo_runtime_def handlers_of_def)
qed

lemma demo_trace:
  "\<exists>t. build_execution_trace (rc_exec_id demo_runtime_ctx n) ''case-'' ''unknown'' default_flow_id None (Some []) = Inr t"
proof -
  have "required_text (rc_exec_id demo_runtime_ctx n) = Inr (py_strip (''exec-'' @ nat_str n))"
    by (simp add: required_text_def demo_runtime_ctx_def py_strip_def is_space_def)
  moreover have "required_text ''case-'' = Inr ''case-''" "required_text ''unknown'' = Inr ''unknown''" by code_simp+
  ultimately show ?thesis by (simp add: build_execution_trace_def)
qed

lemma demo_flow_run:
  obtains x r' where "flow_run_default demo_runtime_ctx demo_case_request (demo_runtime []) = (Inr x, r')"
    "fx_status x = ''failed''"
proof -
  obtain run w' where run: "run_default_flow_from_case_request demo_runtime_ctx demo_case_request (demo_runtime [])
      = (Inr run, w')" and "dr_bus w' = []"
    and c: "fr_case run = failed_case ''case-'' 0 demo_case_request ''SKILL_DEFAULT_UNAVAILABLE''
      ''no enabled playbook available'' None"
    by (rule bare_default_flow[OF demo_bus])
  obtain t where "build_execution_trace (rc_exec_id demo_runtime_ctx (dr_runs w')) (cr_case_id (fr_case run))
      (first_skill (fr_case run)) default_flow_id None (Some (cr_steps (fr_case run))) = Inr t"
    using demo_trace by (auto simp: c failed_case_def first_skill_def)
  then show ?thesis using that run
    by (simp add: flow_run_default_def execute_default_def seq_def eff_defs c failed_case_def)
qed

theorem flow_checkpoint_saved_witness:
  "\<exists>x r'. flow_run_default demo_runtime_ctx demo_case_request (demo_runtime []) = (Inr x, r')
     \<and> checkpoint_get (dr_checkpoints r') (ex_execution_id (fx_trace x)) = Some (checkpoint_payload x ''failed'')"
proof -
  obtain x r' where x: "flow_run_default demo_runtime_ctx demo_case_request (demo_runtime []) = (Inr x, r')"
    and "fx_status x = ''failed''"
    by (rule demo_flow_run)
  then show ?thesis using flow_checkpoint_saved[OF x demo_ids] by auto
qed

end
