(* ===== verification/ReplayFacts.thy ===== *)
theory ReplayFacts
  imports Replay RuntimeFacts
begin

text \<open>
  What a replayed suite leaves: every case is run as often as asked and its runs are appended to its
  history; and why the suite's quality gate can never pass on the runtime.
\<close>

section \<open>The store\<close>

definition replay_wf :: "replay_store \<Rightarrow> bool" where
  "replay_wf d \<longleftrightarrow> distinct (dkeys d)
     \<and> (\<forall>(k, h) \<in> set d. rp_replay_id (rh_case h) = k \<and> k \<noteq> [] \<and> stripped k)"

lemma replay_wf_Nil [simp]: "replay_wf []"
  by (simp add: replay_wf_def)

lemma replay_wf_put:
  "replay_wf d \<Longrightarrow> rp_replay_id (rh_case h) = k \<Longrightarrow> k \<noteq> [] \<Longrightarrow> stripped k \<Longrightarrow> replay_wf (dput k h d)"
  using set_dput[of k h d] unfolding replay_wf_def by fastforce

lemma replay_wf_get: "replay_wf d \<Longrightarrow> dget d k = Some h \<Longrightarrow> rp_replay_id (rh_case h) = k \<and> k \<noteq> [] \<and> stripped k"
  by (auto simp: replay_wf_def dest!: map_of_SomeD)

lemma replay_wf_upsert:
  "replay_wf d \<Longrightarrow> rp_replay_id c \<noteq> [] \<Longrightarrow> stripped (rp_replay_id c) \<Longrightarrow> replay_wf (upsert_case c d)"
  by (auto simp: upsert_case_def intro!: replay_wf_put split: option.splits)

lemma replay_wf_load:
  "replay_wf d \<Longrightarrow> \<forall>c \<in> set cs. rp_replay_id c \<noteq> [] \<and> stripped (rp_replay_id c) \<Longrightarrow> replay_wf (load_cases cs d)"
  unfolding load_cases_def by (induction cs arbitrary: d) (auto simp: replay_wf_upsert)

lemma list_cases_ids: "replay_wf d \<Longrightarrow> map rp_replay_id (list_cases d) = dkeys d"
  unfolding list_cases_def replay_wf_def by (induction d) auto

lemma get_runs_put: "get_runs (dput k h d) i = (if i = k then rh_runs h else get_runs d i)"
  by (simp add: get_runs_def)

lemma add_run_ok:
  assumes "replay_wf d" and "add_run s d = Inr d'"
  shows "replay_wf d'" "list_cases d' = list_cases d"
    "get_runs d' i = get_runs d i @ (if sp_replay_id s = i then [s] else [])"
proof -
  obtain h where h: "dget d (sp_replay_id s) = Some h"
    and d': "d' = dput (sp_replay_id s) (h\<lparr>rh_runs := rh_runs h @ [s]\<rparr>) d"
    using assms(2) by (auto simp: add_run_def split: option.splits)
  show "replay_wf d'" using assms(1) replay_wf_get[OF assms(1) h] by (simp add: d' replay_wf_put)
  show "get_runs d' i = get_runs d i @ (if sp_replay_id s = i then [s] else [])"
    using h by (simp add: d' get_runs_put) (simp add: get_runs_def)
  have "distinct (dkeys e) \<Longrightarrow> dget e k = Some h \<Longrightarrow> list_cases (dput k (h\<lparr>rh_runs := y\<rparr>) e) = list_cases e" for e k y
    by (induction e) (auto simp: list_cases_def)
  then show "list_cases d' = list_cases d" using assms(1) h by (simp add: d' replay_wf_def)
qed

section \<open>The course of a suite\<close>

text \<open>
  From one state to a later one: the snapshots taken are the runs appended, each to the history of
  its case, and \<open>ids\<close> are their cases in order.
\<close>

definition suite_step :: "string list \<Rightarrow> 'w suite_state \<Rightarrow> 'w suite_state \<Rightarrow> bool" where
  "suite_step ids su su' \<longleftrightarrow> replay_wf (su_store su) \<longrightarrow>
     replay_wf (su_store su') \<and> list_cases (su_store su') = list_cases (su_store su)
     \<and> (\<exists>new. su_snapshots su' = su_snapshots su @ new \<and> map sp_replay_id new = ids
          \<and> su_metrics su' = su_metrics su @ map sp_metrics new
          \<and> (\<forall>i. get_runs (su_store su') i
               = get_runs (su_store su) i @ filter (\<lambda>s. sp_replay_id s = i) new))"

lemma suite_step_refl: "suite_step [] su su"
  by (auto simp: suite_step_def)

lemma suite_step_trans: "suite_step xs su su1 \<Longrightarrow> suite_step ys su1 su2 \<Longrightarrow> suite_step (xs @ ys) su su2"
  unfolding suite_step_def by (elim impCE exE conjE; force)

lemma run_case_once_step:
  assumes "run_case_once rx c su = (Inr (m, i), su')" and "stripped (rp_replay_id c)"
  shows "suite_step [rp_replay_id c] su su'"
proof -
  obtain run w t snap d where
    snap: "snapshot_of c run (rx_run_id rx (su_count su)) m = Inr snap"
    and d: "add_run snap (su_store su) = Inr d"
    and su': "su' = su\<lparr>su_count := Suc (su_count su), su_world := w, su_metrics := su_metrics su @ [m],
      su_traces := su_traces su @ [t], su_snapshots := su_snapshots su @ [snap], su_store := d\<rparr>"
    using assms(1) by (auto simp: run_case_once_def Let_def split: prod.splits sum.splits)
  have "sp_replay_id snap = rp_replay_id c" "sp_metrics snap = m"
    using snap assms(2) by (auto simp: snapshot_of_def make_snapshot_def required_text_iff py_strip_stripped)
  then show ?thesis using add_run_ok[OF _ d] by (auto simp: suite_step_def su' intro!: exI[of _ "[snap]"])
qed

lemma seq_map_suite:
  assumes "seq_map f xs su = (Inr ys, su')"
    and "\<And>x s y s'. x \<in> set xs \<Longrightarrow> f x s = (Inr y, s') \<Longrightarrow> suite_step (ids x) s s'"
  shows "suite_step (concat (map ids xs)) su su'"
  using assms
proof (induction xs arbitrary: su ys)
  case Nil
  then show ?case by (simp add: give_def suite_step_refl)
next
  case (Cons x xs)
  from Cons.prems(1) obtain y s1 zs where y: "f x su = (Inr y, s1)" and zs: "seq_map f xs s1 = (Inr zs, su')"
    by (auto simp: seq_Inr_iff give_def)
  have "suite_step (concat (map ids xs)) s1 su'"
    by (rule Cons.IH[OF zs]) (rule Cons.prems(2), simp_all)
  moreover have "suite_step (ids x) su s1" by (rule Cons.prems(2)[OF _ y]) simp
  ultimately show ?case using suite_step_trans by fastforce
qed

lemma run_case_repeatedly_step:
  assumes "run_case_repeatedly rx n c su = (Inr y, su')" and "stripped (rp_replay_id c)"
  shows "suite_step (replicate n (rp_replay_id c)) su su'"
proof -
  obtain runs where "seq_map (\<lambda>_. run_case_once rx c) [0..<n] su = (Inr runs, su')"
    using assms(1) by (auto simp: run_case_repeatedly_def seq_Inr_iff give_def)
  from seq_map_suite[OF this, of "\<lambda>_. [rp_replay_id c]"]
  have "suite_step (concat (map (\<lambda>_. [rp_replay_id c]) [0..<n])) su su'"
    using run_case_once_step[OF _ assms(2)] by (metis prod.collapse)
  moreover have "concat (map (\<lambda>_. [rp_replay_id c]) [0..<n]) = replicate n (rp_replay_id c)"
    by (induction n) (simp_all add: replicate_append_same)
  ultimately show ?thesis by simp
qed

lemma run_suite_cases:
  assumes "run_suite rx name k su = (Inr rep, su')"
  obtains summaries where "1 \<le> k"
    "seq_map (run_case_repeatedly rx (nat k)) (list_cases (su_store su)) su = (Inr summaries, su')"
    "rep = build_evaluation_report (rx_report_id rx (su_count su')) name (length (list_cases (su_store su)))
       (aggregate_suite_metrics (su_metrics su'))
       (evaluate_quality_gate (aggregate_suite_metrics (su_metrics su')) (rx_policy rx)) summaries"
  using assms unfolding run_suite_def
  by (cases "k < 1") (auto simp: seq_Inr_iff eff_defs Let_def)

text \<open>
  C19: A suite that ends has run its cases in the store's order, each as often as asked; every run is
  appended to the history of its case, and the report counts the cases and judges the mean of the
  metrics of exactly these runs.
\<close>
theorem suite_runs_every_case:
  assumes "run_suite rx name k (new_suite w d n) = (Inr rep, su)" and "replay_wf d"
  shows "map sp_replay_id (su_snapshots su)
      = concat (map (\<lambda>c. replicate (nat k) (rp_replay_id c)) (list_cases d))
    \<and> (\<forall>i. get_runs (su_store su) i = get_runs d i @ filter (\<lambda>s. sp_replay_id s = i) (su_snapshots su))
    \<and> list_cases (su_store su) = list_cases d
    \<and> er_case_count rep = length (list_cases d)
    \<and> er_aggregate_metrics rep = aggregate_suite_metrics (map sp_metrics (su_snapshots su))"
proof -
  obtain summaries where
    run: "seq_map (run_case_repeatedly rx (nat k)) (list_cases d) (new_suite w d n) = (Inr summaries, su)"
    and rep: "er_case_count rep = length (list_cases d)"
      "er_aggregate_metrics rep = aggregate_suite_metrics (su_metrics su)"
    by (rule run_suite_cases[OF assms(1)]) (simp add: new_suite_def build_evaluation_report_def)
  have strip: "stripped (rp_replay_id c)" if "c \<in> set (list_cases d)" for c
    using that assms(2) by (auto simp: list_cases_def replay_wf_def)
  have "suite_step (concat (map (\<lambda>c. replicate (nat k) (rp_replay_id c)) (list_cases d))) (new_suite w d n) su"
    by (rule seq_map_suite[OF run]) (rule run_case_repeatedly_step, assumption, rule strip)
  then show ?thesis using assms(2) rep by (auto simp: suite_step_def new_suite_def)
qed

text \<open>A run that can be traced: its texts are those the trace and the snapshot require.\<close>

definition traceable :: "flow_run_result \<Rightarrow> bool" where
  "traceable run \<longleftrightarrow>
     (\<exists>steps. map_res step_trace (cr_steps (fr_case run)) = Inr steps)
     \<and> py_strip (cr_case_id (fr_case run)) \<noteq> [] \<and> py_strip (first_skill (fr_case run)) \<noteq> []"

lemma default_flow_id_text: "py_strip default_flow_id \<noteq> []"
  by code_simp

lemma run_case_once_answers:
  assumes "rx_run rx (rp_alert_payload c) (su_world su) = (Inr run, w)" and "traceable run"
    and "replay_wf (su_store su)" and "c \<in> set (list_cases (su_store su))"
    and "py_strip (rx_run_id rx (su_count su)) \<noteq> []"
  shows "\<exists>y su'. run_case_once rx c su = (Inr y, su') \<and> su_world su' = w"
proof -
  obtain h where h: "(rp_replay_id c, h) \<in> set (su_store su)"
    using assms(3,4) by (auto simp: list_cases_def replay_wf_def)
  then have get: "dget (su_store su) (rp_replay_id c) = Some h" and id: "stripped (rp_replay_id c)" "rp_replay_id c \<noteq> []"
    using assms(3) by (auto simp: replay_wf_def)
  obtain t where "to_case_execution_trace run (rx_run_id rx (su_count su)) = Inr t"
    using assms(2) by (auto simp: to_case_execution_trace_def traceable_def required_text_def)
  moreover obtain snap where "snapshot_of c run (rx_run_id rx (su_count su)) (evaluate_run_metrics (rx_corpus rx) c run) = Inr snap"
    "sp_replay_id snap = rp_replay_id c"
    using assms(2,5) id default_flow_id_text
    by (auto simp: snapshot_of_def make_snapshot_def traceable_def required_text_def py_strip_stripped)
  ultimately show ?thesis using assms(1) get by (simp add: run_case_once_def add_run_def Let_def)
qed

lemma suite_ends:
  assumes "1 \<le> k" and "replay_wf d" and "\<And>n. py_strip (rx_run_id rx n) \<noteq> []" and "J w"
    and "\<And>c w. c \<in> set (list_cases d) \<Longrightarrow> J w
      \<Longrightarrow> \<exists>run w'. rx_run rx (rp_alert_payload c) w = (Inr run, w') \<and> J w' \<and> traceable run"
  shows "\<exists>rep su. run_suite rx name k (new_suite w d n) = (Inr rep, su)"
proof -
  let ?I = "\<lambda>su. replay_wf (su_store su) \<and> list_cases (su_store su) = list_cases d \<and> J (su_world su)"
  have once: "\<exists>y su'. run_case_once rx c su = (Inr y, su') \<and> ?I su'" if c: "c \<in> set (list_cases d)" and su: "?I su" for c su
  proof -
    obtain run w' where w': "rx_run rx (rp_alert_payload c) (su_world su) = (Inr run, w')" "traceable run" "J w'"
      using assms(5) c su by blast
    from run_case_once_answers[OF w'(1,2)] obtain m i su' where r: "run_case_once rx c su = (Inr (m, i), su')"
      and "su_world su' = w'"
      using c su assms(3) by auto
    moreover have "stripped (rp_replay_id c)" using c assms(2) by (auto simp: list_cases_def replay_wf_def)
    ultimately show ?thesis using run_case_once_step[OF r] su w'(3) by (auto simp: suite_step_def)
  qed
  have "\<exists>y su'. run_case_repeatedly rx (nat k) c su = (Inr y, su') \<and> ?I su'" if "c \<in> set (list_cases d)" "?I su" for c su
    using seq_map_answers[of ?I su "[0..<nat k]" "\<lambda>_. run_case_once rx c"] once[OF that(1)] that(2)
    by (auto simp: run_case_repeatedly_def seq_give)
  then obtain ys su where "seq_map (run_case_repeatedly rx (nat k)) (list_cases d) (new_suite w d n) = (Inr ys, su)"
    using seq_map_answers[of ?I "new_suite w d n" "list_cases d" "run_case_repeatedly rx (nat k)"] assms(2,4)
    by (auto simp: new_suite_def)
  then show ?thesis using assms(1) by (simp add: run_suite_def seq_def look_def new_suite_def Let_def)
qed

text \<open>
  A suite ends with a report whenever every run of its cases answers with a case that can be traced,
  where \<open>J\<close> is what the runs keep of the runtime.
\<close>
theorem suite_answers:
  assumes "1 \<le> k" and "replay_wf d" and "\<And>n. py_strip (rx_run_id rx n) \<noteq> []" and "J w"
    and "\<And>c w. c \<in> set (list_cases d) \<Longrightarrow> J w
      \<Longrightarrow> \<exists>run w'. rx_run rx (rp_alert_payload c) w = (Inr run, w') \<and> J w' \<and> traceable run"
  shows "\<exists>rep su. run_suite rx name k (new_suite w d n) = (Inr rep, su)"
  by (rule suite_ends[OF assms])

section \<open>The gate of a runtime whose runs report no tool results\<close>

lemma unaudited_metric:
  "fr_tool_results run = [] \<Longrightarrow> metric_or (evaluate_run_metrics corpus c run) ''audit_completeness'' 0 = 0"
  by (simp add: evaluate_run_metrics_def Let_def metric_or_def indicator_rat_def)

lemma run_case_once_metrics:
  assumes "run_case_once rx c su = (r, su')"
  shows "su_metrics su' = su_metrics su
    \<or> (\<exists>run w. rx_run rx (rp_alert_payload c) (su_world su) = (Inr run, w)
         \<and> su_metrics su' = su_metrics su @ [evaluate_run_metrics (rx_corpus rx) c run])"
proof -
  obtain x w where x: "rx_run rx (rp_alert_payload c) (su_world su) = (x, w)" by (rule prod.exhaust)
  show ?thesis
  proof (cases x)
    case (Inl e)
    then have "su_metrics su' = su_metrics su" using assms x by (auto simp: run_case_once_def Let_def)
    then show ?thesis ..
  next
    case (Inr run)
    have "su_metrics su' = su_metrics su @ [evaluate_run_metrics (rx_corpus rx) c run]"
      using assms x Inr
      by (cases "to_case_execution_trace run (rx_run_id rx (su_count su))";
          cases "snapshot_of c run (rx_run_id rx (su_count su)) (evaluate_run_metrics (rx_corpus rx) c run)")
        (auto simp: run_case_once_def Let_def split: sum.splits)
    then show ?thesis using x Inr by blast
  qed
qed

definition unaudited :: "'w suite_state \<Rightarrow> bool" where
  "unaudited su \<longleftrightarrow> (\<forall>m \<in> set (su_metrics su). metric_or m ''audit_completeness'' 0 = 0)"

locale toolless_runtime =
  fixes rx :: "'w replay_ctx"
  assumes no_results: "rx_run rx payload w = (Inr run, w') \<Longrightarrow> fr_tool_results run = []"
    and default_policy: "rx_policy rx = default_gate_policy"
begin

lemma run_unaudited:
  assumes "run_case_once rx c su = (r, su')" and "unaudited su"
  shows "unaudited su'"
proof -
  have "metric_or (evaluate_run_metrics (rx_corpus rx) c run) ''audit_completeness'' 0 = 0"
    if "rx_run rx (rp_alert_payload c) (su_world su) = (Inr run, w)" for run w
    using no_results[OF that] by (simp add: unaudited_metric)
  then show ?thesis using assms(2) run_case_once_metrics[OF assms(1)] by (elim disjE exE conjE) (simp_all add: unaudited_def)
qed

lemma repeat_unaudited:
  assumes "run_case_repeatedly rx n c su = (r, su')" and "unaudited su"
  shows "unaudited su'"
proof -
  have "seq_map (\<lambda>_. run_case_once rx c) [0..<n] su
      = (fst (seq_map (\<lambda>_. run_case_once rx c) [0..<n] su), su')"
    using assms(1) by (simp add: run_case_repeatedly_def seq_give prod_eq_iff)
  then show ?thesis using assms(2) by (rule seq_map_rule[where I = unaudited]) (rule run_unaudited)
qed

lemma gate_never_passes:
  assumes "run_suite rx name k (new_suite w d n) = (Inr rep, su)"
  shows "\<not> er_gate_passed rep \<and> \<not> er_release_allowed rep \<and> er_gate_reasons rep \<noteq> []"
proof -
  obtain summaries where
    run: "seq_map (run_case_repeatedly rx (nat k)) (list_cases d) (new_suite w d n) = (Inr summaries, su)"
    and rep: "rep = build_evaluation_report (rx_report_id rx (su_count su)) name (length (list_cases d))
      (aggregate_suite_metrics (su_metrics su))
      (evaluate_quality_gate (aggregate_suite_metrics (su_metrics su)) (rx_policy rx)) summaries"
    by (rule run_suite_cases[OF assms]) (simp add: new_suite_def)
  let ?m = "aggregate_suite_metrics (su_metrics su)"
  let ?g = "evaluate_quality_gate ?m (rx_policy rx)"
  have "unaudited su"
    by (rule seq_map_rule[where I = unaudited, OF run])
      (simp add: unaudited_def new_suite_def, rule repeat_unaudited)
  then have "metric_or ?m ''audit_completeness'' 0 = 0"
    using aggregate_metric[of "su_metrics su" "''audit_completeness''"]
      mean_const[of "map (\<lambda>m. metric_or m ''audit_completeness'' 0) (su_metrics su)" 0]
    by (cases "su_metrics su = []") (simp_all add: unaudited_def, simp add: aggregate_suite_metrics_def metric_or_def)
  then have "\<not> gr_passed ?g" unfolding gate_passes_min[of ?m] default_policy
    by (auto simp: default_gate_policy_def)
  moreover have "gr_blocking ?g" by (simp add: gate_result_of_gate default_policy default_gate_policy_def)
  ultimately show ?thesis
    by (simp add: rep build_evaluation_report_def release_allowed_def gate_result_of_gate)
qed

end

lemma default_flow_toolless:
  "run_default_flow_from_payload rx payload w = (Inr run, w') \<Longrightarrow> fr_tool_results run = []"
  by (auto simp: run_default_flow_from_payload_def run_default_flow_from_case_request_def seq_Inr_iff
      lift_res_def flow_result_def split_beta)

interpretation toolless: toolless_runtime "runtime_replay rx corpus run_id report_id"
  for rx corpus run_id report_id
  by unfold_locales (auto simp: runtime_replay_def dest: default_flow_toolless)

text \<open>
  On the runtime no suite ever passes the default gate, and its release is never allowed, whatever
  its runs did: the default flow reports no tool results, so the completeness of the audit is zero.
\<close>
theorem replay_gate_never_passes:
  assumes "run_suite (runtime_replay rx corpus run_id report_id) name k (new_suite w d n) = (Inr rep, su)"
  shows "\<not> er_gate_passed rep \<and> \<not> er_release_allowed rep \<and> er_gate_reasons rep \<noteq> []"
  by (rule toolless.gate_never_passes[OF assms])

section \<open>The benchmark\<close>

lemma benchmark_request:
  assumes "service \<in> {''order-service'', ''api-gateway''}" and "stripped trace" "trace \<noteq> []"
  shows "webhook_payload_to_case_create json_loads (rp_alert_payload (benchmark_case (i, service, trace, cause)))
    = Inr \<lparr>cq_title = service @ '' 5xx spike'', cq_symptom = ''error ratio high'', cq_service_name = service,
         cq_source = ''replay-benchmark'',
         cq_metadata = [(''source'', PStr ''replay-benchmark''), (''trace_id'', PStr trace), (''tenant'', PStr ''demo''),
           (''environment'', PStr ''prod''), (''severity'', PStr ''warning''), (''team'', PStr ''unknown'')]\<rparr>"
proof -
  have "unwrap_embedded_log_text json_loads (PStr ''error ratio high'') = ''error ratio high''"
    by (rule unwrap_plain) code_simp+
  moreover have "\<not> is_placeholder_service_name (PStr service)" "py_strip service = service"
    "py_strip (service @ '' 5xx spike'') = service @ '' 5xx spike''"
    using assms(1) by (elim insertE emptyE; hypsubst; code_simp)+
  moreover have "service \<noteq> []" using assms(1) by auto
  moreover have "py_strip ''replay-benchmark'' = ''replay-benchmark''" "py_strip ''error ratio high'' = ''error ratio high''"
    "py_strip ''demo'' = ''demo''" "py_strip ''prod'' = ''prod''" "py_strip ''warning'' = ''warning''"
    "py_strip ''unknown'' = ''unknown''" "py_strip ''title'' = ''title''" "py_strip ''message'' = ''message''"
    "py_strip ''service_name'' = ''service_name''" "py_strip ''source'' = ''source''" "py_strip ''tenant'' = ''tenant''"
    "py_strip ''environment'' = ''environment''" "py_strip ''trace_id'' = ''trace_id''"
    by code_simp+
  ultimately show ?thesis using assms(2,3)
    by (simp add: webhook_payload_to_case_create_def benchmark_case_def channel_message_of_def text_of_def
        required_text_def strip_keys_def normalize_inbound_def normalize_webhook_def py_or_def py_get_or_def
        dict_of_def dunion_def valid_normalized_def resolve_service_name_def optional_text_def without_keys_def
        reserved_keys_def py_strip_stripped request_metadata_def set_default_key_def make_case_request_def
        valid_case_create_request_def Let_def)
qed

lemma benchmark_members:
  assumes "c \<in> set default_replay_suite"
  obtains i service trace cause where "c = benchmark_case (i, service, trace, cause)"
    "service \<in> {''order-service'', ''api-gateway''}" "stripped trace" "trace \<noteq> []"
proof -
  obtain i service trace cause where "c = benchmark_case (i, service, trace, cause)"
    and b: "(i, service, trace, cause) \<in> set benchmark_base"
    using assms by (auto simp: default_replay_suite_def)
  moreover have "service \<in> {''order-service'', ''api-gateway''}" "stripped trace" "trace \<noteq> []"
    using b by (auto simp: benchmark_base_def stripped_def is_space_def)
  ultimately show ?thesis using that by blast
qed

lemma benchmark_converts:
  "c \<in> set default_replay_suite \<Longrightarrow> \<exists>r. webhook_payload_to_case_create json_loads (rp_alert_payload c) = Inr r"
  by (rule benchmark_members, assumption) (use benchmark_request in blast)

text \<open>
  The two descriptions of a benchmark case agree: its alarm is turned into a request with the
  title, symptom, service and source of its request and with all of its metadata.
\<close>
theorem benchmark_alarm_is_request:
  assumes "c \<in> set default_replay_suite"
  shows "\<exists>r. webhook_payload_to_case_create json_loads (rp_alert_payload c) = Inr r
    \<and> cq_title r = cq_title (rp_case_request c) \<and> cq_symptom r = cq_symptom (rp_case_request c)
    \<and> cq_service_name r = cq_service_name (rp_case_request c) \<and> cq_source r = cq_source (rp_case_request c)
    \<and> (\<forall>(k, v) \<in> set (cq_metadata (rp_case_request c)). dget (cq_metadata r) k = Some v)"
proof -
  obtain i service trace cause where c: "c = benchmark_case (i, service, trace, cause)"
    and t: "service \<in> {''order-service'', ''api-gateway''}" "stripped trace" "trace \<noteq> []"
    by (rule benchmark_members[OF assms])
  from benchmark_request[OF t] show ?thesis by (simp add: c) (simp add: benchmark_case_def)
qed

theorem benchmark_alarm_is_request_witness:
  "\<exists>r. webhook_payload_to_case_create (\<lambda>_. None)
      (rp_alert_payload (benchmark_case (''rp-001'', ''order-service'', ''trace-order-001'', ''DB connection saturation'')))
     = Inr r \<and> cq_service_name r = ''order-service''"
proof -
  let ?c = "benchmark_case (''rp-001'', ''order-service'', ''trace-order-001'', ''DB connection saturation'')"
  have "?c \<in> set default_replay_suite" by (simp add: default_replay_suite_def benchmark_base_def)
  from benchmark_alarm_is_request[OF this, of "\<lambda>_. None"] show ?thesis by (auto simp: benchmark_case_def)
qed

section \<open>A concrete suite\<close>

definition demo_replay_ctx :: "(nat, unit) dev_runtime replay_ctx" where
  "demo_replay_ctx = runtime_replay demo_runtime_ctx (\<lambda>_. []) nat_str nat_str"

text \<open>The benchmark: none of its runs raises, so the suite ends.\<close>

lemma benchmark_wf: "replay_wf (load_cases default_replay_suite [])"
  by (rule replay_wf_load)
    (auto simp: default_replay_suite_def benchmark_base_def benchmark_case_def stripped_def is_space_def)

lemma load_fresh_cases:
  assumes "distinct (map rp_replay_id cs)" and "set (dkeys d) \<inter> set (map rp_replay_id cs) = {}"
  shows "list_cases (load_cases cs d) = list_cases d @ cs"
  using assms
proof (induction cs arbitrary: d)
  case Nil
  then show ?case by (simp add: load_cases_def)
next
  case (Cons c cs)
  let ?d = "d @ [(rp_replay_id c, \<lparr>rh_case = c, rh_runs = []\<rparr>)]"
  have c: "rp_replay_id c \<notin> set (dkeys d)" using Cons.prems(2) by auto
  then have "dget d (rp_replay_id c) = None" by (simp add: dget_None_iff)
  moreover have "dput k v e = e @ [(k, v)]" if "k \<notin> set (dkeys e)" for k and v :: replay_history and e
    using that by (induction e) auto
  ultimately have "upsert_case c d = ?d" using c by (simp add: upsert_case_def)
  moreover have "list_cases (load_cases cs ?d) = list_cases ?d @ cs"
    using Cons.prems c by (intro Cons.IH) auto
  ultimately show ?case by (simp add: load_cases_def list_cases_def)
qed

lemma benchmark_cases: "list_cases (load_cases default_replay_suite []) = default_replay_suite"
proof -
  have "map rp_replay_id default_replay_suite = map fst benchmark_base"
    by (simp add: default_replay_suite_def benchmark_case_def split_beta)
  moreover have "distinct (map fst benchmark_base)" by code_simp
  ultimately show ?thesis using load_fresh_cases[of default_replay_suite "[]"] by (simp add: list_cases_def)
qed

lemma benchmark_run:
  assumes "c \<in> set default_replay_suite" and "dr_bus w = []"
  shows "\<exists>run w'. rx_run demo_replay_ctx (rp_alert_payload c) w = (Inr run, w') \<and> dr_bus w' = [] \<and> traceable run"
proof -
  obtain req where req: "webhook_payload_to_case_create (rc_json demo_runtime_ctx) (rp_alert_payload c) = Inr req"
    using benchmark_converts[OF assms(1)] by blast
  obtain run w' where run: "run_default_flow_from_case_request demo_runtime_ctx req w = (Inr run, w')" "dr_bus w' = []"
    and c: "fr_case run = failed_case ''case-'' 0 req ''SKILL_DEFAULT_UNAVAILABLE'' ''no enabled playbook available'' None"
    by (rule bare_default_flow[OF assms(2)])
  have "py_strip ''case-'' \<noteq> []" "py_strip ''unknown'' \<noteq> []" by code_simp+
  then have "traceable run" by (simp add: traceable_def c failed_case_def first_skill_def)
  then show ?thesis using run req
    by (simp add: demo_replay_ctx_def runtime_replay_def run_default_flow_from_payload_def seq_def lift_res_def)
qed

lemma nat_str_strip: "py_strip (nat_str n) \<noteq> []"
  by (simp add: py_strip_stripped stripped_nat_str)

lemma demo_suite_run:
  assumes "set cs \<subseteq> set default_replay_suite" "list_cases d = cs" "replay_wf d" "1 \<le> k"
  obtains rep su where "run_suite demo_replay_ctx name k (new_suite (demo_runtime []) d n) = (Inr rep, su)"
proof -
  have "\<exists>rep su. run_suite demo_replay_ctx name k (new_suite (demo_runtime []) d n) = (Inr rep, su)"
    using assms benchmark_run nat_str_strip
    by (intro suite_ends[where J = "\<lambda>w. dr_bus w = []"])
      (auto simp: demo_bus demo_replay_ctx_def[unfolded runtime_replay_def])
  then show ?thesis using that by blast
qed

theorem suite_answers_witness:
  "\<exists>rep su. run_suite demo_replay_ctx ''nightly'' 2 (new_suite (demo_runtime []) (load_cases default_replay_suite []) 0)
     = (Inr rep, su)"
  by (rule suite_answers[where J = "\<lambda>w. dr_bus w = []"])
    (use benchmark_run nat_str_strip benchmark_wf in
      \<open>auto simp: demo_bus benchmark_cases demo_replay_ctx_def[unfolded runtime_replay_def]\<close>)

theorem suite_runs_every_case_witness:
  "\<exists>rep su. run_suite demo_replay_ctx ''nightly'' 2 (new_suite (demo_runtime []) (load_cases default_replay_suite []) 0)
     = (Inr rep, su) \<and> length (su_snapshots su) = 20 \<and> er_case_count rep = 10"
proof -
  obtain rep su where
    r: "run_suite demo_replay_ctx ''nightly'' 2 (new_suite (demo_runtime []) (load_cases default_replay_suite []) 0)
      = (Inr rep, su)"
    by (rule demo_suite_run[where k = 2, OF subset_refl benchmark_cases benchmark_wf]) simp
  note s = suite_runs_every_case[OF r benchmark_wf]
  then have "length (map sp_replay_id (su_snapshots su)) = 20"
    by (simp only: benchmark_cases) (simp add: default_replay_suite_def benchmark_base_def)
  moreover have "er_case_count rep = 10" using s
    by (simp add: benchmark_cases) (simp add: default_replay_suite_def benchmark_base_def)
  ultimately show ?thesis using r by (intro exI[of _ rep] exI[of _ su]) simp
qed

theorem replay_gate_never_passes_witness:
  "\<exists>rep su. run_suite demo_replay_ctx ''nightly'' 1 (new_suite (demo_runtime []) (load_cases default_replay_suite []) 0)
     = (Inr rep, su) \<and> \<not> er_release_allowed rep"
proof -
  obtain rep su where
    r: "run_suite demo_replay_ctx ''nightly'' 1 (new_suite (demo_runtime []) (load_cases default_replay_suite []) 0)
      = (Inr rep, su)"
    by (rule demo_suite_run[where k = 1, OF subset_refl benchmark_cases benchmark_wf]) simp
  from replay_gate_never_passes[OF r[unfolded demo_replay_ctx_def]] r show ?thesis by blast
qed

end
