(* ===== verification/TaskRun.thy ===== *)
theory TaskRun
  imports ReplayFacts
begin

text \<open>
  Tasks (\<open>task_runtime/\<close>): submitting a task, taking the next one from the queue or the store, and
  executing it, with the case run, the replayed suite and the decision to deploy behind it. The task is
  one object that the executor changes; what an exception finds in it is stored with the failure.
\<close>

section \<open>The state\<close>

record ('v, 'b) task_runtime =
  tu_runtime :: "('v, 'b) dev_runtime"
  tu_replay :: replay_store
  tu_store :: task_store
  tu_queue :: task_queue
  tu_count :: nat   \<comment> \<open>the number of fresh inputs used\<close>

text \<open>\<open>tc_error\<close> is the text and the type of an exception.\<close>

record 'v task_ctx =
  tc_runtime :: "'v runtime_ctx"
  tc_corpus :: "flow_run_result \<Rightarrow> string list"
  tc_run_id :: "nat \<Rightarrow> string"
  tc_report_id :: "nat \<Rightarrow> string"
  tc_task_id :: "nat \<Rightarrow> string"
  tc_approval_id :: "nat \<Rightarrow> string"
  tc_now :: "nat \<Rightarrow> int"
  tc_error :: "pyerr \<Rightarrow> string \<times> string"

section \<open>Submitting (task.py, runtime.py)\<close>

definition create_task_record ::
    "string \<Rightarrow> int \<Rightarrow> task_kind \<Rightarrow> pydict \<Rightarrow> string option \<Rightarrow> task_record" where
  "create_task_record new_id now kind payload case_id =
     \<lparr>tk_task_id = new_id, tk_kind = kind, tk_case_id = map_option py_strip case_id, tk_flow_id = None,
      tk_skill_slug = None, tk_status = Task_PENDING, tk_payload = strip_keys payload,
      tk_result_ref = None, tk_error = None, tk_created_at = now\<rparr>"

definition task_submit ::
    "'v task_ctx \<Rightarrow> task_kind \<Rightarrow> pydict \<Rightarrow> string option \<Rightarrow> (('v, 'b) task_runtime, task_record) eff" where
  "task_submit tc kind payload case_id tu =
     (let n = tu_count tu; t = create_task_record (tc_task_id tc n) (tc_now tc n) kind payload case_id
      in (Inr t, tu\<lparr>tu_store := task_store_save t (tu_store tu),
                   tu_queue := queue_push (tk_task_id t) (tu_queue tu), tu_count := Suc n\<rparr>))"

section \<open>Executing (task_executor.py)\<close>

text \<open>\<open>CaseCreateRequest.model_validate\<close>: four texts and an optional dictionary, other keys ignored.\<close>

definition text_field_of :: "pydict \<Rightarrow> string \<Rightarrow> string res" where
  "text_field_of d k =
     (case dget d k of Some (PStr s) \<Rightarrow> (if s = [] then Inl validation_error else Inr s) | _ \<Rightarrow> Inl validation_error)"

definition case_request_of_payload :: "pydict \<Rightarrow> case_create_request res" where
  "case_request_of_payload d =
     bind_res (text_field_of d ''title'') (\<lambda>title.
     bind_res (text_field_of d ''symptom'') (\<lambda>symptom.
     bind_res (text_field_of d ''service_name'') (\<lambda>service.
     bind_res (text_field_of d ''source'') (\<lambda>source.
     bind_res (case dget d ''metadata'' of None \<Rightarrow> Inr [] | Some (PDict md) \<Rightarrow> Inr md | _ \<Rightarrow> Inl validation_error)
       (\<lambda>md. Inr \<lparr>cq_title = title, cq_symptom = symptom, cq_service_name = service, cq_source = source,
                  cq_metadata = md\<rparr>)))))"

definition task_status_for_run :: "string \<Rightarrow> task_status" where
  "task_status_for_run status = (if status = ''completed'' then Task_COMPLETED else Task_FAILED)"

text \<open>A step of the executor works on the runtime's state and on the task.\<close>

type_synonym ('v, 'b) task_state = "('v, 'b) task_runtime \<times> task_record"

definition on_runtime :: "(('v, 'b) dev_runtime, 'a) eff \<Rightarrow> (('v, 'b) task_state, 'a) eff" where
  "on_runtime m = (\<lambda>(tu, t). case m (tu_runtime tu) of (x, r) \<Rightarrow> (x, tu\<lparr>tu_runtime := r\<rparr>, t))"

definition set_payload :: "string \<Rightarrow> pyval \<Rightarrow> task_record \<Rightarrow> task_record" where
  "set_payload k v t = t\<lparr>tk_payload := dput k v (tk_payload t)\<rparr>"

definition on_task :: "(task_record \<Rightarrow> task_record) \<Rightarrow> (('v, 'b) task_state, unit) eff" where
  "on_task f = (\<lambda>(tu, t). (Inr (), tu, f t))"

definition save_task :: "(('v, 'b) task_state, unit) eff" where
  "save_task = (\<lambda>(tu, t). (Inr (), tu\<lparr>tu_store := task_store_save t (tu_store tu)\<rparr>, t))"

definition wants_agent :: "('v, 'b) task_state \<Rightarrow> bool" where
  "wants_agent = (\<lambda>(tu, t).
     resolve_use_agent (Some (py_truthy (py_get_or (tk_payload t) ''use_agent'' (PBool False)))) (tu_runtime tu))"

definition execute_case_run :: "'v task_ctx \<Rightarrow> (('v, 'b) task_state, unit) eff" where
  "execute_case_run tc =
     seq (\<lambda>s. (case_request_of_payload (tk_payload (snd s)), s)) (\<lambda>req.
     seq (look wants_agent) (\<lambda>agent.
       if agent then
         seq (on_runtime (run_agent_from_case_request (tc_runtime tc) req)) (\<lambda>res.
         seq (on_task (\<lambda>t. (set_payload ''attempt_count'' (PInt (int (length (ar_attempts res))))
                (set_payload ''runner'' (PStr ''agent'') (t\<lparr>tk_result_ref := Some (py_strip (ar_case_id res))\<rparr>)))
                \<lparr>tk_status := task_status_for_run (ar_status res)\<rparr>)) (\<lambda>_. save_task))
       else
         seq (on_runtime (flow_run_default (tc_runtime tc) req)) (\<lambda>x.
         seq (on_task (\<lambda>t. (set_payload ''flow_run_id'' (PStr (ex_execution_id (fx_trace x)))
                (t\<lparr>tk_result_ref := Some (py_strip (fx_case_id x))\<rparr>))
                \<lparr>tk_status := task_status_for_run (fx_status x)\<rparr>)) (\<lambda>_. save_task))))"

text \<open>The suite of a task runs on the runtime and its replay store.\<close>

definition run_task_suite ::
    "'v task_ctx \<Rightarrow> string \<Rightarrow> int \<Rightarrow> (('v, 'b) task_state, evaluation_report) eff" where
  "run_task_suite tc name k = (\<lambda>(tu, t).
     (case run_suite (runtime_replay (tc_runtime tc) (tc_corpus tc) (tc_run_id tc) (tc_report_id tc)) name k
             (new_suite (tu_runtime tu) (load_cases default_replay_suite (tu_replay tu)) (tu_count tu)) of
        (x, su) \<Rightarrow>
          (x, tu\<lparr>tu_runtime := su_world su, tu_replay := su_store su, tu_count := Suc (su_count su)\<rparr>, t)))"

definition decide_deployment ::
    "'v task_ctx \<Rightarrow> evaluation_report \<Rightarrow> (('v, 'b) task_state, deployment_decision) eff" where
  "decide_deployment tc report = (\<lambda>(tu, t).
     (let n = tu_count tu in
      case deployment_evaluate (tc_approval_id tc n) (tc_now tc n) True report None (approvals_of (tu_runtime tu)) of
        (d, s) \<Rightarrow> (Inr d, tu\<lparr>tu_runtime := set_approvals s (tu_runtime tu), tu_count := Suc n\<rparr>, t)))"

definition note_report :: "evaluation_report \<Rightarrow> task_record \<Rightarrow> task_record" where
  "note_report report t =
     set_payload ''report_gate_passed'' (PBool (er_gate_passed report))
       (set_payload ''report_case_count'' (PInt (int (er_case_count report)))
         (set_payload ''report_suite_name'' (PStr (er_suite_name report))
           (t\<lparr>tk_result_ref := Some (py_strip (er_report_id report))\<rparr>)))"

definition note_decision :: "deployment_decision \<Rightarrow> task_record \<Rightarrow> task_record" where
  "note_decision d t =
     (set_payload ''deployment_decision'' (PDict (decision_to_payload d))
       (set_payload ''report_release_allowed'' (PBool (dd_release_allowed d)) t))\<lparr>tk_status := Task_COMPLETED\<rparr>"

definition judge_suite :: "'v task_ctx \<Rightarrow> evaluation_report \<Rightarrow> (('v, 'b) task_state, unit) eff" where
  "judge_suite tc report =
     seq (on_task (note_report report)) (\<lambda>_.
     seq (decide_deployment tc report) (\<lambda>d.
     seq (on_task (note_decision d)) (\<lambda>_. save_task)))"

definition execute_replay :: "'v task_ctx \<Rightarrow> (('v, 'b) task_state, unit) eff" where
  "execute_replay tc =
     seq (look (\<lambda>s. py_str (py_get_or (tk_payload (snd s)) ''suite_name'' (PStr ''cron-default-flow'')))) (\<lambda>name.
     seq (\<lambda>s. (py_int (py_get_or (tk_payload (snd s)) ''repeat_each'' (PInt 1)), s)) (\<lambda>k.
     seq (run_task_suite tc name (max 1 k)) (judge_suite tc)))"

fun execute_task :: "'v task_ctx \<Rightarrow> task_kind \<Rightarrow> (('v, 'b) task_state, unit) eff" where
  "execute_task tc Task_CASE_RUN = execute_case_run tc"
| "execute_task tc Task_CRON = execute_replay tc"
| "execute_task tc Task_REPLAY = execute_replay tc"

definition failed_task :: "'v task_ctx \<Rightarrow> pyerr \<Rightarrow> task_record \<Rightarrow> task_record" where
  "failed_task tc e t =
     t\<lparr>tk_status := Task_FAILED,
       tk_error := Some [(''reason'', PStr (fst (tc_error tc e))), (''type'', PStr (snd (tc_error tc e)))]\<rparr>"

definition task_execute :: "'v task_ctx \<Rightarrow> string \<Rightarrow> (('v, 'b) task_runtime, unit) eff" where
  "task_execute tc i tu =
     (case task_store_get (tu_store tu) i of
        None \<Rightarrow> (Inl (ValueError (''task not found: '' @ i)), tu)
      | Some t0 \<Rightarrow>
          (let t = t0\<lparr>tk_status := Task_RUNNING\<rparr>;
               tu1 = tu\<lparr>tu_store := task_store_save t (tu_store tu)\<rparr>
           in case execute_task tc (tk_kind t) (tu1, t) of
                (Inr _, tu2, t2) \<Rightarrow> (Inr (), tu2)
              | (Inl e, tu2, t2) \<Rightarrow>
                  (Inl e, tu2\<lparr>tu_store := task_store_save (failed_task tc e t2) (tu_store tu2)\<rparr>)))"

section \<open>The next task (runtime.py)\<close>

definition next_pending_task_id :: "task_store \<Rightarrow> string option" where
  "next_pending_task_id d =
     (case sort_key tk_created_at (filter (\<lambda>t. tk_status t = Task_PENDING) (task_store_list_all d)) of
        [] \<Rightarrow> None
      | t # _ \<Rightarrow> Some (tk_task_id t))"

definition task_run_once :: "'v task_ctx \<Rightarrow> (('v, 'b) task_runtime, task_record option) eff" where
  "task_run_once tc tu =
     (let (popped, q) = queue_pop (tu_queue tu); tu1 = tu\<lparr>tu_queue := q\<rparr> in
      case (if popped = None \<or> popped = Some [] then next_pending_task_id (tu_store tu1) else popped) of
        None \<Rightarrow> (Inr None, tu1)
      | Some i \<Rightarrow> seq (task_execute tc i) (\<lambda>_. look (\<lambda>tu. task_store_get (tu_store tu) i)) tu1)"

end
