(* ===== verification/TaskFacts.thy ===== *)
theory TaskFacts
  imports TaskRun
begin

text \<open>
  What an executed task leaves: it is settled and no other task is changed; the next task is the oldest
  pending one; and what a replay task can and cannot do.
\<close>

section \<open>The course of an execution\<close>

text \<open>No task is stored between two states, and the task keeps its identity.\<close>

definition task_frame :: "('v, 'b) task_state \<Rightarrow> ('v, 'b) task_state \<Rightarrow> bool" where
  "task_frame s s' \<longleftrightarrow> tu_store (fst s') = tu_store (fst s) \<and> tu_queue (fst s') = tu_queue (fst s)
     \<and> tk_task_id (snd s') = tk_task_id (snd s)"

text \<open>The task is stored once, at the end, with a final status.\<close>

definition task_saved :: "('v, 'b) task_state \<Rightarrow> ('v, 'b) task_state \<Rightarrow> bool" where
  "task_saved s s' \<longleftrightarrow> tu_store (fst s') = task_store_save (snd s') (tu_store (fst s))
     \<and> tu_queue (fst s') = tu_queue (fst s)
     \<and> tk_task_id (snd s') = tk_task_id (snd s) \<and> tk_status (snd s') \<in> {Task_COMPLETED, Task_FAILED}"

definition settles :: "(('v, 'b) task_state, unit) eff \<Rightarrow> ('v, 'b) task_state \<Rightarrow> bool" where
  "settles m s \<longleftrightarrow> (case m s of (Inr _, s') \<Rightarrow> task_saved s s' | (Inl _, s') \<Rightarrow> task_frame s s')"

lemma task_frame_refl [simp]: "task_frame s s"
  by (simp add: task_frame_def)

lemma settles_seq:
  assumes "task_frame s (snd (m s))" and "\<And>x s'. m s = (Inr x, s') \<Longrightarrow> settles (f x) s'"
  shows "settles (seq m f) s"
proof -
  obtain r s' where m: "m s = (r, s')" by (rule prod.exhaust)
  show ?thesis
  proof (cases r)
    case (Inl e)
    then show ?thesis using assms(1) m by (simp add: settles_def seq_def)
  next
    case (Inr x)
    have "settles (f x) s'" using assms(2) m Inr by simp
    moreover have "task_frame s s'" using assms(1) m by simp
    ultimately show ?thesis using m Inr
      by (auto simp: settles_def seq_def task_frame_def task_saved_def split: prod.splits sum.splits)
  qed
qed

lemma frames [simp]:
  "task_frame s (snd (look g s))" "task_frame s (snd (on_runtime m s))"
  "task_frame s (snd (run_task_suite tc name k s))" "task_frame s (snd (decide_deployment tc report s))"
  "(\<And>t. tk_task_id (f t) = tk_task_id t) \<Longrightarrow> task_frame s (snd (on_task f s))"
  by (cases s; auto simp: task_frame_def look_def on_runtime_def run_task_suite_def decide_deployment_def
      on_task_def Let_def split: prod.splits)+

lemma settles_last:
  "tk_status (f (snd s)) \<in> {Task_COMPLETED, Task_FAILED} \<Longrightarrow> tk_task_id (f (snd s)) = tk_task_id (snd s)
   \<Longrightarrow> settles (seq (on_task f) (\<lambda>_. save_task)) s"
  by (cases s) (simp add: settles_def seq_def on_task_def save_task_def task_saved_def)

lemma payload_id [simp]: "tk_task_id (set_payload k v t) = tk_task_id t"
  by (simp add: set_payload_def)

lemma execute_settles: "settles (execute_task tc k) s"
proof -
  have "settles (execute_case_run tc) s" "settles (execute_replay tc) s" for s
    unfolding execute_case_run_def execute_replay_def judge_suite_def
    by (auto intro!: settles_seq settles_last simp: task_status_for_run_def note_report_def note_decision_def)
  then show ?thesis by (cases k) simp_all
qed

text \<open>
  C12: A task that is executed is settled: whether its execution answers or raises, it is stored as
  completed or failed, never left running; after an exception it is failed and names the exception,
  which the caller gets too; and no other task and nothing in the queue is changed.
\<close>
theorem executed_task_settles:
  assumes "task_store_get (tu_store tu) i = Some t0" and "tk_task_id t0 = i"
    and "task_execute tc i tu = (x, tu')"
  shows "\<exists>t. task_store_get (tu_store tu') i = Some t
    \<and> (case x of Inr _ \<Rightarrow> tk_status t \<in> {Task_COMPLETED, Task_FAILED}
       | Inl e \<Rightarrow> tk_status t = Task_FAILED
           \<and> tk_error t = Some [(''reason'', PStr (fst (tc_error tc e))), (''type'', PStr (snd (tc_error tc e)))])
    \<and> (\<forall>j. j \<noteq> i \<longrightarrow> task_store_get (tu_store tu') j = task_store_get (tu_store tu) j)
    \<and> tu_queue tu' = tu_queue tu"
proof -
  let ?t = "t0\<lparr>tk_status := Task_RUNNING\<rparr>"
  let ?tu = "tu\<lparr>tu_store := task_store_save ?t (tu_store tu)\<rparr>"
  obtain r tu2 t2 where r: "execute_task tc (tk_kind ?t) (?tu, ?t) = (r, tu2, t2)" by (rule prod_cases3)
  have s: "settles (execute_task tc (tk_kind ?t)) (?tu, ?t)" by (rule execute_settles)
  show ?thesis
  proof (cases r)
    case (Inl e)
    have "x = Inl e" "tu' = tu2\<lparr>tu_store := task_store_save (failed_task tc e t2) (tu_store tu2)\<rparr>"
      using assms(1,3) r Inl by (simp_all add: task_execute_def)
    moreover have "task_frame (?tu, ?t) (tu2, t2)" using s r Inl by (simp add: settles_def)
    ultimately show ?thesis using assms(2)
      by (simp add: task_frame_def failed_task_def task_store_save_def task_store_get_def)
  next
    case (Inr u)
    have "x = Inr ()" "tu' = tu2" using assms(1,3) r Inr by (simp_all add: task_execute_def)
    moreover have "task_saved (?tu, ?t) (tu2, t2)" using s r Inr by (simp add: settles_def)
    ultimately show ?thesis using assms(2)
      by (auto simp: task_saved_def task_store_save_def task_store_get_def)
  qed
qed

section \<open>The next task\<close>

lemma next_pending_cases:
  "case next_pending_task_id d of
     None \<Rightarrow> \<forall>t \<in> set (task_store_list_all d). tk_status t \<noteq> Task_PENDING
   | Some i \<Rightarrow> \<exists>t \<in> set (task_store_list_all d). tk_task_id t = i \<and> tk_status t = Task_PENDING
       \<and> (\<forall>u \<in> set (task_store_list_all d). tk_status u = Task_PENDING \<longrightarrow> tk_created_at t \<le> tk_created_at u)"
proof -
  let ?p = "filter (\<lambda>t. tk_status t = Task_PENDING) (task_store_list_all d)"
  have set: "set (sort_key tk_created_at ?p) = set ?p" by simp
  show ?thesis
  proof (cases "sort_key tk_created_at ?p")
    case Nil
    then have "next_pending_task_id d = None" by (simp add: next_pending_task_id_def)
    moreover have "set ?p = {}" using Nil set by (metis set_empty)
    ultimately show ?thesis by (simp add: filter_empty_conv)
  next
    case (Cons t ts)
    have "sorted (map tk_created_at (t # ts))" using Cons by (metis sorted_sort_key)
    then have "\<forall>u \<in> set ?p. tk_created_at t \<le> tk_created_at u" using set Cons by auto
    moreover have "t \<in> set ?p" using set Cons by (metis list.set_intros(1))
    moreover have "next_pending_task_id d = Some (tk_task_id t)" using Cons by (simp add: next_pending_task_id_def)
    ultimately show ?thesis by auto
  qed
qed

text \<open>
  With an empty queue the oldest pending task of the store is executed, and when no task is pending
  nothing happens.
\<close>
theorem run_once_takes_oldest_pending:
  assumes "tu_queue tu = []"
  shows "(\<forall>t \<in> set (task_store_list_all (tu_store tu)). tk_status t \<noteq> Task_PENDING)
      \<and> task_run_once tc tu = (Inr None, tu)
    \<or> (\<exists>t \<in> set (task_store_list_all (tu_store tu)). tk_status t = Task_PENDING
         \<and> (\<forall>u \<in> set (task_store_list_all (tu_store tu)).
              tk_status u = Task_PENDING \<longrightarrow> tk_created_at t \<le> tk_created_at u)
         \<and> snd (task_run_once tc tu) = snd (task_execute tc (tk_task_id t) tu))"
proof -
  have tu: "tu\<lparr>tu_queue := []\<rparr> = tu" using assms by simp
  show ?thesis
  proof (cases "next_pending_task_id (tu_store tu)")
    case None
    then show ?thesis using next_pending_cases[of "tu_store tu"] assms tu
      by (simp add: task_run_once_def)
  next
    case (Some i)
    then have "snd (task_run_once tc tu) = snd (task_execute tc i tu)"
      using assms by (auto simp: tu task_run_once_def seq_def look_def split: prod.splits sum.splits)
    then show ?thesis using next_pending_cases[of "tu_store tu"] Some by auto
  qed
qed

text \<open>
  The executor does not look at the status of a task: a task that is completed, or that another
  worker is running, is executed like a pending one.
\<close>
theorem finished_task_runs_again:
  assumes "task_store_get (tu_store tu) i = Some t" and "tk_task_id t = i"
  shows "task_execute tc i (tu\<lparr>tu_store := task_store_save (t\<lparr>tk_status := s\<rparr>) (tu_store tu)\<rparr>)
    = task_execute tc i tu"
  using assms
  by (simp add: task_execute_def task_store_get_def task_store_save_def Let_def)

text \<open>
  A case task does not follow the setting of the runtime: whether the agent flow is enabled or not, it
  runs the default flow unless its own payload asks for the agent.
\<close>
theorem task_ignores_agent_setting:
  "wants_agent (tu\<lparr>tu_runtime := (tu_runtime tu)\<lparr>dr_agent_flow_enabled := b\<rparr>\<rparr>, t)
    = py_truthy (py_get (tk_payload t) ''use_agent'')"
  by (simp add: wants_agent_def resolve_use_agent_def py_get_or_def split: option.splits)

section \<open>A replay task\<close>

lemma evaluate_blocked:
  assumes "\<not> er_release_allowed report" and "deployment_evaluate new_id now True report None st = (d, st')"
  shows "dd_status d = Deploy_NEEDS_APPROVAL" "\<not> dd_release_allowed d"
    "\<exists>a. approval_get st' new_id = Some a \<and> ap_status a = Appr_PENDING \<and> ap_tool_name a = ''release.deploy''
       \<and> ap_case_id a = er_report_id report"
proof -
  have r: "request_override new_id now report st = (d, st')"
    using assms by (simp add: deployment_evaluate_def)
  show "dd_status d = Deploy_NEEDS_APPROVAL" "\<not> dd_release_allowed d"
    "\<exists>a. approval_get st' new_id = Some a \<and> ap_status a = Appr_PENDING \<and> ap_tool_name a = ''release.deploy''
       \<and> ap_case_id a = er_report_id report"
    using request_override_cases[OF r] by blast+
qed

lemma suite_keeps_task:
  "run_task_suite tc name k s = (y, s') \<Longrightarrow> snd s' = snd s"
  by (cases s) (auto simp: run_task_suite_def split: prod.splits)

lemma judge_suite_unfold:
  assumes "decide_deployment tc report (fst s, note_report report (snd s)) = (Inr d, s2)"
  shows "judge_suite tc report s = save_task (fst s2, note_decision d (snd s2))"
  using assms by (cases s; cases s2) (simp add: judge_suite_def seq_def on_task_def)

lemma decision_answers:
  obtains d s2 where "decide_deployment tc report s = (Inr d, s2)"
  by (cases s) (simp add: decide_deployment_def Let_def split_beta)

lemma execute_replay_cases:
  assumes "execute_replay tc (tu, t) = (Inr u, s')"
  obtains name k report s1 where "run_task_suite tc name (max 1 k) (tu, t) = (Inr report, s1)"
    "judge_suite tc report s1 = (Inr u, s')" "snd s1 = t"
proof -
  obtain name k report s1 where r: "run_task_suite tc name (max 1 k) (tu, t) = (Inr report, s1)"
    "judge_suite tc report s1 = (Inr u, s')"
    using assms by (auto simp: execute_replay_def seq_Inr_iff look_def simp del: split_paired_Ex)
  moreover have "snd s1 = t" using suite_keeps_task[OF r(1)] by simp
  ultimately show ?thesis by (rule that)
qed

lemma replay_task_outcome:
  assumes "execute_replay tc (tu, t) = (Inr u, tu', t')"
  obtains report :: evaluation_report and d :: deployment_decision where "er_gate_passed report = False"
    "dget (tk_payload t') ''report_gate_passed'' = Some (PBool False)"
    "dget (tk_payload t') ''report_release_allowed'' = Some (PBool False)"
    "dget (tk_payload t') ''deployment_decision'' = Some (PDict (decision_to_payload d))"
    "dd_status d = Deploy_NEEDS_APPROVAL" "tk_status t' = Task_COMPLETED"
    "\<exists>i a. approval_get (approvals_of (tu_runtime tu')) i = Some a \<and> ap_status a = Appr_PENDING
       \<and> ap_tool_name a = ''release.deploy'' \<and> ap_case_id a = er_report_id report"
    "tk_result_ref t' = Some (py_strip (er_report_id report))"
    "tu_store tu' = task_store_save t' (tu_store tu)" "tk_task_id t' = tk_task_id t"
proof -
  have s: "task_saved (tu, t) (tu', t')"
    using execute_settles[of tc Task_REPLAY "(tu, t)"] assms by (simp add: settles_def)
  obtain name k report s1 where suite: "run_task_suite tc name (max 1 k) (tu, t) = (Inr report, s1)"
    and judge: "judge_suite tc report s1 = (Inr u, tu', t')" and t1: "snd s1 = t"
    by (rule execute_replay_cases[OF assms])
  obtain su where "run_suite (runtime_replay (tc_runtime tc) (tc_corpus tc) (tc_run_id tc) (tc_report_id tc)) name
      (max 1 k) (new_suite (tu_runtime tu) (load_cases default_replay_suite (tu_replay tu)) (tu_count tu))
    = (Inr report, su)"
    using suite by (auto simp: run_task_suite_def split: prod.splits)
  note gate = toolless.gate_never_passes[OF this]
  let ?n = "tu_count (fst s1)"
  obtain d st' where ev: "deployment_evaluate (tc_approval_id tc ?n) (tc_now tc ?n) True report None
      (approvals_of (tu_runtime (fst s1))) = (d, st')" by (rule prod.exhaust)
  let ?tu = "(fst s1)\<lparr>tu_runtime := set_approvals st' (tu_runtime (fst s1)), tu_count := Suc ?n\<rparr>"
  have "decide_deployment tc report (fst s1, note_report report (snd s1)) = (Inr d, ?tu, note_report report (snd s1))"
    using ev by (simp add: decide_deployment_def Let_def)
  from judge_suite_unfold[OF this] judge
  have t': "t' = note_decision d (note_report report t)" and tu': "tu_runtime tu' = set_approvals st' (tu_runtime (fst s1))"
    by (auto simp: save_task_def t1)
  have "\<not> er_release_allowed report" using gate by blast
  note blocked = evaluate_blocked[OF this ev]
  have "approvals_of (tu_runtime tu') = st'" by (simp add: tu' approvals_of_def set_approvals_def)
  then show ?thesis
    using that[of report d] gate blocked s by (auto simp: t' note_report_def note_decision_def set_payload_def task_saved_def)
qed

text \<open>
  A replay or cron task that is executed without an exception is completed with a gate that did not
  pass and a release that is not allowed: it always leaves one more pending request to approve the
  release of its report.
\<close>
theorem replay_task_needs_approval:
  assumes "task_store_get (tu_store tu) i = Some t0" and "tk_task_id t0 = i"
    and "tk_kind t0 \<in> {Task_CRON, Task_REPLAY}" and "task_execute tc i tu = (Inr u, tu')"
  shows "\<exists>t d report_id. task_store_get (tu_store tu') i = Some t \<and> tk_status t = Task_COMPLETED
    \<and> dget (tk_payload t) ''report_gate_passed'' = Some (PBool False)
    \<and> dget (tk_payload t) ''deployment_decision'' = Some (PDict (decision_to_payload d))
    \<and> dd_status d = Deploy_NEEDS_APPROVAL \<and> tk_result_ref t = Some (py_strip report_id)
    \<and> (\<exists>j a. approval_get (approvals_of (tu_runtime tu')) j = Some a \<and> ap_status a = Appr_PENDING
         \<and> ap_tool_name a = ''release.deploy'' \<and> ap_case_id a = report_id)"
proof -
  let ?t = "t0\<lparr>tk_status := Task_RUNNING\<rparr>"
  let ?tu = "tu\<lparr>tu_store := task_store_save ?t (tu_store tu)\<rparr>"
  have "execute_task tc (tk_kind t0) (?tu, ?t) = execute_replay tc (?tu, ?t)" using assms(3) by auto
  moreover obtain y tu2 t2 where y: "execute_task tc (tk_kind t0) (?tu, ?t) = (y, tu2, t2)" by (rule prod_cases3)
  moreover have "execute_task tc (tk_kind t0) (?tu, ?t) = (Inr (), tu', t2)"
    using assms(1,4) y by (cases y) (simp_all add: task_execute_def Let_def)
  ultimately have "execute_replay tc (?tu, ?t) = (Inr (), tu', t2)" by simp
  then obtain report :: evaluation_report and d :: deployment_decision where
    o: "dget (tk_payload t2) ''report_gate_passed'' = Some (PBool False)"
      "dget (tk_payload t2) ''deployment_decision'' = Some (PDict (decision_to_payload d))"
      "dd_status d = Deploy_NEEDS_APPROVAL" "tk_status t2 = Task_COMPLETED"
      "\<exists>j a. approval_get (approvals_of (tu_runtime tu')) j = Some a \<and> ap_status a = Appr_PENDING
         \<and> ap_tool_name a = ''release.deploy'' \<and> ap_case_id a = er_report_id report"
      "tk_result_ref t2 = Some (py_strip (er_report_id report))"
      "tu_store tu' = task_store_save t2 (tu_store ?tu)" "tk_task_id t2 = tk_task_id ?t"
    by (rule replay_task_outcome)
  have "task_store_get (tu_store tu') i = Some t2"
    using o(7,8) assms(2) by (simp add: task_store_save_def task_store_get_def)
  with o(1-6) show ?thesis by blast
qed

section \<open>Concrete tasks\<close>

definition demo_task_ctx :: "nat task_ctx" where
  "demo_task_ctx =
     \<lparr>tc_runtime = demo_runtime_ctx, tc_corpus = (\<lambda>_. []), tc_run_id = nat_str, tc_report_id = nat_str,
      tc_task_id = (\<lambda>n. ''task-'' @ nat_str n), tc_approval_id = (\<lambda>n. ''approval-'' @ nat_str n),
      tc_now = int, tc_error = (\<lambda>_. (''invalid request'', ''ValidationError''))\<rparr>"

definition demo_task :: "string \<Rightarrow> task_kind \<Rightarrow> int \<Rightarrow> task_record" where
  "demo_task i kind t = create_task_record i t kind [] None"

definition demo_tasks :: "task_store \<Rightarrow> (nat, unit) task_runtime" where
  "demo_tasks d =
     \<lparr>tu_runtime = demo_runtime [], tu_replay = [], tu_store = d, tu_queue = [], tu_count = 0\<rparr>"

definition demo_task_store :: task_store where
  "demo_task_store = [(''a'', demo_task ''a'' Task_CASE_RUN 2), (''b'', demo_task ''b'' Task_REPLAY 1)]"

lemma demo_task_ids [simp]: "tk_task_id (demo_task i kind t) = i" "tk_kind (demo_task i kind t) = kind"
    "tk_status (demo_task i kind t) = Task_PENDING" "tk_created_at (demo_task i kind t) = t"
    "tk_payload (demo_task i kind t) = []"
  by (simp_all add: demo_task_def create_task_record_def strip_keys_def dict_of_def dunion_def)

lemma demo_task_get:
  "task_store_get (tu_store (demo_tasks demo_task_store)) ''a'' = Some (demo_task ''a'' Task_CASE_RUN 2)"
  "task_store_get (tu_store (demo_tasks demo_task_store)) ''b'' = Some (demo_task ''b'' Task_REPLAY 1)"
  by (simp_all add: demo_tasks_def demo_task_store_def task_store_get_def)

text \<open>A case task without a title is refused.\<close>

lemma demo_bad_task: "fst (task_execute demo_task_ctx ''a'' (demo_tasks demo_task_store)) = Inl validation_error"
  by (simp add: task_execute_def demo_task_get execute_case_run_def case_request_of_payload_def text_field_of_def
      seq_def Let_def split_beta)

theorem executed_task_settles_witness:
  "\<exists>t. task_store_get (tu_store (snd (task_execute demo_task_ctx ''a'' (demo_tasks demo_task_store)))) ''a'' = Some t
     \<and> tk_status t = Task_FAILED \<and> tk_error t = Some [(''reason'', PStr ''invalid request''), (''type'', PStr ''ValidationError'')]"
proof -
  have "task_execute demo_task_ctx ''a'' (demo_tasks demo_task_store)
    = (Inl validation_error, snd (task_execute demo_task_ctx ''a'' (demo_tasks demo_task_store)))"
    using demo_bad_task by (simp add: prod_eq_iff)
  from executed_task_settles[OF demo_task_get(1) _ this] show ?thesis by (auto simp: demo_task_ctx_def)
qed

theorem run_once_takes_oldest_pending_witness:
  "snd (task_run_once demo_task_ctx (demo_tasks demo_task_store))
     = snd (task_execute demo_task_ctx ''b'' (demo_tasks demo_task_store))"
proof -
  have q: "tu_queue (demo_tasks demo_task_store) = []" by (simp add: demo_tasks_def)
  have l: "task_store_list_all (tu_store (demo_tasks demo_task_store))
    = [demo_task ''a'' Task_CASE_RUN 2, demo_task ''b'' Task_REPLAY 1]"
    by (simp add: demo_tasks_def demo_task_store_def task_store_list_all_def)
  show ?thesis using run_once_takes_oldest_pending[OF q, of demo_task_ctx] by (auto simp: l)
qed

theorem finished_task_runs_again_witness:
  "fst (task_execute demo_task_ctx ''a'' ((demo_tasks demo_task_store)\<lparr>tu_store :=
      task_store_save ((demo_task ''a'' Task_CASE_RUN 2)\<lparr>tk_status := Task_COMPLETED\<rparr>)
        (tu_store (demo_tasks demo_task_store))\<rparr>)) = Inl validation_error"
  using finished_task_runs_again[OF demo_task_get(1), of demo_task_ctx Task_COMPLETED] demo_bad_task by simp

lemma demo_replay_answers:
  obtains tu' where "task_execute demo_task_ctx ''b'' (demo_tasks demo_task_store) = (Inr (), tu')"
proof -
  let ?t = "(demo_task ''b'' Task_REPLAY 1)\<lparr>tk_status := Task_RUNNING\<rparr>"
  let ?tu = "(demo_tasks demo_task_store)\<lparr>tu_store := task_store_save ?t (tu_store (demo_tasks demo_task_store))\<rparr>"
  obtain rep su where "run_suite demo_replay_ctx ''cron-default-flow'' 1
      (new_suite (demo_runtime []) (load_cases default_replay_suite []) 0) = (Inr rep, su)"
    by (rule demo_suite_run[where k = 1, OF subset_refl benchmark_cases benchmark_wf]) simp
  then obtain s1 where "run_task_suite demo_task_ctx ''cron-default-flow'' 1 (?tu, ?t) = (Inr rep, s1)"
    by (simp add: run_task_suite_def demo_task_ctx_def demo_replay_ctx_def demo_tasks_def)
  moreover obtain d s2 where "decide_deployment demo_task_ctx rep (fst s1, note_report rep (snd s1)) = (Inr d, s2)"
    by (rule decision_answers)
  ultimately have "fst (execute_replay demo_task_ctx (?tu, ?t)) = Inr ()"
    by (simp add: execute_replay_def seq_def look_def py_get_or_def judge_suite_unfold save_task_def)
  then obtain tu2 t2 where "execute_replay demo_task_ctx (?tu, ?t) = (Inr (), tu2, t2)"
    by (metis prod.collapse)
  then show ?thesis using that demo_task_get(2) by (simp add: task_execute_def Let_def)
qed

theorem replay_task_needs_approval_witness:
  "\<exists>tu' t. task_execute demo_task_ctx ''b'' (demo_tasks demo_task_store) = (Inr (), tu')
     \<and> task_store_get (tu_store tu') ''b'' = Some t \<and> tk_status t = Task_COMPLETED"
proof -
  obtain tu' where r: "task_execute demo_task_ctx ''b'' (demo_tasks demo_task_store) = (Inr (), tu')"
    by (rule demo_replay_answers)
  from replay_task_needs_approval[OF demo_task_get(2) _ _ r] r show ?thesis by auto
qed

end
