(* ===== verification/ApiRoutes.thy ===== *)
theory ApiRoutes
  imports RuntimeFacts
begin

text \<open>
  The routes of the HTTP API that run a case (\<open>apps/api/main.py\<close>): \<open>/webhook/{channel}\<close> and
  \<open>/cases/run-default\<close>. The parsed body of a request is an argument, and so are its headers and address;
  the JSON dumps of the stored models in the answer and the flush of the broadcasts are left out.
\<close>

section \<open>Answers\<close>

text \<open>An \<open>HTTPException\<close> with its status, or another exception, which the server answers with 500.\<close>

datatype api_error = Http_error nat string | Escaped pyerr

type_synonym 'a api = "api_error + 'a"

fun api_bind :: "'a api \<Rightarrow> ('a \<Rightarrow> 'b api) \<Rightarrow> 'b api" where
  "api_bind (Inl e) f = Inl e"
| "api_bind (Inr x) f = f x"

lemma api_bind_Inr_iff [simp]: "api_bind m f = Inr y \<longleftrightarrow> (\<exists>x. m = Inr x \<and> f x = Inr y)"
  by (cases m) auto

definition escaping :: "'a res \<Rightarrow> 'a api" where
  "escaping r = (case r of Inl e \<Rightarrow> Inl (Escaped e) | Inr x \<Rightarrow> Inr x)"

text \<open>\<open>except ValueError\<close>: a \<open>ValidationError\<close> of the models is a \<open>ValueError\<close>.\<close>

definition is_value_error :: "pyerr \<Rightarrow> bool" where
  "is_value_error e \<longleftrightarrow> (case e of ValueError _ \<Rightarrow> True | _ \<Rightarrow> e = validation_error)"

definition forbidding :: "(pyerr \<Rightarrow> string) \<Rightarrow> 'a res \<Rightarrow> 'a api" where
  "forbidding txt r =
     (case r of
        Inl e \<Rightarrow> (if is_value_error e then Inl (Http_error 403 (txt e)) else Inl (Escaped e))
      | Inr x \<Rightarrow> Inr x)"

section \<open>The request of a webhook\<close>

definition strip_texts :: "(string \<times> string) list \<Rightarrow> (string \<times> string) list" where
  "strip_texts d = dict_of (map (\<lambda>(k, v). (py_strip k, py_strip v)) d)"

definition webhook_message ::
    "string \<Rightarrow> pydict \<Rightarrow> (string \<times> string) list \<Rightarrow> string option \<Rightarrow> channel_message res" where
  "webhook_message channel payload headers remote_ip =
     bind_res (required_text channel) (\<lambda>c.
       Inr \<lparr>cm_channel = c, cm_payload = strip_keys payload, cm_headers = strip_texts headers,
            cm_remote_ip = map_option py_strip remote_ip\<rparr>)"

record api_ctx =
  pi_json :: "string \<Rightarrow> pyval option"
  pi_digest :: "string \<Rightarrow> pydict \<Rightarrow> string"
  pi_security :: "channel_security option"
  pi_error_text :: "pyerr \<Rightarrow> string"

definition webhook_case_request ::
    "api_ctx \<Rightarrow> string \<Rightarrow> pydict \<Rightarrow> (string \<times> string) list \<Rightarrow> string option \<Rightarrow> case_create_request api" where
  "webhook_case_request px channel body headers remote_ip =
     api_bind (escaping (webhook_message channel (dput ''_channel'' (PStr channel) body) headers remote_ip)) (\<lambda>m.
     api_bind (forbidding (pi_error_text px)
                (ingest_channel_message (pi_json px) (pi_digest px) (pi_security px) m)) (\<lambda>n.
       escaping (make_case_request
         \<lparr>cq_title = nm_title n, cq_symptom = nm_symptom n, cq_service_name = nm_service_name n,
          cq_source = channel, cq_metadata = request_metadata n\<rparr>)))"

section \<open>The routes\<close>

record webhook_response =
  wr_ok :: bool
  wr_case_id :: string
  wr_flow_run_id :: "string option"
  wr_runner :: string
  wr_message :: string

definition agent_flow_run_id :: "agent_run_result \<Rightarrow> string option" where
  "agent_flow_run_id r =
     (case ar_trace_id r of
        Some (c # cs) \<Rightarrow> Some (c # cs)
      | _ \<Rightarrow> (if ar_attempts r = [] then None else at_flow_run_id (last (ar_attempts r))))"

definition route_trace :: "'v runtime_ctx \<Rightarrow> flow_run_result \<Rightarrow> nat \<Rightarrow> execution_trace res" where
  "route_trace rx run n =
     build_execution_trace (rc_exec_id rx n) (cr_case_id (fr_case run)) (first_skill (fr_case run)) default_flow_id
       None (Some (cr_steps (fr_case run)))"

definition route_step :: "step_execution_record \<Rightarrow> pydict" where
  "route_step s =
     [(''step_id'', PStr (sx_step_id s)), (''name'', PStr (sx_name s)),
      (''status'', PStr (step_status_value (sx_status s))), (''tool_name'', opt_pystr (sx_tool_name s))]"

definition route_checkpoint :: "flow_run_result \<Rightarrow> execution_trace \<Rightarrow> string \<Rightarrow> pyval list \<Rightarrow> pydict" where
  "route_checkpoint run t status steps =
     [(''case_id'', PStr (cr_case_id (fr_case run))), (''flow_id'', opt_pystr (ex_flow_id t)),
      (''skill_slug'', PStr (ex_skill_slug t)), (''status'', PStr status),
      (''next_step_index'', PInt (int (length (ex_steps t)))), (''steps'', PList steps)]"

definition handle_webhook ::
    "'v runtime_ctx \<Rightarrow> pydict \<Rightarrow> case_create_request \<Rightarrow> string \<Rightarrow> (('v, 'b) dev_runtime, webhook_response) eff" where
  "handle_webhook rx payload req channel =
     seq (run_flow_from_case_request rx req (use_agent_from_payload payload req)) (\<lambda>answer.
       case answer of
         Agent_flow res \<Rightarrow>
           give \<lparr>wr_ok = (ar_status res = ''completed''), wr_case_id = ar_case_id res,
                 wr_flow_run_id = agent_flow_run_id res, wr_runner = ''agent'',
                 wr_message = ''Webhook processed via agent for channel: '' @ channel\<rparr>
       | Default_flow run \<Rightarrow>
           seq (look dr_runs) (\<lambda>n.
           seq (lift_res (route_trace rx run n)) (\<lambda>t.
           seq (change (save_checkpoint rx (ex_execution_id t)
                  (route_checkpoint run t (case_status_value (cr_status (fr_case run)))
                    (map (\<lambda>(s, c). PDict (route_step s @ [(''outputs'', PDict (st_outputs c))]))
                      (zip (ex_steps t) (cr_steps (fr_case run))))))) (\<lambda>_.
             give \<lparr>wr_ok = (case_status_value (cr_status (fr_case run)) = ''completed''),
                   wr_case_id = cr_case_id (fr_case run), wr_flow_run_id = Some (ex_execution_id t),
                   wr_runner = ''default_flow'',
                   wr_message = ''Webhook processed successfully via channel: '' @ channel\<rparr>))))"

text \<open>The answer of \<open>/cases/run-default\<close> is the flow's, with the checkpoint's identifier for a default flow.\<close>

definition run_default_case ::
    "'v runtime_ctx \<Rightarrow> pydict \<Rightarrow> (('v, 'b) dev_runtime, flow_answer \<times> string option) eff" where
  "run_default_case rx payload =
     seq (run_flow_from_payload rx payload) (\<lambda>answer.
       case answer of
         Agent_flow res \<Rightarrow> give (answer, agent_flow_run_id res)
       | Default_flow run \<Rightarrow>
           seq (look dr_runs) (\<lambda>n.
           seq (lift_res (route_trace rx run n)) (\<lambda>t.
           seq (change (save_checkpoint rx (ex_execution_id t)
                  (route_checkpoint run t ''completed'' (map (\<lambda>s. PDict (route_step s)) (ex_steps t)))))
             (\<lambda>_. give (answer, Some (ex_execution_id t))))))"

section \<open>Facts\<close>

lemma text_of_channel: "channel \<noteq> [] \<Longrightarrow> text_of (dput ''_channel'' (PStr channel) body) [''_channel'', ''source''] d = channel"
  by (simp add: text_of_def py_or_def py_get_or_def)

lemma normalize_inbound_payload:
  "cm_channel m = cm_channel m' \<Longrightarrow> cm_payload m = cm_payload m'
   \<Longrightarrow> normalize_inbound json_loads m = normalize_inbound json_loads m'"
  by (simp add: normalize_inbound_def)

text \<open>
  C22: The webhook route and the runtime read an alarm alike: without a check of the sender, the request
  the route builds for a channel is the one the runtime builds of the same body sent to that channel.
\<close>
theorem webhook_route_is_runtime_request:
  assumes "channel \<noteq> []" and "pi_security px = None"
  shows "webhook_case_request px channel body headers ip = Inr r
    \<longleftrightarrow> webhook_payload_to_case_create (pi_json px) (dput ''_channel'' (PStr channel) body) = Inr r"
proof (cases "required_text channel")
  case (Inl e)
  then show ?thesis using assms
    by (simp add: webhook_case_request_def webhook_message_def escaping_def
        webhook_payload_to_case_create_def channel_message_of_def text_of_channel Let_def)
next
  case (Inr c)
  let ?p = "strip_keys (dput ''_channel'' (PStr channel) body)"
  let ?m = "\<lparr>cm_channel = c, cm_payload = ?p, cm_headers = [], cm_remote_ip = None\<rparr>"
  let ?m' = "\<lparr>cm_channel = c, cm_payload = ?p, cm_headers = strip_texts headers, cm_remote_ip = map_option py_strip ip\<rparr>"
  have "normalize_inbound (pi_json px) ?m' = normalize_inbound (pi_json px) ?m"
    by (rule normalize_inbound_payload) simp_all
  then show ?thesis using assms Inr
    by (auto simp: webhook_case_request_def webhook_message_def escaping_def forbidding_def
        ingest_channel_message_def webhook_payload_to_case_create_def channel_message_of_def text_of_channel Let_def
        split: sum.splits)
qed

text \<open>
  With a check configured, no request is built of a message whose address is not allowed or whose
  signature is wrong: the route answers 403.
\<close>
theorem webhook_refused:
  assumes "webhook_message channel (dput ''_channel'' (PStr channel) body) headers ip = Inr m"
    and "pi_security px = Some sec" and "security_validate (pi_digest px) sec m = Inl e"
  shows "webhook_case_request px channel body headers ip = Inl (Http_error 403 (pi_error_text px e))"
proof -
  have "is_value_error e"
    using assms(3) by (auto simp: security_validate_def is_value_error_def split: if_splits option.splits)
  then show ?thesis using assms
    by (simp add: webhook_case_request_def escaping_def forbidding_def ingest_channel_message_def)
qed

text \<open>
  The route answers 403, as for a message that is not allowed, when the alarm is only malformed: a
  count that is no number for instance.
\<close>
theorem malformed_alarm_is_forbidden:
  assumes "webhook_message channel (dput ''_channel'' (PStr channel) body) headers ip = Inr m"
    and "pi_security px = None" and "normalize_inbound (pi_json px) m = Inl e" and "is_value_error e"
  shows "webhook_case_request px channel body headers ip = Inl (Http_error 403 (pi_error_text px e))"
  using assms by (simp add: webhook_case_request_def escaping_def forbidding_def ingest_channel_message_def)

text \<open>
  The checkpoint of \<open>/cases/run-default\<close> says that the flow is completed, whatever the status of its
  case is.
\<close>
theorem route_checkpoint_says_completed:
  assumes "run_default_case rx payload r = (Inr (Default_flow run, Some i), r')"
  shows "\<exists>p. checkpoint_get (dr_checkpoints r') i = Some p \<and> py_get p ''status'' = PStr ''completed''
    \<and> py_get p ''case_id'' = PStr (cr_case_id (fr_case run))"
proof -
  obtain answer r1 where "run_flow_from_payload rx payload r = (Inr answer, r1)"
    and rest: "(case answer of
         Agent_flow res \<Rightarrow> give (answer, agent_flow_run_id res)
       | Default_flow run \<Rightarrow>
           seq (look dr_runs) (\<lambda>n.
           seq (lift_res (route_trace rx run n)) (\<lambda>t.
           seq (change (save_checkpoint rx (ex_execution_id t)
                  (route_checkpoint run t ''completed'' (map (\<lambda>s. PDict (route_step s)) (ex_steps t)))))
             (\<lambda>_. give (answer, Some (ex_execution_id t)))))) r1 = (Inr (Default_flow run, Some i), r')"
    using assms unfolding run_default_case_def seq_Inr_iff[where m = "run_flow_from_payload rx payload"] by blast
  then obtain t where "i = ex_execution_id t"
    and "r' = save_checkpoint rx (ex_execution_id t)
                (route_checkpoint run t ''completed'' (map (\<lambda>s. PDict (route_step s)) (ex_steps t))) r1"
    by (cases answer) (auto simp: seq_Inr_iff eff_defs)
  then show ?thesis by (simp add: save_checkpoint_def checkpoint_save_get route_checkpoint_def py_get_or_def)
qed

section \<open>Concrete requests\<close>

definition demo_api_ctx :: "channel_security option \<Rightarrow> api_ctx" where
  "demo_api_ctx sec =
     \<lparr>pi_json = (\<lambda>_. None), pi_digest = (\<lambda>secret _. secret), pi_security = sec, pi_error_text = (\<lambda>_. ''refused'')\<rparr>"

theorem webhook_route_is_runtime_request_witness:
  "\<exists>r. webhook_case_request (demo_api_ctx None) ''prometheus'' [] [] None = Inr r \<and> cq_source r = ''prometheus''"
proof -
  have "case webhook_payload_to_case_create (\<lambda>_. None) (dput ''_channel'' (PStr ''prometheus'') []) of
      Inl _ \<Rightarrow> False | Inr r \<Rightarrow> cq_source r = ''prometheus''" by code_simp
  then obtain r where r: "webhook_payload_to_case_create (pi_json (demo_api_ctx None)) (dput ''_channel'' (PStr ''prometheus'') [])
      = Inr r" "cq_source r = ''prometheus''"
    by (auto simp: demo_api_ctx_def split: sum.splits)
  have "webhook_case_request (demo_api_ctx None) ''prometheus'' [] [] None = Inr r"
    using webhook_route_is_runtime_request[of "''prometheus''" "demo_api_ctx None" "[]" "[]" None r] r(1)
    by (simp add: demo_api_ctx_def)
  with r(2) show ?thesis by blast
qed

theorem webhook_refused_witness:
  "webhook_case_request (demo_api_ctx (Some \<lparr>cs_allowlist_ips = {''10.0.0.1''}, cs_signing_secret = None\<rparr>))
     ''webhook'' [] [] (Some ''10.0.0.2'') = Inl (Http_error 403 ''refused'')"
proof -
  let ?m = "\<lparr>cm_channel = ''webhook'', cm_payload = [(''_channel'', PStr ''webhook'')], cm_headers = [],
    cm_remote_ip = Some ''10.0.0.2''\<rparr>"
  let ?sec = "\<lparr>cs_allowlist_ips = {''10.0.0.1''}, cs_signing_secret = None\<rparr>"
  have "webhook_message ''webhook'' (dput ''_channel'' (PStr ''webhook'') []) [] (Some ''10.0.0.2'') = Inr ?m"
    by code_simp
  moreover have "security_validate (pi_digest (demo_api_ctx (Some ?sec))) ?sec ?m
      = Inl (ValueError ''source ip is not allowed'')" by (simp add: security_validate_def)
  ultimately have "webhook_case_request (demo_api_ctx (Some ?sec)) ''webhook'' [] [] (Some ''10.0.0.2'')
      = Inl (Http_error 403 (pi_error_text (demo_api_ctx (Some ?sec)) (ValueError ''source ip is not allowed'')))"
    by (intro webhook_refused) (simp_all add: demo_api_ctx_def)
  then show ?thesis by (simp add: demo_api_ctx_def)
qed

theorem malformed_alarm_is_forbidden_witness:
  "webhook_case_request (demo_api_ctx None) ''sls'' [(''count'', PStr ''many'')] [] None = Inl (Http_error 403 ''refused'')"
proof -
  let ?b = "[(''count'', PStr ''many'')]"
  let ?m = "\<lparr>cm_channel = ''sls'', cm_payload = [(''count'', PStr ''many''), (''_channel'', PStr ''sls'')],
    cm_headers = [], cm_remote_ip = None\<rparr>"
  have m: "webhook_message ''sls'' (dput ''_channel'' (PStr ''sls'') ?b) [] None = Inr ?m" by code_simp
  have "case normalize_inbound (\<lambda>_. None) ?m of Inl e \<Rightarrow> is_value_error e | Inr _ \<Rightarrow> False" by code_simp
  then obtain e where "normalize_inbound (pi_json (demo_api_ctx None)) ?m = Inl e" "is_value_error e"
    by (auto simp: demo_api_ctx_def split: sum.splits)
  from malformed_alarm_is_forbidden[OF m _ this] show ?thesis by (simp add: demo_api_ctx_def)
qed

theorem route_checkpoint_says_completed_witness:
  "\<exists>run i r' p. run_default_case demo_runtime_ctx [(''source'', PStr ''prometheus'')] (demo_runtime [])
     = (Inr (Default_flow run, Some i), r') \<and> cr_status (fr_case run) = Case_FAILED
     \<and> checkpoint_get (dr_checkpoints r') i = Some p \<and> py_get p ''status'' = PStr ''completed''"
proof -
  let ?p = "[(''source'', PStr ''prometheus'')]"
  have "case webhook_payload_to_case_create (\<lambda>_. None) ?p of
      Inl _ \<Rightarrow> False | Inr r \<Rightarrow> dget (cq_metadata r) ''use_agent'' = None" by code_simp
  then obtain req where req: "webhook_payload_to_case_create (rc_json demo_runtime_ctx) ?p = Inr req"
    "dget (cq_metadata req) ''use_agent'' = None"
    by (auto simp: demo_runtime_ctx_def split: sum.splits)
  obtain run w' where run: "run_default_flow_from_case_request demo_runtime_ctx req (demo_runtime []) = (Inr run, w')"
    and "dr_bus w' = []"
    and c: "fr_case run = failed_case ''case-'' 0 req ''SKILL_DEFAULT_UNAVAILABLE'' ''no enabled playbook available'' None"
    by (rule bare_default_flow[OF demo_bus])
  have "run_flow_from_payload demo_runtime_ctx ?p (demo_runtime []) = (Inr (Default_flow run), w')"
    using req run
    by (simp add: run_flow_from_payload_def seq_def lift_res_def run_flow_from_case_request_def
        use_agent_from_payload_def py_get_or_def run_case_from_request_def look_def give_def resolve_use_agent_def
        demo_runtime_def)
  moreover obtain t where "route_trace demo_runtime_ctx run (dr_runs w') = Inr t"
    using demo_trace by (auto simp: route_trace_def c failed_case_def first_skill_def)
  ultimately obtain r' where r: "run_default_case demo_runtime_ctx ?p (demo_runtime [])
      = (Inr (Default_flow run, Some (ex_execution_id t)), r')"
    by (simp add: run_default_case_def seq_def eff_defs)
  show ?thesis using route_checkpoint_says_completed[OF r] r
    by (intro exI[of _ run] exI[of _ "ex_execution_id t"] exI[of _ r']) (auto simp: c failed_case_def)
qed

end
