(* ===== verification/AdminUsers.thy ===== *)
theory AdminUsers
  imports Prelude
begin

text \<open>
  The users of the administration (\<open>apps/admin/user_store.py\<close>, \<open>user_rules.py\<close>): the store in memory and the
  store over SQLite, whose statements act on the list of the table's rows. Both implement the
  \<open>UserStore\<close> protocol, a record of operations here; the locale \<open>user_directory\<close> states what its
  clients rely on. Locks, connections and the MySQL variant of the same statements are left out.
\<close>

section \<open>Users\<close>

record user_row =
  us_id :: string
  us_username :: string
  us_password_hash :: string
  us_created_at :: string
  us_updated_at :: string

definition public_user :: "user_row \<Rightarrow> pydict" where
  "public_user u =
     [(''id'', PStr (us_id u)), (''username'', PStr (us_username u)), (''created_at'', PStr (us_created_at u))]"

text \<open>The identifier and the time stamp of a new user are arguments.\<close>

definition new_user :: "string \<Rightarrow> string \<Rightarrow> string \<Rightarrow> string \<Rightarrow> user_row" where
  "new_user uid stamp username password_hash =
     \<lparr>us_id = uid, us_username = username, us_password_hash = password_hash,
      us_created_at = stamp, us_updated_at = stamp\<rparr>"

datatype user_error = UserAlreadyExists string | UsersAlreadyExist

section \<open>The rules of names and passwords (user_rules.py)\<close>

definition username_char :: "char \<Rightarrow> bool" where
  "username_char c \<longleftrightarrow> ascii_letter c \<or> digit_val c \<noteq> None \<or> c \<in> {CHR ''.'', CHR ''_'', CHR ''-''}"

definition username_error :: "string \<Rightarrow> bool" where
  "username_error s \<longleftrightarrow> \<not> (3 \<le> length s \<and> length s \<le> 64 \<and> list_all username_char s)"

text \<open>A code point below 128 takes one byte in UTF-8, one below 256 two.\<close>

definition utf8_length :: "string \<Rightarrow> nat" where
  "utf8_length s = sum_list (map (\<lambda>c. if (of_char c :: nat) < 128 then 1 else 2) s)"

definition password_error :: "string \<Rightarrow> bool" where
  "password_error s \<longleftrightarrow> length s < 8 \<or> utf8_length s > 72"

section \<open>The protocol\<close>

record 's user_ops =
  uo_list_users :: "'s \<Rightarrow> user_row list"
  uo_count :: "'s \<Rightarrow> nat"
  uo_get_by_id :: "'s \<Rightarrow> string \<Rightarrow> user_row option"
  uo_get_by_username :: "'s \<Rightarrow> string \<Rightarrow> user_row option"
  uo_create :: "user_row \<Rightarrow> 's \<Rightarrow> (user_error + user_row) \<times> 's"
  uo_create_first :: "user_row \<Rightarrow> 's \<Rightarrow> (user_error + user_row) \<times> 's"
  uo_update_password_hash :: "string \<Rightarrow> string \<Rightarrow> string \<Rightarrow> 's \<Rightarrow> user_row option \<times> 's"
  uo_delete :: "string \<Rightarrow> 's \<Rightarrow> bool \<times> 's"

subsection \<open>In memory\<close>

type_synonym memory_users = "(string \<times> user_row) list"

definition memory_get_by_username :: "memory_users \<Rightarrow> string \<Rightarrow> user_row option" where
  "memory_get_by_username d n = List.find (\<lambda>u. us_username u = n) (dvals d)"

definition memory_create :: "user_row \<Rightarrow> memory_users \<Rightarrow> (user_error + user_row) \<times> memory_users" where
  "memory_create u d =
     (if \<exists>x \<in> set (dvals d). us_username x = us_username u then (Inl (UserAlreadyExists (us_username u)), d)
      else (Inr u, dput (us_id u) u d))"

definition memory_create_first :: "user_row \<Rightarrow> memory_users \<Rightarrow> (user_error + user_row) \<times> memory_users" where
  "memory_create_first u d =
     (if d \<noteq> [] then (Inl UsersAlreadyExist, d) else (Inr u, dput (us_id u) u d))"

definition memory_update_password_hash ::
    "string \<Rightarrow> string \<Rightarrow> string \<Rightarrow> memory_users \<Rightarrow> user_row option \<times> memory_users" where
  "memory_update_password_hash i h stamp d =
     (case dget d i of
        None \<Rightarrow> (None, d)
      | Some u \<Rightarrow> (let u' = u\<lparr>us_password_hash := h, us_updated_at := stamp\<rparr> in (Some u', dput i u' d)))"

definition memory_delete :: "string \<Rightarrow> memory_users \<Rightarrow> bool \<times> memory_users" where
  "memory_delete i d = (dget d i \<noteq> None, ddel i d)"

definition memory_ops :: "memory_users user_ops" where
  "memory_ops =
     \<lparr>uo_list_users = dvals, uo_count = length, uo_get_by_id = dget,
      uo_get_by_username = memory_get_by_username, uo_create = memory_create,
      uo_create_first = memory_create_first, uo_update_password_hash = memory_update_password_hash,
      uo_delete = memory_delete\<rparr>"

subsection \<open>Over SQLite\<close>

text \<open>
  The table holds its rows in the order of their insertion; \<open>id\<close> is its primary key and \<open>username\<close>
  unique, and a statement that would break either raises \<open>IntegrityError\<close>.
\<close>

type_synonym user_table = "user_row list"

definition breaks_unique :: "user_row \<Rightarrow> user_table \<Rightarrow> bool" where
  "breaks_unique u t \<longleftrightarrow> (\<exists>x \<in> set t. us_id x = us_id u \<or> us_username x = us_username u)"

definition sqlite_list_users :: "user_table \<Rightarrow> user_row list" where
  "sqlite_list_users t = sort_key us_created_at t"

definition sqlite_get_by_id :: "user_table \<Rightarrow> string \<Rightarrow> user_row option" where
  "sqlite_get_by_id t i = List.find (\<lambda>u. us_id u = i) t"

definition sqlite_get_by_username :: "user_table \<Rightarrow> string \<Rightarrow> user_row option" where
  "sqlite_get_by_username t n = List.find (\<lambda>u. us_username u = n) t"

definition sqlite_create :: "user_row \<Rightarrow> user_table \<Rightarrow> (user_error + user_row) \<times> user_table" where
  "sqlite_create u t =
     (if breaks_unique u t then (Inl (UserAlreadyExists (us_username u)), t) else (Inr u, t @ [u]))"

text \<open>\<open>INSERT ... WHERE NOT EXISTS (SELECT 1 FROM users)\<close> inserts nothing unless the table is empty.\<close>

definition sqlite_create_first :: "user_row \<Rightarrow> user_table \<Rightarrow> (user_error + user_row) \<times> user_table" where
  "sqlite_create_first u t = (if t \<noteq> [] then (Inl UsersAlreadyExist, t) else (Inr u, t @ [u]))"

definition sqlite_update_password_hash ::
    "string \<Rightarrow> string \<Rightarrow> string \<Rightarrow> user_table \<Rightarrow> user_row option \<times> user_table" where
  "sqlite_update_password_hash i h stamp t =
     (let t' = map (\<lambda>u. if us_id u = i then u\<lparr>us_password_hash := h, us_updated_at := stamp\<rparr> else u) t
      in if filter (\<lambda>u. us_id u = i) t = [] then (None, t') else (sqlite_get_by_id t' i, t'))"

definition sqlite_delete :: "string \<Rightarrow> user_table \<Rightarrow> bool \<times> user_table" where
  "sqlite_delete i t = (filter (\<lambda>u. us_id u = i) t \<noteq> [], filter (\<lambda>u. us_id u \<noteq> i) t)"

definition sqlite_ops :: "user_table user_ops" where
  "sqlite_ops =
     \<lparr>uo_list_users = sqlite_list_users, uo_count = length, uo_get_by_id = sqlite_get_by_id,
      uo_get_by_username = sqlite_get_by_username, uo_create = sqlite_create,
      uo_create_first = sqlite_create_first, uo_update_password_hash = sqlite_update_password_hash,
      uo_delete = sqlite_delete\<rparr>"

section \<open>What a directory of users promises\<close>

text \<open>The abstract directory: a map from identifiers to users with distinct names.\<close>

type_synonym user_map = "string \<Rightarrow> user_row option"

definition map_create :: "user_row \<Rightarrow> user_map \<Rightarrow> (user_error + user_row) \<times> user_map" where
  "map_create u m =
     (if \<exists>i x. m i = Some x \<and> us_username x = us_username u then (Inl (UserAlreadyExists (us_username u)), m)
      else (Inr u, m(us_id u \<mapsto> u)))"

definition map_create_first :: "user_row \<Rightarrow> user_map \<Rightarrow> (user_error + user_row) \<times> user_map" where
  "map_create_first u m =
     (if m \<noteq> Map.empty then (Inl UsersAlreadyExist, m) else (Inr u, [us_id u \<mapsto> u]))"

definition map_update_hash :: "string \<Rightarrow> string \<Rightarrow> string \<Rightarrow> user_map \<Rightarrow> user_row option \<times> user_map" where
  "map_update_hash i h stamp m =
     (let u = map_option (\<lambda>u. u\<lparr>us_password_hash := h, us_updated_at := stamp\<rparr>) (m i) in (u, m(i := u)))"

definition map_delete :: "string \<Rightarrow> user_map \<Rightarrow> bool \<times> user_map" where
  "map_delete i m = (m i \<noteq> None, m(i := None))"

locale user_directory =
  fixes ops :: "'s user_ops" and inv :: "'s \<Rightarrow> bool" and view :: "'s \<Rightarrow> user_map"
  assumes view_id: "inv s \<Longrightarrow> view s i = Some u \<Longrightarrow> us_id u = i"
    and view_name: "inv s \<Longrightarrow> view s i = Some u \<Longrightarrow> view s j = Some v \<Longrightarrow> us_username u = us_username v \<Longrightarrow> i = j"
    and get_by_id: "inv s \<Longrightarrow> uo_get_by_id ops s i = view s i"
    and get_by_username: "inv s \<Longrightarrow> uo_get_by_username ops s n = Some u \<longleftrightarrow> view s (us_id u) = Some u \<and> us_username u = n"
    and list_set: "inv s \<Longrightarrow> set (uo_list_users ops s) = ran (view s)"
    and list_distinct: "inv s \<Longrightarrow> distinct (uo_list_users ops s)"
    and count: "inv s \<Longrightarrow> uo_count ops s = length (uo_list_users ops s)"
    and create: "inv s \<Longrightarrow> view s (us_id u) = None
      \<Longrightarrow> uo_create ops u s = (r, s') \<Longrightarrow> inv s' \<and> map_create u (view s) = (r, view s')"
    and create_first: "inv s \<Longrightarrow> uo_create_first ops u s = (r, s') \<Longrightarrow> inv s' \<and> map_create_first u (view s) = (r, view s')"
    and update_hash: "inv s \<Longrightarrow> uo_update_password_hash ops i h t s = (x, s')
      \<Longrightarrow> inv s' \<and> map_update_hash i h t (view s) = (x, view s')"
    and delete: "inv s \<Longrightarrow> uo_delete ops i s = (b, s') \<Longrightarrow> inv s' \<and> map_delete i (view s) = (b, view s')"
begin

lemma count_zero: "inv s \<Longrightarrow> uo_count ops s = 0 \<longleftrightarrow> view s = Map.empty"
  using list_set[of s] by (auto simp: count ran_def fun_eq_iff not_Some_eq[symmetric] simp del: not_Some_eq)

lemma count_card:
  assumes "inv s"
  shows "uo_count ops s = card (dom (view s))"
proof -
  have "set (uo_list_users ops s) = (\<lambda>i. the (view s i)) ` dom (view s)"
    using assms by (auto simp: list_set ran_def dom_def image_iff) (metis option.sel)
  moreover have "inj_on (\<lambda>i. the (view s i)) (dom (view s))"
    using assms by (intro inj_onI) (metis domD option.sel view_id)
  ultimately show ?thesis
    using list_distinct[OF assms] by (metis assms card_image count distinct_card)
qed

lemma get_by_username_None:
  "inv s \<Longrightarrow> uo_get_by_username ops s n = None \<longleftrightarrow> (\<forall>i u. view s i = Some u \<longrightarrow> us_username u \<noteq> n)"
  using get_by_username[of s n] view_id[of s] by (metis not_None_eq)

end

section \<open>Both stores keep the promise\<close>

lemma find_eq_Some_iff:
  assumes "distinct (map f xs)"
  shows "List.find (\<lambda>x. f x = k) xs = Some x \<longleftrightarrow> x \<in> set xs \<and> f x = k"
  using assms by (induction xs) (auto simp: image_iff)

lemma find_eq_None_iff: "List.find (\<lambda>x. f x = k) xs = None \<longleftrightarrow> (\<forall>x \<in> set xs. f x \<noteq> k)"
  by (induction xs) auto

definition memory_ok :: "memory_users \<Rightarrow> bool" where
  "memory_ok d \<longleftrightarrow> distinct (dkeys d) \<and> (\<forall>(k, u) \<in> set d. us_id u = k) \<and> distinct (map us_username (dvals d))"

lemma memory_ok_iff:
  "memory_ok d \<longleftrightarrow> distinct (dkeys d) \<and> (\<forall>k u. dget d k = Some u \<longrightarrow> us_id u = k)
     \<and> (\<forall>i j u v. dget d i = Some u \<longrightarrow> dget d j = Some v \<longrightarrow> us_username u = us_username v \<longrightarrow> i = j)"
proof (cases "distinct (dkeys d)")
  case True
  then have "distinct d" by (simp add: distinct_map)
  then have "distinct (map us_username (dvals d)) \<longleftrightarrow> inj_on (\<lambda>p. us_username (snd p)) (set d)"
    by (simp add: distinct_map comp_def)
  moreover have "inj_on (\<lambda>p. us_username (snd p)) (set d) \<longleftrightarrow>
      (\<forall>i j u v. (i, u) \<in> set d \<longrightarrow> (j, v) \<in> set d \<longrightarrow> us_username u = us_username v \<longrightarrow> i = j)"
  proof (intro iffI allI impI inj_onI)
    fix i j u v
    assume "inj_on (\<lambda>p. us_username (snd p)) (set d)" "(i, u) \<in> set d" "(j, v) \<in> set d" "us_username u = us_username v"
    then show "i = j" unfolding inj_on_def by force
  next
    fix p q
    assume h: "\<forall>i j u v. (i, u) \<in> set d \<longrightarrow> (j, v) \<in> set d \<longrightarrow> us_username u = us_username v \<longrightarrow> i = j"
      and p: "p \<in> set d" "q \<in> set d" "us_username (snd p) = us_username (snd q)"
    have k: "fst p = fst q" using h[rule_format, of "fst p" "snd p" "fst q" "snd q"] p by simp
    have "(fst p, snd p) \<in> set d" "(fst q, snd q) \<in> set d" using p(1,2) by simp_all
    then have "snd p = snd q" unfolding k by (rule eq_key_imp_eq_value[OF True])
    then show "p = q" using k by (simp add: prod_eq_iff)
  qed
  ultimately have names: "distinct (map us_username (dvals d)) \<longleftrightarrow>
      (\<forall>i j u v. dget d i = Some u \<longrightarrow> dget d j = Some v \<longrightarrow> us_username u = us_username v \<longrightarrow> i = j)"
    using True by (simp only: dget_in_set)
  have ids: "(\<forall>(k, u) \<in> set d. us_id u = k) \<longleftrightarrow> (\<forall>k u. dget d k = Some u \<longrightarrow> us_id u = k)"
    using True by (auto simp only: split_beta dget_in_set[symmetric] Ball_def split_paired_All fst_conv snd_conv)
  show ?thesis by (simp only: memory_ok_def names ids conj_ac)
qed (simp add: memory_ok_def)

lemma memory_ok_empty [simp]: "memory_ok []"
  by (simp add: memory_ok_def)

lemma memory_name:
  assumes "memory_ok d"
  shows "memory_get_by_username d n = Some u \<longleftrightarrow> dget d (us_id u) = Some u \<and> us_username u = n"
proof -
  have "memory_get_by_username d n = Some u \<longleftrightarrow> u \<in> set (dvals d) \<and> us_username u = n"
    unfolding memory_get_by_username_def using assms by (intro find_eq_Some_iff) (simp add: memory_ok_def)
  moreover have "u \<in> set (dvals d) \<longleftrightarrow> dget d (us_id u) = Some u"
    using assms unfolding memory_ok_iff by (metis dvals_iff)
  ultimately show ?thesis by simp
qed

interpretation memory_directory: user_directory memory_ops memory_ok dget
proof (unfold_locales, goal_cases)
  case (5 d)
  then have "distinct (dkeys d)" by (simp add: memory_ok_iff)
  then show ?case by (simp add: memory_ops_def ran_distinct)
next
  case (6 d)
  then show ?case by (auto simp: memory_ops_def memory_ok_def simp del: map_map dest: distinct_map[THEN iffD1])
next
  case (8 d u r d')
  then have ds: "distinct (dkeys d)" by (simp add: memory_ok_iff)
  then have ex: "(\<exists>x \<in> set (dvals d). us_username x = us_username u)
      \<longleftrightarrow> (\<exists>i x. dget d i = Some x \<and> us_username x = us_username u)" by (auto simp: Bex_def dvals_iff)
  show ?case
  proof (cases "\<exists>i x. dget d i = Some x \<and> us_username x = us_username u")
    case True
    then have "d' = d" "r = Inl (UserAlreadyExists (us_username u))" using 8(3) ex
      by (auto simp: memory_ops_def memory_create_def simp del: map_of_eq_Some_iff)
    then show ?thesis using 8(1) True by (simp add: map_create_def)
  next
    case False
    then have d': "d' = dput (us_id u) u d" "r = Inr u" using 8(3) ex
      by (auto simp: memory_ops_def memory_create_def simp del: map_of_eq_Some_iff)
    have "memory_ok d'"
      unfolding memory_ok_iff d'
      using 8(1)[unfolded memory_ok_iff] False by (simp del: map_of_eq_Some_iff) metis
    then show ?thesis using False d' by (auto simp: map_create_def fun_eq_iff simp del: map_of_eq_Some_iff)
  qed
next
  case (9 d u r d')
  then show ?case
    by (cases "d = []") (auto simp: memory_ops_def memory_create_first_def map_create_first_def memory_ok_def)
next
  case (10 d i h t x d')
  then show ?case
    by (auto simp: memory_ops_def memory_ok_iff memory_update_password_hash_def map_update_hash_def Let_def
        fun_eq_iff split: option.splits if_splits)
next
  case (11 d i b d')
  then show ?case
    by (auto simp: memory_ops_def memory_ok_iff memory_delete_def map_delete_def fun_eq_iff split: if_splits)
qed (auto simp: memory_ops_def memory_ok_iff memory_name)

definition table_ok :: "user_table \<Rightarrow> bool" where
  "table_ok t \<longleftrightarrow> distinct (map us_id t) \<and> distinct (map us_username t)"

lemma table_id: "table_ok t \<Longrightarrow> sqlite_get_by_id t i = Some u \<longleftrightarrow> u \<in> set t \<and> us_id u = i"
  by (simp add: table_ok_def sqlite_get_by_id_def find_eq_Some_iff)

lemma table_id_None: "sqlite_get_by_id t i = None \<longleftrightarrow> (\<forall>u \<in> set t. us_id u \<noteq> i)"
  by (simp add: sqlite_get_by_id_def find_eq_None_iff)

lemma table_name: "table_ok t \<Longrightarrow> sqlite_get_by_username t n = Some u \<longleftrightarrow> u \<in> set t \<and> us_username u = n"
  by (simp add: table_ok_def sqlite_get_by_username_def find_eq_Some_iff)

lemma table_eqI:
  assumes "table_ok t" and "\<And>i u. m i = Some u \<longleftrightarrow> u \<in> set t \<and> us_id u = i"
  shows "sqlite_get_by_id t = m"
proof (rule ext)
  fix i show "sqlite_get_by_id t i = m i"
    using assms table_id[OF assms(1), of i] by (metis not_None_eq)
qed

interpretation sqlite_directory: user_directory sqlite_ops table_ok sqlite_get_by_id
proof (unfold_locales, goal_cases)
  case (2 t i u j v)
  then show ?case by (auto simp: table_id table_ok_def distinct_map dest: inj_onD)
next
  case (5 t)
  then show ?case by (auto simp: sqlite_ops_def sqlite_list_users_def ran_def table_id)
next
  case (6 t)
  then show ?case by (auto simp: sqlite_ops_def sqlite_list_users_def table_ok_def distinct_map)
next
  case (7 t)
  then show ?case by (simp add: sqlite_ops_def sqlite_list_users_def)
next
  case (8 t u r t')
  then have new: "\<forall>x \<in> set t. us_id x \<noteq> us_id u" by (simp add: table_id_None)
  show ?case
  proof (cases "\<exists>x \<in> set t. us_username x = us_username u")
    case True
    then have "t' = t" "r = Inl (UserAlreadyExists (us_username u))" using 8
      by (auto simp: sqlite_ops_def sqlite_create_def breaks_unique_def split: if_splits)
    moreover have "\<exists>i x. sqlite_get_by_id t i = Some x \<and> us_username x = us_username u"
      using True 8(1) by (auto simp: table_id)
    ultimately show ?thesis using 8(1) by (simp add: map_create_def)
  next
    case False
    then have t': "t' = t @ [u]" "r = Inr u" using 8 new
      by (auto simp: sqlite_ops_def sqlite_create_def breaks_unique_def split: if_splits)
    then have ok: "table_ok t'" using 8 new False by (auto simp: table_ok_def image_iff)
    have "sqlite_get_by_id t' = (sqlite_get_by_id t)(us_id u \<mapsto> u)"
      using new 8(1) by (intro table_eqI ok) (auto simp: t' table_id)
    then show ?thesis using ok t'(2) False 8 by (auto simp: map_create_def table_id)
  qed
next
  case (9 t u r t')
  then show ?case
    by (cases t) (auto simp: sqlite_ops_def sqlite_create_first_def map_create_first_def table_ok_def
        sqlite_get_by_id_def fun_eq_iff split: if_splits)
next
  case (10 t i h st x t')
  let ?f = "\<lambda>u. if us_id u = i then u\<lparr>us_password_hash := h, us_updated_at := st\<rparr> else u"
  have t': "t' = map ?f t" using 10 by (auto simp: sqlite_ops_def sqlite_update_password_hash_def Let_def split: if_splits)
  have same: "map us_id t' = map us_id t" "map us_username t' = map us_username t" by (simp_all add: t' comp_def)
  then have ok: "table_ok t'" using 10 by (simp add: table_ok_def del: map_map)
  let ?m = "(sqlite_get_by_id t)(i := map_option (\<lambda>u. u\<lparr>us_password_hash := h, us_updated_at := st\<rparr>) (sqlite_get_by_id t i))"
  have "?m k = Some u \<longleftrightarrow> u \<in> set t' \<and> us_id u = k" for k u
    using 10(1) by (auto simp: t' table_id image_iff split: if_splits)
  then have m: "sqlite_get_by_id t' = ?m" by (rule table_eqI[OF ok])
  have "sqlite_get_by_id t' i = x"
    using 10 by (auto simp: sqlite_ops_def sqlite_update_password_hash_def Let_def t' table_id_None filter_empty_conv
        split: if_splits)
  then show ?case using ok m by (simp add: map_update_hash_def Let_def)
next
  case (11 t i b t')
  then have t': "t' = filter (\<lambda>u. us_id u \<noteq> i) t" "b = (sqlite_get_by_id t i \<noteq> None)"
    by (auto simp: sqlite_ops_def sqlite_delete_def table_id_None filter_empty_conv)
  then have ok: "table_ok t'" using 11 by (auto simp: table_ok_def distinct_map intro: inj_on_subset)
  have "sqlite_get_by_id t' = (sqlite_get_by_id t)(i := None)"
    using 11(1) by (intro table_eqI ok) (auto simp: t' table_id split: if_splits)
  then show ?case using ok t'(2) by (simp add: map_delete_def)
qed (auto simp: sqlite_ops_def table_id table_name)

section \<open>The two stores answer alike\<close>

datatype user_command =
    Create_user user_row
  | Create_first_user user_row
  | Update_user_hash string string string
  | Delete_user string

datatype user_answer =
    Created "user_error + user_row"
  | Updated "user_row option"
  | Deleted bool

fun user_step :: "'s user_ops \<Rightarrow> user_command \<Rightarrow> 's \<Rightarrow> user_answer \<times> 's" where
  "user_step ops (Create_user u) s = map_prod Created id (uo_create ops u s)"
| "user_step ops (Create_first_user u) s = map_prod Created id (uo_create_first ops u s)"
| "user_step ops (Update_user_hash i h stamp) s = map_prod Updated id (uo_update_password_hash ops i h stamp s)"
| "user_step ops (Delete_user i) s = map_prod Deleted id (uo_delete ops i s)"

fun user_steps :: "'s user_ops \<Rightarrow> user_command list \<Rightarrow> 's \<Rightarrow> user_answer list \<times> 's" where
  "user_steps ops [] s = ([], s)"
| "user_steps ops (c # cs) s =
     (let (a, s1) = user_step ops c s; (as, s2) = user_steps ops cs s1 in (a # as, s2))"

fun map_step :: "user_command \<Rightarrow> user_map \<Rightarrow> user_answer \<times> user_map" where
  "map_step (Create_user u) m = map_prod Created id (map_create u m)"
| "map_step (Create_first_user u) m = map_prod Created id (map_create_first u m)"
| "map_step (Update_user_hash i h stamp) m = map_prod Updated id (map_update_hash i h stamp m)"
| "map_step (Delete_user i) m = map_prod Deleted id (map_delete i m)"

fun map_steps :: "user_command list \<Rightarrow> user_map \<Rightarrow> user_answer list \<times> user_map" where
  "map_steps [] m = ([], m)"
| "map_steps (c # cs) m = (let (a, m1) = map_step c m; (as, m2) = map_steps cs m1 in (a # as, m2))"

fun created_ids :: "user_command \<Rightarrow> string list" where
  "created_ids (Create_user u) = [us_id u]"
| "created_ids (Create_first_user u) = [us_id u]"
| "created_ids _ = []"

lemma map_step_dom: "map_step c m = (a, m') \<Longrightarrow> dom m' \<subseteq> dom m \<union> set (created_ids c)"
  by (cases c) (auto simp: map_create_def map_create_first_def map_update_hash_def map_delete_def Let_def
      split: if_splits)

context user_directory
begin

lemma step_refines:
  assumes "inv s" and "set (created_ids c) \<inter> dom (view s) = {}" and "user_step ops c s = (a, s')"
  shows "inv s' \<and> map_step c (view s) = (a, view s')"
proof (cases c)
  case (Create_user u)
  then show ?thesis using assms create[of s u] by (cases "uo_create ops u s") auto
next
  case (Create_first_user u)
  then show ?thesis using assms create_first[of s u] by (cases "uo_create_first ops u s") auto
next
  case (Update_user_hash i h t)
  then show ?thesis using assms update_hash[of s i h t] by (cases "uo_update_password_hash ops i h t s") auto
next
  case (Delete_user i)
  then show ?thesis using assms delete[of s i] by (cases "uo_delete ops i s") auto
qed

lemma steps_refine:
  assumes "inv s" and "distinct (concat (map created_ids cs))" and "set (concat (map created_ids cs)) \<inter> dom (view s) = {}"
    and "user_steps ops cs s = (as, s')"
  shows "inv s' \<and> map_steps cs (view s) = (as, view s')"
  using assms
proof (induction cs arbitrary: s as s')
  case (Cons c cs)
  obtain a s1 where 1: "user_step ops c s = (a, s1)" by (rule prod.exhaust)
  obtain as1 s2 where 2: "user_steps ops cs s1 = (as1, s2)" by (rule prod.exhaust)
  have m: "inv s1" "map_step c (view s) = (a, view s1)"
    using step_refines[OF Cons.prems(1) _ 1] Cons.prems(3) by (auto simp: Int_Un_distrib2)
  have "set (concat (map created_ids cs)) \<inter> dom (view s1) = {}"
    using map_step_dom[OF m(2)] Cons.prems(2,3)
    by (simp only: concat.simps list.map set_append distinct_append) blast
  from Cons.IH[OF m(1) _ this 2] Cons.prems(2) have "inv s2 \<and> map_steps cs (view s1) = (as1, view s2)" by simp
  then show ?case using Cons.prems(4) 1 2 m(2) by simp
qed simp

end


definition demo_user_commands :: "user_command list" where
  "demo_user_commands =
     [Create_first_user (new_user ''u1'' ''t1'' ''ann'' ''h1''), Create_user (new_user ''u2'' ''t2'' ''bob'' ''h2''),
      Create_user (new_user ''u3'' ''t3'' ''ann'' ''h3''), Create_first_user (new_user ''u4'' ''t4'' ''eve'' ''h4''),
      Update_user_hash ''u2'' ''h5'' ''t5'', Delete_user ''u1'', Delete_user ''u1'']"


end
