(* ===== verification/AdminAuth.thy ===== *)
theory AdminAuth
  imports AdminUsers
begin

text \<open>
  Signing in to the administration (\<open>apps/admin/session_store.py\<close>, \<open>auth_middleware.py\<close>, \<open>passwords.py\<close> and
  the routes \<open>/api/auth\<close> and \<open>/api/users\<close> of \<open>apps/admin/main.py\<close>). bcrypt, fresh identifiers and the clock
  are arguments; the texts of refusals, which are Chinese, are constructors.
\<close>

section \<open>Sessions (session_store.py)\<close>

definition session_ttl :: int where
  "session_ttl = 12 * 3600 * us_per_second"

record admin_session =
  as_user_id :: string
  as_username :: string
  as_expires_at :: int

type_synonym session_store = "(string \<times> admin_session) list"

definition session_create :: "string \<Rightarrow> int \<Rightarrow> string \<Rightarrow> string \<Rightarrow> session_store \<Rightarrow> session_store" where
  "session_create sid now user_id username d =
     dput sid \<lparr>as_user_id = user_id, as_username = username, as_expires_at = now + session_ttl\<rparr> d"

definition session_get :: "string \<Rightarrow> int \<Rightarrow> session_store \<Rightarrow> admin_session option \<times> session_store" where
  "session_get sid now d =
     (case dget d sid of
        None \<Rightarrow> (None, d)
      | Some r \<Rightarrow> (if as_expires_at r \<le> now then (None, ddel sid d) else (Some r, d)))"

definition session_delete :: "string \<Rightarrow> session_store \<Rightarrow> session_store" where
  "session_delete sid d = ddel sid d"

definition session_delete_by_user_id :: "string \<Rightarrow> session_store \<Rightarrow> session_store" where
  "session_delete_by_user_id user_id d =
     fold ddel (map fst (filter (\<lambda>(k, r). as_user_id r = user_id) d)) d"

section \<open>The state and its surroundings\<close>

text \<open>
  \<open>ax_hash n\<close> is \<open>bcrypt.hashpw\<close> with the salt of its \<open>n\<close>-th use and may raise, \<open>ax_check\<close> is
  \<open>bcrypt.checkpw\<close>; \<open>verify_password\<close> catches its \<open>ValueError\<close>.
\<close>

record admin_ctx =
  ax_hash :: "nat \<Rightarrow> string \<Rightarrow> string res"
  ax_check :: "string \<Rightarrow> string \<Rightarrow> bool res"
  ax_user_id :: "nat \<Rightarrow> string"
  ax_session_id :: "nat \<Rightarrow> string"

record 's admin_state =
  ad_users :: 's
  ad_sessions :: session_store
  ad_count :: nat   \<comment> \<open>how many identifiers and salts have been used\<close>

definition verify_password :: "admin_ctx \<Rightarrow> string \<Rightarrow> string \<Rightarrow> bool res" where
  "verify_password ax plain password_hash =
     (case ax_check ax plain password_hash of Inl (ValueError _) \<Rightarrow> Inr False | r \<Rightarrow> r)"

datatype refusal =
    Bad_username | Bad_password | Users_exist | Username_taken | Wrong_credentials
  | Not_signed_in | User_missing | Wrong_old_password | Same_password

datatype admin_answer =
    Refused nat refusal
  | To_login_page
  | Auth_status bool bool "pydict option"
  | Signed_in pydict string   \<comment> \<open>with the cookie that is set\<close>
  | Signed_out
  | One_user pydict
  | All_users "pydict list"
  | User_created pydict
  | User_removed string
  | Password_changed
  | Server_error pyerr

section \<open>The middleware (auth_middleware.py)\<close>

definition upper_ascii :: "char \<Rightarrow> char" where
  "upper_ascii c = (let n = of_char c :: nat in if 97 \<le> n \<and> n \<le> 122 then char_of (n - 32) else c)"

definition public_exact :: "(string \<times> string) set" where
  "public_exact =
     {(''GET'', ''/healthz''), (''GET'', ''/login''), (''GET'', ''/api/auth/status''),
      (''POST'', ''/api/auth/login''), (''POST'', ''/api/auth/bootstrap''), (''POST'', ''/api/auth/logout'')}"

definition is_public :: "string \<Rightarrow> string \<Rightarrow> bool" where
  "is_public verb path \<longleftrightarrow> starts_with path ''/assets/'' \<or> (map upper_ascii verb, path) \<in> public_exact"

text \<open>The session of a cookie, if it is live and its user still exists; a dead one is forgotten.\<close>

definition current_session ::
    "'s user_ops \<Rightarrow> int \<Rightarrow> string option \<Rightarrow> 's admin_state \<Rightarrow> admin_session option \<times> 's admin_state" where
  "current_session ops now cookie st =
     (case cookie of
        None \<Rightarrow> (None, st)
      | Some sid \<Rightarrow>
          (if sid = [] then (None, st)
           else case session_get sid now (ad_sessions st) of
                  (None, d) \<Rightarrow> (None, st\<lparr>ad_sessions := d\<rparr>)
                | (Some r, d) \<Rightarrow>
                    (if uo_get_by_id ops (ad_users st) (as_user_id r) = None
                     then (None, st\<lparr>ad_sessions := session_delete sid d\<rparr>)
                     else (Some r, st\<lparr>ad_sessions := d\<rparr>))))"

definition admin_middleware ::
    "'s user_ops \<Rightarrow> int \<Rightarrow> string \<Rightarrow> string \<Rightarrow> string option
     \<Rightarrow> (admin_session option \<Rightarrow> 's admin_state \<Rightarrow> admin_answer \<times> 's admin_state)
     \<Rightarrow> 's admin_state \<Rightarrow> admin_answer \<times> 's admin_state" where
  "admin_middleware ops now verb path cookie call_next st =
     (let (user, st1) = current_session ops now cookie st in
      if is_public verb path \<or> user \<noteq> None then call_next user st1
      else if starts_with path ''/api/'' then (Refused 401 Not_signed_in, st1)
      else (To_login_page, st1))"

section \<open>The routes (main.py)\<close>

definition stored_user :: "'s user_ops \<Rightarrow> admin_session option \<Rightarrow> 's admin_state \<Rightarrow> user_row option" where
  "stored_user ops user st =
     (case user of None \<Rightarrow> None | Some r \<Rightarrow> uo_get_by_id ops (ad_users st) (as_user_id r))"

definition auth_status :: "'s user_ops \<Rightarrow> admin_session option \<Rightarrow> 's admin_state \<Rightarrow> admin_answer" where
  "auth_status ops user st =
     (let u = stored_user ops user st
      in Auth_status (u \<noteq> None) (uo_count ops (ad_users st) = 0) (map_option public_user u))"

definition sign_in :: "admin_ctx \<Rightarrow> int \<Rightarrow> user_row \<Rightarrow> 's admin_state \<Rightarrow> admin_answer \<times> 's admin_state" where
  "sign_in ax now u st =
     (let sid = ax_session_id ax (ad_count st)
      in (Signed_in (public_user u) sid,
          st\<lparr>ad_sessions := session_create sid now (us_id u) (us_username u) (ad_sessions st),
             ad_count := Suc (ad_count st)\<rparr>))"

definition made_user :: "admin_ctx \<Rightarrow> int \<Rightarrow> string \<Rightarrow> string \<Rightarrow> nat \<Rightarrow> user_row" where
  "made_user ax now username password_hash n = new_user (ax_user_id ax n) (iso_format now) username password_hash"

definition auth_bootstrap ::
    "'s user_ops \<Rightarrow> admin_ctx \<Rightarrow> int \<Rightarrow> string \<Rightarrow> string \<Rightarrow> 's admin_state \<Rightarrow> admin_answer \<times> 's admin_state" where
  "auth_bootstrap ops ax now username password st =
     (if username_error username then (Refused 400 Bad_username, st)
      else if password_error password then (Refused 400 Bad_password, st)
      else case ax_hash ax (ad_count st) password of
             Inl e \<Rightarrow> (Server_error e, st)
           | Inr h \<Rightarrow>
               (case uo_create_first ops (made_user ax now username h (ad_count st)) (ad_users st) of
                  (Inl UsersAlreadyExist, us) \<Rightarrow> (Refused 409 Users_exist, st\<lparr>ad_users := us, ad_count := Suc (ad_count st)\<rparr>)
                | (Inl (UserAlreadyExists _), us) \<Rightarrow>
                    (Refused 409 Username_taken, st\<lparr>ad_users := us, ad_count := Suc (ad_count st)\<rparr>)
                | (Inr u, us) \<Rightarrow> sign_in ax now u (st\<lparr>ad_users := us, ad_count := Suc (ad_count st)\<rparr>)))"

definition auth_login ::
    "'s user_ops \<Rightarrow> admin_ctx \<Rightarrow> int \<Rightarrow> string \<Rightarrow> string \<Rightarrow> 's admin_state \<Rightarrow> admin_answer \<times> 's admin_state" where
  "auth_login ops ax now username password st =
     (case uo_get_by_username ops (ad_users st) username of
        None \<Rightarrow> (Refused 401 Wrong_credentials, st)
      | Some u \<Rightarrow>
          (case verify_password ax password (us_password_hash u) of
             Inl e \<Rightarrow> (Server_error e, st)
           | Inr ok \<Rightarrow> (if ok then sign_in ax now u st else (Refused 401 Wrong_credentials, st))))"

definition auth_logout :: "string option \<Rightarrow> 's admin_state \<Rightarrow> admin_answer \<times> 's admin_state" where
  "auth_logout cookie st =
     (Signed_out,
      if cookie = None \<or> cookie = Some [] then st
      else st\<lparr>ad_sessions := session_delete (the cookie) (ad_sessions st)\<rparr>)"

definition auth_me :: "'s user_ops \<Rightarrow> admin_session option \<Rightarrow> 's admin_state \<Rightarrow> admin_answer" where
  "auth_me ops user st =
     (case stored_user ops user st of None \<Rightarrow> Refused 401 Not_signed_in | Some u \<Rightarrow> One_user (public_user u))"

definition admin_list_users :: "'s user_ops \<Rightarrow> 's admin_state \<Rightarrow> admin_answer" where
  "admin_list_users ops st = All_users (map public_user (uo_list_users ops (ad_users st)))"

definition admin_create_user ::
    "'s user_ops \<Rightarrow> admin_ctx \<Rightarrow> int \<Rightarrow> string \<Rightarrow> string \<Rightarrow> 's admin_state \<Rightarrow> admin_answer \<times> 's admin_state" where
  "admin_create_user ops ax now username password st =
     (if username_error username then (Refused 400 Bad_username, st)
      else if password_error password then (Refused 400 Bad_password, st)
      else case ax_hash ax (ad_count st) password of
             Inl e \<Rightarrow> (Server_error e, st)
           | Inr h \<Rightarrow>
               (case uo_create ops (made_user ax now username h (ad_count st)) (ad_users st) of
                  (Inl (UserAlreadyExists _), us) \<Rightarrow>
                    (Refused 409 Username_taken, st\<lparr>ad_users := us, ad_count := Suc (ad_count st)\<rparr>)
                | (Inl UsersAlreadyExist, us) \<Rightarrow>
                    (Server_error (OtherError ''UsersAlreadyExist''), st\<lparr>ad_users := us, ad_count := Suc (ad_count st)\<rparr>)
                | (Inr u, us) \<Rightarrow> (User_created (public_user u), st\<lparr>ad_users := us, ad_count := Suc (ad_count st)\<rparr>)))"

definition admin_delete_user :: "'s user_ops \<Rightarrow> string \<Rightarrow> 's admin_state \<Rightarrow> admin_answer \<times> 's admin_state" where
  "admin_delete_user ops user_id st =
     (case uo_get_by_id ops (ad_users st) user_id of
        None \<Rightarrow> (Refused 404 User_missing, st)
      | Some _ \<Rightarrow>
          (User_removed user_id,
           st\<lparr>ad_users := snd (uo_delete ops user_id (ad_users st)),
              ad_sessions := session_delete_by_user_id user_id (ad_sessions st)\<rparr>))"

definition change_my_password ::
    "'s user_ops \<Rightarrow> admin_ctx \<Rightarrow> int \<Rightarrow> string \<Rightarrow> string \<Rightarrow> admin_session option \<Rightarrow> 's admin_state
     \<Rightarrow> admin_answer \<times> 's admin_state" where
  "change_my_password ops ax now old_password new_password user st =
     (if password_error new_password then (Refused 400 Bad_password, st)
      else case stored_user ops user st of
             None \<Rightarrow> (Refused 401 Not_signed_in, st)
           | Some u \<Rightarrow>
               (case verify_password ax old_password (us_password_hash u) of
                  Inl e \<Rightarrow> (Server_error e, st)
                | Inr False \<Rightarrow> (Refused 400 Wrong_old_password, st)
                | Inr True \<Rightarrow>
                    (if old_password = new_password then (Refused 400 Same_password, st)
                     else case ax_hash ax (ad_count st) new_password of
                            Inl e \<Rightarrow> (Server_error e, st)
                          | Inr h \<Rightarrow>
                              (Password_changed,
                               st\<lparr>ad_users := snd (uo_update_password_hash ops (us_id u) h (iso_format now) (ad_users st)),
                                  ad_count := Suc (ad_count st)\<rparr>))))"

section \<open>Requests\<close>

datatype admin_call =
    Call_status
  | Call_bootstrap string string
  | Call_login string string
  | Call_logout
  | Call_me
  | Call_list_users
  | Call_create_user string string
  | Call_delete_user string
  | Call_change_password string string

text \<open>The decorators of the routes: verb and path.\<close>

fun call_route :: "admin_call \<Rightarrow> string \<times> string" where
  "call_route Call_status = (''GET'', ''/api/auth/status'')"
| "call_route (Call_bootstrap _ _) = (''POST'', ''/api/auth/bootstrap'')"
| "call_route (Call_login _ _) = (''POST'', ''/api/auth/login'')"
| "call_route Call_logout = (''POST'', ''/api/auth/logout'')"
| "call_route Call_me = (''GET'', ''/api/auth/me'')"
| "call_route Call_list_users = (''GET'', ''/api/users'')"
| "call_route (Call_create_user _ _) = (''POST'', ''/api/users'')"
| "call_route (Call_delete_user i) = (''DELETE'', ''/api/users/'' @ i)"
| "call_route (Call_change_password _ _) = (''POST'', ''/api/users/me/password'')"

fun run_call ::
    "'s user_ops \<Rightarrow> admin_ctx \<Rightarrow> int \<Rightarrow> string option \<Rightarrow> admin_call \<Rightarrow> admin_session option \<Rightarrow> 's admin_state
     \<Rightarrow> admin_answer \<times> 's admin_state" where
  "run_call ops ax now cookie Call_status user st = (auth_status ops user st, st)"
| "run_call ops ax now cookie (Call_bootstrap n p) user st = auth_bootstrap ops ax now n p st"
| "run_call ops ax now cookie (Call_login n p) user st = auth_login ops ax now n p st"
| "run_call ops ax now cookie Call_logout user st = auth_logout cookie st"
| "run_call ops ax now cookie Call_me user st = (auth_me ops user st, st)"
| "run_call ops ax now cookie Call_list_users user st = (admin_list_users ops st, st)"
| "run_call ops ax now cookie (Call_create_user n p) user st = admin_create_user ops ax now n p st"
| "run_call ops ax now cookie (Call_delete_user i) user st = admin_delete_user ops i st"
| "run_call ops ax now cookie (Call_change_password old new) user st = change_my_password ops ax now old new user st"

definition admin_serve ::
    "'s user_ops \<Rightarrow> admin_ctx \<Rightarrow> int \<Rightarrow> string option \<Rightarrow> admin_call \<Rightarrow> 's admin_state
     \<Rightarrow> admin_answer \<times> 's admin_state" where
  "admin_serve ops ax now cookie c st =
     admin_middleware ops now (fst (call_route c)) (snd (call_route c)) cookie (run_call ops ax now cookie c) st"

text \<open>What has been served: the time, the cookie, the call and its answer, in order.\<close>

type_synonym served = "int \<times> string option \<times> admin_call \<times> admin_answer"

inductive admin_run ::
    "'s user_ops \<Rightarrow> admin_ctx \<Rightarrow> 's admin_state \<Rightarrow> served list \<Rightarrow> 's admin_state \<Rightarrow> bool"
  for ops ax st0 where
  admin_start: "admin_run ops ax st0 [] st0"
| admin_next: "admin_run ops ax st0 es st \<Longrightarrow> admin_serve ops ax now cookie c st = (a, st')
    \<Longrightarrow> admin_run ops ax st0 (es @ [(now, cookie, c, a)]) st'"

inductive_cases admin_run_snoc: "admin_run ops ax st0 (es @ [e]) st"

section \<open>What the middleware lets through\<close>

fun public_call :: "admin_call \<Rightarrow> bool" where
  "public_call Call_status = True"
| "public_call (Call_bootstrap _ _) = True"
| "public_call (Call_login _ _) = True"
| "public_call Call_logout = True"
| "public_call _ = False"

fun signs_in :: "admin_call \<Rightarrow> bool" where
  "signs_in (Call_login _ _) = True"
| "signs_in (Call_bootstrap _ _) = True"
| "signs_in _ = False"

lemma route_is_public: "is_public (fst (call_route c)) (snd (call_route c)) = public_call c"
  by (cases c) (simp_all add: is_public_def public_exact_def starts_with_def upper_ascii_def)

lemma route_is_api: "starts_with (snd (call_route c)) ''/api/''"
  by (cases c) (simp_all add: starts_with_def)

lemma current_session_Some_iff:
  "current_session ops now cookie st = (Some r, st1) \<longleftrightarrow>
     (\<exists>sid. cookie = Some sid \<and> sid \<noteq> [] \<and> dget (ad_sessions st) sid = Some r \<and> now < as_expires_at r
        \<and> uo_get_by_id ops (ad_users st) (as_user_id r) \<noteq> None \<and> st1 = st)"
  by (auto simp: current_session_def session_get_def split: option.splits if_splits)

lemma current_session_keeps:
  assumes "current_session ops now cookie st = (x, st1)"
  shows "ad_users st1 = ad_users st" "ad_count st1 = ad_count st"
    "dget (ad_sessions st1) sid = Some r \<Longrightarrow> dget (ad_sessions st) sid = Some r"
  using assms by (auto simp: current_session_def session_get_def session_delete_def
      split: option.splits if_splits prod.splits)

lemma serve_private:
  assumes "admin_serve ops ax now cookie c st = (a, st')" and "\<not> public_call c" and "a \<noteq> Refused 401 Not_signed_in"
  obtains sid r where "cookie = Some sid" "sid \<noteq> []" "dget (ad_sessions st) sid = Some r" "now < as_expires_at r"
    "uo_get_by_id ops (ad_users st) (as_user_id r) \<noteq> None" "run_call ops ax now cookie c (Some r) st = (a, st')"
proof -
  obtain user st1 where cur: "current_session ops now cookie st = (user, st1)" by (rule prod.exhaust)
  then obtain r where "user = Some r" using assms
    by (cases user) (simp_all add: admin_serve_def admin_middleware_def route_is_public route_is_api)
  then show ?thesis using that assms cur
    by (auto simp: admin_serve_def admin_middleware_def route_is_public current_session_Some_iff)
qed

lemma fold_ddel: "dget (fold ddel ks d) k = (if k \<in> set ks then None else dget d k)"
  by (induction ks arbitrary: d) auto

lemma delete_by_user_id_get:
  assumes "dget (session_delete_by_user_id u d) k = Some r"
  shows "dget d k = Some r \<and> as_user_id r \<noteq> u"
proof -
  have k: "k \<notin> set (map fst (filter (\<lambda>(k, r). as_user_id r = u) d))" and r: "dget d k = Some r"
    using assms unfolding session_delete_by_user_id_def fold_ddel by (auto split: if_splits)
  from r have "(k, r) \<in> set d" by (rule map_of_SomeD)
  then show ?thesis using k r by force
qed

section \<open>Where sessions come from\<close>

lemma sign_in_session:
  assumes "sign_in ax now u st = (a, st')" and "dget (ad_sessions st') sid = Some r"
  shows "dget (ad_sessions st) sid = Some r \<and> (\<forall>i. a \<noteq> User_removed i)
    \<or> (\<exists>pu. a = Signed_in pu sid \<and> dget pu ''id'' = Some (PStr (as_user_id r)) \<and> as_expires_at r = now + session_ttl)"
  using assms by (auto simp: sign_in_def session_create_def public_user_def Let_def split: if_splits)

text \<open>A session after a call was there before, and the call ended neither it nor its user, or the call made it.\<close>

lemma run_call_session:
  assumes "run_call ops ax now cookie c user st = (a, st')" and "dget (ad_sessions st') sid = Some r" and "sid \<noteq> []"
  shows "dget (ad_sessions st) sid = Some r \<and> \<not> (c = Call_logout \<and> cookie = Some sid) \<and> a \<noteq> User_removed (as_user_id r)
    \<or> (\<exists>pu. a = Signed_in pu sid \<and> signs_in c \<and> dget pu ''id'' = Some (PStr (as_user_id r))
         \<and> as_expires_at r = now + session_ttl)"
proof (cases c)
  case (Call_bootstrap n p)
  then show ?thesis using assms
    by (auto simp: auth_bootstrap_def split: if_splits sum.splits prod.splits user_error.splits dest!: sign_in_session)
next
  case (Call_login n p)
  then show ?thesis using assms
    by (auto simp: auth_login_def split: if_splits sum.splits option.splits dest!: sign_in_session)
next
  case Call_logout
  then show ?thesis using assms by (auto simp: auth_logout_def session_delete_def split: if_splits)
next
  case (Call_create_user n p)
  then show ?thesis using assms
    by (auto simp: admin_create_user_def split: if_splits sum.splits prod.splits user_error.splits)
next
  case (Call_delete_user i)
  then show ?thesis using assms
    by (auto simp: admin_delete_user_def split: option.splits dest!: delete_by_user_id_get)
next
  case (Call_change_password old new)
  then show ?thesis using assms
    by (auto simp: change_my_password_def split: if_splits sum.splits option.splits bool.splits)
qed (use assms in \<open>auto simp: auth_status_def auth_me_def admin_list_users_def Let_def split: option.splits\<close>)

lemma serve_session:
  assumes "admin_serve ops ax now cookie c st = (a, st')" and "dget (ad_sessions st') sid = Some r" and "sid \<noteq> []"
  shows "dget (ad_sessions st) sid = Some r \<and> \<not> (c = Call_logout \<and> cookie = Some sid) \<and> a \<noteq> User_removed (as_user_id r)
    \<or> (\<exists>pu. a = Signed_in pu sid \<and> signs_in c \<and> dget pu ''id'' = Some (PStr (as_user_id r))
         \<and> as_expires_at r = now + session_ttl)"
proof -
  obtain user st1 where cur: "current_session ops now cookie st = (user, st1)" by (rule prod.exhaust)
  note keep = current_session_keeps(3)[OF cur]
  show ?thesis
  proof (cases "public_call c \<or> user \<noteq> None")
    case True
    then have "run_call ops ax now cookie c user st1 = (a, st')"
      using assms(1) cur by (simp add: admin_serve_def admin_middleware_def route_is_public)
    from run_call_session[OF this assms(2,3)] keep show ?thesis by blast
  next
    case False
    then have "st' = st1" "a = Refused 401 Not_signed_in" "c \<noteq> Call_logout"
      using assms(1) cur by (auto simp: admin_serve_def admin_middleware_def route_is_public route_is_api)
    then show ?thesis using assms(2) keep by simp
  qed
qed

text \<open>The entry \<open>sid\<close> was made by a sign-in of the history, and nothing after it ended the session or its user.\<close>

definition signed_in_by :: "served list \<Rightarrow> string \<Rightarrow> admin_session \<Rightarrow> bool" where
  "signed_in_by es sid r \<longleftrightarrow>
     (\<exists>es1 t ck c pu es2. es = es1 @ (t, ck, c, Signed_in pu sid) # es2 \<and> signs_in c
        \<and> dget pu ''id'' = Some (PStr (as_user_id r)) \<and> as_expires_at r = t + session_ttl
        \<and> (\<forall>(t', ck', c', a') \<in> set es2. \<not> (c' = Call_logout \<and> ck' = Some sid) \<and> a' \<noteq> User_removed (as_user_id r)))"

lemma signed_in_by_snoc:
  assumes "signed_in_by es sid r" and "\<not> (c = Call_logout \<and> cookie = Some sid)" and "a \<noteq> User_removed (as_user_id r)"
  shows "signed_in_by (es @ [(now, cookie, c, a)]) sid r"
proof -
  obtain es1 t ck d pu es2 where e: "es = es1 @ (t, ck, d, Signed_in pu sid) # es2" "signs_in d"
    "dget pu ''id'' = Some (PStr (as_user_id r))" "as_expires_at r = t + session_ttl"
    "\<forall>(t', ck', c', a') \<in> set es2. \<not> (c' = Call_logout \<and> ck' = Some sid) \<and> a' \<noteq> User_removed (as_user_id r)"
    using assms(1) unfolding signed_in_by_def by blast
  show ?thesis unfolding signed_in_by_def
    by (intro exI[of _ es1] exI[of _ t] exI[of _ ck] exI[of _ d] exI[of _ pu] exI[of _ "es2 @ [(now, cookie, c, a)]"])
      (use e assms(2,3) in auto)
qed

lemma sessions_signed_in:
  assumes "admin_run ops ax st0 es st" and "ad_sessions st0 = []" and "sid \<noteq> []" and "dget (ad_sessions st) sid = Some r"
  shows "signed_in_by es sid r"
  using assms(1,4)
proof (induction arbitrary: r rule: admin_run.induct)
  case admin_start
  then show ?case using assms(2) by simp
next
  case (admin_next es st now cookie c a st')
  from serve_session[OF admin_next.hyps(2) admin_next.prems assms(3)] show ?case
  proof
    assume "dget (ad_sessions st) sid = Some r \<and> \<not> (c = Call_logout \<and> cookie = Some sid) \<and> a \<noteq> User_removed (as_user_id r)"
    then show ?thesis using admin_next.IH signed_in_by_snoc by blast
  next
    assume "\<exists>pu. a = Signed_in pu sid \<and> signs_in c \<and> dget pu ''id'' = Some (PStr (as_user_id r))
      \<and> as_expires_at r = now + session_ttl"
    then show ?thesis unfolding signed_in_by_def by fastforce
  qed
qed

text \<open>
  C14: A call that is not public is served only on a session: its cookie was set by an earlier login or
  bootstrap, less than twelve hours ago, as the user of that sign-in; since then no call has logged
  that cookie out or removed that user, and the user is still in the store.
\<close>
theorem private_call_follows_sign_in:
  assumes "admin_run ops ax st0 es st" and "ad_sessions st0 = []"
    and "admin_serve ops ax now cookie c st = (a, st')" and "\<not> public_call c" and "a \<noteq> Refused 401 Not_signed_in"
  shows "\<exists>sid es1 t ck d pu es2 i u. cookie = Some sid \<and> es = es1 @ (t, ck, d, Signed_in pu sid) # es2 \<and> signs_in d
    \<and> now < t + session_ttl \<and> dget pu ''id'' = Some (PStr i) \<and> uo_get_by_id ops (ad_users st) i = Some u
    \<and> (\<forall>(t', ck', c', a') \<in> set es2. \<not> (c' = Call_logout \<and> ck' = Some sid) \<and> a' \<noteq> User_removed i)"
proof -
  obtain sid r where r: "cookie = Some sid" "sid \<noteq> []" "dget (ad_sessions st) sid = Some r" "now < as_expires_at r"
    "uo_get_by_id ops (ad_users st) (as_user_id r) \<noteq> None"
    by (rule serve_private[OF assms(3-5)])
  from sessions_signed_in[OF assms(1,2) r(2,3)] show ?thesis
    using r unfolding signed_in_by_def by fastforce
qed

section \<open>Signing in\<close>

lemma serve_public:
  assumes "public_call c"
  obtains user st1 where "current_session ops now cookie st = (user, st1)"
    "admin_serve ops ax now cookie c st = run_call ops ax now cookie c user st1" "ad_users st1 = ad_users st"
    "ad_count st1 = ad_count st"
proof -
  obtain user st1 where cur: "current_session ops now cookie st = (user, st1)" by (rule prod.exhaust)
  moreover have "admin_serve ops ax now cookie c st = run_call ops ax now cookie c user st1"
    using assms cur by (simp add: admin_serve_def admin_middleware_def route_is_public)
  ultimately show ?thesis using that current_session_keeps(1,2)[OF cur] by blast
qed

text \<open>
  A login signs in exactly when a user of that name is stored and the password verifies against
  the stored hash; it changes no user.
\<close>
theorem login_iff_password:
  "(\<exists>pu sid. fst (admin_serve ops ax now cookie (Call_login n p) st) = Signed_in pu sid)
     \<longleftrightarrow> (\<exists>u. uo_get_by_username ops (ad_users st) n = Some u \<and> verify_password ax p (us_password_hash u) = Inr True)"
  "ad_users (snd (admin_serve ops ax now cookie (Call_login n p) st)) = ad_users st"
proof -
  obtain user st1 where s: "admin_serve ops ax now cookie (Call_login n p) st = auth_login ops ax now n p st1"
      "ad_users st1 = ad_users st"
    using serve_public[of "Call_login n p" ops now cookie st ax] by (metis public_call.simps(3) run_call.simps(3))
  show "(\<exists>pu sid. fst (admin_serve ops ax now cookie (Call_login n p) st) = Signed_in pu sid)
     \<longleftrightarrow> (\<exists>u. uo_get_by_username ops (ad_users st) n = Some u \<and> verify_password ax p (us_password_hash u) = Inr True)"
    by (auto simp: s auth_login_def sign_in_def Let_def split: option.splits sum.splits if_splits)
  show "ad_users (snd (admin_serve ops ax now cookie (Call_login n p) st)) = ad_users st"
    by (auto simp: s auth_login_def sign_in_def Let_def split: option.splits sum.splits if_splits)
qed

context user_directory
begin

lemma reopened:
  assumes "inv (ad_users st)" and "view (ad_users st) = [i \<mapsto> u]" and "dget (ad_sessions st) sid = Some r"
    and "as_user_id r = i" and "now < as_expires_at r" and "sid \<noteq> []"
  shows "fst (admin_serve ops ax now (Some sid) (Call_delete_user i) st) = User_removed i
    \<and> inv (ad_users (snd (admin_serve ops ax now (Some sid) (Call_delete_user i) st)))
    \<and> view (ad_users (snd (admin_serve ops ax now (Some sid) (Call_delete_user i) st))) = Map.empty"
proof -
  have g: "uo_get_by_id ops (ad_users st) i = Some u" using assms(1,2) by (simp add: get_by_id)
  then have "current_session ops now (Some sid) st = (Some r, st)"
    using assms by (simp add: current_session_Some_iff)
  then have e: "admin_serve ops ax now (Some sid) (Call_delete_user i) st = admin_delete_user ops i st"
    by (simp add: admin_serve_def admin_middleware_def)
  obtain b us where d: "uo_delete ops i (ad_users st) = (b, us)" by (rule prod.exhaust)
  from delete[OF assms(1) d] have "inv us" "view us = Map.empty"
    using assms(2) by (auto simp: map_delete_def)
  then show ?thesis using g d by (simp add: e admin_delete_user_def)
qed

lemma bootstrap_of_empty:
  assumes "inv (ad_users st)" and "view (ad_users st) = Map.empty" and "\<not> username_error n" "\<not> password_error p"
    and "\<And>k. \<exists>h. ax_hash ax k p = Inr h"
  shows "\<exists>pu sid. fst (admin_serve ops ax now cookie (Call_bootstrap n p) st) = Signed_in pu sid"
proof -
  obtain user st1 where s: "admin_serve ops ax now cookie (Call_bootstrap n p) st = auth_bootstrap ops ax now n p st1"
      "ad_users st1 = ad_users st"
    using serve_public[of "Call_bootstrap n p" ops now cookie st ax] by (metis public_call.simps(2) run_call.simps(2))
  obtain h where h: "ax_hash ax (ad_count st1) p = Inr h" using assms(5) by blast
  obtain x us where c: "uo_create_first ops (made_user ax now n h (ad_count st1)) (ad_users st) = (x, us)" by (rule prod.exhaust)
  then have "x = Inr (made_user ax now n h (ad_count st1))"
    using create_first[OF assms(1) c] assms(2) by (auto simp: map_create_first_def)
  then show ?thesis using s h c assms(3,4) by (auto simp: auth_bootstrap_def sign_in_def Let_def)
qed

lemma password_change_session:
  assumes "inv (ad_users st)" and "admin_serve ops ax now cookie (Call_change_password old new) st = (Password_changed, st')"
    and "current_session ops now (Some sid) st = (Some r, st)"
  shows "current_session ops now (Some sid) st' = (Some r, st')"
proof -
  obtain sid' r' where r': "run_call ops ax now cookie (Call_change_password old new) (Some r') st = (Password_changed, st')"
    by (rule serve_private[OF assms(2)]) auto
  have "\<exists>(u :: user_row) h. ad_users st' = snd (uo_update_password_hash ops (us_id u) h (iso_format now) (ad_users st))
      \<and> ad_sessions st' = ad_sessions st"
    using r' by (auto simp: change_my_password_def split: if_splits option.splits sum.splits bool.splits) blast
  then obtain u :: user_row and h where u: "ad_users st' = snd (uo_update_password_hash ops (us_id u) h (iso_format now) (ad_users st))"
      "ad_sessions st' = ad_sessions st" by blast
  obtain x us where x: "uo_update_password_hash ops (us_id u) h (iso_format now) (ad_users st) = (x, us)" by (rule prod.exhaust)
  from update_hash[OF assms(1) x] have us: "inv us" "view us = (view (ad_users st))(us_id u := map_option
      (\<lambda>u. u\<lparr>us_password_hash := h, us_updated_at := iso_format now\<rparr>) (view (ad_users st) (us_id u)))"
    by (auto simp: map_update_hash_def Let_def)
  from assms(3) have c: "sid \<noteq> []" "dget (ad_sessions st) sid = Some r" "now < as_expires_at r"
      "view (ad_users st) (as_user_id r) \<noteq> None"
    using assms(1) by (auto simp: current_session_Some_iff get_by_id)
  moreover have "view us (as_user_id r) \<noteq> None" using c(4) by (auto simp: us)
  ultimately show ?thesis using u x us(1) by (simp add: current_session_Some_iff get_by_id)
qed

end

text \<open>
  Over SQLite, a bootstrap signs in only while there is no user, with a valid name and password, and
  leaves exactly the one user it made; while there is a user every bootstrap is refused and changes
  no user.
\<close>
theorem bootstrap_once:
  assumes "admin_serve sqlite_ops ax now cookie (Call_bootstrap n p) st = (a, st')"
  shows "if ad_users st = [] \<and> (\<exists>pu sid. a = Signed_in pu sid)
    then \<not> username_error n \<and> \<not> password_error p \<and> (\<exists>u. ad_users st' = [u] \<and> us_username u = n)
    else (\<nexists>pu sid. a = Signed_in pu sid) \<and> ad_users st' = ad_users st"
proof -
  obtain user st1 where s: "auth_bootstrap sqlite_ops ax now n p st1 = (a, st')" "ad_users st1 = ad_users st"
    using serve_public[of "Call_bootstrap n p" sqlite_ops now cookie st ax] assms
    by (metis public_call.simps(2) run_call.simps(2))
  show ?thesis
  proof (cases "ax_hash ax (ad_count st1) p")
    case (Inl e)
    then show ?thesis using s by (auto simp: auth_bootstrap_def split: if_splits)
  next
    case (Inr h)
    let ?u = "made_user ax now n h (ad_count st1)"
    have u: "us_username ?u = n" by (simp add: made_user_def new_user_def)
    show ?thesis
    proof (cases "ad_users st = []")
      case True
      then show ?thesis using s Inr u
        by (auto simp: auth_bootstrap_def sqlite_ops_def sqlite_create_first_def sign_in_def Let_def split: if_splits)
    next
      case False
      then show ?thesis using s Inr
        by (auto simp: auth_bootstrap_def sqlite_ops_def sqlite_create_first_def split: if_splits)
    qed
  qed
qed

text \<open>
  The last user may remove itself, and then the public bootstrap is open again: whoever calls it next,
  without a cookie, becomes the administrator.
\<close>
theorem last_user_reopens_bootstrap:
  assumes "ad_users st = [u]" and "dget (ad_sessions st) sid = Some r" and "as_user_id r = us_id u"
    and "now < as_expires_at r" and "sid \<noteq> []"
    and "\<not> username_error n" and "\<not> password_error p" and "\<And>k. \<exists>h. ax_hash ax k p = Inr h"
  shows "\<exists>st1 pu sid'. admin_serve sqlite_ops ax now (Some sid) (Call_delete_user (us_id u)) st = (User_removed (us_id u), st1)
    \<and> fst (admin_serve sqlite_ops ax now None (Call_bootstrap n p) st1) = Signed_in pu sid'"
proof -
  have ok: "table_ok (ad_users st)" using assms(1) by (simp add: table_ok_def)
  have v: "sqlite_get_by_id (ad_users st) = [us_id u \<mapsto> u]"
    using assms(1) by (simp add: sqlite_get_by_id_def fun_eq_iff)
  let ?d = "admin_serve sqlite_ops ax now (Some sid) (Call_delete_user (us_id u)) st"
  from sqlite_directory.reopened[OF ok v assms(2,3,4,5), of ax]
  have d: "fst ?d = User_removed (us_id u)" "table_ok (ad_users (snd ?d))"
    "sqlite_get_by_id (ad_users (snd ?d)) = Map.empty" by auto
  from sqlite_directory.bootstrap_of_empty[OF d(2,3) assms(6-8), of now None]
  show ?thesis using d(1) by (metis prod.collapse)
qed

text \<open>
  Changing a password ends no session: every other session of the user stays signed in.
\<close>
theorem password_change_keeps_sessions:
  assumes "table_ok (ad_users st)"
    and "admin_serve sqlite_ops ax now cookie (Call_change_password old new) st = (Password_changed, st')"
    and "current_session sqlite_ops now (Some sid) st = (Some r, st)"
  shows "current_session sqlite_ops now (Some sid) st' = (Some r, st')"
  by (rule sqlite_directory.password_change_session[OF assms])

section \<open>A concrete administration\<close>

text \<open>A demonstration hash that keeps the password; it stands for bcrypt in the examples only.\<close>

definition demo_admin_ctx :: admin_ctx where
  "demo_admin_ctx =
     \<lparr>ax_hash = (\<lambda>_ p. Inr (''#'' @ p)), ax_check = (\<lambda>p h. Inr (h = ''#'' @ p)), ax_user_id = (\<lambda>n. ''u'' @ nat_str n),
      ax_session_id = (\<lambda>n. ''s'' @ nat_str n)\<rparr>"

definition demo_admin :: "user_table admin_state" where
  "demo_admin = \<lparr>ad_users = [], ad_sessions = [], ad_count = 0\<rparr>"

definition demo_signed_in :: "user_table admin_state" where
  "demo_signed_in = snd (admin_serve sqlite_ops demo_admin_ctx 0 None (Call_bootstrap ''ann'' ''password'') demo_admin)"

lemma demo_signed_in_eq:
  "demo_signed_in =
     \<lparr>ad_users = [new_user ''u0'' ''1970-01-01T00:00:00+00:00'' ''ann'' ''#password''],
      ad_sessions = [(''s1'', \<lparr>as_user_id = ''u0'', as_username = ''ann'', as_expires_at = session_ttl\<rparr>)], ad_count = 2\<rparr>"
  by code_simp

lemma demo_bootstrap:
  "admin_serve sqlite_ops demo_admin_ctx 0 None (Call_bootstrap ''ann'' ''password'') demo_admin
     = (Signed_in (public_user (new_user ''u0'' ''1970-01-01T00:00:00+00:00'' ''ann'' ''#password'')) ''s1'', demo_signed_in)"
  by code_simp

theorem bootstrap_once_witness: "\<exists>u. ad_users demo_signed_in = [u] \<and> us_username u = ''ann''"
  using bootstrap_once[OF demo_bootstrap] by (simp add: demo_admin_def)

theorem private_call_follows_sign_in_witness:
  "fst (admin_serve sqlite_ops demo_admin_ctx 1 (Some ''s1'') Call_list_users demo_signed_in) \<noteq> Refused 401 Not_signed_in
   \<and> 1 < 0 + session_ttl"
proof -
  have a: "fst (admin_serve sqlite_ops demo_admin_ctx 1 (Some ''s1'') Call_list_users demo_signed_in) \<noteq> Refused 401 Not_signed_in"
    unfolding demo_signed_in_eq by code_simp
  have r: "admin_run sqlite_ops demo_admin_ctx demo_admin
      ([] @ [(0, None, Call_bootstrap ''ann'' ''password'',
        Signed_in (public_user (new_user ''u0'' ''1970-01-01T00:00:00+00:00'' ''ann'' ''#password'')) ''s1'')]) demo_signed_in"
    by (rule admin_next[OF admin_start demo_bootstrap])
  from private_call_follows_sign_in[OF r _ prod.collapse[symmetric], where now = 1 and cookie = "Some ''s1''" and c = Call_list_users] a
  obtain t :: int where "1 < t + session_ttl" "t = 0"
    by (auto simp: demo_admin_def Cons_eq_append_conv append_eq_Cons_conv)
  then show ?thesis using a by simp
qed

theorem last_user_reopens_bootstrap_witness:
  "\<exists>st1 pu sid. admin_serve sqlite_ops demo_admin_ctx 1 (Some ''s1'') (Call_delete_user ''u0'') demo_signed_in
       = (User_removed ''u0'', st1)
     \<and> fst (admin_serve sqlite_ops demo_admin_ctx 1 None (Call_bootstrap ''eve'' ''12345678'') st1) = Signed_in pu sid"
proof -
  let ?u = "new_user ''u0'' ''1970-01-01T00:00:00+00:00'' ''ann'' ''#password''"
  have "\<not> username_error ''eve''" "\<not> password_error ''12345678''" by code_simp+
  from last_user_reopens_bootstrap[of demo_signed_in ?u "''s1''" _ 1, OF _ _ _ _ _ this, of _ demo_admin_ctx]
  show ?thesis by (simp add: demo_signed_in_eq demo_admin_ctx_def new_user_def session_ttl_def us_per_second_def)
qed

theorem password_change_keeps_sessions_witness:
  "\<exists>r. current_session sqlite_ops 1 (Some ''s1'')
     (snd (admin_serve sqlite_ops demo_admin_ctx 1 (Some ''s1'') (Call_change_password ''password'' ''new-password'') demo_signed_in))
     = (Some r, snd (admin_serve sqlite_ops demo_admin_ctx 1 (Some ''s1'') (Call_change_password ''password'' ''new-password'')
          demo_signed_in))"
proof -
  let ?c = "admin_serve sqlite_ops demo_admin_ctx 1 (Some ''s1'') (Call_change_password ''password'' ''new-password'') demo_signed_in"
  have "fst ?c = Password_changed" unfolding demo_signed_in_eq by code_simp
  then have c: "?c = (Password_changed, snd ?c)" by (metis prod.collapse)
  have "table_ok (ad_users demo_signed_in)" by (simp add: demo_signed_in_eq table_ok_def)
  moreover have "current_session sqlite_ops 1 (Some ''s1'') demo_signed_in
      = (Some \<lparr>as_user_id = ''u0'', as_username = ''ann'', as_expires_at = session_ttl\<rparr>, demo_signed_in)"
    by (simp add: current_session_Some_iff demo_signed_in_eq session_ttl_def us_per_second_def sqlite_ops_def
        sqlite_get_by_id_def new_user_def)
  ultimately show ?thesis using password_change_keeps_sessions[OF _ c] by blast
qed

end
