(* ===== verification/GatewayMethods.thy ===== *)
theory GatewayMethods
  imports RuntimeFacts GatewayRuns
begin

text \<open>
  The business methods of the gateway (\<open>gateway/methods/\<close>) on the runtime: approvals, cases, flows, skills,
  presence and tools, in the form the gateway server registers them. The JSON dump of a case, the
  installation of a skill and the reload of the skills from their files are arguments.
\<close>

record ('v, 'b) gateway_world =
  gw_runtime :: "('v, 'b) dev_runtime"
  gw_skills :: playbook_state

record 'v methods_ctx =
  mc_runtime :: "'v runtime_ctx"
  mc_invoke :: "gateway_inputs \<Rightarrow> invoke_inputs"
  mc_case_json :: "case_record \<Rightarrow> pydict"
  mc_reload :: "skill_overlay \<Rightarrow> skill_registry res"
  mc_install :: "string \<Rightarrow> string set \<Rightarrow> string set \<Rightarrow> bool \<Rightarrow> string option \<Rightarrow> string list res"

type_synonym ('v, 'b) world_method = "('v, 'b) gateway_world business_method"

definition int_param :: "string \<Rightarrow> int \<Rightarrow> pydict \<Rightarrow> int res" where
  "int_param k dflt params = py_int (py_get_or params k (PInt dflt))"

definition text_or :: "string \<Rightarrow> string \<Rightarrow> pydict \<Rightarrow> string" where
  "text_or k dflt params = py_str (py_get_or params k (PStr dflt))"

definition on_world_runtime ::
    "(('v, 'b) dev_runtime, 'a) eff \<Rightarrow> (('v, 'b) gateway_world, 'a) eff" where
  "on_world_runtime m g = (case m (gw_runtime g) of (x, r) \<Rightarrow> (x, g\<lparr>gw_runtime := r\<rparr>))"

section \<open>Approvals (approval_methods.py)\<close>

definition gw_approval_list :: "('v, 'b) world_method" where
  "gw_approval_list i params g =
     (let status = py_get params ''status'' in
      (bind_res (int_param ''limit'' 200 params) (\<lambda>limit.
       bind_res (approval_list (if py_truthy status then Some (py_str status) else None) limit
                   (approvals_of (gw_runtime g))) (\<lambda>items.
         Inr [(''items'', PList (map (\<lambda>a. PDict (approval_to_payload a)) items)),
              (''total'', PInt (int (length items)))])), g))"

definition gw_approval_get :: "('v, 'b) world_method" where
  "gw_approval_get i params g =
     (let a = approval_get (approvals_of (gw_runtime g)) (text_or ''approval_id'' [] params)
      in (Inr [(''found'', PBool (a \<noteq> None)),
               (''approval'', case a of None \<Rightarrow> PNone | Some x \<Rightarrow> PDict (approval_to_payload x))], g))"

definition gw_approval_decide ::
    "(int \<Rightarrow> string \<Rightarrow> string \<Rightarrow> string \<Rightarrow> approval_store \<Rightarrow> (approval_request \<times> approval_store) res)
     \<Rightarrow> ('v, 'b) world_method" where
  "gw_approval_decide decide_it i params g =
     (case decide_it (gi_now i) (text_or ''approval_id'' [] params) (text_or ''actor'' ''gateway'' params)
             (text_or ''reason'' [] params) (approvals_of (gw_runtime g)) of
        Inl e \<Rightarrow> (Inl e, g)
      | Inr (a, s) \<Rightarrow>
          (Inr [(''approval'', PDict (approval_to_payload a))], g\<lparr>gw_runtime := set_approvals s (gw_runtime g)\<rparr>))"

definition gw_approval_approve :: "('v, 'b) world_method" where
  "gw_approval_approve = gw_approval_decide approval_approve"

definition gw_approval_reject :: "('v, 'b) world_method" where
  "gw_approval_reject = gw_approval_decide approval_reject"

section \<open>Cases and flows (case_methods.py, flow_methods.py)\<close>

definition request_of_params :: "string \<Rightarrow> pydict \<Rightarrow> case_create_request res" where
  "request_of_params title params =
     bind_res (py_dict (py_get_or params ''metadata'' (PDict []))) (\<lambda>metadata.
       make_case_request
         \<lparr>cq_title = text_or ''title'' title params, cq_symptom = text_or ''symptom'' [] params,
          cq_service_name = text_or ''service_name'' ''unknown-service'' params,
          cq_source = text_or ''source'' ''gateway'' params, cq_metadata = metadata\<rparr>)"

definition use_agent_param :: "pydict \<Rightarrow> bool option" where
  "use_agent_param params =
     (case py_get params ''use_agent'' of PNone \<Rightarrow> None | v \<Rightarrow> Some (py_truthy v))"

definition gw_case_create :: "'v methods_ctx \<Rightarrow> ('v, 'b) world_method" where
  "gw_case_create mc i params =
     seq (lift_res (request_of_params ''Untitled Case'' params)) (\<lambda>req.
     seq (look (\<lambda>g. resolve_use_agent (use_agent_param params) (gw_runtime g))) (\<lambda>agent.
       if agent then
         seq (on_world_runtime (run_agent_from_case_request (mc_runtime mc) req)) (\<lambda>res.
           give [(''case_id'', PStr (ar_case_id res)), (''status'', PStr (ar_status res)),
                 (''attempt_count'', PInt (int (length (ar_attempts res)))), (''runner'', PStr ''agent'')])
       else
         seq (on_world_runtime (run_default_flow_from_case_request (mc_runtime mc) req)) (\<lambda>run.
           give [(''case_id'', PStr (cr_case_id (fr_case run))),
                 (''status'', PStr (case_status_value (cr_status (fr_case run)))),
                 (''evidence_count'', PInt (int (length (ep_items (fr_evidence_pack run))))),
                 (''runner'', PStr ''default_flow'')])))"

definition gw_case_get :: "'v methods_ctx \<Rightarrow> ('v, 'b) world_method" where
  "gw_case_get mc i params g =
     (let case_id = text_or ''case_id'' [] params in
      (Inr (if case_id = [] then [(''error'', PStr ''case_id is required'')]
            else case case_store_get (so_cases (dr_stores (gw_runtime g))) case_id of
                   None \<Rightarrow> [(''error'', PStr (''case not found: '' @ case_id)), (''found'', PBool False)]
                 | Some c \<Rightarrow> [(''found'', PBool True), (''case'', PDict (mc_case_json mc c))]), g))"

definition listed_cases :: "string \<Rightarrow> case_store \<Rightarrow> case_record list" where
  "listed_cases status d =
     sort_key_desc cr_updated_at
       (if status = [] then case_store_list_all d
        else filter (\<lambda>c. case_status_value (cr_status c) = status) (case_store_list_all d))"

definition gw_case_list :: "'v methods_ctx \<Rightarrow> ('v, 'b) world_method" where
  "gw_case_list mc i params g =
     (bind_res (int_param ''limit'' 50 params) (\<lambda>limit.
        let status = py_strip (py_str (py_or (py_get params ''status'') (PStr [])));
            cases = listed_cases status (so_cases (dr_stores (gw_runtime g)));
            limited = take (nat (max 0 limit)) cases
        in Inr [(''items'', PList (map (\<lambda>c. PDict (mc_case_json mc c)) limited)),
                (''total'', PInt (int (length cases))), (''limit'', PInt limit)]), g)"

definition gw_case_resume :: "('v, 'b) world_method" where
  "gw_case_resume i params g =
     (Inr [(''error'', PStr ''FLOW_STEP_UNSUPPORTED''), (''code'', PStr ''FLOW_STEP_UNSUPPORTED''),
           (''resumed'', PBool False)], g)"

definition gw_flow_run :: "'v methods_ctx \<Rightarrow> ('v, 'b) world_method" where
  "gw_flow_run mc i params =
     seq (lift_res (request_of_params ''Untitled Flow'' params)) (\<lambda>req.
     seq (on_world_runtime (flow_run_default (mc_runtime mc) req)) (\<lambda>x.
       give [(''case_id'', PStr (fx_case_id x)), (''flow_run_id'', PStr (ex_execution_id (fx_trace x))),
             (''status'', PStr (fx_status x)), (''step_count'', PInt (int (length (ex_steps (fx_trace x)))))]))"

text \<open>
  A filter is compared with a text of the checkpoint: a filter that is neither a text nor missing
  matches none.
\<close>

definition gw_flow_checkpoints :: "('v, 'b) world_method" where
  "gw_flow_checkpoints i params g =
     (bind_res (int_param ''limit'' 50 params) (\<lambda>limit.
        let items = (case (py_get params ''case_id'', py_get params ''status'') of
               (PNone, PNone) \<Rightarrow> list_checkpoints None None limit (gw_runtime g)
             | (PStr c, PNone) \<Rightarrow> list_checkpoints (Some c) None limit (gw_runtime g)
             | (PNone, PStr s) \<Rightarrow> list_checkpoints None (Some s) limit (gw_runtime g)
             | (PStr c, PStr s) \<Rightarrow> list_checkpoints (Some c) (Some s) limit (gw_runtime g)
             | _ \<Rightarrow> [])
        in Inr [(''items'', PList (map PDict items)), (''total'', PInt (int (length items)))]), g)"

section \<open>Skills (skill_methods.py)\<close>

definition skill_name_param :: "pydict \<Rightarrow> string" where
  "skill_name_param params =
     normalize_skill_name (py_str (py_or (py_or (py_get params ''name'') (py_get params ''slug'')) (PStr [])))"

text \<open>\<open>{tags}\<close> or \<open>set(tags)\<close>: a list or a dictionary in it cannot be hashed.\<close>

definition hashable :: "pyval \<Rightarrow> bool" where
  "hashable v \<longleftrightarrow> (case v of PList _ \<Rightarrow> False | PDict _ \<Rightarrow> False | _ \<Rightarrow> True)"

definition tag_set :: "pyval \<Rightarrow> pyval list res" where
  "tag_set tags =
     (let ts = (case tags of PList xs \<Rightarrow> xs | v \<Rightarrow> [v])
      in if list_all hashable ts then Inr ts else Inl (TypeError ''unhashable type''))"

definition filter_tags :: "pyval \<Rightarrow> ('a \<Rightarrow> string list) \<Rightarrow> 'a list \<Rightarrow> 'a list res" where
  "filter_tags tags f xs =
     (if \<not> py_truthy tags then Inr xs
      else bind_res (tag_set tags) (\<lambda>ts. Inr (filter (\<lambda>x. set ts \<inter> PStr ` set (f x) \<noteq> {}) xs)))"

definition gw_skill_list :: "('v, 'b) world_method" where
  "gw_skill_list i params g =
     (let st = gw_skills g in
      (bind_res (filter_tags (py_get params ''tags'') ss_tags (list_skills (pb_registry st))) (\<lambda>specs.
         Inr [(''items'', PList (map (\<lambda>s. PDict (public_item (pb_overlay st) s)) specs)),
              (''total'', PInt (int (length specs)))]), g))"

definition gw_skill_get :: "('v, 'b) world_method" where
  "gw_skill_get i params g =
     (let name = skill_name_param params; st = gw_skills g in
      (Inr (if name = [] then [(''error'', PStr ''slug is required''), (''found'', PBool False)]
            else case skill_get (pb_registry st) name of
                   None \<Rightarrow> [(''error'', PStr (''skill not found: '' @ name)), (''found'', PBool False)]
                 | Some s \<Rightarrow> [(''found'', PBool True), (''skill'', PDict (public_item (pb_overlay st) s))]), g))"

definition skill_error_reply :: "string \<Rightarrow> string \<Rightarrow> pydict" where
  "skill_error_reply code msg =
     [(''ok'', PBool False), (''code'', PStr code), (''message'', PStr msg), (''error'', PStr msg)]"

definition reload_skill_registry :: "'v methods_ctx \<Rightarrow> (('v, 'b) gateway_world, unit) eff" where
  "reload_skill_registry mc g =
     (case mc_reload mc (pb_overlay (gw_skills g)) of
        Inl e \<Rightarrow> (Inl e, g)
      | Inr r \<Rightarrow> (Inr (), g\<lparr>gw_skills := (gw_skills g)\<lparr>pb_registry := r\<rparr>\<rparr>))"

definition builtin_names :: "skill_registry \<Rightarrow> string set" where
  "builtin_names r =
     (\<lambda>s. normalize_skill_name (ss_name s)) ` set (filter (\<lambda>s. ss_source_kind s = Src_BUILTIN) (list_skills r))"

definition existing_names :: "skill_registry \<Rightarrow> string set" where
  "existing_names r = (\<lambda>s. normalize_skill_name (ss_name s)) ` set (list_skills r)"

definition only_name_param :: "pydict \<Rightarrow> string option" where
  "only_name_param params =
     (case py_get params ''only_name'' of PStr s \<Rightarrow> (if py_strip s = [] then None else Some (py_strip s)) | _ \<Rightarrow> None)"

definition gw_skill_install :: "'v methods_ctx \<Rightarrow> ('v, 'b) world_method" where
  "gw_skill_install mc i params g =
     (let source = py_strip (py_str (py_or (py_get params ''source'') (PStr []))); st = gw_skills g in
      if source = [] then
        (Inr [(''ok'', PBool False), (''code'', PStr ''SKILL_INVALID_PACKAGE''), (''message'', PStr ''source is required'')], g)
      else case mc_install mc source (builtin_names (pb_registry st)) (existing_names (pb_registry st))
                  (py_truthy (py_get_or params ''overwrite'' (PBool False))) (only_name_param params) of
             Inl (SkillError code msg) \<Rightarrow> (Inr (skill_error_reply code msg), g)
           | Inl e \<Rightarrow> (Inl e, g)
           | Inr names \<Rightarrow>
               seq (reload_skill_registry mc) (\<lambda>_ g1. (Inr [(''ok'', PBool True), (''installed'', PList (map PStr names)),
                  (''items'', PList (map (\<lambda>s. PDict (public_item (pb_overlay (gw_skills g1)) s))
                     (filter (\<lambda>s. ss_name s \<in> set names) (list_skills (pb_registry (gw_skills g1))))))], g1)) g)"

text \<open>
  A change of the overlay: its \<open>SkillError\<close> becomes the reply; else the overlay is stored and the
  skills are read again.
\<close>

definition gw_skill_change ::
    "'v methods_ctx \<Rightarrow> (string \<Rightarrow> playbook_state \<Rightarrow> unit res \<times> playbook_state)
     \<Rightarrow> (string \<Rightarrow> playbook_state \<Rightarrow> pydict) \<Rightarrow> ('v, 'b) world_method" where
  "gw_skill_change mc apply_it reply i params g =
     (let name = skill_name_param params in
      if name = [] then
        (Inr [(''ok'', PBool False), (''code'', PStr ''SKILL_INVALID_PACKAGE''), (''message'', PStr ''slug is required'')], g)
      else case apply_it name (gw_skills g) of
             (Inl (SkillError code msg), st) \<Rightarrow> (Inr (skill_error_reply code msg), g\<lparr>gw_skills := st\<rparr>)
           | (Inl e, st) \<Rightarrow> (Inl e, g\<lparr>gw_skills := st\<rparr>)
           | (Inr _, st) \<Rightarrow>
               seq (reload_skill_registry mc) (\<lambda>_. look (\<lambda>g1. reply name (gw_skills g1))) (g\<lparr>gw_skills := st\<rparr>))"

definition gw_skill_set_default :: "'v methods_ctx \<Rightarrow> ('v, 'b) world_method" where
  "gw_skill_set_default mc =
     gw_skill_change mc set_default
       (\<lambda>name st. [(''ok'', PBool True), (''default_playbook'', PStr (ov_default_playbook (pb_overlay st)))])"

definition gw_skill_set_role :: "'v methods_ctx \<Rightarrow> ('v, 'b) world_method" where
  "gw_skill_set_role mc i params =
     (let role = py_strip (py_str (py_or (py_get params ''role'') (PStr []))) in
      gw_skill_change mc (\<lambda>name. set_role name role)
        (\<lambda>name st. [(''ok'', PBool True), (''name'', PStr name), (''role'', PStr role)]) i params)"

definition gw_skill_enable :: "'v methods_ctx \<Rightarrow> ('v, 'b) world_method" where
  "gw_skill_enable mc =
     gw_skill_change mc (\<lambda>name. set_enabled name True)
       (\<lambda>name st. [(''ok'', PBool True), (''name'', PStr name), (''enabled'', PBool True)])"

definition gw_skill_disable :: "'v methods_ctx \<Rightarrow> ('v, 'b) world_method" where
  "gw_skill_disable mc =
     gw_skill_change mc (\<lambda>name. set_enabled name False)
       (\<lambda>name st. [(''ok'', PBool True), (''name'', PStr name), (''enabled'', PBool False)])"

section \<open>Presence and tools (system_methods.py, tool_methods.py)\<close>

definition gw_list_presence :: "('v, 'b) world_method" where
  "gw_list_presence i params g =
     (let nodes = list_nodes (dr_presence (gw_runtime g)) in
      (Inr [(''items'', PList (map (\<lambda>n. PDict
              [(''node_id'', PStr (pn_node_id n)), (''role'', PStr (pn_role n)),
               (''last_seen_at'', PStr (iso_format (pn_last_seen_at n))),
               (''metadata'', PDict (map (\<lambda>(k, v). (k, PStr v)) (pn_metadata n)))]) nodes)),
            (''total'', PInt (int (length nodes)))], g))"

definition tool_request :: "pydict \<Rightarrow> pydict \<Rightarrow> tool_call_request" where
  "tool_request params arguments =
     \<lparr>rq_case_id = text_or ''case_id'' ''gateway-case'' params, rq_step_id = text_or ''step_id'' ''gateway-step'' params,
      rq_skill_name = ''gateway'', rq_tool_name = text_or ''tool_name'' [] params, rq_arguments = arguments\<rparr>"

definition gw_tool_invoke :: "'v methods_ctx \<Rightarrow> ('v, 'b) world_method" where
  "gw_tool_invoke mc i params g =
     (let tool_name = text_or ''tool_name'' [] params in
      if tool_name = [] then (Inr [(''error'', PStr ''tool_name is required''), (''ok'', PBool False)], g)
      else case py_dict (py_get_or params ''arguments'' (PDict [])) of
             Inl e \<Rightarrow> (Inl e, g)
           | Inr arguments \<Rightarrow>
               (let q = tool_request params arguments; r = gw_runtime g in
                if \<not> valid_tool_call_request q then (Inl validation_error, g)
                else case gateway_invoke (mc_invoke mc i) q ''gateway-method'' (Some ''gateway'') None (snd (dr_env r)) of
                       (x, w) \<Rightarrow>
                         (map_sum id (\<lambda>res. [(''ok'', PBool (tr_ok res)), (''tool_name'', PStr tool_name),
                            (''content'', PDict (tr_content res)),
                            (''error'', case tr_error res of None \<Rightarrow> PNone | Some e \<Rightarrow> PDict (tool_error_dump e))]) x,
                          g\<lparr>gw_runtime := r\<lparr>dr_env := (fst (dr_env r), w)\<rparr>\<rparr>)))"

fun tool_scope_value :: "tool_scope \<Rightarrow> string" where
  "tool_scope_value Scope_INTERNAL = ''internal''"
| "tool_scope_value Scope_EXTERNAL = ''external''"

definition gw_tool_list :: "('v, 'b) world_method" where
  "gw_tool_list i params g =
     (bind_res (filter_tags (py_get params ''tags'') ts_tags
                 (registry_list_specs (mg_registry (snd (dr_env (gw_runtime g)))))) (\<lambda>specs.
        Inr [(''items'', PList (map (\<lambda>s. PDict
               [(''name'', PStr (ts_name s)), (''description'', PStr (ts_description s)),
                (''server_name'', PStr (ts_server_name s)), (''scope'', PStr (tool_scope_value (ts_scope s))),
                (''tags'', PList (map PStr (ts_tags s)))]) specs)),
             (''total'', PInt (int (length specs)))]), g)"

section \<open>The registration (gateway/methods/__init__.py)\<close>

definition business_methods :: "'v methods_ctx \<Rightarrow> (string \<times> ('v, 'b) world_method) list" where
  "business_methods mc =
     [(''approval.list'', gw_approval_list), (''approval.get'', gw_approval_get),
      (''approval.approve'', gw_approval_approve), (''approval.reject'', gw_approval_reject),
      (''case.create'', gw_case_create mc), (''case.get'', gw_case_get mc), (''case.list'', gw_case_list mc),
      (''case.resume'', gw_case_resume),
      (''flow.run'', gw_flow_run mc), (''flow.checkpoints'', gw_flow_checkpoints),
      (''skill.list'', gw_skill_list), (''skill.get'', gw_skill_get), (''skill.install'', gw_skill_install mc),
      (''skill.set_default'', gw_skill_set_default mc), (''skill.set_role'', gw_skill_set_role mc),
      (''skill.enable'', gw_skill_enable mc), (''skill.disable'', gw_skill_disable mc),
      (''system.list_presence'', gw_list_presence),
      (''tool.invoke'', gw_tool_invoke mc), (''tool.list'', gw_tool_list)]"

end
