(* ===== verification/GatewayMethodFacts.thy ===== *)
theory GatewayMethodFacts
  imports GatewayMethods
begin

text \<open>
  What the business methods do to the runtime behind the gateway: which of them touch the world of the
  tools, that a created case is found again, and that a client approves its own calls.
\<close>

section \<open>The tools behind the methods\<close>

definition tools_of :: "('v, 'b) gateway_world \<Rightarrow> 'v mcp_world mcp_gateway" where
  "tools_of g = snd (dr_env (gw_runtime g))"

lemma tools_of_set_approvals [simp]:
  "mg_world (tools_of (g\<lparr>gw_runtime := set_approvals s (gw_runtime g)\<rparr>)) = mg_world (tools_of g)"
  by (simp add: tools_of_def set_approvals_def)

lemma tools_of_skills [simp]: "tools_of (g\<lparr>gw_skills := x\<rparr>) = tools_of g"
  by (simp add: tools_of_def)

lemma reload_tools: "tools_of (snd (reload_skill_registry mc g)) = tools_of g"
  by (simp add: reload_skill_registry_def split: sum.splits)

lemma seq_frame:
  assumes "P (snd (m s)) = P s" and "\<And>x s. P (snd (f x s)) = P s"
  shows "P (snd (seq m f s)) = P s"
  using assms by (auto simp: seq_def split: prod.splits sum.splits)

lemma skill_change_tools: "tools_of (snd (gw_skill_change mc apply_it reply i params g)) = tools_of g"
proof -
  have *: "tools_of (snd (seq (reload_skill_registry mc) (\<lambda>_. look f) h)) = tools_of h" for f h
    by (rule seq_frame) (simp_all add: reload_tools look_def)
  show ?thesis
    by (auto simp: gw_skill_change_def Let_def * split: prod.splits sum.splits pyerr.splits)
qed

lemma skill_install_tools: "tools_of (snd (gw_skill_install mc i params g)) = tools_of g"
proof -
  have *: "tools_of (snd (seq (reload_skill_registry mc) (\<lambda>_ s. (f s, s)) h)) = tools_of h" for f h
    by (rule seq_frame) (simp_all add: reload_tools)
  show ?thesis
    by (auto simp: gw_skill_install_def Let_def * split: sum.splits pyerr.splits)
qed

text \<open>Only a run of the agent and the invocation of a tool change what the tools act on.\<close>

lemma business_method_world:
  assumes "(m, h) \<in> set (business_methods mc)" and "m \<notin> {''case.create'', ''flow.run'', ''tool.invoke''}"
  shows "mg_world (tools_of (snd (h i params g))) = mg_world (tools_of g)"
proof -
  have quiet: "snd (gw_approval_list i params g) = g" "snd (gw_approval_get i params g) = g"
    "snd (gw_case_get mc i params g) = g" "snd (gw_case_list mc i params g) = g"
    "snd (gw_case_resume i params g) = g" "snd (gw_flow_checkpoints i params g) = g"
    "snd (gw_skill_list i params g) = g" "snd (gw_skill_get i params g) = g"
    "snd (gw_list_presence i params g) = g" "snd (gw_tool_list i params g) = g"
    by (simp_all add: gw_approval_list_def gw_approval_get_def gw_case_get_def gw_case_list_def
        gw_case_resume_def gw_flow_checkpoints_def gw_skill_list_def gw_skill_get_def gw_list_presence_def
        gw_tool_list_def Let_def)
  have decide: "mg_world (tools_of (snd (gw_approval_decide d i params g))) = mg_world (tools_of g)" for d
    by (auto simp: gw_approval_decide_def split: sum.splits prod.splits)
  note skill = skill_change_tools[of mc _ _ i params g] skill_install_tools[of mc i params g]
  show ?thesis
    using assms unfolding business_methods_def
    by (simp only: set_simps insert_iff empty_iff prod.inject char.inject list.inject simp_thms)
       (elim disjE conjE; simp add: quiet decide skill gw_approval_approve_def gw_approval_reject_def
          gw_skill_set_default_def gw_skill_set_role_def gw_skill_enable_def gw_skill_disable_def Let_def)
qed

lemma business_method_name:
  assumes "(''tool.invoke'', h) \<in> set (business_methods mc)"
  shows "h = gw_tool_invoke mc"
  using assms by (auto simp: business_methods_def)

text \<open>A call that the policy guard of the tools admits.\<close>

definition admitted_call :: "'w mcp_gateway \<Rightarrow> tool_call_request \<Rightarrow> bool" where
  "admitted_call g q \<longleftrightarrow>
     (case registry_get_spec (mg_registry g) (rq_tool_name q) of
        None \<Rightarrow> False
      | Some spec \<Rightarrow>
          ts_permission_level spec = Perm_READ
          \<or> (\<not> pg_deny_write (mg_policy g)
             \<and> (\<not> pg_require_approval_for_write (mg_policy g)
                \<or> (case mg_approvals g of None \<Rightarrow> False
                   | Some s \<Rightarrow> is_approved_for (request_approval_id q) q spec s))))"

lemma gateway_invoke_admitted:
  assumes "gateway_invoke iv q ac pl ri g = (r, g')" and "mg_world g' \<noteq> mg_world g"
  shows "admitted_call g q"
  using assms(1)
proof (cases rule: gateway_invoke_shape)
  case (refused e store)
  with assms(2) show ?thesis by (auto simp: refuse_call_def)
next
  case (run spec out w)
  from policy_enforce_ok_cases[OF run(2)] run(1) show ?thesis
    unfolding admitted_call_def by auto
qed

lemma tool_invoke_admitted:
  assumes "gw_tool_invoke mc i params g = (r, g')" and "mg_world (tools_of g') \<noteq> mg_world (tools_of g)"
  obtains arguments where "py_dict (py_get_or params ''arguments'' (PDict [])) = Inr arguments"
    "admitted_call (tools_of g) (tool_request params arguments)"
proof -
  obtain arguments where a: "py_dict (py_get_or params ''arguments'' (PDict [])) = Inr arguments"
    using assms by (auto simp: gw_tool_invoke_def Let_def split: if_splits sum.splits)
  obtain x w where x: "gateway_invoke (mc_invoke mc i) (tool_request params arguments) ''gateway-method''
      (Some ''gateway'') None (tools_of g) = (x, w)"
    by (rule prod.exhaust)
  have "tools_of g' = w"
    using assms a x by (auto simp: gw_tool_invoke_def Let_def tools_of_def split: if_splits)
  then show thesis using gateway_invoke_admitted[OF x] assms(2) that[OF a] by simp
qed

lemma gateway_methods_runtime:
  assumes "dget (gateway_methods cx business) m = Some h"
  shows "(\<exists>b. (m, b) \<in> set business \<and> h = lift_business b) \<or> (\<forall>i p s. gs_runtime (snd (h i p s)) = gs_runtime s)"
proof -
  obtain names where
    n: "gateway_methods cx business =
      foldl (\<lambda>reg (m, h). method_register m (lift_business h) reg) (builtin_methods cx names) business"
    by (simp add: gateway_methods_def Let_def)
  from register_all[of lift_business "builtin_methods cx names" business m h] assms
  consider b where "(m, b) \<in> set business" "h = lift_business b" | "dget (builtin_methods cx names) m = Some h"
    unfolding n by blast
  then show ?thesis
  proof cases
    case 2
    have pub: "gs_runtime (snd (gateway_publish cx i t pl s)) = gs_runtime s" for i t pl and s :: "'a gateway_server"
      by (auto simp: gateway_publish_def broadcast_def Let_def split: sum.splits prod.splits)
    show ?thesis
      using 2 pub
      by (auto simp: builtin_methods_def method_register_def method_subscribe_def method_unsubscribe_def
          method_publish_def Let_def split: if_splits option.splits pyval.splits)
  qed blast
qed

section \<open>Created cases\<close>

lemma run_attempts_keyed:
  assumes "run_attempts left lx req prior so st = Inr (as, so', st')"
    and "keyed cr_case_id (so_cases so)"
    and "\<forall>a \<in> set prior. at_status a \<in> {''failed'', ''completed''} \<and> (\<exists>n. at_case_id a = ac_case_id (lx_attempt lx n))"
  shows "keyed cr_case_id (so_cases so')
    \<and> (\<forall>a \<in> set as. at_status a \<in> {''failed'', ''completed''} \<and> (\<exists>n. at_case_id a = ac_case_id (lx_attempt lx n)))"
  using assms
proof (induction left arbitrary: prior so st)
  case (Suc left)
  obtain a so1 e1 where a: "run_once lx (length prior) req prior so (snd st) = Inr (a, so1, e1)"
    using Suc.prems by auto
  note stored = run_once_stored[OF a, unfolded attempt_stored_def]
  have so1: "keyed cr_case_id (so_cases so1)"
    using stored Suc.prems(2) case_db.inv_put[of "so_cases so"] by auto
  have prior: "\<forall>b \<in> set (prior @ [a]). at_status b \<in> {''failed'', ''completed''}
      \<and> (\<exists>n. at_case_id b = ac_case_id (lx_attempt lx n))"
    using stored Suc.prems(3) by auto
  show ?case
  proof (cases "at_status a = ''completed''")
    case True
    then show ?thesis using Suc.prems(1) a so1 prior by (auto simp: Let_def)
  next
    case False
    then show ?thesis using Suc.prems(1) a Suc.IH[OF _ so1 prior] by (simp add: Let_def)
  qed
qed simp

lemma agent_run_keyed:
  assumes "agent_run lx req so e = Inr (res, evs, so', e')" and "keyed cr_case_id (so_cases so)"
  shows "keyed cr_case_id (so_cases so')" "ar_status res \<in> {''failed'', ''completed''}"
    "\<exists>n. ar_case_id res = ac_case_id (lx_attempt lx n)"
proof -
  obtain as st' where st: "run_attempts (max_attempts lx) lx req [] so (emit_started lx req e) = Inr (as, so', st')"
    and as: "as \<noteq> []" "run_result lx as = Inr res"
    by (rule agent_run_cases[OF assms(1)]) blast
  have res: "ar_status res = at_status (last as)" "ar_case_id res = at_case_id (last as)" "last as \<in> set as"
    using as by (auto simp: run_result_def Let_def)
  from run_attempts_keyed[OF st assms(2)] res
  show "keyed cr_case_id (so_cases so')" "ar_status res \<in> {''failed'', ''completed''}"
    "\<exists>n. ar_case_id res = ac_case_id (lx_attempt lx n)" by auto
qed

text \<open>What is behind the answer of \<open>case.create\<close>, whichever flow it runs.\<close>

lemma case_create_cases:
  assumes "gw_case_create mc i params g = (Inr reply, g')"
    and ids: "inj (\<lambda>n. ac_case_id (lx_attempt (rc_loop (mc_runtime mc) (dr_runs (gw_runtime g))) n))"
    and keyed: "keyed cr_case_id (so_cases (dr_stores (gw_runtime g)))"
  obtains n c where
    "cr_case_id c = ac_case_id (lx_attempt (rc_loop (mc_runtime mc) (dr_runs (gw_runtime g))) n)"
    "py_get reply ''case_id'' = PStr (cr_case_id c)"
    "py_get reply ''status'' = PStr (case_status_value (cr_status c))"
    "cr_status c \<in> {Case_FAILED, Case_COMPLETED}"
    "keyed cr_case_id (so_cases (dr_stores (gw_runtime g')))"
    "case_store_get (so_cases (dr_stores (gw_runtime g'))) (cr_case_id c) = Some c"
proof -
  let ?r = "gw_runtime g" and ?rx = "mc_runtime mc"
  let ?lx = "rc_loop ?rx (dr_runs ?r)"
  obtain req where req: "request_of_params ''Untitled Case'' params = Inr req"
    using assms(1) by (auto simp: gw_case_create_def seq_Inr_iff eff_defs)
  note goal = that
  have run: thesis
    if r1: "run_agent_from_case_request ?rx req ?r = (Inr res, r1)"
      and same: "so_cases (dr_stores (gw_runtime g')) = so_cases (dr_stores r1)"
      and reply: "\<And>c. stored_run (dr_stores r1) res c p \<Longrightarrow> cr_case_id c = ar_case_id res \<Longrightarrow>
        py_get reply ''case_id'' = PStr (cr_case_id c)
        \<and> py_get reply ''status'' = PStr (case_status_value (cr_status c))"
      and p: "evidence_get_pack (so_evidence (dr_stores r1)) (ar_case_id res) = Some p"
    for res r1 p
  proof -
    obtain evs c p' where run: "agent_run ?lx req (dr_stores ?r) (dr_env ?r) = Inr (res, evs, dr_stores r1, dr_env r1)"
      and st: "stored_run (dr_stores r1) res c p'"
      by (rule run_agent_cases[OF r1 ids])
    note k = agent_run_keyed[OF run keyed]
    have c: "case_store_get (so_cases (dr_stores r1)) (ar_case_id res) = Some c"
      "cr_status c \<in> {Case_FAILED, Case_COMPLETED}" "p' = p"
      using st p by (auto simp: stored_run_def)
    have id: "cr_case_id c = ar_case_id res"
      using keyed_get[OF k(1)] c(1) by (simp add: case_store_get_def)
    obtain n where n: "ar_case_id res = ac_case_id (lx_attempt ?lx n)" using k(3) by blast
    show thesis
      by (rule goal[of c n]) (use n k(1) c id reply[OF _ id] st same in auto)
  qed
  show thesis
  proof (cases "resolve_use_agent (use_agent_param params) ?r")
    case True
    obtain res r1 where r1: "run_agent_from_case_request ?rx req ?r = (Inr res, r1)" and g': "g' = g\<lparr>gw_runtime := r1\<rparr>"
      and reply: "reply = [(''case_id'', PStr (ar_case_id res)), (''status'', PStr (ar_status res)),
           (''attempt_count'', PInt (int (length (ar_attempts res)))), (''runner'', PStr ''agent'')]"
      using assms(1) req True
      by (auto simp: gw_case_create_def seq_Inr_iff eff_defs on_world_runtime_def split: prod.splits)
    obtain evs c p where ar: "agent_run ?lx req (dr_stores ?r) (dr_env ?r) = Inr (res, evs, dr_stores r1, dr_env r1)"
      and st: "stored_run (dr_stores r1) res c p"
      by (rule run_agent_cases[OF r1 ids])
    show thesis
    proof (rule run[OF r1, of p])
      fix c' assume "stored_run (dr_stores r1) res c' p" "cr_case_id c' = ar_case_id res"
      then show "py_get reply ''case_id'' = PStr (cr_case_id c')
          \<and> py_get reply ''status'' = PStr (case_status_value (cr_status c'))"
        using agent_run_keyed(2)[OF ar keyed] by (auto simp: reply stored_run_def py_get_or_def)
    qed (use st in \<open>simp_all add: g' stored_run_def\<close>)
  next
    case False
    obtain x r2 where x: "run_default_flow_from_case_request ?rx req ?r = (Inr x, r2)"
      and g': "g' = g\<lparr>gw_runtime := r2\<rparr>"
      and reply: "reply = [(''case_id'', PStr (cr_case_id (fr_case x))),
           (''status'', PStr (case_status_value (cr_status (fr_case x)))),
           (''evidence_count'', PInt (int (length (ep_items (fr_evidence_pack x))))),
           (''runner'', PStr ''default_flow'')]"
      using assms(1) req False
      by (auto simp: gw_case_create_def seq_Inr_iff eff_defs on_world_runtime_def split: prod.splits)
    obtain res r1 where r1: "run_agent_from_case_request ?rx req ?r = (Inr res, r1)"
      and st: "stored_run (dr_stores r1) res (fr_case x) (fr_evidence_pack x)"
      and rep: "report_or_built ?rx (ar_case_id res) (fr_case x) (fr_evidence_pack x) (dr_stores r1)
        = (fr_report x, dr_stores r2)"
      by (rule run_default_flow_cases[OF x ids])
    show thesis
    proof (rule run[OF r1, of "fr_evidence_pack x"])
      fix c' assume "stored_run (dr_stores r1) res c' (fr_evidence_pack x)" "cr_case_id c' = ar_case_id res"
      then have "c' = fr_case x" using st by (simp add: stored_run_def)
      then show "py_get reply ''case_id'' = PStr (cr_case_id c')
          \<and> py_get reply ''status'' = PStr (case_status_value (cr_status c'))"
        by (simp add: reply py_get_or_def)
    qed (use st report_or_built_stores(1)[OF rep] in \<open>simp_all add: g' stored_run_def\<close>)
  qed
qed

section \<open>Properties\<close>

text \<open>
  C2: Behind a gateway with an authentication provider, the world the tools act on changes only for a
  request whose token is stored, unexpired and authorized for its method; the method then is
  \<open>case.create\<close> or \<open>flow.run\<close>, which run the agent, or \<open>tool.invoke\<close> with a call that the policy guard
  admits.
\<close>
theorem gateway_guards_tools:
  assumes "gs_provider s = Some p"
    and "handle_request cx (gateway_methods cx (business_methods mc)) i f s = (r, s')"
    and "mg_world (tools_of (gs_runtime s')) \<noteq> mg_world (tools_of (gs_runtime s))"
  shows "holds_access p (gs_authorizer s) (gi_now i) f
    \<and> (rf_method f \<in> {''case.create'', ''flow.run''}
       \<or> rf_method f = ''tool.invoke''
         \<and> (\<exists>arguments. py_dict (py_get_or (rf_params f) ''arguments'' (PDict [])) = Inr arguments
              \<and> admitted_call (tools_of (gs_runtime s)) (tool_request (rf_params f) arguments)))"
proof -
  obtain q s1 where q: "check_security cx i f s = (q, s1)" by (rule prod.exhaust)
  note checked = check_security_cases[OF assms(1) q]
  then have s1: "gs_runtime s1 = gs_runtime s" by auto
  let ?reg = "gateway_methods cx (business_methods mc)"
  obtain x s2 where x: "method_invoke ?reg (rf_method f) i (rf_params f) s1 = (x, s2)" by (rule prod.exhaust)
  have "\<not> isl q" using assms(2,3) q s1 by (cases q) (auto simp: handle_request_def)
  then have access: "holds_access p (gs_authorizer s) (gi_now i) f" using checked(1) by auto
  have s': "s' = s2" using assms(2) q x \<open>\<not> isl q\<close>
    by (cases q; cases x) (auto simp: handle_request_def)
  then obtain h where h: "dget ?reg (rf_method f) = Some h" and hx: "h i (rf_params f) s1 = (x, s2)"
    using x assms(3) s1 by (auto simp: method_invoke_def split: option.splits)
  from gateway_methods_runtime[OF h] obtain b
    where b: "(rf_method f, b) \<in> set (business_methods mc)" "h = lift_business b"
    using hx s' s1 assms(3) by (metis snd_conv)
  obtain y g where y: "b i (rf_params f) (gs_runtime s) = (y, g)" by (rule prod.exhaust)
  have g: "gs_runtime s' = g" using hx y b(2) s' s1 by (auto simp: lift_business_def)
  show ?thesis
  proof (cases "rf_method f = ''tool.invoke''")
    case True
    then have "b = gw_tool_invoke mc" using b(1) business_method_name by simp
    then show ?thesis using y g assms(3) tool_invoke_admitted[of mc i "rf_params f" "gs_runtime s" y g] access True
      by metis
  next
    case False
    then show ?thesis using business_method_world[OF b(1)] y g assms(3) access by (metis insert_iff snd_conv)
  qed
qed

text \<open>
  C13: A case created through the gateway is found again: \<open>case.create\<close>, whether it runs the agent or the
  default flow, answers the identifier and the final status of a stored case, and \<open>case.get\<close> and
  \<open>case.list\<close> then answer this case.
\<close>
theorem created_case_is_found:
  assumes "gw_case_create mc i params g = (Inr reply, g')"
    and "inj (\<lambda>n. ac_case_id (lx_attempt (rc_loop (mc_runtime mc) (dr_runs (gw_runtime g))) n))"
    and "\<And>n. ac_case_id (lx_attempt (rc_loop (mc_runtime mc) (dr_runs (gw_runtime g))) n) \<noteq> []"
    and "keyed cr_case_id (so_cases (dr_stores (gw_runtime g)))"
  shows "\<exists>c. py_get reply ''case_id'' = PStr (cr_case_id c)
    \<and> py_get reply ''status'' = PStr (case_status_value (cr_status c))
    \<and> cr_status c \<in> {Case_FAILED, Case_COMPLETED}
    \<and> gw_case_get mc j [(''case_id'', PStr (cr_case_id c))] g'
        = (Inr [(''found'', PBool True), (''case'', PDict (mc_case_json mc c))], g')
    \<and> c \<in> set (listed_cases [] (so_cases (dr_stores (gw_runtime g'))))"
proof -
  obtain n c where c: "cr_case_id c = ac_case_id (lx_attempt (rc_loop (mc_runtime mc) (dr_runs (gw_runtime g))) n)"
    "py_get reply ''case_id'' = PStr (cr_case_id c)"
    "py_get reply ''status'' = PStr (case_status_value (cr_status c))"
    "cr_status c \<in> {Case_FAILED, Case_COMPLETED}"
    "keyed cr_case_id (so_cases (dr_stores (gw_runtime g')))"
    "case_store_get (so_cases (dr_stores (gw_runtime g'))) (cr_case_id c) = Some c"
    by (rule case_create_cases[OF assms(1,2,4)])
  have "c \<in> set (case_store_list_all (so_cases (dr_stores (gw_runtime g'))))"
    using keyed_vals[OF c(5), of c] c(6) by (simp add: case_store_list_all_def case_store_get_def)
  moreover have "cr_case_id c \<noteq> []" using assms(3) c(1) by simp
  ultimately have "gw_case_get mc j [(''case_id'', PStr (cr_case_id c))] g'
      = (Inr [(''found'', PBool True), (''case'', PDict (mc_case_json mc c))], g')"
    "c \<in> set (listed_cases [] (so_cases (dr_stores (gw_runtime g'))))"
    using c(6) by (simp_all add: gw_case_get_def text_or_def py_get_or_def listed_cases_def Let_def)
  then show ?thesis using c(2-4) by blast
qed

section \<open>Approving one's own call\<close>

lemma registered_tool_methods:
  "dget (gateway_methods cx (business_methods mc)) ''tool.invoke'' = Some (lift_business (gw_tool_invoke mc))"
  "dget (gateway_methods cx (business_methods mc)) ''approval.approve'' = Some (lift_business gw_approval_approve)"
  by (simp_all add: gateway_methods_def business_methods_def method_register_def Let_def)

definition request :: "string \<Rightarrow> string \<Rightarrow> pydict \<Rightarrow> request_frame" where
  "request token m params =
     \<lparr>rf_request_id = ''r'', rf_method = m, rf_params = (''token'', PStr token) # params, rf_client_id = None\<rparr>"

lemma stored_token_passes:
  assumes "gs_provider s = Some p" "gs_limiter s = None" "dget (pv_tokens p) token = Some c"
    and "au_token c = token" "\<not> is_expired (gi_now i) c" "authorize (gs_authorizer s) c m"
  shows "check_security cx i (request token m params) s = (Inr (), s)"
proof -
  have "request_token (request token m params) = token"
    by (simp add: request_def request_token_def py_get_or_def py_or_def)
  moreover have "s\<lparr>gs_provider := Some p\<rparr> = s" using assms(1) by (cases s) simp
  ultimately show ?thesis
    using assms by (simp add: check_security_def check_rate_def check_access_def authenticate_def
        validate_credentials_def request_def)
qed

lemma handle_admitted:
  assumes "check_security cx i f s = (Inr (), s)" and "dget reg (rf_method f) = Some (lift_business b)"
  shows "snd (handle_request cx reg i f s) = s\<lparr>gs_runtime := snd (b i (rf_params f) (gs_runtime s))\<rparr>"
  using assms
  by (simp add: handle_request_def method_invoke_def lift_business_def split: prod.splits sum.splits)

definition call_params :: "string \<Rightarrow> string \<Rightarrow> pydict \<Rightarrow> pydict" where
  "call_params token tool args = [(''token'', PStr token), (''tool_name'', PStr tool), (''arguments'', PDict args)]"

lemma call_request:
  "tool_request (call_params token tool (dput ''approval_id'' (PStr i) args)) (dput ''approval_id'' (PStr i) args)
    = with_approval i (tool_request (call_params token tool args) args)"
  by (simp add: tool_request_def with_approval_def call_params_def text_or_def py_get_or_def)

lemma tool_invoke_tools:
  assumes "tool \<noteq> []"
  shows "tools_of (snd (gw_tool_invoke mc i (call_params token tool args) g)) =
    snd (gateway_invoke (mc_invoke mc i) (tool_request (call_params token tool args) args) ''gateway-method''
      (Some ''gateway'') None (tools_of g))"
  using assms
  by (simp add: gw_tool_invoke_def call_params_def text_or_def py_get_or_def tool_request_def
      valid_tool_call_request_def tools_of_def Let_def split: prod.splits)

lemma finish_call_tools:
  "mg_registry (snd (finish_call iv q ac pl ri out h)) = mg_registry h"
  "mg_client (snd (finish_call iv q ac pl ri out h)) = mg_client h"
  by (cases "(iv, q, ac, pl, ri, out, h)" rule: finish_call.cases; auto simp: Let_def)+

lemma gateway_invoke_tools:
  assumes "gateway_invoke iv q ac pl ri g = (r, g')"
  shows "mg_registry g' = mg_registry g" "mg_client g' = mg_client g"
proof -
  have "mg_registry (snd (gateway_invoke iv q ac pl ri g)) = mg_registry g"
    "mg_client (snd (gateway_invoke iv q ac pl ri g)) = mg_client g"
    by (auto simp: gateway_invoke_def refuse_call_def Let_def finish_call_tools
        split: option.splits prod.splits policy_result.splits)
  then show "mg_registry g' = mg_registry g" "mg_client g' = mg_client g" using assms by simp_all
qed

lemma tool_client_authorized:
  assumes "au_capabilities c = [''tool:invoke'']" and "m = ''tool.invoke'' \<or> m = ''approval.approve''"
  shows "authorize (new_authorizer [] []) c m"
proof -
  have "get_required_capabilities (new_authorizer [] []) ''tool.invoke'' = [''tool:invoke'']"
    "get_required_capabilities (new_authorizer [] []) ''approval.approve'' = []"
    by (simp_all add: new_authorizer_def get_required_capabilities_def default_method_capabilities_def)
  then show ?thesis using assms by (elim disjE) (simp_all add: authorize_def has_capability_def)
qed

lemma tool_client_request:
  assumes "gs_provider z = Some p" "gs_limiter z = None" "gs_authorizer z = new_authorizer [] []"
    and "dget (pv_tokens p) token = Some c" "au_token c = token" "\<not> is_expired (gi_now i) c"
      "au_capabilities c = [''tool:invoke'']"
    and "m = ''tool.invoke'' \<and> b = gw_tool_invoke mc \<or> m = ''approval.approve'' \<and> b = gw_approval_approve"
  shows "snd (handle_request cx (gateway_methods cx (business_methods mc)) i (request token m ps) z)
    = z\<lparr>gs_runtime := snd (b i ((''token'', PStr token) # ps) (gs_runtime z))\<rparr>"
proof (subst handle_admitted[where b = b])
  have "authorize (gs_authorizer z) c m" unfolding assms(3)
    by (rule tool_client_authorized[OF assms(7)]) (use assms(8) in blast)
  then show "check_security cx i (request token m ps) z = (Inr (), z)"
    by (rule stored_token_passes[OF assms(1,2,4-6)])
  show "dget (gateway_methods cx (business_methods mc)) (rf_method (request token m ps)) = Some (lift_business b)"
    using assms(8) by (auto simp: registered_tool_methods request_def)
qed (simp add: request_def)

lemma approve_step_tools:
  assumes "mg_approvals (tools_of g) = Some st" and "aid \<noteq> []"
    and "approval_approve (gi_now i) aid ''gateway'' [] st = Inr (b, st')"
  shows "tools_of (snd (gw_approval_approve i [(''token'', PStr token), (''approval_id'', PStr aid)] g))
    = (tools_of g)\<lparr>mg_approvals := Some st'\<rparr>"
proof -
  have "approvals_of (gw_runtime g) = st" using assms(1) by (simp add: approvals_of_def tools_of_def)
  then show ?thesis using assms
    by (simp add: gw_approval_approve_def gw_approval_decide_def text_or_def py_get_or_def
        set_approvals_def tools_of_def)
qed

text \<open>
  C3: A client whose token has the capability \<open>tool:invoke\<close> and no other approves its own call of a tool
  that needs approval: the first call is refused and the tool does not run; \<open>approval.approve\<close>, which
  needs no capability, accepts the identifier of the approval from the same client; and the call repeated
  with this identifier runs the tool.
\<close>
theorem client_approves_its_own_call:
  fixes s :: "('v, 'b) gateway_world gateway_server"
  assumes server: "gs_provider s = Some p" "gs_limiter s = None" "gs_authorizer s = new_authorizer [] []"
    and client: "dget (pv_tokens p) token = Some c" "au_token c = token" "\<not> is_expired (gi_now i1) c" "\<not> is_expired (gi_now i2) c" "\<not> is_expired (gi_now i3) c"
      "au_capabilities c = [''tool:invoke'']"
    and tool: "registry_get_spec (mg_registry (tools_of (gs_runtime s))) tool = Some spec"
      "ts_permission_level spec \<noteq> Perm_READ" "tool \<noteq> []"
    and guard: "\<not> pg_deny_write (mg_policy (tools_of (gs_runtime s)))"
      "pg_require_approval_for_write (mg_policy (tools_of (gs_runtime s)))"
      "mg_approvals (tools_of (gs_runtime s)) = Some st"
    and q: "q = tool_request (call_params token tool args) args"
      "\<not> is_approved_for (request_approval_id q) q spec st"
    and new: "iv_approval_id (mc_invoke mc i1) = aid" "aid \<noteq> []"
    and reg: "reg = gateway_methods cx (business_methods mc)"
    and s1: "s1 = snd (handle_request cx reg i1
      (request token ''tool.invoke'' (tl (call_params token tool args))) s)"
    and s2: "s2 = snd (handle_request cx reg i2
      (request token ''approval.approve'' [(''approval_id'', PStr aid)]) s1)"
    and s3: "s3 = snd (handle_request cx reg i3
      (request token ''tool.invoke'' (tl (call_params token tool (dput ''approval_id'' (PStr aid) args)))) s2)"
  shows "mg_world (tools_of (gs_runtime s1)) = mg_world (tools_of (gs_runtime s))
    \<and> mg_world (tools_of (gs_runtime s2)) = mg_world (tools_of (gs_runtime s))
    \<and> mg_world (tools_of (gs_runtime s3))
        = snd (run_tool spec (with_approval aid q) (tools_of (gs_runtime s)))"
proof -
  let ?g = "tools_of (gs_runtime s)"
  let ?q = "with_approval aid q"
  have tok: "(''token'', PStr token) # tl (call_params token tool a) = call_params token tool a" for a
    by (simp add: call_params_def)
  have e1: "s1 = s\<lparr>gs_runtime := snd (gw_tool_invoke mc i1 (call_params token tool args) (gs_runtime s))\<rparr>"
    unfolding s1 reg by (subst tool_client_request[OF server client(1-3,6)]) (simp_all add: tok)
  obtain r g1 where g1: "gateway_invoke (mc_invoke mc i1) q ''gateway-method'' (Some ''gateway'') None ?g = (r, g1)"
    by (rule prod.exhaust)
  have t1: "tools_of (gs_runtime s1) = g1"
    using tool_invoke_tools[OF tool(3), of mc i1 token args "gs_runtime s"] g1 by (simp add: e1 q(1))
  have name: "rq_tool_name q = tool"
    by (simp add: q(1) tool_request_def call_params_def text_or_def py_get_or_def)
  have aid: "iv_approval_id (mc_invoke mc i1) \<noteq> []" using new by simp
  from approve_then_retry_runs[OF tool(1)[folded name] tool(2) guard aid q(2) g1,
      of "gi_now i2" "''gateway''" "[]", unfolded new(1)]
  obtain s1' s2' b where w1: "mg_world g1 = mg_world ?g" and a1: "mg_approvals g1 = Some s1'"
    and ap: "approval_approve (gi_now i2) aid ''gateway'' [] s1' = Inr (b, s2')"
    and retry: "gateway_invoke (mc_invoke mc i3) ?q ''gateway-method'' (Some ''gateway'') None
        (g1\<lparr>mg_approvals := Some s2'\<rparr>)
      = (let (out, w) = run_tool spec ?q (g1\<lparr>mg_approvals := Some s2'\<rparr>)
         in finish_call (mc_invoke mc i3) ?q ''gateway-method'' (Some ''gateway'') None out
              (g1\<lparr>mg_approvals := Some s2', mg_world := w\<rparr>))"
    by blast
  have e2: "s2 = s1\<lparr>gs_runtime := snd (gw_approval_approve i2
      [(''token'', PStr token), (''approval_id'', PStr aid)] (gs_runtime s1))\<rparr>"
    unfolding s2 reg by (subst tool_client_request[OF _ _ _ client(1,2,4,6)]) (simp_all add: e1 server)
  have t2: "tools_of (gs_runtime s2) = g1\<lparr>mg_approvals := Some s2'\<rparr>"
    using approve_step_tools[OF a1[folded t1] new(2) ap] t1 by (simp add: e2)
  have e3: "s3 = s2\<lparr>gs_runtime := snd (gw_tool_invoke mc i3
      (call_params token tool (dput ''approval_id'' (PStr aid) args)) (gs_runtime s2))\<rparr>"
    unfolding s3 reg by (subst tool_client_request[OF _ _ _ client(1,2,5,6)]) (simp_all add: e2 e1 server tok)
  obtain out w where rt: "run_tool spec ?q (tools_of (gs_runtime s2)) = (out, w)" by (rule prod.exhaust)
  have "mg_world (tools_of (gs_runtime s3)) = w"
    using tool_invoke_tools[OF tool(3), of mc i3 token "dput ''approval_id'' (PStr aid) args" "gs_runtime s2"]
      retry rt t2 by (simp add: e3 call_request q(1)[symmetric] finish_call_world[OF surjective_pairing])
  moreover have "run_tool spec ?q (tools_of (gs_runtime s2)) = run_tool spec ?q ?g"
    using gateway_invoke_tools[OF g1] w1 by (simp add: t2 run_tool_def split: option.split)
  ultimately show ?thesis using rt t1 t2 w1 by simp
qed

section \<open>A concrete gateway\<close>

text \<open>One tool that writes, whose handler counts its calls, and a client that may invoke tools.\<close>

definition demo_tools :: "bool \<Rightarrow> nat mcp_world mcp_gateway" where
  "demo_tools approval =
     \<lparr>mg_registry = \<lparr>tg_specs = [(''notify.send'', demo_spec)],
        tg_handlers = [(''notify.send'', \<lambda>_ (m, n). (Inr [], (m, Suc n)))]\<rparr>,
      mg_policy = \<lparr>pg_deny_write = False, pg_require_approval_for_write = approval\<rparr>,
      mg_approvals = Some (new_approval_store None), mg_audit = [], mg_client = None,
      mg_world = (new_mcp_manager [] None, 0)\<rparr>"

definition demo_world :: "bool \<Rightarrow> (nat, unit) gateway_world" where
  "demo_world approval =
     \<lparr>gw_runtime = (demo_runtime [])\<lparr>dr_env := (0, demo_tools approval)\<rparr>,
      gw_skills = \<lparr>pb_registry = new_skill_registry, pb_overlay = new_skill_overlay\<rparr>\<rparr>"

definition demo_methods_ctx :: "nat methods_ctx" where
  "demo_methods_ctx =
     \<lparr>mc_runtime = demo_runtime_ctx, mc_invoke = (\<lambda>_. demo_inputs),
      mc_case_json = (\<lambda>c. [(''case_id'', PStr (cr_case_id c))]),
      mc_reload = (\<lambda>_. Inr new_skill_registry), mc_install = (\<lambda>_ _ _ _ _. Inr [])\<rparr>"

definition tool_client :: auth_credentials where
  "tool_client = \<lparr>au_client_id = ''bot'', au_token = ''t'', au_capabilities = [''tool:invoke''],
     au_expires_at = Some 9000000\<rparr>"

definition tool_server :: "bool \<Rightarrow> (nat, unit) gateway_world gateway_server" where
  "tool_server approval =
     new_gateway_server (demo_world approval) (Some (demo_provider\<lparr>pv_tokens := [(''t'', tool_client)]\<rparr>))
       (Some (new_authorizer [] [])) None"

lemmas tool_server_defs = tool_server_def demo_world_def demo_tools_def new_gateway_server_def demo_runtime_def
  tools_of_def demo_provider_def tool_client_def demo_methods_ctx_def demo_at_def is_expired_def

definition own_calls :: "nat \<Rightarrow> (nat, unit) gateway_world gateway_server" where
  "own_calls n =
     (let reg = gateway_methods demo_ctx (business_methods demo_methods_ctx);
          s1 = snd (handle_request demo_ctx reg demo_at
            (request ''t'' ''tool.invoke'' (tl (call_params ''t'' ''notify.send'' []))) (tool_server True));
          s2 = snd (handle_request demo_ctx reg demo_at
            (request ''t'' ''approval.approve'' [(''approval_id'', PStr ''approval-1'')]) s1);
          s3 = snd (handle_request demo_ctx reg demo_at
            (request ''t'' ''tool.invoke'' (tl (call_params ''t'' ''notify.send''
               (dput ''approval_id'' (PStr ''approval-1'') [])))) s2)
      in if n = 1 then s1 else if n = 2 then s2 else s3)"

theorem client_approves_its_own_call_witness:
  "map (\<lambda>n. snd (mg_world (tools_of (gs_runtime (own_calls n))))) [1, 2, 3] = [0, 0, 1]"
proof -
  let ?q = "tool_request (call_params ''t'' ''notify.send'' []) []"
  have "gs_provider (tool_server True) = Some (demo_provider\<lparr>pv_tokens := [(''t'', tool_client)]\<rparr>)"
    "gs_limiter (tool_server True) = None" "gs_authorizer (tool_server True) = new_authorizer [] []"
    "dget (pv_tokens (demo_provider\<lparr>pv_tokens := [(''t'', tool_client)]\<rparr>)) ''t'' = Some tool_client"
    "au_token tool_client = ''t''"
    "\<not> is_expired (gi_now demo_at) tool_client" "\<not> is_expired (gi_now demo_at) tool_client"
    "\<not> is_expired (gi_now demo_at) tool_client" "au_capabilities tool_client = [''tool:invoke'']"
    "registry_get_spec (mg_registry (tools_of (gs_runtime (tool_server True)))) ''notify.send'' = Some demo_spec"
    "ts_permission_level demo_spec \<noteq> Perm_READ" "''notify.send'' \<noteq> []"
    "\<not> pg_deny_write (mg_policy (tools_of (gs_runtime (tool_server True))))"
    "pg_require_approval_for_write (mg_policy (tools_of (gs_runtime (tool_server True))))"
    "mg_approvals (tools_of (gs_runtime (tool_server True))) = Some (new_approval_store None)"
    by (simp_all add: tool_server_defs registry_get_spec_def demo_spec_def)
  moreover have "\<not> is_approved_for (request_approval_id ?q) ?q demo_spec (new_approval_store None)"
    by (simp add: is_approved_for_def approval_get_def new_approval_store_def)
  moreover have "iv_approval_id (mc_invoke demo_methods_ctx demo_at) = ''approval-1''"
    by (simp add: demo_methods_ctx_def demo_inputs_def)
  moreover have "snd (mg_world (tools_of (gs_runtime (tool_server True)))) = 0" by (simp add: tool_server_defs)
  moreover have "own_calls 3 = snd (handle_request demo_ctx (gateway_methods demo_ctx (business_methods demo_methods_ctx))
      demo_at (request ''t'' ''tool.invoke'' (tl (call_params ''t'' ''notify.send''
        (dput ''approval_id'' (PStr ''approval-1'') [])))) (own_calls 2))"
    "own_calls 2 = snd (handle_request demo_ctx (gateway_methods demo_ctx (business_methods demo_methods_ctx))
      demo_at (request ''t'' ''approval.approve'' [(''approval_id'', PStr ''approval-1'')]) (own_calls 1))"
    "own_calls 1 = snd (handle_request demo_ctx (gateway_methods demo_ctx (business_methods demo_methods_ctx))
      demo_at (request ''t'' ''tool.invoke'' (tl (call_params ''t'' ''notify.send'' []))) (tool_server True))"
    by (simp_all add: own_calls_def Let_def)
  moreover have "snd (snd (run_tool demo_spec (with_approval ''approval-1'' ?q) (tools_of (gs_runtime (tool_server True))))) = 1"
    by (simp add: tool_server_defs run_tool_def demo_spec_def registry_get_handler_def with_approval_def tool_request_def
        call_params_def text_or_def py_get_or_def)
  ultimately show ?thesis
    using client_approves_its_own_call[of "tool_server True" _ "''t''" tool_client demo_at demo_at demo_at "''notify.send''"
        demo_spec "new_approval_store None" ?q "[]" demo_methods_ctx "''approval-1''" _ demo_ctx "own_calls 1" "own_calls 2" "own_calls 3"]
    by simp
qed

theorem gateway_guards_tools_witness:
  "holds_access (demo_provider\<lparr>pv_tokens := [(''t'', tool_client)]\<rparr>) (new_authorizer [] []) 6000000
     (request ''t'' ''tool.invoke'' (tl (call_params ''t'' ''notify.send'' [])))
   \<and> admitted_call (demo_tools False) (tool_request (call_params ''t'' ''notify.send'' []) [])"
proof -
  let ?s = "tool_server False" and ?reg = "gateway_methods demo_ctx (business_methods demo_methods_ctx)"
  let ?f = "request ''t'' ''tool.invoke'' (tl (call_params ''t'' ''notify.send'' []))"
  let ?p = "demo_provider\<lparr>pv_tokens := [(''t'', tool_client)]\<rparr>"
  have p: "gs_provider ?s = Some ?p" and a: "gs_authorizer ?s = new_authorizer [] []"
    and w: "mg_world (tools_of (gs_runtime ?s)) = (new_mcp_manager [] None, 0)" "tools_of (gs_runtime ?s) = demo_tools False"
    by (simp_all add: tool_server_defs)
  have params: "rf_params ?f = call_params ''t'' ''notify.send'' []" "rf_method ?f = ''tool.invoke''"
    by (simp_all add: request_def call_params_def)
  have "check_security demo_ctx demo_at ?f ?s = (Inr (), ?s)"
    by (rule stored_token_passes[OF p])
      (use tool_client_authorized[of tool_client] in \<open>simp_all add: a, simp_all add: tool_server_defs\<close>)
  then have "snd (handle_request demo_ctx ?reg demo_at ?f ?s)
      = ?s\<lparr>gs_runtime := snd (gw_tool_invoke demo_methods_ctx demo_at (rf_params ?f) (gs_runtime ?s))\<rparr>"
    by (rule handle_admitted) (simp add: params registered_tool_methods)
  then have "tools_of (gs_runtime (snd (handle_request demo_ctx ?reg demo_at ?f ?s)))
      = snd (gateway_invoke demo_inputs (tool_request (call_params ''t'' ''notify.send'' []) []) ''gateway-method''
          (Some ''gateway'') None (demo_tools False))"
    using tool_invoke_tools[of "''notify.send''" demo_methods_ctx demo_at "''t''" "[]" "gs_runtime ?s"]
    by (simp add: params w(2), simp add: demo_methods_ctx_def)
  moreover have "snd (mg_world (snd (gateway_invoke demo_inputs (tool_request (call_params ''t'' ''notify.send'' []) [])
      ''gateway-method'' (Some ''gateway'') None (demo_tools False)))) = 1"
    by (simp add: gateway_invoke_def demo_tools_def registry_get_spec_def tool_request_def call_params_def text_or_def
        py_get_or_def policy_enforce_def demo_spec_def run_tool_def registry_get_handler_def)
  ultimately have "mg_world (tools_of (gs_runtime (snd (handle_request demo_ctx ?reg demo_at ?f ?s))))
      \<noteq> mg_world (tools_of (gs_runtime ?s))"
    using w(1) by (metis snd_conv zero_neq_one)
  from gateway_guards_tools[OF p surjective_pairing this] show ?thesis
    unfolding params a w(2) by (auto simp: demo_at_def call_params_def py_get_or_def)
qed

definition create_params :: pydict where
  "create_params = [(''symptom'', PStr ''down'')]"

theorem created_case_is_found_witness:
  "\<exists>reply g'. gw_case_create demo_methods_ctx demo_at create_params (demo_world True) = (Inr reply, g')
     \<and> py_get reply ''case_id'' \<noteq> PNone
     \<and> listed_cases [] (so_cases (dr_stores (gw_runtime g'))) \<noteq> []"
proof -
  let ?g = "demo_world True"
  let ?req = "\<lparr>cq_title = ''Untitled Case'', cq_symptom = ''down'', cq_service_name = ''unknown-service'',
      cq_source = ''gateway'', cq_metadata = []\<rparr>"
  have req: "request_of_params ''Untitled Case'' create_params = Inr ?req"
    by (simp add: request_of_params_def create_params_def text_or_def py_get_or_def make_case_request_def
        valid_case_create_request_def)
  have rt: "gw_runtime ?g = (demo_runtime [])\<lparr>dr_env := (0, demo_tools True)\<rparr>" by (simp add: demo_world_def)
  have "dr_bus (gw_runtime ?g) = []" by (simp add: rt demo_bus)
  then obtain run w' where run: "run_default_flow_from_case_request demo_runtime_ctx ?req (gw_runtime ?g) = (Inr run, w')"
    by (rule bare_default_flow)
  have mc: "mc_runtime demo_methods_ctx = demo_runtime_ctx" by (simp add: demo_methods_ctx_def)
  have agent: "\<not> resolve_use_agent (use_agent_param create_params) (gw_runtime ?g)"
    by (simp add: rt resolve_use_agent_def use_agent_param_def create_params_def py_get_or_def demo_runtime_def)
  obtain reply g' where r: "gw_case_create demo_methods_ctx demo_at create_params ?g = (Inr reply, g')"
    using run agent by (simp add: gw_case_create_def req mc seq_def eff_defs on_world_runtime_def)
  have ids: "inj (\<lambda>n. ac_case_id (lx_attempt (rc_loop (mc_runtime demo_methods_ctx) (dr_runs (gw_runtime ?g))) n))"
    using demo_ids by (simp add: mc)
  have named: "ac_case_id (lx_attempt (rc_loop (mc_runtime demo_methods_ctx) (dr_runs (gw_runtime ?g))) n) \<noteq> []" for n
    by (simp add: mc demo_runtime_ctx_def demo_bare_loop_def demo_loop_def demo_agent_attempt_def)
  have "keyed cr_case_id (so_cases (dr_stores (gw_runtime ?g)))"
    by (simp add: rt demo_runtime_def demo_stores_def)
  from created_case_is_found[OF r ids named this] r show ?thesis by fastforce
qed

end
