(* ===== verification/NotifyStores.thy ===== *)
theory NotifyStores
  imports Prelude "HOL-Library.Product_Lexorder"
begin

text \<open>
  The stores of notification channels and of message templates (\<open>storage/notification_channels.py\<close>,
  \<open>storage/message_templates.py\<close>): the channels in a JSON file and in SQLite tables, the templates in a JSON
  file. Fresh identifiers, the clock and the built-in template, whose texts are Chinese, are arguments.
  The rows are those the stores write themselves.
\<close>

section \<open>Channels\<close>

record channel_row =
  nc_channel_id :: string
  nc_name :: string
  nc_channel_type :: string
  nc_endpoint_url :: string
  nc_secret :: string
  nc_enabled :: bool
  nc_sort_order :: int
  nc_template_id :: string
  nc_metadata :: pydict
  nc_created_at :: string
  nc_updated_at :: string

record store_inputs =
  si_fresh :: string
  si_now :: string

definition allowed_channel_types :: "string set" where
  "allowed_channel_types = {''webhook'', ''feishu'', ''dingtalk'', ''wechat_work'', ''slack'', ''discord''}"

definition validate_channel_type :: "string \<Rightarrow> string res" where
  "validate_channel_type raw =
     (let normalized = py_lower (py_strip raw)
      in if normalized \<in> allowed_channel_types then Inr normalized
         else Inl (ValueError (''unsupported channel_type: '' @ raw)))"

text \<open>A stored row as a dictionary, and what the pages show of it.\<close>

definition channel_dict :: "channel_row \<Rightarrow> pydict" where
  "channel_dict c =
     [(''channel_id'', PStr (nc_channel_id c)), (''name'', PStr (nc_name c)),
      (''channel_type'', PStr (nc_channel_type c)), (''endpoint_url'', PStr (nc_endpoint_url c)),
      (''secret'', PStr (nc_secret c)), (''enabled'', PBool (nc_enabled c)),
      (''sort_order'', PInt (nc_sort_order c)), (''template_id'', PStr (nc_template_id c)),
      (''metadata'', PDict (nc_metadata c)), (''created_at'', PStr (nc_created_at c)),
      (''updated_at'', PStr (nc_updated_at c))]"

definition mask_channel_for_api :: "pydict \<Rightarrow> pydict" where
  "mask_channel_for_api channel =
     (let secret = py_str (py_or (py_get channel ''secret'') (PStr []))
      in ddel ''secret''
           (dput ''masked_secret'' (PStr (if secret = [] then [] else ''******''))
             (dput ''has_secret'' (PBool (secret \<noteq> [])) channel)))"

definition sort_channels :: "channel_row list \<Rightarrow> channel_row list" where
  "sort_channels = sort_key (\<lambda>c. (nc_sort_order c, nc_name c))"

text \<open>
  \<open>old f\<close> is a field of the stored row, \<open>None\<close> where there is no row; \<open>given k v\<close> is the payload's
  value if it has the key, otherwise \<open>v\<close>. A key given as \<open>null\<close> counts as given.
\<close>

definition old_field :: "('a \<Rightarrow> pyval) \<Rightarrow> 'a option \<Rightarrow> pyval" where
  "old_field f existing = (case existing of None \<Rightarrow> PNone | Some e \<Rightarrow> f e)"

definition given :: "pydict \<Rightarrow> string \<Rightarrow> pyval \<Rightarrow> pyval" where
  "given payload k v = (case dget payload k of None \<Rightarrow> v | Some x \<Rightarrow> x)"

definition normalize_secret :: "pydict \<Rightarrow> channel_row option \<Rightarrow> string" where
  "normalize_secret p existing =
     (let raw = py_get p ''secret'' in
      case existing of
        Some e \<Rightarrow> (if raw = PNone \<or> py_strip (py_str raw) = [] then nc_secret e else py_str (py_or raw (PStr [])))
      | None \<Rightarrow> py_str (py_or raw (PStr [])))"

definition normalize_channel :: "store_inputs \<Rightarrow> pydict \<Rightarrow> channel_row option \<Rightarrow> channel_row res" where
  "normalize_channel si p existing =
     (let text = \<lambda>f. old_field (\<lambda>e. PStr (f e)) existing;
          name = py_strip (py_str (py_or (py_or (py_get p ''name'') (text nc_name)) (PStr [])));
          channel_id = py_str (py_or (py_or (py_get p ''channel_id'') (text nc_channel_id)) (PStr (si_fresh si)));
          channel_type = py_str (py_or (py_or (py_get p ''channel_type'') (text nc_channel_type)) (PStr ''webhook''));
          endpoint = py_strip (py_str (given p ''endpoint_url'' (py_or (text nc_endpoint_url) (PStr []))));
          created_at = py_str (py_or (py_or (text nc_created_at) (py_get p ''created_at'')) (PStr (si_now si)));
          metadata = given p ''metadata'' (old_field (\<lambda>e. PDict (nc_metadata e)) existing);
          enabled = given p ''enabled'' (case existing of None \<Rightarrow> PBool True | Some e \<Rightarrow> PBool (nc_enabled e));
          sort_order = given p ''sort_order'' (case existing of None \<Rightarrow> PInt 0 | Some e \<Rightarrow> PInt (nc_sort_order e));
          template_id = py_strip (py_str (given p ''template_id'' (py_or (text nc_template_id) (PStr []))))
      in if name = [] then Inl (ValueError ''name is required'')
         else bind_res (validate_channel_type channel_type) (\<lambda>kind.
           if endpoint = [] then Inl (ValueError ''endpoint_url is required'')
           else bind_res (case metadata of PNone \<Rightarrow> Inr [] | PDict d \<Rightarrow> Inr d
                          | _ \<Rightarrow> Inl (ValueError ''metadata must be an object'')) (\<lambda>meta.
             bind_res (py_int (py_or sort_order (PInt 0))) (\<lambda>order.
               Inr \<lparr>nc_channel_id = channel_id, nc_name = name, nc_channel_type = kind,
                    nc_endpoint_url = endpoint, nc_secret = normalize_secret p existing,
                    nc_enabled = py_truthy enabled, nc_sort_order = order, nc_template_id = template_id,
                    nc_metadata = meta, nc_created_at = created_at, nc_updated_at = si_now si\<rparr>))))"

text \<open>The row an upsert finds: by the identifier, if one is given, else by the name.\<close>

definition payload_channel_id :: "pydict \<Rightarrow> string" where
  "payload_channel_id p = py_strip (py_str (py_or (py_get p ''channel_id'') (PStr [])))"

definition find_existing :: "pydict \<Rightarrow> channel_row list \<Rightarrow> channel_row option" where
  "find_existing p rows =
     (let i = payload_channel_id p; name = py_strip (py_str (py_or (py_get p ''name'') (PStr [])));
          by_id = (if i = [] then None else List.find (\<lambda>c. nc_channel_id c = i) rows)
      in case by_id of Some c \<Rightarrow> Some c | None \<Rightarrow> List.find (\<lambda>c. nc_name c = name) rows)"

definition default_key :: "string \<Rightarrow> pyval \<Rightarrow> pydict \<Rightarrow> pydict" where
  "default_key k v d = (if k \<in> set (dkeys d) then d else d @ [(k, v)])"

definition default_settings :: pydict where
  "default_settings = [(''broadcast_enabled'', PBool True)]"

text \<open>Both stores as operations, so that a client works with either.\<close>

record 's channel_ops =
  co_list :: "'s \<Rightarrow> channel_row list"
  co_get :: "'s \<Rightarrow> string \<Rightarrow> channel_row option"
  co_upsert :: "store_inputs \<Rightarrow> pydict \<Rightarrow> ('s, channel_row) eff"
  co_delete :: "string \<Rightarrow> 's \<Rightarrow> 's"
  co_get_settings :: "'s \<Rightarrow> pydict"
  co_update_settings :: "pydict \<Rightarrow> 's \<Rightarrow> pydict \<times> 's"

subsection \<open>In a file (FileNotificationChannelStore)\<close>

record channel_file =
  cf_channels :: "channel_row list"
  cf_settings :: pydict

definition new_channel_file :: channel_file where
  "new_channel_file = \<lparr>cf_channels = [], cf_settings = default_settings\<rparr>"

definition file_list_channels :: "channel_file \<Rightarrow> channel_row list" where
  "file_list_channels f = sort_channels (cf_channels f)"

definition file_get_channel :: "channel_file \<Rightarrow> string \<Rightarrow> channel_row option" where
  "file_get_channel f i = List.find (\<lambda>c. nc_channel_id c = i) (file_list_channels f)"

definition file_upsert_channel :: "store_inputs \<Rightarrow> pydict \<Rightarrow> (channel_file, channel_row) eff" where
  "file_upsert_channel si p f =
     (case normalize_channel si p (find_existing p (cf_channels f)) of
        Inl e \<Rightarrow> (Inl e, f)
      | Inr c \<Rightarrow>
          (if \<exists>x \<in> set (cf_channels f). nc_name x = nc_name c \<and> nc_channel_id x \<noteq> nc_channel_id c
           then (Inl (ValueError (''channel name already exists: '' @ nc_name c)), f)
           else (Inr c, f\<lparr>cf_channels := filter (\<lambda>x. nc_channel_id x \<noteq> nc_channel_id c) (cf_channels f) @ [c]\<rparr>)))"

definition file_delete_channel :: "string \<Rightarrow> channel_file \<Rightarrow> channel_file" where
  "file_delete_channel i f = f\<lparr>cf_channels := filter (\<lambda>x. nc_channel_id x \<noteq> i) (cf_channels f)\<rparr>"

definition file_get_settings :: "channel_file \<Rightarrow> pydict" where
  "file_get_settings f = default_key ''broadcast_enabled'' (PBool True) (cf_settings f)"

definition file_update_settings :: "pydict \<Rightarrow> channel_file \<Rightarrow> pydict \<times> channel_file" where
  "file_update_settings patch f =
     (let settings = dunion (cf_settings f) patch in (settings, f\<lparr>cf_settings := settings\<rparr>))"

definition file_channel_ops :: "channel_file channel_ops" where
  "file_channel_ops =
     \<lparr>co_list = file_list_channels, co_get = file_get_channel, co_upsert = file_upsert_channel,
      co_delete = file_delete_channel, co_get_settings = file_get_settings,
      co_update_settings = file_update_settings\<rparr>"

subsection \<open>In SQLite (SqliteNotificationChannelStore)\<close>

text \<open>
  \<open>channel_id\<close> is the primary key and \<open>name\<close> unique: \<open>INSERT OR REPLACE\<close> removes every row that has the
  identifier or the name of the new one. An integer column holds 64 bits.
\<close>

record channel_db =
  cd_rows :: "channel_row list"
  cd_settings :: "pydict option"

definition new_channel_db :: channel_db where
  "new_channel_db = \<lparr>cd_rows = [], cd_settings = Some default_settings\<rparr>"

definition fits_column :: "int \<Rightarrow> bool" where
  "fits_column n \<longleftrightarrow> - (2 ^ 63) \<le> n \<and> n < 2 ^ 63"

definition db_list_channels :: "channel_db \<Rightarrow> channel_row list" where
  "db_list_channels s = sort_channels (cd_rows s)"

definition db_get_channel :: "channel_db \<Rightarrow> string \<Rightarrow> channel_row option" where
  "db_get_channel s i = List.find (\<lambda>c. nc_channel_id c = i) (cd_rows s)"

definition db_find_existing :: "pydict \<Rightarrow> channel_db \<Rightarrow> channel_row option" where
  "db_find_existing p s =
     (let i = payload_channel_id p; name = py_strip (py_str (py_or (py_get p ''name'') (PStr [])));
          by_id = (if i = [] then None else db_get_channel s i)
      in case by_id of Some c \<Rightarrow> Some c | None \<Rightarrow> List.find (\<lambda>c. nc_name c = name) (db_list_channels s))"

definition db_upsert_channel :: "store_inputs \<Rightarrow> pydict \<Rightarrow> (channel_db, channel_row) eff" where
  "db_upsert_channel si p s =
     (case normalize_channel si p (db_find_existing p s) of
        Inl e \<Rightarrow> (Inl e, s)
      | Inr c \<Rightarrow>
          (if \<not> fits_column (nc_sort_order c) then (Inl (OtherError ''OverflowError''), s)
           else (Inr c, s\<lparr>cd_rows := filter (\<lambda>x. nc_channel_id x \<noteq> nc_channel_id c \<and> nc_name x \<noteq> nc_name c)
                            (cd_rows s) @ [c]\<rparr>)))"

definition db_delete_channel :: "string \<Rightarrow> channel_db \<Rightarrow> channel_db" where
  "db_delete_channel i s = s\<lparr>cd_rows := filter (\<lambda>x. nc_channel_id x \<noteq> i) (cd_rows s)\<rparr>"

definition db_get_settings :: "channel_db \<Rightarrow> pydict" where
  "db_get_settings s =
     (case cd_settings s of
        None \<Rightarrow> default_settings
      | Some d \<Rightarrow> default_key ''broadcast_enabled'' (PBool True) d)"

definition db_update_settings :: "pydict \<Rightarrow> channel_db \<Rightarrow> pydict \<times> channel_db" where
  "db_update_settings patch s =
     (let settings = dunion (db_get_settings s) patch in (settings, s\<lparr>cd_settings := Some settings\<rparr>))"

definition db_channel_ops :: "channel_db channel_ops" where
  "db_channel_ops =
     \<lparr>co_list = db_list_channels, co_get = db_get_channel, co_upsert = db_upsert_channel,
      co_delete = db_delete_channel, co_get_settings = db_get_settings,
      co_update_settings = db_update_settings\<rparr>"

subsection \<open>The callbacks of an older configuration (migrate_legacy_callbacks_from_admin)\<close>

definition legacy_payload :: "string \<Rightarrow> pydict \<Rightarrow> pydict res" where
  "legacy_payload fresh item =
     (let name = py_strip (py_str (py_or (py_get item ''name'') (PStr []))) in
      bind_res (py_dict (py_or (py_get item ''metadata'') (PDict []))) (\<lambda>metadata.
        Inr [(''name'', PStr (if name = [] then ''legacy-'' @ take 8 fresh else name)),
             (''channel_type'', PStr (py_str (py_or (py_get item ''channel'') (PStr ''webhook'')))),
             (''endpoint_url'', PStr (py_strip (py_str (py_or (py_get item ''url'') (PStr []))))),
             (''secret'', PStr (py_str (py_or (py_get item ''secret'') (PStr [])))),
             (''enabled'', PBool (py_truthy (py_get_or item ''enabled'' (PBool True)))),
             (''metadata'', PDict metadata)]))"

definition migrate_item :: "'s channel_ops \<Rightarrow> store_inputs \<times> string \<times> pydict \<Rightarrow> ('s, unit) eff" where
  "migrate_item ops = (\<lambda>(si, fresh, item).
     if py_strip (py_str (py_or (py_get item ''url'') (PStr []))) = [] then give ()
     else seq (lift_res (legacy_payload fresh item)) (\<lambda>p. seq (co_upsert ops si p) (\<lambda>_. give ())))"

definition callback_items :: "pyval \<Rightarrow> pydict list res" where
  "callback_items v =
     (case v of
        PList xs \<Rightarrow> Inr (concat (map (\<lambda>x. case x of PDict d \<Rightarrow> [d] | _ \<Rightarrow> []) xs))
      | PStr _ \<Rightarrow> Inr [] | PDict _ \<Rightarrow> Inr []
      | _ \<Rightarrow> Inl (TypeError ''object is not iterable''))"

definition migrate_legacy_callbacks ::
    "'s channel_ops \<Rightarrow> (nat \<Rightarrow> store_inputs \<times> string) \<Rightarrow> pydict \<Rightarrow> ('s, pydict) eff" where
  "migrate_legacy_callbacks ops inputs admin_data =
     seq (lift_res (callback_items (py_get_or admin_data ''callbacks'' (PList [])))) (\<lambda>callbacks s.
       if callbacks = [] \<or> co_list ops s \<noteq> [] then (Inr admin_data, s)
       else seq (seq_map (migrate_item ops)
                   (map (\<lambda>(n, item). (fst (inputs n), snd (inputs n), item)) (enumerate 0 callbacks)))
              (\<lambda>_. give (dput ''callbacks'' (PList []) admin_data)) s)"

section \<open>Templates in a file (FileMessageTemplateStore)\<close>

record template_row =
  mt_template_id :: string
  mt_name :: string
  mt_kind :: string
  mt_body :: string
  mt_description :: string
  mt_created_at :: string
  mt_updated_at :: string

definition system_template_id :: string where
  "system_template_id = ''system-default''"

record template_texts =
  tx_name :: string
  tx_body :: string
  tx_description :: string

definition system_template :: "template_texts \<Rightarrow> string \<Rightarrow> template_row" where
  "system_template tx now =
     \<lparr>mt_template_id = system_template_id, mt_name = tx_name tx, mt_kind = ''system'', mt_body = tx_body tx,
      mt_description = tx_description tx, mt_created_at = now, mt_updated_at = now\<rparr>"

definition sort_templates :: "template_row list \<Rightarrow> template_row list" where
  "sort_templates = sort_key (\<lambda>t. (if mt_kind t = ''system'' then 0 else 1 :: nat, mt_name t))"

type_synonym template_file = "template_row list"

definition ensure_system_template :: "template_texts \<Rightarrow> string \<Rightarrow> template_file \<Rightarrow> template_file" where
  "ensure_system_template tx now ts =
     (if \<exists>t \<in> set ts. mt_template_id t = system_template_id then ts else system_template tx now # ts)"

definition list_templates :: "template_texts \<Rightarrow> string \<Rightarrow> template_file \<Rightarrow> template_row list \<times> template_file" where
  "list_templates tx now ts =
     (let ts' = ensure_system_template tx now ts in (sort_templates ts', ts'))"

definition get_template ::
    "template_texts \<Rightarrow> string \<Rightarrow> string \<Rightarrow> template_file \<Rightarrow> template_row option \<times> template_file" where
  "get_template tx now i ts =
     (case list_templates tx now ts of
        (items, ts') \<Rightarrow> (List.find (\<lambda>t. mt_template_id t = py_strip i) items, ts'))"

definition normalize_template :: "store_inputs \<Rightarrow> pydict \<Rightarrow> template_row option \<Rightarrow> template_row res" where
  "normalize_template si p existing =
     (let text = \<lambda>f. old_field (\<lambda>e. PStr (f e)) existing;
          name = py_strip (py_str (py_or (py_or (py_get p ''name'') (text mt_name)) (PStr [])));
          body = py_strip (py_str (given p ''body'' (py_or (text mt_body) (PStr []))));
          i0 = py_strip (py_str (py_or (py_or (py_get p ''template_id'') (text mt_template_id)) (PStr (si_fresh si))));
          i = (if i0 = [] then si_fresh si else i0);
          is_system = (i = system_template_id \<or> text mt_kind = PStr ''system'');
          description = py_str (given p ''description'' (py_or (text mt_description) (PStr [])));
          created_at = py_str (py_or (py_or (text mt_created_at) (py_get p ''created_at'')) (PStr (si_now si)))
      in if name = [] then Inl (ValueError ''name is required'')
         else if body = [] then Inl (ValueError ''body is required'')
         else if \<not> is_system \<and> py_lower (py_strip (py_str (py_or (py_get p ''kind'') (PStr [])))) = ''system''
         then Inl (ValueError ''cannot create additional system templates'')
         else Inr \<lparr>mt_template_id = (if is_system then system_template_id else i), mt_name = name,
                   mt_kind = (if is_system then ''system'' else ''custom''), mt_body = body,
                   mt_description = description, mt_created_at = created_at, mt_updated_at = si_now si\<rparr>)"

definition find_template :: "pydict \<Rightarrow> template_file \<Rightarrow> template_row option" where
  "find_template p ts =
     (let i = py_strip (py_str (py_or (py_get p ''template_id'') (PStr [])));
          name = py_strip (py_str (py_or (py_get p ''name'') (PStr [])))
      in case List.find (\<lambda>t. mt_template_id t = i) ts of
           Some t \<Rightarrow> Some t | None \<Rightarrow> List.find (\<lambda>t. mt_name t = name) ts)"

definition upsert_template :: "template_texts \<Rightarrow> store_inputs \<Rightarrow> pydict \<Rightarrow> (template_file, template_row) eff" where
  "upsert_template tx si p ts0 =
     (let ts = ensure_system_template tx (si_now si) ts0 in
      case normalize_template si p (find_template p ts) of
        Inl e \<Rightarrow> (Inl e, ts)
      | Inr t \<Rightarrow> (Inr t, filter (\<lambda>x. mt_template_id x \<noteq> mt_template_id t) ts @ [t]))"

definition delete_template :: "template_texts \<Rightarrow> string \<Rightarrow> string \<Rightarrow> (template_file, unit) eff" where
  "delete_template tx now i0 ts0 =
     (let i = py_strip i0; refusal = Inl (ValueError ''cannot delete system template'') in
      if i = system_template_id then (refusal, ts0)
      else case get_template tx now i ts0 of
             (existing, ts) \<Rightarrow>
               (if (case existing of None \<Rightarrow> False | Some t \<Rightarrow> mt_kind t = ''system'') then (refusal, ts)
                else (Inr (), ensure_system_template tx now (filter (\<lambda>x. mt_template_id x \<noteq> i) ts))))"

text \<open>The body a channel's message is made of (\<open>notify_dispatch.py\<close>).\<close>

definition resolve_template_body ::
    "template_texts \<Rightarrow> string \<Rightarrow> string \<Rightarrow> template_file \<Rightarrow> string \<times> template_file" where
  "resolve_template_body tx now i ts0 =
     (let tid = (if py_strip i = [] then system_template_id else py_strip i);
          (found, ts1) = get_template tx now tid ts0;
          (row, ts2) = (case found of Some t \<Rightarrow> (Some t, ts1) | None \<Rightarrow> get_template tx now system_template_id ts1);
          body = (case row of None \<Rightarrow> [] | Some t \<Rightarrow> py_strip (mt_body t))
      in (if body = [] then tx_body tx else body, ts2))"

end
