(* ===== verification/NotifyDispatch.thy ===== *)
theory NotifyDispatch
  imports NotifyStores Inbound
begin

text \<open>
  Outbound notifications (\<open>channel_routing/\<close>): the rendering of message templates, the adapters of the six
  kinds of channels, the targets made of the stored channels or of the environment, and the broadcast
  of a message. The HTTP client, the DingTalk signature and the texts of foreign exceptions are arguments.
\<close>

section \<open>Rendering a template (message_template_render.py)\<close>

text \<open>The text before and after the first occurrence of a pattern.\<close>

fun split_first :: "string \<Rightarrow> string \<Rightarrow> (string \<times> string) option" where
  "split_first pat [] = (if pat = [] then Some ([], []) else None)"
| "split_first pat (c # cs) =
     (if starts_with (c # cs) pat then Some ([], drop (length pat) (c # cs))
      else map_option (\<lambda>(a, b). (c # a, b)) (split_first pat cs))"

text \<open>\<open>opening w} }\<close> at the head of a text: the word and what follows.\<close>

definition tag_at :: "string \<Rightarrow> string \<Rightarrow> (string \<times> string) option" where
  "tag_at opening s =
     (if \<not> starts_with s opening then None
      else let r = drop (length opening) s; name = takeWhile word_char r; rest = drop (length name) r
           in if name \<noteq> [] \<and> starts_with rest ''}}'' then Some (name, drop 2 rest) else None)"

definition block_at :: "string \<Rightarrow> (string \<times> string \<times> string) option" where
  "block_at s =
     (case tag_at ''{{#'' s of
        None \<Rightarrow> None
      | Some (name, rest) \<Rightarrow>
          map_option (\<lambda>(inner, post). (name, inner, post)) (split_first (''{{/'' @ name @ ''}}'') rest))"

type_synonym message_context = "(string \<times> string) list"

definition context_value :: "message_context \<Rightarrow> string \<Rightarrow> string" where
  "context_value cx k = (case dget cx k of None \<Rightarrow> [] | Some v \<Rightarrow> v)"

lemma split_first_length: "split_first pat s = Some (a, b) \<Longrightarrow> length a + length pat + length b = length s"
proof (induction s arbitrary: a)
  case (Cons c cs)
  show ?case
  proof (cases "starts_with (c # cs) pat")
    case True
    then have "length pat \<le> length (c # cs)" by (metis starts_with_iff length_append le_add1)
    then show ?thesis using True Cons.prems by auto
  next
    case False
    then show ?thesis using Cons by auto
  qed
qed (auto split: if_splits)

lemma tag_at_length: "tag_at op s = Some (name, rest) \<Longrightarrow> length rest < length s"
proof -
  assume t: "tag_at op s = Some (name, rest)"
  let ?r = "drop (length op) s"
  let ?q = "drop (length name) ?r"
  have n: "name = takeWhile word_char ?r" "name \<noteq> []" "rest = drop 2 ?q"
    using t by (auto simp: tag_at_def Let_def split: if_splits)
  have "length name \<le> length ?r" unfolding n(1) by (rule length_takeWhile_le)
  moreover have "0 < length name" using n(2) by simp
  ultimately have "length ?q < length s" by (simp only: length_drop)
  then show ?thesis unfolding n(3) by simp
qed

lemma block_at_length:
  "block_at s = Some (name, inner, post) \<Longrightarrow> length inner < length s \<and> length post < length s"
  by (auto simp: block_at_def dest!: tag_at_length split_first_length split: option.splits)

function render_variables :: "message_context \<Rightarrow> string \<Rightarrow> string" where
  "render_variables cx [] = []"
| "render_variables cx (c # cs) =
     (case tag_at ''{{'' (c # cs) of
        Some (name, rest) \<Rightarrow> context_value cx name @ render_variables cx rest
      | None \<Rightarrow> c # render_variables cx cs)"
  by pat_completeness auto
termination
  by (relation "measure (length \<circ> snd)") (auto dest: tag_at_length)

function render_blocks :: "message_context \<Rightarrow> string \<Rightarrow> string" where
  "render_blocks cx [] = []"
| "render_blocks cx (c # cs) =
     (case block_at (c # cs) of
        Some (name, inner, post) \<Rightarrow>
          (if py_strip (context_value cx name) = [] then []
           else render_variables cx (render_blocks cx inner)) @ render_blocks cx post
      | None \<Rightarrow> c # render_blocks cx cs)"
  by pat_completeness auto
termination
  by (relation "measure (length \<circ> snd)") (auto dest: block_at_length)

definition render_message_template :: "string \<Rightarrow> message_context \<Rightarrow> string" where
  "render_message_template body cx = render_variables cx (render_blocks cx body)"

section \<open>Adapters (adapter.py, adapters.py)\<close>

record send_result =
  sr_ok :: bool
  sr_channel :: string
  sr_message :: string
  sr_error :: pyval
  sr_metadata :: pydict

text \<open>
  The answer of \<open>httpx\<close>: a response with its status, its text and its JSON value if it has one, a
  timeout, another transport error, or any other exception; with the texts of the exceptions.
\<close>

datatype http_outcome =
    Http_response int string "pyval option"
  | Http_timeout string
  | Http_request_error string
  | Http_raised pyerr string

record 'w notify_ctx =
  nx_post :: "string \<Rightarrow> pydict \<Rightarrow> pydict \<Rightarrow> 'w \<Rightarrow> http_outcome \<times> 'w"
  nx_sign :: "string \<Rightarrow> string"   \<comment> \<open>the query of a signed DingTalk URL, for a secret\<close>
  nx_json_error :: "string \<Rightarrow> string"
  nx_type_error :: string

type_synonym 'w adapter = "outbound_target \<Rightarrow> string \<Rightarrow> ('w, send_result) eff"

definition send_failed :: "outbound_target \<Rightarrow> string \<Rightarrow> string \<Rightarrow> send_result" where
  "send_failed t message err =
     \<lparr>sr_ok = False, sr_channel = ot_channel t, sr_message = message, sr_error = PStr err, sr_metadata = []\<rparr>"

definition webhook_payload :: "outbound_target \<Rightarrow> string \<Rightarrow> pydict" where
  "webhook_payload t message =
     dunion [(''message'', PStr message), (''channel'', PStr (ot_channel t)), (''team'', PStr (ot_team t))]
       (ot_metadata t)"

definition webhook_send :: "'w notify_ctx \<Rightarrow> 'w adapter" where
  "webhook_send nx t message w =
     (case py_get_or (ot_metadata t) ''headers'' (PDict []) of
        PDict headers \<Rightarrow>
          (case nx_post nx (ot_endpoint t) (webhook_payload t message)
                  (dunion [(''Content-Type'', PStr ''application/json'')] headers) w of
             (Http_response status body _, w') \<Rightarrow>
               (let ok = (200 \<le> status \<and> status < 300) in
                (Inr \<lparr>sr_ok = ok, sr_channel = ot_channel t, sr_message = message,
                      sr_error = (if ok then PNone else PStr (''HTTP '' @ int_str status @ '': '' @ take 200 body)),
                      sr_metadata = [(''endpoint'', PStr (ot_endpoint t)), (''status_code'', PInt status),
                        (''response_body'', if body = [] then PNone else PStr (take 500 body))]\<rparr>, w'))
           | (Http_timeout _, w') \<Rightarrow> (Inr (send_failed t message ''Request timeout''), w')
           | (Http_request_error e, w') \<Rightarrow> (Inr (send_failed t message (''Request error: '' @ e)), w')
           | (Http_raised e _, w') \<Rightarrow> (Inl e, w'))
      | _ \<Rightarrow> (Inl (TypeError ''headers is not a mapping''), w))"

text \<open>
  What the other adapters share: every exception of the call becomes a failed result. \<open>judge\<close> reads the
  response, \<open>None\<close> where it raises.
\<close>

definition is_zero :: "pyval \<Rightarrow> bool" where
  "is_zero v \<longleftrightarrow> v = PInt 0 \<or> v = PBool False \<or> v = PFloat 0"

definition post_and_judge ::
    "'w notify_ctx \<Rightarrow> (int \<Rightarrow> string \<Rightarrow> pyval option \<Rightarrow> string + (bool \<times> pyval \<times> pydict)) \<Rightarrow> string \<Rightarrow> pydict
     \<Rightarrow> outbound_target \<Rightarrow> string \<Rightarrow> 'w \<Rightarrow> send_result \<times> 'w" where
  "post_and_judge nx judge url payload t message w =
     (case nx_post nx url payload [] w of
        (Http_response status body json, w') \<Rightarrow>
          ((case judge status body json of
              Inl e \<Rightarrow> send_failed t message e
            | Inr (ok, err, metadata) \<Rightarrow>
                \<lparr>sr_ok = ok, sr_channel = ot_channel t, sr_message = message, sr_error = err,
                 sr_metadata = metadata\<rparr>), w')
      | (Http_timeout e, w') \<Rightarrow> (send_failed t message e, w')
      | (Http_request_error e, w') \<Rightarrow> (send_failed t message e, w')
      | (Http_raised _ e, w') \<Rightarrow> (send_failed t message e, w'))"

definition judge_json ::
    "'w notify_ctx \<Rightarrow> (pydict \<Rightarrow> bool) \<Rightarrow> string \<Rightarrow> int \<Rightarrow> string \<Rightarrow> pyval option
     \<Rightarrow> string + (bool \<times> pyval \<times> pydict)" where
  "judge_json nx ok error_key status body json =
     (case json of
        None \<Rightarrow> Inl (nx_json_error nx body)
      | Some (PDict d) \<Rightarrow>
          Inr (ok d, if ok d then PNone else py_get d error_key, [(''response'', PDict d)])
      | Some _ \<Rightarrow> Inl (nx_type_error nx))"

definition message_type :: "outbound_target \<Rightarrow> pyval" where
  "message_type t = py_get_or (ot_metadata t) ''msg_type'' (PStr ''text'')"

definition feishu_content :: "outbound_target \<Rightarrow> string \<Rightarrow> pydict" where
  "feishu_content t message =
     (if message_type t = PStr ''post''
      then [(''post'', PDict [(''zh_cn'', PDict
              [(''title'', py_get_or (ot_metadata t) ''title'' (PStr ''Notification'')),
               (''content'', PList [PList [PDict [(''tag'', PStr ''text''), (''text'', PStr message)]]])])])]
      else [(''text'', PStr message)])"

definition feishu_send :: "'w notify_ctx \<Rightarrow> 'w adapter" where
  "feishu_send nx t message w =
     map_prod Inr id
       (post_and_judge nx (judge_json nx (\<lambda>d. is_zero (py_get d ''StatusCode'') \<or> is_zero (py_get d ''code'')) ''msg'')
          (ot_endpoint t) [(''msg_type'', message_type t), (''content'', PDict (feishu_content t message))]
          t message w)"

text \<open>
  DingTalk and WeChat Work name a key of the payload by the type: a list or a dictionary cannot be one,
  and JSON writes the others as texts.
\<close>

definition json_key :: "pyval \<Rightarrow> string option" where
  "json_key v =
     (case v of
        PNone \<Rightarrow> Some ''null'' | PBool b \<Rightarrow> Some (if b then ''true'' else ''false'') | PInt i \<Rightarrow> Some (int_str i)
      | PFloat r \<Rightarrow> Some (float_str r) | PStr s \<Rightarrow> Some s | PList _ \<Rightarrow> None | PDict _ \<Rightarrow> None)"

definition send_typed ::
    "'w notify_ctx \<Rightarrow> (outbound_target \<Rightarrow> string \<Rightarrow> pydict) \<Rightarrow> (outbound_target \<Rightarrow> string) \<Rightarrow> 'w adapter" where
  "send_typed nx content url t message w =
     (case json_key (message_type t) of
        None \<Rightarrow> (Inl (TypeError ''unhashable type''), w)
      | Some k \<Rightarrow>
          map_prod Inr id
            (post_and_judge nx (judge_json nx (\<lambda>d. is_zero (py_get d ''errcode'')) ''errmsg'') (url t)
               (dput k (PDict (content t message)) [(''msgtype'', message_type t)]) t message w))"

definition dingtalk_content :: "outbound_target \<Rightarrow> string \<Rightarrow> pydict" where
  "dingtalk_content t message =
     (let title = py_get_or (ot_metadata t) ''title'' (PStr ''Notification'') in
      if message_type t = PStr ''markdown'' then [(''title'', title), (''text'', PStr message)]
      else if message_type t = PStr ''link''
      then [(''title'', title), (''text'', PStr message), (''messageUrl'', py_get_or (ot_metadata t) ''url'' (PStr []))]
      else [(''content'', PStr message)])"

definition dingtalk_url :: "'w notify_ctx \<Rightarrow> outbound_target \<Rightarrow> string" where
  "dingtalk_url nx t =
     (let secret = py_strip (py_str (py_or (py_get (ot_metadata t) ''secret'') (PStr [])))
      in if secret = [] then ot_endpoint t
         else ot_endpoint t @ (if CHR ''?'' \<in> set (ot_endpoint t) then ''&'' else ''?'') @ nx_sign nx secret)"

definition dingtalk_send :: "'w notify_ctx \<Rightarrow> 'w adapter" where
  "dingtalk_send nx = send_typed nx dingtalk_content (dingtalk_url nx)"

definition wechat_content :: "outbound_target \<Rightarrow> string \<Rightarrow> pydict" where
  "wechat_content t message =
     (if message_type t = PStr ''image''
      then [(''base64'', py_get_or (ot_metadata t) ''base64'' (PStr [])), (''md5'', py_get_or (ot_metadata t) ''md5'' (PStr []))]
      else [(''content'', PStr message)])"

definition wechat_send :: "'w notify_ctx \<Rightarrow> 'w adapter" where
  "wechat_send nx = send_typed nx wechat_content ot_endpoint"

definition judge_status ::
    "(int \<Rightarrow> string \<Rightarrow> bool) \<Rightarrow> int \<Rightarrow> string \<Rightarrow> pyval option \<Rightarrow> string + (bool \<times> pyval \<times> pydict)" where
  "judge_status ok status body json =
     Inr (ok status body, if ok status body then PNone else PStr (''HTTP '' @ int_str status),
          [(''status_code'', PInt status)])"

definition with_key :: "outbound_target \<Rightarrow> string \<Rightarrow> pydict \<Rightarrow> pydict" where
  "with_key t k d = (case dget (ot_metadata t) k of None \<Rightarrow> d | Some v \<Rightarrow> dput k v d)"

definition slack_send :: "'w notify_ctx \<Rightarrow> 'w adapter" where
  "slack_send nx t message w =
     (let blocks = py_get (ot_metadata t) ''blocks'';
          payload = (if py_truthy blocks then [(''blocks'', blocks), (''text'', PStr message)]
                     else [(''text'', PStr message)])
      in map_prod Inr id
           (post_and_judge nx (judge_status (\<lambda>status body. status = 200 \<and> body = ''ok'')) (ot_endpoint t)
              (with_key t ''channel'' payload) t message w))"

definition discord_send :: "'w notify_ctx \<Rightarrow> 'w adapter" where
  "discord_send nx t message w =
     (let embeds = py_get (ot_metadata t) ''embeds'';
          payload = (if py_truthy embeds then [(''embeds'', embeds)] else [(''content'', PStr message)])
      in map_prod Inr id
           (post_and_judge nx (judge_status (\<lambda>status _. status \<in> {200, 204})) (ot_endpoint t)
              (with_key t ''username'' payload) t message w))"

type_synonym 'w channel_registry = "(string \<times> 'w adapter) list"

definition production_registry :: "'w notify_ctx \<Rightarrow> 'w channel_registry" where
  "production_registry nx =
     [(''webhook'', webhook_send nx), (''feishu'', feishu_send nx), (''dingtalk'', dingtalk_send nx),
      (''wechat_work'', wechat_send nx), (''slack'', slack_send nx), (''discord'', discord_send nx)]"

definition registry_send :: "'w channel_registry \<Rightarrow> 'w adapter" where
  "registry_send reg t message =
     (case dget reg (ot_channel t) of
        None \<Rightarrow> give (send_failed t message (''no adapter registered for channel: '' @ ot_channel t))
      | Some send \<Rightarrow> send t message)"

definition result_dict :: "send_result \<Rightarrow> pydict" where
  "result_dict r =
     [(''ok'', PBool (sr_ok r)), (''channel'', PStr (sr_channel r)), (''message'', PStr (sr_message r)),
      (''error'', sr_error r), (''metadata'', PDict (sr_metadata r))]"

definition send_outbound :: "'w notify_ctx \<Rightarrow> outbound_target \<Rightarrow> string \<Rightarrow> ('w, pydict) eff" where
  "send_outbound nx t message =
     seq (registry_send (production_registry nx) t message) (\<lambda>r. give (result_dict r))"

section \<open>Targets (notify_config.py, notify_env.py)\<close>

definition channel_target :: "channel_row \<Rightarrow> outbound_target res" where
  "channel_target c =
     (let secret = py_strip (nc_secret c);
          m0 = nc_metadata c;
          m1 = (if secret = [] then m0 else dput ''secret'' (PStr secret) m0)
      in valid_target
           \<lparr>ot_channel = (if nc_channel_type c = [] then ''webhook'' else nc_channel_type c),
            ot_endpoint = py_strip (nc_endpoint_url c), ot_team = ''default'',
            ot_metadata = dput ''template_id'' (PStr (nc_template_id c)) (dput ''channel_id'' (PStr (nc_channel_id c)) m1)\<rparr>)"

definition list_enabled_targets :: "channel_row list \<Rightarrow> outbound_target list res" where
  "list_enabled_targets rows =
     map_res channel_target (filter (\<lambda>c. nc_enabled c \<and> py_strip (nc_endpoint_url c) \<noteq> []) rows)"

definition channel_env_keys :: "(string \<times> string) list" where
  "channel_env_keys =
     [(''webhook'', ''ROOTSEEKER_NOTIFY_WEBHOOK_URL''), (''feishu'', ''ROOTSEEKER_NOTIFY_FEISHU_URL''),
      (''dingtalk'', ''ROOTSEEKER_NOTIFY_DINGTALK_URL''), (''wechat'', ''ROOTSEEKER_NOTIFY_WECHAT_URL''),
      (''wechat_work'', ''ROOTSEEKER_NOTIFY_WECHAT_WORK_URL''), (''slack'', ''ROOTSEEKER_NOTIFY_SLACK_URL''),
      (''discord'', ''ROOTSEEKER_NOTIFY_DISCORD_URL'')]"

definition channel_legacy_keys :: "(string \<times> string) list" where
  "channel_legacy_keys =
     [(''wechat_work'', ''WECHAT_WORK_WEBHOOK_URL''), (''feishu'', ''FEISHU_WEBHOOK_URL''),
      (''dingtalk'', ''DINGTALK_WEBHOOK_URL''), (''slack'', ''SLACK_WEBHOOK_URL''),
      (''discord'', ''DISCORD_WEBHOOK_URL'')]"

type_synonym os_environ = "string \<Rightarrow> string option"

definition env_text :: "os_environ \<Rightarrow> string option \<Rightarrow> string" where
  "env_text env k = (case k of None \<Rightarrow> [] | Some key \<Rightarrow> (case env key of None \<Rightarrow> [] | Some v \<Rightarrow> v))"

definition notify_url :: "os_environ \<Rightarrow> string \<Rightarrow> string" where
  "notify_url env channel =
     (let first = env_text env (dget channel_env_keys channel);
          second = (if py_strip first \<noteq> [] then first
                    else case dget channel_legacy_keys channel of None \<Rightarrow> first | Some k \<Rightarrow> env_text env (Some k));
          third = (if py_strip second \<noteq> [] then second else env_text env (Some ''ROOTSEEKER_NOTIFY_DEFAULT_URL''))
      in py_strip third)"

definition resolve_notify_target :: "os_environ \<Rightarrow> string \<Rightarrow> outbound_target option res" where
  "resolve_notify_target env channel =
     (let url = notify_url env channel in
      if url = [] then Inr None
      else bind_res (valid_target
             \<lparr>ot_channel = channel, ot_endpoint = url,
              ot_team = (case env ''ROOTSEEKER_NOTIFY_TEAM'' of None \<Rightarrow> ''default'' | Some v \<Rightarrow> v), ot_metadata = []\<rparr>)
             (\<lambda>t. Inr (Some t)))"

section \<open>Dispatch (notify_dispatch.py)\<close>

text \<open>The state of a dispatch: the world behind the HTTP client, and the template file.\<close>

record 'w notify_state =
  nd_world :: 'w
  nd_templates :: template_file

definition on_notify_world :: "('w, 'a) eff \<Rightarrow> ('w notify_state, 'a) eff" where
  "on_notify_world m s = (case m (nd_world s) of (x, w) \<Rightarrow> (x, s\<lparr>nd_world := w\<rparr>))"

definition skipped_reply :: "string \<Rightarrow> string \<Rightarrow> pydict \<Rightarrow> pydict" where
  "skipped_reply channel message metadata =
     [(''ok'', PBool True), (''channel'', PStr channel), (''message'', PStr message), (''error'', PNone),
      (''metadata'', PDict metadata)]"

definition dispatch_env_notify ::
    "'w notify_ctx \<Rightarrow> os_environ \<Rightarrow> string \<Rightarrow> string \<Rightarrow> ('w notify_state, pydict) eff" where
  "dispatch_env_notify nx env channel message =
     seq (lift_res (resolve_notify_target env channel)) (\<lambda>t.
       case t of
         None \<Rightarrow> give (skipped_reply channel message
           [(''skipped'', PBool True),
            (''reason'', PStr ''notify URL not configured: set ROOTSEEKER_NOTIFY_DEFAULT_URL or ROOTSEEKER_NOTIFY_WEBHOOK_URL / FEISHU / etc.'')])
       | Some target \<Rightarrow> on_notify_world (send_outbound nx target message))"

definition channel_message_text ::
    "template_texts \<Rightarrow> string \<Rightarrow> message_context option \<Rightarrow> string \<Rightarrow> outbound_target
     \<Rightarrow> ('w notify_state, string) eff" where
  "channel_message_text tx now context message t s =
     (case context of
        None \<Rightarrow> (Inr message, s)
      | Some cx \<Rightarrow>
          (case resolve_template_body tx now (py_str (py_or (py_get (ot_metadata t) ''template_id'') (PStr [])))
                  (nd_templates s) of
             (body, ts) \<Rightarrow> (Inr (render_message_template body cx), s\<lparr>nd_templates := ts\<rparr>)))"

definition send_to_target ::
    "'w notify_ctx \<Rightarrow> template_texts \<Rightarrow> string \<Rightarrow> message_context option \<Rightarrow> string \<Rightarrow> outbound_target
     \<Rightarrow> ('w notify_state, pydict) eff" where
  "send_to_target nx tx now context message t =
     seq (channel_message_text tx now context message t) (\<lambda>text. on_notify_world (send_outbound nx t text))"

definition broadcast_reply :: "string \<Rightarrow> string \<Rightarrow> bool \<Rightarrow> pydict list \<Rightarrow> pydict" where
  "broadcast_reply channel message templated results =
     (let failed = length (filter (\<lambda>r. \<not> py_truthy (py_get r ''ok'')) results); sent = length results - failed in
      [(''ok'', PBool (failed = 0)), (''channel'', PStr channel), (''message'', PStr message),
       (''error'', if failed = 0 then PNone else PStr (nat_str failed @ '' notification channel(s) failed'')),
       (''sent'', PInt (int sent)), (''failed'', PInt (int failed)), (''results'', PList (map PDict results)),
       (''metadata'', PDict [(''broadcast'', PBool True), (''templated'', PBool templated)])])"

definition dispatch_broadcast ::
    "'w notify_ctx \<Rightarrow> 's channel_ops \<Rightarrow> os_environ \<Rightarrow> template_texts \<Rightarrow> string \<Rightarrow> 's \<Rightarrow> string
     \<Rightarrow> message_context option \<Rightarrow> string \<Rightarrow> ('w notify_state, pydict) eff" where
  "dispatch_broadcast nx ops env tx now store channel context message =
     (if \<not> py_truthy (py_get_or (co_get_settings ops store) ''broadcast_enabled'' (PBool True))
      then dispatch_env_notify nx env channel message
      else seq (lift_res (list_enabled_targets (co_list ops store))) (\<lambda>targets.
        if targets = [] then
          give (skipped_reply channel message
            [(''skipped'', PBool True), (''reason'', PStr ''no enabled notification channels configured''),
             (''broadcast'', PBool True)])
        else seq (seq_map (send_to_target nx tx now context message) targets) (\<lambda>results.
          give (broadcast_reply channel message (context \<noteq> None) results))))"

end
