(* ===== verification/NotifyRender.thy ===== *)
theory NotifyRender
  imports NotifyDispatch
begin

text \<open>
  The renderer of message templates against its documentation: a template as a tree of texts, variables
  and blocks, what it means, and that rendering its source text gives its meaning.
\<close>

datatype piece = Text string | Variable string | Block string "piece list"

fun source :: "piece \<Rightarrow> string" where
  "source (Text s) = s"
| "source (Variable n) = ''{{'' @ n @ ''}}''"
| "source (Block n ps) = ''{{#'' @ n @ ''}}'' @ concat (map source ps) @ ''{{/'' @ n @ ''}}''"

fun meaning :: "message_context \<Rightarrow> piece \<Rightarrow> string" where
  "meaning cx (Text s) = s"
| "meaning cx (Variable n) = context_value cx n"
| "meaning cx (Block n ps) = (if py_strip (context_value cx n) = [] then [] else concat (map (meaning cx) ps))"

text \<open>Texts without braces, names of word characters, and no block within one of the same name.\<close>

definition is_word :: "string \<Rightarrow> bool" where
  "is_word n \<longleftrightarrow> n \<noteq> [] \<and> list_all word_char n"

fun block_names :: "piece \<Rightarrow> string set" where
  "block_names (Block n ps) = insert n (\<Union>p \<in> set ps. block_names p)"
| "block_names _ = {}"

fun piece_ok :: "piece \<Rightarrow> bool" where
  "piece_ok (Text s) = (CHR ''{'' \<notin> set s)"
| "piece_ok (Variable n) = is_word n"
| "piece_ok (Block n ps) = (is_word n \<and> n \<notin> (\<Union>p \<in> set ps. block_names p) \<and> list_all piece_ok ps)"

section \<open>Tags\<close>

lemma word_char_special: "\<not> word_char CHR ''{''" "\<not> word_char CHR ''}''" "\<not> word_char CHR ''#''" "\<not> word_char CHR ''/''"
  by (simp_all add: word_char_def ascii_letter_def)

lemma word_start: "is_word n \<Longrightarrow> \<exists>c m. n = c # m \<and> word_char c"
  by (cases n) (auto simp: is_word_def)

lemma takeWhile_word: "is_word n \<Longrightarrow> takeWhile word_char (n @ ''}}'' @ rest) = n"
  by (simp add: is_word_def list_all_iff takeWhile_append2 word_char_special)

lemma tag_at_tag:
  assumes "is_word n"
  shows "tag_at op (op @ n @ ''}}'' @ rest) = Some (n, rest)"
  using assms takeWhile_word[OF assms, of rest]
  by (simp add: tag_at_def Let_def is_word_def starts_with_def)

lemma starts_with_Cons [simp]: "starts_with (c # cs) (d # ds) \<longleftrightarrow> c = d \<and> starts_with cs ds" "starts_with s []"
  "\<not> starts_with [] (d # ds)"
  by (auto simp: starts_with_def)

lemma tag_at_other: "CHR ''{'' \<noteq> c \<Longrightarrow> tag_at (CHR ''{'' # op) (c # cs) = None"
  "CHR ''{'' \<noteq> d \<Longrightarrow> tag_at (CHR ''{'' # CHR ''{'' # op) (c # d # cs) = None"
  "tag_at (CHR ''{'' # CHR ''{'' # op) [c] = None"
  by (simp_all add: tag_at_def)

section \<open>Passing over text\<close>

lemma blocks_pass: "CHR ''{'' \<notin> set s \<Longrightarrow> render_blocks cx (s @ rest) = s @ render_blocks cx rest"
  by (induction s) (simp_all add: block_at_def tag_at_other)

lemma variables_pass: "CHR ''{'' \<notin> set s \<Longrightarrow> render_variables cx (s @ rest) = s @ render_variables cx rest"
  by (induction s) (simp_all add: tag_at_other)

lemma word_no_brace: "is_word n \<Longrightarrow> CHR ''{'' \<notin> set n"
  using word_char_special(1) by (auto simp: is_word_def list_all_iff)

lemma blocks_pass_variable:
  assumes "is_word n"
  shows "render_blocks cx (''{{'' @ n @ ''}}'' @ rest) = ''{{'' @ n @ ''}}'' @ render_blocks cx rest"
proof -
  obtain c m where n: "n = c # m" "word_char c" using word_start[OF assms] by blast
  then have c: "CHR ''{'' \<noteq> c" "c \<noteq> CHR ''#''" using word_char_special by auto
  have "block_at (CHR ''{'' # CHR ''{'' # c # m @ ''}}'' @ rest) = None"
    using c by (simp add: block_at_def tag_at_def)
  moreover have "block_at (CHR ''{'' # c # m @ ''}}'' @ rest) = None"
    using c by (simp add: block_at_def tag_at_other)
  moreover have "render_blocks cx ((n @ ''}}'') @ rest) = (n @ ''}}'') @ render_blocks cx rest"
    by (rule blocks_pass) (use word_no_brace[OF assms] in simp)
  ultimately show ?thesis by (simp add: n(1))
qed

text \<open>The end tag of a block is not found within a well-formed piece.\<close>

definition end_tag :: "string \<Rightarrow> string" where
  "end_tag n = ''{{/'' @ n @ ''}}''"

definition skips :: "string \<Rightarrow> string \<Rightarrow> bool" where
  "skips pat s \<longleftrightarrow> (\<forall>rest. split_first pat (s @ rest) = map_option (\<lambda>(a, b). (s @ a, b)) (split_first pat rest))"

lemma skips_Nil [simp]: "skips pat []"
  by (simp add: skips_def option.map_ident split_def)

lemma skips_append: "skips pat s \<Longrightarrow> skips pat t \<Longrightarrow> skips pat (s @ t)"
  by (simp add: skips_def option.map_comp comp_def split_def)

lemma skips_concat: "(\<And>x. x \<in> set xs \<Longrightarrow> skips pat x) \<Longrightarrow> skips pat (concat xs)"
  by (induction xs) (simp_all add: skips_append)

lemma skips_text: "CHR ''{'' \<notin> set s \<Longrightarrow> skips (end_tag n) s"
proof (induction s)
  case (Cons c s)
  have "skips (end_tag n) [c]" using Cons.prems by (auto simp: skips_def end_tag_def)
  from skips_append[OF this Cons.IH] Cons.prems show ?case by simp
qed simp

lemma skips_tag:
  assumes "\<And>rest. \<not> starts_with (x # s @ rest) (CHR ''/'' # n @ ''}}'')" "CHR ''{'' \<notin> set (x # s)"
  shows "skips (end_tag n) (''{{'' @ x # s)"
proof -
  have "skips (end_tag n) (x # s)" by (rule skips_text[OF assms(2)])
  then have rest: "split_first (end_tag n) (x # s @ rest)
      = map_option (\<lambda>(a, b). (x # s @ a, b)) (split_first (end_tag n) rest)" for rest
    by (simp add: skips_def)
  have "x \<noteq> CHR ''{''" using assms(2) by auto
  then show ?thesis unfolding skips_def
    using assms(1) rest \<open>x \<noteq> CHR ''{''\<close>
    by (auto simp: end_tag_def option.map_comp comp_def split_def)
qed

lemma other_end_tag:
  assumes "is_word m" "is_word n" "m \<noteq> n"
  shows "\<not> starts_with (m @ ''}}'' @ rest) (n @ ''}}'')"
proof
  assume "starts_with (m @ ''}}'' @ rest) (n @ ''}}'')"
  then obtain t where "m @ ''}}'' @ rest = n @ ''}}'' @ t" by (auto simp: starts_with_iff)
  then show False using takeWhile_word[OF assms(1), of rest] takeWhile_word[OF assms(2), of t] assms(3) by simp
qed

lemma piece_skips: "piece_ok p \<Longrightarrow> is_word n \<Longrightarrow> n \<notin> block_names p \<Longrightarrow> skips (end_tag n) (source p)"
proof (induction p)
  case (Text s)
  then show ?case by (simp add: skips_text)
next
  case (Variable m)
  obtain c m' where m: "m = c # m'" "word_char c" using word_start Variable.prems(1) by fastforce
  then have "c \<noteq> CHR ''/''" using word_char_special by auto
  then have "skips (end_tag n) (''{{'' @ c # m' @ ''}}'')"
    by (intro skips_tag) (use word_no_brace[of m] Variable.prems(1) m in auto)
  then show ?case by (simp add: m(1))
next
  case (Block m ps)
  have m: "is_word m" "m \<noteq> n" using Block.prems by auto
  have op: "skips (end_tag n) (''{{'' @ CHR ''#'' # m @ ''}}'')"
    by (intro skips_tag) (use word_no_brace[OF m(1)] in auto)
  have inner: "skips (end_tag n) (concat (map source ps))"
    by (rule skips_concat) (use Block in \<open>auto simp: list_all_iff\<close>)
  have closing: "skips (end_tag n) (''{{'' @ CHR ''/'' # m @ ''}}'')"
    by (intro skips_tag) (use word_no_brace[OF m(1)] other_end_tag[OF m(1) Block.prems(2) m(2)] in auto)
  show ?case using skips_append[OF op skips_append[OF inner closing]] by simp
qed

lemma block_at_block:
  assumes "piece_ok (Block n ps)"
  shows "block_at (source (Block n ps) @ rest) = Some (n, concat (map source ps), rest)"
proof -
  have n: "is_word n" using assms by simp
  have "skips (end_tag n) (concat (map source ps))"
    by (rule skips_concat) (use assms in \<open>auto simp: list_all_iff intro: piece_skips\<close>)
  moreover have "split_first (end_tag n) (end_tag n @ rest) = Some ([], rest)"
    by (cases "end_tag n @ rest") (auto simp: end_tag_def starts_with_def)
  ultimately have "split_first (end_tag n) (concat (map source ps) @ end_tag n @ rest) = Some (concat (map source ps), rest)"
    unfolding skips_def by simp
  then show ?thesis
    using tag_at_tag[OF n, of "''{{#''" "concat (map source ps) @ end_tag n @ rest"] by (simp add: block_at_def end_tag_def)
qed

section \<open>Rendering\<close>

text \<open>What the pass over the blocks makes of a piece.\<close>

fun blocks_done :: "message_context \<Rightarrow> piece \<Rightarrow> string" where
  "blocks_done cx (Text s) = s"
| "blocks_done cx (Variable n) = ''{{'' @ n @ ''}}''"
| "blocks_done cx (Block n ps) = meaning cx (Block n ps)"

definition brace_free :: "message_context \<Rightarrow> bool" where
  "brace_free cx \<longleftrightarrow> (\<forall>k. CHR ''{'' \<notin> set (context_value cx k))"

lemma meaning_no_brace: "piece_ok p \<Longrightarrow> brace_free cx \<Longrightarrow> CHR ''{'' \<notin> set (meaning cx p)"
  by (induction p) (auto simp: brace_free_def list_all_iff)

lemma variables_done:
  assumes "piece_ok p" "brace_free cx"
  shows "render_variables cx (blocks_done cx p @ rest) = meaning cx p @ render_variables cx rest"
proof (cases p)
  case (Variable n)
  then show ?thesis using tag_at_tag[of n "''{{''" rest] assms(1) by simp
next
  case (Block n ps)
  then show ?thesis using variables_pass[OF meaning_no_brace[OF assms]] by simp
qed (use assms variables_pass in auto)

lemma variables_done_all:
  "list_all piece_ok ps \<Longrightarrow> brace_free cx \<Longrightarrow>
   render_variables cx (concat (map (blocks_done cx) ps)) = concat (map (meaning cx) ps)"
  by (induction ps) (simp_all add: variables_done)

lemma render_block:
  assumes "block_at s = Some (name, inner, post)"
  shows "render_blocks cx s =
    (if py_strip (context_value cx name) = [] then [] else render_variables cx (render_blocks cx inner))
    @ render_blocks cx post"
proof (cases s)
  case (Cons c cs)
  then show ?thesis using assms by simp
qed (use assms in \<open>simp add: block_at_def tag_at_def\<close>)

lemma blocks_piece:
  assumes "piece_ok p" "brace_free cx"
  shows "render_blocks cx (source p @ rest) = blocks_done cx p @ render_blocks cx rest"
  using assms
proof (induction p arbitrary: rest)
  case (Block n ps)
  have all: "render_blocks cx (concat (map source qs)) = concat (map (blocks_done cx) qs)" if "set qs \<subseteq> set ps" for qs
    using that by (induction qs) (use Block in \<open>auto simp: list_all_iff\<close>)
  show ?case
    using render_block[OF block_at_block[OF Block.prems(1)], of cx rest] all[OF subset_refl]
      variables_done_all[of ps cx] Block.prems
    by (simp del: source.simps)
qed (use blocks_pass blocks_pass_variable in simp_all)

text \<open>
  C18: A template renders as documented: a text is kept, a variable is replaced by its value, and a block
  disappears where its variable is blank and is its rendered content otherwise, for all templates of
  well-formed tags and all values without an opening brace.
\<close>
theorem template_renders_as_documented:
  assumes "list_all piece_ok ps" and "brace_free cx"
  shows "render_message_template (concat (map source ps)) cx = concat (map (meaning cx) ps)"
proof -
  have "render_blocks cx (concat (map source ps)) = concat (map (blocks_done cx) ps)"
    using assms by (induction ps) (simp_all add: blocks_piece)
  then show ?thesis using variables_done_all[OF assms] by (simp add: render_message_template_def)
qed

text \<open>
  A value within a block is expanded once more: a variable that is replaced by \<open>{{b} }\<close> gives the value of
  \<open>b\<close> there, and stays as it is outside of a block.
\<close>
theorem block_value_expanded_again:
  "render_message_template ''{{#a}}{{a}}{{/a}}'' [(''a'', ''{{b}}''), (''b'', v)] = v
   \<and> render_message_template ''{{a}}'' [(''a'', ''{{b}}''), (''b'', v)] = ''{{b}}''"
proof -
  let ?cx = "[(''a'', ''{{b}}''), (''b'', v)]"
  have a: "is_word ''a''" and b: "is_word ''b''" by (simp_all add: is_word_def word_char_def ascii_letter_def)
  have one: "render_variables ?cx (''{{'' @ n @ ''}}'') = context_value ?cx n" if "is_word n" for n
    using tag_at_tag[OF that, of "''{{''" "[]"] by simp
  have cond: "py_strip ''{{b}}'' \<noteq> []" by code_simp
  have inner: "render_blocks ?cx ''{{a}}'' = ''{{a}}''" using blocks_pass_variable[OF a, of ?cx "[]"] by simp
  have "block_at (source (Block ''a'' [Variable ''a'']) @ []) = Some (''a'', concat (map source [Variable ''a'']), [])"
    by (rule block_at_block) (simp add: a)
  then have "render_blocks ?cx ''{{#a}}{{a}}{{/a}}'' = ''{{b}}''"
    using one[OF a] inner cond by (simp add: context_value_def)
  then show ?thesis
    using one[OF a] one[OF b] inner by (simp add: render_message_template_def context_value_def)
qed

definition demo_template :: "piece list" where
  "demo_template =
     [Text ''Case: '', Variable ''case_id'', Block ''cause'' [Text '' because of '', Variable ''cause''],
      Block ''service'' [Text '' in '', Variable ''service'']]"

theorem template_renders_as_documented_witness:
  "render_message_template ''Case: {{case_id}}{{#cause}} because of {{cause}}{{/cause}}{{#service}} in {{service}}{{/service}}''
     [(''case_id'', ''c1''), (''service'', ''pay'')] = ''Case: c1 in pay''"
proof -
  have ok: "list_all piece_ok demo_template"
    by (simp add: demo_template_def is_word_def word_char_def ascii_letter_def)
  have "brace_free [(''case_id'', ''c1''), (''service'', ''pay'')]"
    by (auto simp: brace_free_def context_value_def split: if_splits)
  from template_renders_as_documented[OF ok this] show ?thesis
    by (simp add: demo_template_def context_value_def py_strip_def is_space_def)
qed

end
