(* ===== verification/NotifyStoreFacts.thy ===== *)
theory NotifyStoreFacts
  imports NotifyStores "HOL-Library.Multiset"
begin

text \<open>
  What the stores of channels and templates promise: the interface \<open>channel_directory\<close> with its two
  providers, the agreement of the file and the SQLite store and where it ends, and that the built-in
  template stays.
\<close>

section \<open>Rows found by a key\<close>

lemma find_map_of: "List.find (\<lambda>x. f x = k) xs = map_of (map (\<lambda>x. (f x, x)) xs) k"
  by (induction xs) auto

lemma find_same:
  assumes "distinct (map f xs)" "distinct (map f ys)" "set xs = set ys"
  shows "List.find (\<lambda>x. f x = k) xs = List.find (\<lambda>x. f x = k) ys"
proof -
  have "map_of (map (\<lambda>x. (f x, x)) xs) = map_of (map (\<lambda>x. (f x, x)) ys)"
    using assms by (subst map_of_inject_set) (simp_all add: comp_def)
  then show ?thesis by (simp add: find_map_of)
qed

lemma find_key_Some:
  assumes "distinct (map f xs)"
  shows "List.find (\<lambda>x. f x = k) xs = Some x \<longleftrightarrow> x \<in> set xs \<and> f x = k"
  using assms by (auto simp: find_map_of comp_def map_of_eq_Some_iff)

lemma find_key_None: "List.find (\<lambda>x. f x = k) xs = None \<longleftrightarrow> (\<forall>x \<in> set xs. f x \<noteq> k)"
  by (auto simp: find_None_iff)

lemma sort_same:
  assumes "distinct (map nc_name xs)" "distinct (map nc_name ys)" "set xs = set ys"
  shows "sort_channels xs = sort_channels ys"
proof -
  have "mset xs = mset ys"
    using assms by (metis distinct_map set_eq_iff_mset_eq_distinct)
  moreover have "inj_on (\<lambda>c. (nc_sort_order c, nc_name c)) (set xs)"
    using assms(1) by (auto simp: distinct_map inj_on_def)
  ultimately show ?thesis
    unfolding sort_channels_def
    by (metis sort_key_inj_key_eq mset_sort sorted_sort_key)
qed

section \<open>The interface of a channel store\<close>

text \<open>
  What the pages and the dispatch rely on: identifiers and names are unique, an upsert stores the
  normalized row in the place of every row with its identifier or name, and a failed one changes nothing.
\<close>

locale channel_directory =
  fixes rows :: "'s \<Rightarrow> channel_row list"
    and upsert :: "store_inputs \<Rightarrow> pydict \<Rightarrow> ('s, channel_row) eff"
    and delete :: "string \<Rightarrow> 's \<Rightarrow> 's"
    and inv :: "'s \<Rightarrow> bool"
  assumes ids_distinct: "inv s \<Longrightarrow> distinct (map nc_channel_id (rows s))"
    and names_distinct: "inv s \<Longrightarrow> distinct (map nc_name (rows s))"
    and upsert_inv: "upsert si p s = (r, s') \<Longrightarrow> inv s \<Longrightarrow> inv s'"
    and upsert_rows: "upsert si p s = (Inr c, s') \<Longrightarrow> inv s \<Longrightarrow>
      set (rows s') = insert c {x \<in> set (rows s). nc_channel_id x \<noteq> nc_channel_id c \<and> nc_name x \<noteq> nc_name c}"
    and upsert_row: "upsert si p s = (Inr c, s') \<Longrightarrow> inv s \<Longrightarrow> normalize_channel si p (find_existing p (rows s)) = Inr c"
    and upsert_error: "upsert si p s = (Inl e, s') \<Longrightarrow> s' = s"
    and delete_inv: "inv s \<Longrightarrow> inv (delete i s)"
    and delete_rows: "set (rows (delete i s)) = {x \<in> set (rows s). nc_channel_id x \<noteq> i}"
begin

lemma upsert_found:
  assumes "upsert si p s = (Inr c, s')" "inv s"
  shows "List.find (\<lambda>x. nc_channel_id x = nc_channel_id c) (rows s') = Some c"
  using upsert_rows[OF assms] upsert_inv[OF assms(1,2)] by (simp add: find_key_Some ids_distinct)

lemma delete_gone: "List.find (\<lambda>x. nc_channel_id x = i) (rows (delete i s)) = None"
  by (simp add: find_key_None delete_rows)

lemma listing_determined:
  "inv s \<Longrightarrow> distinct (map nc_name ys) \<Longrightarrow> set ys = set (rows s) \<Longrightarrow> sort_channels ys = sort_channels (rows s)"
  by (rule sort_same) (simp_all add: names_distinct)

end

definition file_ok :: "channel_file \<Rightarrow> bool" where
  "file_ok f \<longleftrightarrow> distinct (map nc_channel_id (cf_channels f)) \<and> distinct (map nc_name (cf_channels f))"

definition db_ok :: "channel_db \<Rightarrow> bool" where
  "db_ok s \<longleftrightarrow> distinct (map nc_channel_id (cd_rows s)) \<and> distinct (map nc_name (cd_rows s))"

lemma file_upsert_Inr:
  assumes "file_upsert_channel si p f = (Inr c, f')"
  shows "normalize_channel si p (find_existing p (cf_channels f)) = Inr c"
    "\<And>x. x \<in> set (cf_channels f) \<Longrightarrow> nc_name x = nc_name c \<Longrightarrow> nc_channel_id x = nc_channel_id c"
    "f' = f\<lparr>cf_channels := filter (\<lambda>x. nc_channel_id x \<noteq> nc_channel_id c) (cf_channels f) @ [c]\<rparr>"
  using assms by (auto simp: file_upsert_channel_def split: sum.splits if_splits)

lemma db_find_existing_rows:
  assumes "db_ok s"
  shows "db_find_existing p s = find_existing p (cd_rows s)"
proof -
  have "List.find (\<lambda>c. nc_name c = k) (db_list_channels s) = List.find (\<lambda>c. nc_name c = k) (cd_rows s)" for k
    using assms by (intro find_same) (auto simp: db_ok_def db_list_channels_def sort_channels_def distinct_map)
  then show ?thesis by (simp add: db_find_existing_def find_existing_def db_get_channel_def Let_def split: option.split)
qed

lemma db_upsert_Inr:
  assumes "db_upsert_channel si p s = (Inr c, s')" "db_ok s"
  shows "normalize_channel si p (find_existing p (cd_rows s)) = Inr c"
    "s' = s\<lparr>cd_rows := filter (\<lambda>x. nc_channel_id x \<noteq> nc_channel_id c \<and> nc_name x \<noteq> nc_name c) (cd_rows s) @ [c]\<rparr>"
  using assms by (auto simp: db_upsert_channel_def db_find_existing_rows split: sum.splits if_splits)

lemma distinct_map_filter: "distinct (map f xs) \<Longrightarrow> distinct (map f (filter P xs))"
  by (auto simp: distinct_map inj_on_def)

interpretation file_directory: channel_directory cf_channels file_upsert_channel file_delete_channel file_ok
proof (unfold_locales, goal_cases)
  case (3 si p s r s')
  show ?case
  proof (cases r)
    case (Inl e)
    then have "s' = s" using 3(1) by (auto simp: file_upsert_channel_def split: sum.splits if_splits)
    then show ?thesis using 3(2) by simp
  next
    case (Inr c)
    note u = file_upsert_Inr[OF 3(1)[unfolded Inr]]
    show ?thesis using 3(2) u(2) by (auto simp: u(3) file_ok_def distinct_map_filter)
  qed
next
  case (4 si p s c s')
  note u = file_upsert_Inr[OF 4(1)]
  show ?case using u(2) by (auto simp: u(3))
next
  case (6 si p s e s')
  then show ?case by (auto simp: file_upsert_channel_def split: sum.splits if_splits)
qed (auto simp: file_ok_def file_delete_channel_def distinct_map_filter dest: file_upsert_Inr(1))

interpretation db_directory: channel_directory cd_rows db_upsert_channel db_delete_channel db_ok
proof (unfold_locales, goal_cases)
  case (3 si p s r s')
  show ?case
  proof (cases r)
    case (Inl e)
    then have "s' = s" using 3(1) by (auto simp: db_upsert_channel_def split: sum.splits if_splits)
    then show ?thesis using 3(2) by simp
  next
    case (Inr c)
    note u = db_upsert_Inr[OF 3(1)[unfolded Inr] 3(2)]
    show ?thesis using 3(2) by (auto simp: u(2) db_ok_def distinct_map_filter)
  qed
next
  case (6 si p s e s')
  then show ?case by (auto simp: db_upsert_channel_def split: sum.splits if_splits)
qed (auto simp: db_ok_def db_delete_channel_def distinct_map_filter dest: db_upsert_Inr)

section \<open>Both stores side by side\<close>

datatype channel_command =
    Upsert_channel store_inputs pydict
  | Delete_channel string
  | List_channels
  | Get_channel string
  | Get_settings
  | Update_settings pydict

datatype channel_answer =
    Stored_channel channel_row
  | Channel_error pyerr
  | Channel_deleted
  | Channels "channel_row list"
  | Found_channel "channel_row option"
  | Settings pydict

fun channel_step :: "'s channel_ops \<Rightarrow> channel_command \<Rightarrow> 's \<Rightarrow> channel_answer \<times> 's" where
  "channel_step ops (Upsert_channel si p) s =
     map_prod (\<lambda>x. case x of Inl e \<Rightarrow> Channel_error e | Inr c \<Rightarrow> Stored_channel c) id (co_upsert ops si p s)"
| "channel_step ops (Delete_channel i) s = (Channel_deleted, co_delete ops i s)"
| "channel_step ops List_channels s = (Channels (co_list ops s), s)"
| "channel_step ops (Get_channel i) s = (Found_channel (co_get ops s i), s)"
| "channel_step ops Get_settings s = (Settings (co_get_settings ops s), s)"
| "channel_step ops (Update_settings patch) s = map_prod Settings id (co_update_settings ops patch s)"

fun channel_steps :: "'s channel_ops \<Rightarrow> channel_command list \<Rightarrow> 's \<Rightarrow> channel_answer list \<times> 's" where
  "channel_steps ops [] s = ([], s)"
| "channel_steps ops (c # cs) s =
     (let (a, s1) = channel_step ops c s; (as, s2) = channel_steps ops cs s1 in (a # as, s2))"

text \<open>An answer of the file store that is not about a name in use, with a number that a column holds.\<close>

definition unconflicted :: "channel_answer \<Rightarrow> bool" where
  "unconflicted a \<longleftrightarrow>
     (case a of
        Stored_channel c \<Rightarrow> fits_column (nc_sort_order c)
      | Channel_error (ValueError m) \<Rightarrow> \<not> starts_with m ''channel name already exists: ''
      | _ \<Rightarrow> True)"

definition same_channels :: "channel_file \<Rightarrow> channel_db \<Rightarrow> bool" where
  "same_channels f s \<longleftrightarrow> file_ok f \<and> db_ok s \<and> set (cf_channels f) = set (cd_rows s)
     \<and> cd_settings s = Some (cf_settings f) \<and> ''broadcast_enabled'' \<in> set (dkeys (cf_settings f))"

lemma same_channels_found:
  assumes "same_channels f s"
  shows "db_find_existing p s = find_existing p (cf_channels f)"
    "db_get_channel s i = file_get_channel f i" "db_list_channels s = file_list_channels f"
proof -
  have d: "distinct (map nc_channel_id (cf_channels f))" "distinct (map nc_name (cf_channels f))"
    "distinct (map nc_channel_id (cd_rows s))" "distinct (map nc_name (cd_rows s))"
    "set (cf_channels f) = set (cd_rows s)" "db_ok s"
    using assms by (simp_all add: same_channels_def file_ok_def db_ok_def)
  have "List.find (\<lambda>c. nc_channel_id c = k) (cf_channels f) = List.find (\<lambda>c. nc_channel_id c = k) (cd_rows s)"
    "List.find (\<lambda>c. nc_name c = k) (cf_channels f) = List.find (\<lambda>c. nc_name c = k) (cd_rows s)" for k
    using d by (auto intro: find_same)
  then show "db_find_existing p s = find_existing p (cf_channels f)"
    by (simp add: db_find_existing_rows d(6) find_existing_def Let_def split: option.split)
  show "db_list_channels s = file_list_channels f"
    using sort_same[OF d(4,2) d(5)[symmetric]] by (simp add: db_list_channels_def file_list_channels_def)
  have "distinct (map nc_channel_id (sort_channels (cf_channels f)))"
    using d(1) by (simp add: sort_channels_def distinct_map)
  then show "db_get_channel s i = file_get_channel f i"
    using d unfolding db_get_channel_def file_get_channel_def file_list_channels_def
    by (intro find_same) (simp_all add: sort_channels_def)
qed

lemma dunion_keeps_key: "k \<in> set (dkeys d) \<Longrightarrow> k \<in> set (dkeys (dunion d patch))"
proof -
  have "k \<in> set (dkeys d) \<Longrightarrow> k \<in> set (dkeys (foldl (\<lambda>d (k, v). dput k v d) d patch))" for d
  proof (induction patch arbitrary: d)
    case (Cons x patch)
    from Cons.IH[of "dput (fst x) (snd x) d"] Cons.prems show ?case
      by (cases x) (simp add: dkeys_dput del: set_map)
  qed simp
  then show "k \<in> set (dkeys d) \<Longrightarrow> k \<in> set (dkeys (dunion d patch))" by (simp add: dunion_def)
qed

lemma channel_step_agrees:
  assumes "same_channels f s" "channel_step file_channel_ops c f = (a, f')" "unconflicted a"
  obtains s' where "channel_step db_channel_ops c s = (a, s')" "same_channels f' s'"
proof (cases c)
  case (Upsert_channel si p)
  note found = same_channels_found(1)[OF assms(1)]
  obtain x where x: "file_upsert_channel si p f = (x, f')"
    and a: "a = (case x of Inl e \<Rightarrow> Channel_error e | Inr c \<Rightarrow> Stored_channel c)"
    using assms(2) Upsert_channel
    by (cases "file_upsert_channel si p f") (auto simp: file_channel_ops_def)
  have ok: "file_ok f" "db_ok s" "set (cf_channels f) = set (cd_rows s)" using assms(1) by (simp_all add: same_channels_def)
  show thesis
  proof (cases x)
    case (Inl e)
    have "f' = f" using file_directory.upsert_error x Inl by blast
    have conflict: "starts_with (''channel name already exists: '' @ n) ''channel name already exists: ''" for n
      by (rule starts_with_append)
    have "db_upsert_channel si p s = (Inl e, s)"
      using x Inl assms(3) a conflict
      by (auto simp: file_upsert_channel_def db_upsert_channel_def found unconflicted_def
          split: sum.splits if_splits)
    with \<open>f' = f\<close> show thesis using that assms(1) Upsert_channel a Inl by (simp add: db_channel_ops_def)
  next
    case (Inr r)
    note u = file_upsert_Inr[OF x[unfolded Inr]]
    obtain s' where s': "db_upsert_channel si p s = (Inr r, s')"
      using u(1) assms(3) by (simp add: db_upsert_channel_def found a Inr unconflicted_def)
    have "same_channels f' s'"
      using file_directory.upsert_rows[OF x[unfolded Inr] ok(1)] db_directory.upsert_rows[OF s' ok(2)]
        file_directory.upsert_inv[OF x ok(1)] db_directory.upsert_inv[OF s' ok(2)] assms(1) u(3)
        db_upsert_Inr(2)[OF s' ok(2)]
      by (simp add: same_channels_def)
    then show thesis using that s' Upsert_channel a Inr by (simp add: db_channel_ops_def)
  qed
next
  case (Delete_channel i)
  have "a = Channel_deleted" "f' = file_delete_channel i f"
    using assms(2) Delete_channel by (simp_all add: file_channel_ops_def)
  moreover have "same_channels (file_delete_channel i f) (db_delete_channel i s)"
    using assms(1) file_directory.delete_inv[of f i] db_directory.delete_inv[of s i]
      file_directory.delete_rows[of i f] db_directory.delete_rows[of i s]
    unfolding same_channels_def by (simp add: file_delete_channel_def db_delete_channel_def)
  ultimately show thesis using that Delete_channel by (simp add: db_channel_ops_def)
next
  case (Update_settings patch)
  have "db_get_settings s = cf_settings f"
    using assms(1) by (simp add: same_channels_def db_get_settings_def default_key_def)
  then have "channel_step db_channel_ops c s = (a, s\<lparr>cd_settings := Some (dunion (cf_settings f) patch)\<rparr>)"
    "f' = f\<lparr>cf_settings := dunion (cf_settings f) patch\<rparr>"
    using assms(2) Update_settings
    by (simp_all add: file_channel_ops_def db_channel_ops_def file_update_settings_def db_update_settings_def Let_def)
  then show thesis
    using that assms(1) dunion_keeps_key[of "''broadcast_enabled''" "cf_settings f" patch]
    by (simp add: same_channels_def file_ok_def db_ok_def)
qed (use assms that same_channels_found[OF assms(1)] in
      \<open>auto simp: file_channel_ops_def db_channel_ops_def file_get_settings_def db_get_settings_def
         same_channels_def\<close>)

lemma channel_steps_agree:
  assumes "same_channels f s" "channel_steps file_channel_ops cs f = (as, f')" "list_all unconflicted as"
  shows "fst (channel_steps db_channel_ops cs s) = as"
  using assms
proof (induction cs arbitrary: f s as)
  case (Cons c cs)
  obtain a f1 where step: "channel_step file_channel_ops c f = (a, f1)" by (rule prod.exhaust)
  obtain bs where rest: "channel_steps file_channel_ops cs f1 = (bs, f')" and as: "as = a # bs"
    using Cons.prems(2) step by (auto split: prod.splits)
  obtain s1 where s1: "channel_step db_channel_ops c s = (a, s1)" "same_channels f1 s1"
    using channel_step_agrees[OF Cons.prems(1) step] Cons.prems(3) as by auto
  show ?case using Cons.IH[OF s1(2) rest] Cons.prems(3) as s1(1) by (auto split: prod.splits)
qed simp

section \<open>Properties\<close>

text \<open>
  C17: The channel stores in a file and in SQLite agree: the same commands, from new stores, get the same
  answers, as long as the file store refuses none for a name in use and no sort order exceeds 64 bits.
\<close>
theorem channel_stores_agree:
  assumes "channel_steps file_channel_ops cs new_channel_file = (as, f)" and "list_all unconflicted as"
  shows "fst (channel_steps db_channel_ops cs new_channel_db) = as"
  by (rule channel_steps_agree[OF _ assms])
    (simp add: same_channels_def new_channel_file_def new_channel_db_def file_ok_def db_ok_def default_settings_def)

text \<open>
  Where they part: an upsert that gives a channel the name of another is refused by the file store;
  the SQLite store accepts it and silently drops the other channel.
\<close>
theorem sqlite_upsert_drops_namesake:
  assumes "same_channels f s" and "db_upsert_channel si p s = (Inr c, s')"
    and "b \<in> set (cd_rows s)" and "nc_name b = nc_name c" and "nc_channel_id b \<noteq> nc_channel_id c"
  shows "db_get_channel s' (nc_channel_id b) = None
    \<and> file_upsert_channel si p f = (Inl (ValueError (''channel name already exists: '' @ nc_name c)), f)"
proof
  have ok: "db_ok s" and rows: "set (cf_channels f) = set (cd_rows s)"
    using assms(1) by (simp_all add: same_channels_def)
  have "x = b" if "x \<in> set (cd_rows s)" "nc_channel_id x = nc_channel_id b" for x
    using ok that assms(3) by (metis db_ok_def distinct_map inj_onD)
  then have "nc_channel_id x \<noteq> nc_channel_id b" if "x \<in> set (cd_rows s')" for x
    using that db_directory.upsert_rows[OF assms(2) ok] assms(4,5) by auto
  then show "db_get_channel s' (nc_channel_id b) = None"
    by (simp add: db_get_channel_def find_key_None)
  show "file_upsert_channel si p f = (Inl (ValueError (''channel name already exists: '' @ nc_name c)), f)"
    using db_upsert_Inr(1)[OF assms(2) ok] same_channels_found(1)[OF assms(1), of p] assms(3-5) rows
    by (auto simp: file_upsert_channel_def db_find_existing_rows[OF ok])
qed

text \<open>An endpoint given as \<open>null\<close> becomes the text \<open>None\<close>, which counts as an address.\<close>

theorem null_endpoint_is_stored:
  assumes "normalize_channel si p existing = Inr c" and "dget p ''endpoint_url'' = Some PNone"
  shows "nc_endpoint_url c = ''None''"
proof -
  have "py_strip ''None'' = ''None''" by code_simp
  then show ?thesis using assms by (auto simp: normalize_channel_def given_def Let_def split: if_splits pyval.splits)
qed

section \<open>The built-in template stays\<close>

datatype template_command =
    Upsert_template store_inputs pydict
  | Delete_template string string
  | List_templates string

fun template_step :: "template_texts \<Rightarrow> template_command \<Rightarrow> template_file \<Rightarrow> template_file" where
  "template_step tx (Upsert_template si p) ts = snd (upsert_template tx si p ts)"
| "template_step tx (Delete_template now i) ts = snd (delete_template tx now i ts)"
| "template_step tx (List_templates now) ts = snd (list_templates tx now ts)"

definition template_run :: "template_texts \<Rightarrow> string \<Rightarrow> template_command list \<Rightarrow> template_file" where
  "template_run tx now cs = fold (template_step tx) cs [system_template tx now]"

definition templates_ok :: "template_file \<Rightarrow> bool" where
  "templates_ok ts \<longleftrightarrow> distinct (map mt_template_id ts) \<and> system_template_id \<in> mt_template_id ` set ts
     \<and> (\<forall>t \<in> set ts. (mt_kind t = ''system'' \<longleftrightarrow> mt_template_id t = system_template_id) \<and> py_strip (mt_body t) \<noteq> [])"

lemma ensure_ok: "templates_ok ts \<Longrightarrow> ensure_system_template tx now ts = ts"
  by (auto simp: templates_ok_def ensure_system_template_def)

lemma get_template_ok:
  assumes "templates_ok ts"
  shows "get_template tx now i ts = (List.find (\<lambda>t. mt_template_id t = py_strip i) ts, ts)"
proof -
  have "List.find (\<lambda>t. mt_template_id t = k) (sort_templates ts) = List.find (\<lambda>t. mt_template_id t = k) ts" for k
    using assms by (intro find_same) (auto simp: templates_ok_def sort_templates_def distinct_map)
  then show ?thesis using ensure_ok[OF assms] by (simp add: get_template_def list_templates_def)
qed

lemma normalize_template_ok:
  assumes "normalize_template si p existing = Inr t"
  shows "(mt_kind t = ''system'') = (mt_template_id t = system_template_id)" "py_strip (mt_body t) \<noteq> []"
  using assms by (auto simp: normalize_template_def Let_def split: if_splits)

lemma upsert_template_ok:
  assumes "templates_ok ts"
  shows "templates_ok (snd (upsert_template tx si p ts))"
proof (cases "normalize_template si p (find_template p ts)")
  case (Inr t)
  have "system_template_id \<in> mt_template_id ` set (filter (\<lambda>x. mt_template_id x \<noteq> mt_template_id t) ts @ [t])"
    using assms by (cases "mt_template_id t = system_template_id") (auto simp: templates_ok_def)
  then show ?thesis
    using assms normalize_template_ok[OF Inr] ensure_ok[OF assms] Inr
    by (auto simp: upsert_template_def templates_ok_def distinct_map_filter)
qed (use assms ensure_ok[OF assms] in \<open>simp add: upsert_template_def\<close>)

lemma delete_template_ok:
  assumes "templates_ok ts"
  shows "templates_ok (snd (delete_template tx now i ts))"
proof (cases "py_strip i = system_template_id")
  case False
  have "templates_ok (filter (\<lambda>x. mt_template_id x \<noteq> py_strip i) ts)"
    using assms False by (auto simp: templates_ok_def distinct_map_filter)
  then show ?thesis using assms False ensure_ok
    by (auto simp: delete_template_def get_template_ok Let_def)
qed (use assms in \<open>simp add: delete_template_def\<close>)

lemma template_run_ok:
  assumes "py_strip (tx_body tx) \<noteq> []"
  shows "templates_ok (template_run tx now cs)"
proof -
  have "templates_ok ts \<Longrightarrow> templates_ok (fold (template_step tx) cs ts)" for ts
  proof (induction cs arbitrary: ts)
    case (Cons c cs)
    have "templates_ok (template_step tx c ts)"
      using Cons.prems upsert_template_ok delete_template_ok ensure_ok[OF Cons.prems]
      by (cases c) (auto simp: list_templates_def Let_def)
    then show ?case using Cons.IH by simp
  qed simp
  moreover have "templates_ok [system_template tx now]"
    using assms by (simp add: templates_ok_def system_template_def)
  ultimately show ?thesis by (simp add: template_run_def)
qed

text \<open>
  Whatever templates are stored and deleted, the built-in template stays, every identifier is used
  once, and the body a channel's message is made of is never empty: it is that of the template the
  channel names, or of the built-in one where this is missing.
\<close>
theorem system_template_stays:
  assumes "py_strip (tx_body tx) \<noteq> []" and "ts = template_run tx now0 cs"
    and "tid = (if py_strip i = [] then system_template_id else py_strip i)"
  shows "distinct (map mt_template_id ts) \<and> system_template_id \<in> mt_template_id ` set ts
    \<and> (\<exists>t \<in> set ts. resolve_template_body tx now i ts = (py_strip (mt_body t), ts) \<and> py_strip (mt_body t) \<noteq> []
        \<and> mt_template_id t = (if tid \<in> mt_template_id ` set ts then tid else system_template_id))"
proof -
  have ok: "templates_ok ts" using template_run_ok[OF assms(1)] assms(2) by simp
  have strip: "py_strip system_template_id = system_template_id" by code_simp
  then have tid: "py_strip tid = tid" using assms(3) by (simp add: py_strip_idem)
  obtain u where u: "u \<in> set ts" "mt_template_id u = system_template_id" using ok by (auto simp: templates_ok_def)
  have find_u: "List.find (\<lambda>t. mt_template_id t = system_template_id) ts = Some u"
    using u ok by (simp add: find_key_Some templates_ok_def)
  have body: "py_strip (mt_body t) \<noteq> []" if "t \<in> set ts" for t using that ok by (auto simp: templates_ok_def)
  show ?thesis
  proof (cases "List.find (\<lambda>t. mt_template_id t = tid) ts")
    case None
    then have "tid \<notin> mt_template_id ` set ts" by (auto simp: find_key_None)
    moreover have "resolve_template_body tx now i ts = (py_strip (mt_body u), ts)"
      using None body[OF u(1)] find_u
      by (simp add: resolve_template_body_def get_template_ok[OF ok] tid strip assms(3)[symmetric] Let_def)
    ultimately show ?thesis using ok u body[OF u(1)] by (auto simp: templates_ok_def)
  next
    case (Some t)
    then have t: "t \<in> set ts" "mt_template_id t = tid" using ok by (auto simp: find_key_Some templates_ok_def)
    moreover have "resolve_template_body tx now i ts = (py_strip (mt_body t), ts)"
      using Some body[OF t(1)]
      by (simp add: resolve_template_body_def get_template_ok[OF ok] tid assms(3)[symmetric] Let_def)
    ultimately show ?thesis using ok body[OF t(1)] by (auto simp: templates_ok_def)
  qed
qed

section \<open>Concrete stores\<close>

definition demo_inputs_at :: "string \<Rightarrow> store_inputs" where
  "demo_inputs_at i = \<lparr>si_fresh = i, si_now = ''2024''\<rparr>"

definition channel_payload :: "string \<Rightarrow> string \<Rightarrow> pydict" where
  "channel_payload i n = [(''channel_id'', PStr i), (''name'', PStr n), (''endpoint_url'', PStr ''https://e'')]"

definition demo_channel_commands :: "channel_command list" where
  "demo_channel_commands =
     [Upsert_channel (demo_inputs_at ''u1'') (channel_payload ''a'' ''ops''),
      Upsert_channel (demo_inputs_at ''u2'') (channel_payload ''b'' ''dev''),
      List_channels, Delete_channel ''a'', Get_channel ''b'', Update_settings [(''broadcast_enabled'', PBool False)],
      Get_settings]"

theorem channel_stores_agree_witness:
  "fst (channel_steps db_channel_ops demo_channel_commands new_channel_db)
     = fst (channel_steps file_channel_ops demo_channel_commands new_channel_file)
   \<and> length (filter (\<lambda>a. case a of Channels cs \<Rightarrow> length cs = 2 | _ \<Rightarrow> False)
       (fst (channel_steps file_channel_ops demo_channel_commands new_channel_file))) = 1"
proof
  have "list_all unconflicted (fst (channel_steps file_channel_ops demo_channel_commands new_channel_file))"
    by code_simp
  from channel_stores_agree[OF surjective_pairing this]
  show "fst (channel_steps db_channel_ops demo_channel_commands new_channel_db)
     = fst (channel_steps file_channel_ops demo_channel_commands new_channel_file)" .
  show "length (filter (\<lambda>a. case a of Channels cs \<Rightarrow> length cs = 2 | _ \<Rightarrow> False)
       (fst (channel_steps file_channel_ops demo_channel_commands new_channel_file))) = 1"
    by code_simp
qed

definition demo_row :: "string \<Rightarrow> string \<Rightarrow> channel_row" where
  "demo_row i n = \<lparr>nc_channel_id = i, nc_name = n, nc_channel_type = ''webhook'', nc_endpoint_url = ''https://e'',
     nc_secret = [], nc_enabled = True, nc_sort_order = 0, nc_template_id = [], nc_metadata = [],
     nc_created_at = ''2024'', nc_updated_at = ''2024''\<rparr>"

definition demo_rows :: "channel_row list" where
  "demo_rows = [demo_row ''a'' ''ops'', demo_row ''b'' ''dev'']"

theorem sqlite_upsert_drops_namesake_witness:
  "\<exists>c s'. db_upsert_channel (demo_inputs_at ''u'') (channel_payload ''a'' ''dev'')
      \<lparr>cd_rows = demo_rows, cd_settings = Some default_settings\<rparr> = (Inr c, s')
    \<and> db_get_channel s' ''b'' = None"
proof -
  let ?s = "\<lparr>cd_rows = demo_rows, cd_settings = Some default_settings\<rparr>"
  let ?f = "\<lparr>cf_channels = demo_rows, cf_settings = default_settings\<rparr>"
  have same: "same_channels ?f ?s"
    by (simp add: same_channels_def file_ok_def db_ok_def demo_rows_def demo_row_def default_settings_def)
  have "fst (db_upsert_channel (demo_inputs_at ''u'') (channel_payload ''a'' ''dev'') ?s) = Inr (demo_row ''a'' ''dev'')"
    by code_simp
  then obtain s' where u: "db_upsert_channel (demo_inputs_at ''u'') (channel_payload ''a'' ''dev'') ?s
      = (Inr (demo_row ''a'' ''dev''), s')"
    by (metis prod.collapse)
  have "db_get_channel s' (nc_channel_id (demo_row ''b'' ''dev'')) = None"
    using sqlite_upsert_drops_namesake[OF same u, of "demo_row ''b'' ''dev''"] by (simp add: demo_rows_def demo_row_def)
  then show ?thesis using u by (auto simp: demo_row_def)
qed

definition demo_texts :: template_texts where
  "demo_texts = \<lparr>tx_name = ''default'', tx_body = ''{{headline}}'', tx_description = []\<rparr>"

theorem system_template_stays_witness:
  "fst (resolve_template_body demo_texts ''2024'' ''gone''
     (template_run demo_texts ''2024'' [Delete_template ''2024'' ''system-default'', List_templates ''2024''])) \<noteq> []"
proof -
  have "py_strip (tx_body demo_texts) \<noteq> []" by code_simp
  from system_template_stays[OF this refl refl, of "''2024''"
      "[Delete_template ''2024'' ''system-default'', List_templates ''2024'']" "''2024''" "''gone''"]
  show ?thesis by (metis fst_conv)
qed

theorem null_endpoint_is_stored_witness:
  "\<exists>c. normalize_channel (demo_inputs_at ''u'') [(''name'', PStr ''ops''), (''endpoint_url'', PNone)] None = Inr c
     \<and> nc_endpoint_url c = ''None''"
proof -
  let ?p = "[(''name'', PStr ''ops''), (''endpoint_url'', PNone)]"
  have "\<not> isl (normalize_channel (demo_inputs_at ''u'') ?p None)" by code_simp
  then obtain c where c: "normalize_channel (demo_inputs_at ''u'') ?p None = Inr c" by (metis sum.collapse(2))
  then show ?thesis using null_endpoint_is_stored[OF c] by simp
qed

end
