(* ===== verification/NotifyFacts.thy ===== *)
theory NotifyFacts
  imports NotifyDispatch NotifyStoreFacts
begin

text \<open>
  What a broadcast does: one message to the address of every enabled channel, in their order; how an
  exception of one adapter cuts it short; and what the webhook adapter sends.
\<close>

section \<open>What an adapter posts\<close>

text \<open>\<open>posts\<close> lists the addresses the HTTP client was given.\<close>

definition logs_posts :: "'w notify_ctx \<Rightarrow> ('w \<Rightarrow> string list) \<Rightarrow> bool" where
  "logs_posts nx posts \<longleftrightarrow> (\<forall>url payload headers w. posts (snd (nx_post nx url payload headers w)) = posts w @ [url])"

definition posted_url :: "'w notify_ctx \<Rightarrow> outbound_target \<Rightarrow> string" where
  "posted_url nx t = (if ot_channel t = ''dingtalk'' then dingtalk_url nx t else ot_endpoint t)"

lemma logs_postsD: "logs_posts nx posts \<Longrightarrow> nx_post nx url payload headers w = (r, w') \<Longrightarrow> posts w' = posts w @ [url]"
  unfolding logs_posts_def by (metis snd_conv)

lemma judged_posts:
  assumes "logs_posts nx posts"
  shows "posts (snd (post_and_judge nx judge url payload t m w)) = posts w @ [url]"
  using logs_postsD[OF assms]
  by (auto simp: post_and_judge_def split: prod.splits http_outcome.splits)

lemma judged_answer:
  assumes "logs_posts nx posts" "map_prod Inr id (post_and_judge nx judge url payload t m w) = (Inr r, w')"
  shows "posts w' = posts w @ [url]"
  using judged_posts[OF assms(1), of judge url payload t m w] assms(2)
  by (cases "post_and_judge nx judge url payload t m w") simp

lemma webhook_posts:
  assumes "logs_posts nx posts" "webhook_send nx t m w = (Inr r, w')"
  shows "posts w' = posts w @ [ot_endpoint t]"
  using assms(2) logs_postsD[OF assms(1)]
  by (auto simp: webhook_send_def Let_def split: pyval.splits prod.splits http_outcome.splits)

lemma typed_posts:
  assumes "logs_posts nx posts" "send_typed nx content url t m w = (Inr r, w')"
  shows "posts w' = posts w @ [url t]"
  using assms(2) unfolding send_typed_def
  by (auto split: option.splits simp del: AList.update.simps dest!: judged_answer[OF assms(1)])

lemma registry_posts:
  assumes "logs_posts nx posts" "registry_send (production_registry nx) t m w = (Inr r, w')"
    and "ot_channel t \<in> allowed_channel_types"
  shows "posts w' = posts w @ [posted_url nx t]"
proof -
  note answer = judged_answer[OF assms(1)]
  consider "ot_channel t = ''webhook''" | "ot_channel t = ''feishu''" | "ot_channel t = ''dingtalk''"
    | "ot_channel t = ''wechat_work''" | "ot_channel t = ''slack''" | "ot_channel t = ''discord''"
    using assms(3) by (auto simp: allowed_channel_types_def)
  then show ?thesis
  proof cases
    case 1
    then show ?thesis using assms(2) webhook_posts[OF assms(1)]
      by (simp add: registry_send_def production_registry_def posted_url_def)
  next
    case 2
    then have "feishu_send nx t m w = (Inr r, w')"
      using assms(2) by (simp add: registry_send_def production_registry_def)
    from answer[OF this[unfolded feishu_send_def]] show ?thesis using 2 by (simp add: posted_url_def)
  next
    case 3
    then show ?thesis using assms(2) typed_posts[OF assms(1)]
      by (simp add: registry_send_def production_registry_def posted_url_def dingtalk_send_def)
  next
    case 4
    then show ?thesis using assms(2) typed_posts[OF assms(1)]
      by (simp add: registry_send_def production_registry_def posted_url_def wechat_send_def)
  next
    case 5
    then have "slack_send nx t m w = (Inr r, w')"
      using assms(2) by (simp add: registry_send_def production_registry_def)
    from answer[OF this[unfolded slack_send_def Let_def]] show ?thesis using 5 by (simp add: posted_url_def)
  next
    case 6
    then have "discord_send nx t m w = (Inr r, w')"
      using assms(2) by (simp add: registry_send_def production_registry_def)
    from answer[OF this[unfolded discord_send_def Let_def]] show ?thesis using 6 by (simp add: posted_url_def)
  qed
qed

lemma message_text_world: "channel_message_text tx now cx m t s = (x, s') \<Longrightarrow> nd_world s' = nd_world s \<and> \<not> isl x"
  by (auto simp: channel_message_text_def split: option.splits prod.splits)

lemma send_to_target_posts:
  assumes "logs_posts nx posts" "send_to_target nx tx now cx m t s = (Inr r, s')"
    and "ot_channel t \<in> allowed_channel_types"
  shows "posts (nd_world s') = posts (nd_world s) @ [posted_url nx t]"
proof -
  obtain body s1 where body: "channel_message_text tx now cx m t s = (Inr body, s1)"
    and send: "on_notify_world (send_outbound nx t body) s1 = (Inr r, s')"
    using assms(2) by (auto simp: send_to_target_def seq_Inr_iff)
  obtain sr where "registry_send (production_registry nx) t body (nd_world s1) = (Inr sr, nd_world s')"
    using send by (auto simp: on_notify_world_def send_outbound_def seq_Inr_iff give_def split: prod.splits)
  then show ?thesis using registry_posts[OF assms(1) _ assms(3)] message_text_world[OF body] by simp
qed

lemma send_all_posts:
  assumes "logs_posts nx posts" "seq_map (send_to_target nx tx now cx m) ts s = (Inr rs, s')"
    and "\<forall>t \<in> set ts. ot_channel t \<in> allowed_channel_types"
  shows "posts (nd_world s') = posts (nd_world s) @ map (posted_url nx) ts \<and> length rs = length ts"
  using assms(2,3)
proof (induction ts arbitrary: s rs)
  case (Cons t ts)
  obtain r s1 rs' where r: "send_to_target nx tx now cx m t s = (Inr r, s1)"
    and rs: "seq_map (send_to_target nx tx now cx m) ts s1 = (Inr rs', s')" "rs = r # rs'"
    using Cons.prems(1) by (auto simp: seq_Inr_iff give_def)
  show ?case
    using Cons.IH[OF rs(1)] send_to_target_posts[OF assms(1) r] Cons.prems(2) rs(2) by simp
qed (simp add: give_def)

text \<open>A target made of a stored channel has the channel's kind; the stores hold allowed kinds only.\<close>

lemma target_channel:
  assumes "channel_target c = Inr t" "nc_channel_type c \<in> allowed_channel_types"
  shows "ot_channel t = nc_channel_type c"
proof -
  have "nc_channel_type c \<noteq> []" "py_strip (nc_channel_type c) = nc_channel_type c"
    using assms(2) by (auto simp: allowed_channel_types_def py_strip_def is_space_def)
  then show ?thesis using assms(1)
    by (auto simp: channel_target_def valid_target_def required_text_def Let_def split: if_splits)
qed

lemma targets_channels:
  assumes "list_enabled_targets rows = Inr ts" "\<forall>c \<in> set rows. nc_channel_type c \<in> allowed_channel_types" "t \<in> set ts"
  shows "ot_channel t \<in> allowed_channel_types"
proof -
  from assms(1) have "map_res channel_target (filter (\<lambda>c. nc_enabled c \<and> py_strip (nc_endpoint_url c) \<noteq> []) rows) = Inr ts"
    by (simp add: list_enabled_targets_def)
  from map_res_Inr_set[OF this assms(3)] obtain c where "c \<in> set rows" "channel_target c = Inr t" by auto
  then show ?thesis using target_channel assms(2) by auto
qed

section \<open>Properties\<close>

lemma normalized_kind: "normalize_channel si p existing = Inr c \<Longrightarrow> nc_channel_type c \<in> allowed_channel_types"
  by (auto simp: normalize_channel_def validate_channel_type_def Let_def split: if_splits)

lemma stored_kinds:
  assumes "channel_steps file_channel_ops cs f = (as, f')"
    and "\<forall>c \<in> set (cf_channels f). nc_channel_type c \<in> allowed_channel_types"
  shows "\<forall>c \<in> set (cf_channels f'). nc_channel_type c \<in> allowed_channel_types"
  using assms
proof (induction cs arbitrary: f as)
  case (Cons c cs)
  obtain a f1 where a: "channel_step file_channel_ops c f = (a, f1)" by (rule prod.exhaust)
  obtain bs where bs: "channel_steps file_channel_ops cs f1 = (bs, f')"
    using Cons.prems(1) a by (auto split: prod.splits)
  have "\<forall>c \<in> set (cf_channels f1). nc_channel_type c \<in> allowed_channel_types"
  proof (cases c)
    case (Upsert_channel si p)
    obtain x where x: "file_upsert_channel si p f = (x, f1)"
      using a Upsert_channel by (cases "file_upsert_channel si p f") (auto simp: file_channel_ops_def)
    show ?thesis
    proof (cases x)
      case (Inl e)
      then show ?thesis using file_directory.upsert_error x Cons.prems(2) by blast
    next
      case (Inr r)
      from file_upsert_Inr[OF x[unfolded Inr]] Cons.prems(2) normalized_kind show ?thesis by auto
    qed
  qed (use a Cons.prems(2) in \<open>auto simp: file_channel_ops_def file_delete_channel_def file_update_settings_def Let_def\<close>)
  then show ?case by (rule Cons.IH[OF bs])
qed simp

lemma broadcast_cases:
  assumes "dispatch_broadcast nx ops env tx now store channel cx message s = (Inr reply, s')"
    and "py_truthy (py_get_or (co_get_settings ops store) ''broadcast_enabled'' (PBool True))"
    and "list_enabled_targets (co_list ops store) = Inr ts" and "ts \<noteq> []"
  obtains results where "seq_map (send_to_target nx tx now cx message) ts s = (Inr results, s')"
    "reply = broadcast_reply channel message (cx \<noteq> None) results"
  using assms by (auto simp: dispatch_broadcast_def seq_Inr_iff eff_defs)

lemma broadcast_reply_counts:
  "py_get (broadcast_reply channel message templated results) ''ok''
     = PBool (list_all (\<lambda>r. py_truthy (py_get r ''ok'')) results)"
  "py_get (broadcast_reply channel message templated results) ''sent''
     = PInt (int (length (filter (\<lambda>r. py_truthy (py_get r ''ok'')) results)))"
  "py_get (broadcast_reply channel message templated results) ''results'' = PList (map PDict results)"
proof -
  have "length results - length (filter (\<lambda>r. \<not> py_truthy (py_get r ''ok'')) results)
      = length (filter (\<lambda>r. py_truthy (py_get r ''ok'')) results)"
    using sum_length_filter_compl[of "\<lambda>r. py_truthy (py_get r ''ok'')" results] by simp
  then show "py_get (broadcast_reply channel message templated results) ''sent''
     = PInt (int (length (filter (\<lambda>r. py_truthy (py_get r ''ok'')) results)))"
    by (simp add: broadcast_reply_def py_get_or_def[of "_ # _"] Let_def)
  show "py_get (broadcast_reply channel message templated results) ''ok''
     = PBool (list_all (\<lambda>r. py_truthy (py_get r ''ok'')) results)"
    by (simp add: broadcast_reply_def py_get_or_def[of "_ # _"] Let_def filter_empty_conv list_all_iff)
  show "py_get (broadcast_reply channel message templated results) ''results'' = PList (map PDict results)"
    by (simp add: broadcast_reply_def py_get_or_def[of "_ # _"] Let_def)
qed


lemma seq_map_stops:
  assumes "seq_map f xs s = (Inr ys, s1)" "f x s1 = (Inl e, s2)"
  shows "seq_map f (xs @ x # zs) s = (Inl e, s2)"
  using assms(1)
proof (induction xs arbitrary: s ys)
  case (Cons a xs)
  obtain y s0 ys' where "f a s = (Inr y, s0)" "seq_map f xs s0 = (Inr ys', s1)"
    using Cons.prems by (auto simp: seq_Inr_iff give_def)
  then show ?case using Cons.IH by (simp add: seq_def)
qed (use assms(2) in \<open>simp add: seq_def give_def\<close>)

text \<open>
  An exception of one adapter, such as the webhook's of a malformed address, ends the broadcast: the
  channels after it get no message, and the caller gets the exception and not the results of the others.
\<close>
theorem raising_channel_stops_broadcast:
  assumes "py_truthy (py_get_or (co_get_settings ops store) ''broadcast_enabled'' (PBool True))"
    and "list_enabled_targets (co_list ops store) = Inr (before @ t # after)"
    and "seq_map (send_to_target nx tx now cx message) before s = (Inr rs, s1)"
    and "send_to_target nx tx now cx message t s1 = (Inl e, s2)"
  shows "dispatch_broadcast nx ops env tx now store channel cx message s = (Inl e, s2)"
  using assms(1,2) seq_map_stops[where f = "send_to_target nx tx now cx message", OF assms(3,4), of after]
  by (simp add: dispatch_broadcast_def seq_def eff_defs)

lemma keys_ball: "(\<forall>(k, v) \<in> set d. P k) \<longleftrightarrow> (\<forall>k \<in> set (dkeys d). P k)"
  by force

text \<open>
  The secret of a webhook channel, meant to sign messages as DingTalk's does, is part of what is posted to
  its address.
\<close>
theorem webhook_posts_its_secret:
  assumes "channel_target c = Inr t" and "nc_channel_type c = ''webhook''" and "py_strip (nc_secret c) \<noteq> []"
    and "\<forall>k \<in> set (dkeys (nc_metadata c)). stripped k" and "distinct (dkeys (nc_metadata c))"
  shows "py_get (webhook_payload t message) ''secret'' = PStr (py_strip (nc_secret c))"
proof -
  let ?m = "dput ''template_id'' (PStr (nc_template_id c)) (dput ''channel_id'' (PStr (nc_channel_id c))
      (dput ''secret'' (PStr (py_strip (nc_secret c))) (nc_metadata c)))"
  have "stripped ''template_id''" "stripped ''channel_id''" "stripped ''secret''" by code_simp+
  then have keys: "\<forall>k \<in> set (dkeys ?m). stripped k" using assms(4) by auto
  have m: "ot_metadata t = strip_keys ?m" using assms(1,3) by (auto simp: channel_target_def valid_target_def Let_def)
  have d: "distinct (dkeys ?m)" using assms(5) by simp
  have "dget (strip_keys ?m) ''secret'' = dget ?m ''secret''"
    by (rule dget_strip_keys(2)[OF _ d]) (use keys in \<open>simp only: keys_ball\<close>)
  moreover have "distinct (dkeys (strip_keys ?m))" by (simp add: strip_keys_def distinct_dict_of)
  moreover have "dget (rev xs) k = dget xs k" if "distinct (dkeys xs)" for xs :: pydict and k
    using that by (metis distinct_rev map_of_eqI map_of_inject_set rev_map set_rev)
  ultimately show ?thesis by (simp add: webhook_payload_def py_get_or_def dget_dunion m)
qed

section \<open>A concrete client\<close>

text \<open>A client that logs the addresses and answers 200, but raises for one address.\<close>

definition demo_notify :: "string list notify_ctx" where
  "demo_notify =
     \<lparr>nx_post = (\<lambda>url payload headers w.
        (if url = ''http://['' then Http_raised (OtherError ''InvalidURL'') ''Invalid URL''
         else Http_response 200 ''ok'' None, w @ [url])),
      nx_sign = (\<lambda>secret. ''sign''), nx_json_error = (\<lambda>_. ''Expecting value''), nx_type_error = ''no attribute get''\<rparr>"

lemma demo_notify_logs: "logs_posts demo_notify (\<lambda>w. w)"
  by (simp add: logs_posts_def demo_notify_def)

definition demo_notify_commands :: "string \<Rightarrow> channel_command list" where
  "demo_notify_commands url =
     [Upsert_channel (demo_inputs_at ''u1'') [(''name'', PStr ''dev''), (''endpoint_url'', PStr url)],
      Upsert_channel (demo_inputs_at ''u2'')
        [(''name'', PStr ''ops''), (''endpoint_url'', PStr ''https://ops''), (''channel_type'', PStr ''slack'')]]"

definition demo_channel_file :: "string \<Rightarrow> channel_file" where
  "demo_channel_file url = snd (channel_steps file_channel_ops (demo_notify_commands url) new_channel_file)"

definition demo_notify_state :: "string list notify_state" where
  "demo_notify_state = \<lparr>nd_world = [], nd_templates = [system_template demo_texts ''2024'']\<rparr>"

definition demo_broadcast :: "string \<Rightarrow> pydict res \<times> string list notify_state" where
  "demo_broadcast url = dispatch_broadcast demo_notify file_channel_ops (\<lambda>_. None) demo_texts ''2024''
     (demo_channel_file url) ''webhook'' None ''hello'' demo_notify_state"


theorem raising_channel_stops_broadcast_witness:
  "\<exists>s2. demo_broadcast ''http://['' = (Inl (OtherError ''InvalidURL''), s2) \<and> nd_world s2 = [''http://['']"
proof -
  let ?f = "demo_channel_file ''http://[''"
  let ?send = "send_to_target demo_notify demo_texts ''2024'' None ''hello''"
  have on: "py_truthy (py_get_or (co_get_settings file_channel_ops ?f) ''broadcast_enabled'' (PBool True))" by code_simp
  have "map_sum id (map ot_endpoint) (list_enabled_targets (co_list file_channel_ops ?f)) = Inr [''http://['', ''https://ops'']"
    "map_sum id (\<lambda>ts. map ot_channel ts) (list_enabled_targets (co_list file_channel_ops ?f)) = Inr [''webhook'', ''slack'']"
    "map_sum id (\<lambda>ts. map (\<lambda>t. py_get_or (ot_metadata t) ''headers'' (PDict [])) ts) (list_enabled_targets (co_list file_channel_ops ?f))
       = Inr [PDict [], PDict []]"
    by code_simp+
  then obtain t u where ts: "list_enabled_targets (co_list file_channel_ops ?f) = Inr ([] @ t # [u])"
    and t: "ot_endpoint t = ''http://[''" "ot_channel t = ''webhook''" "py_get_or (ot_metadata t) ''headers'' (PDict []) = PDict []"
    by (cases "list_enabled_targets (co_list file_channel_ops ?f)") (auto simp: map_eq_Cons_conv)
  have none: "seq_map ?send [] demo_notify_state = (Inr [], demo_notify_state)" by (simp add: give_def)
  have raised: "?send t demo_notify_state
      = (Inl (OtherError ''InvalidURL''), demo_notify_state\<lparr>nd_world := [''http://['']\<rparr>)"
    by (simp add: send_to_target_def channel_message_text_def on_notify_world_def send_outbound_def registry_send_def
        production_registry_def webhook_send_def t seq_def demo_notify_def demo_notify_state_def)
  show ?thesis
    using raising_channel_stops_broadcast[OF on ts none raised] by (simp add: demo_broadcast_def)
qed

definition secret_row :: channel_row where
  "secret_row = (demo_row ''a'' ''ops'')\<lparr>nc_secret := ''s3cret''\<rparr>"

theorem webhook_posts_its_secret_witness:
  "\<exists>t. channel_target secret_row = Inr t \<and> py_get (webhook_payload t ''hi'') ''secret'' = PStr ''s3cret''"
proof -
  have "\<not> isl (channel_target secret_row)" by code_simp
  then obtain t where t: "channel_target secret_row = Inr t" by (metis sum.collapse(2))
  have strip: "py_strip ''s3cret'' = ''s3cret''" by code_simp
  have "py_get (webhook_payload t ''hi'') ''secret'' = PStr (py_strip (nc_secret secret_row))"
    by (rule webhook_posts_its_secret[OF t]) (simp_all add: secret_row_def demo_row_def strip)
  then show ?thesis using t strip by (simp add: secret_row_def)
qed

end
