(* ===== verification/RootCause.thy ===== *)
theory RootCause
  imports Contracts
begin

text \<open>
  The rule engine that looks for a root cause (\<open>analysis/root_cause_engine.py\<close> with the hypotheses, their
  validation, the weights of the evidence and the check of convergence): rounds over a pack of evidence,
  each of which generates hypotheses, validates and weighs, until the check is content or the limit of
  rounds is reached. The Chinese sentences, fresh identifiers and the clock are arguments. Floats are the
  rationals their decimal notation shows, and arithmetic on them is exact.
\<close>

section \<open>Evidence with its time\<close>

record dated_evidence = evidence_item +
  de_collected_at :: int

record dated_pack =
  dp_case_id :: string
  dp_summary :: string
  dp_items :: "dated_evidence list"

text \<open>The dictionary under a key, empty where there is none.\<close>

definition dict_field :: "pydict \<Rightarrow> string \<Rightarrow> pydict" where
  "dict_field d k = (case py_get d k of PDict x \<Rightarrow> x | _ \<Rightarrow> [])"

section \<open>Hypotheses (hypothesis_generator.py)\<close>

datatype hypothesis_type =
    Hyp_LOG_ERROR | Hyp_TRACE_ANOMALY | Hyp_CODE_DEFECT | Hyp_RESOURCE_EXHAUSTION | Hyp_CONFIG_ERROR
  | Hyp_DEPENDENCY_FAILURE

text \<open>The sentences of the engine, which are Chinese; \<open>Say_label\<close> is what stands before the colon.\<close>

datatype rca_sentence =
    Say_label hypothesis_type
  | Say_item string
  | Say_same_type string
  | Say_source string
  | Say_missing_field_hint
  | Say_anomaly
  | Say_failure
  | Say_round nat string string rat
  | Say_no_evidence
  | Say_no_evidence_title
  | Say_no_evidence_narrative
  | Say_collect_more
  | Say_initial
  | Say_undetermined
  | Say_no_hypothesis
  | Say_fault string
  | Say_converged
  | Say_raise_confidence
  | Say_more_items int
  | Say_tell_apart
  | Say_rounds_left nat
  | Say_limit_reached

type_synonym rca_texts = "rca_sentence \<Rightarrow> string"

record hypothesis =
  hy_hypothesis_id :: string
  hy_statement :: string
  hy_evidence_item_ids :: "string list"

record hypothesis_template =
  ht_type :: hypothesis_type
  ht_keywords :: "string list"

definition default_templates :: "hypothesis_template list" where
  "default_templates =
     [\<lparr>ht_type = Hyp_LOG_ERROR, ht_keywords = [''error'', ''exception'', ''fail'', ''timeout'']\<rparr>,
      \<lparr>ht_type = Hyp_TRACE_ANOMALY, ht_keywords = [''latency'', ''slow'', ''timeout'', ''retry'']\<rparr>,
      \<lparr>ht_type = Hyp_CODE_DEFECT, ht_keywords = [''null'', ''nil'', ''panic'', ''index out of range'']\<rparr>,
      \<lparr>ht_type = Hyp_RESOURCE_EXHAUSTION, ht_keywords = [''oom'', ''memory'', ''cpu'', ''disk'', ''connection pool'']\<rparr>,
      \<lparr>ht_type = Hyp_CONFIG_ERROR, ht_keywords = [''config'', ''env'', ''missing'', ''invalid'']\<rparr>,
      \<lparr>ht_type = Hyp_DEPENDENCY_FAILURE,
       ht_keywords = [''downstream'', ''upstream'', ''service'', ''dependency'', ''unavailable'']\<rparr>]"

definition is_unconfigured_evidence :: "dated_evidence \<Rightarrow> bool" where
  "is_unconfigured_evidence i \<longleftrightarrow>
     py_get (ei_content i) ''configured'' = PBool False
     \<or> py_get (dict_field (ei_content i) ''metadata'') ''configured'' = PBool False"

text \<open>The searchable text of an item: its texts and dictionaries, and the elements of its lists.\<close>

fun value_texts :: "pyval \<Rightarrow> string list" where
  "value_texts (PStr s) = [s]"
| "value_texts (PDict d) = [py_str (PDict d)]"
| "value_texts (PList xs) = map py_str xs"
| "value_texts _ = []"

definition extract_content :: "dated_evidence \<Rightarrow> string" where
  "extract_content i = join '' '' (concat (map (value_texts \<circ> snd) (ei_content i)))"

definition mentions_any :: "string list \<Rightarrow> string \<Rightarrow> bool" where
  "mentions_any kws s \<longleftrightarrow> list_ex (\<lambda>kw. occurs_in kw s) kws"

definition find_matching_items :: "dated_pack \<Rightarrow> hypothesis_template \<Rightarrow> dated_evidence list" where
  "find_matching_items pack t =
     filter (\<lambda>i. \<not> is_unconfigured_evidence i \<and> mentions_any (ht_keywords t) (py_lower (extract_content i)))
       (dp_items pack)"

subsection \<open>The summary of an item\<close>

definition skip_snippet_keys :: "string list" where
  "skip_snippet_keys = [''source'', ''backend'', ''engine'', ''index'', ''query_key'', ''tool_name'']"

definition skip_snippet_values :: "string list" where
  "skip_snippet_values = [''zoekt'', ''gitnexus'', ''qdrant'', ''catalog'', ''ok'', ''true'', ''false'']"

text \<open>
  \<open>_PATH_LIKE_RE\<close> on a stripped text: it ends in a file name with a source suffix, whose name follows the
  start or a slash, or has a source directory.
\<close>

definition path_suffixes :: "string list" where
  "path_suffixes = [''.java'', ''.kt'', ''.py'', ''.go'', ''.ts'', ''.tsx'', ''.js'', ''.jsx'', ''.cs'', ''.rb'']"

definition path_name_char :: "char \<Rightarrow> bool" where
  "path_name_char c \<longleftrightarrow> word_char c \<or> c = CHR ''.'' \<or> c = CHR ''-''"

definition last_segment :: "string \<Rightarrow> string" where
  "last_segment s = rev (takeWhile (\<lambda>c. c \<noteq> CHR ''/'' \<and> c \<noteq> CHR 0x5C) (rev s))"

definition path_like :: "string \<Rightarrow> bool" where
  "path_like s0 \<longleftrightarrow>
     (let s = py_lower s0; name = last_segment s in
      list_all path_name_char name \<and> list_ex (\<lambda>x. ends_with name x \<and> length x < length name) path_suffixes
      \<or> list_ex (\<lambda>d. starts_with s (d @ ''/'') \<or> occurs_in (''/'' @ d @ ''/'') s)
          [''src'', ''main'', ''java'', ''com'', ''org''])"

definition usable_snippet :: "rca_texts \<Rightarrow> string \<Rightarrow> bool \<Rightarrow> string \<Rightarrow> bool" where
  "usable_snippet tx source prefer_exception value \<longleftrightarrow>
     (let s = py_strip value; lowered = py_lower s in
      s \<noteq> [] \<and> \<not> starts_with s (tx Say_missing_field_hint) \<and> lowered \<notin> set skip_snippet_values
      \<and> lowered \<noteq> py_lower (py_strip source)
      \<and> \<not> (prefer_exception \<and> path_like s \<and> \<not> occurs_in ''exception'' lowered \<and> \<not> occurs_in ''error!'' lowered))"

text \<open>The texts a snippet may be, in the order they are tried, each with its \<open>prefer_exception\<close>.\<close>

definition snippet_candidates :: "pydict \<Rightarrow> (bool \<times> pyval) list" where
  "snippet_candidates content =
     map (\<lambda>k. (k \<noteq> ''exception_summary'', py_get (dict_field content ''extracted'') k))
       [''exception_summary'', ''symptom'', ''code_path'']
     @ map (\<lambda>k. (k \<in> {''summary'', ''path''}, py_get content k)) [''exception_summary'', ''summary'', ''path'', ''error'']
     @ map (\<lambda>(k, v). (True, v)) (filter (\<lambda>(k, v). k \<notin> set skip_snippet_keys) content)"

definition summary_snippet :: "rca_texts \<Rightarrow> dated_evidence \<Rightarrow> string" where
  "summary_snippet tx i =
     (case List.find (\<lambda>(prefer, v). case v of PStr s \<Rightarrow> usable_snippet tx (ei_source i) prefer s | _ \<Rightarrow> False)
             (snippet_candidates (ei_content i)) of
        Some (_, PStr s) \<Rightarrow> take 180 (py_strip s)
      | _ \<Rightarrow> [])"

definition add_summary_bits :: "rca_texts \<Rightarrow> string list \<times> string list \<Rightarrow> dated_evidence \<Rightarrow> string list \<times> string list" where
  "add_summary_bits tx bits i =
     (let (exceptions, others) = bits; snippet = summary_snippet tx i;
          others' = (if snippet = [] \<or> snippet \<in> set others \<or> snippet \<in> set exceptions then others
                     else others @ [snippet])
      in case py_get (dict_field (ei_content i) ''extracted'') ''exception_summary'' of
           PStr e \<Rightarrow>
             (if \<not> usable_snippet tx (ei_source i) False e then (exceptions, others')
              else if py_strip e \<in> set exceptions then (exceptions, others)
              else (exceptions @ [py_strip e], others))
         | _ \<Rightarrow> (exceptions, others'))"

definition build_summary :: "rca_texts \<Rightarrow> dated_evidence list \<Rightarrow> string" where
  "build_summary tx items =
     (case foldl (add_summary_bits tx) ([], []) (take 5 items) of
        (e # _, _) \<Rightarrow> take 180 e
      | ([], others) \<Rightarrow> join ''; '' (take 2 others))"

subsection \<open>Generating\<close>

text \<open>A hypothesis before it has an identifier: its statement and the items it rests on.\<close>

type_synonym hypothesis_draft = "string \<times> string list"

definition build_hypothesis ::
    "rca_texts \<Rightarrow> hypothesis_template \<Rightarrow> dated_evidence list \<Rightarrow> string set \<Rightarrow> hypothesis_draft option" where
  "build_hypothesis tx t items used =
     (case filter (\<lambda>i. ei_item_id i \<notin> used) items of
        [] \<Rightarrow> None
      | first # rest \<Rightarrow>
          (let summary = build_summary tx (first # rest);
               summary' = (if summary = [] then tx (Say_item (ei_item_id first)) else summary)
           in Some (tx (Say_label (ht_type t)) @ '': '' @ summary', map ei_item_id (take 5 (first # rest)))))"

fun template_drafts ::
    "rca_texts \<Rightarrow> dated_pack \<Rightarrow> hypothesis_template list \<Rightarrow> string set \<Rightarrow> hypothesis_draft list" where
  "template_drafts tx pack [] used = []"
| "template_drafts tx pack (t # ts) used =
     (case build_hypothesis tx t (find_matching_items pack t) used of
        None \<Rightarrow> template_drafts tx pack ts used
      | Some h \<Rightarrow> h # template_drafts tx pack ts (used \<union> set (snd h)))"

text \<open>Groups in the order of their first item, as a dictionary has them.\<close>

definition type_groups :: "dated_evidence list \<Rightarrow> (evidence_type \<times> dated_evidence list) list" where
  "type_groups items =
     map (\<lambda>t. (t, filter (\<lambda>i. ei_type i = t) items)) (dedupe_acc {} (map ei_type items))"

definition type_drafts :: "rca_texts \<Rightarrow> dated_pack \<Rightarrow> string set \<Rightarrow> hypothesis_draft list" where
  "type_drafts tx pack used =
     map (\<lambda>(t, items). (tx (Say_same_type (evidence_type_value t)), map ei_item_id (take 5 items)))
       (filter (\<lambda>(t, items). 2 \<le> length items)
         (type_groups (filter (\<lambda>i. ei_item_id i \<notin> used \<and> \<not> is_unconfigured_evidence i) (dp_items pack))))"

definition catch_all_draft :: "rca_texts \<Rightarrow> dated_pack \<Rightarrow> hypothesis_draft" where
  "catch_all_draft tx pack =
     (tx (Say_source (ei_source (hd (dp_items pack)))), map ei_item_id (take 3 (dp_items pack)))"

definition all_drafts :: "rca_texts \<Rightarrow> dated_pack \<Rightarrow> hypothesis_draft list" where
  "all_drafts tx pack =
     (let by_template = template_drafts tx pack default_templates {};
          drafts = by_template @ type_drafts tx pack (set (concat (map snd by_template)))
      in if drafts = [] then [catch_all_draft tx pack] else drafts)"

text \<open>Identifiers are drawn in the order of creation.\<close>

definition name_draft :: "(nat \<Rightarrow> string) \<Rightarrow> nat \<times> hypothesis_draft \<Rightarrow> hypothesis" where
  "name_draft fresh = (\<lambda>(n, statement, ids).
     \<lparr>hy_hypothesis_id = fresh n, hy_statement = statement, hy_evidence_item_ids = ids\<rparr>)"

definition generate :: "rca_texts \<Rightarrow> (nat \<Rightarrow> string) \<Rightarrow> dated_pack \<Rightarrow> hypothesis list" where
  "generate tx fresh pack =
     (if dp_items pack = [] then [name_draft fresh (0, tx Say_no_evidence, [])]
      else take 5 (sort_key_desc (\<lambda>h. length (hy_evidence_item_ids h))
                     (map (name_draft fresh) (enumerate 0 (all_drafts tx pack)))))"

section \<open>Validation (hypothesis_validator.py)\<close>

record validation_result =
  vr_hypothesis_id :: string
  vr_is_valid :: bool
  vr_confidence :: rat
  vr_supporting_count :: nat
  vr_contradicting_count :: nat

fun plain_value_texts :: "pyval \<Rightarrow> string list" where
  "plain_value_texts (PStr s) = [s]"
| "plain_value_texts (PDict d) = [py_str (PDict d)]"
| "plain_value_texts _ = []"

definition item_content :: "dated_evidence \<Rightarrow> string" where
  "item_content i = join '' '' (concat (map (plain_value_texts \<circ> snd) (ei_content i)))"

definition stop_words :: "string list" where
  "stop_words = [''the'', ''a'', ''an'', ''is'', ''are'', ''was'', ''were'', ''by'', ''for'', ''to'', ''of'', ''and'', ''or'']"

definition extract_keywords :: "string \<Rightarrow> string list" where
  "extract_keywords s = filter (\<lambda>w. w \<notin> set stop_words \<and> 2 < length w) (split_ws (py_lower s))"

definition supporting_ids :: "hypothesis \<Rightarrow> dated_pack \<Rightarrow> string list" where
  "supporting_ids h pack =
     remdups (hy_evidence_item_ids h
       @ map ei_item_id (filter (\<lambda>i. mentions_any (extract_keywords (hy_statement h)) (py_lower (item_content i)))
           (dp_items pack)))"

definition count_contradicting :: "rca_texts \<Rightarrow> hypothesis \<Rightarrow> dated_pack \<Rightarrow> nat" where
  "count_contradicting tx h pack =
     length (filter (\<lambda>i. ei_item_id i \<notin> set (hy_evidence_item_ids h)
         \<and> mentions_any [''success'', ''ok'', ''normal'', ''healthy'', ''resolved''] (py_lower (item_content i))
         \<and> mentions_any [''error'', ''fail'', tx Say_anomaly, tx Say_failure] (py_lower (hy_statement h)))
       (dp_items pack))"

definition confidence_of :: "nat \<Rightarrow> nat \<Rightarrow> rat" where
  "confidence_of supporting contradicting =
     (if supporting = 0 then 0
      else max 0 (min 1 (min (9 / 10) (3 / 10 + 15 / 100 * of_nat supporting) - of_nat contradicting * (3 / 10))))"

definition validate_hypothesis :: "rca_texts \<Rightarrow> dated_pack \<Rightarrow> hypothesis \<Rightarrow> validation_result" where
  "validate_hypothesis tx pack h =
     (let s = length (supporting_ids h pack); c = count_contradicting tx h pack; conf = confidence_of s c
      in \<lparr>vr_hypothesis_id = hy_hypothesis_id h, vr_is_valid = (1 \<le> s \<and> 1 / 10 < conf), vr_confidence = conf,
          vr_supporting_count = s, vr_contradicting_count = c\<rparr>)"

definition validate_all :: "rca_texts \<Rightarrow> hypothesis list \<Rightarrow> dated_pack \<Rightarrow> validation_result list" where
  "validate_all tx hs pack = sort_key_desc vr_confidence (map (validate_hypothesis tx pack) hs)"

section \<open>Weights (evidence_weighting.py)\<close>

record weighted_evidence =
  we_item :: dated_evidence
  we_weight :: rat
  we_relevance_score :: rat

definition type_weight :: "evidence_type \<Rightarrow> rat" where
  "type_weight t =
     (case t of Ev_LOG \<Rightarrow> 1 | Ev_TRACE \<Rightarrow> 11 / 10 | Ev_CODE \<Rightarrow> 9 / 10 | Ev_METRIC \<Rightarrow> 1
      | Ev_SERVICE_CATALOG \<Rightarrow> 8 / 10 | _ \<Rightarrow> 7 / 10)"

definition recency_weight :: "dated_evidence \<Rightarrow> dated_pack \<Rightarrow> rat" where
  "recency_weight i pack =
     (let times = map de_collected_at (dp_items pack) in
      if times = [] then 1
      else let newest = fold max (tl times) (hd times); oldest = fold min (tl times) (hd times) in
        if newest - oldest \<le> 0 then 1
        else 1 / 2 + 1 / 2 * max 0 (min 1 (1 - max 0 (of_int (newest - de_collected_at i)) / of_int (newest - oldest))))"

definition relevance :: "dated_evidence \<Rightarrow> dated_pack \<Rightarrow> rat" where
  "relevance i pack =
     min 1 (\<Sum>j \<leftarrow> filter (\<lambda>j. ei_item_id j \<noteq> ei_item_id i) (dp_items pack).
       (if ei_type j = ei_type i then 1 / 10 else 0) + (if ei_source j = ei_source i then 1 / 10 else 0)
       + 5 / 100 * of_nat (card (set (dkeys (ei_content i)) \<inter> set (dkeys (ei_content j)))))"

definition raw_weight :: "dated_pack \<Rightarrow> dated_evidence \<Rightarrow> rat" where
  "raw_weight pack i = (type_weight (ei_type i) + recency_weight i pack) / 2"

definition weigh :: "dated_pack \<Rightarrow> weighted_evidence list" where
  "weigh pack =
     (let total = (\<Sum>i \<leftarrow> dp_items pack. raw_weight pack i)
      in map (\<lambda>i. \<lparr>we_item = i, we_weight = (if 0 < total then raw_weight pack i / total else raw_weight pack i),
                  we_relevance_score = relevance i pack\<rparr>) (dp_items pack))"

definition rank_weights :: "weighted_evidence list \<Rightarrow> weighted_evidence list" where
  "rank_weights ws = sort_key_desc we_weight ws"

definition aggregate_weight :: "string list \<Rightarrow> weighted_evidence list \<Rightarrow> rat" where
  "aggregate_weight ids ws =
     (let weights = dict_of (map (\<lambda>w. (ei_item_id (we_item w), we_weight w)) ws)
      in \<Sum>i \<leftarrow> ids. case dget weights i of None \<Rightarrow> 0 | Some x \<Rightarrow> x)"

section \<open>Convergence (convergence_checker.py)\<close>

record rca_settings =
  rx_confidence_threshold :: rat
  rx_min_evidence_count :: int
  rx_min_hypothesis_gap :: rat

definition default_rca_settings :: rca_settings where
  "default_rca_settings =
     \<lparr>rx_confidence_threshold = 7 / 10, rx_min_evidence_count = 3, rx_min_hypothesis_gap = 2 / 10\<rparr>"

record convergence_status =
  cv_is_converged :: bool
  cv_confidence_threshold_met :: bool
  cv_sufficient_evidence :: bool
  cv_top_hypothesis_gap :: rat
  cv_recommendation :: string
  cv_iterations_remaining :: nat

definition hypothesis_gap :: "validation_result list \<Rightarrow> rat" where
  "hypothesis_gap vs =
     (case sort_key_desc vr_confidence vs of
        [] \<Rightarrow> 0 | [_] \<Rightarrow> 1 | a # b # _ \<Rightarrow> vr_confidence a - vr_confidence b)"

definition build_recommendation ::
    "rca_settings \<Rightarrow> rca_texts \<Rightarrow> bool \<Rightarrow> bool \<Rightarrow> bool \<Rightarrow> rat \<Rightarrow> nat \<Rightarrow> string" where
  "build_recommendation st tx converged confident sufficient gap remaining =
     (if converged then tx Say_converged
      else join ''; ''
        ((if confident then [] else [tx Say_raise_confidence])
         @ (if sufficient then [] else [tx (Say_more_items (rx_min_evidence_count st))])
         @ (if gap < rx_min_hypothesis_gap st then [tx Say_tell_apart] else [])
         @ [tx (if 0 < remaining then Say_rounds_left remaining else Say_limit_reached)]))"

definition check_convergence ::
    "rca_settings \<Rightarrow> rca_texts \<Rightarrow> nat \<Rightarrow> validation_result list \<Rightarrow> dated_pack \<Rightarrow> nat \<Rightarrow> convergence_status" where
  "check_convergence st tx max_iterations vs pack iteration =
     (let confident = (case vs of [] \<Rightarrow> False | v # _ \<Rightarrow> rx_confidence_threshold st \<le> vr_confidence v);
          sufficient = (rx_min_evidence_count st \<le> int (length (dp_items pack)));
          gap = hypothesis_gap vs; remaining = max_iterations - iteration;
          converged = (confident \<and> sufficient \<and> rx_min_hypothesis_gap st \<le> gap \<or> max_iterations \<le> iteration)
      in \<lparr>cv_is_converged = converged, cv_confidence_threshold_met = confident,
          cv_sufficient_evidence = sufficient, cv_top_hypothesis_gap = gap,
          cv_recommendation = build_recommendation st tx converged confident sufficient gap remaining,
          cv_iterations_remaining = remaining\<rparr>)"

section \<open>The engine (root_cause_engine.py)\<close>

text \<open>
  What a run takes from outside: its sentences, the identifiers of hypotheses by round and number, and the
  identifier and time of the item a round adds. An expander may fetch more evidence between rounds.
\<close>

record rca_ctx =
  rc_settings :: rca_settings
  rc_texts :: rca_texts
  rc_fresh_hypothesis :: "nat \<Rightarrow> nat \<Rightarrow> string"
  rc_fresh_item :: "nat \<Rightarrow> string"
  rc_round_time :: "nat \<Rightarrow> int"

type_synonym 's expander = "dated_pack \<Rightarrow> nat \<Rightarrow> convergence_status \<Rightarrow> ('s, dated_pack) eff"

record rca_round =
  rr_hypotheses :: "hypothesis list"
  rr_validations :: "validation_result list"
  rr_weights :: "weighted_evidence list"
  rr_status :: convergence_status

definition focus_pack :: "rca_settings \<Rightarrow> dated_pack \<Rightarrow> weighted_evidence list \<Rightarrow> nat \<Rightarrow> dated_pack" where
  "focus_pack st pack ws iteration =
     (let keep = max 1 (min (int (length ws)) (rx_min_evidence_count st + int iteration - 1));
          kept = set (map (ei_item_id \<circ> we_item) (take (nat keep) (rank_weights ws)));
          focused = filter (\<lambda>i. ei_item_id i \<in> kept) (dp_items pack)
      in if focused = [] then pack else pack\<lparr>dp_items := focused\<rparr>)"

text \<open>\<open>content.get("iteration") == iteration\<close>: Python compares numbers by their value.\<close>

definition equals_round :: "pyval \<Rightarrow> nat \<Rightarrow> bool" where
  "equals_round v n \<longleftrightarrow> v = PInt (int n) \<or> v = PFloat (of_nat n) \<or> (v = PBool True \<and> n = 1)"

definition derived_item :: "rca_ctx \<Rightarrow> weighted_evidence \<Rightarrow> string \<Rightarrow> nat \<Rightarrow> dated_evidence" where
  "derived_item cx best hypothesis_id n =
     \<lparr>ei_item_id = rc_fresh_item cx n, ei_type = Ev_OTHER, ei_source = ''root_cause_iteration'',
      ei_content =
        [(''iteration'', PInt (int n)),
         (''summary'', PStr (rc_texts cx (Say_round n (ei_source (we_item best))
            (evidence_type_value (ei_type (we_item best))) (we_weight best)))),
         (''top_hypothesis_id'', PStr hypothesis_id), (''top_weight'', PFloat (we_weight best))],
      de_collected_at = rc_round_time cx n\<rparr>"

definition synthesize_evidence ::
    "rca_ctx \<Rightarrow> dated_pack \<Rightarrow> weighted_evidence list \<Rightarrow> validation_result list \<Rightarrow> nat \<Rightarrow> dated_pack" where
  "synthesize_evidence cx pack ws vs n =
     (case rank_weights ws of
        [] \<Rightarrow> pack
      | best # _ \<Rightarrow>
          (if \<exists>i \<in> set (dp_items pack). ei_source i = ''root_cause_iteration''
                \<and> equals_round (py_get (ei_content i) ''iteration'') n
           then pack
           else pack\<lparr>dp_items := dp_items pack
                   @ [derived_item cx best (case vs of [] \<Rightarrow> [] | v # _ \<Rightarrow> vr_hypothesis_id v) n]\<rparr>))"

definition run_round ::
    "rca_ctx \<Rightarrow> nat \<Rightarrow> nat \<Rightarrow> weighted_evidence list \<Rightarrow> dated_pack \<Rightarrow> rca_round" where
  "run_round cx max_iters n prior pack =
     (let analysed = (if 1 < n \<and> prior \<noteq> [] then focus_pack (rc_settings cx) pack prior n else pack);
          hs = generate (rc_texts cx) (rc_fresh_hypothesis cx n) analysed;
          vs = validate_all (rc_texts cx) hs pack
      in \<lparr>rr_hypotheses = hs, rr_validations = vs, rr_weights = weigh pack,
          rr_status = check_convergence (rc_settings cx) (rc_texts cx) max_iters vs pack n\<rparr>)"

text \<open>The rounds from number \<open>n\<close> on, \<open>k\<close> of which may follow: the last round, its number and its pack.\<close>

fun run_rounds ::
    "rca_ctx \<Rightarrow> 's expander option \<Rightarrow> nat \<Rightarrow> nat \<Rightarrow> nat \<Rightarrow> weighted_evidence list \<Rightarrow> dated_pack
     \<Rightarrow> ('s, rca_round \<times> nat \<times> dated_pack) eff" where
  "run_rounds cx ex max_iters 0 n prior pack = give (run_round cx max_iters n prior pack, n, pack)"
| "run_rounds cx ex max_iters (Suc k) n prior pack =
     (let r = run_round cx max_iters n prior pack in
      if cv_is_converged (rr_status r) then give (r, n, pack)
      else let more = synthesize_evidence cx pack (rr_weights r) (rr_validations r) n in
        seq (case ex of None \<Rightarrow> give more | Some expand \<Rightarrow> expand more n (rr_status r))
          (run_rounds cx ex max_iters k (Suc n) (rr_weights r)))"

subsection \<open>The conclusion\<close>

fun first_frame :: "pyval list \<Rightarrow> string" where
  "first_frame (PStr s # _) = py_strip s"
| "first_frame _ = []"

definition field_text :: "string \<Rightarrow> dated_evidence \<Rightarrow> string" where
  "field_text k i =
     (case py_get (dict_field (ei_content i) ''extracted'') k of
        PStr s \<Rightarrow> py_strip s
      | PList xs \<Rightarrow> (if k = ''call_chain'' then first_frame xs else [])
      | _ \<Rightarrow> [])"

definition extracted_field :: "dated_pack \<Rightarrow> string \<Rightarrow> string" where
  "extracted_field pack k =
     (case List.find (\<lambda>s. s \<noteq> []) (map (field_text k) (dp_items pack)) of None \<Rightarrow> [] | Some s \<Rightarrow> s)"

definition hypothesis_prefixes :: "rca_texts \<Rightarrow> string list" where
  "hypothesis_prefixes tx =
     map (\<lambda>t. tx (Say_label t) @ '':'')
       [Hyp_LOG_ERROR, Hyp_TRACE_ANOMALY, Hyp_CODE_DEFECT, Hyp_RESOURCE_EXHAUSTION, Hyp_CONFIG_ERROR,
        Hyp_DEPENDENCY_FAILURE]"

definition strip_hypothesis_prefix :: "rca_texts \<Rightarrow> string \<Rightarrow> string" where
  "strip_hypothesis_prefix tx statement =
     (let s = py_strip statement in
      case List.find (starts_with s) (hypothesis_prefixes tx) of
        None \<Rightarrow> s
      | Some p \<Rightarrow> py_strip (drop (length p) s))"

definition conclusion_title :: "rca_texts \<Rightarrow> dated_pack \<Rightarrow> hypothesis \<Rightarrow> string" where
  "conclusion_title tx pack h =
     (let exception = extracted_field pack ''exception_summary'';
          cleaned = strip_hypothesis_prefix tx (hy_statement h)
      in if exception \<noteq> [] then take 100 exception
         else if cleaned \<noteq> [] then take 100 cleaned else tx Say_initial)"

definition conclusion_narrative ::
    "rca_texts \<Rightarrow> dated_pack \<Rightarrow> hypothesis \<Rightarrow> convergence_status \<Rightarrow> string" where
  "conclusion_narrative tx pack h cv =
     (let exception = extracted_field pack ''exception_summary'';
          parts1 = (if exception = [] then [] else [take 240 exception]);
          fault = extracted_field pack ''call_chain'';
          parts2 = parts1 @ (if fault \<noteq> [] \<and> \<not> occurs_in fault (concat parts1) then [tx (Say_fault (take 160 fault))]
                             else []);
          cleaned = strip_hypothesis_prefix tx (hy_statement h);
          parts3 = (if parts2 = [] \<and> cleaned \<noteq> [] then [take 240 cleaned] else parts2);
          recommendation = py_strip (cv_recommendation cv);
          parts4 = parts3 @ (if \<not> cv_is_converged cv \<and> recommendation \<noteq> [] then [recommendation] else [])
      in if parts4 = [] then tx Say_no_hypothesis else join '' '' parts4)"

definition contributing_factors :: "weighted_evidence list \<Rightarrow> dated_pack \<Rightarrow> string list" where
  "contributing_factors ws pack =
     (let items = (if ws = [] then take 5 (dp_items pack)
                   else filter (\<lambda>i. ei_source i \<noteq> ''root_cause_iteration'') (map we_item (take 5 (rank_weights ws))))
      in dedupe_acc {} (map (evidence_type_value \<circ> ei_type) items))"

definition top_hypothesis :: "hypothesis list \<Rightarrow> validation_result list \<Rightarrow> hypothesis option" where
  "top_hypothesis hs vs =
     (let first = (case hs of [] \<Rightarrow> None | h # _ \<Rightarrow> Some h) in
      case vs of
        [] \<Rightarrow> first
      | v # _ \<Rightarrow>
          (case List.find (\<lambda>h. hy_hypothesis_id h = vr_hypothesis_id v) hs of None \<Rightarrow> first | Some h \<Rightarrow> Some h))"

definition conclusion_confidence :: "hypothesis \<Rightarrow> validation_result list \<Rightarrow> weighted_evidence list \<Rightarrow> rat" where
  "conclusion_confidence h vs ws =
     (case vs of
        [] \<Rightarrow> 1 / 2
      | v # _ \<Rightarrow>
          (let w = aggregate_weight (hy_evidence_item_ids h) ws in
           if ws \<noteq> [] \<and> 0 < w then min (95 / 100) (vr_confidence v * (75 / 100 + 25 / 100 * w))
           else vr_confidence v))"

definition build_conclusion :: "rca_texts \<Rightarrow> rca_round \<Rightarrow> dated_pack \<Rightarrow> root_cause_conclusion" where
  "build_conclusion tx r pack =
     (case top_hypothesis (rr_hypotheses r) (rr_validations r) of
        None \<Rightarrow> \<lparr>rc_title = tx Say_undetermined, rc_narrative = tx Say_no_hypothesis, rc_confidence = 0,
                 rc_contributing_factors = []\<rparr>
      | Some h \<Rightarrow>
          \<lparr>rc_title = conclusion_title tx pack h, rc_narrative = conclusion_narrative tx pack h (rr_status r),
           rc_confidence = conclusion_confidence h (rr_validations r) (rr_weights r),
           rc_contributing_factors = contributing_factors (rr_weights r) pack\<rparr>)"

record rca_result =
  ra_hypotheses :: "hypothesis list"
  ra_conclusion :: root_cause_conclusion
  ra_is_converged :: bool
  ra_iteration_count :: nat
  ra_recommendation :: string

definition empty_result :: "rca_ctx \<Rightarrow> rca_result" where
  "empty_result cx =
     \<lparr>ra_hypotheses = [name_draft (rc_fresh_hypothesis cx 0) (0, rc_texts cx Say_no_evidence, [])],
      ra_conclusion = \<lparr>rc_title = rc_texts cx Say_no_evidence_title, rc_narrative = rc_texts cx Say_no_evidence_narrative,
        rc_confidence = 0, rc_contributing_factors = []\<rparr>,
      ra_is_converged = False, ra_iteration_count = 1, ra_recommendation = rc_texts cx Say_collect_more\<rparr>"

definition analyze :: "rca_ctx \<Rightarrow> 's expander option \<Rightarrow> int \<Rightarrow> dated_pack \<Rightarrow> ('s, rca_result) eff" where
  "analyze cx ex max_iterations pack =
     (if dp_items pack = [] then give (empty_result cx)
      else let limit = nat (max 1 max_iterations) in
        seq (run_rounds cx ex limit (limit - 1) 1 [] pack) (\<lambda>(r, n, final).
          give \<lparr>ra_hypotheses = rr_hypotheses r, ra_conclusion = build_conclusion (rc_texts cx) r final,
                ra_is_converged = cv_is_converged (rr_status r), ra_iteration_count = n,
                ra_recommendation = cv_recommendation (rr_status r)\<rparr>))"

end
