(* ===== verification/RootCauseFacts.thy ===== *)
theory RootCauseFacts
  imports RootCause "HOL-Library.Multiset"
begin

text \<open>
  What the rule engine of \<open>RootCause\<close> guarantees: the hypotheses share out the evidence, the weights are a
  distribution, and an analysis ends with a conclusion within its limit of rounds.
\<close>

section \<open>Hypotheses\<close>

abbreviation item_ids :: "dated_pack \<Rightarrow> string list" where
  "item_ids pack \<equiv> map ei_item_id (dp_items pack)"

text \<open>The drafts share out items of \<open>ids\<close>: each has one to five of them, and none is used twice.\<close>

definition shares_out :: "string set \<Rightarrow> hypothesis_draft list \<Rightarrow> bool" where
  "shares_out ids hs \<longleftrightarrow>
     distinct (concat (map snd hs)) \<and> (\<forall>h \<in> set hs. set (snd h) \<subseteq> ids \<and> snd h \<noteq> [] \<and> length (snd h) \<le> 5)"

lemma shares_out_Nil [simp]: "shares_out ids []"
  by (simp add: shares_out_def)

lemma shares_out_append:
  assumes "shares_out ids hs" "shares_out (ids - set (concat (map snd hs))) gs"
  shows "shares_out ids (hs @ gs)"
proof -
  define U where "U = set (concat (map snd hs))"
  have "set (snd g) \<inter> U = {}" if "g \<in> set gs" for g using assms(2) that unfolding shares_out_def U_def by blast
  then have "set (concat (map snd gs)) \<inter> U = {}" by fastforce
  with assms show ?thesis unfolding shares_out_def U_def by (simp add: Int_commute) blast
qed

lemma shares_out_Cons:
  assumes "distinct (snd h)" "set (snd h) \<subseteq> ids" "snd h \<noteq> []" "length (snd h) \<le> 5"
    and "shares_out (ids - set (snd h)) hs"
  shows "shares_out ids (h # hs)"
  using shares_out_append[of ids "[h]" hs] assms by (simp add: shares_out_def)

lemma shares_out_mono: "shares_out ids hs \<Longrightarrow> ids \<subseteq> ids' \<Longrightarrow> shares_out ids' hs"
  unfolding shares_out_def by blast

lemma distinct_map_take_filter: "distinct (map f xs) \<Longrightarrow> distinct (map f (take n (filter P xs)))"
  by (simp add: distinct_map_filter take_map [symmetric])

lemma build_hypothesis_Some:
  assumes "build_hypothesis tx t items used = Some h"
  shows "snd h = map ei_item_id (take 5 (filter (\<lambda>i. ei_item_id i \<notin> used) items)) \<and> snd h \<noteq> []"
  using assms by (auto simp: build_hypothesis_def Let_def split: list.splits)

lemma template_drafts_share:
  assumes "distinct (item_ids pack)"
  shows "shares_out (set (item_ids pack) - used) (template_drafts tx pack ts used)"
proof (induction ts arbitrary: used)
  case (Cons t ts)
  show ?case
  proof (cases "build_hypothesis tx t (find_matching_items pack t) used")
    case (Some h)
    note h = build_hypothesis_Some[OF Some]
    have "distinct (map ei_item_id (find_matching_items pack t))"
      using assms by (simp add: find_matching_items_def distinct_map_filter)
    then have "distinct (snd h)" using h by (simp add: distinct_map_take_filter)
    moreover have "set (snd h) \<subseteq> set (item_ids pack) - used"
      using h by (auto simp: find_matching_items_def dest!: in_set_takeD)
    moreover have "length (snd h) \<le> 5" using h by simp
    moreover have "shares_out (set (item_ids pack) - used - set (snd h)) (template_drafts tx pack ts (used \<union> set (snd h)))"
      using Cons.IH[of "used \<union> set (snd h)"] by (simp add: Diff_Un Diff_eq Int_assoc)
    ultimately have "shares_out (set (item_ids pack) - used) (h # template_drafts tx pack ts (used \<union> set (snd h)))"
      using h by (intro shares_out_Cons) blast+
    then show ?thesis using Some by simp
  qed (use Cons.IH in simp)
qed simp

lemma groups_share:
  assumes "distinct (map ei_item_id items)" "distinct ts" "\<And>t. t \<in> set ts \<Longrightarrow> t \<in> ei_type ` set items"
  shows "shares_out (set (map ei_item_id items))
    (map (\<lambda>t. (f t, map ei_item_id (take 5 (filter (\<lambda>i. ei_type i = t) items)))) ts)"
  using assms(2,3)
proof (induction ts)
  case (Cons t ts)
  define g where "g t = map ei_item_id (take 5 (filter (\<lambda>i. ei_type i = t) items))" for t
  have inj: "inj_on ei_item_id (set items)" using assms(1) by (simp add: distinct_map)
  have g: "set (g t') \<subseteq> ei_item_id ` {i \<in> set items. ei_type i = t'}" for t'
    unfolding g_def by (auto dest: in_set_takeD)
  have "set (g t') \<subseteq> set (map ei_item_id items) - set (g t)" if "t' \<in> set ts" for t'
  proof -
    have "t' \<noteq> t" using that Cons.prems(1) by auto
    then have "(ei_item_id ` {i \<in> set items. ei_type i = t'}) \<inter> (ei_item_id ` {i \<in> set items. ei_type i = t}) = {}"
      using inj by (auto simp: inj_on_def)
    then show ?thesis using g[of t] g[of t'] by auto
  qed
  moreover have "shares_out (set (map ei_item_id items)) (map (\<lambda>t. (f t, g t)) ts)"
    unfolding g_def by (rule Cons.IH) (use Cons.prems in auto)
  ultimately have rest: "shares_out (set (map ei_item_id items) - set (g t)) (map (\<lambda>t. (f t, g t)) ts)"
    unfolding shares_out_def by simp
  obtain i where "i \<in> set items" "ei_type i = t" using Cons.prems(2)[of t] by auto
  then have "g t \<noteq> []" by (auto simp: g_def filter_empty_conv)
  moreover have "distinct (g t)" "length (g t) \<le> 5"
    unfolding g_def using distinct_map_take_filter[OF assms(1)] by simp_all
  moreover have "set (g t) \<subseteq> set (map ei_item_id items)" using g[of t] by auto
  ultimately have "shares_out (set (map ei_item_id items)) ((f t, g t) # map (\<lambda>t. (f t, g t)) ts)"
    using rest by (intro shares_out_Cons) simp_all
  then show ?case by (simp add: g_def)
qed simp

lemma type_drafts_share:
  assumes "distinct (item_ids pack)"
  shows "shares_out (set (item_ids pack) - used) (type_drafts tx pack used)"
proof -
  let ?items = "filter (\<lambda>i. ei_item_id i \<notin> used \<and> \<not> is_unconfigured_evidence i) (dp_items pack)"
  let ?ts = "filter (\<lambda>t. 2 \<le> length (filter (\<lambda>i. ei_type i = t) ?items)) (dedupe_acc {} (map ei_type ?items))"
  have d: "type_drafts tx pack used =
      map (\<lambda>t. (tx (Say_same_type (evidence_type_value t)), map ei_item_id (take 5 (filter (\<lambda>i. ei_type i = t) ?items)))) ?ts"
    by (simp add: type_drafts_def type_groups_def filter_map comp_def)
  have "shares_out (set (map ei_item_id ?items)) (type_drafts tx pack used)"
    unfolding d by (rule groups_share) (use assms in \<open>auto simp: distinct_map_filter distinct_dedupe_acc set_dedupe_acc\<close>)
  then show ?thesis by (rule shares_out_mono) auto
qed

lemma all_drafts_share:
  assumes "distinct (item_ids pack)" "dp_items pack \<noteq> []"
  shows "shares_out (set (item_ids pack)) (all_drafts tx pack) \<and> all_drafts tx pack \<noteq> []"
proof -
  let ?hs = "template_drafts tx pack default_templates {}"
  have "shares_out (set (item_ids pack)) (?hs @ type_drafts tx pack (set (concat (map snd ?hs))))"
    by (rule shares_out_append)
       (use template_drafts_share[OF assms(1), of "{}"] type_drafts_share[OF assms(1)] in simp_all)
  moreover have "shares_out (set (item_ids pack)) [catch_all_draft tx pack]"
    using assms by (auto simp: shares_out_def catch_all_draft_def take_map[symmetric] dest: in_set_takeD)
  ultimately show ?thesis by (simp add: all_drafts_def Let_def)
qed

lemma distinct_concat_mset:
  assumes "mset xss = mset yss" shows "distinct (concat xss) \<longleftrightarrow> distinct (concat yss)"
proof -
  have "mset (concat xss) = mset (concat yss)"
    using assms by (metis mset_concat mset_map sum_mset_sum_list)
  then show ?thesis by (rule mset_eq_imp_distinct_iff)
qed

lemma sort_key_desc_mset: "mset (sort_key_desc f xs) = mset xs"
  by (simp add: sort_key_desc_def)

lemma concat_take_distinct: "distinct (concat xss) \<Longrightarrow> distinct (concat (take n xss))"
  by (metis append_take_drop_id concat_append distinct_append)

lemma name_draft_ids: "map (\<lambda>d. hy_evidence_item_ids (name_draft fresh d)) (enumerate n ds) = map snd ds"
  by (rule nth_equalityI) (auto simp: name_draft_def nth_enumerate_eq split: prod.splits)

lemma sorted_drafts:
  "map hy_evidence_item_ids (map (name_draft fresh) (enumerate n ds)) = map snd ds"
  using name_draft_ids[of fresh n] by (simp add: comp_def)

lemma generate_take:
  "dp_items pack \<noteq> [] \<Longrightarrow> generate tx fresh pack =
     take 5 (sort_key_desc (\<lambda>h. length (hy_evidence_item_ids h)) (map (name_draft fresh) (enumerate 0 (all_drafts tx pack))))"
  by (simp add: generate_def)

lemma generate_distinct:
  assumes "distinct (item_ids pack)" "dp_items pack \<noteq> []"
  shows "distinct (concat (map hy_evidence_item_ids (generate tx fresh pack)))"
proof -
  let ?named = "map (name_draft fresh) (enumerate 0 (all_drafts tx pack))"
  let ?sorted = "sort_key_desc (\<lambda>h. length (hy_evidence_item_ids h)) ?named"
  have m: "mset (map hy_evidence_item_ids ?sorted) = mset (map hy_evidence_item_ids ?named)"
    by (simp only: mset_map sort_key_desc_mset)
  have "distinct (concat (map hy_evidence_item_ids ?sorted))"
    using distinct_concat_mset[OF m] all_drafts_share[OF assms, of tx] unfolding sorted_drafts shares_out_def by blast
  then show ?thesis unfolding generate_take[OF assms(2)] take_map[symmetric] by (rule concat_take_distinct)
qed

lemma generate_drafted:
  assumes "h \<in> set (generate tx fresh pack)" "dp_items pack \<noteq> []"
  shows "\<exists>d \<in> set (all_drafts tx pack). hy_evidence_item_ids h = snd d"
proof -
  have "h \<in> set (map (name_draft fresh) (enumerate 0 (all_drafts tx pack)))"
    using assms(1) unfolding generate_take[OF assms(2)] by (metis in_set_takeD set_sort_key_desc)
  then have "hy_evidence_item_ids h
      \<in> set (map hy_evidence_item_ids (map (name_draft fresh) (enumerate 0 (all_drafts tx pack))))" by (metis image_eqI set_map)
  then show ?thesis unfolding sorted_drafts by auto
qed

lemma generate_nonempty: "generate tx fresh pack \<noteq> []"
proof (cases "dp_items pack = []")
  case False
  have "all_drafts tx pack \<noteq> []" by (simp add: all_drafts_def Let_def)
  then have "length (generate tx fresh pack) \<noteq> 0" unfolding generate_take[OF False] by simp
  then show ?thesis by simp
qed (simp add: generate_def)

text \<open>
  C23: The hypotheses of a pack share out its evidence: there are one to five, each rests on one to five items
  of the pack, no item supports two of them, and those with more items come first.
\<close>
theorem hypotheses_share_evidence:
  assumes "distinct (item_ids pack)" and "dp_items pack \<noteq> []" and "hs = generate tx fresh pack"
  shows "1 \<le> length hs \<and> length hs \<le> 5 \<and> distinct (concat (map hy_evidence_item_ids hs))
    \<and> (\<forall>h \<in> set hs. hy_evidence_item_ids h \<noteq> [] \<and> length (hy_evidence_item_ids h) \<le> 5
          \<and> set (hy_evidence_item_ids h) \<subseteq> set (item_ids pack))
    \<and> sorted_wrt (\<ge>) (map (\<lambda>h. length (hy_evidence_item_ids h)) hs)"
proof (intro conjI ballI)
  show "1 \<le> length hs" using generate_nonempty[of tx fresh pack] assms(3) by (simp add: Suc_le_eq)
  show "length hs \<le> 5" using assms(2,3) by (simp add: generate_def)
  show "distinct (concat (map hy_evidence_item_ids hs))" using generate_distinct[OF assms(1,2)] assms(3) by simp
  show "sorted_wrt (\<ge>) (map (\<lambda>h. length (hy_evidence_item_ids h)) hs)"
    unfolding assms(3) generate_take[OF assms(2)] take_map[symmetric] by (rule sorted_wrt_take[OF sorted_sort_key_desc])
next
  fix h assume "h \<in> set hs"
  then obtain d where "d \<in> set (all_drafts tx pack)" "hy_evidence_item_ids h = snd d"
    using generate_drafted assms(2,3) by blast
  then show "hy_evidence_item_ids h \<noteq> []" "length (hy_evidence_item_ids h) \<le> 5"
    "set (hy_evidence_item_ids h) \<subseteq> set (item_ids pack)"
    using all_drafts_share[OF assms(1,2), of tx] unfolding shares_out_def by auto
qed

section \<open>Weights and confidence\<close>

lemma recency_bounds: "1 / 2 \<le> recency_weight i pack \<and> recency_weight i pack \<le> 1"
proof -
  have "1 / 2 \<le> 1 / 2 + 1 / 2 * max 0 (min 1 x) \<and> 1 / 2 + 1 / 2 * max 0 (min 1 x) \<le> (1 :: rat)" for x
    by (simp add: max_def min_def)
  moreover have "recency_weight i pack = 1 \<or> (\<exists>x. recency_weight i pack = 1 / 2 + 1 / 2 * max 0 (min 1 x))"
    unfolding recency_weight_def Let_def by (simp only: split: if_split) blast
  ultimately show ?thesis by fastforce
qed

lemma raw_weight_pos: "0 < raw_weight pack i"
  using recency_bounds[of i pack] by (auto simp: raw_weight_def type_weight_def split: evidence_type.splits)

lemma raw_total: "0 \<le> (\<Sum>i \<leftarrow> xs. raw_weight pack i) \<and> (xs \<noteq> [] \<longrightarrow> 0 < (\<Sum>i \<leftarrow> xs. raw_weight pack i))"
  by (induction xs) (auto simp: raw_weight_pos add_pos_nonneg intro: less_imp_le)

lemma sum_list_divide: "(\<Sum>i \<leftarrow> xs. f i / c) = (\<Sum>i \<leftarrow> xs. f i) / (c :: rat)"
  by (induction xs) (simp_all add: add_divide_distrib)

lemma weigh_items [simp]: "map we_item (weigh pack) = dp_items pack"
  by (simp add: weigh_def Let_def comp_def)

lemma weigh_pos: "w \<in> set (weigh pack) \<Longrightarrow> 0 < we_weight w"
  by (auto simp: weigh_def Let_def raw_weight_pos)

lemma weigh_sum: "dp_items pack \<noteq> [] \<Longrightarrow> (\<Sum>w \<leftarrow> weigh pack. we_weight w) = 1"
  using raw_total[of pack "dp_items pack"] by (simp add: weigh_def Let_def comp_def sum_list_divide)

text \<open>What distinct keys select of a dictionary is at most its whole sum.\<close>

lemma selected_sum_le:
  fixes d :: "('k \<times> rat) list"
  assumes "distinct ks" "distinct (dkeys d)" "\<And>x. x \<in> set (dvals d) \<Longrightarrow> 0 \<le> x"
  shows "0 \<le> (\<Sum>k \<leftarrow> ks. case dget d k of None \<Rightarrow> 0 | Some x \<Rightarrow> x)
    \<and> (\<Sum>k \<leftarrow> ks. case dget d k of None \<Rightarrow> 0 | Some x \<Rightarrow> x) \<le> sum_list (dvals d)"
proof -
  let ?f = "\<lambda>k. case dget d k of None \<Rightarrow> 0 | Some x \<Rightarrow> x"
  have f: "0 \<le> ?f k" for k
  proof (cases "dget d k")
    case (Some x)
    then have "x \<in> set (dvals d)" using dvals_iff[OF assms(2)] by blast
    then show ?thesis using assms(3) Some by simp
  qed simp
  have "?f (fst p) = snd p" if "p \<in> set d" for p
    using dget_in_set[OF assms(2), of "fst p" "snd p"] that by simp
  then have "map ?f (dkeys d) = dvals d" by simp
  then have "sum_list (dvals d) = (\<Sum>k \<leftarrow> dkeys d. ?f k)" by (simp only:)
  also have "\<dots> = (\<Sum>k \<in> set (dkeys d). ?f k)" using assms(2) by (rule sum_list_distinct_conv_sum_set)
  also have "\<dots> = (\<Sum>k \<in> set (dkeys d) \<union> set ks. ?f k)"
    by (rule sum.mono_neutral_left) (auto simp: dget_None_iff [symmetric])
  also have "(\<Sum>k \<in> set ks. ?f k) \<le> \<dots>" by (rule sum_mono2) (use f in auto)
  finally show ?thesis using assms(1) f by (simp add: sum_list_distinct_conv_sum_set sum_nonneg)
qed

lemma aggregate_bounds:
  assumes "distinct ids" "distinct (item_ids pack)" "dp_items pack \<noteq> []"
  shows "0 \<le> aggregate_weight ids (weigh pack) \<and> aggregate_weight ids (weigh pack) \<le> 1"
proof -
  let ?d = "map (\<lambda>w. (ei_item_id (we_item w), we_weight w)) (weigh pack)"
  have "dkeys ?d = map ei_item_id (map we_item (weigh pack))" by (simp del: weigh_items)
  then have "dkeys ?d = item_ids pack" by (simp only: weigh_items)
  then have d: "distinct (dkeys ?d)" using assms(2) by (simp only:)
  have "aggregate_weight ids (weigh pack) = (\<Sum>k \<leftarrow> ids. case dget ?d k of None \<Rightarrow> 0 | Some x \<Rightarrow> x)"
    by (simp add: aggregate_weight_def dget_dict_of_distinct[OF d])
  moreover have "sum_list (dvals ?d) = 1" using weigh_sum[OF assms(3)] by (simp add: comp_def)
  ultimately show ?thesis
    using selected_sum_le[OF assms(1) d] weigh_pos by (fastforce intro: less_imp_le)
qed

lemma confidence_bounds: "0 \<le> confidence_of s c \<and> confidence_of s c \<le> 9 / 10"
proof -
  have "max 0 (min 1 (min (9 / 10) x - y)) \<le> (9 / 10 :: rat)" if "0 \<le> y" for x y
    using that by (simp add: max_def min_def)
  then show ?thesis by (simp add: confidence_of_def del: max.bounded_iff)
qed

lemma weighing_bounds:
  assumes "0 \<le> w" "w \<le> 1" "0 \<le> v" "v \<le> (9 / 10 :: rat)"
  shows "0 \<le> min (95 / 100) (v * (75 / 100 + 25 / 100 * w)) \<and> min (95 / 100) (v * (75 / 100 + 25 / 100 * w)) \<le> v"
proof -
  have "v * (75 / 100 + 25 / 100 * w) \<le> v * 1" using assms by (intro mult_left_mono) simp_all
  moreover have "0 \<le> v * (75 / 100 + 25 / 100 * w)" using assms by (intro mult_nonneg_nonneg) simp_all
  ultimately show ?thesis by (simp add: min_def)
qed

lemma validate_all_set:
  "v \<in> set (validate_all tx hs pack) \<longleftrightarrow> (\<exists>h \<in> set hs. v = validate_hypothesis tx pack h)"
  by (auto simp: validate_all_def)

lemma validation_confidence: "v \<in> set (validate_all tx hs pack) \<Longrightarrow> 0 \<le> vr_confidence v \<and> vr_confidence v \<le> 9 / 10"
  using confidence_bounds by (auto simp: validate_all_set validate_hypothesis_def Let_def)

lemma generate_length: "length (generate tx fresh pack) \<le> 5"
  by (simp add: generate_def)

lemma find_in_set: "List.find P xs = Some x \<Longrightarrow> x \<in> set xs"
  by (metis find_Some_iff nth_mem)

lemma top_hypothesis_in: "top_hypothesis hs vs = Some h \<Longrightarrow> h \<in> set hs"
  by (auto simp: top_hypothesis_def Let_def dest!: find_in_set split: list.split_asm option.split_asm if_split_asm)

lemma top_hypothesis_exists: "hs \<noteq> [] \<Longrightarrow> top_hypothesis hs vs \<noteq> None"
  by (auto simp: top_hypothesis_def Let_def split: list.splits option.splits)

lemma focus_pack_items:
  "set (dp_items (focus_pack st pack ws n)) \<subseteq> set (dp_items pack)"
  "distinct (item_ids pack) \<Longrightarrow> distinct (item_ids (focus_pack st pack ws n))"
  "dp_items pack \<noteq> [] \<Longrightarrow> dp_items (focus_pack st pack ws n) \<noteq> []"
  by (auto simp: focus_pack_def Let_def distinct_map_filter)

text \<open>A round: what its hypotheses rest on, and what its validations say.\<close>

lemma round_hypotheses:
  assumes "distinct (item_ids pack)" "dp_items pack \<noteq> []" "h \<in> set (rr_hypotheses (run_round cx mx n prior pack))"
  shows "distinct (hy_evidence_item_ids h)"
proof -
  let ?p = "if 1 < n \<and> prior \<noteq> [] then focus_pack (rc_settings cx) pack prior n else pack"
  have h: "h \<in> set (generate (rc_texts cx) (rc_fresh_hypothesis cx n) ?p)"
    using assms(3) by (simp add: run_round_def Let_def)
  have "distinct (item_ids ?p)" "dp_items ?p \<noteq> []" using focus_pack_items assms(1,2) by auto
  then have "distinct (concat (map hy_evidence_item_ids (generate (rc_texts cx) (rc_fresh_hypothesis cx n) ?p)))"
    by (rule generate_distinct)
  then show ?thesis using h by (auto simp: distinct_concat_iff)
qed

text \<open>
  C24: The weights of a pack are positive and sum to one; and weighing the best hypothesis never raises its
  confidence, which stays between 0 and 0.9: the boost and its cap of 0.95 have no effect.
\<close>
theorem weighing_never_boosts:
  assumes "distinct (item_ids pack)" and "dp_items pack \<noteq> []" and "r = run_round cx mx n prior pack"
  shows "(\<forall>w \<in> set (rr_weights r). 0 < we_weight w) \<and> (\<Sum>w \<leftarrow> rr_weights r. we_weight w) = 1
    \<and> 0 \<le> rc_confidence (build_conclusion (rc_texts cx) r pack)
    \<and> rc_confidence (build_conclusion (rc_texts cx) r pack) \<le> vr_confidence (hd (rr_validations r))
    \<and> vr_confidence (hd (rr_validations r)) \<le> 9 / 10"
proof -
  have w: "rr_weights r = weigh pack" using assms(3) by (simp add: run_round_def Let_def)
  have hs: "rr_hypotheses r \<noteq> []"
    and vs: "rr_validations r = validate_all (rc_texts cx) (rr_hypotheses r) pack"
    using assms(3) generate_nonempty by (simp_all add: run_round_def Let_def)
  obtain h where h: "top_hypothesis (rr_hypotheses r) (rr_validations r) = Some h"
    using top_hypothesis_exists[OF hs] by blast
  obtain v rest where v: "rr_validations r = v # rest"
    using hs vs by (metis length_sort_key_desc length_map length_0_conv list.exhaust validate_all_def)
  have vb: "0 \<le> vr_confidence v \<and> vr_confidence v \<le> 9 / 10" using validation_confidence v vs by (metis list.set_intros(1))
  have "distinct (hy_evidence_item_ids h)"
    using round_hypotheses[OF assms(1,2)] top_hypothesis_in[OF h] unfolding assms(3) by blast
  then have "0 \<le> conclusion_confidence h (rr_validations r) (weigh pack)
      \<and> conclusion_confidence h (rr_validations r) (weigh pack) \<le> vr_confidence v"
    using weighing_bounds[OF _ _ conjunct1[OF vb] conjunct2[OF vb]] aggregate_bounds[OF _ assms(1,2)] vb
    by (auto simp: conclusion_confidence_def v Let_def)
  moreover have "rc_confidence (build_conclusion (rc_texts cx) r pack) = conclusion_confidence h (rr_validations r) (weigh pack)"
    using h by (simp add: build_conclusion_def w)
  ultimately show ?thesis using weigh_pos weigh_sum[OF assms(2)] vb w v by simp
qed

section \<open>Rounds\<close>

lemma run_round_status:
  "rr_status (run_round cx mx n prior pack) =
     check_convergence (rc_settings cx) (rc_texts cx) mx (rr_validations (run_round cx mx n prior pack)) pack n"
  by (simp add: run_round_def Let_def)

lemma run_rounds_end:
  assumes "run_rounds cx ex mx k n prior pack s = (Inr (r, m, final), s')"
  shows "n \<le> m \<and> m \<le> n + k \<and> (\<exists>prior'. r = run_round cx mx m prior' final)
    \<and> (cv_is_converged (rr_status r) \<or> m = n + k)"
  using assms
proof (induction k arbitrary: n prior pack s)
  case (Suc k)
  let ?r = "run_round cx mx n prior pack"
  show ?case
  proof (cases "cv_is_converged (rr_status ?r)")
    case True
    then show ?thesis using Suc.prems by (auto simp: Let_def give_def)
  next
    case False
    then obtain more s1 where "run_rounds cx ex mx k (Suc n) (rr_weights ?r) more s1 = (Inr (r, m, final), s')"
      using Suc.prems by (auto simp: Let_def seq_Inr_iff)
    then show ?thesis using Suc.IH by force
  qed
qed (auto simp: give_def)

lemma converged_texts:
  assumes "rr_status r = check_convergence st tx mx vs pack n"
  shows "cv_is_converged (rr_status r) \<Longrightarrow> cv_recommendation (rr_status r) = tx Say_converged"
    and "mx \<le> n \<Longrightarrow> cv_is_converged (rr_status r)"
  using assms by (auto simp: check_convergence_def build_recommendation_def Let_def)

lemma strip_or_initial: "(if a \<noteq> [] then take 100 a else if b \<noteq> [] then take 100 b else c) \<noteq> [] \<longleftrightarrow> a \<noteq> [] \<or> b \<noteq> [] \<or> c \<noteq> []"
  by auto

lemma conclusion_valid:
  assumes "\<forall>x. tx x \<noteq> []" and "rr_hypotheses r \<noteq> []" and "rr_validations r = validate_all tx (rr_hypotheses r) pack"
  shows "valid_root_cause_conclusion (build_conclusion tx r final)
    \<and> rc_confidence (build_conclusion tx r final) \<le> 95 / 100"
proof -
  obtain h where h: "top_hypothesis (rr_hypotheses r) (rr_validations r) = Some h"
    using top_hypothesis_exists[OF assms(2)] by blast
  obtain v rest where v: "rr_validations r = v # rest"
    using assms(2,3) by (metis length_sort_key_desc length_map length_0_conv list.exhaust validate_all_def)
  have vb: "0 \<le> vr_confidence v \<and> vr_confidence v \<le> 9 / 10"
    using validation_confidence v assms(3) by (metis list.set_intros(1))
  let ?w = "aggregate_weight (hy_evidence_item_ids h) (rr_weights r)"
  have "0 \<le> min (95 / 100) (vr_confidence v * (75 / 100 + 25 / 100 * ?w))" if "0 < ?w"
    using vb that by simp
  then have "0 \<le> conclusion_confidence h (rr_validations r) (rr_weights r)
      \<and> conclusion_confidence h (rr_validations r) (rr_weights r) \<le> 95 / 100"
    using vb by (auto simp: conclusion_confidence_def v Let_def)
  moreover have "conclusion_title tx final h \<noteq> []"
    using assms(1) by (simp add: conclusion_title_def Let_def strip_or_initial)
  ultimately show ?thesis using h by (auto simp: build_conclusion_def valid_root_cause_conclusion_def)
qed

text \<open>Whatever fetches evidence between the rounds, an analysis that ends has converged.\<close>

lemma analyze_Inr:
  assumes "analyze cx ex mx pack s = (Inr a, s')" "dp_items pack \<noteq> []"
  obtains r m final prior where "r = run_round cx (nat (max 1 mx)) m prior final" "1 \<le> m" "m \<le> nat (max 1 mx)"
    "cv_is_converged (rr_status r)" "ra_is_converged a" "ra_iteration_count a = m" "ra_hypotheses a = rr_hypotheses r"
    "ra_recommendation a = cv_recommendation (rr_status r)" "ra_conclusion a = build_conclusion (rc_texts cx) r final"
proof -
  let ?l = "nat (max 1 mx)"
  obtain r m final where rounds: "run_rounds cx ex ?l (?l - 1) 1 [] pack s = (Inr (r, m, final), s')"
    and a: "a = \<lparr>ra_hypotheses = rr_hypotheses r, ra_conclusion = build_conclusion (rc_texts cx) r final,
      ra_is_converged = cv_is_converged (rr_status r), ra_iteration_count = m,
      ra_recommendation = cv_recommendation (rr_status r)\<rparr>"
    using assms by (auto simp: analyze_def Let_def seq_Inr_iff give_def)
  have l: "1 \<le> ?l" by simp
  obtain prior where r: "r = run_round cx ?l m prior final" and m: "1 \<le> m" "m \<le> ?l"
    and c: "cv_is_converged (rr_status r) \<or> m = ?l"
    using run_rounds_end[OF rounds] l by force
  have "cv_is_converged (rr_status r)"
    using c converged_texts(2)[OF run_round_status[of cx ?l m prior final]] unfolding r by auto
  then show ?thesis using that r m a by simp
qed

text \<open>
  Every analysis of a pack that is not empty says it has converged and can conclude, also when it has only
  run out of rounds with little confidence: reaching the limit counts as convergence, so the sentence about
  a forced end is never said, and no narrative contains a recommendation.
\<close>
theorem every_analysis_converges:
  assumes "analyze cx ex mx pack s = (Inr a, s')" and "dp_items pack \<noteq> []"
  shows "ra_is_converged a \<and> ra_recommendation a = rc_texts cx Say_converged"
proof (rule analyze_Inr[OF assms])
  fix r m final prior
  assume "r = run_round cx (nat (max 1 mx)) m prior final" "cv_is_converged (rr_status r)"
    "ra_is_converged a" "ra_recommendation a = cv_recommendation (rr_status r)"
  then show ?thesis using converged_texts(1)[OF run_round_status] by metis
qed

lemma rounds_alone_answer:
  "\<exists>x. run_rounds cx None mx k n prior pack s = (Inr x, s)"
proof (induction k arbitrary: n prior pack)
  case (Suc k)
  then show ?case by (simp add: Let_def seq_def give_def)
qed (simp add: give_def)

text \<open>
  An analysis on its own answers: after at most the configured number of rounds, and at least one, it has
  one to five hypotheses and a conclusion with a title and a confidence of at most 0.95.
\<close>
theorem analysis_concludes:
  assumes "dp_items pack \<noteq> []" and "\<forall>x. rc_texts cx x \<noteq> []"
  shows "\<exists>a. analyze cx None mx pack s = (Inr a, s)
    \<and> 1 \<le> ra_iteration_count a \<and> ra_iteration_count a \<le> nat (max 1 mx)
    \<and> 1 \<le> length (ra_hypotheses a) \<and> length (ra_hypotheses a) \<le> 5
    \<and> valid_root_cause_conclusion (ra_conclusion a) \<and> rc_confidence (ra_conclusion a) \<le> 95 / 100"
proof -
  obtain a where a: "analyze cx None mx pack s = (Inr a, s)"
    using rounds_alone_answer[of cx "nat (max 1 mx)" "nat (max 1 mx) - 1" 1 "[]" pack s] assms(1)
    by (auto simp: analyze_def Let_def seq_def give_def)
  then show ?thesis
  proof (rule analyze_Inr[OF _ assms(1)])
    fix r m final prior
    assume r: "r = run_round cx (nat (max 1 mx)) m prior final" and m: "1 \<le> m" "m \<le> nat (max 1 mx)"
      and res: "ra_iteration_count a = m" "ra_hypotheses a = rr_hypotheses r"
        "ra_conclusion a = build_conclusion (rc_texts cx) r final"
    have hs: "rr_hypotheses r \<noteq> []" "length (rr_hypotheses r) \<le> 5"
      and vs: "rr_validations r = validate_all (rc_texts cx) (rr_hypotheses r) final"
      unfolding r using generate_nonempty generate_length by (simp_all add: run_round_def Let_def)
    then show ?thesis using a m res conclusion_valid[OF assms(2) hs(1) vs] by (auto simp: Suc_le_eq)
  qed
qed

text \<open>
  An item that a round has derived counts as evidence in the next: where one item was collected, the third
  round finds evidence enough.
\<close>

definition no_later_rounds :: "nat \<Rightarrow> dated_pack \<Rightarrow> bool" where
  "no_later_rounds n pack \<longleftrightarrow>
     (\<forall>i \<in> set (dp_items pack). ei_source i = ''root_cause_iteration'' \<longrightarrow>
        (\<exists>j<n. py_get (ei_content i) ''iteration'' = PInt (int j)))"

lemma synthesize_adds:
  assumes "no_later_rounds n pack" "ws \<noteq> []"
  obtains i where "dp_items (synthesize_evidence cx pack ws vs n) = dp_items pack @ [i]"
    "ei_source i = ''root_cause_iteration''" "no_later_rounds (Suc n) (synthesize_evidence cx pack ws vs n)"
proof -
  have "rank_weights ws \<noteq> []"
    using assms(2) length_sort_key_desc[of we_weight ws] unfolding rank_weights_def by (metis length_0_conv)
  then obtain best rest where b: "rank_weights ws = best # rest" by (cases "rank_weights ws") auto
  have fresh: "\<not> (\<exists>i \<in> set (dp_items pack). ei_source i = ''root_cause_iteration''
      \<and> equals_round (py_get (ei_content i) ''iteration'') n)"
    using assms(1) by (fastforce simp: no_later_rounds_def equals_round_def)
  let ?i = "derived_item cx best (case vs of [] \<Rightarrow> [] | v # _ \<Rightarrow> vr_hypothesis_id v) n"
  have s: "synthesize_evidence cx pack ws vs n = pack\<lparr>dp_items := dp_items pack @ [?i]\<rparr>"
    unfolding synthesize_evidence_def b using fresh by simp
  moreover have "ei_source ?i = ''root_cause_iteration''" "py_get (ei_content ?i) ''iteration'' = PInt (int n)"
    by (simp_all add: derived_item_def py_get_or_def)
  moreover from this assms(1) have "no_later_rounds (Suc n) (synthesize_evidence cx pack ws vs n)"
    unfolding s no_later_rounds_def by (auto intro: less_SucI)
  ultimately show ?thesis using that[of ?i] by simp
qed

lemma weigh_nonempty: "dp_items pack \<noteq> [] \<Longrightarrow> rr_weights (run_round cx mx n prior pack) \<noteq> []"
  by (simp add: run_round_def weigh_def Let_def)

theorem derived_items_count_as_evidence:
  assumes "no_later_rounds n pack" and "dp_items pack \<noteq> []"
    and "run_rounds cx None mx k n prior pack s = (Inr (r, m, final), s')"
  shows "\<exists>ds. dp_items final = dp_items pack @ ds \<and> length ds = m - n
    \<and> (\<forall>d \<in> set ds. ei_source d = ''root_cause_iteration'')
    \<and> (cv_sufficient_evidence (rr_status r)
        \<longleftrightarrow> rx_min_evidence_count (rc_settings cx) \<le> int (length (dp_items pack) + (m - n)))"
  using assms
proof (induction k arbitrary: n prior pack s)
  case 0
  then show ?case by (auto simp: give_def run_round_status check_convergence_def Let_def)
next
  case (Suc k)
  let ?r = "run_round cx mx n prior pack"
  show ?case
  proof (cases "cv_is_converged (rr_status ?r)")
    case True
    then show ?thesis using Suc.prems(3) by (auto simp: Let_def give_def run_round_status check_convergence_def)
  next
    case False
    let ?more = "synthesize_evidence cx pack (rr_weights ?r) (rr_validations ?r) n"
    have rec: "run_rounds cx None mx k (Suc n) (rr_weights ?r) ?more s = (Inr (r, m, final), s')"
      using Suc.prems(3) False by (simp add: Let_def seq_def give_def)
    obtain i where i: "dp_items ?more = dp_items pack @ [i]" "ei_source i = ''root_cause_iteration''"
      "no_later_rounds (Suc n) ?more"
      by (rule synthesize_adds[OF Suc.prems(1) weigh_nonempty[OF Suc.prems(2)]])
    obtain ds where "dp_items final = dp_items ?more @ ds" "length ds = m - Suc n"
      "\<forall>d \<in> set ds. ei_source d = ''root_cause_iteration''"
      "cv_sufficient_evidence (rr_status r)
        \<longleftrightarrow> rx_min_evidence_count (rc_settings cx) \<le> int (length (dp_items ?more) + (m - Suc n))"
      using Suc.IH[OF i(3) _ rec] i(1) by auto
    moreover have "Suc n \<le> m" using run_rounds_end[OF rec] by simp
    ultimately show ?thesis using i by (intro exI[of _ "i # ds"]) auto
  qed
qed

section \<open>A concrete analysis\<close>

text \<open>Sentences in English, and a pack of three items.\<close>

fun demo_sentence :: rca_texts where
  "demo_sentence (Say_label Hyp_LOG_ERROR) = ''Error in the log''"
| "demo_sentence (Say_label Hyp_CODE_DEFECT) = ''Defect''"
| "demo_sentence (Say_label _) = ''Other''"
| "demo_sentence (Say_source s) = ''Caused by '' @ s"
| "demo_sentence Say_converged = ''converged''"
| "demo_sentence Say_limit_reached = ''limit reached''"
| "demo_sentence _ = ''-''"

definition demo_rca :: rca_ctx where
  "demo_rca =
     \<lparr>rc_settings = default_rca_settings, rc_texts = demo_sentence,
      rc_fresh_hypothesis = (\<lambda>n k. ''hyp-'' @ nat_str n @ ''-'' @ nat_str k), rc_fresh_item = (\<lambda>n. ''ev-derived-'' @ nat_str n),
      rc_round_time = int\<rparr>"

definition demo_evidence :: "string \<Rightarrow> evidence_type \<Rightarrow> string \<Rightarrow> int \<Rightarrow> dated_evidence" where
  "demo_evidence i t s time =
     \<lparr>ei_item_id = i, ei_type = t, ei_source = ''sls'', ei_content = [(''summary'', PStr s)], de_collected_at = time\<rparr>"

definition demo_pack :: dated_pack where
  "demo_pack =
     \<lparr>dp_case_id = ''c'', dp_summary = [],
      dp_items = [demo_evidence ''a'' Ev_LOG ''Timeout'' 0, demo_evidence ''b'' Ev_CODE ''null'' 5,
                  demo_evidence ''c'' Ev_LOG ''quiet'' 9]\<rparr>"

definition thin_pack :: dated_pack where
  "thin_pack = \<lparr>dp_case_id = ''c'', dp_summary = [], dp_items = [demo_evidence ''a'' Ev_METRIC ''flat'' 0]\<rparr>"

lemma demo_pack_items: "distinct (item_ids demo_pack)" "dp_items demo_pack \<noteq> []" "dp_items thin_pack \<noteq> []"
  by (simp_all add: demo_pack_def thin_pack_def demo_evidence_def)

lemma demo_sentence_nonempty: "demo_sentence x \<noteq> []"
  by (cases x rule: demo_sentence.cases) simp_all

lemma demo_hypotheses:
  "map (\<lambda>h. (hy_statement h, hy_evidence_item_ids h)) (generate demo_sentence nat_str demo_pack)
     = [(''Error in the log: Timeout'', [''a'']), (''Defect: null'', [''b''])]"
  by code_simp

theorem hypotheses_share_evidence_witness:
  "distinct (concat (map hy_evidence_item_ids (generate demo_sentence nat_str demo_pack)))
   \<and> map hy_statement (generate demo_sentence nat_str demo_pack) = [''Error in the log: Timeout'', ''Defect: null'']"
  using hypotheses_share_evidence[OF demo_pack_items(1,2) refl, of demo_sentence nat_str]
    arg_cong[OF demo_hypotheses, of "map fst"] by (simp add: comp_def)

theorem weighing_never_boosts_witness:
  "(\<Sum>w \<leftarrow> rr_weights (run_round demo_rca 3 1 [] demo_pack). we_weight w) = 1
   \<and> rc_confidence (build_conclusion (rc_texts demo_rca) (run_round demo_rca 3 1 [] demo_pack) demo_pack)
       \<le> vr_confidence (hd (rr_validations (run_round demo_rca 3 1 [] demo_pack)))"
  using weighing_never_boosts[OF demo_pack_items(1,2) refl, of demo_rca 3 1 "[]"] by blast

theorem analysis_concludes_witness:
  "\<exists>a. analyze demo_rca None 2 thin_pack () = (Inr a, ()) \<and> ra_iteration_count a \<le> 2
     \<and> valid_root_cause_conclusion (ra_conclusion a)"
  using analysis_concludes[OF demo_pack_items(3), of demo_rca 2 "()"] by (auto simp: demo_rca_def demo_sentence_nonempty)

text \<open>
  The analysis of a single item without a word of trouble: one round gives the confidence 0.45; of three
  rounds, the last two add no evidence but the items the engine derives itself, and give 0.54.
\<close>

definition analysis_outcome :: "int \<Rightarrow> dated_pack \<Rightarrow> (bool \<times> nat \<times> rat \<times> string) res" where
  "analysis_outcome mx pack =
     map_sum id (\<lambda>a. (ra_is_converged a, ra_iteration_count a, rc_confidence (ra_conclusion a), ra_recommendation a))
       (fst (analyze demo_rca None mx pack ()))"

lemma rounds_raise_confidence:
  "analysis_outcome 1 thin_pack = Inr (True, 1, 45 / 100, ''converged'')"
  "analysis_outcome 3 thin_pack = Inr (True, 3, 169 / 310, ''converged'')"
  by code_simp+

end
