(* ===== verification/StackTrace.thy ===== *)
theory StackTrace
  imports LogText SkillSystem
begin

text \<open>
  Reading a Java stack trace (\<open>analysis/call_chain.py\<close>) and the line that sums up a problem
  (\<open>analysis/problem_summary.py\<close>). A regular expression is the function that finds its matches; the
  sentences of the summary, which are Chinese, are an argument.
\<close>

section \<open>Frames (call_chain.py)\<close>

definition framework_prefixes :: "string list" where
  "framework_prefixes =
     [''org.springframework.'', ''org.apache.catalina.'', ''org.apache.coyote.'', ''org.apache.tomcat.'',
      ''javax.servlet.'', ''java.lang.'', ''sun.reflect.'', ''com.sun.proxy.'', ''org.mybatis.'',
      ''org.apache.ibatis.'', ''org.apache.skywalking.'', ''jdk.internal.'', ''java.util.concurrent.'',
      ''java.util.Base64'', ''java.lang.Thread.'', ''com.mysql.cj.'', ''com.zaxxer.hikari.'',
      ''com.github.pagehelper.'', ''net.coolcollege.platform.'', ''net.coolcollege.starter.'']"

definition framework_markers :: "string list" where
  "framework_markers =
     [''CGLIB'', ''FastClassBySpringCGLIB'', ''$$Enhancer'', ''MethodProxy'', ''DelegatingMethodAccessorImpl'',
      ''NativeMethodAccessorImpl'', ''GeneratedMethodAccessor'', ''InstMethodsInter'', ''auxiliary$'', ''original$'',
      ''accessor$'', ''ProxyPreparedStatement'', ''HikariProxy'']"

text \<open>The part after the last \<open>c\<close>, and the part before the first one.\<close>

definition after_last :: "char \<Rightarrow> string \<Rightarrow> string" where
  "after_last c s = last (split_on c s)"

definition before_first :: "char \<Rightarrow> string \<Rightarrow> string" where
  "before_first c s = takeWhile (\<lambda>x. x \<noteq> c) s"

definition is_framework_frame :: "string \<Rightarrow> string \<Rightarrow> bool" where
  "is_framework_frame qualified method \<longleftrightarrow>
     (let target = qualified @ ''.'' @ method in
      list_ex (starts_with target) framework_prefixes
      \<or> method = ''doFilter'' \<and> ends_with (after_last CHR ''.'' qualified) ''Filter''
      \<or> list_ex (\<lambda>m. occurs_in m target) framework_markers)"

text \<open>
  \<open>_JAVA_FRAME_RE\<close> on a line: \<open>at\<close>, a qualified name with its method after the last point, a location in
  parentheses, and white space around it.
\<close>

definition qualified_char :: "char \<Rightarrow> bool" where
  "qualified_char c \<longleftrightarrow> word_char c \<or> c = CHR ''.'' \<or> c = CHR ''$''"

definition method_char :: "char \<Rightarrow> bool" where
  "method_char c \<longleftrightarrow> word_char c \<or> c = CHR ''$'' \<or> c = CHR ''<'' \<or> c = CHR ''>''"

definition qualified_method :: "string \<Rightarrow> (string \<times> string) option" where
  "qualified_method name =
     (let parts = split_on CHR ''.'' name; q = join ''.'' (butlast parts); m = last parts
      in if 2 \<le> length parts \<and> q \<noteq> [] \<and> m \<noteq> [] \<and> list_all qualified_char q \<and> list_all method_char m
         then Some (q, m) else None)"

definition java_frame :: "string \<Rightarrow> (string \<times> string \<times> string) option" where
  "java_frame line =
     (let l = dropWhile is_space line; r = drop 2 l; body = dropWhile is_space r;
          name = before_first CHR ''('' body; r2 = drop (length name + 1) body;
          location = before_first CHR '')'' r2; r3 = drop (length location) r2
      in if starts_with l ''at'' \<and> body \<noteq> r \<and> length name < length body \<and> location \<noteq> [] \<and> r3 \<noteq> []
            \<and> list_all is_space (tl r3)
         then map_option (\<lambda>(q, m). (q, m, location)) (qualified_method name) else None)"

definition frame_text :: "string \<times> string \<times> string \<Rightarrow> string" where
  "frame_text = (\<lambda>(q, m, location). after_last CHR ''.'' q @ ''.'' @ m @ '' ('' @ location @ '')'')"

definition application_frame :: "string \<Rightarrow> string option" where
  "application_frame line =
     (case java_frame line of
        None \<Rightarrow> None
      | Some (q, m, location) \<Rightarrow> (if is_framework_frame q m then None else Some (frame_text (q, m, location))))"

definition frames_from_text :: "string \<Rightarrow> string list" where
  "frames_from_text t = dedupe_acc {} (List.map_filter application_frame (split_lines t))"

text \<open>\<open>re.split\<close> at the empty matches before \<open>Caused by:\<close>.\<close>

fun split_before :: "string \<Rightarrow> string \<Rightarrow> string list" where
  "split_before pat [] = [[]]"
| "split_before pat (c # cs) =
     (case split_before pat cs of
        [] \<Rightarrow> []
      | w # ws \<Rightarrow> (if starts_with (c # cs) pat then [] # (c # w) # ws else (c # w) # ws))"

definition caused_by :: string where
  "caused_by = ''Caused by:''"

definition extract_call_chain :: "(string \<Rightarrow> pyval option) \<Rightarrow> nat \<Rightarrow> string \<Rightarrow> string list" where
  "extract_call_chain json_loads max_frames raw =
     (let t = unwrap_embedded_log_text json_loads (PStr raw);
          blocks = filter (\<lambda>b. py_strip b \<noteq> []) (split_before caused_by t)
      in take (max 1 max_frames) (dedupe_acc {} (concat (map frames_from_text (rev blocks)))))"

section \<open>Source files\<close>

definition file_from_frame :: "string \<Rightarrow> string option" where
  "file_from_frame frame =
     (if CHR ''('' \<notin> set frame \<or> CHR '')'' \<notin> set frame then None
      else let location = rev (dropWhile (\<lambda>c. c = CHR '')'') (rev (after_last CHR ''('' frame)));
               path = py_strip (before_first CHR '':'' location)
           in if path = [] \<or> path = ''Unknown Source'' \<or> path = ''Native Method'' \<or> starts_with path ''<'' then None
              else Some path)"

definition skip_code_files :: "string list" where
  "skip_code_files =
     [''base64.java'', ''throwable.java'', ''exception.java'', ''thread.java'', ''class.java'', ''objects.java'',
      ''long.java'', ''integer.java'', ''string.java'', ''boolean.java'', ''double.java'', ''float.java'']"

definition skip_code_markers :: "string list" where
  "skip_code_markers =
     [''springframework'', ''mybatis'', ''apache.catalina'', ''apache.tomcat'', ''apache.coyote'', ''hikari'',
      ''mysql.cj'', ''pagehelper'']"

definition is_noise_code_path :: "string \<Rightarrow> bool" where
  "is_noise_code_path path \<longleftrightarrow>
     (let normalized = py_lower (py_replace [CHR 0x5C] ''/'' path);
          name = after_last CHR ''/'' normalized;
          stem = join ''.'' (butlast (split_on CHR ''.'' name))
      in CHR ''.'' \<in> set name \<and> after_last CHR ''.'' name \<in> {''c'', ''h''}
           \<and> (length stem \<le> 2 \<or> CHR ''/'' \<notin> set normalized)
         \<or> name \<in> set skip_code_files \<or> ends_with name ''exception.java'' \<or> ends_with name ''error.java''
         \<or> list_ex (\<lambda>m. occurs_in m normalized) skip_code_markers)"

text \<open>
  \<open>_CODE_PATH_RE\<close> at the head of a text: the longest run of path characters before a point that is followed
  by one of the suffixes, the first that fits, with the suffix; the line number is skipped.
\<close>

definition code_suffixes :: "string list" where
  "code_suffixes =
     [''java'', ''kt'', ''py'', ''go'', ''ts'', ''tsx'', ''js'', ''jsx'', ''cs'', ''rb'', ''php'', ''scala'', ''rs'', ''cpp'',
      ''c'', ''h'']"

definition path_char :: "char \<Rightarrow> bool" where
  "path_char c \<longleftrightarrow> ascii_letter c \<or> digit_val c \<noteq> None \<or> c \<in> {CHR ''_'', CHR ''.'', CHR ''/'', CHR ''-''}"

definition path_end :: "string \<Rightarrow> nat \<Rightarrow> nat option" where
  "path_end s k =
     (if 0 < k \<and> k < length s \<and> s ! k = CHR ''.''
      then map_option (\<lambda>x. k + 1 + length x) (List.find (starts_with (drop (k + 1) s)) code_suffixes) else None)"

definition code_path_at :: "string \<Rightarrow> string option" where
  "code_path_at s =
     (case List.map_filter (path_end s) (rev [0..<length (takeWhile path_char s)]) of
        [] \<Rightarrow> None
      | n # _ \<Rightarrow> Some (take n s))"

definition skip_line_number :: "string \<Rightarrow> string" where
  "skip_line_number s =
     (case s of
        c # d # ds \<Rightarrow>
          (if c = CHR '':'' \<and> digit_val d \<noteq> None then dropWhile (\<lambda>x. digit_val x \<noteq> None) (d # ds) else s)
      | _ \<Rightarrow> s)"

lemma skip_line_number_length: "length (skip_line_number s) \<le> length s"
  by (auto simp: skip_line_number_def length_dropWhile_le le_SucI split: list.split)

lemma in_map_filter: "y \<in> set (List.map_filter f xs) \<longleftrightarrow> (\<exists>x \<in> set xs. f x = Some y)"
  by (force simp: List.map_filter_def)

lemma code_path_at_pos:
  assumes "code_path_at s = Some p" shows "0 < length p \<and> length p \<le> length s"
proof -
  obtain n ns where n: "List.map_filter (path_end s) (rev [0..<length (takeWhile path_char s)]) = n # ns" "p = take n s"
    using assms by (auto simp: code_path_at_def split: list.splits)
  then have "n \<in> set (List.map_filter (path_end s) (rev [0..<length (takeWhile path_char s)]))" by simp
  then obtain k where "path_end s k = Some n" unfolding in_map_filter by blast
  then show ?thesis using n(2) by (auto simp: path_end_def split: if_splits)
qed

function find_code_paths :: "string \<Rightarrow> string list" where
  "find_code_paths [] = []"
| "find_code_paths (c # cs) =
     (case code_path_at (c # cs) of
        Some p \<Rightarrow> p # find_code_paths (skip_line_number (drop (length p) (c # cs)))
      | None \<Rightarrow> find_code_paths cs)"
  by pat_completeness auto
termination
proof (relation "measure length")
  fix c cs p assume p: "code_path_at (c # cs) = Some p"
  have "length (skip_line_number (drop (length p) (c # cs))) \<le> length (c # cs) - length p"
    using skip_line_number_length[of "drop (length p) (c # cs)"] by simp
  then show "(skip_line_number (drop (length p) (c # cs)), c # cs) \<in> measure length"
    using conjunct1[OF code_path_at_pos[OF p]] conjunct2[OF code_path_at_pos[OF p]] by (simp only: in_measure list.size)
qed auto

definition extract_code_path :: "(string \<Rightarrow> pyval option) \<Rightarrow> string \<Rightarrow> string option" where
  "extract_code_path json_loads raw =
     (let t = unwrap_embedded_log_text json_loads (PStr raw);
          of_frames = List.map_filter file_from_frame (extract_call_chain json_loads 12 t)
      in List.find (\<lambda>p. \<not> is_noise_code_path p) (of_frames @ find_code_paths t))"

section \<open>The exception\<close>

text \<open>\<open>_JAVA_EXCEPTION_RE\<close>: a name that ends in \<open>Exception\<close> or \<open>Error\<close> at a word's end.\<close>

definition java_exception :: "string \<Rightarrow> bool" where
  "java_exception line \<longleftrightarrow>
     (let run = takeWhile qualified_char line in
      list_ex (\<lambda>k. list_ex (\<lambda>x. starts_with (drop k run) x
          \<and> (case drop (k + length x) run of [] \<Rightarrow> True | c # _ \<Rightarrow> \<not> word_char c)) [''Exception'', ''Error''])
        [1..<length run])"

definition exception_line :: "string \<Rightarrow> string option" where
  "exception_line raw =
     (let line = py_strip raw in
      if line = [] \<or> starts_with line ''at '' \<or> starts_with line ''['' \<and> CHR '']'' \<in> set line then None
      else let l = (if starts_with line caused_by then py_strip (drop (length caused_by) line) else line)
           in if java_exception l then Some l else None)"

definition extract_exception_summary :: "(string \<Rightarrow> pyval option) \<Rightarrow> nat \<Rightarrow> string \<Rightarrow> string" where
  "extract_exception_summary json_loads max_chars raw =
     (case rev (List.map_filter exception_line (split_lines (unwrap_embedded_log_text json_loads (PStr raw)))) of
        [] \<Rightarrow> []
      | l # _ \<Rightarrow> take max_chars l)"

definition merge_call_chains :: "nat \<Rightarrow> pyval list list \<Rightarrow> string list" where
  "merge_call_chains max_frames groups =
     take (max 1 max_frames) (dedupe_acc {[]} (map (\<lambda>v. py_strip (py_str v)) (concat groups)))"

section \<open>The line that sums up a problem (problem_summary.py)\<close>

datatype problem_line =
    At_threw string string string      \<comment> \<open>service, place, exception\<close>
  | Service_threw string string
  | Place_threw string string
  | Service_failed_at string string
  | Threw string
  | Failed_at string

definition short_exception :: "string \<Rightarrow> string" where
  "short_exception raw =
     (let t = py_strip raw in
      if CHR '':'' \<notin> set t then py_strip (after_last CHR ''.'' t)
      else let left = before_first CHR '':'' t; right = drop (length left + 1) t;
               simple = py_strip (after_last CHR ''.'' left)
           in if starts_with right '' '' then simple @ '':'' @ right else simple @ '': '' @ dropWhile is_space right)"

fun before_text :: "string \<Rightarrow> string \<Rightarrow> string" where
  "before_text pat [] = []"
| "before_text pat (c # cs) = (if starts_with (c # cs) pat then [] else c # before_text pat cs)"

definition fault_method_label :: "string \<Rightarrow> string" where
  "fault_method_label frame = py_strip (before_text '' ('' (py_strip frame))"

definition build_problem_summary ::
    "(string \<Rightarrow> pyval option) \<Rightarrow> (problem_line \<Rightarrow> string) \<Rightarrow> nat \<Rightarrow> string \<Rightarrow> string \<Rightarrow> string \<Rightarrow> string list \<Rightarrow> string" where
  "build_problem_summary json_loads say max_chars symptom service_name exception chain =
     (let given = py_strip exception;
          exc = short_exception (if given = [] then extract_exception_summary json_loads max_chars symptom else given);
          labels = filter (\<lambda>l. l \<noteq> []) (map fault_method_label chain);
          frames = extract_call_chain json_loads 1 symptom;
          fault = (case labels of l # _ \<Rightarrow> l
                   | [] \<Rightarrow> (case frames of [] \<Rightarrow> [] | f # _ \<Rightarrow> fault_method_label f));
          service = (if is_placeholder_service_name (PStr (py_strip service_name)) then [] else py_strip service_name);
          line = (if service \<noteq> [] \<and> fault \<noteq> [] \<and> exc \<noteq> [] then Some (At_threw service fault exc)
                  else if service \<noteq> [] \<and> exc \<noteq> [] then Some (Service_threw service exc)
                  else if fault \<noteq> [] \<and> exc \<noteq> [] then Some (Place_threw fault exc)
                  else if service \<noteq> [] \<and> fault \<noteq> [] then Some (Service_failed_at service fault)
                  else if exc \<noteq> [] then Some (Threw exc)
                  else if fault \<noteq> [] then Some (Failed_at fault) else None)
      in case line of None \<Rightarrow> []
         | Some l \<Rightarrow> rev (dropWhile is_space (rev (take max_chars (say l)))))"

section \<open>What the summary of a trace holds\<close>

lemma in_frames: "f \<in> set (frames_from_text t) \<longleftrightarrow> (\<exists>l \<in> set (split_lines t). application_frame l = Some f)"
  by (simp add: frames_from_text_def set_dedupe_acc in_map_filter)

lemma split_before_concat: "concat (split_before pat s) = s \<and> split_before pat s \<noteq> []"
proof (induction s)
  case (Cons c cs)
  then show ?case by (cases "split_before pat cs") auto
qed simp

lemma split_before_absent: "\<not> occurs_in pat s \<Longrightarrow> split_before pat s = [s]"
  by (induction s) auto

lemma split_before_last:
  assumes "pat \<noteq> []" "\<not> occurs_in pat (tl (pat @ b))"
  shows "last (split_before pat (a @ pat @ b)) = pat @ b \<and> 2 \<le> length (split_before pat (a @ pat @ b))"
proof (induction a)
  case Nil
  obtain c cs where p: "pat = c # cs" using assms(1) by (cases pat) auto
  have "split_before pat (cs @ b) = [cs @ b]" using assms(2) p by (simp add: split_before_absent)
  moreover have "starts_with (c # cs @ b) pat" using starts_with_append[of pat b] p by simp
  ultimately show ?case using p by simp
next
  case (Cons c cs)
  then show ?case by (cases "split_before pat (cs @ pat @ b)") (auto split: if_splits)
qed

lemma dedupe_acc_hd: "dedupe_acc {} (x # xs) = x # dedupe_acc {x} xs"
  by simp

lemma caused_by_nonspace: "py_strip (caused_by @ b) \<noteq> []"
proof -
  have "CHR ''C'' \<in> set (caused_by @ b)" by (simp add: caused_by_def)
  moreover have "\<not> is_space CHR ''C''" by code_simp
  ultimately have "dropWhile is_space (caused_by @ b) \<noteq> []" by (auto simp: dropWhile_eq_Nil_conv)
  then show ?thesis unfolding py_strip_def
    by (metis dropWhile_eq_Nil_conv dropWhile_hd list.set_sel(1) rev.simps(1) rev_is_rev_conv set_rev)
qed


lemma split_on_snoc: "c \<notin> set m \<Longrightarrow> split_on c (q @ c # m) = split_on c q @ [m]"
proof (induction q)
  case (Cons x q)
  then show ?case by (cases "split_on c q") auto
qed (simp add: split_on_plain)

text \<open>
  A frame as Java prints it is read back: the qualified name, the method and the location.
\<close>

definition printed_frame :: "string \<Rightarrow> string \<Rightarrow> string \<Rightarrow> string" where
  "printed_frame q m location = ''    at '' @ q @ ''.'' @ m @ ''('' @ location @ '')''"

lemma frame_name_chars:
  "qualified_char c \<Longrightarrow> c \<noteq> CHR ''('' \<and> \<not> is_space c" "method_char c \<Longrightarrow> c \<noteq> CHR ''('' \<and> c \<noteq> CHR ''.'' \<and> \<not> is_space c"
  by (auto simp: qualified_char_def method_char_def word_char_def ascii_letter_def is_space_def Let_def)

lemma takeWhile_stop: "\<forall>x \<in> set xs. P x \<Longrightarrow> \<not> P y \<Longrightarrow> takeWhile P (xs @ y # ys) = xs"
  by (induction xs) auto

text \<open>
  A frame as Java prints it, of a qualified name, a method and a location, is read back as these three.
\<close>
theorem frame_roundtrip:
  assumes "q \<noteq> []" "list_all qualified_char q" "m \<noteq> []" "list_all method_char m"
    and "location \<noteq> []" "CHR '')'' \<notin> set location"
  shows "java_frame (printed_frame q m location) = Some (q, m, location)"
proof -
  let ?name = "q @ CHR ''.'' # m"
  have name: "\<forall>x \<in> set ?name. x \<noteq> CHR ''('' \<and> \<not> is_space x"
    using assms(2,4) frame_name_chars by (auto simp: list_all_iff is_space_def)
  have line: "dropWhile is_space (printed_frame q m location) = ''at '' @ ?name @ ''('' @ location @ '')''"
    by (simp add: printed_frame_def is_space_def)
  have body: "dropWhile is_space ('' '' @ ?name @ ''('' @ location @ '')'') = ?name @ CHR ''('' # location @ '')''"
    using name assms(1) by (cases q) (auto simp: is_space_def)
  have before: "before_first CHR ''('' (?name @ CHR ''('' # location @ '')'') = ?name"
    unfolding before_first_def by (rule takeWhile_stop) (use name in auto)
  have loc: "before_first CHR '')'' (location @ '')'') = location"
    unfolding before_first_def by (rule takeWhile_stop) (use assms(6) in auto)
  have "CHR ''.'' \<notin> set m" using assms(4) frame_name_chars(2) by (auto simp: list_all_iff)
  then have "split_on CHR ''.'' ?name = split_on CHR ''.'' q @ [m]" by (rule split_on_snoc)
  then have "qualified_method ?name = Some (q, m)"
    using assms by (simp add: qualified_method_def join_split_on Let_def Suc_le_eq)
  then show ?thesis
    unfolding java_frame_def Let_def line using body before loc assms(5) by (simp add: starts_with_def)
qed

text \<open>A source file of TypeScript with JSX loses its last letter, since the suffix \<open>ts\<close> is tried first.\<close>

theorem code_path_loses_suffix:
  "extract_code_path (\<lambda>_. None) ''failed in web/App.tsx:10'' = Some ''web/App.ts''"
  "extract_code_path (\<lambda>_. None) ''cannot read conf/app.json'' = Some ''conf/app.js''"
  by code_simp+

section \<open>A concrete trace\<close>

definition outer_part :: string where
  "outer_part = ''java.lang.RuntimeException: wrapped'' @ newline @ printed_frame ''com.shop.Api'' ''call'' ''Api.java:7'' @ newline"

definition cause_part :: string where
  "cause_part = '' java.lang.IllegalStateException: no stock'' @ newline
     @ printed_frame ''org.apache.tomcat.X'' ''run'' ''X.java:1'' @ newline
     @ printed_frame ''com.shop.Stock'' ''take'' ''Stock.java:42''"

definition no_json :: "string \<Rightarrow> pyval option" where
  "no_json s = None"

lemma demo_chain_trace:
  "unwrap_embedded_log_text no_json (PStr (outer_part @ caused_by @ cause_part)) = outer_part @ caused_by @ cause_part"
  "\<not> occurs_in caused_by (tl (caused_by @ cause_part))"
  "frames_from_text (caused_by @ cause_part) = [''Stock.take (Stock.java:42)'']"
  by code_simp+


theorem frame_roundtrip_witness:
  "java_frame (printed_frame ''com.shop.Stock'' ''take'' ''Stock.java:42'') = Some (''com.shop.Stock'', ''take'', ''Stock.java:42'')"
  by (rule frame_roundtrip) (simp_all add: qualified_char_def method_char_def word_char_def ascii_letter_def)

fun demo_line :: "problem_line \<Rightarrow> string" where
  "demo_line (At_threw s f e) = s @ '' at '' @ f @ '' threw '' @ e"
| "demo_line _ = ''other''"

definition short_trace :: string where
  "short_trace = ''a.StockError: none'' @ newline @ printed_frame ''a.B'' ''c'' ''B:1''"

lemma demo_summary:
  "build_problem_summary no_json demo_line 180 short_trace ''shop'' [] [] = ''shop at B.c threw StockError: none''"
  by code_simp

end
