(* ===== verification/CaseReport.thy ===== *)
theory CaseReport
  imports RootCauseFacts StackTrace ToolPlan ToolPlane
begin

text \<open>
  The report of a case (\<open>analysis/report_builder.py\<close>): the view of the evidence, the analysis by the rule
  engine, which may fetch logs through the gateway between its rounds (\<open>evidence_expander.py\<close>), and what a
  language model makes of it (\<open>llm_report.py\<close>). The HTTP client, JSON, pydantic's reading of a log query and
  the sentences are arguments.
\<close>

section \<open>The view of the evidence (evidence/context_assembler.py)\<close>

record context_window =
  cw_case_id :: string
  cw_max_tokens :: nat
  cw_used_tokens :: nat
  cw_segments :: "string list"

definition evidence_segment :: "dated_evidence \<Rightarrow> string" where
  "evidence_segment i =
     evidence_type_value (ei_type i) @ '':'' @ ei_source i @ '':'' @ take 200 (py_str (PDict (ei_content i)))"

definition build_context_window :: "nat \<Rightarrow> dated_pack \<Rightarrow> context_window" where
  "build_context_window max_tokens pack =
     (let segments = map evidence_segment (dp_items pack)
      in \<lparr>cw_case_id = dp_case_id pack, cw_max_tokens = max_tokens,
          cw_used_tokens = min max_tokens (sum_list (map (\<lambda>s. max 1 (length s div 4)) segments)),
          cw_segments = segments\<rparr>)"

section \<open>Fetching logs between rounds (evidence_expander.py, evidence/builder.py)\<close>

record log_query_result =
  lq_query_key :: string
  lq_record_count :: nat
  lq_truncated :: bool
  lq_metadata :: pydict

definition log_query_evidence :: "string \<Rightarrow> int \<Rightarrow> string \<Rightarrow> log_query_result \<Rightarrow> dated_evidence" where
  "log_query_evidence fresh now tool r =
     \<lparr>ei_item_id = fresh, ei_type = Ev_LOG, ei_source = tool,
      ei_content = [(''query_key'', PStr (lq_query_key r)), (''truncated'', PBool (lq_truncated r)),
        (''record_count'', PInt (int (lq_record_count r))), (''metadata'', PDict (lq_metadata r))],
      de_collected_at = now\<rparr>"

text \<open>What an expander is made of, and what a round gives it: the inputs of the call, an identifier, the time.\<close>

record expander_ctx =
  ec_case_id :: string
  ec_trace_id :: string
  ec_service_name :: "string option"
  ec_skill_name :: string
  ec_invoke :: "nat \<Rightarrow> invoke_inputs"
  ec_log_result :: "pydict \<Rightarrow> log_query_result res"
  ec_fresh_item :: "nat \<Rightarrow> string"
  ec_time :: "nat \<Rightarrow> int"

text \<open>The gateway, whether the logs were fetched, and the world of the language model.\<close>

record ('w, 'v) report_world =
  rw_gateway :: "'w mcp_gateway"
  rw_fetched :: bool
  rw_llm :: 'v

definition log_tool :: string where
  "log_tool = ''log.query_by_trace_id''"

definition expansion_request :: "expander_ctx \<Rightarrow> nat \<Rightarrow> tool_call_request" where
  "expansion_request ec n =
     \<lparr>rq_case_id = ec_case_id ec, rq_step_id = ''rca-expand-'' @ nat_str n, rq_skill_name = ec_skill_name ec,
      rq_tool_name = log_tool,
      rq_arguments = [(''trace_id'', PStr (ec_trace_id ec)),
        (''service_name'', case ec_service_name ec of None \<Rightarrow> PNone | Some s \<Rightarrow> PStr s)]\<rparr>"

definition should_fetch_logs :: "dated_pack \<Rightarrow> convergence_status \<Rightarrow> bool" where
  "should_fetch_logs pack cv \<longleftrightarrow>
     \<not> cv_is_converged cv
     \<and> ((\<forall>i \<in> set (dp_items pack). ei_type i \<noteq> Ev_LOG)
        \<or> \<not> cv_sufficient_evidence cv \<or> \<not> cv_confidence_threshold_met cv)"

definition expand_with_logs :: "expander_ctx \<Rightarrow> (('w, 'v) report_world) expander" where
  "expand_with_logs ec pack n cv s =
     (if cv_is_converged cv \<or> ec_trace_id ec = [] \<or> \<not> should_fetch_logs pack cv \<or> rw_fetched s then (Inr pack, s)
      else if \<not> valid_tool_call_request (expansion_request ec n) then (Inl validation_error, s)
      else case gateway_invoke (ec_invoke ec n) (expansion_request ec n) ''root_cause_engine'' None None (rw_gateway s) of
             (Inl e, g) \<Rightarrow> (Inl e, s\<lparr>rw_gateway := g\<rparr>)
           | (Inr r, g) \<Rightarrow>
               (let s' = s\<lparr>rw_gateway := g, rw_fetched := True\<rparr> in
                if \<not> tr_ok r \<or> tr_content r = [] then (Inr pack, s')
                else (bind_res (ec_log_result ec (tr_content r)) (\<lambda>l.
                       Inr (pack\<lparr>dp_items := dp_items pack @ [log_query_evidence (ec_fresh_item ec n) (ec_time ec n) log_tool l]\<rparr>)),
                      s')))"

section \<open>The language model (llm_report.py)\<close>

record llm_config =
  lc_base_url :: string
  lc_api_key :: string
  lc_model :: string
  lc_provider_name :: string
  lc_timeout_seconds :: rat
  lc_temperature :: rat
  lc_max_evidence_items :: int
  lc_enabled :: bool
  lc_max_retries :: int

record llm_settings =
  ls_enabled :: bool
  ls_base_url :: string
  ls_api_key :: string
  ls_model :: string
  ls_provider_name :: string
  ls_timeout_seconds :: rat
  ls_temperature :: rat
  ls_max_evidence_items :: int

definition rstrip_slashes :: "string \<Rightarrow> string" where
  "rstrip_slashes s = rev (dropWhile (\<lambda>c. c = CHR ''/'') (rev s))"

definition llm_config_from_settings :: "llm_settings \<Rightarrow> llm_config option" where
  "llm_config_from_settings s =
     (let base_url = rstrip_slashes (py_strip (ls_base_url s)); api_key = py_strip (ls_api_key s);
          model = py_strip (ls_model s)
      in if \<not> ls_enabled s \<or> base_url = [] \<or> api_key = [] \<or> model = [] then None
         else Some \<lparr>lc_base_url = base_url, lc_api_key = api_key, lc_model = model,
                    lc_provider_name = ls_provider_name s, lc_timeout_seconds = ls_timeout_seconds s,
                    lc_temperature = ls_temperature s, lc_max_evidence_items = ls_max_evidence_items s,
                    lc_enabled = ls_enabled s, lc_max_retries = 1\<rparr>)"

record llm_result =
  lr_ok :: bool
  lr_skipped :: bool
  lr_provider :: "string option"
  lr_model :: "string option"
  lr_elapsed_ms :: "nat option"
  lr_content :: string
  lr_parsed :: "pydict option"
  lr_raw :: "pydict option"
  lr_error :: "string option"
  lr_reason :: "string option"

definition llm_skipped :: "string \<Rightarrow> llm_result" where
  "llm_skipped reason =
     \<lparr>lr_ok = False, lr_skipped = True, lr_provider = None, lr_model = None, lr_elapsed_ms = None, lr_content = [],
      lr_parsed = None, lr_raw = None, lr_error = None, lr_reason = Some reason\<rparr>"

definition llm_failed :: "llm_config \<Rightarrow> string \<Rightarrow> llm_result" where
  "llm_failed cfg err =
     \<lparr>lr_ok = False, lr_skipped = False, lr_provider = Some (lc_provider_name cfg), lr_model = Some (lc_model cfg),
      lr_elapsed_ms = None, lr_content = [], lr_parsed = None, lr_raw = None, lr_error = Some err, lr_reason = None\<rparr>"

text \<open>
  The outcome of a request: the JSON of a good response with the time it took, an error status with the text
  of the exception and the body, a timeout, or another exception (no JSON among them).
\<close>

datatype llm_outcome =
    Llm_answer pyval nat
  | Llm_status string string
  | Llm_timeout string
  | Llm_exception string

record 'v llm_client =
  lk_config :: llm_config
  lk_post :: "string \<Rightarrow> pydict \<Rightarrow> pydict \<Rightarrow> rat \<Rightarrow> 'v \<Rightarrow> llm_outcome \<times> 'v"
  lk_read_error :: "pyval \<Rightarrow> string"   \<comment> \<open>of an answer that has not the expected shape\<close>

definition is_kimi_coding_endpoint :: "string \<Rightarrow> bool" where
  "is_kimi_coding_endpoint base_url \<longleftrightarrow> occurs_in ''api.kimi.com/coding'' (py_lower (rstrip_slashes (py_strip base_url)))"

definition chat_payload :: "llm_config \<Rightarrow> pyval \<Rightarrow> pydict" where
  "chat_payload cfg messages =
     [(''model'', PStr (lc_model cfg)), (''messages'', messages)]
     @ (if is_kimi_coding_endpoint (lc_base_url cfg) then [] else [(''temperature'', PFloat (lc_temperature cfg))])"

definition llm_headers :: "string \<Rightarrow> pydict" where
  "llm_headers api_key =
     (let key = py_strip api_key in
      (''Content-Type'', PStr ''application/json'') #
      (if key = [] then [] else [(''Authorization'', PStr (''Bearer '' @ key)), (''api-key'', PStr key)]))"

text \<open>The text of the first choice; \<open>None\<close> where reading it raises.\<close>

fun part_text :: "pyval \<Rightarrow> string list" where
  "part_text (PDict d) = (case py_get d ''text'' of PStr s \<Rightarrow> [s] | _ \<Rightarrow> [])"
| "part_text _ = []"

definition message_text :: "pyval \<Rightarrow> string" where
  "message_text m =
     (case m of
        PDict d \<Rightarrow>
          (case py_get d ''content'' of
             PStr s \<Rightarrow> py_strip s
           | PList parts \<Rightarrow> py_strip (join newline (concat (map part_text parts)))
           | _ \<Rightarrow> [])
      | _ \<Rightarrow> [])"

definition extract_message_content :: "pyval \<Rightarrow> string option" where
  "extract_message_content data =
     (case data of
        PDict d \<Rightarrow>
          (let choices = py_get d ''choices'' in
           if \<not> py_truthy choices then Some []
           else case choices of
                  PList (PDict c # _) \<Rightarrow> Some (message_text (py_or (py_get c ''message'') (PDict [])))
                | _ \<Rightarrow> None)
      | _ \<Rightarrow> None)"

definition llm_answered :: "llm_config \<Rightarrow> pyval \<Rightarrow> nat \<Rightarrow> string \<Rightarrow> llm_result" where
  "llm_answered cfg data elapsed content =
     \<lparr>lr_ok = True, lr_skipped = False, lr_provider = Some (lc_provider_name cfg), lr_model = Some (lc_model cfg),
      lr_elapsed_ms = Some elapsed, lr_content = content, lr_parsed = None,
      lr_raw = (case data of PDict d \<Rightarrow> Some d | _ \<Rightarrow> None), lr_error = None, lr_reason = None\<rparr>"

definition text_or_else :: "string \<Rightarrow> string \<Rightarrow> string" where
  "text_or_else a b = (if a = [] then b else a)"

fun llm_attempts :: "'v llm_client \<Rightarrow> pydict \<Rightarrow> nat \<Rightarrow> string \<Rightarrow> 'v \<Rightarrow> llm_result \<times> 'v" where
  "llm_attempts k payload 0 last_error v =
     (llm_failed (lk_config k) (text_or_else last_error ''LLM request failed''), v)"
| "llm_attempts k payload (Suc n) last_error v =
     (let cfg = lk_config k in
      case lk_post k (lc_base_url cfg @ ''/chat/completions'') (llm_headers (lc_api_key cfg)) payload
             (max 30 (lc_timeout_seconds cfg)) v of
        (Llm_answer data elapsed, v') \<Rightarrow>
          ((case extract_message_content data of
              Some content \<Rightarrow> llm_answered cfg data elapsed content
            | None \<Rightarrow> llm_failed cfg (text_or_else (lk_read_error k data) ''LLM request failed'')), v')
      | (Llm_status e body, v') \<Rightarrow> (llm_failed cfg (e @ ''. body: '' @ take 500 body), v')
      | (Llm_timeout e, v') \<Rightarrow> llm_attempts k payload n e v'
      | (Llm_exception e, v') \<Rightarrow> (llm_failed cfg (text_or_else e ''LLM request failed''), v'))"

definition llm_complete :: "'v llm_client \<Rightarrow> pyval \<Rightarrow> 'v \<Rightarrow> llm_result \<times> 'v" where
  "llm_complete k messages v =
     (let cfg = lk_config k in
      if \<not> lc_enabled cfg
      then ((llm_skipped ''disabled'')\<lparr>lr_provider := Some (lc_provider_name cfg), lr_model := Some (lc_model cfg)\<rparr>, v)
      else llm_attempts k (chat_payload cfg messages) (nat (max 1 (lc_max_retries cfg + 1))) [] v)"

definition parse_llm_report :: "(string \<Rightarrow> pyval option) \<Rightarrow> string \<Rightarrow> pydict option" where
  "parse_llm_report json_loads content = parse_json_object json_loads content"

text \<open>What the request tells the model; \<open>json_dumps\<close> and the text of an instant are arguments.\<close>

definition hypothesis_dump :: "hypothesis \<Rightarrow> pydict" where
  "hypothesis_dump h =
     [(''hypothesis_id'', PStr (hy_hypothesis_id h)), (''statement'', PStr (hy_statement h)),
      (''status'', PStr ''open''), (''evidence_item_ids'', PList (map PStr (hy_evidence_item_ids h)))]"

definition conclusion_dump :: "root_cause_conclusion \<Rightarrow> pydict" where
  "conclusion_dump c =
     [(''title'', PStr (rc_title c)), (''narrative'', PStr (rc_narrative c)), (''confidence'', PFloat (rc_confidence c)),
      (''contributing_factors'', PList (map PStr (rc_contributing_factors c)))]"

definition evidence_dump :: "(int \<Rightarrow> string) \<Rightarrow> dated_evidence \<Rightarrow> pydict" where
  "evidence_dump time_text i =
     [(''item_id'', PStr (ei_item_id i)), (''type'', PStr (evidence_type_value (ei_type i))),
      (''source'', PStr (ei_source i)), (''content'', PDict (ei_content i)),
      (''collected_at'', PStr (time_text (de_collected_at i)))]"

definition context_dump :: "(int \<Rightarrow> string) \<Rightarrow> int \<Rightarrow> context_window \<Rightarrow> pydict" where
  "context_dump time_text now w =
     [(''case_id'', PStr (cw_case_id w)), (''max_tokens'', PInt (int (cw_max_tokens w))),
      (''used_tokens'', PInt (int (cw_used_tokens w))), (''segments'', PList (map PStr (cw_segments w))),
      (''notes'', PStr (''assembled_at='' @ iso_format now)), (''assembled_at'', PStr (time_text now))]"

definition llm_report_payload ::
    "(int \<Rightarrow> string) \<Rightarrow> int \<Rightarrow> string \<Rightarrow> string \<Rightarrow> dated_pack \<Rightarrow> context_window \<Rightarrow> rca_result \<Rightarrow> int \<Rightarrow> pydict" where
  "llm_report_payload time_text now case_id title pack w a max_items =
     [(''case'', PDict [(''case_id'', PStr case_id), (''title'', PStr title)]),
      (''evidence_summary'', PStr (dp_summary pack)),
      (''rule_analysis'', PDict
         [(''conclusion'', PDict (conclusion_dump (ra_conclusion a))),
          (''hypotheses'', PList (map (PDict \<circ> hypothesis_dump) (ra_hypotheses a))),
          (''converged'', PBool (ra_is_converged a))]),
      (''context_window'', PDict (context_dump time_text now w)),
      (''evidence_preview'', PList (map (PDict \<circ> evidence_dump time_text) (take (nat (max 1 max_items)) (dp_items pack))))]"

subsection \<open>What becomes of its answer\<close>

definition option_val :: "('a \<Rightarrow> pyval) \<Rightarrow> 'a option \<Rightarrow> pyval" where
  "option_val f x = (case x of None \<Rightarrow> PNone | Some v \<Rightarrow> f v)"

definition llm_payload :: "llm_result \<Rightarrow> pydict" where
  "llm_payload r =
     filter (\<lambda>(k, v). v \<noteq> PNone)
       ([(''ok'', PBool (lr_ok r)), (''skipped'', PBool (lr_skipped r)), (''provider'', option_val PStr (lr_provider r)),
         (''model'', option_val PStr (lr_model r)), (''elapsed_ms'', option_val (PInt \<circ> int) (lr_elapsed_ms r)),
         (''parsed'', PBool (lr_parsed r \<noteq> None))]
        @ (case lr_reason r of None \<Rightarrow> [] | Some x \<Rightarrow> if x = [] then [] else [(''reason'', PStr x)])
        @ (case lr_error r of None \<Rightarrow> [] | Some x \<Rightarrow> if x = [] then [] else [(''error'', PStr x)])
        @ (case lr_raw r of None \<Rightarrow> [] | Some d \<Rightarrow> [(''usage'', py_get d ''usage'')]))"

fun as_text :: "pyval \<Rightarrow> string" where
  "as_text (PStr s) = py_strip s"
| "as_text _ = []"

fun string_list :: "pyval \<Rightarrow> string list" where
  "string_list (PList xs) = filter (\<lambda>s. s \<noteq> []) (map as_text xs)"
| "string_list _ = []"

definition coerce_confidence :: "pyval \<Rightarrow> rat \<Rightarrow> rat" where
  "coerce_confidence v fallback =
     min 1 (max 0 (case py_float v of None \<Rightarrow> fallback | Some x \<Rightarrow> x))"

definition root_cause_from_parsed :: "pydict \<Rightarrow> root_cause_conclusion option \<Rightarrow> root_cause_conclusion" where
  "root_cause_from_parsed parsed fallback =
     (let node = dict_field parsed ''root_cause'';
          fb = (case fallback of Some c \<Rightarrow> c
                | None \<Rightarrow> \<lparr>rc_title = ''LLM analysis'', rc_narrative = [], rc_confidence = 0, rc_contributing_factors = []\<rparr>);
          factors = string_list (py_or (py_get node ''contributing_factors'') (py_get parsed ''contributing_factors''))
      in \<lparr>rc_title = text_or_else (as_text (py_or (py_get node ''title'') (py_get parsed ''root_cause_title''))) (rc_title fb),
          rc_narrative = text_or_else (as_text (py_or (py_get node ''narrative'') (py_get parsed ''root_cause_narrative'')))
                           (rc_narrative fb),
          rc_confidence = coerce_confidence (py_get_or node ''confidence'' (py_get parsed ''confidence'')) (rc_confidence fb),
          rc_contributing_factors = (if factors = [] then rc_contributing_factors fb else factors)\<rparr>)"

definition apply_llm_result :: "(string \<Rightarrow> pyval option) \<Rightarrow> case_report \<Rightarrow> llm_result \<Rightarrow> case_report" where
  "apply_llm_result json_loads report r =
     (let md = dput ''llm'' (PDict (llm_payload r)) (cp_metadata report) in
      if \<not> lr_ok r \<or> lr_content r = [] then report\<lparr>cp_metadata := md\<rparr>
      else case (case lr_parsed r of Some (x # xs) \<Rightarrow> Some (x # xs) | _ \<Rightarrow> parse_llm_report json_loads (lr_content r)) of
             None \<Rightarrow>
               report\<lparr>cp_summary := lr_content r,
                 cp_metadata := dput ''builder'' (PStr ''root_cause_engine+llm'')
                   (dput ''llm_analysis'' (PDict [(''text'', PStr (lr_content r))]) md)\<rparr>
           | Some parsed \<Rightarrow>
               (let md1 = dput ''builder'' (PStr ''root_cause_engine+llm'') (dput ''llm_analysis'' (PDict parsed) md);
                    md2 = (case cp_root_cause report of None \<Rightarrow> md1
                           | Some c \<Rightarrow> dput ''rule_root_cause'' (PDict (conclusion_dump c)) md1)
                in report\<lparr>cp_summary := text_or_else (as_text (py_get parsed ''summary'')) (cp_summary report),
                          cp_root_cause := Some (root_cause_from_parsed parsed (cp_root_cause report)),
                          cp_metadata := md2\<rparr>))"

section \<open>The report (report_builder.py)\<close>

record 'v report_ctx =
  kx_rca :: rca_ctx
  kx_json_loads :: "string \<Rightarrow> pyval option"
  kx_json_dumps :: "pyval \<Rightarrow> string"
  kx_time_text :: "int \<Rightarrow> string"
  kx_now :: int
  kx_say :: "problem_line \<Rightarrow> string"
  kx_system_prompt :: string
  kx_settings :: llm_settings
  kx_expansion_enabled :: bool
  kx_client :: "'v llm_client"   \<comment> \<open>without its configuration\<close>

text \<open>The first text under a key of what the steps extracted, and the first call chain that is not blank.\<close>

definition extracted_text :: "string \<Rightarrow> dated_pack \<Rightarrow> string" where
  "extracted_text k pack =
     (case List.find (\<lambda>s. s \<noteq> []) (map (\<lambda>i. as_text (py_get (dict_field (ei_content i) ''extracted'') k)) (dp_items pack)) of
        None \<Rightarrow> [] | Some s \<Rightarrow> s)"

fun chain_of :: "pyval \<Rightarrow> string list" where
  "chain_of (PList xs) = filter (\<lambda>s. s \<noteq> []) (map (\<lambda>x. py_strip (py_str x)) xs)"
| "chain_of _ = []"

definition extracted_chain :: "dated_pack \<Rightarrow> string list" where
  "extracted_chain pack =
     (case List.find (\<lambda>c. c \<noteq> []) (map (\<lambda>i. chain_of (py_get (dict_field (ei_content i) ''extracted'') ''call_chain''))
             (dp_items pack)) of
        None \<Rightarrow> [] | Some c \<Rightarrow> c)"

definition problem_summary_from_pack ::
    "(string \<Rightarrow> pyval option) \<Rightarrow> (problem_line \<Rightarrow> string) \<Rightarrow> dated_pack \<Rightarrow> string \<Rightarrow> string" where
  "problem_summary_from_pack json_loads say pack service_name =
     build_problem_summary json_loads say 180 []
       (text_or_else (py_strip service_name) (extracted_text ''service_name'' pack))
       (extracted_text ''exception_summary'' pack) (extracted_chain pack)"

text \<open>A \<open>metadata\<close> that is no dictionary has no \<open>get\<close>: reading it raises.\<close>

fun trace_id_from_items :: "dated_evidence list \<Rightarrow> string res" where
  "trace_id_from_items [] = Inr []"
| "trace_id_from_items (i # is) =
     (let own = py_get (ei_content i) ''trace_id'' in
      if py_truthy own
      then (if as_text own \<noteq> [] then Inr (as_text own) else trace_id_from_items is)
      else case py_get_or (ei_content i) ''metadata'' (PDict []) of
             PDict md \<Rightarrow>
               (let t = as_text (py_get md ''trace_id'') in if t \<noteq> [] then Inr t else trace_id_from_items is)
           | _ \<Rightarrow> Inl (OtherError ''AttributeError''))"

definition choose_client :: "'v report_ctx \<Rightarrow> 'v llm_client option \<Rightarrow> string + 'v llm_client" where
  "choose_client kx given =
     (case given of
        Some k \<Rightarrow> Inr k
      | None \<Rightarrow>
          (if \<not> ls_enabled (kx_settings kx) then Inl ''disabled''
           else case llm_config_from_settings (kx_settings kx) of
                  None \<Rightarrow> Inl ''not_configured''
                | Some cfg \<Rightarrow> Inr ((kx_client kx)\<lparr>lk_config := cfg\<rparr>)))"

definition analyze_with_llm ::
    "'v report_ctx \<Rightarrow> string \<Rightarrow> string \<Rightarrow> dated_pack \<Rightarrow> context_window \<Rightarrow> rca_result \<Rightarrow> 'v llm_client \<Rightarrow> 'v
     \<Rightarrow> llm_result \<times> 'v" where
  "analyze_with_llm kx case_id title pack w a k v =
     (let messages = PList
            [PDict [(''role'', PStr ''system''), (''content'', PStr (kx_system_prompt kx))],
             PDict [(''role'', PStr ''user''), (''content'', PStr (kx_json_dumps kx (PDict
               (llm_report_payload (kx_time_text kx) (kx_now kx) case_id title pack w a
                 (lc_max_evidence_items (lk_config k))))))]];
          (r, v') = llm_complete k messages v
      in (if lr_content r = [] then r else r\<lparr>lr_parsed := parse_llm_report (kx_json_loads kx) (lr_content r)\<rparr>, v'))"

definition rule_report :: "'v report_ctx \<Rightarrow> string \<Rightarrow> string \<Rightarrow> dated_pack \<Rightarrow> string \<Rightarrow> rca_result \<Rightarrow> case_report res" where
  "rule_report kx case_id title pack service_name a =
     (let problem = problem_summary_from_pack (kx_json_loads kx) (kx_say kx) pack service_name;
          summary = text_or_else problem
            (''Collected '' @ nat_str (length (dp_items pack)) @ '' evidence item(s); generated ''
             @ nat_str (length (ra_hypotheses a)) @ '' hypothesis(es).'');
          md = [(''builder'', PStr ''root_cause_engine''),
                (''hypotheses'', PList (map (PDict \<circ> hypothesis_dump) (ra_hypotheses a))),
                (''context_used_tokens'', PInt (int (cw_used_tokens (build_context_window 2048 pack))))]
               @ (if problem = [] then [] else [(''problem_summary'', PStr problem)])
      in if case_id = [] \<or> title = [] then Inl validation_error
         else Inr \<lparr>cp_case_id = case_id, cp_title = title, cp_summary = summary,
                   cp_root_cause = Some (ra_conclusion a), cp_evidence_item_ids = map ei_item_id (dp_items pack),
                   cp_metadata = md\<rparr>)"

definition report_expander ::
    "'v report_ctx \<Rightarrow> expander_ctx option \<Rightarrow> string \<Rightarrow> dated_pack \<Rightarrow> (('w, 'v) report_world) expander option res" where
  "report_expander kx gateway trace_id pack =
     (case gateway of
        None \<Rightarrow> Inr None
      | Some ec \<Rightarrow>
          (if \<not> kx_expansion_enabled kx then Inr None
           else bind_res (if trace_id = [] then trace_id_from_items (dp_items pack) else Inr trace_id) (\<lambda>t.
             Inr (if t = [] then None else Some (expand_with_logs (ec\<lparr>ec_trace_id := t\<rparr>))))))"

text \<open>\<open>gateway\<close> is what the expander is made of where a gateway is given; \<open>client\<close> a model's client where one is.\<close>

definition build_case_report ::
    "'v report_ctx \<Rightarrow> expander_ctx option \<Rightarrow> 'v llm_client option \<Rightarrow> string \<Rightarrow> string \<Rightarrow> string \<Rightarrow> string \<Rightarrow> dated_pack
     \<Rightarrow> (('w, 'v) report_world, case_report) eff" where
  "build_case_report kx gateway client case_id title trace_id service_name pack =
     seq (lift_res (report_expander kx gateway trace_id pack)) (\<lambda>ex.
     seq (change (\<lambda>s. s\<lparr>rw_fetched := False\<rparr>)) (\<lambda>_.
     seq (analyze (kx_rca kx) ex 3 pack) (\<lambda>a.
     seq (lift_res (rule_report kx case_id title pack service_name a)) (\<lambda>report s.
       case choose_client kx client of
         Inl reason \<Rightarrow> (Inr (apply_llm_result (kx_json_loads kx) report (llm_skipped reason)), s)
       | Inr k \<Rightarrow>
           (let (r, v) = analyze_with_llm kx case_id title pack (build_context_window 2048 pack) a k (rw_llm s)
            in (Inr (apply_llm_result (kx_json_loads kx) report r), s\<lparr>rw_llm := v\<rparr>))))))"

end
