(* ===== verification/CaseReportFacts.thy ===== *)
theory CaseReportFacts
  imports CaseReport
begin

text \<open>
  What a report guarantees: it is well formed whatever the language model answers, the model is asked a
  bounded number of times, and the logs are fetched at most once.
\<close>

section \<open>Fetching between rounds\<close>

text \<open>
  The contract of an expander that fetches at most once: it only adds evidence, and the log of its calls
  grows by one entry when it spends its call, and never after.
\<close>

locale frugal_expander =
  fixes expand :: "'s expander" and spent :: "'s \<Rightarrow> bool" and log :: "'s \<Rightarrow> 'e list" and fetch :: "'e \<Rightarrow> bool"
  assumes extends: "expand p n cv s = (Inr p', s') \<Longrightarrow> \<exists>xs. dp_items p' = dp_items p @ xs"
    and spends: "expand p n cv s = (r, s') \<Longrightarrow>
      log s' = log s \<and> (spent s \<longrightarrow> spent s') \<or> \<not> spent s \<and> spent s' \<and> (\<exists>e. fetch e \<and> log s' = log s @ [e])"
begin

lemma rounds_log:
  assumes "run_rounds cx (Some expand) mx k n prior pack s = (r, s')"
  shows "\<exists>es. log s' = log s @ es \<and> length es \<le> (if spent s then 0 else 1) \<and> list_all fetch es"
  using assms
proof (induction k arbitrary: n prior pack s)
  case (Suc k)
  let ?r = "run_round cx mx n prior pack"
  show ?case
  proof (cases "cv_is_converged (rr_status ?r)")
    case False
    obtain q s1 where q: "expand (synthesize_evidence cx pack (rr_weights ?r) (rr_validations ?r) n) n (rr_status ?r) s = (q, s1)"
      by (rule prod.exhaust)
    show ?thesis
    proof (cases q)
      case (Inl e)
      then have "s' = s1" using Suc.prems False q by (simp add: Let_def seq_def)
      with spends[OF q] show ?thesis by auto
    next
      case (Inr more)
      then have "run_rounds cx (Some expand) mx k (Suc n) (rr_weights ?r) more s1 = (r, s')"
        using Suc.prems False q by (simp add: Let_def seq_def)
      from Suc.IH[OF this] spends[OF q] show ?thesis by (auto split: if_splits)
    qed
  qed (use Suc.prems in \<open>auto simp: Let_def give_def\<close>)
qed (auto simp: give_def)

lemma synthesize_keeps: "\<exists>xs. dp_items (synthesize_evidence cx pack ws vs n) = dp_items pack @ xs"
  by (auto simp: synthesize_evidence_def split: list.splits)

lemma rounds_extend:
  assumes "run_rounds cx (Some expand) mx k n prior pack s = (Inr (r, m, final), s')"
  shows "\<exists>xs. dp_items final = dp_items pack @ xs"
  using assms
proof (induction k arbitrary: n prior pack s)
  case (Suc k)
  let ?r = "run_round cx mx n prior pack"
  let ?more = "synthesize_evidence cx pack (rr_weights ?r) (rr_validations ?r) n"
  show ?case
  proof (cases "cv_is_converged (rr_status ?r)")
    case False
    then obtain p s1 where p: "expand ?more n (rr_status ?r) s = (Inr p, s1)"
      and rec: "run_rounds cx (Some expand) mx k (Suc n) (rr_weights ?r) p s1 = (Inr (r, m, final), s')"
      using Suc.prems by (auto simp: Let_def seq_Inr_iff)
    from extends[OF p] synthesize_keeps[of cx pack "rr_weights ?r" "rr_validations ?r" n] Suc.IH[OF rec]
    show ?thesis by force
  qed (use Suc.prems in \<open>auto simp: Let_def give_def\<close>)
qed (auto simp: give_def)

lemma analyze_log:
  assumes "analyze cx (Some expand) mx pack s = (r, s')" and "\<not> spent s"
  shows "\<exists>es. log s' = log s @ es \<and> length es \<le> 1 \<and> list_all fetch es"
proof (cases "dp_items pack = []")
  case False
  let ?l = "nat (max 1 mx)"
  obtain q s1 where q: "run_rounds cx (Some expand) ?l (?l - 1) 1 [] pack s = (q, s1)" by (rule prod.exhaust)
  have "s' = s1" using assms(1) False q by (auto simp: analyze_def Let_def seq_def give_def split: sum.splits prod.splits)
  with rounds_log[OF q] assms(2) show ?thesis by simp
qed (use assms in \<open>simp add: analyze_def give_def\<close>)

end

lemma expand_with_logs_cases:
  assumes "expand_with_logs ec pack n cv s = (r, s')"
  obtains (kept) "s' = s" "r = Inr pack \<or> r = Inl validation_error" | (raised) e g where "r = Inl e" "s' = s\<lparr>rw_gateway := g\<rparr>" "\<not> rw_fetched s"
      "gateway_invoke (ec_invoke ec n) (expansion_request ec n) ''root_cause_engine'' None None (rw_gateway s) = (Inl e, g)"
  | (called) t g where "s' = s\<lparr>rw_gateway := g, rw_fetched := True\<rparr>" "\<not> rw_fetched s"
      "gateway_invoke (ec_invoke ec n) (expansion_request ec n) ''root_cause_engine'' None None (rw_gateway s) = (Inr t, g)"
      "\<forall>p. r = Inr p \<longrightarrow> (\<exists>xs. dp_items p = dp_items pack @ xs)"
proof (cases "cv_is_converged cv \<or> ec_trace_id ec = [] \<or> \<not> should_fetch_logs pack cv \<or> rw_fetched s
    \<or> \<not> valid_tool_call_request (expansion_request ec n)")
  case True
  then show ?thesis using assms kept by (auto simp: expand_with_logs_def split: if_splits)
next
  case False
  obtain q g where g: "gateway_invoke (ec_invoke ec n) (expansion_request ec n) ''root_cause_engine'' None None (rw_gateway s) = (q, g)"
    by (rule prod.exhaust)
  show ?thesis
  proof (cases q)
    case (Inl e)
    then show ?thesis using raised[of e g] assms False g by (simp add: expand_with_logs_def)
  next
    case (Inr t)
    then have r: "r = (if \<not> tr_ok t \<or> tr_content t = [] then Inr pack
        else bind_res (ec_log_result ec (tr_content t)) (\<lambda>l. Inr (pack\<lparr>dp_items := dp_items pack
          @ [log_query_evidence (ec_fresh_item ec n) (ec_time ec n) log_tool l]\<rparr>)))"
      and s': "s' = s\<lparr>rw_gateway := g, rw_fetched := True\<rparr>"
      using assms False g by (auto simp: expand_with_logs_def Let_def split: if_splits)
    show ?thesis by (rule called[OF s' _ g[unfolded Inr]]) (use False r in auto)
  qed
qed

interpretation log_expander: frugal_expander "expand_with_logs ec" rw_fetched "\<lambda>s. mg_audit (rw_gateway s)"
    "\<lambda>e. ae_target e = log_tool"
  for ec :: expander_ctx
proof (unfold_locales, goal_cases)
  case (1 p n cv s p' s')
  then show ?case by (cases rule: expand_with_logs_cases) auto
next
  case (2 p n cv s r s')
  then show ?case
  proof (cases rule: expand_with_logs_cases)
    case (raised e g)
    then show ?thesis using mcp.raise_silent by fastforce
  next
    case (called t g)
    have "audits_call (mg_audit (rw_gateway s)) (mg_audit g) (expansion_request ec n) (tr_ok t)"
      by (rule mcp.answer_audited[OF called(3)])
    then show ?thesis using called(1,2) by (auto simp: audits_call_def expansion_request_def)
  qed auto
qed

lemma report_gateway:
  fixes s :: "('w, 'v) report_world"
  assumes "build_case_report kx gateway client case_id title trace_id service pack s = (r, s')"
  shows "rw_gateway s' = rw_gateway s \<or> (\<exists>ex q s1. report_expander kx gateway trace_id pack = Inr ex
    \<and> analyze (kx_rca kx) ex 3 pack (s\<lparr>rw_fetched := False\<rparr>) = (q, s1) \<and> rw_gateway s' = rw_gateway s1)"
proof (cases "report_expander kx gateway trace_id pack :: (('w, 'v) report_world) expander option res")
  case (Inr ex)
  obtain q s1 where q: "analyze (kx_rca kx) ex 3 pack (s\<lparr>rw_fetched := False\<rparr>) = (q, s1)" by (rule prod.exhaust)
  have "rw_gateway s' = rw_gateway s1"
    using assms Inr q
    by (auto simp: build_case_report_def seq_def eff_defs split: sum.splits prod.splits)
  then show ?thesis using Inr q by blast
qed (use assms in \<open>simp add: build_case_report_def seq_def eff_defs\<close>)

lemma analyze_alone_state: "analyze cx None mx pack s = (r, s') \<Longrightarrow> s' = s"
  using rounds_alone_answer[of cx "nat (max 1 mx)" "nat (max 1 mx) - 1" 1 "[]" pack s]
  by (auto simp: analyze_def Let_def seq_def give_def split: if_splits)

text \<open>
  C26: The making of a report calls the gateway at most once, for the logs of the trace, whatever the rounds
  find, whatever the call answers and also where it raises: the audit log grows by at most one event.
\<close>
theorem report_fetches_logs_once:
  assumes "build_case_report kx (Some ec) client case_id title trace_id service pack s = (r, s')"
  shows "\<exists>events. mg_audit (rw_gateway s') = mg_audit (rw_gateway s) @ events \<and> length events \<le> 1
    \<and> (\<forall>e \<in> set events. ae_target e = ''log.query_by_trace_id'')"
proof -
  consider "rw_gateway s' = rw_gateway s"
    | ex q s1 where "report_expander kx (Some ec) trace_id pack = Inr ex"
        "analyze (kx_rca kx) ex 3 pack (s\<lparr>rw_fetched := False\<rparr>) = (q, s1)" "rw_gateway s' = rw_gateway s1"
    using report_gateway[OF assms] by blast
  then show ?thesis
  proof cases
    case 2
    show ?thesis
    proof (cases ex)
      case None
      then show ?thesis using 2 analyze_alone_state by fastforce
    next
      case (Some expand)
      then obtain t where e: "expand = expand_with_logs (ec\<lparr>ec_trace_id := t\<rparr>)"
        using 2(1) by (auto simp: report_expander_def split: if_splits)
      show ?thesis
        using log_expander.analyze_log[OF 2(2)[unfolded Some e]] 2(3) by (auto simp: list_all_iff log_tool_def)
    qed
  qed simp
qed

section \<open>The language model\<close>

definition counts_posts :: "'v llm_client \<Rightarrow> ('v \<Rightarrow> nat) \<Rightarrow> bool" where
  "counts_posts k posts \<longleftrightarrow> (\<forall>url h p t v. posts (snd (lk_post k url h p t v)) = Suc (posts v))"

lemma llm_failed_not_ok: "\<not> lr_ok (llm_failed cfg e)"
  by (simp add: llm_failed_def)

lemma llm_attempts_posts:
  assumes "counts_posts k posts" "llm_attempts k payload n e v = (r, v')"
  shows "posts v' \<le> posts v + n
    \<and> ((\<forall>url h p t v e. fst (lk_post k url h p t v) \<noteq> Llm_timeout e) \<longrightarrow> posts v' \<le> Suc (posts v))
    \<and> (lr_ok r \<longrightarrow> (\<exists>url h t w data ms. fst (lk_post k url h payload t w) = Llm_answer data ms
          \<and> extract_message_content data = Some (lr_content r)))"
  using assms(2)
proof (induction n arbitrary: e v)
  case (Suc n)
  let ?url = "lc_base_url (lk_config k) @ ''/chat/completions''"
  let ?h = "llm_headers (lc_api_key (lk_config k))"
  let ?t = "max 30 (lc_timeout_seconds (lk_config k))"
  obtain out w where o: "lk_post k ?url ?h payload ?t v = (out, w)" by (rule prod.exhaust)
  then have p: "posts w = Suc (posts v)" using assms(1) unfolding counts_posts_def by (metis snd_conv)
  show ?case
  proof (cases out)
    case (Llm_timeout e')
    then have "llm_attempts k payload n e' w = (r, v')" using Suc.prems o by (simp add: Let_def)
    note ih = Suc.IH[OF this]
    have "\<exists>url h p t v e. fst (lk_post k url h p t v) = Llm_timeout e" using o Llm_timeout by (metis fst_conv)
    then show ?thesis using ih p by (intro conjI) (simp, blast, blast)
  next
    case (Llm_answer data ms)
    have answer: "fst (lk_post k ?url ?h payload ?t v) = Llm_answer data ms" using o Llm_answer by simp
    have v': "v' = w" and r: "r = (case extract_message_content data of Some content \<Rightarrow> llm_answered (lk_config k) data ms content
        | None \<Rightarrow> llm_failed (lk_config k) (text_or_else (lk_read_error k data) ''LLM request failed''))"
      using Suc.prems o Llm_answer by (simp_all add: Let_def)
    have "lr_ok r \<longrightarrow> extract_message_content data = Some (lr_content r)"
      unfolding r by (simp add: llm_failed_def llm_answered_def split: option.split)
    then show ?thesis using answer p v' by (intro conjI) (simp, simp, blast)
  next
    case (Llm_status e' body)
    then have "r = llm_failed (lk_config k) (e' @ ''. body: '' @ take 500 body)" "v' = w"
      using Suc.prems o by (simp_all add: Let_def)
    then show ?thesis using p by (simp add: llm_failed_not_ok)
  next
    case (Llm_exception e')
    then have "r = llm_failed (lk_config k) (text_or_else e' ''LLM request failed'')" "v' = w"
      using Suc.prems o by (simp_all add: Let_def)
    then show ?thesis using p by (simp add: llm_failed_not_ok)
  qed
qed (auto simp: llm_failed_not_ok)

text \<open>
  A completion posts at most as often as the configuration allows, and asks again only after a timeout:
  a client that never times out is asked once. A result is good only with an answer of the client.
\<close>
theorem llm_asked_within_limit:
  assumes "counts_posts k posts" and "llm_complete k messages v = (r, v')"
  shows "posts v' \<le> posts v + nat (max 1 (lc_max_retries (lk_config k) + 1))
    \<and> ((\<forall>url h p t v e. fst (lk_post k url h p t v) \<noteq> Llm_timeout e) \<longrightarrow> posts v' \<le> Suc (posts v))
    \<and> (lr_ok r \<longrightarrow> (\<exists>url h p t w data ms. fst (lk_post k url h p t w) = Llm_answer data ms
          \<and> extract_message_content data = Some (lr_content r)))"
proof (cases "lc_enabled (lk_config k)")
  case True
  then have "llm_attempts k (chat_payload (lk_config k) messages) (nat (max 1 (lc_max_retries (lk_config k) + 1))) [] v = (r, v')"
    using assms(2) by (simp add: llm_complete_def Let_def)
  from llm_attempts_posts[OF assms(1) this] show ?thesis by blast
qed (use assms(2) in \<open>auto simp: llm_complete_def llm_skipped_def Let_def\<close>)

section \<open>The report\<close>

lemma text_or_else_nonempty: "text_or_else a b \<noteq> [] \<longleftrightarrow> a \<noteq> [] \<or> b \<noteq> []"
  by (simp add: text_or_else_def)

lemma parsed_conclusion_valid:
  assumes "\<And>c. fallback = Some c \<Longrightarrow> valid_root_cause_conclusion c"
  shows "valid_root_cause_conclusion (root_cause_from_parsed parsed fallback)"
  using assms by (auto simp: valid_root_cause_conclusion_def root_cause_from_parsed_def Let_def
      coerce_confidence_def text_or_else_nonempty split: option.splits)

definition report_ok :: "string \<Rightarrow> string \<Rightarrow> dated_pack \<Rightarrow> case_report \<Rightarrow> bool" where
  "report_ok case_id title pack report \<longleftrightarrow>
     cp_case_id report = case_id \<and> cp_title report = title \<and> cp_summary report \<noteq> []
     \<and> cp_evidence_item_ids report = item_ids pack
     \<and> (\<exists>c. cp_root_cause report = Some c \<and> valid_root_cause_conclusion c)"

lemma parsed_conclusion_Some:
  "valid_root_cause_conclusion c \<Longrightarrow> valid_root_cause_conclusion (root_cause_from_parsed parsed (Some c))"
  by (rule parsed_conclusion_valid) simp

lemma apply_llm_keeps_ok:
  assumes "report_ok case_id title pack report"
  shows "report_ok case_id title pack (apply_llm_result json_loads report r)"
  using assms
  by (auto simp: report_ok_def apply_llm_result_def Let_def text_or_else_nonempty parsed_conclusion_Some
      split: option.split list.split)

lemma rule_report_ok:
  assumes "case_id \<noteq> []" "title \<noteq> []" "valid_root_cause_conclusion (ra_conclusion a)"
  shows "\<exists>report. rule_report kx case_id title pack service a = Inr report \<and> report_ok case_id title pack report"
  using assms by (simp add: rule_report_def report_ok_def Let_def text_or_else_nonempty)

lemma analyze_alone_valid:
  assumes "\<forall>x. rc_texts cx x \<noteq> []"
  shows "\<exists>a. analyze cx None mx pack s = (Inr a, s) \<and> valid_root_cause_conclusion (ra_conclusion a)"
proof (cases "dp_items pack = []")
  case False
  obtain a where a: "analyze cx None mx pack s = (Inr a, s)"
    using rounds_alone_answer[of cx "nat (max 1 mx)" "nat (max 1 mx) - 1" 1 "[]" pack s] False
    by (auto simp: analyze_def Let_def seq_def give_def)
  show ?thesis
  proof (rule analyze_Inr[OF a False])
    fix r m final prior
    assume r: "r = run_round cx (nat (max 1 mx)) m prior final"
      and c: "ra_conclusion a = build_conclusion (rc_texts cx) r final"
    have "rr_hypotheses r \<noteq> []" "rr_validations r = validate_all (rc_texts cx) (rr_hypotheses r) final"
      unfolding r using generate_nonempty by (simp_all add: run_round_def Let_def)
    then show ?thesis using a c conclusion_valid[OF assms] by metis
  qed
qed (use assms in \<open>simp add: analyze_def give_def empty_result_def valid_root_cause_conclusion_def\<close>)


section \<open>A concrete report\<close>

text \<open>A gateway that has the log tool, and a model that times out once and then answers.\<close>

definition log_handler :: "nat handler" where
  "log_handler args w = (Inr [(''query_key'', PStr ''q'')], Suc w)"

definition log_gateway :: "nat mcp_gateway" where
  "log_gateway =
     \<lparr>mg_registry = \<lparr>tg_specs = [(log_tool, demo_spec\<lparr>ts_name := log_tool, ts_permission_level := Perm_READ\<rparr>)],
                    tg_handlers = [(log_tool, log_handler)]\<rparr>,
      mg_policy = \<lparr>pg_deny_write = False, pg_require_approval_for_write = True\<rparr>,
      mg_approvals = None, mg_audit = [], mg_client = None, mg_world = 0\<rparr>"

definition demo_post :: "string \<Rightarrow> pydict \<Rightarrow> pydict \<Rightarrow> rat \<Rightarrow> nat \<Rightarrow> llm_outcome \<times> nat" where
  "demo_post url h p t v =
     (if v = 0 then Llm_timeout ''late''
      else Llm_answer (PDict [(''choices'', PList [PDict [(''message'', PDict [(''content'', PStr ''A full disk.'')])]])]) 7,
      Suc v)"

definition demo_client :: "nat llm_client" where
  "demo_client =
     \<lparr>lk_config = \<lparr>lc_base_url = ''https://llm'', lc_api_key = ''k'', lc_model = ''m'', lc_provider_name = ''p'',
        lc_timeout_seconds = 180, lc_temperature = 1 / 5, lc_max_evidence_items = 8, lc_enabled = True, lc_max_retries = 1\<rparr>,
      lk_post = demo_post, lk_read_error = (\<lambda>_. ''error'')\<rparr>"

definition demo_report_ctx :: "nat report_ctx" where
  "demo_report_ctx =
     \<lparr>kx_rca = demo_rca, kx_json_loads = no_json, kx_json_dumps = (\<lambda>_. ''{}''), kx_time_text = (\<lambda>_. ''t''), kx_now = 0,
      kx_say = demo_line, kx_system_prompt = ''system'',
      kx_settings = \<lparr>ls_enabled = False, ls_base_url = [], ls_api_key = [], ls_model = [], ls_provider_name = [],
        ls_timeout_seconds = 180, ls_temperature = 0, ls_max_evidence_items = 8\<rparr>,
      kx_expansion_enabled = True, kx_client = demo_client\<rparr>"

definition demo_expander :: expander_ctx where
  "demo_expander =
     \<lparr>ec_case_id = ''case-1'', ec_trace_id = [], ec_service_name = None, ec_skill_name = ''default-log-triage'',
      ec_invoke = (\<lambda>_. demo_inputs),
      ec_log_result = (\<lambda>_. Inr \<lparr>lq_query_key = ''q'', lq_record_count = 0, lq_truncated = False, lq_metadata = []\<rparr>),
      ec_fresh_item = (\<lambda>n. ''ev-log-'' @ nat_str n), ec_time = int\<rparr>"

definition demo_world :: "(nat, nat) report_world" where
  "demo_world = \<lparr>rw_gateway = log_gateway, rw_fetched = False, rw_llm = 0\<rparr>"

definition demo_report :: "expander_ctx option \<Rightarrow> (nat, nat) report_world \<Rightarrow> case_report res \<times> (nat, nat) report_world" where
  "demo_report ec = build_case_report demo_report_ctx ec (Some demo_client) ''case-1'' ''Disk'' ''trace-1'' ''shop'' thin_pack"

lemma demo_fetches:
  "map ae_target (mg_audit (rw_gateway (snd (demo_report (Some demo_expander) demo_world)))) = [log_tool]"
  by code_simp

theorem report_fetches_logs_once_witness:
  "length (mg_audit (rw_gateway (snd (demo_report (Some demo_expander) demo_world)))) = 1"
proof -
  have "\<exists>events. mg_audit (rw_gateway (snd (demo_report (Some demo_expander) demo_world))) = mg_audit (rw_gateway demo_world) @ events
      \<and> length events \<le> 1 \<and> (\<forall>e \<in> set events. ae_target e = ''log.query_by_trace_id'')"
    unfolding demo_report_def by (rule report_fetches_logs_once[OF surjective_pairing])
  moreover have "mg_audit (rw_gateway demo_world) = []" by (simp add: demo_world_def log_gateway_def)
  ultimately show ?thesis using arg_cong[OF demo_fetches, of length] by auto
qed

theorem llm_asked_within_limit_witness:
  "snd (llm_complete demo_client (PList []) 0) \<le> 2 \<and> lr_content (fst (llm_complete demo_client (PList []) 0)) = ''A full disk.''"
proof -
  have "counts_posts demo_client id" by (simp add: counts_posts_def demo_client_def demo_post_def)
  from llm_asked_within_limit[OF this surjective_pairing, of "PList []" 0]
  have "snd (llm_complete demo_client (PList []) 0) \<le> 2" by (simp add: demo_client_def)
  moreover have "lr_content (fst (llm_complete demo_client (PList []) 0)) = ''A full disk.''" by code_simp
  ultimately show ?thesis by blast
qed


text \<open>
  The hypotheses a report shows may rest on items the engine derived, which are in no pack that is stored: the
  report of a single item cites two.
\<close>

theorem report_cites_unstored_evidence:
  "map_sum id (\<lambda>r. (cp_evidence_item_ids r, py_get (cp_metadata r) ''hypotheses'')) (fst (demo_report None demo_world))
    = Inr ([''a''], PList [PDict [(''hypothesis_id'', PStr ''hyp-3-0''), (''statement'', PStr ''Caused by sls''),
        (''status'', PStr ''open''),
        (''evidence_item_ids'', PList [PStr ''a'', PStr ''ev-derived-1''])]])"
  by code_simp

end
