(* ===== verification/Spec2Isabelle.thy ===== *)
theory Spec2Isabelle
  imports CronScheduler GatewayBridge TaskFacts ApiRoutes AdminAuth GatewayMethodFacts
    NotifyRender NotifyFacts CaseReportFacts
begin

text \<open>
  A verification development of RootSeeker, a service that analyses incidents: it takes an alarm
  as a case, chooses a playbook, lets a language model plan calls of tools, runs the plan through
  a gateway that guards and audits every call, and stores the case with its evidence and report.
  Python modules are named by their path under \<open>src/rootseeker/\<close>.

  \<^bold>\<open>The parts and their theories.\<close>

  \<^item> \<open>Prelude\<close>: Python values (\<open>pyval\<close>, with dictionaries as association lists in insertion order),
    their truth value, text and conversions, strings, exceptions (\<open>pyerr\<close>; a call that may raise
    returns \<open>'a res\<close>, \<open>Inl\<close> the exception), and times in microseconds.
  \<^item> \<open>Contracts\<close>: the records and enumerations of \<open>contracts/\<close> and the state machine of cases and
    steps (\<open>contracts/state_machine.py\<close>). \<open>Stores\<close>: the in-memory stores and the audit log
    (\<open>storage/memory.py\<close>, \<open>observability/audit.py\<close>, \<open>task_runtime/\<close>, \<open>flow_runtime/checkpoint.py\<close>).
  \<^item> \<open>Approval\<close>, \<open>ToolPlane\<close>: approvals (\<open>policies/approval.py\<close>), the tool registry, the policy guard and
    the gateway that runs a tool call (\<open>mcp_plane/\<close>). \<open>McpManager\<close>: the external tool servers, their
    sessions and their environment (\<open>mcp_plane/server_manager.py\<close>).
  \<^item> \<open>ToolPlan\<close>, \<open>ToolCallLoop\<close>, \<open>WaveRunner\<close>, \<open>AttemptRunner\<close>, \<open>ResultSanitize\<close>: a planned attempt
    (\<open>agent_runtime/\<close>, \<open>skill_runtime/result_sanitize.py\<close>): parsing a plan, running its steps in waves
    behind their dependencies, settling the case. \<open>WaveFacts\<close>, \<open>AttemptFacts\<close>, \<open>PlanExecution\<close> prove
    what such a run does; \<open>PlanExamples\<close> holds concrete runs.
  \<^item> \<open>SkillSystem\<close>, \<open>Playbook\<close>, \<open>SkillEnv\<close>: skills, the playbook a case runs with, and its environment
    (\<open>skill_system/\<close>). \<open>AgentLoop\<close>, \<open>AgentRuns\<close>: whole attempts and runs (\<open>agent_runtime/run_loop.py\<close>).
  \<^item> \<open>CronSchedule\<close>, \<open>CronScheduler\<close>: schedules, and the scheduler's tick (\<open>cron/\<close>).
  \<^item> \<open>GatewayAuth\<close>, \<open>GatewaySubs\<close>, \<open>GatewayServer\<close>, \<open>GatewayFacts\<close>, \<open>GatewayRuns\<close>, \<open>GatewayBridge\<close>: the control
    plane (\<open>gateway/\<close>): tokens and rate limits, subscriptions, requests and broadcasts, and the
    WebSocket sessions. \<open>GatewayMethods\<close>, \<open>GatewayMethodFacts\<close>: the methods it offers on approvals,
    cases, flows, skills, presence and tools (\<open>gateway/methods/\<close>), on the runtime of \<open>Runtime\<close>.
  \<^item> \<open>LogText\<close>, \<open>Inbound\<close>: an alarm on its way in (\<open>analysis/log_text.py\<close>, \<open>analysis/service_identity.py\<close>,
    \<open>channel_routing/\<close>): the checks of its sender, its normalized form, the case request made of it, and
    where the answer goes.
  \<^item> \<open>Runtime\<close>, \<open>RuntimeFacts\<close>: the runtime that runs cases and tells its subscribers (\<open>bootstrap/runtime.py\<close>,
    \<open>infra_core/event_bus.py\<close>, \<open>infra_core/system_presence.py\<close>), the flow runtime with its traces and
    checkpoints (\<open>flow_runtime/\<close>). \<open>ApiRoutes\<close>: the routes of \<open>apps/api/main.py\<close> that run a case.
  \<^item> \<open>Evaluation\<close>: metrics, the quality gate and the decision to deploy (\<open>evaluation/\<close>,
    \<open>governance/deployment_policy.py\<close>). \<open>Replay\<close>, \<open>ReplayFacts\<close>: the replay store, the suite and the
    benchmark (\<open>replay/\<close>). \<open>TaskRun\<close>, \<open>TaskFacts\<close>: tasks and their execution (\<open>task_runtime/\<close>).
  \<^item> \<open>AdminUsers\<close>, \<open>AdminAuth\<close>: the users of the administration, their sessions, the middleware and the routes
    of sign-in (\<open>apps/admin/\<close> beside \<open>src/rootseeker/\<close>).
  \<^item> \<open>NotifyStores\<close>, \<open>NotifyStoreFacts\<close>: the stores of notification channels and message templates (\<open>storage/\<close>).
    \<open>NotifyDispatch\<close>, \<open>NotifyRender\<close>, \<open>NotifyFacts\<close>: the rendering of a message, the adapters of the channels
    and the broadcast (\<open>channel_routing/\<close>).
  \<^item> \<open>RootCause\<close>, \<open>RootCauseFacts\<close>: the rule engine that looks for a root cause. \<open>StackTrace\<close>: the frames, files and
    exceptions of a trace. \<open>CaseReport\<close>, \<open>CaseReportFacts\<close>: the report, the logs fetched for it and the language
    model that rewrites it (\<open>analysis/\<close>).

  \<^bold>\<open>How they interact.\<close> A run (\<open>agent_run\<close>) makes attempts (\<open>run_once\<close>); an attempt resolves a playbook,
  overlays the environment of the tool servers, asks the planner, and runs the plan (\<open>run_planned\<close>),
  whose steps call tools through \<open>gateway_invoke\<close>, which asks the policy guard and the approval store
  and writes the audit log. An alarm becomes a case request (\<open>webhook_payload_to_case_create\<close>), which the
  runtime runs (\<open>run_flow_from_case_request\<close>); a task runs a case or a replay suite
  (\<open>task_execute\<close>, \<open>run_suite\<close>), whose metrics the gate judges before a release
  (\<open>deployment_evaluate\<close>). The state each part keeps is a record, returned updated; a computation that
  may raise and still has changed its state is an \<open>eff\<close> of \<open>Prelude\<close>: it returns the exception or the
  value, and the state in either case.

  \<^bold>\<open>Interfaces.\<close> The locales state what a client relies on, and each is interpreted on the model:
  keyed stores (\<open>Stores\<close>), an audited invoker (\<open>ToolPlane\<close>, \<open>PlanExecution\<close>), a subscription book
  (\<open>GatewaySubs\<close>), the presence registry as a keyed store (\<open>Runtime\<close>), a directory of users, on which the
  sign-in relies and which the stores in memory and over SQLite provide (\<open>AdminUsers\<close>), a directory of
  channels, which the stores in a file and over SQLite provide (\<open>NotifyStoreFacts\<close>), an expander that fetches
  at most once (\<open>CaseReportFacts\<close>), and a runtime whose
  answers report no tool results, on which a suite relies (\<open>ReplayFacts\<close>).

  \<^bold>\<open>What is shown.\<close> Safety of tool calls (permission, audit), the course of a plan (every step traced
  once after its dependencies, which steps run, the status of the case), the bounds of stored
  results, runs and their attempts, the scheduler (what runs when, recovery, retry delays), the
  gateway (access, consistency of its records, delivery, rate limits, tokens), and the choice of
  skills, playbooks and their environment; the well-formedness of the requests made of alarms, the
  equivalence of the default flow with the agent's and of the webhook route with the runtime's own
  reading of an alarm, the checkpoints of flows, the final state of every executed task, and what a
  replay suite, its gate and a release depend on; which requests reach the tools through the gateway, and
  which reach a private page of the administration; what a message template means, and what a broadcast
  sends to which channels; how the hypotheses of a case share its evidence, and what its report
  guarantees whatever the language model answers. Theorems named after a defect show where the code does
  not do what it means to.

  \<^bold>\<open>Bounds.\<close> Loops are structural or come with a measure; no fuel is needed: the search for the next
  minute of a schedule is bounded by the number of minutes the code itself bounds it with, a run
  or an analysis by its number of attempts or rounds.

  \<^bold>\<open>Arguments of the model.\<close> The language model, the tools, cryptography, the time-zone database, the
  YAML and JSON parsers, files, fresh identifiers and the clock are arguments of the definitions; so is the
  order in which a set is listed.

  \<^bold>\<open>Not modelled.\<close> The HTTP applications (\<open>apps/\<close>) but for the routes that run a case and
  those of sign-in, the adapters of external services and the SQL
  stores, which only move data in and out; the code index and the search for callers
  (\<open>code_index/\<close>, \<open>analysis/find_callers.py\<close>, \<open>code_slice.py\<close>); locks, threads and the concurrent variant of the tool-call
  loop: the operations are atomic steps, and interleavings are stated as sequences of them. White
  space and case are those of the code points below 256, the characters of a \<open>string\<close>.
\<close>

end
